(* ===== verification/Prelude.thy ===== *)
theory Prelude
  imports Complex_Main "HOL-Library.AList" "HOL-Library.Char_ord" "HOL-Library.List_Lexorder"
begin

text \<open>
  The vocabulary the component theories share: Python values, dictionaries (association
  lists in insertion order), the string operations the sources use, exceptions and the
  exception-and-state combinators, and the collections of rewrite rules the proofs use.

  Conventions. A Python \<open>str\<close> is a \<open>string\<close> (the sources' keys, names and labels are
  ASCII). An \<open>int\<close> is \<open>int\<close> (or \<open>nat\<close> where the code only counts up from 0). A \<open>float\<close>
  is an exact \<open>rat\<close>: binary64 rounding, infinities and NaN are not modelled.
  Calls of the logger are not modelled, except that an argument of such a call is
  evaluated where its evaluation can raise.
\<close>

section \<open>Collections of rules\<close>

named_theorems py_simps \<open>definitions and characteristic equations unfolded by simp\<close>
named_theorems py_splits \<open>facts on Python dictionaries and strings\<close>

section \<open>Exceptions\<close>

text \<open>An exception instance: the name of its class and \<open>str(e)\<close>.\<close>

datatype exn = Exn (exn_type: string) (exn_msg: string)

text \<open>
  \<open>except Exception\<close> does not catch the classes that derive from \<open>BaseException\<close> only.
\<close>

definition is_Exception :: "exn \<Rightarrow> bool" where
  "is_Exception e =
     (exn_type e \<notin> {''CancelledError'', ''KeyboardInterrupt'', ''SystemExit'', ''GeneratorExit''})"

type_synonym 'a res = "exn + 'a"

section \<open>Computations with state and exceptions\<close>

text \<open>
  A computation takes the state and gives a result or an exception, and the new state;
  the state changes made before an exception stay, as in Python.
\<close>

type_synonym ('s, 'a) act = "'s \<Rightarrow> 'a res \<times> 's"

definition ret :: "'a \<Rightarrow> ('s, 'a) act" where
  [py_simps]: "ret x s = (Inr x, s)"

definition raise :: "exn \<Rightarrow> ('s, 'a) act" where
  [py_simps]: "raise e s = (Inl e, s)"

definition bindA :: "('s, 'a) act \<Rightarrow> ('a \<Rightarrow> ('s, 'b) act) \<Rightarrow> ('s, 'b) act" where
  [py_simps]: "bindA m f s = (case m s of (Inl e, t) \<Rightarrow> (Inl e, t) | (Inr x, t) \<Rightarrow> f x t)"

definition seqA :: "('s, 'a) act \<Rightarrow> ('s, 'b) act \<Rightarrow> ('s, 'b) act" where
  [py_simps]: "seqA m n s = (case m s of (Inl e, t) \<Rightarrow> (Inl e, t) | (Inr _, t) \<Rightarrow> n t)"

text \<open>\<open>try: m except Exception as e: h e\<close>.\<close>

definition tryA :: "('s, 'a) act \<Rightarrow> (exn \<Rightarrow> ('s, 'a) act) \<Rightarrow> ('s, 'a) act" where
  [py_simps]: "tryA m h s = (case m s of
       (Inl e, t) \<Rightarrow> if is_Exception e then h e t else (Inl e, t)
     | (Inr x, t) \<Rightarrow> (Inr x, t))"

definition modifyA :: "('s \<Rightarrow> 's) \<Rightarrow> ('s, unit) act" where
  [py_simps]: "modifyA f s = (Inr (), f s)"

definition liftR :: "'a res \<Rightarrow> ('s, 'a) act" where
  [py_simps]: "liftR r s = (r, s)"

lemma bindA_ret [simp]: "bindA (ret x) f = f x"
  by (simp add: fun_eq_iff py_simps)

lemma bindA_raise [simp]: "bindA (raise e) f = raise e"
  by (simp add: fun_eq_iff py_simps)

lemma bindA_assoc: "bindA (bindA m f) g = bindA m (\<lambda>x. bindA (f x) g)"
  by (auto simp: fun_eq_iff py_simps split: prod.splits sum.splits)

lemma tryA_ret [simp]: "tryA (ret x) h = ret x"
  by (simp add: fun_eq_iff py_simps)

section \<open>Python values\<close>

text \<open>
  The dynamically typed values the worker handles: what \<open>json.loads\<close> returns and what an
  AMQP header table holds. A \<open>dict\<close> is an association list in insertion order.
\<close>

datatype pyval =
    PNone
  | PBool bool
  | PInt int
  | PFloat rat
  | PStr string
  | PBytes string
  | PList "pyval list"
  | PTuple "pyval list"
  | PDict "(string \<times> pyval) list"

type_synonym dict = "(string \<times> pyval) list"

fun truthy :: "pyval \<Rightarrow> bool" where
  "truthy PNone = False"
| "truthy (PBool b) = b"
| "truthy (PInt i) = (i \<noteq> 0)"
| "truthy (PFloat r) = (r \<noteq> 0)"
| "truthy (PStr s) = (s \<noteq> [])"
| "truthy (PBytes s) = (s \<noteq> [])"
| "truthy (PList xs) = (xs \<noteq> [])"
| "truthy (PTuple xs) = (xs \<noteq> [])"
| "truthy (PDict d) = (d \<noteq> [])"

text \<open>\<open>a or b\<close> on values.\<close>

definition py_or :: "pyval \<Rightarrow> pyval \<Rightarrow> pyval" where
  [py_simps]: "py_or a b = (if truthy a then a else b)"

fun is_dict :: "pyval \<Rightarrow> bool" where
  "is_dict (PDict _) = True"
| "is_dict _ = False"

text \<open>\<open>d.get(k)\<close>: only a \<open>dict\<close> has the method.\<close>

definition dget :: "dict \<Rightarrow> string \<Rightarrow> pyval" where
  [py_simps]: "dget d k = (case map_of d k of None \<Rightarrow> PNone | Some v \<Rightarrow> v)"

text \<open>\<open>d.get(k, x)\<close>.\<close>

definition doc_or :: "dict \<Rightarrow> string \<Rightarrow> pyval \<Rightarrow> pyval" where
  "doc_or doc k x = (case map_of doc k of None \<Rightarrow> x | Some v \<Rightarrow> v)"

fun type_name :: "pyval \<Rightarrow> string" where
  "type_name PNone = ''NoneType''"
| "type_name (PBool _) = ''bool''"
| "type_name (PInt _) = ''int''"
| "type_name (PFloat _) = ''float''"
| "type_name (PStr _) = ''str''"
| "type_name (PBytes _) = ''bytes''"
| "type_name (PList _) = ''list''"
| "type_name (PTuple _) = ''tuple''"
| "type_name (PDict _) = ''dict''"

text \<open>What may be a key of a \<open>dict\<close> or an element of a \<open>set\<close>.\<close>

fun hashable :: "pyval \<Rightarrow> bool" where
  "hashable (PList xs) = False"
| "hashable (PDict d) = False"
| "hashable (PTuple xs) = list_all hashable xs"
| "hashable v = True"

abbreviation quote :: char where
  "quote \<equiv> CHR 0x27"

fun get_attr :: "pyval \<Rightarrow> string \<Rightarrow> pyval res" where
  "get_attr (PDict d) k = Inr (dget d k)"
| "get_attr v k =
     Inl (Exn ''AttributeError''
       ([quote] @ type_name v @ [quote] @ '' object has no attribute '' @ [quote] @ ''get'' @ [quote]))"

lemma get_attr_not_dict: "\<not> is_dict v \<Longrightarrow> \<exists>m. get_attr v k = Inl (Exn ''AttributeError'' m)"
  by (cases v) auto

lemma get_attr_dict: "is_dict v \<Longrightarrow> \<exists>w. get_attr v k = Inr w"
  by (cases v) auto

section \<open>Strings\<close>

definition str_startswith :: "string \<Rightarrow> string \<Rightarrow> bool" where
  "str_startswith s p = (take (length p) s = p)"

lemma str_startswith_append [simp]: "str_startswith (p @ s) p"
  by (simp add: str_startswith_def)

lemma str_startswith_iff: "str_startswith s p \<longleftrightarrow> (\<exists>r. s = p @ r)"
  by (metis append_eq_conv_conj str_startswith_def)

text \<open>\<open>sub in s\<close> on strings.\<close>

fun str_contains :: "string \<Rightarrow> string \<Rightarrow> bool" where
  "str_contains sub [] = (sub = [])"
| "str_contains sub (c # s) = (str_startswith (c # s) sub \<or> str_contains sub s)"

lemma str_contains_iff: "str_contains sub s \<longleftrightarrow> (\<exists>p r. s = p @ sub @ r)"
proof (induction s)
  case Nil
  then show ?case by auto
next
  case (Cons c s)
  show ?case
  proof
    assume "str_contains sub (c # s)"
    then consider "str_startswith (c # s) sub" | "str_contains sub s" by auto
    then show "\<exists>p r. c # s = p @ sub @ r"
    proof cases
      case 1
      then show ?thesis by (metis append_Nil str_startswith_iff)
    next
      case 2
      then show ?thesis using Cons.IH by (metis append_Cons)
    qed
  next
    assume "\<exists>p r. c # s = p @ sub @ r"
    then obtain p r where eq: "c # s = p @ sub @ r" by auto
    show "str_contains sub (c # s)"
    proof (cases p)
      case Nil
      with eq have "str_startswith (c # s) sub" by (metis append_Nil str_startswith_append)
      then show ?thesis by simp
    next
      case (Cons a p')
      with eq have "s = p' @ sub @ r" by simp
      then show ?thesis using Cons.IH by auto
    qed
  qed
qed

definition lower_char :: "char \<Rightarrow> char" where
  "lower_char c =
     (if 65 \<le> (of_char c :: nat) \<and> (of_char c :: nat) \<le> 90 then char_of ((of_char c :: nat) + 32) else c)"

definition str_lower :: "string \<Rightarrow> string" where
  "str_lower s = map lower_char s"

definition is_space :: "char \<Rightarrow> bool" where
  "is_space c = ((of_char c :: nat) \<in> {9, 10, 11, 12, 13, 28, 29, 30, 31, 32})"

definition str_strip :: "string \<Rightarrow> string" where
  "str_strip s = rev (dropWhile is_space (rev (dropWhile is_space s)))"

fun str_join :: "string \<Rightarrow> string list \<Rightarrow> string" where
  "str_join sep [] = []"
| "str_join sep [s] = s"
| "str_join sep (s # t # ss) = s @ sep @ str_join sep (t # ss)"

text \<open>\<open>s.split(sep, n)\<close> for a one-character separator: at most \<open>n\<close> splits.\<close>

fun str_split_n :: "char \<Rightarrow> nat \<Rightarrow> string \<Rightarrow> string \<Rightarrow> string list" where
  "str_split_n sep n acc [] = [rev acc]"
| "str_split_n sep n acc (c # s) =
     (if c = sep \<and> 0 < n then rev acc # str_split_n sep (n - 1) [] s
      else str_split_n sep n (c # acc) s)"

definition nl :: string where
  [py_simps]: "nl = [CHR 0x0A]"

definition bslash :: string where
  [py_simps]: "bslash = [CHR 0x5C]"

subsection \<open>Decimal text of integers\<close>

definition digit_char :: "nat \<Rightarrow> char" where
  "digit_char d = char_of (48 + d)"

fun str_of_nat :: "nat \<Rightarrow> string" where
  "str_of_nat n = (if n < 10 then [digit_char n] else str_of_nat (n div 10) @ [digit_char (n mod 10)])"

declare str_of_nat.simps [simp del]

definition str_of_int :: "int \<Rightarrow> string" where
  "str_of_int i = (if i < 0 then CHR ''-'' # str_of_nat (nat (- i)) else str_of_nat (nat i))"

definition is_digit :: "char \<Rightarrow> bool" where
  "is_digit c = (48 \<le> (of_char c :: nat) \<and> (of_char c :: nat) \<le> 57)"

text \<open>
  \<open>int(s)\<close>: blanks around the number, a sign, decimal digits with single underscores
  between digits. \<open>None\<close> is the \<open>ValueError\<close>.
\<close>

fun parse_digits :: "bool \<Rightarrow> nat \<Rightarrow> string \<Rightarrow> nat option" where
  "parse_digits after_digit acc [] = (if after_digit then Some acc else None)"
| "parse_digits after_digit acc (c # cs) =
     (if is_digit c then parse_digits True (10 * acc + (of_char c - 48)) cs
      else if c = CHR ''_'' \<and> after_digit then parse_digits False acc cs
      else None)"

fun parse_signed :: "string \<Rightarrow> int option" where
  "parse_signed [] = None"
| "parse_signed (c # cs) =
     (if c = CHR ''-'' then map_option (\<lambda>n. - int n) (parse_digits False 0 cs)
      else if c = CHR ''+'' then map_option int (parse_digits False 0 cs)
      else map_option int (parse_digits False 0 (c # cs)))"

definition int_of_str :: "string \<Rightarrow> int option" where
  "int_of_str s = parse_signed (str_strip s)"

lemma is_digit_digit_char: "d < 10 \<Longrightarrow> is_digit (digit_char d)"
  by (simp add: is_digit_def digit_char_def)

lemma of_char_digit_char: "d < 10 \<Longrightarrow> (of_char (digit_char d) :: nat) = 48 + d"
  by (simp add: digit_char_def)

lemma str_of_nat_nonempty: "str_of_nat n \<noteq> []"
  by (subst str_of_nat.simps) simp

lemma str_of_nat_digits: "c \<in> set (str_of_nat n) \<Longrightarrow> is_digit c"
proof (induction n rule: str_of_nat.induct)
  case (1 n)
  then show ?case
    by (cases "n < 10") (auto simp: str_of_nat.simps [of n] is_digit_digit_char)
qed

lemma parse_digits_append:
  assumes "\<forall>c \<in> set s. is_digit c" and "s \<noteq> []"
  shows "parse_digits b acc (s @ t) = parse_digits True (the (parse_digits b acc s)) t"
  using assms
proof (induction s arbitrary: b acc)
  case Nil
  then show ?case by simp
next
  case (Cons c s)
  then show ?case by (cases "s = []") auto
qed

lemma parse_digits_str_of_nat: "parse_digits b 0 (str_of_nat n) = Some n"
proof (induction n arbitrary: b rule: str_of_nat.induct)
  case (1 n)
  show ?case
  proof (cases "n < 10")
    case True
    then show ?thesis
      by (simp add: str_of_nat.simps [of n] is_digit_digit_char of_char_digit_char)
  next
    case False
    have "parse_digits b 0 (str_of_nat (n div 10) @ [digit_char (n mod 10)]) =
          parse_digits True (n div 10) [digit_char (n mod 10)]"
      using parse_digits_append [of "str_of_nat (n div 10)" b 0 "[digit_char (n mod 10)]"]
        "1.IH" [OF False, of b] str_of_nat_digits str_of_nat_nonempty by auto
    then show ?thesis
      using False by (simp add: str_of_nat.simps [of n] is_digit_digit_char of_char_digit_char)
  qed
qed

lemma is_digit_not_space: "is_digit c \<Longrightarrow> \<not> is_space c"
  by (auto simp: is_digit_def is_space_def)

lemma str_strip_id:
  assumes "s \<noteq> []" and "\<not> is_space (hd s)" and "\<not> is_space (last s)"
  shows "str_strip s = s"
proof -
  have "dropWhile is_space s = s"
    using assms(1,2) by (cases s) auto
  moreover have "dropWhile is_space (rev s) = rev s"
    using assms(1,3) by (cases "rev s") (auto simp: last_rev hd_rev dest: arg_cong [where f = hd])
  ultimately show ?thesis by (simp add: str_strip_def)
qed

lemma str_of_int_ends:
  "str_of_int i \<noteq> [] \<and> \<not> is_space (hd (str_of_int i)) \<and> \<not> is_space (last (str_of_int i))"
proof -
  have "\<not> is_space (hd (str_of_nat n)) \<and> \<not> is_space (last (str_of_nat n))" for n
    using str_of_nat_digits str_of_nat_nonempty is_digit_not_space
    by (metis hd_in_set last_in_set)
  then show ?thesis
    using str_of_nat_nonempty by (auto simp: str_of_int_def is_space_def)
qed

lemma parse_signed_digits:
  assumes "s \<noteq> []" and "\<forall>c \<in> set s. is_digit c"
  shows "parse_signed s = map_option int (parse_digits False 0 s)"
  using assms by (cases s) (auto simp: is_digit_def)

text \<open>Printing an integer and reading it back gives the integer.\<close>

lemma int_of_str_of_int [simp]: "int_of_str (str_of_int i) = Some i"
proof -
  have "str_strip (str_of_int i) = str_of_int i"
    using str_of_int_ends by (intro str_strip_id) auto
  moreover have "parse_signed (str_of_int i) = Some i"
  proof (cases "i < 0")
    case True
    then show ?thesis by (simp add: str_of_int_def parse_digits_str_of_nat)
  next
    case False
    have "parse_signed (str_of_nat (nat i)) = Some i"
      using False str_of_nat_digits str_of_nat_nonempty
      by (subst parse_signed_digits) (auto simp: parse_digits_str_of_nat)
    with False show ?thesis by (simp add: str_of_int_def)
  qed
  ultimately show ?thesis by (simp add: int_of_str_def)
qed

lemma str_of_int_inject [simp]: "str_of_int i = str_of_int j \<longleftrightarrow> i = j"
  by (metis int_of_str_of_int option.inject)

section \<open>Dictionaries\<close>

text \<open>
  \<open>d[k] = v\<close> is \<open>AList.update k v d\<close> (in place, or at the end for a new key), \<open>del d[k]\<close>
  is \<open>AList.delete k d\<close>, \<open>d.get(k)\<close> is \<open>map_of d k\<close>.
\<close>

abbreviation keys :: "('k \<times> 'v) list \<Rightarrow> 'k list" where
  "keys d \<equiv> map fst d"

definition wf_dict :: "('k \<times> 'v) list \<Rightarrow> bool" where
  "wf_dict d = distinct (keys d)"

lemma wf_dict_Nil [simp]: "wf_dict []"
  by (simp add: wf_dict_def)

lemma wf_dict_update [simp, intro]: "wf_dict d \<Longrightarrow> wf_dict (AList.update k v d)"
  by (simp add: wf_dict_def distinct_update)

lemma wf_dict_delete [simp, intro]: "wf_dict d \<Longrightarrow> wf_dict (AList.delete k d)"
  by (simp add: wf_dict_def distinct_delete)

lemma map_of_update [simp]:
  "map_of (AList.update k v d) k' = (if k' = k then Some v else map_of d k')"
  by (simp add: update_conv')

lemma map_of_delete [simp]:
  "map_of (AList.delete k d) k' = (if k' = k then None else map_of d k')"
  by (simp add: delete_conv')

lemma set_update_subset: "set (AList.update k v d) \<subseteq> insert (k, v) (set d)"
  by (induction d) auto

lemma keys_update: "keys (AList.update k v d) = (if k \<in> set (keys d) then keys d else keys d @ [k])"
  by (simp add: update_keys)

lemma keys_delete: "keys (AList.delete k d) = filter (\<lambda>k'. k' \<noteq> k) (keys d)"
  by (induction d) auto

lemma length_update_new: "k \<notin> set (keys d) \<Longrightarrow> length (AList.update k v d) = Suc (length d)"
  using keys_update [of k v d] by (metis length_append_singleton length_map)

lemma length_update_old: "k \<in> set (keys d) \<Longrightarrow> length (AList.update k v d) = length d"
  using keys_update [of k v d] by (metis length_map)

lemma map_of_None_keys: "map_of d k = None \<longleftrightarrow> k \<notin> set (keys d)"
  by (simp add: map_of_eq_None_iff)

end
