(* ===== verification/Retry_Tiers.thy ===== *)
theory Retry_Tiers
  imports Prelude
begin

text \<open>
  \<open>src/worker/retry.py\<close>: the number of retries a message has already taken, read from the
  \<open>x-death\<close> header RabbitMQ keeps, and the retry tier that number selects. The two are the
  pure core of the failure routing of the consumer (ADR-008.1).
\<close>

section \<open>Tiers\<close>

definition RETRY_TIERS :: "string list" where
  "RETRY_TIERS = [''5s'', ''30s'', ''2m'']"

definition MAX_RETRIES :: int where
  "MAX_RETRIES = int (length RETRY_TIERS)"

lemma MAX_RETRIES_3 [simp]: "MAX_RETRIES = 3"
  by (simp add: MAX_RETRIES_def RETRY_TIERS_def)

definition select_tier :: "int \<Rightarrow> string option" where
  "select_tier dc =
     (let dc = (if dc < 0 then 0 else dc)
      in if dc \<ge> MAX_RETRIES then None else Some (RETRY_TIERS ! nat dc))"

section \<open>Counting deaths\<close>

text \<open>
  \<open>int(count)\<close> of a header value: \<open>None\<close> where it raises \<open>TypeError\<close> or \<open>ValueError\<close>.
  A float is truncated towards zero.
\<close>

definition truncate_rat :: "rat \<Rightarrow> int" where
  "truncate_rat r = (if r < 0 then - \<lfloor>- r\<rfloor> else \<lfloor>r\<rfloor>)"

fun py_int :: "pyval \<Rightarrow> int option" where
  "py_int (PInt i) = Some i"
| "py_int (PBool b) = Some (if b then 1 else 0)"
| "py_int (PFloat r) = Some (truncate_rat r)"
| "py_int (PStr s) = int_of_str s"
| "py_int (PBytes s) = int_of_str s"
| "py_int _ = None"

text \<open>
  The queue of an entry, bytes decoded (an ASCII byte decodes to itself, and only the
  ASCII prefix is compared): \<open>None\<close> for a value that is neither \<open>bytes\<close> nor \<open>str\<close>.
\<close>

fun queue_text :: "pyval option \<Rightarrow> string option" where
  "queue_text (Some (PBytes q)) = Some q"
| "queue_text (Some (PStr q)) = Some q"
| "queue_text _ = None"

text \<open>What one \<open>x-death\<close> entry adds to the total; 0 is the loop's \<open>continue\<close>.\<close>

fun entry_count :: "string \<Rightarrow> pyval \<Rightarrow> int" where
  "entry_count prefix (PDict e) =
     (case queue_text (map_of e ''queue'') of
        None \<Rightarrow> 0
      | Some q \<Rightarrow>
          if \<not> str_startswith q prefix then 0
          else (case py_int (case map_of e ''count'' of None \<Rightarrow> PInt 0 | Some c \<Rightarrow> c) of
                  None \<Rightarrow> 0
                | Some i \<Rightarrow> i))"
| "entry_count prefix _ = 0"

definition x_death_entries :: "dict option \<Rightarrow> pyval list" where
  "x_death_entries headers =
     (case headers of
        None \<Rightarrow> []
      | Some h \<Rightarrow> (case map_of h ''x-death'' of
            Some (PList xs) \<Rightarrow> xs
          | Some (PTuple xs) \<Rightarrow> xs
          | _ \<Rightarrow> []))"

definition death_count :: "dict option \<Rightarrow> string \<Rightarrow> int" where
  "death_count headers prefix =
     fold (\<lambda>entry total. total + entry_count prefix entry) (x_death_entries headers) 0"

section \<open>Facts\<close>

lemma select_tier_eq:
  "select_tier n =
     (if n \<le> 0 then Some ''5s'' else if n = 1 then Some ''30s'' else if n = 2 then Some ''2m'' else None)"
proof -
  have "n < 3 \<Longrightarrow> 0 \<le> n \<Longrightarrow> n = 0 \<or> n = 1 \<or> n = 2" by arith
  then show ?thesis
    by (cases "n < 0"; cases "n < 3") (auto simp: select_tier_def Let_def RETRY_TIERS_def)
qed

lemma select_tier_None_iff [simp]: "select_tier n = None \<longleftrightarrow> 3 \<le> n"
  by (simp add: select_tier_eq)

lemma select_tier_in_tiers: "select_tier n = Some t \<Longrightarrow> t \<in> set RETRY_TIERS"
  by (auto simp: select_tier_eq RETRY_TIERS_def split: if_splits)

lemma fold_add_sum:
  fixes f :: "'a \<Rightarrow> int"
  shows "fold (\<lambda>x total. total + f x) xs a = a + sum_list (map f xs)"
  by (induction xs arbitrary: a) auto

lemma death_count_sum:
  "death_count headers prefix = sum_list (map (entry_count prefix) (x_death_entries headers))"
  by (simp add: death_count_def fold_add_sum)

lemma death_count_no_headers [simp]: "death_count None prefix = 0" "death_count (Some []) prefix = 0"
  by (simp_all add: death_count_def x_death_entries_def)

lemma entry_count_other_queue:
  "queue_text (map_of e ''queue'') = Some q \<Longrightarrow> \<not> str_startswith q prefix \<Longrightarrow>
   entry_count prefix (PDict e) = 0"
  by simp

text \<open>
  A pass through a wait queue, as the header table shows it: one entry's count goes up by
  one, or an entry with count 1 appears. In both cases the total goes up by one.
\<close>

lemma death_count_new_entry:
  assumes "map_of h ''x-death'' = Some (PList xs)" and "str_startswith q prefix"
    and "map_of e ''queue'' = Some (PStr q)" and "map_of e ''count'' = Some (PInt 1)"
  shows "death_count (Some (AList.update ''x-death'' (PList (PDict e # xs)) h)) prefix =
         death_count (Some h) prefix + 1"
  using assms by (simp add: death_count_sum x_death_entries_def)

lemma death_count_bump_entry:
  assumes "map_of h ''x-death'' = Some (PList (xs @ PDict e # ys))" and "str_startswith q prefix"
    and "map_of e ''queue'' = Some (PStr q)" and "map_of e ''count'' = Some (PInt c)"
  shows "death_count (Some (AList.update ''x-death''
           (PList (xs @ PDict (AList.update ''count'' (PInt (c + 1)) e) # ys)) h)) prefix =
         death_count (Some h) prefix + 1"
  using assms by (simp add: death_count_sum x_death_entries_def)

end
