(* ===== verification/Idempotency.thy ===== *)
theory Idempotency
  imports Prelude
begin

text \<open>
  \<open>src/worker/idempotency.py\<close>: the dedupe keys, the guard interface (\<open>Guard.begin\<close>), the
  in-process guard, the Redis guard over a client that is a parameter (the redis library is
  not part of the repository), and the selection between the two. The locale \<open>guard\<close> is the
  contract the consumer relies on; the in-process guard interprets it, and the Redis guard
  satisfies it for every client that implements \<open>SET key 1 NX EX ttl\<close>.
\<close>

section \<open>Keys\<close>

definition DEFAULT_TTL_SECONDS :: int where
  "DEFAULT_TTL_SECONDS = 24 * 60 * 60"

definition key_for :: "string \<Rightarrow> string \<Rightarrow> string" where
  "key_for queue envelope_id = ''idem:'' @ queue @ '':'' @ envelope_id"

definition key_for_attempt :: "string \<Rightarrow> string \<Rightarrow> int \<Rightarrow> string" where
  "key_for_attempt queue envelope_id attempt =
     key_for queue envelope_id @ '':'' @ str_of_int attempt"

lemma append_sep_inject:
  assumes "c \<notin> set b" and "c \<notin> set b'"
  shows "a @ c # b = a' @ c # b' \<longleftrightarrow> a = a' \<and> b = b'"
proof
  assume eq: "a @ c # b = a' @ c # b'"
  have "takeWhile (\<lambda>x. x \<noteq> c) (rev (a @ c # b)) = rev b" 
    "takeWhile (\<lambda>x. x \<noteq> c) (rev (a' @ c # b')) = rev b'"
    using assms by (simp_all add: takeWhile_append)
  with eq have "b = b'" by simp
  with eq show "a = a' \<and> b = b'" by simp
qed simp

lemma colon_not_in_int: "CHR '':'' \<notin> set (str_of_int i)"
proof
  assume "CHR '':'' \<in> set (str_of_int i)"
  then have "\<exists>n. CHR '':'' \<in> set (str_of_nat n)"
    by (auto simp: str_of_int_def split: if_splits)
  then have "is_digit (CHR '':'')"
    using str_of_nat_digits by blast
  then show False by (simp add: is_digit_def)
qed

text \<open>Two deliveries of one queue share a key exactly when they agree on id and attempt.\<close>

lemma key_for_attempt_inject:
  "key_for_attempt q i a = key_for_attempt q j b \<longleftrightarrow> i = j \<and> a = b"
proof -
  have "key_for_attempt q x c = (''idem:'' @ q @ '':'' @ x) @ CHR '':'' # str_of_int c" for x c
    by (simp add: key_for_attempt_def key_for_def)
  then show ?thesis
    using append_sep_inject [OF colon_not_in_int colon_not_in_int] by auto
qed

text \<open>A run of calls, each with its time, key and time to live: the results in order.\<close>

fun run_calls :: "(rat \<Rightarrow> string \<Rightarrow> int \<Rightarrow> ('g, bool) act) \<Rightarrow> (rat \<times> string \<times> int) list \<Rightarrow> 'g
    \<Rightarrow> bool res list \<times> 'g" where
  "run_calls f [] g = ([], g)"
| "run_calls f ((t, k, ttl) # cs) g =
     (case f t k ttl g of (r, g') \<Rightarrow>
        (case run_calls f cs g' of (rs, g'') \<Rightarrow> (r # rs, g'')))"

section \<open>The guard interface\<close>

text \<open>
  \<open>begin_op now key ttl\<close> is the call \<open>begin(key, ttl)\<close> made at time \<open>now\<close>; it may raise.
  \<open>held g key t\<close> says that the store still holds the key at time \<open>t\<close>. The laws: a call that
  returns tells whether the key was free, and takes it for \<open>ttl\<close> seconds if it was; a call
  that raises gives no key back. Neither touches another key.
\<close>

locale guard =
  fixes begin_op :: "rat \<Rightarrow> string \<Rightarrow> int \<Rightarrow> ('g, bool) act"
    and held :: "'g \<Rightarrow> string \<Rightarrow> rat \<Rightarrow> bool"
  assumes begin_result: "begin_op now k ttl g = (Inr b, g') \<Longrightarrow> b = (\<not> held g k now)"
    and begin_takes: "begin_op now k ttl g = (Inr True, g') \<Longrightarrow> held g' k t = (t < now + of_int ttl)"
    and begin_refuses: "begin_op now k ttl g = (Inr False, g') \<Longrightarrow> held g' k t = held g k t"
    and begin_frame: "begin_op now k ttl g = (Inr b, g') \<Longrightarrow> k' \<noteq> k \<Longrightarrow> held g' k' t = held g k' t"
    and begin_raise: "begin_op now k ttl g = (Inl e, g') \<Longrightarrow> held g k' t \<Longrightarrow> held g' k' t"
begin

text \<open>A call at a time when the key is held never gives the key up before its expiry.\<close>

lemma held_mono:
  assumes "begin_op now k ttl g = (r, g')" and "held g k' t" and "held g k' now"
  shows "held g' k' t"
proof (cases r)
  case (Inl e)
  with assms begin_raise show ?thesis by blast
next
  case (Inr b)
  show ?thesis
  proof (cases "k' = k")
    case True
    with assms Inr have "b = False" using begin_result by blast
    with True Inr assms begin_refuses show ?thesis by blast
  next
    case False
    with assms Inr begin_frame show ?thesis by blast
  qed
qed

lemma run_calls_refuses:
  assumes "\<forall>t < e. held g k t" and "\<forall>c \<in> set cs. fst c < e"
    and "run_calls begin_op cs g = (rs, g')" and "i < length cs" and "fst (snd (cs ! i)) = k"
  shows "rs ! i \<noteq> Inr True"
  using assms
proof (induction cs arbitrary: g rs i)
  case Nil
  then show ?case by simp
next
  case (Cons c cs)
  obtain t k1 ttl where c: "c = (t, k1, ttl)" by (cases c)
  obtain r g1 where step: "begin_op t k1 ttl g = (r, g1)" by fastforce
  obtain rs1 g2 where rest: "run_calls begin_op cs g1 = (rs1, g2)" by fastforce
  from Cons.prems(3) c step rest have rs: "rs = r # rs1" by simp
  from Cons.prems(2) c have t: "t < e" by simp
  show ?case
  proof (cases i)
    case 0
    with Cons.prems c have "k1 = k" by simp
    moreover have "held g k t" using Cons.prems(1) t by blast
    ultimately have "r \<noteq> Inr True" using step begin_result by blast
    with 0 rs show ?thesis by simp
  next
    case (Suc j)
    have "\<forall>t' < e. held g1 k t'"
      using Cons.prems(1) t held_mono [OF step] by blast
    moreover from c step rest Cons.prems(3) have "run_calls begin_op cs g1 = (rs1, g')" by simp
    ultimately have "rs1 ! j \<noteq> Inr True"
      using Cons.IH [of g1 rs1 j] Cons.prems(2,4,5) Suc by auto
    with Suc rs show ?thesis by simp
  qed
qed

text \<open>
  Of all calls on one key inside the window of a granted call, none is granted again,
  whatever calls on other keys come between.
\<close>

lemma granted_once:
  assumes "begin_op now k ttl g = (Inr True, g1)" and "\<forall>c \<in> set cs. fst c < now + of_int ttl"
    and "run_calls begin_op cs g1 = (rs, g2)" and "i < length cs" and "fst (snd (cs ! i)) = k"
  shows "rs ! i \<noteq> Inr True"
  using run_calls_refuses [of "now + of_int ttl" g1 k cs rs g2 i] assms begin_takes [OF assms(1)]
  by blast

end

section \<open>The in-process guard\<close>

type_synonym seen = "(string \<times> rat) list"

definition in_memory_begin :: "rat \<Rightarrow> string \<Rightarrow> int \<Rightarrow> (seen, bool) act" where
  "in_memory_begin now key ttl_seconds seen =
     (case map_of seen key of
        Some expiry \<Rightarrow> if now < expiry then (Inr False, seen)
                    else (Inr True, AList.update key (now + of_int ttl_seconds) seen)
      | None \<Rightarrow> (Inr True, AList.update key (now + of_int ttl_seconds) seen))"

definition in_memory_held :: "seen \<Rightarrow> string \<Rightarrow> rat \<Rightarrow> bool" where
  "in_memory_held seen key t = (case map_of seen key of None \<Rightarrow> False | Some expiry \<Rightarrow> t < expiry)"

lemma in_memory_never_raises: "\<exists>b seen'. in_memory_begin now k ttl seen = (Inr b, seen')"
  by (auto simp: in_memory_begin_def split: option.splits)

interpretation mem_guard: guard in_memory_begin in_memory_held
  by unfold_locales
    (auto simp: in_memory_begin_def in_memory_held_def split: option.splits if_splits)

section \<open>The Redis guard\<close>

text \<open>
  The client's \<open>set(key, 1, nx=True, ex=ttl)\<close> is the parameter \<open>set_nx\<close>: it returns \<open>True\<close>,
  \<open>None\<close>, or raises. \<open>bool(None)\<close> is \<open>False\<close>.
\<close>

definition redis_begin ::
  "(rat \<Rightarrow> string \<Rightarrow> int \<Rightarrow> ('r, bool option) act) \<Rightarrow> rat \<Rightarrow> string \<Rightarrow> int \<Rightarrow> ('r, bool) act" where
  "redis_begin set_nx now key ttl_seconds st =
     (case set_nx now key ttl_seconds st of
        (Inl e, st') \<Rightarrow> (Inl e, st')
      | (Inr result, st') \<Rightarrow> (Inr (case result of None \<Rightarrow> False | Some b \<Rightarrow> b), st'))"

text \<open>
  The documented behaviour of \<open>SET key 1 NX EX ttl\<close> over the set of live keys \<open>live\<close>: the
  key is set for \<open>ttl\<close> seconds and \<open>True\<close> comes back if the key is not live; otherwise \<open>None\<close>
  comes back and nothing changes; a call that raises removes no key.
\<close>

definition set_nx_spec ::
  "(rat \<Rightarrow> string \<Rightarrow> int \<Rightarrow> ('r, bool option) act) \<Rightarrow> ('r \<Rightarrow> string \<Rightarrow> rat \<Rightarrow> bool) \<Rightarrow> bool" where
  "set_nx_spec set_nx live =
     (\<forall>now k ttl st st' r. set_nx now k ttl st = (r, st') \<longrightarrow>
        (case r of
           Inl e \<Rightarrow> (\<forall>k' t. live st k' t \<longrightarrow> live st' k' t)
         | Inr None \<Rightarrow> live st k now \<and> (\<forall>k' t. live st' k' t = live st k' t)
         | Inr (Some b) \<Rightarrow> b \<and> \<not> live st k now \<and>
             (\<forall>k' t. live st' k' t = (if k' = k then t < now + of_int ttl else live st k' t))))"

lemma redis_guard:
  assumes "set_nx_spec set_nx live"
  shows "guard (redis_begin set_nx) live"
proof
  fix now k ttl g b g' t k' e
  note spec = assms [unfolded set_nx_spec_def, rule_format]
  show "redis_begin set_nx now k ttl g = (Inr b, g') \<Longrightarrow> b = (\<not> live g k now)"
    using spec [of now k ttl g]
    by (fastforce simp: redis_begin_def split: prod.splits sum.splits option.splits)
  show "redis_begin set_nx now k ttl g = (Inr True, g') \<Longrightarrow> live g' k t = (t < now + rat_of_int ttl)"
    using spec [of now k ttl g]
    by (fastforce simp: redis_begin_def split: prod.splits sum.splits option.splits)
  show "redis_begin set_nx now k ttl g = (Inr False, g') \<Longrightarrow> live g' k t = live g k t"
    using spec [of now k ttl g]
    by (fastforce simp: redis_begin_def split: prod.splits sum.splits option.splits)
  show "redis_begin set_nx now k ttl g = (Inr b, g') \<Longrightarrow> k' \<noteq> k \<Longrightarrow> live g' k' t = live g k' t"
    using spec [of now k ttl g]
    by (fastforce simp: redis_begin_def split: prod.splits sum.splits option.splits)
  show "redis_begin set_nx now k ttl g = (Inl e, g') \<Longrightarrow> live g k' t \<Longrightarrow> live g' k' t"
    using spec [of now k ttl g]
    by (fastforce simp: redis_begin_def split: prod.splits sum.splits option.splits)
qed

section \<open>Selecting the guard\<close>

datatype guard_choice = InMemoryGuard | RedisGuard (redis_host: string) (redis_port: int)

text \<open>\<open>s.partition(":")\<close>: the text before and after the first colon.\<close>

definition partition_colon :: "string \<Rightarrow> string \<times> string" where
  "partition_colon s = (takeWhile (\<lambda>c. c \<noteq> CHR '':'') s, drop 1 (dropWhile (\<lambda>c. c \<noteq> CHR '':'') s))"

text \<open>\<open>redis_installed\<close> says whether the import of the redis library succeeds.\<close>

definition build_guard :: "bool \<Rightarrow> string option \<Rightarrow> guard_choice res" where
  "build_guard redis_installed redis_addr =
     (case redis_addr of
        None \<Rightarrow> Inr InMemoryGuard
      | Some addr \<Rightarrow>
          if addr = [] then Inr InMemoryGuard
          else if \<not> redis_installed then Inr InMemoryGuard
          else (case partition_colon addr of (host, port) \<Rightarrow>
            (case (if port = [] then Some 6379 else int_of_str port) of
               None \<Rightarrow> Inl (Exn ''ValueError'' (''invalid literal for int() with base 10: '' @ [quote] @ port @ [quote]))
             | Some p \<Rightarrow> Inr (RedisGuard (if host = [] then ''redis'' else host) p))))"

lemma partition_colon_host_port:
  "CHR '':'' \<notin> set host \<Longrightarrow> partition_colon (host @ '':'' @ port) = (host, port)"
  by (simp add: partition_colon_def takeWhile_append dropWhile_append)

lemma build_guard_host_port:
  assumes "CHR '':'' \<notin> set host" and "host \<noteq> []"
  shows "build_guard True (Some (host @ '':'' @ str_of_int p)) = Inr (RedisGuard host p)"
  using assms partition_colon_host_port [OF assms(1), of "str_of_int p"] str_of_int_ends [of p]
  by (simp add: build_guard_def)

section \<open>Properties\<close>

text \<open>Two deliveries on one queue have the same dedupe key exactly when they carry the
  same envelope id and the same attempt number, so a retry (a higher attempt) is never taken
  for a duplicate of the attempt before it.\<close>

theorem attempt_keys_distinct:
  "key_for_attempt q i a = key_for_attempt q j b \<longleftrightarrow> i = j \<and> a = b"
  by (rule key_for_attempt_inject)

text \<open>The in-process guard grants a key once per window: of any sequence of calls made
  before the granted call's time to live is over, on any keys, none on the same key is
  granted again.\<close>

theorem in_memory_granted_once:
  assumes "in_memory_begin now k ttl seen = (Inr True, seen1)"
    and "\<forall>c \<in> set cs. fst c < now + of_int ttl"
    and "run_calls in_memory_begin cs seen1 = (rs, seen2)" and "i < length cs" and "fst (snd (cs ! i)) = k"
  shows "rs ! i \<noteq> Inr True"
  using mem_guard.granted_once [OF assms] .

lemma in_memory_granted_once_witness:
  "fst (in_memory_begin 0 ''k'' 10 []) = Inr True \<and>
   fst (run_calls in_memory_begin [(1, ''other'', 10), (9, ''k'', 10)] [(''k'', 10)]) = [Inr True, Inr False] \<and>
   [Inr True, Inr False] ! 1 \<noteq> (Inr True :: bool res)"
proof -
  have a: "in_memory_begin 0 ''k'' 10 [] = (Inr True, [(''k'', 10)])" by code_simp
  have b: "run_calls in_memory_begin [(1, ''other'', 10), (9, ''k'', 10)] [(''k'', 10)]
      = ([Inr True, Inr False], [(''k'', 10), (''other'', 11)])" by code_simp
  have c: "\<forall>c \<in> set [(1, ''other'', 10), (9, ''k'', 10)]. fst c < (0::rat) + of_int 10" by simp
  from in_memory_granted_once [OF a c b, of 1] show ?thesis using a b by simp
qed

text \<open>Over any client that implements \<open>SET key 1 NX EX ttl\<close>, the Redis guard grants a
  key once per window too, also when some of the calls in between raise.\<close>

theorem redis_granted_once:
  assumes "set_nx_spec set_nx live"
    and "redis_begin set_nx now k ttl st = (Inr True, st1)"
    and "\<forall>c \<in> set cs. fst c < now + of_int ttl"
    and "run_calls (redis_begin set_nx) cs st1 = (rs, st2)" and "i < length cs" and "fst (snd (cs ! i)) = k"
  shows "rs ! i \<noteq> Inr True"
  using guard.granted_once [OF redis_guard [OF assms(1)] assms(2-6)] .

text \<open>A client over an association list of expiries, as the concrete function of the witness.\<close>

definition list_set_nx :: "rat \<Rightarrow> string \<Rightarrow> int \<Rightarrow> (seen, bool option) act" where
  "list_set_nx now k ttl st =
     (if in_memory_held st k now then (Inr None, st)
      else (Inr (Some True), AList.update k (now + of_int ttl) st))"

lemma list_set_nx_spec: "set_nx_spec list_set_nx in_memory_held"
  by (auto simp: set_nx_spec_def list_set_nx_def in_memory_held_def split: option.splits if_splits)

lemma redis_granted_once_witness:
  "fst (run_calls (redis_begin list_set_nx) [(5, ''k'', 10)] [(''k'', 10)]) = [Inr False] \<and>
   [Inr False] ! 0 \<noteq> (Inr True :: bool res)"
proof -
  have a: "redis_begin list_set_nx 0 ''k'' 10 [] = (Inr True, [(''k'', 10)])" by code_simp
  have b: "run_calls (redis_begin list_set_nx) [(5, ''k'', 10)] [(''k'', 10)] = ([Inr False], [(''k'', 10)])"
    by code_simp
  have c: "\<forall>c \<in> set [(5, ''k'', 10)]. fst c < (0::rat) + of_int 10" by simp
  from redis_granted_once [OF list_set_nx_spec a c b, of 0] show ?thesis using b by simp
qed

end
