(* ===== verification/Consumer.thy ===== *)
theory Consumer
  imports Retry_Tiers Idempotency
begin

text \<open>
  \<open>src/worker/consumer.py\<close>: the RabbitMQ consumer. Modelled are the constructor's names, the
  connection with its passive topology check, the reconnect loop with its backoff, and the
  whole delivery handler: parse, dedupe, process, then publish and acknowledge.

  The broker, the JSON parser, the clock, the id supply, the idempotency guard and the
  message handler are parameters (record \<open>env\<close>). Every broker call may raise: \<open>broker_fails n\<close>
  says whether the \<open>n\<close>-th call of the delivery does, and with what. A call that raises leaves
  no event; \<open>events\<close> is the list of the calls that returned, in order.
\<close>

section \<open>Names\<close>

record consumer =
  exchange_name :: string
  queue_name :: string
  routing_key :: string
  retry_exchange_name :: string
  dlx_exchange_name :: string
  results_exchange_name :: string
  results_routing_key :: string
  retry_queue_prefix :: string

text \<open>\<open>config.get(k, default)\<close> on the string entries of the configuration.\<close>

definition cfg_get :: "(string \<times> string) list \<Rightarrow> string \<Rightarrow> string \<Rightarrow> string" where
  "cfg_get config k dflt = (case map_of config k of None \<Rightarrow> dflt | Some v \<Rightarrow> v)"

definition init_consumer :: "(string \<times> string) list \<Rightarrow> consumer" where
  "init_consumer config =
     (let ex = cfg_get config ''exchange'' ''document-tasks'';
          q = cfg_get config ''queue'' ''document-processing''
      in \<lparr> exchange_name = ex,
           queue_name = q,
           routing_key = cfg_get config ''routing_key'' ''document.process'',
           retry_exchange_name = ex @ ''.retry'',
           dlx_exchange_name = ex @ ''.dlx'',
           results_exchange_name = cfg_get config ''results_exchange'' ''task-results'',
           results_routing_key = cfg_get config ''results_routing_key'' ''task.result'',
           retry_queue_prefix = q @ ''.retry.'' \<rparr>)"

section \<open>Messages, events, environment\<close>

record message =
  m_body :: string
  m_headers :: "dict option"
  m_content_type :: "string option"
  m_message_id :: "string option"
  m_correlation_id :: "string option"

text \<open>
  A published body is the body of a delivery, unchanged, or the JSON text of a dictionary
  (\<open>json.dumps(...).encode()\<close>, kept as the dictionary).
\<close>

datatype out_body = Bytes string | Json dict

record publication =
  p_exchange :: string
  p_routing_key :: string
  p_body :: out_body
  p_persistent :: bool
  p_headers :: "dict option"
  p_content_type :: "string option"
  p_message_id :: "string option"
  p_correlation_id :: "string option"

datatype event =
    Published publication
  | Acked
  | Nacked bool                      \<comment> \<open>the flag is \<open>requeue\<close>\<close>
  | Recorded string "string list"    \<comment> \<open>a metrics method and its arguments\<close>

record 'g world =
  events :: "event list"
  calls :: nat
  guard_state :: 'g

record 'g env =
  broker_fails :: "nat \<Rightarrow> exn option"
  guard_begin :: "string \<Rightarrow> int \<Rightarrow> ('g, bool) act"
  json_loads :: "string \<Rightarrow> pyval res"     \<comment> \<open>\<open>json.loads(body.decode())\<close>\<close>
  str_of_other :: "pyval \<Rightarrow> string"       \<comment> \<open>\<open>str\<close> of floats and containers\<close>
  has_metrics :: bool
  fresh_id :: string                       \<comment> \<open>\<open>str(uuid.uuid4())\<close>\<close>
  now_iso :: string

text \<open>A handler: the metrics it records and its result or exception.\<close>

type_synonym handler = "pyval \<Rightarrow> (string \<times> string list) list \<times> pyval res"

type_synonym ('g, 'a) step = "('g world, 'a) act"

definition py_str :: "'g env \<Rightarrow> pyval \<Rightarrow> string" where
  "py_str E v = (case v of
       PStr s \<Rightarrow> s
     | PInt i \<Rightarrow> str_of_int i
     | PBool b \<Rightarrow> if b then ''True'' else ''False''
     | PNone \<Rightarrow> ''None''
     | _ \<Rightarrow> str_of_other E v)"

definition emit :: "event list \<Rightarrow> ('g, unit) step" where
  [py_simps]: "emit evs = modifyA (\<lambda>w. w\<lparr>events := events w @ evs\<rparr>)"

definition broker_call :: "'g env \<Rightarrow> event \<Rightarrow> ('g, unit) step" where
  [py_simps]: "broker_call E ev w =
     (case broker_fails E (calls w) of
        Some e \<Rightarrow> (Inl e, w\<lparr>calls := Suc (calls w)\<rparr>)
      | None \<Rightarrow> (Inr (), w\<lparr>calls := Suc (calls w), events := events w @ [ev]\<rparr>))"

definition ack :: "'g env \<Rightarrow> ('g, unit) step" where
  [py_simps]: "ack E = broker_call E Acked"

definition nack :: "'g env \<Rightarrow> bool \<Rightarrow> ('g, unit) step" where
  [py_simps]: "nack E requeue = broker_call E (Nacked requeue)"

definition record_metric :: "'g env \<Rightarrow> string \<Rightarrow> string list \<Rightarrow> ('g, unit) step" where
  [py_simps]: "record_metric E method args = (if has_metrics E then emit [Recorded method args] else ret ())"

section \<open>Publishing\<close>

definition headers_copy :: "message \<Rightarrow> dict" where
  "headers_copy m = (case m_headers m of None \<Rightarrow> [] | Some h \<Rightarrow> h)"

definition retry_publication :: "consumer \<Rightarrow> message \<Rightarrow> string \<Rightarrow> publication" where
  "retry_publication C m tier =
     \<lparr> p_exchange = retry_exchange_name C,
       p_routing_key = routing_key C @ ''.retry.'' @ tier,
       p_body = Bytes (m_body m), p_persistent = True,
       p_headers = Some (headers_copy m), p_content_type = m_content_type m,
       p_message_id = m_message_id m, p_correlation_id = m_correlation_id m \<rparr>"

definition publish_retry :: "'g env \<Rightarrow> consumer \<Rightarrow> message \<Rightarrow> string \<Rightarrow> ('g, unit) step" where
  "publish_retry E C m tier =
     seqA (broker_call E (Published (retry_publication C m tier)))
          (record_metric E ''record_retry'' [tier])"

text \<open>\<open>d\<close> is the payload, a \<open>dict\<close> wherever this is reached with a non-empty one.\<close>

definition result_dict :: "pyval \<Rightarrow> pyval \<Rightarrow> pyval \<Rightarrow> string \<Rightarrow> string option \<Rightarrow> dict" where
  "result_dict envelope_id task_type document_id status err =
     [(''task_id'', envelope_id), (''task_type'', task_type), (''status'', PStr status),
      (''envelope_id'', envelope_id), (''document_id'', document_id)]
     @ (case err of None \<Rightarrow> [] | Some e \<Rightarrow> if e = [] then [] else [(''error'', PStr e)])"

definition result_publication :: "'g env \<Rightarrow> consumer \<Rightarrow> dict \<Rightarrow> publication" where
  "result_publication E C payload =
     \<lparr> p_exchange = results_exchange_name C,
       p_routing_key = results_routing_key C,
       p_body = Json [(''id'', PStr (fresh_id E)), (''type'', PStr ''task.result''),
                      (''timestamp'', PStr (now_iso E)), (''payload'', PDict payload),
                      (''metadata'', PDict [(''source'', PStr ''graphrag-service'')])],
       p_persistent = True, p_headers = None, p_content_type = Some ''application/json'',
       p_message_id = Some (fresh_id E), p_correlation_id = None \<rparr>"

definition publish_result ::
  "'g env \<Rightarrow> consumer \<Rightarrow> pyval \<Rightarrow> string \<Rightarrow> string option \<Rightarrow> ('g, unit) step" where
  "publish_result E C payload status err =
     (if \<not> truthy payload then ret ()
      else bindA (liftR (get_attr payload ''id'')) (\<lambda>envelope_id.
           bindA (liftR (get_attr payload ''payload'')) (\<lambda>p.
           bindA (liftR (get_attr payload ''type'')) (\<lambda>task_type.
           bindA (liftR (get_attr (py_or p (PDict [])) ''document_id'')) (\<lambda>document_id.
             broker_call E (Published (result_publication E C
               (result_dict envelope_id task_type document_id status err))))))))"

definition dlx_publication :: "consumer \<Rightarrow> message \<Rightarrow> publication" where
  "dlx_publication C m =
     \<lparr> p_exchange = dlx_exchange_name C, p_routing_key = routing_key C,
       p_body = Bytes (m_body m), p_persistent = True,
       p_headers = Some (headers_copy m), p_content_type = m_content_type m,
       p_message_id = m_message_id m, p_correlation_id = m_correlation_id m \<rparr>"

definition dead_letter :: "'g env \<Rightarrow> consumer \<Rightarrow> message \<Rightarrow> pyval \<Rightarrow> string \<Rightarrow> ('g, unit) step" where
  "dead_letter E C m payload err =
     seqA (broker_call E (Published (dlx_publication C m)))
       (seqA (record_metric E ''record_dlq'' [])
         (if truthy payload then publish_result E C payload ''failed'' (Some err) else ret ()))"

definition retry_or_dead_letter ::
  "'g env \<Rightarrow> consumer \<Rightarrow> message \<Rightarrow> pyval \<Rightarrow> exn \<Rightarrow> int \<Rightarrow> ('g, unit) step" where
  "retry_or_dead_letter E C m payload e attempt =
     (case select_tier attempt of
        None \<Rightarrow> dead_letter E C m payload (exn_msg e)
      | Some tier \<Rightarrow> publish_retry E C m tier)"

definition result_status :: "pyval \<Rightarrow> string" where
  "result_status result =
     (case result of
        PDict d \<Rightarrow> if dget d ''status'' = PStr ''failed'' then ''failed'' else ''completed''
      | _ \<Rightarrow> ''completed'')"

section \<open>The idempotency guard, failing open\<close>

definition acquire :: "'g env \<Rightarrow> consumer \<Rightarrow> string \<Rightarrow> int \<Rightarrow> ('g, bool) step" where
  "acquire E C envelope_id attempt w =
     (case guard_begin E (key_for_attempt (queue_name C) envelope_id attempt)
             DEFAULT_TTL_SECONDS (guard_state w) of
        (Inr b, g) \<Rightarrow> (Inr b, w\<lparr>guard_state := g\<rparr>)
      | (Inl e, g) \<Rightarrow>
          if is_Exception e
          then seqA (record_metric E ''record_idempotency_error'' []) (ret True) (w\<lparr>guard_state := g\<rparr>)
          else (Inl e, w\<lparr>guard_state := g\<rparr>))"

section \<open>One delivery\<close>

text \<open>
  Step 3 of the handler: the attributes of the span read \<open>metadata.trace_id\<close>, which raises
  where \<open>metadata\<close> is not a dictionary; the handler runs; its exception is classified. The
  two \<open>except\<close> clauses are on the same \<open>try\<close>, so what they raise is not caught by them.
\<close>

definition run_handler :: "handler \<Rightarrow> pyval \<Rightarrow> pyval \<Rightarrow> ('g, pyval) step" where
  "run_handler h metadata payload =
     bindA (liftR (get_attr metadata ''trace_id'')) (\<lambda>_.
       seqA (emit (map (\<lambda>(n, args). Recorded n args) (fst (h payload))))
            (liftR (snd (h payload))))"

definition process_payload ::
  "'g env \<Rightarrow> consumer \<Rightarrow> handler \<Rightarrow> message \<Rightarrow> pyval \<Rightarrow> int \<Rightarrow> ('g, unit) step" where
  "process_payload E C h m payload attempt =
     bindA (liftR (get_attr payload ''metadata'')) (\<lambda>md w.
       case run_handler h (py_or md (PDict [])) payload w of
         (Inr result, w1) \<Rightarrow>
           seqA (publish_result E C payload (result_status result) None) (ack E) w1
       | (Inl e, w1) \<Rightarrow>
           if exn_type e = ''UnretryableError''
           then seqA (dead_letter E C m payload (exn_msg e)) (ack E) w1
           else if is_Exception e
           then seqA (retry_or_dead_letter E C m payload e attempt) (ack E) w1
           else (Inl e, w1))"

definition attempt_of :: "consumer \<Rightarrow> message \<Rightarrow> int" where
  "attempt_of C m = death_count (Some (headers_copy m)) (retry_queue_prefix C)"

definition handle_payload ::
  "'g env \<Rightarrow> consumer \<Rightarrow> handler \<Rightarrow> message \<Rightarrow> pyval \<Rightarrow> ('g, unit) step" where
  "handle_payload E C h m payload =
     bindA (liftR (get_attr payload ''id'')) (\<lambda>envelope_id.
       bindA (if truthy envelope_id
              then acquire E C (py_str E envelope_id) (attempt_of C m) else ret True)
         (\<lambda>first.
            if \<not> first then seqA (record_metric E ''record_duplicate'' []) (ack E)
            else process_payload E C h m payload (attempt_of C m)))"

text \<open>
  The outer \<open>except Exception\<close>: the log call evaluates \<open>(payload or {}).get("id")\<close> before
  the message is requeued, and a failing \<open>nack\<close> is swallowed.
\<close>

definition last_resort :: "'g env \<Rightarrow> pyval \<Rightarrow> exn \<Rightarrow> ('g, unit) step" where
  "last_resort E payload e =
     bindA (liftR (get_attr (py_or payload (PDict [])) ''id'')) (\<lambda>_.
       tryA (nack E True) (\<lambda>_. ret ()))"

definition is_decode_error :: "exn \<Rightarrow> bool" where
  "is_decode_error e = (exn_type e \<in> {''JSONDecodeError'', ''UnicodeDecodeError''})"

definition handle_delivery ::
  "'g env \<Rightarrow> consumer \<Rightarrow> handler \<Rightarrow> message \<Rightarrow> ('g, unit) step" where
  "handle_delivery E C h m =
     (case json_loads E (m_body m) of
        Inl e \<Rightarrow>
          tryA (if is_decode_error e
                then seqA (dead_letter E C m PNone (''parse error: '' @ exn_msg e)) (ack E)
                else raise e)
            (last_resort E PNone)
      | Inr payload \<Rightarrow>
          tryA (handle_payload E C h m payload) (last_resort E payload))"

section \<open>Traces\<close>

text \<open>
  \<open>traces m P\<close>: every run of \<open>m\<close> only appends events, and its result and the broker
  events it appended (publications, acks and nacks, metrics left out) satisfy \<open>P\<close>.
\<close>

fun is_broker_event :: "event \<Rightarrow> bool" where
  "is_broker_event (Recorded _ _) = False"
| "is_broker_event _ = True"

definition broker_trace :: "'g world \<Rightarrow> event list" where
  "broker_trace w = filter is_broker_event (events w)"

definition traces :: "('g, 'a) step \<Rightarrow> ('a res \<Rightarrow> event list \<Rightarrow> bool) \<Rightarrow> bool" where
  "traces m P = (\<forall>w r w'. m w = (r, w') \<longrightarrow>
     (\<exists>evs. events w' = events w @ evs \<and> P r (filter is_broker_event evs)))"

lemma tracesD: "traces m P \<Longrightarrow> m w = (r, w') \<Longrightarrow> \<exists>evs. broker_trace w' = broker_trace w @ evs \<and> P r evs"
  by (fastforce simp: traces_def broker_trace_def)

lemma traces_weaken: "traces m P \<Longrightarrow> (\<And>r evs. P r evs \<Longrightarrow> Q r evs) \<Longrightarrow> traces m Q"
  by (fastforce simp: traces_def)

lemma traces_ret: "P (Inr x) [] \<Longrightarrow> traces (ret x) P"
  by (simp add: traces_def ret_def)

lemma traces_raise: "P (Inl e) [] \<Longrightarrow> traces (raise e) P"
  by (simp add: traces_def raise_def)

lemma traces_liftR: "P r [] \<Longrightarrow> traces (liftR r) P"
  by (simp add: traces_def liftR_def)

lemma traces_emit_metrics:
  "\<forall>ev \<in> set evs. \<not> is_broker_event ev \<Longrightarrow> P (Inr ()) [] \<Longrightarrow> traces (emit evs) P"
  by (auto simp: traces_def emit_def modifyA_def)

lemma traces_record_metric: "P (Inr ()) [] \<Longrightarrow> traces (record_metric E n args) P"
  unfolding record_metric_def by (auto intro: traces_ret traces_emit_metrics)

lemma traces_broker_call:
  assumes "is_broker_event ev" and "P (Inr ()) [ev]" and "\<And>e. P (Inl e) []"
  shows "traces (broker_call E ev) P"
  using assms by (auto simp: traces_def broker_call_def split: option.splits)

lemma traces_bind:
  assumes "traces m (\<lambda>r evs. case r of Inl e \<Rightarrow> P (Inl e) evs
                          | Inr x \<Rightarrow> traces (f x) (\<lambda>r' evs'. P r' (evs @ evs')))"
  shows "traces (bindA m f) P"
  using assms unfolding traces_def bindA_def
  by (fastforce split: prod.splits sum.splits)

lemma traces_seq:
  assumes "traces m (\<lambda>r evs. case r of Inl e \<Rightarrow> P (Inl e) evs
                          | Inr x \<Rightarrow> traces n (\<lambda>r' evs'. P r' (evs @ evs')))"
  shows "traces (seqA m n) P"
  using assms unfolding traces_def seqA_def
  by (fastforce split: prod.splits sum.splits)

lemma traces_try:
  assumes "traces m (\<lambda>r evs. case r of Inr x \<Rightarrow> P (Inr x) evs
             | Inl e \<Rightarrow> if is_Exception e then traces (h e) (\<lambda>r' evs'. P r' (evs @ evs'))
                       else P (Inl e) evs)"
  shows "traces (tryA m h) P"
  using assms unfolding traces_def tryA_def
  by (fastforce split: prod.splits sum.splits if_splits)

end
