(* ===== verification/Consumer_Facts.thy ===== *)
theory Consumer_Facts
  imports Consumer
begin

text \<open>
  What the delivery handler of \<open>Consumer\<close> guarantees: the exact events of a delivery when
  the broker does not fail, the shape of the events under every pattern of broker failures
  (an acknowledgement is last and follows what replaces the message), the fail-open guard,
  and the deliveries the outer \<open>except\<close> cannot handle.
\<close>

section \<open>What replaces a message\<close>

definition document_id_of :: "dict \<Rightarrow> pyval" where
  "document_id_of d =
     (case get_attr (py_or (dget d ''payload'') (PDict [])) ''document_id'' of
        Inr x \<Rightarrow> x | Inl _ \<Rightarrow> PNone)"

definition result_event :: "'g env \<Rightarrow> consumer \<Rightarrow> dict \<Rightarrow> string \<Rightarrow> string option \<Rightarrow> event list" where
  "result_event E C d status err =
     (if d = [] then []
      else [Published (result_publication E C
              (result_dict (dget d ''id'') (dget d ''type'') (document_id_of d) status err))])"

text \<open>
  What the processing of an object ends with: the exception of reading \<open>metadata.trace_id\<close>, or what the
  handler gives. The publications owed for it: the result of a success, the next tier's retry of a
  failure that can be retried, otherwise the dead letter and a failed result. An object without
  entries has no result to publish.
\<close>

definition outcome_of :: "handler \<Rightarrow> dict \<Rightarrow> pyval res" where
  "outcome_of h d =
     (case get_attr (py_or (dget d ''metadata'') (PDict [])) ''trace_id'' of
        Inl e \<Rightarrow> Inl e
      | Inr _ \<Rightarrow> snd (h (PDict d)))"

definition replacement :: "'g env \<Rightarrow> consumer \<Rightarrow> handler \<Rightarrow> message \<Rightarrow> dict \<Rightarrow> event list" where
  "replacement E C h m d =
     (case outcome_of h d of
        Inr result \<Rightarrow> result_event E C d (result_status result) None
      | Inl e \<Rightarrow>
          (case (if exn_type e = ''UnretryableError'' then None else select_tier (attempt_of C m)) of
             Some tier \<Rightarrow> [Published (retry_publication C m tier)]
           | None \<Rightarrow> Published (dlx_publication C m) # result_event E C d ''failed'' (Some (exn_msg e))))"

text \<open>What is owed for a delivery: a body that is not JSON is a dead letter, one that is no object is owed nothing.\<close>

definition owed :: "'g env \<Rightarrow> consumer \<Rightarrow> handler \<Rightarrow> message \<Rightarrow> event list option" where
  "owed E C h m =
     (case json_loads E (m_body m) of
        Inl _ \<Rightarrow> Some [Published (dlx_publication C m)]
      | Inr (PDict d) \<Rightarrow> Some (replacement E C h m d)
      | Inr _ \<Rightarrow> None)"

section \<open>Traces of the handler's parts\<close>

text \<open>A run that publishes \<open>L\<close>, or stops on the way when a call raises.\<close>

definition publishes :: "event list \<Rightarrow> 'a res \<Rightarrow> event list \<Rightarrow> bool" where
  "publishes L r evs = (case r of Inr _ \<Rightarrow> evs = L | Inl _ \<Rightarrow> \<exists>n. evs = take n L)"

lemma publishes_simps [simp]:
  "publishes L (Inr x) evs \<longleftrightarrow> evs = L" "publishes L (Inl e) []"
  by (auto simp: publishes_def intro: exI [of _ 0])

lemma traces_publish_result:
  "traces (publish_result E C (PDict d) status err) (publishes (result_event E C d status err))"
  unfolding publish_result_def
  by (auto intro!: traces_ret traces_bind traces_liftR traces_broker_call
      simp: result_event_def document_id_of_def split: sum.splits)

lemma traces_publish_retry:
  "traces (publish_retry E C m tier) (publishes [Published (retry_publication C m tier)])"
  unfolding publish_retry_def
  by (auto intro!: traces_seq traces_broker_call traces_record_metric)

lemma traces_dead_letter:
  "traces (dead_letter E C m (PDict d) err)
     (publishes (Published (dlx_publication C m) # result_event E C d ''failed'' (Some err)))"
proof -
  have "traces (if truthy (PDict d) then publish_result E C (PDict d) ''failed'' (Some err) else ret ())
      (\<lambda>r evs. publishes (Published (dlx_publication C m) # result_event E C d ''failed'' (Some err)) r
         (Published (dlx_publication C m) # evs))"
  proof (cases "d = []")
    case False
    then show ?thesis
      by (auto intro!: traces_weaken [OF traces_publish_result] simp: publishes_def split: sum.splits)
        (metis take_Suc_Cons)
  qed (auto intro!: traces_ret simp: result_event_def)
  then show ?thesis unfolding dead_letter_def
    by (auto intro!: traces_seq traces_broker_call traces_record_metric)
qed

lemma traces_failed:
  assumes "outcome_of h d = Inl e" and "exn_type e \<noteq> ''UnretryableError''"
  shows "traces (retry_or_dead_letter E C m (PDict d) e (attempt_of C m)) (publishes (replacement E C h m d))"
  using traces_dead_letter [of E C m d "exn_msg e"] traces_publish_retry [of E C m] assms
  by (auto simp: retry_or_dead_letter_def replacement_def simp del: select_tier_None_iff split: option.splits)

definition ends_acked :: "event list \<Rightarrow> unit res \<Rightarrow> event list \<Rightarrow> bool" where
  "ends_acked L r evs = (case r of Inr _ \<Rightarrow> evs = L @ [Acked] | Inl _ \<Rightarrow> \<exists>n. evs = take n L)"

lemma ends_acked_stop [simp]: "ends_acked L (Inl e) []"
  by (auto simp: ends_acked_def intro: exI [of _ 0])

lemma traces_then_ack:
  assumes "traces p (publishes L)"
  shows "traces (seqA p (ack E)) (ends_acked L)"
  unfolding ack_def
  by (rule traces_seq, rule traces_weaken [OF assms])
    (auto intro!: traces_broker_call exI [of _ "length L"] simp: ends_acked_def publishes_def split: sum.splits)

lemma run_handler_result:
  "run_handler h (py_or (dget d ''metadata'') (PDict [])) (PDict d) w = (r, w') \<Longrightarrow> outcome_of h d = r"
  by (auto simp: run_handler_def outcome_of_def py_simps split: sum.splits option.splits if_splits)

lemma run_handler_trace:
  "traces (run_handler h md payload) (\<lambda>r evs. evs = [])"
  unfolding run_handler_def
  by (auto intro!: traces_bind traces_liftR traces_seq traces_emit_metrics split: sum.splits)

lemma traces_process_payload:
  "traces (process_payload E C h m (PDict d) (attempt_of C m)) (ends_acked (replacement E C h m d))"
  unfolding process_payload_def
proof (rule traces_bind, rule traces_liftR, simp)
  let ?p = "PDict d"
  let ?run = "run_handler h (py_or (dget d ''metadata'') (PDict [])) ?p"
  let ?L = "replacement E C h m d"
  show "traces (\<lambda>w. case ?run w of (Inl e, w1) \<Rightarrow>
              if exn_type e = ''UnretryableError''
              then seqA (dead_letter E C m ?p (exn_msg e)) (ack E) w1
              else if is_Exception e
                   then seqA (retry_or_dead_letter E C m ?p e (attempt_of C m)) (ack E) w1
                   else (Inl e, w1)
            | (Inr result, w1) \<Rightarrow>
                seqA (publish_result E C ?p (result_status result) None) (ack E) w1)
        (ends_acked ?L)" (is "traces ?body _")
    unfolding traces_def
  proof (intro allI impI)
    fix w r w'
    assume run: "?body w = (r, w')"
    obtain r1 w1 where w1: "?run w = (r1, w1)" by fastforce
    note out = run_handler_result [OF w1]
    have start: "\<exists>evs. events w1 = events w @ evs \<and> filter is_broker_event evs = []"
      using run_handler_trace [unfolded traces_def] w1 by blast
    have "\<exists>evs. events w' = events w1 @ evs \<and> ends_acked ?L r (filter is_broker_event evs)"
    proof (cases r1)
      case (Inr x)
      have "traces (seqA (publish_result E C ?p (result_status x) None) (ack E)) (ends_acked ?L)"
        using traces_then_ack [OF traces_publish_result] out Inr by (simp add: replacement_def)
      with run w1 Inr show ?thesis by (auto simp: traces_def)
    next
      case (Inl e)
      consider "exn_type e = ''UnretryableError''" | "exn_type e \<noteq> ''UnretryableError''" "is_Exception e"
        | "exn_type e \<noteq> ''UnretryableError''" "\<not> is_Exception e" by blast
      then show ?thesis
      proof cases
        case 1
        have "traces (seqA (dead_letter E C m ?p (exn_msg e)) (ack E)) (ends_acked ?L)"
          using traces_then_ack [OF traces_dead_letter] out Inl 1 by (simp add: replacement_def)
        with run w1 Inl 1 show ?thesis by (auto simp: traces_def)
      next
        case 2
        have "traces (seqA (retry_or_dead_letter E C m ?p e (attempt_of C m)) (ack E)) (ends_acked ?L)"
          by (rule traces_then_ack, rule traces_failed) (use out Inl 2 in auto)
        with run w1 Inl 2 show ?thesis by (auto simp: traces_def)
      next
        case 3
        with run w1 Inl show ?thesis by auto
      qed
    qed
    with start show "\<exists>evs. events w' = events w @ evs \<and> ends_acked ?L r (filter is_broker_event evs)"
      by fastforce
  qed
qed

lemma traces_last_resort:
  "traces (last_resort E payload e) (\<lambda>r evs. evs = [] \<or> evs = [Nacked True])"
  unfolding last_resort_def nack_def
  by (auto intro!: traces_bind traces_liftR traces_try traces_broker_call traces_ret split: sum.splits)

section \<open>The whole delivery, under every pattern of broker failures\<close>

text \<open>The guard call this delivery makes, if any, answers that the message was seen before.\<close>

definition guard_refuses :: "'g env \<Rightarrow> consumer \<Rightarrow> message \<Rightarrow> 'g world \<Rightarrow> bool" where
  "guard_refuses E C m w =
     (case json_loads E (m_body m) of
        Inr (PDict d) \<Rightarrow> truthy (dget d ''id'') \<and>
          (\<exists>g. guard_begin E (key_for_attempt (queue_name C) (py_str E (dget d ''id'')) (attempt_of C m))
                  DEFAULT_TTL_SECONDS (guard_state w) = (Inr False, g))
      | _ \<Rightarrow> False)"

lemma acquire_trace: "traces (acquire E C i a) (\<lambda>r evs. evs = [])"
  by (auto simp: traces_def acquire_def py_simps split: prod.splits sum.splits)

lemma acquire_refused:
  "acquire E C i a w = (Inr False, w1) \<Longrightarrow>
   \<exists>g. guard_begin E (key_for_attempt (queue_name C) i a) DEFAULT_TTL_SECONDS (guard_state w) = (Inr False, g)"
  by (auto simp: acquire_def py_simps split: prod.splits sum.splits if_splits)

lemma traces_ack: "traces (ack E) (\<lambda>r evs. case r of Inl _ \<Rightarrow> evs = [] | Inr _ \<Rightarrow> evs = [Acked])"
  unfolding ack_def by (auto intro!: traces_broker_call)

lemma traces_duplicate:
  "traces (seqA (record_metric E n args) (ack E))
     (\<lambda>r evs. case r of Inl _ \<Rightarrow> evs = [] | Inr _ \<Rightarrow> evs = [Acked])"
  by (auto intro!: traces_seq traces_record_metric traces_weaken [OF traces_ack] split: sum.splits)

lemma handle_payload_trace:
  assumes "handle_payload E C h m (PDict d) w = (r, w')" and json: "json_loads E (m_body m) = Inr (PDict d)"
  shows "\<exists>evs. broker_trace w' = broker_trace w @ evs \<and>
           ((r = Inr () \<and> evs = [Acked] \<and> guard_refuses E C m w)
            \<or> ends_acked (replacement E C h m d) r evs)"
proof -
  let ?i = "dget d ''id''"
  let ?acq = "if truthy ?i then acquire E C (py_str E ?i) (attempt_of C m) else ret True"
  obtain r1 w1 where w1: "?acq w = (r1, w1)" by fastforce
  have start: "broker_trace w1 = broker_trace w"
    using w1 tracesD [OF acquire_trace] by (fastforce simp: ret_def split: if_splits)
  have rest: "(case r1 of Inl e \<Rightarrow> (Inl e, w1)
      | Inr first \<Rightarrow> (if \<not> first then seqA (record_metric E ''record_duplicate'' []) (ack E)
                      else process_payload E C h m (PDict d) (attempt_of C m)) w1) = (r, w')"
    using assms w1 by (auto simp: handle_payload_def bindA_def liftR_def split: sum.splits)
  show ?thesis
  proof (cases r1)
    case (Inl e)
    with rest start show ?thesis by auto
  next
    case r1: (Inr first)
    show ?thesis
    proof (cases first)
      case True
      with r1 rest have "process_payload E C h m (PDict d) (attempt_of C m) w1 = (r, w')" by simp
      from tracesD [OF traces_process_payload this] start show ?thesis by auto
    next
      case False
      with r1 rest have dup: "seqA (record_metric E ''record_duplicate'' []) (ack E) w1 = (r, w')" by simp
      have refuses: "guard_refuses E C m w"
        using w1 r1 False json acquire_refused [of E C "py_str E ?i" "attempt_of C m" w w1]
        by (auto simp: guard_refuses_def ret_def split: if_splits)
      from tracesD [OF traces_duplicate dup] start refuses show ?thesis
        by (cases r) auto
    qed
  qed
qed

text \<open>
  The shape of every delivery: a part of what is owed, then at most one of ack and requeue.
  Nothing is ever rejected without requeue.
\<close>

definition settles :: "event list option \<Rightarrow> bool \<Rightarrow> event list \<Rightarrow> event list \<Rightarrow> bool" where
  "settles due refused pubs final \<longleftrightarrow>
     final \<in> {[], [Acked], [Nacked True]}
     \<and> (final = [Acked] \<longrightarrow> due = Some pubs \<or> (pubs = [] \<and> refused))
     \<and> (\<exists>n. pubs = take n (case due of None \<Rightarrow> [] | Some L \<Rightarrow> L))"

lemma last_resort_trace:
  assumes "last_resort E payload e w = (r, w')"
  shows "broker_trace w' = broker_trace w \<or> broker_trace w' = broker_trace w @ [Nacked True]"
  using tracesD [OF traces_last_resort assms] by auto

lemma traces_dead_letter_ack_PNone:
  "traces (seqA (dead_letter E C m PNone err) (ack E)) (ends_acked [Published (dlx_publication C m)])"
proof (rule traces_then_ack)
  show "traces (dead_letter E C m PNone err) (publishes [Published (dlx_publication C m)])"
    unfolding dead_letter_def
    by (auto intro!: traces_seq traces_broker_call traces_record_metric traces_ret)
qed

lemma try_last_resort_trace:
  assumes run: "tryA act (last_resort E payload) w = (r, w')"
    and act: "\<And>r1 w1. act w = (r1, w1) \<Longrightarrow> \<exists>evs. broker_trace w1 = broker_trace w @ evs \<and>
                ((r1 = Inr () \<and> evs = [Acked] \<and> G) \<or> ends_acked L r1 evs)"
  shows "\<exists>pubs final. broker_trace w' = broker_trace w @ pubs @ final \<and> settles (Some L) G pubs final"
proof -
  obtain r1 w1 where w1: "act w = (r1, w1)" by fastforce
  obtain evs where evs: "broker_trace w1 = broker_trace w @ evs"
    and cases: "(r1 = Inr () \<and> evs = [Acked] \<and> G) \<or> ends_acked L r1 evs"
    using act [OF w1] by blast
  show ?thesis
  proof (cases r1)
    case (Inr u)
    with run w1 have "w' = w1" by (simp add: tryA_def)
    moreover have "evs = [] @ [Acked] \<and> G \<or> evs = L @ [Acked]"
      using cases Inr by (auto simp: ends_acked_def)
    then have "\<exists>pubs. evs = pubs @ [Acked] \<and> settles (Some L) G pubs [Acked]"
      by (auto simp: settles_def intro: exI [of _ 0]) (metis order_refl take_all)
    ultimately show ?thesis using evs by auto
  next
    case (Inl e)
    with cases obtain n where n: "evs = take n L" by (auto simp: ends_acked_def)
    have "broker_trace w' = broker_trace w1 @ [] \<or> broker_trace w' = broker_trace w1 @ [Nacked True]"
      using run w1 Inl last_resort_trace [of E payload e w1 r w'] by (auto simp: tryA_def split: if_splits)
    moreover have "settles (Some L) G evs []" "settles (Some L) G evs [Nacked True]"
      using n by (auto simp: settles_def)
    ultimately show ?thesis using evs by (metis append.assoc)
  qed
qed

section \<open>The exact events when the broker does not fail\<close>

definition no_failures :: "'g env \<Rightarrow> bool" where
  "no_failures E = (\<forall>n. broker_fails E n = None)"

text \<open>\<open>m\<close> returns and appends exactly the broker events \<open>evs\<close>.\<close>

definition adds :: "('g, unit) step \<Rightarrow> event list \<Rightarrow> bool" where
  "adds m evs = (\<forall>w. \<exists>w'. m w = (Inr (), w') \<and> broker_trace w' = broker_trace w @ evs)"

lemma addsD: "adds m evs \<Longrightarrow> \<exists>w'. m w = (Inr (), w') \<and> broker_trace w' = broker_trace w @ evs"
  by (simp add: adds_def)

lemma adds_ret: "adds (ret ()) []"
  by (simp add: adds_def ret_def)

lemma adds_seq: "adds m a \<Longrightarrow> adds n b \<Longrightarrow> adds (seqA m n) (a @ b)"
  unfolding adds_def seqA_def by (metis (mono_tags, lifting) append.assoc old.prod.case old.sum.simps(6))

lemma adds_record_metric: "adds (record_metric E n args) []"
  by (auto simp: adds_def py_simps broker_trace_def)

lemma adds_broker_call: "no_failures E \<Longrightarrow> is_broker_event ev \<Longrightarrow> adds (broker_call E ev) [ev]"
  by (auto simp: adds_def broker_call_def no_failures_def broker_trace_def)

lemma adds_ack: "no_failures E \<Longrightarrow> adds (ack E) [Acked]"
  by (simp add: ack_def adds_broker_call)

lemma adds_publish_retry:
  "no_failures E \<Longrightarrow> adds (publish_retry E C m tier) [Published (retry_publication C m tier)]"
  using adds_seq [OF adds_broker_call adds_record_metric] by (fastforce simp: publish_retry_def)

text \<open>
  An envelope whose \<open>payload\<close> and \<open>metadata\<close> are dictionaries, or falsy (missing, null,
  empty), so that reading a field of them does not raise.
\<close>

definition dict_or_falsy :: "pyval \<Rightarrow> bool" where
  "dict_or_falsy v = (truthy v \<longrightarrow> is_dict v)"

definition plain_envelope :: "dict \<Rightarrow> bool" where
  "plain_envelope d = (dict_or_falsy (dget d ''payload'') \<and> dict_or_falsy (dget d ''metadata''))"

lemma get_attr_or_empty:
  "dict_or_falsy v \<Longrightarrow> \<exists>x. get_attr (py_or v (PDict [])) k = Inr x"
  by (cases v) (auto simp: dict_or_falsy_def py_or_def)

lemma adds_publish_result:
  assumes "no_failures E" and "plain_envelope d"
  shows "adds (publish_result E C (PDict d) status err) (result_event E C d status err)"
proof (cases "d = []")
  case True
  then show ?thesis by (simp add: publish_result_def result_event_def adds_ret)
next
  case False
  from assms(2) obtain x where "get_attr (py_or (dget d ''payload'') (PDict [])) ''document_id'' = Inr x"
    using get_attr_or_empty by (auto simp: plain_envelope_def)
  with False assms(1) show ?thesis
    using adds_broker_call [OF assms(1)]
    by (simp add: publish_result_def result_event_def document_id_of_def adds_def py_simps)
qed

lemma adds_dead_letter:
  assumes "no_failures E" and "plain_envelope d"
  shows "adds (dead_letter E C m (PDict d) err)
           (Published (dlx_publication C m) # result_event E C d ''failed'' (Some err))"
proof -
  have "adds (if truthy (PDict d) then publish_result E C (PDict d) ''failed'' (Some err) else ret ())
          (result_event E C d ''failed'' (Some err))"
    using adds_publish_result [OF assms] by (auto simp: result_event_def adds_ret)
  from adds_seq [OF adds_broker_call [OF assms(1)] adds_seq [OF adds_record_metric this]]
  show ?thesis by (simp add: dead_letter_def)
qed

text \<open>What one delivery of the envelope \<open>d\<close> does, as a table on the handler's outcome.\<close>

definition expected_events ::
  "'g env \<Rightarrow> consumer \<Rightarrow> handler \<Rightarrow> message \<Rightarrow> dict \<Rightarrow> event list" where
  "expected_events E C h m d =
     (case snd (h (PDict d)) of
        Inr result \<Rightarrow> result_event E C d (result_status result) None
      | Inl e \<Rightarrow>
          (case (if exn_type e = ''UnretryableError'' then None else select_tier (attempt_of C m)) of
             Some tier \<Rightarrow> [Published (retry_publication C m tier)]
           | None \<Rightarrow> Published (dlx_publication C m) # result_event E C d ''failed'' (Some (exn_msg e))))
     @ [Acked]"

lemma adds_process_payload:
  assumes nf: "no_failures E" and plain: "plain_envelope d"
    and exc: "\<And>e. snd (h (PDict d)) = Inl e \<Longrightarrow> is_Exception e"
  shows "adds (process_payload E C h m (PDict d) (attempt_of C m)) (expected_events E C h m d)"
proof -
  from plain obtain x where md: "get_attr (py_or (dget d ''metadata'') (PDict [])) ''trace_id'' = Inr x"
    using get_attr_or_empty by (auto simp: plain_envelope_def)
  show ?thesis
    unfolding adds_def
  proof
    fix w :: "'a world"
    let ?mets = "map (\<lambda>(n, args). Recorded n args) (fst (h (PDict d)))"
    define w1 where "w1 = w\<lparr>events := events w @ ?mets\<rparr>"
    have w1: "broker_trace w1 = broker_trace w"
      by (auto simp: w1_def broker_trace_def filter_empty_conv)
    have run: "run_handler h (py_or (dget d ''metadata'') (PDict [])) (PDict d) w = (snd (h (PDict d)), w1)"
      by (simp add: run_handler_def py_simps md [unfolded py_simps] w1_def)
    note dl = adds_seq [OF adds_dead_letter [OF nf plain] adds_ack [OF nf]]
    note rt = adds_seq [OF adds_publish_retry [OF nf] adds_ack [OF nf]]
    note ok = adds_seq [OF adds_publish_result [OF nf plain] adds_ack [OF nf]]
    show "\<exists>w'. process_payload E C h m (PDict d) (attempt_of C m) w = (Inr (), w') \<and>
              broker_trace w' = broker_trace w @ expected_events E C h m d"
    proof (cases "snd (h (PDict d))")
      case (Inr result)
      with addsD [OF ok, of C "result_status result" None w1] run w1 show ?thesis
        by (simp add: process_payload_def bindA_def liftR_def expected_events_def)
    next
      case (Inl e)
      have "seqA (if exn_type e = ''UnretryableError'' then dead_letter E C m (PDict d) (exn_msg e)
               else retry_or_dead_letter E C m (PDict d) e (attempt_of C m)) (ack E) w1
            = process_payload E C h m (PDict d) (attempt_of C m) w"
        using run Inl exc [OF Inl] by (simp add: process_payload_def bindA_def liftR_def)
      moreover have "adds (seqA (if exn_type e = ''UnretryableError'' then dead_letter E C m (PDict d) (exn_msg e)
               else retry_or_dead_letter E C m (PDict d) e (attempt_of C m)) (ack E)) (expected_events E C h m d)"
        using dl rt Inl
        by (auto simp: retry_or_dead_letter_def expected_events_def simp del: select_tier_None_iff split: option.split)
      ultimately show ?thesis using w1 by (metis addsD)
    qed
  qed
qed

text \<open>The guard lets the delivery through: no id to check, the key was free, or the guard failed.\<close>

definition admitted :: "'g env \<Rightarrow> consumer \<Rightarrow> message \<Rightarrow> dict \<Rightarrow> 'g \<Rightarrow> bool" where
  "admitted E C m d g =
     (\<not> truthy (dget d ''id'') \<or>
      fst (guard_begin E (key_for_attempt (queue_name C) (py_str E (dget d ''id'')) (attempt_of C m))
             DEFAULT_TTL_SECONDS g) \<noteq> Inr False)"

definition guard_raises_exceptions :: "'g env \<Rightarrow> bool" where
  "guard_raises_exceptions E =
     (\<forall>k ttl g. case fst (guard_begin E k ttl g) of Inl e \<Rightarrow> is_Exception e | Inr _ \<Rightarrow> True)"

lemma acquire_no_failures:
  assumes "guard_raises_exceptions E"
  shows "\<exists>w'. acquire E C i a w =
           (Inr (fst (guard_begin E (key_for_attempt (queue_name C) i a) DEFAULT_TTL_SECONDS (guard_state w))
                  \<noteq> Inr False), w')
         \<and> broker_trace w' = broker_trace w"
proof -
  obtain r g where b: "guard_begin E (key_for_attempt (queue_name C) i a) DEFAULT_TTL_SECONDS (guard_state w) = (r, g)"
    by fastforce
  with assms have "\<And>e. r = Inl e \<Longrightarrow> is_Exception e"
    unfolding guard_raises_exceptions_def by (metis fst_conv old.sum.simps(5))
  with b show ?thesis
    by (cases r) (auto simp: acquire_def py_simps broker_trace_def)
qed

lemma handle_delivery_no_failures:
  assumes nf: "no_failures E" and guard: "guard_raises_exceptions E"
    and json: "json_loads E (m_body m) = Inr (PDict d)" and plain: "plain_envelope d"
    and exc: "\<And>e. snd (h (PDict d)) = Inl e \<Longrightarrow> is_Exception e"
  shows "\<exists>w'. handle_delivery E C h m w = (Inr (), w') \<and>
           broker_trace w' = broker_trace w @
             (if admitted E C m d (guard_state w) then expected_events E C h m d else [Acked])"
proof -
  let ?i = "dget d ''id''"
  let ?acq = "if truthy ?i then acquire E C (py_str E ?i) (attempt_of C m) else ret True"
  obtain w1 where w1: "?acq w = (Inr (admitted E C m d (guard_state w)), w1)" "broker_trace w1 = broker_trace w"
    using acquire_no_failures [OF guard, of C "py_str E ?i" "attempt_of C m" w]
    by (cases "truthy ?i") (auto simp: admitted_def ret_def)
  have "handle_payload E C h m (PDict d) w =
     (if \<not> admitted E C m d (guard_state w) then seqA (record_metric E ''record_duplicate'' []) (ack E)
      else process_payload E C h m (PDict d) (attempt_of C m)) w1"
    using w1 by (simp add: handle_payload_def bindA_def liftR_def)
  with addsD [OF adds_seq [OF adds_record_metric adds_ack [OF nf]], of E "''record_duplicate''" "[]" w1]
    addsD [OF adds_process_payload [where C = C and m = m and h = h, OF nf plain exc], where w = w1] w1(2)
  have "\<exists>w'. handle_payload E C h m (PDict d) w = (Inr (), w') \<and> broker_trace w' = broker_trace w @
             (if admitted E C m d (guard_state w) then expected_events E C h m d else [Acked])"
    by auto
  then show ?thesis by (auto simp: handle_delivery_def json tryA_def)
qed

section \<open>Bodies that are JSON but not an object\<close>

lemma handle_delivery_not_dict:
  assumes json: "json_loads E (m_body m) = Inr v" and v: "\<not> is_dict v"
  shows "if truthy v
         then \<exists>msg. handle_delivery E C h m w = (Inl (Exn ''AttributeError'' msg), w)
         else handle_delivery E C h m w = tryA (nack E True) (\<lambda>_. ret ()) w"
proof -
  obtain msg where msg: "get_attr v ''id'' = Inl (Exn ''AttributeError'' msg)"
    using get_attr_not_dict [OF v] by blast
  have "handle_payload E C h m v w = (Inl (Exn ''AttributeError'' msg), w)"
    by (simp add: handle_payload_def msg py_simps)
  then show ?thesis
    using msg
    by (auto simp: handle_delivery_def json tryA_def is_Exception_def last_resort_def py_or_def bindA_def
        liftR_def dget_def)
qed

section \<open>Every delivery\<close>

lemma handle_delivery_trace:
  assumes run: "handle_delivery E C h m w = (r, w')"
  shows "\<exists>pubs final. broker_trace w' = broker_trace w @ pubs @ final
           \<and> settles (owed E C h m) (guard_refuses E C m w) pubs final"
proof (cases "json_loads E (m_body m)")
  case (Inl e)
  let ?act = "if is_decode_error e
              then seqA (dead_letter E C m PNone (''parse error: '' @ exn_msg e)) (ack E) else raise e"
  have "\<exists>evs. broker_trace w1 = broker_trace w @ evs \<and>
      ((r1 = Inr () \<and> evs = [Acked] \<and> guard_refuses E C m w) \<or> ends_acked [Published (dlx_publication C m)] r1 evs)"
    if "?act w = (r1, w1)" for r1 w1
    using that tracesD [OF traces_dead_letter_ack_PNone, of E C m _ w r1 w1]
    by (cases "is_decode_error e") (auto simp: raise_def)
  moreover from run Inl have "tryA ?act (last_resort E PNone) w = (r, w')"
    by (simp add: handle_delivery_def)
  ultimately show ?thesis using try_last_resort_trace [of ?act E PNone w r w'] by (simp add: owed_def Inl)
next
  case (Inr payload)
  show ?thesis
  proof (cases "is_dict payload")
    case True
    then obtain d where d: "payload = PDict d" by (cases payload) auto
    from run Inr d have "tryA (handle_payload E C h m (PDict d)) (last_resort E (PDict d)) w = (r, w')"
      by (simp add: handle_delivery_def)
    from try_last_resort_trace [OF this, of "guard_refuses E C m w" "replacement E C h m d"]
      handle_payload_trace [where h = h and d = d and w = w] Inr d
    show ?thesis by (simp add: owed_def)
  next
    case False
    have due: "owed E C h m = None" using Inr False by (cases payload) (auto simp: owed_def)
    have "w' = w \<or> tryA (nack E True) (\<lambda>_. ret ()) w = (r, w')"
      using run handle_delivery_not_dict [OF Inr False, of C h w] by (cases "truthy payload") auto
    moreover have "traces (tryA (nack E True) (\<lambda>_. ret ())) (\<lambda>r evs. evs = [] \<or> evs = [Nacked True])"
      unfolding nack_def by (auto intro!: traces_try traces_broker_call traces_ret)
    from tracesD [OF this, of w r w'] have "tryA (nack E True) (\<lambda>_. ret ()) w = (r, w') \<Longrightarrow>
        broker_trace w' = broker_trace w \<or> broker_trace w' = broker_trace w @ [Nacked True]" by auto
    ultimately consider "broker_trace w' = broker_trace w" | "broker_trace w' = broker_trace w @ [Nacked True]" by auto
    then show ?thesis
    proof cases
      case 1
      then show ?thesis by (intro exI [of _ "[]"]) (simp add: settles_def due)
    next
      case 2
      then show ?thesis by (intro exI [of _ "[]"] exI [of _ "[Nacked True]"]) (simp add: settles_def due)
    qed
  qed
qed

end
