(* ===== verification/Consumer_Guard.thy ===== *)
theory Consumer_Guard
  imports Consumer_Facts
begin

text \<open>
  The delivery handler and the idempotency guard across two deliveries of one message. The
  handler claims the attempt's key before it processes and never gives it back, so a
  delivery that claimed the key and then failed to publish is requeued, and its redelivery
  is taken for a duplicate. Also here: the guard error path, and concrete environments.
\<close>

section \<open>Only the guard call changes the guard\<close>

definition keeps_guard :: "('g, 'a) step \<Rightarrow> bool" where
  "keeps_guard m = (\<forall>w. guard_state (snd (m w)) = guard_state w)"

lemma keeps_guard_ret [intro, simp]: "keeps_guard (ret x)"
  by (simp add: keeps_guard_def ret_def)

lemma keeps_guard_liftR [intro, simp]: "keeps_guard (liftR r)"
  by (simp add: keeps_guard_def liftR_def)

lemma keeps_guard_raise [intro, simp]: "keeps_guard (raise e)"
  by (simp add: keeps_guard_def raise_def)

lemma keeps_guard_emit [intro, simp]: "keeps_guard (emit evs)"
  by (simp add: keeps_guard_def emit_def modifyA_def)

lemma keeps_guard_broker_call [intro, simp]: "keeps_guard (broker_call E ev)"
  by (simp add: keeps_guard_def broker_call_def split: option.split)

lemma keeps_guard_record_metric [intro, simp]: "keeps_guard (record_metric E n args)"
  by (simp add: record_metric_def)

lemma keeps_guard_bind: "keeps_guard m \<Longrightarrow> (\<And>x. keeps_guard (f x)) \<Longrightarrow> keeps_guard (bindA m f)"
  unfolding keeps_guard_def bindA_def
  by (auto split: prod.split sum.split) (metis snd_conv)+

lemma keeps_guard_seq: "keeps_guard m \<Longrightarrow> keeps_guard n \<Longrightarrow> keeps_guard (seqA m n)"
  unfolding keeps_guard_def seqA_def
  by (auto split: prod.split sum.split) (metis snd_conv)+

lemma keeps_guard_try: "keeps_guard m \<Longrightarrow> (\<And>e. keeps_guard (h e)) \<Longrightarrow> keeps_guard (tryA m h)"
  unfolding keeps_guard_def tryA_def
  by (auto split: prod.split sum.split) (metis snd_conv)+

lemmas keeps_guard_rules = keeps_guard_bind keeps_guard_seq keeps_guard_try

lemma keeps_guard_publish_result [intro, simp]: "keeps_guard (publish_result E C p s err)"
  unfolding publish_result_def by (auto intro!: keeps_guard_rules)

lemma keeps_guard_dead_letter [intro, simp]: "keeps_guard (dead_letter E C m p err)"
  unfolding dead_letter_def by (auto intro!: keeps_guard_rules)

lemma keeps_guard_retry_or_dead_letter [intro, simp]: "keeps_guard (retry_or_dead_letter E C m p e a)"
  unfolding retry_or_dead_letter_def publish_retry_def
  by (auto intro!: keeps_guard_rules split: option.split)

lemma keeps_guard_ack [intro, simp]: "keeps_guard (ack E)"
  by (simp add: ack_def)

lemma keeps_guard_last_resort [intro, simp]: "keeps_guard (last_resort E p e)"
  unfolding last_resort_def nack_def by (auto intro!: keeps_guard_rules)

lemma keeps_guard_process_payload [intro, simp]: "keeps_guard (process_payload E C h m p a)"
proof -
  have run: "keeps_guard (run_handler h md p)" for md
    unfolding run_handler_def by (auto intro!: keeps_guard_rules)
  have "keeps_guard (\<lambda>w. case run_handler h (py_or md (PDict [])) p w of
         (Inr result, w1) \<Rightarrow> seqA (publish_result E C p (result_status result) None) (ack E) w1
       | (Inl e, w1) \<Rightarrow>
           if exn_type e = ''UnretryableError'' then seqA (dead_letter E C m p (exn_msg e)) (ack E) w1
           else if is_Exception e then seqA (retry_or_dead_letter E C m p e a) (ack E) w1
           else (Inl e, w1))" for md
    unfolding keeps_guard_def
  proof
    fix w :: "'a world"
    obtain r w1 where w1: "run_handler h (py_or md (PDict [])) p w = (r, w1)" by fastforce
    with run have "guard_state w1 = guard_state w" unfolding keeps_guard_def by (metis snd_conv)
    moreover have "keeps_guard (seqA (publish_result E C p (result_status x) None) (ack E))"
      "keeps_guard (seqA (dead_letter E C m p y) (ack E))"
      "keeps_guard (seqA (retry_or_dead_letter E C m p z a) (ack E))" for x y z
      by (auto intro!: keeps_guard_rules)
    ultimately show "guard_state (snd (case run_handler h (py_or md (PDict [])) p w of
         (Inr result, w1) \<Rightarrow> seqA (publish_result E C p (result_status result) None) (ack E) w1
       | (Inl e, w1) \<Rightarrow>
           if exn_type e = ''UnretryableError'' then seqA (dead_letter E C m p (exn_msg e)) (ack E) w1
           else if is_Exception e then seqA (retry_or_dead_letter E C m p e a) (ack E) w1
           else (Inl e, w1))) = guard_state w"
      using w1 unfolding keeps_guard_def by (auto split: sum.split)
  qed
  then show ?thesis unfolding process_payload_def by (intro keeps_guard_bind) auto
qed

lemma guard_state_acquire:
  "guard_state (snd (acquire E C i a w)) =
   snd (guard_begin E (key_for_attempt (queue_name C) i a) DEFAULT_TTL_SECONDS (guard_state w))"
  by (auto simp: acquire_def py_simps split: prod.split sum.split)

text \<open>A delivery with an id makes one guard call and leaves the state that call left.\<close>

lemma guard_state_handle_delivery:
  assumes json: "json_loads E (m_body m) = Inr (PDict d)" and id: "truthy (dget d ''id'')"
  shows "guard_state (snd (handle_delivery E C h m w)) =
         snd (guard_begin E (key_for_attempt (queue_name C) (py_str E (dget d ''id'')) (attempt_of C m))
                DEFAULT_TTL_SECONDS (guard_state w))"
proof -
  let ?a = "acquire E C (py_str E (dget d ''id'')) (attempt_of C m)"
  let ?f = "\<lambda>first. if \<not> first then seqA (record_metric E ''record_duplicate'' []) (ack E)
                   else process_payload E C h m (PDict d) (attempt_of C m)"
  have f: "keeps_guard (?f b)" for b by (auto intro!: keeps_guard_rules)
  have "handle_payload E C h m (PDict d) = bindA ?a ?f"
    using id by (simp add: handle_payload_def fun_eq_iff bindA_def liftR_def)
  moreover obtain r w1 where w1: "?a w = (r, w1)" by fastforce
  ultimately have "guard_state (snd (handle_payload E C h m (PDict d) w)) = guard_state w1"
    using f by (auto simp: bindA_def keeps_guard_def split: sum.split)
  moreover have "guard_state w1 = snd (guard_begin E
      (key_for_attempt (queue_name C) (py_str E (dget d ''id'')) (attempt_of C m))
      DEFAULT_TTL_SECONDS (guard_state w))"
    using guard_state_acquire [of E C "py_str E (dget d ''id'')" "attempt_of C m" w] w1 by simp
  moreover have "guard_state (snd (tryA (handle_payload E C h m (PDict d)) (last_resort E (PDict d)) w))
      = guard_state (snd (handle_payload E C h m (PDict d) w))"
    using keeps_guard_last_resort [of E "PDict d"]
    by (auto simp: tryA_def keeps_guard_def split: prod.split sum.split)
  ultimately show ?thesis by (simp add: handle_delivery_def json)
qed

lemma handle_delivery_duplicate:
  assumes nf: "no_failures E"
    and json: "json_loads E (m_body m) = Inr (PDict d)" and id: "truthy (dget d ''id'')"
    and dup: "guard_begin E (key_for_attempt (queue_name C) (py_str E (dget d ''id'')) (attempt_of C m))
                DEFAULT_TTL_SECONDS (guard_state w) = (Inr False, g)"
  shows "\<exists>w'. handle_delivery E C h m w = (Inr (), w') \<and> broker_trace w' = broker_trace w @ [Acked]"
proof -
  have "handle_payload E C h m (PDict d) w =
        seqA (record_metric E ''record_duplicate'' []) (ack E) (w\<lparr>guard_state := g\<rparr>)"
    using id dup by (simp add: handle_payload_def bindA_def liftR_def acquire_def)
  with addsD [OF adds_seq [OF adds_record_metric adds_ack [OF nf]], of E "''record_duplicate''" "[]"
      "w\<lparr>guard_state := g\<rparr>"]
  have "\<exists>w'. handle_payload E C h m (PDict d) w = (Inr (), w') \<and>
             broker_trace w' = broker_trace w @ [Acked]"
    by (auto simp: broker_trace_def)
  then show ?thesis by (auto simp: handle_delivery_def json tryA_def)
qed

section \<open>The environment over the in-process guard\<close>

text \<open>The environment \<open>E\<close> with the in-process guard, read at time \<open>now\<close>.\<close>

definition in_memory_env :: "rat \<Rightarrow> seen env \<Rightarrow> seen env" where
  "in_memory_env now E = E\<lparr>guard_begin := in_memory_begin now\<rparr>"

lemma in_memory_env_simps [simp]:
  "guard_begin (in_memory_env now E) = in_memory_begin now"
  "json_loads (in_memory_env now E) = json_loads E"
  "broker_fails (in_memory_env now E) = broker_fails E"
  "py_str (in_memory_env now E) = py_str E"
  "no_failures (in_memory_env now E) = no_failures E"
  by (simp_all add: in_memory_env_def py_str_def no_failures_def fun_eq_iff split: pyval.split)

lemma in_memory_second_begin:
  "in_memory_begin now k ttl g = (Inr True, g1) \<Longrightarrow> later < now + of_int ttl \<Longrightarrow>
   in_memory_begin later k ttl' g1 = (Inr False, g1)"
  by (auto simp: in_memory_begin_def split: option.splits if_splits)

lemma guard_raises_exceptions_in_memory: "guard_raises_exceptions (in_memory_env now E)"
  unfolding guard_raises_exceptions_def
proof (intro allI)
  fix k ttl g
  obtain b g' where "in_memory_begin now k ttl g = (Inr b, g')"
    using in_memory_never_raises [of now k ttl g] by blast
  then show "case fst (guard_begin (in_memory_env now E) k ttl g) of Inl e \<Rightarrow> is_Exception e | Inr _ \<Rightarrow> True"
    by simp
qed

section \<open>A concrete environment\<close>

text \<open>
  A worker with the default names, an envelope, a handler that returns and one that raises,
  and a broker that refuses its first call, for evaluating the theorems.
\<close>

definition demo_consumer :: consumer where
  "demo_consumer = init_consumer []"

definition demo_envelope :: dict where
  "demo_envelope = [(''id'', PStr ''e1''), (''type'', PStr ''document.process''),
     (''payload'', PDict [(''document_id'', PStr ''d1'')])]"

definition demo_message :: message where
  "demo_message = \<lparr> m_body = ''b'', m_headers = None, m_content_type = None,
     m_message_id = Some ''e1'', m_correlation_id = None \<rparr>"

definition demo_env :: "(nat \<Rightarrow> exn option) \<Rightarrow> pyval \<Rightarrow> seen env" where
  "demo_env fails body =
     \<lparr> broker_fails = fails, guard_begin = in_memory_begin 0, json_loads = (\<lambda>_. Inr body),
       str_of_other = (\<lambda>_. []), has_metrics = True, fresh_id = ''r1'', now_iso = ''t'' \<rparr>"

definition demo_world :: "seen world" where
  "demo_world = \<lparr> events = [], calls = 0, guard_state = [] \<rparr>"

definition ok_handler :: handler where
  "ok_handler _ = ([], Inr (PDict [(''status'', PStr ''completed'')]))"

definition failing_handler :: handler where
  "failing_handler _ = ([], Inl (Exn ''TimeoutError'' ''slow''))"

definition no_broker_failure :: "nat \<Rightarrow> exn option" where
  "no_broker_failure _ = None"

definition first_call_fails :: "nat \<Rightarrow> exn option" where
  "first_call_fails n = (if n = 0 then Some (Exn ''AMQPError'' ''down'') else None)"

lemmas demo_defs = demo_consumer_def demo_envelope_def demo_message_def demo_env_def demo_world_def
  ok_handler_def failing_handler_def no_broker_failure_def first_call_fails_def
  init_consumer_def cfg_get_def

end
