(* ===== verification/Consumer_Properties.thy ===== *)
theory Consumer_Properties
  imports Consumer_Guard
begin

text \<open>
  The properties of the delivery handler, each over the definitions of \<open>Consumer\<close>, with a
  witness on the concrete environment of \<open>Consumer_Guard\<close>.
\<close>

text \<open>C1: Whatever calls to the broker raise, one delivery leaves behind a part of the
  publications owed for it, followed by nothing, one ack, or one requeuing nack. An ack comes
  only after all of them, exactly (\<open>owed\<close>): the result of a success (none for an object without
  entries), the next tier's retry of a failure that can be retried, otherwise the dead letter
  and a failed result, the dead letter alone for a body that is not JSON; or with nothing
  published when the guard reported a duplicate. A body that is no object is never acked.\<close>

theorem ack_only_after_replacement:
  assumes "handle_delivery E C h m w = (r, w')"
  shows "\<exists>pubs final. broker_trace w' = broker_trace w @ pubs @ final
           \<and> final \<in> {[], [Acked], [Nacked True]}
           \<and> (final = [Acked] \<longrightarrow> owed E C h m = Some pubs \<or> (pubs = [] \<and> guard_refuses E C m w))
           \<and> (\<exists>n. pubs = take n (case owed E C h m of None \<Rightarrow> [] | Some L \<Rightarrow> L))"
  using handle_delivery_trace [OF assms] by (simp add: settles_def)

lemma ack_only_after_replacement_witness:
  "handle_delivery (demo_env first_call_fails (PDict demo_envelope)) demo_consumer ok_handler demo_message demo_world
     = (Inr (), \<lparr> events = [Nacked True], calls = 2, guard_state = [(''idem:document-processing:e1:0'', 86400)] \<rparr>)
   \<and> (\<exists>pubs final. [Nacked True] = pubs @ final \<and> final \<in> {[], [Acked], [Nacked True]})"
proof -
  have run: "handle_delivery (demo_env first_call_fails (PDict demo_envelope)) demo_consumer ok_handler
      demo_message demo_world
    = (Inr (), \<lparr> events = [Nacked True], calls = 2, guard_state = [(''idem:document-processing:e1:0'', 86400)] \<rparr>)"
    by code_simp
  from ack_only_after_replacement [OF run] run show ?thesis
    by (auto simp: broker_trace_def demo_world_def)
qed

text \<open>C2: With a broker that accepts every call, an admitted envelope is handled exactly as
  the table \<open>expected_events\<close> says (result published on success; the next tier's retry on a
  retryable failure; the dead-letter exchange and a failed result when the tiers are used up
  or the failure is unretryable), then acked; an envelope the guard refuses is only acked.
  A failing guard admits the envelope: the handler fails open.\<close>

theorem delivery_exact_events:
  assumes "no_failures E" and "guard_raises_exceptions E"
    and "json_loads E (m_body m) = Inr (PDict d)" and "plain_envelope d"
    and "\<And>e. snd (h (PDict d)) = Inl e \<Longrightarrow> is_Exception e"
  shows "\<exists>w'. handle_delivery E C h m w = (Inr (), w') \<and>
           broker_trace w' = broker_trace w @
             (if \<not> truthy (dget d ''id'') \<or>
                 fst (guard_begin E (key_for_attempt (queue_name C) (py_str E (dget d ''id'')) (attempt_of C m))
                        DEFAULT_TTL_SECONDS (guard_state w)) \<noteq> Inr False
              then expected_events E C h m d else [Acked])"
  using handle_delivery_no_failures [OF assms] by (simp add: admitted_def)

lemma delivery_exact_events_witness:
  "(\<exists>w'. handle_delivery (demo_env no_broker_failure (PDict demo_envelope)) demo_consumer failing_handler
            demo_message demo_world = (Inr (), w') \<and>
         broker_trace w' = [Published (retry_publication demo_consumer demo_message ''5s''), Acked])"
proof -
  let ?E = "demo_env no_broker_failure (PDict demo_envelope)"
  have nf: "no_failures ?E" by (simp add: no_failures_def demo_defs)
  have gr: "guard_raises_exceptions ?E"
    using guard_raises_exceptions_in_memory [of 0 ?E] by (simp add: in_memory_env_def demo_env_def)
  have js: "json_loads ?E (m_body demo_message) = Inr (PDict demo_envelope)" by (simp add: demo_env_def)
  have pl: "plain_envelope demo_envelope" by code_simp
  have ex: "snd (failing_handler (PDict demo_envelope)) = Inl e \<Longrightarrow> is_Exception e" for e
    by (auto simp: failing_handler_def is_Exception_def)
  have adm: "fst (guard_begin ?E (key_for_attempt (queue_name demo_consumer) (py_str ?E (dget demo_envelope ''id''))
      (attempt_of demo_consumer demo_message)) DEFAULT_TTL_SECONDS (guard_state demo_world)) = Inr True"
    by code_simp
  have exp_ev: "expected_events ?E demo_consumer failing_handler demo_message demo_envelope =
      [Published (retry_publication demo_consumer demo_message ''5s''), Acked]"
    by code_simp
  have "broker_trace demo_world = []" by code_simp
  with delivery_exact_events [where h = failing_handler, OF nf gr js pl ex, where C = demo_consumer and w = demo_world]
    adm exp_ev show ?thesis by simp
qed

text \<open>A delivery whose first call to the broker, the publication of its outcome, raises: nothing is published.\<close>

lemma process_first_call_fails:
  assumes fails: "broker_fails E (calls w) = Some e" and plain: "plain_envelope d" and d: "d \<noteq> []"
    and exc: "\<And>x. snd (h (PDict d)) = Inl x \<Longrightarrow> is_Exception x"
  shows "\<exists>w'. process_payload E C h m (PDict d) a w = (Inl e, w') \<and> broker_trace w' = broker_trace w
           \<and> calls w' = Suc (calls w)"
proof -
  from plain obtain x where md: "get_attr (py_or (dget d ''metadata'') (PDict [])) ''trace_id'' = Inr x"
    using get_attr_or_empty by (auto simp: plain_envelope_def)
  from plain obtain y where doc: "get_attr (py_or (dget d ''payload'') (PDict [])) ''document_id'' = Inr y"
    using get_attr_or_empty by (auto simp: plain_envelope_def)
  define w1 where "w1 = w\<lparr>events := events w @ map (\<lambda>(n, args). Recorded n args) (fst (h (PDict d)))\<rparr>"
  have run: "run_handler h (py_or (dget d ''metadata'') (PDict [])) (PDict d) w = (snd (h (PDict d)), w1)"
    by (simp add: run_handler_def py_simps md [unfolded py_simps] w1_def)
  have call: "broker_call E ev w1 = (Inl e, w1\<lparr>calls := Suc (calls w)\<rparr>)" for ev
    using fails by (simp add: broker_call_def w1_def)
  have pub: "publish_result E C (PDict d) st err w1 = (Inl e, w1\<lparr>calls := Suc (calls w)\<rparr>)" for st err
    using d doc by (simp add: publish_result_def bindA_def liftR_def call)
  have dead: "dead_letter E C m (PDict d) err w1 = (Inl e, w1\<lparr>calls := Suc (calls w)\<rparr>)" for err
    by (simp add: dead_letter_def seqA_def call)
  have retry: "retry_or_dead_letter E C m (PDict d) z a w1 = (Inl e, w1\<lparr>calls := Suc (calls w)\<rparr>)" for z
    by (simp add: retry_or_dead_letter_def publish_retry_def seqA_def call dead split: option.split)
  have "process_payload E C h m (PDict d) a w = (Inl e, w1\<lparr>calls := Suc (calls w)\<rparr>)"
    using run exc by (simp add: process_payload_def bindA_def liftR_def seqA_def pub dead retry split: sum.split)
  moreover have "broker_trace (w1\<lparr>calls := Suc (calls w)\<rparr>) = broker_trace w"
    by (auto simp: w1_def broker_trace_def filter_empty_conv)
  ultimately show ?thesis by auto
qed

lemma requeued_on_failure:
  assumes json: "json_loads E (m_body m) = Inr (PDict d)" and id: "truthy (dget d ''id'')" and plain: "plain_envelope d"
    and granted: "guard_begin E (key_for_attempt (queue_name C) (py_str E (dget d ''id'')) (attempt_of C m))
                    DEFAULT_TTL_SECONDS (guard_state w) = (Inr True, g)"
    and exc: "\<And>x. snd (h (PDict d)) = Inl x \<Longrightarrow> is_Exception x"
    and fails: "broker_fails E (calls w) = Some e" "is_Exception e" and nacked: "broker_fails E (Suc (calls w)) = None"
  shows "\<exists>w1. handle_delivery E C h m w = (Inr (), w1) \<and> broker_trace w1 = broker_trace w @ [Nacked True]"
proof -
  let ?w = "w\<lparr>guard_state := g\<rparr>"
  have d: "d \<noteq> []" using id by (auto simp: dget_def)
  obtain w' where w': "process_payload E C h m (PDict d) (attempt_of C m) ?w = (Inl e, w')"
    "broker_trace w' = broker_trace ?w" "calls w' = Suc (calls ?w)"
    using process_first_call_fails [where w = ?w and h = h, OF _ plain d exc] fails(1) by fastforce
  have "handle_payload E C h m (PDict d) w = (Inl e, w')"
    using id granted w'(1) by (simp add: handle_payload_def bindA_def liftR_def acquire_def)
  then have "handle_delivery E C h m w = last_resort E (PDict d) e w'"
    using fails(2) by (simp add: handle_delivery_def json tryA_def)
  also have "\<dots> = (Inr (), w'\<lparr>calls := Suc (calls w'), events := events w' @ [Nacked True]\<rparr>)"
    using nacked w'(3) d by (simp add: last_resort_def py_simps nack_def)
  finally show ?thesis using w'(2) by (simp add: broker_trace_def)
qed

text \<open>C4: A delivery that claimed its attempt's key and whose publication is refused by the broker
  publishes nothing and is requeued, by the last resort that is meant to keep the message; but its
  redelivery inside the guard's window, with the broker accepting every call, is acked as a
  duplicate without any publication, whatever the handler would do. The message is lost.\<close>

theorem requeued_delivery_is_lost:
  assumes json: "json_loads E (m_body m) = Inr (PDict d)" and id: "truthy (dget d ''id'')" and plain: "plain_envelope d"
    and granted: "in_memory_begin now (key_for_attempt (queue_name C) (py_str E (dget d ''id'')) (attempt_of C m))
                    DEFAULT_TTL_SECONDS (guard_state w) = (Inr True, g)"
    and exc: "\<And>x. snd (h (PDict d)) = Inl x \<Longrightarrow> is_Exception x"
    and fails: "broker_fails E (calls w) = Some e" "is_Exception e" and nacked: "broker_fails E (Suc (calls w)) = None"
    and window: "later < now + of_int DEFAULT_TTL_SECONDS"
  shows "\<exists>w1 w2. handle_delivery (in_memory_env now E) C h m w = (Inr (), w1)
           \<and> broker_trace w1 = broker_trace w @ [Nacked True]
           \<and> handle_delivery (in_memory_env later (E\<lparr>broker_fails := no_broker_failure\<rparr>)) C h' m w1 = (Inr (), w2)
           \<and> broker_trace w2 = broker_trace w1 @ [Acked]"
proof -
  let ?E2 = "E\<lparr>broker_fails := no_broker_failure\<rparr>"
  obtain w1 where w1: "handle_delivery (in_memory_env now E) C h m w = (Inr (), w1)"
    "broker_trace w1 = broker_trace w @ [Nacked True]"
    using requeued_on_failure [where E = "in_memory_env now E" and h = h and w = w, OF _ id plain _ exc]
      json granted fails nacked by fastforce
  have same: "py_str ?E2 = py_str E" by (simp add: py_str_def fun_eq_iff split: pyval.split)
  have "guard_state w1 = g"
    using guard_state_handle_delivery [of "in_memory_env now E" m d C h w] json id w1(1) granted by simp
  with in_memory_second_begin [OF granted window] same
  have dup: "guard_begin (in_memory_env later ?E2)
      (key_for_attempt (queue_name C) (py_str (in_memory_env later ?E2) (dget d ''id'')) (attempt_of C m))
      DEFAULT_TTL_SECONDS (guard_state w1) = (Inr False, g)" by simp
  have "\<exists>w2. handle_delivery (in_memory_env later ?E2) C h' m w1 = (Inr (), w2) \<and> broker_trace w2 = broker_trace w1 @ [Acked]"
    by (rule handle_delivery_duplicate [OF _ _ id dup]) (use json in \<open>simp_all add: no_failures_def no_broker_failure_def\<close>)
  with w1 show ?thesis by blast
qed

lemma requeued_delivery_is_lost_witness:
  "\<exists>w1 w2. handle_delivery (in_memory_env 0 (demo_env first_call_fails (PDict demo_envelope))) demo_consumer failing_handler
     demo_message demo_world = (Inr (), w1)
   \<and> broker_trace w1 = [Nacked True]
   \<and> handle_delivery (in_memory_env 5 (demo_env no_broker_failure (PDict demo_envelope)))
        demo_consumer ok_handler demo_message w1 = (Inr (), w2)
   \<and> broker_trace w2 = [Nacked True, Acked]"
proof -
  let ?E = "demo_env first_call_fails (PDict demo_envelope)"
  have js: "json_loads ?E (m_body demo_message) = Inr (PDict demo_envelope)" by (simp add: demo_env_def)
  have id: "truthy (dget demo_envelope ''id'')" and pl: "plain_envelope demo_envelope" by code_simp+
  have g: "in_memory_begin 0 (key_for_attempt (queue_name demo_consumer) (py_str ?E (dget demo_envelope ''id''))
      (attempt_of demo_consumer demo_message)) DEFAULT_TTL_SECONDS (guard_state demo_world)
    = (Inr True, [(''idem:document-processing:e1:0'', 86400)])" by code_simp
  have ex: "snd (failing_handler (PDict demo_envelope)) = Inl x \<Longrightarrow> is_Exception x" for x
    by (auto simp: failing_handler_def is_Exception_def)
  have fl: "broker_fails ?E (calls demo_world) = Some (Exn ''AMQPError'' ''down'')" "is_Exception (Exn ''AMQPError'' ''down'')"
    "broker_fails ?E (Suc (calls demo_world)) = None" by code_simp+
  have w: "(5::rat) < 0 + of_int DEFAULT_TTL_SECONDS" by (simp add: DEFAULT_TTL_SECONDS_def)
  have env: "?E\<lparr>broker_fails := no_broker_failure\<rparr> = demo_env no_broker_failure (PDict demo_envelope)"
    by (simp add: demo_env_def)
  have "broker_trace demo_world = []" by code_simp
  with requeued_delivery_is_lost [where h = failing_handler and h' = ok_handler, OF js id pl g ex fl w] env
  show ?thesis by fastforce
qed

text \<open>A body that is valid JSON but not an object is never settled. Where the value is
  truthy (a number, a string, a list) the \<open>except\<close> clause itself raises
  \<open>AttributeError\<close>, nothing is published, acked or requeued, and the exception leaves the
  handler; where it is falsy (\<open>null\<close>, \<open>0\<close>, an empty list) the delivery is requeued, and so is
  every redelivery of it.\<close>

theorem non_object_body_never_settles:
  assumes json: "json_loads E (m_body m) = Inr v" and v: "\<not> is_dict v" and nf: "no_failures E"
  shows "if truthy v
         then \<exists>msg. handle_delivery E C h m w = (Inl (Exn ''AttributeError'' msg), w)
         else \<exists>w'. handle_delivery E C h m w = (Inr (), w') \<and>
                broker_trace w' = broker_trace w @ [Nacked True] \<and> guard_state w' = guard_state w"
proof (cases "truthy v")
  case True
  with handle_delivery_not_dict [OF json v] show ?thesis by auto
next
  case False
  from nf have "tryA (nack E True) (\<lambda>_. ret ()) w =
      (Inr (), w\<lparr>calls := Suc (calls w), events := events w @ [Nacked True]\<rparr>)"
    by (simp add: no_failures_def py_simps)
  with False handle_delivery_not_dict [OF json v, of C h w] show ?thesis
    by (auto simp: broker_trace_def)
qed

lemma non_object_body_never_settles_witness:
  "(\<exists>msg. handle_delivery (demo_env no_broker_failure (PList [PInt 1])) demo_consumer ok_handler demo_message demo_world
       = (Inl (Exn ''AttributeError'' msg), demo_world))
   \<and> (\<exists>w'. handle_delivery (demo_env no_broker_failure PNone) demo_consumer ok_handler demo_message demo_world
       = (Inr (), w') \<and> broker_trace w' = [Nacked True])"
proof -
  have js: "json_loads (demo_env no_broker_failure v) (m_body demo_message) = Inr v" for v
    by (simp add: demo_env_def)
  have nf: "no_failures (demo_env no_broker_failure v)" for v by (simp add: no_failures_def demo_defs)
  have d: "\<not> is_dict (PList [PInt 1])" "\<not> is_dict PNone" "broker_trace demo_world = []" by code_simp+
  show ?thesis
    using non_object_body_never_settles [OF js d(1) nf, of demo_consumer ok_handler demo_world]
      non_object_body_never_settles [OF js d(2) nf, of demo_consumer ok_handler demo_world] d(3) by auto
qed

end
