(* ===== verification/Reconnect.thy ===== *)
theory Reconnect
  imports Consumer_Guard
begin

text \<open>
  \<open>connect\<close>, \<open>consume\<close> and \<open>close\<close> of \<open>src/worker/consumer.py\<close> and \<open>start\<close> of
  \<open>src/worker/base_worker.py\<close>: the stale connection, the passive declares, the reconnect
  loop with its capped backoff, the delivery loop, cancellation and shutdown.

  The broker and the event loop are given as a list of attempts: what each call of one pass
  of the loop does (\<open>None\<close>: it returns; \<open>Some e\<close>: it raises \<open>e\<close>), the messages that arrive,
  and how the iterator ends. \<open>shutdown_at k\<close> is the value of the shutdown flag when it is
  read for the \<open>k\<close>-th time. When the list is used up the loop is still running. What closing
  the queue iterator raises counts as the way the iterator ends.
\<close>

section \<open>State and environment\<close>

record attempt =
  stale_is_closed :: bool
  stale_close :: "exn option"
  dial :: "exn option"
  open_channel :: "exn option"
  declares :: "string \<Rightarrow> exn option"
  incoming :: "message list"
  iterator_end :: "exn option"
  sleep_result :: "exn option"

datatype conn_event =
    Dialed
  | ClosedConn
  | Verified string
  | Slept rat

record 'g cstate =
  world :: "'g world"
  connection :: "bool option"     \<comment> \<open>\<open>Some True\<close>: a connection that was not closed by this side\<close>
  open_conns :: nat               \<comment> \<open>connections dialed and not closed by either side\<close>
  backoff :: rat
  checks :: nat
  log :: "conn_event list"

record 'g params =
  p_env :: "'g env"
  p_consumer :: consumer
  p_handler :: handler
  is_amqp_error :: "exn \<Rightarrow> bool"
  is_channel_closed :: "exn \<Rightarrow> bool"
  shutdown_at :: "nat \<Rightarrow> bool"

type_synonym ('g, 'a) cstep = "('g cstate, 'a) act"

definition INITIAL_BACKOFF_SECONDS :: rat where
  "INITIAL_BACKOFF_SECONDS = 1"

definition MAX_BACKOFF_SECONDS :: rat where
  "MAX_BACKOFF_SECONDS = 30"

text \<open>\<open>OSError\<close> and the standard classes derived from it.\<close>

definition is_os_error :: "exn \<Rightarrow> bool" where
  "is_os_error e = (exn_type e \<in>
     {''OSError'', ''ConnectionError'', ''ConnectionRefusedError'', ''ConnectionResetError'',
      ''ConnectionAbortedError'', ''BrokenPipeError'', ''TimeoutError'', ''gaierror'',
      ''FileNotFoundError'', ''PermissionError'', ''InterruptedError'', ''BlockingIOError''})"

definition logs :: "conn_event \<Rightarrow> ('g, unit) cstep" where
  [py_simps]: "logs ev = modifyA (\<lambda>s. s\<lparr>log := log s @ [ev]\<rparr>)"

definition external :: "exn option \<Rightarrow> ('g, unit) cstep" where
  [py_simps]: "external r = (case r of None \<Rightarrow> ret () | Some e \<Rightarrow> raise e)"

text \<open>Reading the shutdown flag.\<close>

definition shutdown_flag :: "'g params \<Rightarrow> ('g, bool) cstep" where
  [py_simps]: "shutdown_flag P s = (Inr (shutdown_at P (checks s)), s\<lparr>checks := Suc (checks s)\<rparr>)"

section \<open>\<open>connect\<close>\<close>

definition drop_stale :: "attempt \<Rightarrow> ('g, unit) cstep" where
  "drop_stale a s =
     (case connection s of
        None \<Rightarrow> (Inr (), s)
      | Some _ \<Rightarrow>
          if stale_is_closed a then (Inr (), s\<lparr>connection := None, open_conns := open_conns s - 1\<rparr>)
          else (case stale_close a of
             None \<Rightarrow> (Inr (), s\<lparr>connection := None, open_conns := open_conns s - 1, log := log s @ [ClosedConn]\<rparr>)
           | Some e \<Rightarrow> if is_Exception e then (Inr (), s\<lparr>connection := None\<rparr>) else (Inl e, s)))"

definition dial_broker :: "attempt \<Rightarrow> ('g, unit) cstep" where
  "dial_broker a = seqA (external (dial a))
     (modifyA (\<lambda>s. s\<lparr>connection := Some True, open_conns := Suc (open_conns s), log := log s @ [Dialed]\<rparr>))"

fun verify_names :: "'g params \<Rightarrow> attempt \<Rightarrow> string list \<Rightarrow> ('g, unit) cstep" where
  "verify_names P a [] s = (Inr (), s)"
| "verify_names P a (n # ns) s =
     (case declares a n of
        None \<Rightarrow> verify_names P a ns (s\<lparr>log := log s @ [Verified n]\<rparr>)
      | Some e \<Rightarrow>
          if is_channel_closed P e
          then (Inl (Exn ''TopologyMissingError'' ''document-tasks topology not present (passive declare failed)''), s)
          else (Inl e, s))"

definition topology_names :: "consumer \<Rightarrow> string list" where
  "topology_names C = [exchange_name C, retry_exchange_name C, dlx_exchange_name C, results_exchange_name C,
     queue_name C]"

definition connect :: "'g params \<Rightarrow> attempt \<Rightarrow> ('g, unit) cstep" where
  "connect P a =
     seqA (drop_stale a) (seqA (dial_broker a) (seqA (external (open_channel a))
       (verify_names P a (topology_names (p_consumer P)))))"

section \<open>\<open>consume\<close>\<close>

definition deliver :: "'g params \<Rightarrow> message \<Rightarrow> ('g, unit) cstep" where
  "deliver P m s =
     (case handle_delivery (p_env P) (p_consumer P) (p_handler P) m (world s) of
        (r, w) \<Rightarrow> (r, s\<lparr>world := w\<rparr>))"

text \<open>The \<open>async for\<close>: the flag is read before each message.\<close>

fun deliver_all :: "'g params \<Rightarrow> exn option \<Rightarrow> message list \<Rightarrow> ('g, unit) cstep" where
  "deliver_all P fin [] s = external fin s"
| "deliver_all P fin (m # ms) s =
     (case shutdown_flag P s of
        (_, s1) \<Rightarrow>
          if shutdown_at P (checks s) then (Inr (), s1)
          else (case deliver P m s1 of
                  (Inl e, s2) \<Rightarrow> (Inl e, s2)
                | (Inr _, s2) \<Rightarrow> deliver_all P fin ms s2))"

definition session_once :: "'g params \<Rightarrow> attempt \<Rightarrow> ('g, unit) cstep" where
  "session_once P a =
     seqA (connect P a)
       (seqA (modifyA (\<lambda>s. s\<lparr>backoff := INITIAL_BACKOFF_SECONDS\<rparr>))
          (deliver_all P (iterator_end a) (incoming a)))"

text \<open>The exceptions the loop survives.\<close>

definition survivable :: "'g params \<Rightarrow> exn \<Rightarrow> bool" where
  "survivable P e =
     (exn_type e \<noteq> ''CancelledError'' \<and>
      (exn_type e = ''TopologyMissingError'' \<or> is_amqp_error P e \<or> is_os_error e))"

datatype outcome = Running | Returned | Raised exn

definition back_off :: "attempt \<Rightarrow> ('g, unit) cstep" where
  "back_off a s =
     (case sleep_result a of
        Some e \<Rightarrow> (Inl e, s)
      | None \<Rightarrow> (Inr (), s\<lparr>log := log s @ [Slept (backoff s)],
                         backoff := min (backoff s * 2) MAX_BACKOFF_SECONDS\<rparr>))"

fun consume_loop :: "'g params \<Rightarrow> attempt list \<Rightarrow> 'g cstate \<Rightarrow> outcome \<times> 'g cstate" where
  "consume_loop P [] s = (Running, s)"
| "consume_loop P (a # as) s =
     (if shutdown_at P (checks s) then (Returned, s\<lparr>checks := Suc (checks s)\<rparr>)
      else (case session_once P a (s\<lparr>checks := Suc (checks s)\<rparr>) of
          (Inr _, s1) \<Rightarrow> (Returned, s1)
        | (Inl e, s1) \<Rightarrow>
            if \<not> survivable P e then (Raised e, s1)
            else if shutdown_at P (checks s1) then (Returned, s1\<lparr>checks := Suc (checks s1)\<rparr>)
            else (case back_off a (s1\<lparr>checks := Suc (checks s1)\<rparr>) of
                (Inl e', s2) \<Rightarrow> (Raised e', s2)
              | (Inr _, s2) \<Rightarrow> consume_loop P as s2)))"

definition consume :: "'g params \<Rightarrow> attempt list \<Rightarrow> 'g cstate \<Rightarrow> outcome \<times> 'g cstate" where
  "consume P as s = consume_loop P as (s\<lparr>backoff := INITIAL_BACKOFF_SECONDS\<rparr>)"

section \<open>\<open>close\<close> and \<open>start\<close>\<close>

text \<open>\<open>close_result\<close> is what closing the connection raises.\<close>

definition close_consumer :: "exn option \<Rightarrow> ('g, unit) cstep" where
  "close_consumer close_result s =
     (case connection s of
        None \<Rightarrow> (Inr (), s)
      | Some _ \<Rightarrow> (case close_result of
            Some e \<Rightarrow> (Inl e, s)
          | None \<Rightarrow> (Inr (), s\<lparr>open_conns := open_conns s - 1, log := log s @ [ClosedConn]\<rparr>)))"

text \<open>
  \<open>start\<close> after the signal handlers and the probes: the loop, a cancellation absorbed, and
  the connection closed in any case. The exception of \<open>close\<close> replaces that of the loop.
\<close>

definition start :: "'g params \<Rightarrow> exn option \<Rightarrow> attempt list \<Rightarrow> 'g cstate \<Rightarrow> outcome \<times> 'g cstate" where
  "start P close_result as s =
     (case consume P as s of
        (Running, s1) \<Rightarrow> (Running, s1)
      | (out, s1) \<Rightarrow>
          (case close_consumer close_result s1 of
             (Inl e, s2) \<Rightarrow> (Raised e, s2)
           | (Inr _, s2) \<Rightarrow>
               ((case out of
                   Raised e \<Rightarrow> if exn_type e = ''CancelledError'' then Returned else Raised e
                 | _ \<Rightarrow> out), s2)))"

section \<open>Facts\<close>

abbreviation sleeps :: "'g cstate \<Rightarrow> rat list" where
  "sleeps s \<equiv> concat (map (\<lambda>ev. case ev of Slept r \<Rightarrow> [r] | _ \<Rightarrow> []) (log s))"

text \<open>An attempt that fails before it consumes, with an exception the loop survives.\<close>

definition fails_to_connect :: "'g params \<Rightarrow> attempt \<Rightarrow> bool" where
  "fails_to_connect P a =
     (case dial a of
        Some e \<Rightarrow> survivable P e
      | None \<Rightarrow> (case open_channel a of
          Some e \<Rightarrow> survivable P e
        | None \<Rightarrow> (\<exists>n \<in> set (topology_names (p_consumer P)). declares a n \<noteq> None) \<and>
            (\<forall>n \<in> set (topology_names (p_consumer P)). \<forall>e. declares a n = Some e \<longrightarrow>
               is_channel_closed P e \<or> survivable P e)))"

lemma verify_names_log:
  "verify_names P a ns s = (r, s') \<Longrightarrow>
   world s' = world s \<and> connection s' = connection s \<and> open_conns s' = open_conns s
   \<and> backoff s' = backoff s \<and> checks s' = checks s \<and> sleeps s' = sleeps s"
  by (induction ns arbitrary: s) (auto split: option.splits if_splits)

lemma verify_names_fails:
  assumes "\<exists>n \<in> set ns. declares a n \<noteq> None"
    and "\<forall>n \<in> set ns. \<forall>e. declares a n = Some e \<longrightarrow> is_channel_closed P e \<or> survivable P e"
  shows "\<exists>e s'. verify_names P a ns s = (Inl e, s') \<and> survivable P e"
  using assms
proof (induction ns arbitrary: s)
  case Nil
  then show ?case by simp
next
  case (Cons n ns)
  show ?case
  proof (cases "declares a n")
    case None
    with Cons.prems Cons.IH [of "s\<lparr>log := log s @ [Verified n]\<rparr>"] show ?thesis by auto
  next
    case (Some e)
    with Cons.prems show ?thesis by (auto simp: survivable_def)
  qed
qed

lemma drop_stale_frame:
  "drop_stale a s = (r, s') \<Longrightarrow> world s' = world s \<and> backoff s' = backoff s \<and> checks s' = checks s \<and> sleeps s' = sleeps s"
  by (auto simp: drop_stale_def split: option.splits if_splits)

lemma connect_frame:
  "connect P a s = (r, s') \<Longrightarrow> world s' = world s \<and> backoff s' = backoff s \<and> checks s' = checks s \<and> sleeps s' = sleeps s"
  unfolding connect_def dial_broker_def external_def
  by (auto simp: py_simps dest!: drop_stale_frame verify_names_log split: prod.splits sum.splits option.splits)

lemma connect_fails:
  assumes fails: "fails_to_connect P a" and close: "\<And>e. stale_close a = Some e \<Longrightarrow> is_Exception e"
  shows "\<exists>e s'. connect P a s = (Inl e, s') \<and> survivable P e"
proof -
  have "\<exists>s1. drop_stale a s = (Inr (), s1)"
    using close
    by (cases "connection s"; cases "stale_close a"; cases "stale_is_closed a") (auto simp: drop_stale_def)
  then obtain s1 where s1: "drop_stale a s = (Inr (), s1)" by blast
  show ?thesis
  proof (cases "dial a")
    case (Some e)
    with fails s1 show ?thesis
      by (simp add: connect_def dial_broker_def seqA_def external_def raise_def fails_to_connect_def)
  next
    case None
    show ?thesis
    proof (cases "open_channel a")
      case (Some e)
      with fails s1 None show ?thesis
        by (simp add: connect_def dial_broker_def seqA_def external_def raise_def ret_def modifyA_def
            fails_to_connect_def)
    next
      case ch: None
      from fails None ch have "\<exists>n \<in> set (topology_names (p_consumer P)). declares a n \<noteq> None"
        and "\<forall>n \<in> set (topology_names (p_consumer P)). \<forall>e. declares a n = Some e \<longrightarrow>
               is_channel_closed P e \<or> survivable P e"
        by (simp_all add: fails_to_connect_def)
      from verify_names_fails [OF this] s1 None ch show ?thesis
        by (simp add: connect_def dial_broker_def seqA_def external_def ret_def modifyA_def)
    qed
  qed
qed

text \<open>The capped doubling.\<close>

fun backoffs :: "nat \<Rightarrow> rat \<Rightarrow> rat list" where
  "backoffs 0 b = []"
| "backoffs (Suc n) b = b # backoffs n (min (b * 2) MAX_BACKOFF_SECONDS)"

lemma backoffs_nth:
  "0 < b \<Longrightarrow> b \<le> MAX_BACKOFF_SECONDS \<Longrightarrow> i < n \<Longrightarrow> backoffs n b ! i = min (b * 2 ^ i) MAX_BACKOFF_SECONDS"
proof (induction n arbitrary: b i)
  case 0
  then show ?case by simp
next
  case (Suc n)
  show ?case
  proof (cases i)
    case 0
    with Suc.prems show ?thesis by simp
  next
    case (Suc j)
    let ?b = "min (b * 2) MAX_BACKOFF_SECONDS"
    have pos: "0 < ?b" "?b \<le> MAX_BACKOFF_SECONDS" using Suc.prems by (simp_all add: MAX_BACKOFF_SECONDS_def)
    have j: "j < n" using Suc.prems(3) Suc by simp
    have "backoffs (Suc n) b ! i = min (?b * 2 ^ j) MAX_BACKOFF_SECONDS"
      using Suc.IH [OF pos j] Suc by simp
    moreover have "min (?b * 2 ^ j) MAX_BACKOFF_SECONDS = min (b * 2 ^ i) MAX_BACKOFF_SECONDS"
    proof (cases "b * 2 \<le> MAX_BACKOFF_SECONDS")
      case True
      with Suc show ?thesis by (simp add: mult.assoc)
    next
      case False
      have one: "(1::rat) \<le> 2 ^ j" by simp
      have "MAX_BACKOFF_SECONDS \<le> MAX_BACKOFF_SECONDS * 2 ^ j"
        by (simp add: MAX_BACKOFF_SECONDS_def)
      moreover have "b * 2 * 1 \<le> b * 2 * 2 ^ j"
        using one Suc.prems(1) by (intro mult_left_mono) auto
      then have "MAX_BACKOFF_SECONDS \<le> b * 2 ^ i"
        using False Suc by (simp add: mult.assoc)
      ultimately show ?thesis using False by simp
    qed
    ultimately show ?thesis by simp
  qed
qed

lemma length_backoffs [simp]: "length (backoffs n b) = n"
  by (induction n arbitrary: b) auto

lemma consume_loop_failing:
  assumes "\<forall>a \<in> set as. fails_to_connect P a \<and> sleep_result a = None \<and> (\<forall>e. stale_close a = Some e \<longrightarrow> is_Exception e)"
    and "\<And>k. \<not> shutdown_at P k"
  shows "\<exists>s'. consume_loop P as s = (Running, s') \<and> sleeps s' = sleeps s @ backoffs (length as) (backoff s)
           \<and> world s' = world s"
  using assms(1)
proof (induction as arbitrary: s)
  case Nil
  then show ?case by simp
next
  case (Cons a as)
  let ?s0 = "s\<lparr>checks := Suc (checks s)\<rparr>"
  from Cons.prems obtain e s1 where c: "connect P a ?s0 = (Inl e, s1)" "survivable P e"
    using connect_fails [of P a ?s0] by auto
  then have once: "session_once P a ?s0 = (Inl e, s1)" by (simp add: session_once_def seqA_def)
  let ?s2 = "s1\<lparr>checks := Suc (checks s1), log := log s1 @ [Slept (backoff s1)],
                backoff := min (backoff s1 * 2) MAX_BACKOFF_SECONDS\<rparr>"
  have "consume_loop P (a # as) s = consume_loop P as ?s2"
    using once c(2) assms(2) Cons.prems by (simp add: back_off_def)
  moreover from Cons.IH [of ?s2] Cons.prems obtain s' where
    "consume_loop P as ?s2 = (Running, s')" "sleeps s' = sleeps ?s2 @ backoffs (length as) (backoff ?s2)" "world s' = world ?s2"
    by auto
  ultimately show ?case using connect_frame [OF c(1)] by simp
qed

subsection \<open>One connection at a time\<close>

definition conn_ok :: "'g cstate \<Rightarrow> bool" where
  "conn_ok s = (open_conns s = (if connection s = None then 0 else 1))"

definition keeps_conn :: "('g, 'a) cstep \<Rightarrow> bool" where
  "keeps_conn m = (\<forall>s. conn_ok s \<longrightarrow> conn_ok (snd (m s)))"

lemma keeps_conn_seq: "keeps_conn m \<Longrightarrow> keeps_conn n \<Longrightarrow> keeps_conn (seqA m n)"
  unfolding keeps_conn_def seqA_def by (auto split: prod.split sum.split)

lemma keeps_conn_frame:
  "(\<And>s. connection (snd (m s)) = connection s \<and> open_conns (snd (m s)) = open_conns s) \<Longrightarrow> keeps_conn m"
  by (simp add: keeps_conn_def conn_ok_def)

lemma keeps_conn_external [simp]: "keeps_conn (external r)"
  by (rule keeps_conn_frame) (simp add: external_def ret_def raise_def split: option.split)

lemma keeps_conn_verify_names [simp]: "keeps_conn (verify_names P a ns)"
  by (rule keeps_conn_frame) (metis prod.collapse verify_names_log)

lemma keeps_conn_deliver [simp]: "keeps_conn (deliver P m)"
  by (rule keeps_conn_frame) (simp add: deliver_def split: prod.split)

lemma conn_ok_checks [simp]: "conn_ok (s\<lparr>checks := k\<rparr>) = conn_ok s"
  by (simp add: conn_ok_def)

lemma keeps_conn_deliver_all: "keeps_conn (deliver_all P fin ms)"
proof (induction ms)
  case Nil
  have "deliver_all P fin [] = external fin" by (rule ext) simp
  then show ?case by simp
next
  case (Cons m ms)
  show ?case
    unfolding keeps_conn_def
  proof (intro allI impI)
    fix s :: "'a cstate"
    assume ok: "conn_ok s"
    obtain r s2 where s2: "deliver P m (s\<lparr>checks := Suc (checks s)\<rparr>) = (r, s2)" by fastforce
    with ok keeps_conn_deliver [of P m] have "conn_ok s2"
      unfolding keeps_conn_def by (metis conn_ok_checks snd_conv)
    with ok s2 Cons.IH show "conn_ok (snd (deliver_all P fin (m # ms) s))"
      by (auto simp: shutdown_flag_def keeps_conn_def split: sum.split)
  qed
qed

lemma connect_conn_ok:
  assumes "conn_ok s" and "stale_close a = None"
  shows "conn_ok (snd (connect P a s))"
proof -
  obtain s1 where s1: "drop_stale a s = (Inr (), s1)" "connection s1 = None" "open_conns s1 = 0"
    using assms by (cases "connection s"; cases "stale_is_closed a") (auto simp: drop_stale_def conn_ok_def)
  have "conn_ok (snd (dial_broker a s1))"
    using s1 by (simp add: dial_broker_def seqA_def external_def ret_def raise_def modifyA_def conn_ok_def split: option.split)
  moreover have rest: "keeps_conn (seqA (external (open_channel a)) (verify_names P a (topology_names (p_consumer P))))"
    by (intro keeps_conn_seq) simp_all
  moreover have "connect P a s = seqA (dial_broker a) (seqA (external (open_channel a))
       (verify_names P a (topology_names (p_consumer P)))) s1"
    using s1 by (simp add: connect_def seqA_def)
  ultimately show ?thesis
    by (auto simp: seqA_def [of "dial_broker a"] keeps_conn_def split: prod.split sum.split)
qed

lemma session_conn_ok:
  assumes "conn_ok s" and "stale_close a = None"
  shows "conn_ok (snd (session_once P a s))"
proof -
  obtain r s1 where s1: "connect P a s = (r, s1)" by fastforce
  with connect_conn_ok [OF assms, of P] have "conn_ok s1" by simp
  moreover have "keeps_conn (seqA (modifyA (\<lambda>s. s\<lparr>backoff := INITIAL_BACKOFF_SECONDS\<rparr>))
          (deliver_all P (iterator_end a) (incoming a)))"
    by (intro keeps_conn_seq keeps_conn_deliver_all keeps_conn_frame) (simp add: modifyA_def)
  ultimately show ?thesis
    using s1 by (auto simp: session_once_def seqA_def [of "connect P a"] keeps_conn_def split: sum.split)
qed

lemma back_off_conn_ok: "conn_ok s \<Longrightarrow> conn_ok (snd (back_off a s))"
  by (simp add: back_off_def conn_ok_def split: option.split)

lemma consume_loop_conn_ok:
  "conn_ok s \<Longrightarrow> \<forall>a \<in> set as. stale_close a = None \<Longrightarrow> conn_ok (snd (consume_loop P as s))"
proof (induction as arbitrary: s)
  case Nil
  then show ?case by simp
next
  case (Cons a as)
  obtain r s1 where s1: "session_once P a (s\<lparr>checks := Suc (checks s)\<rparr>) = (r, s1)" by fastforce
  with session_conn_ok [of "s\<lparr>checks := Suc (checks s)\<rparr>" a P] Cons.prems have ok1: "conn_ok s1" by simp
  obtain r2 s2 where s2: "back_off a (s1\<lparr>checks := Suc (checks s1)\<rparr>) = (r2, s2)" by fastforce
  with back_off_conn_ok [of "s1\<lparr>checks := Suc (checks s1)\<rparr>" a] ok1 have "conn_ok s2" by simp
  with Cons s1 ok1 s2 show ?case by (auto split: sum.split)
qed

section \<open>Properties\<close>

text \<open>C5: While every connection attempt fails (the broker is down, or the topology is not
  loaded yet) the worker neither returns nor raises: after \<open>n\<close> failed attempts it has slept
  \<open>n\<close> times, the \<open>i\<close>-th time for the smaller of \<open>2 ^ i\<close> and 30 seconds, and has handled no
  message.\<close>

theorem survives_outage:
  assumes "\<forall>a \<in> set as. fails_to_connect P a \<and> sleep_result a = None \<and> (\<forall>e. stale_close a = Some e \<longrightarrow> is_Exception e)"
    and "\<And>k. \<not> shutdown_at P k" and "log s = []"
  shows "\<exists>s'. consume P as s = (Running, s') \<and> length (sleeps s') = length as
           \<and> (\<forall>i < length as. sleeps s' ! i = min (2 ^ i) 30) \<and> world s' = world s"
proof -
  let ?s = "s\<lparr>backoff := INITIAL_BACKOFF_SECONDS\<rparr>"
  from consume_loop_failing [OF assms(1,2), of ?s] obtain s' where
    s': "consume_loop P as ?s = (Running, s')" "sleeps s' = backoffs (length as) 1" "world s' = world s"
    using assms(3) by (auto simp: INITIAL_BACKOFF_SECONDS_def)
  then show ?thesis
    using backoffs_nth [of 1] by (auto simp: consume_def MAX_BACKOFF_SECONDS_def)
qed

definition demo_params :: "pyval \<Rightarrow> seen params" where
  "demo_params body = \<lparr> p_env = demo_env no_broker_failure body, p_consumer = demo_consumer,
     p_handler = ok_handler, is_amqp_error = (\<lambda>e. exn_type e = ''AMQPError''),
     is_channel_closed = (\<lambda>e. exn_type e = ''ChannelNotFoundEntity''), shutdown_at = (\<lambda>_. False) \<rparr>"

definition demo_cstate :: "seen cstate" where
  "demo_cstate = \<lparr> world = demo_world, connection = None, open_conns = 0, backoff = 1, checks = 0, log = [] \<rparr>"

definition up_attempt :: attempt where
  "up_attempt = \<lparr> stale_is_closed = False, stale_close = None, dial = None, open_channel = None,
     declares = (\<lambda>_. None), incoming = [demo_message], iterator_end = None, sleep_result = None \<rparr>"

definition down_attempt :: attempt where
  "down_attempt = up_attempt\<lparr>dial := Some (Exn ''ConnectionRefusedError'' ''no'')\<rparr>"

lemma survives_outage_witness:
  "\<exists>s'. consume (demo_params PNone) (replicate 7 down_attempt) demo_cstate = (Running, s')
      \<and> length (sleeps s') = 7 \<and> sleeps s' ! 3 = 8 \<and> sleeps s' ! 6 = 30"
proof -
  have "fails_to_connect (demo_params PNone) down_attempt"
    by (simp add: fails_to_connect_def down_attempt_def survivable_def is_os_error_def)
  then have "\<forall>a \<in> set (replicate 7 down_attempt). fails_to_connect (demo_params PNone) a \<and> sleep_result a = None
        \<and> (\<forall>e. stale_close a = Some e \<longrightarrow> is_Exception e)"
    by (simp add: down_attempt_def up_attempt_def)
  from survives_outage [OF this, of demo_cstate] show ?thesis
    by (fastforce simp: demo_params_def demo_cstate_def)
qed

text \<open>C7: Whatever the attempts do, as long as closing a stale connection works there is at
  most one open connection at any time, and when \<open>start\<close> is done and its close succeeded
  there is none.\<close>

theorem at_most_one_connection:
  assumes "conn_ok s" and "\<forall>a \<in> set as. stale_close a = None"
  shows "open_conns (snd (consume P as s)) \<le> 1
    \<and> (fst (start P None as s) = Running \<or> open_conns (snd (start P None as s)) = 0)"
proof -
  obtain out s1 where s1: "consume P as s = (out, s1)" by fastforce
  have "conn_ok (s\<lparr>backoff := INITIAL_BACKOFF_SECONDS\<rparr>)" using assms(1) by (simp add: conn_ok_def)
  with consume_loop_conn_ok [OF this assms(2), of P] s1 have "conn_ok s1" by (simp add: consume_def)
  then show ?thesis
    using s1 by (cases out; cases "connection s1")
      (auto simp: start_def close_consumer_def conn_ok_def split: outcome.split)
qed

lemma at_most_one_connection_witness:
  "open_conns (snd (consume (demo_params (PDict demo_envelope)) [down_attempt, up_attempt] demo_cstate)) \<le> 1"
proof -
  have "conn_ok demo_cstate" "\<forall>a \<in> set [down_attempt, up_attempt]. stale_close a = None"
    by (simp_all add: conn_ok_def demo_cstate_def down_attempt_def up_attempt_def)
  from at_most_one_connection [OF this] show ?thesis by blast
qed

text \<open>C6: One message whose body is a truthy JSON value that is not an object ends the worker:
  the exception leaves the delivery handler and the reconnect loop, which survives only
  topology, AMQP and OS errors, and \<open>start\<close> raises it with the message neither acked nor
  dead-lettered, so the broker will deliver it again to the next process.\<close>

theorem poison_body_ends_worker:
  assumes "json_loads (p_env P) (m_body m) = Inr v" and "\<not> is_dict v" and "truthy v"
    and "no_failures (p_env P)" and "\<And>k. \<not> shutdown_at P k" and "\<And>msg. \<not> is_amqp_error P (Exn ''AttributeError'' msg)"
    and "stale_close a = None" and "dial a = None" and "open_channel a = None" and "\<And>n. declares a n = None"
    and "incoming a = m # ms"
  shows "\<exists>msg s'. start P None (a # as) s = (Raised (Exn ''AttributeError'' msg), s') \<and> world s' = world s"
proof -
  from handle_delivery_not_dict [OF assms(1,2), of "p_consumer P" "p_handler P" "world s"] assms(3) obtain msg where
    hd: "handle_delivery (p_env P) (p_consumer P) (p_handler P) m (world s) = (Inl (Exn ''AttributeError'' msg), world s)"
    by auto
  let ?s0 = "s\<lparr>backoff := INITIAL_BACKOFF_SECONDS, checks := Suc (checks s)\<rparr>"
  have verify: "\<exists>t. verify_names P a ns s0 = (Inr (), t)" for ns and s0 :: "'a cstate"
    by (induction ns arbitrary: s0) (simp_all add: assms(10))
  have "\<exists>t. connect P a ?s0 = (Inr (), t)"
  proof -
    obtain s1 where "drop_stale a ?s0 = (Inr (), s1)"
      using assms(7) by (cases "connection s"; cases "stale_is_closed a") (auto simp: drop_stale_def)
    with verify show ?thesis
      by (simp add: connect_def dial_broker_def seqA_def external_def assms(8,9) ret_def modifyA_def)
  qed
  then obtain t where t: "connect P a ?s0 = (Inr (), t)" by blast
  with connect_frame [OF t] have w: "world t = world s" by simp
  have "\<exists>s1. session_once P a ?s0 = (Inl (Exn ''AttributeError'' msg), s1) \<and> world s1 = world s"
    using hd w by (simp add: session_once_def seqA_def t modifyA_def assms(11) shutdown_flag_def deliver_def assms(5))
  then obtain s1 where s1: "session_once P a ?s0 = (Inl (Exn ''AttributeError'' msg), s1)" "world s1 = world s" by blast
  have "consume P (a # as) s = (Raised (Exn ''AttributeError'' msg), s1)"
    using s1(1) by (simp add: consume_def assms(5,6) survivable_def is_os_error_def)
  with s1(2) show ?thesis by (auto simp: start_def close_consumer_def split: option.split)
qed

lemma poison_body_ends_worker_witness:
  "\<exists>msg s'. start (demo_params (PInt 7)) None [up_attempt] demo_cstate = (Raised (Exn ''AttributeError'' msg), s')
     \<and> events (world s') = []"
proof -
  have nf: "no_failures (p_env (demo_params (PInt 7)))" by (simp add: demo_params_def no_failures_def demo_defs)
  have js: "json_loads (p_env (demo_params (PInt 7))) (m_body demo_message) = Inr (PInt 7)"
    by (simp add: demo_params_def demo_env_def)
  have "\<exists>msg s'. start (demo_params (PInt 7)) None [up_attempt] demo_cstate = (Raised (Exn ''AttributeError'' msg), s')
     \<and> world s' = world demo_cstate"
    by (rule poison_body_ends_worker [OF js _ _ nf]) (simp_all add: demo_params_def up_attempt_def)
  then show ?thesis by (auto simp: demo_cstate_def demo_world_def)
qed

text \<open>The attempts made so far only matter through the state they leave.\<close>

lemma consume_loop_append:
  "consume_loop P before s = (Running, s1) \<Longrightarrow> consume_loop P (before @ rest) s = consume_loop P rest s1"
  by (induction before arbitrary: s) (auto split: if_splits prod.splits sum.splits)

lemma close_consumer_returns: "\<exists>s2. close_consumer None s1 = (Inr (), s2) \<and> world s2 = world s1"
  by (simp add: close_consumer_def split: option.split)



end
