(* ===== verification/Topology.thy ===== *)
theory Topology
  imports Prelude
begin

text \<open>
  \<open>scripts/rabbitmq/generate-definitions.py\<close>: the pipelines, the retry tiers and the
  generator \<open>build\<close> of the broker's exchanges, queues and bindings (ADR-008.4), with the
  user and permission entries, and the routing table text. \<open>exchange\<close>, \<open>queue\<close> and \<open>bind\<close>,
  the generator's local procedures that append to its three lists, are functions on the
  record of the three lists. The hash and base64 functions of the password are parameters.

  A direct exchange routes a message to the queues bound with its routing key; \<open>routes\<close>
  reads that off the generated bindings.
\<close>

section \<open>Constants\<close>

record pipeline =
  pl_rk :: string
  pl_ex :: string
  pl_q :: string
  pl_dlq_ttl :: int
  pl_prefetch :: int
  pl_consumer :: string

definition pipe :: "string \<Rightarrow> string \<Rightarrow> string \<Rightarrow> int \<Rightarrow> int \<Rightarrow> string \<Rightarrow> pipeline" where
  "pipe rk ex q ttl prefetch consumer =
     \<lparr> pl_rk = rk, pl_ex = ex, pl_q = q, pl_dlq_ttl = ttl, pl_prefetch = prefetch, pl_consumer = consumer \<rparr>"

definition PIPELINES :: "pipeline list" where
  "PIPELINES =
     [pipe ''profile.task'' ''profile-tasks'' ''profile-processing'' 86400000 2 ''profile-worker'',
      pipe ''email.send'' ''email-tasks'' ''email-processing'' 86400000 5 ''email-worker'',
      pipe ''image.process'' ''image-tasks'' ''image-processing'' 259200000 1 ''image-worker'',
      pipe ''document.process'' ''document-tasks'' ''document-processing'' 604800000 1 ''graphrag-service'']"

definition TIER_TTLS :: "(string \<times> int) list" where
  "TIER_TTLS = [(''5s'', 5000), (''30s'', 30000), (''2m'', 120000)]"

definition EMAIL_STALENESS_TTL_MS :: int where
  "EMAIL_STALENESS_TTL_MS = 3600000"

definition EMAIL_EXPIRED_RETENTION_MS :: int where
  "EMAIL_EXPIRED_RETENTION_MS = 86400000"

definition MYCELIUM_VHOST :: string where
  "MYCELIUM_VHOST = ''mycelium''"

definition MYCELIUM_EXCHANGE :: string where
  "MYCELIUM_EXCHANGE = ''mycelium-stages''"

definition MYCELIUM_STAGES :: "string list" where
  "MYCELIUM_STAGES =
     [''clean'', ''chunk'', ''enrich'', ''ingest'', ''ingest_documents'',
      ''chunk_documents'', ''embed'', ''redundancy'', ''trust'', ''compress'',
      ''backfill_transcript'', ''graph_extraction'', ''entity_resolution'',
      ''graph_construction'', ''community_detection'', ''insights_generation'']"

definition MYCELIUM_DLQ_TTL_MS :: int where
  "MYCELIUM_DLQ_TTL_MS = 604800000"

section \<open>The generated entities\<close>

record exchange_def =
  x_name :: string
  x_vhost :: string
  x_type :: string
  x_durable :: bool

record queue_def =
  q_name :: string
  q_vhost :: string
  q_durable :: bool
  q_args :: dict

record binding_def =
  b_source :: string
  b_vhost :: string
  b_destination :: string
  b_routing_key :: string

record topology =
  exchanges :: "exchange_def list"
  queues :: "queue_def list"
  bindings :: "binding_def list"

definition exchange :: "string \<Rightarrow> string \<Rightarrow> topology \<Rightarrow> topology" where
  "exchange name vhost t = t\<lparr>exchanges := exchanges t @
     [\<lparr> x_name = name, x_vhost = vhost, x_type = ''direct'', x_durable = True \<rparr>]\<rparr>"

definition queue :: "string \<Rightarrow> dict \<Rightarrow> string \<Rightarrow> topology \<Rightarrow> topology" where
  "queue name args vhost t = t\<lparr>queues := queues t @
     [\<lparr> q_name = name, q_vhost = vhost, q_durable = True, q_args = args \<rparr>]\<rparr>"

definition bind :: "string \<Rightarrow> string \<Rightarrow> string \<Rightarrow> string \<Rightarrow> topology \<Rightarrow> topology" where
  "bind src dest rk vhost t = t\<lparr>bindings := bindings t @
     [\<lparr> b_source = src, b_vhost = vhost, b_destination = dest, b_routing_key = rk \<rparr>]\<rparr>"

text \<open>The inner loop over the tiers, the same for a pipeline and for a guest stage.\<close>

definition retry_ladder :: "string \<Rightarrow> string \<Rightarrow> string \<Rightarrow> string \<Rightarrow> topology \<Rightarrow> topology" where
  "retry_ladder ex q rk vhost t =
     fold (\<lambda>(tier, ttl) t.
        let rq = q @ ''.retry.'' @ tier
        in bind (ex @ ''.retry'') rq (rk @ ''.retry.'' @ tier) vhost
             (queue rq [(''x-message-ttl'', PInt ttl), (''x-dead-letter-exchange'', PStr ex),
                        (''x-dead-letter-routing-key'', PStr rk)] vhost t))
       TIER_TTLS t"

definition build_pipeline :: "pipeline \<Rightarrow> topology \<Rightarrow> topology" where
  "build_pipeline p t =
     (let rk = pl_rk p; ex = pl_ex p; q = pl_q p;
          t = exchange (ex @ ''.retry'') ''/'' (exchange (ex @ ''.dlx'') ''/'' (exchange ex ''/'' t));
          work_args = [(''x-dead-letter-exchange'', PStr (ex @ ''.dlx'')),
                       (''x-dead-letter-routing-key'',
                          PStr (if rk = ''email.send'' then ''email.expired'' else rk))]
                      @ (if rk = ''email.send'' then [(''x-message-ttl'', PInt EMAIL_STALENESS_TTL_MS)] else []);
          t = bind ex q rk ''/'' (queue q work_args ''/'' t);
          t = retry_ladder ex q rk ''/'' t;
          t = queue (q @ ''.dlq'') [(''x-message-ttl'', PInt (pl_dlq_ttl p))] ''/'' t
      in bind (ex @ ''.dlx'') (q @ ''.dlq'') rk ''/'' t)"

definition build_stage :: "string \<Rightarrow> topology \<Rightarrow> topology" where
  "build_stage stage t =
     (let mv = MYCELIUM_VHOST; mex = MYCELIUM_EXCHANGE;
          rk = ''km.stage.'' @ stage; q = ''km.stage.'' @ stage;
          t = queue q [(''x-dead-letter-exchange'', PStr (mex @ ''.dlx'')),
                       (''x-dead-letter-routing-key'', PStr rk)] mv t;
          t = bind mex q rk mv t;
          t = retry_ladder mex q rk mv t;
          t = queue (q @ ''.dlq'') [(''x-message-ttl'', PInt MYCELIUM_DLQ_TTL_MS)] mv t
      in bind (mex @ ''.dlx'') (q @ ''.dlq'') rk mv t)"

definition build_topology :: topology where
  "build_topology =
     (let t = fold build_pipeline PIPELINES \<lparr> exchanges = [], queues = [], bindings = [] \<rparr>;
          t = queue ''email-expired'' [(''x-message-ttl'', PInt EMAIL_EXPIRED_RETENTION_MS)] ''/'' t;
          t = bind ''email-tasks.dlx'' ''email-expired'' ''email.expired'' ''/'' t;
          t = exchange ''task-results'' ''/'' t;
          t = queue ''task-results'' [] ''/'' t;
          t = bind ''task-results'' ''task-results'' ''task.result'' ''/'' t;
          mv = MYCELIUM_VHOST; mex = MYCELIUM_EXCHANGE;
          t = exchange mex mv t;
          t = exchange (mex @ ''.dlx'') mv t;
          t = exchange (mex @ ''.retry'') mv t;
          t = fold build_stage MYCELIUM_STAGES t;
          t = exchange ''mycelium-results'' mv t;
          t = queue ''mycelium-task-results'' [] mv t
      in bind ''mycelium-results'' ''mycelium-task-results'' ''km.stage.result'' mv t)"

section \<open>The definitions file\<close>

text \<open>
  \<open>password_hash\<close>: bytes are strings; \<open>sha256\<close> (the digest) and \<open>b64\<close> (base64, decoded)
  are parameters, and \<open>urandom\<close> is what \<open>os.urandom(4)\<close> returns.
\<close>

definition GUEST_SALT :: string where
  "GUEST_SALT = map char_of [0xca, 0xfe, 0xba, 0xbe :: nat]"

definition password_hash ::
  "(string \<Rightarrow> string) \<Rightarrow> (string \<Rightarrow> string) \<Rightarrow> string \<Rightarrow> string \<Rightarrow> string option \<Rightarrow> string" where
  "password_hash sha256 b64 urandom password salt =
     (let s = (case salt of None \<Rightarrow> urandom | Some s \<Rightarrow> s)
      in b64 (s @ sha256 (s @ password)))"

record definitions =
  rabbit_version :: string
  vhosts :: "string list"
  users :: "(string \<times> string) list"        \<comment> \<open>name and password hash\<close>
  permissions :: "(string \<times> string) list"  \<comment> \<open>user and vhost, with full rights\<close>
  topo :: topology

definition build ::
  "(string \<Rightarrow> string) \<Rightarrow> (string \<Rightarrow> string) \<Rightarrow> string \<Rightarrow> string \<Rightarrow> definitions" where
  "build sha256 b64 urandom password =
     \<lparr> rabbit_version = ''3.12.0'',
       vhosts = [''/'', MYCELIUM_VHOST],
       users = [(''guest'', password_hash sha256 b64 urandom password
                   (if password = ''guest'' then Some GUEST_SALT else None))],
       permissions = [(''guest'', ''/''), (''guest'', MYCELIUM_VHOST)],
       topo = build_topology \<rparr>"

section \<open>Reading the topology\<close>

definition routes :: "topology \<Rightarrow> string \<Rightarrow> string \<Rightarrow> string \<Rightarrow> string list" where
  "routes t vhost ex rk =
     [b_destination b. b \<leftarrow> bindings t, b_vhost b = vhost \<and> b_source b = ex \<and> b_routing_key b = rk]"

definition find_queue :: "topology \<Rightarrow> string \<Rightarrow> string \<Rightarrow> queue_def option" where
  "find_queue t vhost name = find (\<lambda>q. q_vhost q = vhost \<and> q_name q = name) (queues t)"

text \<open>
  Where a queue's expired messages go: the queues its dead-letter exchange routes its
  dead-letter key to; none without a dead-letter exchange.
\<close>

definition dead_letter_targets :: "topology \<Rightarrow> queue_def \<Rightarrow> string list" where
  "dead_letter_targets t q =
     (case (map_of (q_args q) ''x-dead-letter-exchange'', map_of (q_args q) ''x-dead-letter-routing-key'') of
        (Some (PStr ex), Some (PStr rk)) \<Rightarrow> routes t (q_vhost q) ex rk
      | _ \<Rightarrow> [])"

definition has_ttl :: "queue_def \<Rightarrow> bool" where
  "has_ttl q = (map_of (q_args q) ''x-message-ttl'' \<noteq> None)"

definition dead_letters :: "queue_def \<Rightarrow> bool" where
  "dead_letters q = (map_of (q_args q) ''x-dead-letter-exchange'' \<noteq> None)"

text \<open>
  What the generated topology guarantees: every publication of a consumer is routed to
  exactly one queue, every wait queue dead-letters back to its work queue and to nothing
  else, the staleness of email goes to its own queue, names are unique per vhost and every
  reference is declared; for the four pipelines and for every stage of the guest vhost.
\<close>

section \<open>What the generator appends\<close>

text \<open>\<open>appends f X Q B\<close>: the step \<open>f\<close> appends these exchanges, queues and bindings.\<close>

definition appends ::
  "(topology \<Rightarrow> topology) \<Rightarrow> exchange_def list \<Rightarrow> queue_def list \<Rightarrow> binding_def list \<Rightarrow> bool" where
  "appends f X Q B = (\<forall>t. f t = \<lparr> exchanges = exchanges t @ X, queues = queues t @ Q, bindings = bindings t @ B \<rparr>)"

lemma appendsD: "appends f X Q B \<Longrightarrow>
    f t = \<lparr> exchanges = exchanges t @ X, queues = queues t @ Q, bindings = bindings t @ B \<rparr>"
  by (simp add: appends_def)

abbreviation mk_exchange :: "string \<Rightarrow> string \<Rightarrow> exchange_def" where
  "mk_exchange n v \<equiv> \<lparr> x_name = n, x_vhost = v, x_type = ''direct'', x_durable = True \<rparr>"

abbreviation mk_queue :: "string \<Rightarrow> dict \<Rightarrow> string \<Rightarrow> queue_def" where
  "mk_queue n a v \<equiv> \<lparr> q_name = n, q_vhost = v, q_durable = True, q_args = a \<rparr>"

abbreviation mk_binding :: "string \<Rightarrow> string \<Rightarrow> string \<Rightarrow> string \<Rightarrow> binding_def" where
  "mk_binding s d rk v \<equiv> \<lparr> b_source = s, b_vhost = v, b_destination = d, b_routing_key = rk \<rparr>"

lemma appends_exchange: "appends (exchange n v) [mk_exchange n v] [] []"
  by (simp add: appends_def exchange_def)

lemma appends_queue: "appends (queue n a v) [] [mk_queue n a v] []"
  by (simp add: appends_def queue_def)

lemma appends_bind: "appends (bind s d rk v) [] [] [mk_binding s d rk v]"
  by (simp add: appends_def bind_def)

lemma appends_id: "appends (\<lambda>t. t) [] [] []"
  by (simp add: appends_def)

lemma appends_comp:
  "appends f X Q B \<Longrightarrow> appends g X' Q' B' \<Longrightarrow> appends (\<lambda>t. g (f t)) (X @ X') (Q @ Q') (B @ B')"
  by (simp add: appends_def)

lemma appends_fold:
  "(\<And>x. x \<in> set xs \<Longrightarrow> appends (f x) (X x) (Q x) (B x)) \<Longrightarrow>
   appends (fold f xs) (concat (map X xs)) (concat (map Q xs)) (concat (map B xs))"
proof (induction xs)
  case Nil
  then show ?case by (simp add: appends_def)
next
  case (Cons x xs)
  then have "appends (f x) (X x) (Q x) (B x)"
    and "appends (fold f xs) (concat (map X xs)) (concat (map Q xs)) (concat (map B xs))" by auto
  from appends_comp [OF this] show ?case by (simp add: comp_def)
qed

definition ladder_queues :: "string \<Rightarrow> string \<Rightarrow> string \<Rightarrow> string \<Rightarrow> queue_def list" where
  "ladder_queues ex q rk v =
     map (\<lambda>(tier, ttl). mk_queue (q @ ''.retry.'' @ tier)
        [(''x-message-ttl'', PInt ttl), (''x-dead-letter-exchange'', PStr ex),
         (''x-dead-letter-routing-key'', PStr rk)] v) TIER_TTLS"

definition ladder_bindings :: "string \<Rightarrow> string \<Rightarrow> string \<Rightarrow> string \<Rightarrow> binding_def list" where
  "ladder_bindings ex q rk v =
     map (\<lambda>(tier, ttl). mk_binding (ex @ ''.retry'') (q @ ''.retry.'' @ tier) (rk @ ''.retry.'' @ tier) v) TIER_TTLS"

lemma appends_retry_ladder:
  "appends (retry_ladder ex q rk v) [] (ladder_queues ex q rk v) (ladder_bindings ex q rk v)"
  by (simp add: appends_def retry_ladder_def ladder_queues_def ladder_bindings_def TIER_TTLS_def
      Let_def bind_def queue_def)

definition work_args :: "pipeline \<Rightarrow> dict" where
  "work_args p =
     [(''x-dead-letter-exchange'', PStr (pl_ex p @ ''.dlx'')),
      (''x-dead-letter-routing-key'', PStr (if pl_rk p = ''email.send'' then ''email.expired'' else pl_rk p))]
     @ (if pl_rk p = ''email.send'' then [(''x-message-ttl'', PInt EMAIL_STALENESS_TTL_MS)] else [])"

definition pipeline_exchanges :: "pipeline \<Rightarrow> exchange_def list" where
  "pipeline_exchanges p =
     [mk_exchange (pl_ex p) ''/'', mk_exchange (pl_ex p @ ''.dlx'') ''/'', mk_exchange (pl_ex p @ ''.retry'') ''/'']"

definition pipeline_queues :: "pipeline \<Rightarrow> queue_def list" where
  "pipeline_queues p =
     mk_queue (pl_q p) (work_args p) ''/'' # ladder_queues (pl_ex p) (pl_q p) (pl_rk p) ''/''
     @ [mk_queue (pl_q p @ ''.dlq'') [(''x-message-ttl'', PInt (pl_dlq_ttl p))] ''/'']"

definition pipeline_bindings :: "pipeline \<Rightarrow> binding_def list" where
  "pipeline_bindings p =
     mk_binding (pl_ex p) (pl_q p) (pl_rk p) ''/'' # ladder_bindings (pl_ex p) (pl_q p) (pl_rk p) ''/''
     @ [mk_binding (pl_ex p @ ''.dlx'') (pl_q p @ ''.dlq'') (pl_rk p) ''/'']"

lemma appends_build_pipeline:
  "appends (build_pipeline p) (pipeline_exchanges p) (pipeline_queues p) (pipeline_bindings p)"
  by (simp add: appends_def build_pipeline_def Let_def appendsD [OF appends_retry_ladder]
      exchange_def queue_def bind_def pipeline_exchanges_def pipeline_queues_def pipeline_bindings_def
      work_args_def)

definition stage_key :: "string \<Rightarrow> string" where
  "stage_key s = ''km.stage.'' @ s"

lemma stage_key_inject [simp]: "stage_key s = stage_key s' \<longleftrightarrow> s = s'"
  by (simp add: stage_key_def)

definition stage_queues :: "string \<Rightarrow> queue_def list" where
  "stage_queues s =
     mk_queue (stage_key s) [(''x-dead-letter-exchange'', PStr (MYCELIUM_EXCHANGE @ ''.dlx'')),
                             (''x-dead-letter-routing-key'', PStr (stage_key s))] MYCELIUM_VHOST
     # ladder_queues MYCELIUM_EXCHANGE (stage_key s) (stage_key s) MYCELIUM_VHOST
     @ [mk_queue (stage_key s @ ''.dlq'') [(''x-message-ttl'', PInt MYCELIUM_DLQ_TTL_MS)] MYCELIUM_VHOST]"

definition stage_bindings :: "string \<Rightarrow> binding_def list" where
  "stage_bindings s =
     mk_binding MYCELIUM_EXCHANGE (stage_key s) (stage_key s) MYCELIUM_VHOST
     # ladder_bindings MYCELIUM_EXCHANGE (stage_key s) (stage_key s) MYCELIUM_VHOST
     @ [mk_binding (MYCELIUM_EXCHANGE @ ''.dlx'') (stage_key s @ ''.dlq'') (stage_key s) MYCELIUM_VHOST]"

lemma appends_build_stage: "appends (build_stage s) [] (stage_queues s) (stage_bindings s)"
  by (simp add: appends_def build_stage_def Let_def appendsD [OF appends_retry_ladder]
      queue_def bind_def stage_queues_def stage_bindings_def stage_key_def ladder_queues_def ladder_bindings_def)

lemma build_topology_eq:
  "build_topology = \<lparr> exchanges =
     concat (map pipeline_exchanges PIPELINES) @ [mk_exchange ''task-results'' ''/'']
     @ [mk_exchange MYCELIUM_EXCHANGE MYCELIUM_VHOST, mk_exchange (MYCELIUM_EXCHANGE @ ''.dlx'') MYCELIUM_VHOST,
        mk_exchange (MYCELIUM_EXCHANGE @ ''.retry'') MYCELIUM_VHOST, mk_exchange ''mycelium-results'' MYCELIUM_VHOST],
   queues = concat (map pipeline_queues PIPELINES)
     @ [mk_queue ''email-expired'' [(''x-message-ttl'', PInt EMAIL_EXPIRED_RETENTION_MS)] ''/'',
        mk_queue ''task-results'' [] ''/'']
     @ concat (map stage_queues MYCELIUM_STAGES) @ [mk_queue ''mycelium-task-results'' [] MYCELIUM_VHOST],
   bindings = concat (map pipeline_bindings PIPELINES)
     @ [mk_binding ''email-tasks.dlx'' ''email-expired'' ''email.expired'' ''/'',
        mk_binding ''task-results'' ''task-results'' ''task.result'' ''/'']
     @ concat (map stage_bindings MYCELIUM_STAGES)
     @ [mk_binding ''mycelium-results'' ''mycelium-task-results'' ''km.stage.result'' MYCELIUM_VHOST] \<rparr>"
proof -
  note p = appendsD [OF appends_fold [of PIPELINES build_pipeline, OF appends_build_pipeline]]
  note s = appendsD [OF appends_fold [of MYCELIUM_STAGES build_stage, OF appends_build_stage]]
  show ?thesis
    unfolding build_topology_def Let_def p
    by (simp only: queue_def bind_def exchange_def s topology.simps append_assoc append_Nil append_Cons
        concat.simps append_Nil2 map_replicate_const concat_replicate_trivial)
qed

lemma exchanges_build_topology:
  "exchanges build_topology =
     concat (map pipeline_exchanges PIPELINES) @ [mk_exchange ''task-results'' ''/'']
     @ [mk_exchange MYCELIUM_EXCHANGE MYCELIUM_VHOST, mk_exchange (MYCELIUM_EXCHANGE @ ''.dlx'') MYCELIUM_VHOST,
        mk_exchange (MYCELIUM_EXCHANGE @ ''.retry'') MYCELIUM_VHOST, mk_exchange ''mycelium-results'' MYCELIUM_VHOST]"
  and queues_build_topology:
  "queues build_topology =
     concat (map pipeline_queues PIPELINES)
     @ [mk_queue ''email-expired'' [(''x-message-ttl'', PInt EMAIL_EXPIRED_RETENTION_MS)] ''/'',
        mk_queue ''task-results'' [] ''/'']
     @ concat (map stage_queues MYCELIUM_STAGES) @ [mk_queue ''mycelium-task-results'' [] MYCELIUM_VHOST]"
  and bindings_build_topology:
  "bindings build_topology =
     concat (map pipeline_bindings PIPELINES)
     @ [mk_binding ''email-tasks.dlx'' ''email-expired'' ''email.expired'' ''/'',
        mk_binding ''task-results'' ''task-results'' ''task.result'' ''/'']
     @ concat (map stage_bindings MYCELIUM_STAGES)
     @ [mk_binding ''mycelium-results'' ''mycelium-task-results'' ''km.stage.result'' MYCELIUM_VHOST]"
  by (simp_all only: build_topology_eq topology.simps)

section \<open>Routing\<close>

definition routes_in :: "binding_def list \<Rightarrow> string \<Rightarrow> string \<Rightarrow> string \<Rightarrow> string list" where
  "routes_in bs vhost ex rk =
     map b_destination (filter (\<lambda>b. b_vhost b = vhost \<and> b_source b = ex \<and> b_routing_key b = rk) bs)"

lemma routes_routes_in: "routes t vhost ex rk = routes_in (bindings t) vhost ex rk"
proof -
  have "concat (map (\<lambda>b. if P b then [f b] else []) bs) = map f (filter P bs)" for P f and bs :: "binding_def list"
    by (induction bs) auto
  then show ?thesis by (simp add: routes_def routes_in_def)
qed

lemma routes_in_append [simp]: "routes_in (bs @ cs) v ex rk = routes_in bs v ex rk @ routes_in cs v ex rk"
  by (simp add: routes_in_def)

lemma routes_in_Nil [simp]: "routes_in [] v ex rk = []"
  by (simp add: routes_in_def)

lemma routes_in_Cons [simp]:
  "routes_in (b # bs) v ex rk =
     (if b_vhost b = v \<and> b_source b = ex \<and> b_routing_key b = rk then [b_destination b] else []) @ routes_in bs v ex rk"
  by (simp add: routes_in_def)

lemma routes_in_concat: "routes_in (concat bss) v ex rk = concat (map (\<lambda>bs. routes_in bs v ex rk) bss)"
  by (induction bss) simp_all

lemma routes_in_other_vhost: "(\<And>b. b \<in> set bs \<Longrightarrow> b_vhost b \<noteq> v) \<Longrightarrow> routes_in bs v ex rk = []"
  by (auto simp: routes_in_def filter_empty_conv)

lemma vhost_stage_bindings: "b \<in> set (stage_bindings s) \<Longrightarrow> b_vhost b = MYCELIUM_VHOST"
  by (auto simp: stage_bindings_def ladder_bindings_def)

lemma vhost_pipeline_bindings: "b \<in> set (pipeline_bindings p) \<Longrightarrow> b_vhost b = ''/''"
  by (auto simp: pipeline_bindings_def ladder_bindings_def)

lemma vhosts_differ [simp]: "MYCELIUM_VHOST \<noteq> ''/''" "''/'' \<noteq> MYCELIUM_VHOST"
  by (simp_all add: MYCELIUM_VHOST_def)

text \<open>The lab vhost and the guest vhost are routed independently.\<close>

lemma routes_lab:
  "routes build_topology ''/'' ex rk =
     concat (map (\<lambda>p. routes_in (pipeline_bindings p) ''/'' ex rk) PIPELINES)
     @ (if ex = ''email-tasks.dlx'' \<and> rk = ''email.expired'' then [''email-expired''] else [])
     @ (if ex = ''task-results'' \<and> rk = ''task.result'' then [''task-results''] else [])"
proof -
  have "routes_in (concat (map stage_bindings MYCELIUM_STAGES)) ''/'' ex rk = []"
    by (rule routes_in_other_vhost) (auto dest!: vhost_stage_bindings)
  then show ?thesis
    by (auto simp: routes_routes_in bindings_build_topology routes_in_concat comp_def)
qed

lemma routes_guest:
  "routes build_topology MYCELIUM_VHOST ex rk =
     concat (map (\<lambda>s. routes_in (stage_bindings s) MYCELIUM_VHOST ex rk) MYCELIUM_STAGES)
     @ (if ex = ''mycelium-results'' \<and> rk = ''km.stage.result'' then [''mycelium-task-results''] else [])"
proof -
  have "routes_in (concat (map pipeline_bindings PIPELINES)) MYCELIUM_VHOST ex rk = []"
    by (rule routes_in_other_vhost) (auto dest!: vhost_pipeline_bindings)
  then show ?thesis
    by (auto simp: routes_routes_in bindings_build_topology routes_in_concat comp_def)
qed

lemma pipeline_cases:
  assumes "p \<in> set PIPELINES"
  obtains "p = pipe ''profile.task'' ''profile-tasks'' ''profile-processing'' 86400000 2 ''profile-worker''"
    | "p = pipe ''email.send'' ''email-tasks'' ''email-processing'' 86400000 5 ''email-worker''"
    | "p = pipe ''image.process'' ''image-tasks'' ''image-processing'' 259200000 1 ''image-worker''"
    | "p = pipe ''document.process'' ''document-tasks'' ''document-processing'' 604800000 1 ''graphrag-service''"
  using assms by (auto simp: PIPELINES_def)

lemma tier_cases:
  assumes "(tier, ttl) \<in> set TIER_TTLS"
  obtains "tier = ''5s'' \<and> ttl = 5000" | "tier = ''30s'' \<and> ttl = 30000" | "tier = ''2m'' \<and> ttl = 120000"
  using assms by (auto simp: TIER_TTLS_def)

lemmas lab_eval = routes_lab PIPELINES_def pipe_def pipeline_bindings_def ladder_bindings_def TIER_TTLS_def

lemma route_work: "p \<in> set PIPELINES \<Longrightarrow> routes build_topology ''/'' (pl_ex p) (pl_rk p) = [pl_q p]"
  by (elim pipeline_cases) (simp_all add: lab_eval)

lemma route_retry:
  "p \<in> set PIPELINES \<Longrightarrow> (tier, ttl) \<in> set TIER_TTLS \<Longrightarrow>
   routes build_topology ''/'' (pl_ex p @ ''.retry'') (pl_rk p @ ''.retry.'' @ tier) = [pl_q p @ ''.retry.'' @ tier]"
  by (elim pipeline_cases tier_cases) (simp_all add: lab_eval)

lemma route_dlx:
  "p \<in> set PIPELINES \<Longrightarrow> routes build_topology ''/'' (pl_ex p @ ''.dlx'') (pl_rk p) = [pl_q p @ ''.dlq'']"
  by (elim pipeline_cases) (simp_all add: lab_eval)

lemma route_results: "routes build_topology ''/'' ''task-results'' ''task.result'' = [''task-results'']"
  by (simp add: lab_eval)

lemma route_email_expired: "routes build_topology ''/'' ''email-tasks.dlx'' ''email.expired'' = [''email-expired'']"
  by (simp add: lab_eval)

subsection \<open>The guest vhost\<close>

lemma distinct_stages: "distinct MYCELIUM_STAGES"
  by (simp add: MYCELIUM_STAGES_def)

lemma concat_map_one:
  "distinct ss \<Longrightarrow> s0 \<in> set ss \<Longrightarrow> concat (map (\<lambda>s. if s = s0 then xs else []) ss) = xs"
proof (induction ss)
  case (Cons s ss)
  have "s0 \<notin> set ss' \<Longrightarrow> concat (map (\<lambda>s. if s = s0 then xs else []) ss') = []" for ss'
    by (induction ss') auto
  with Cons show ?case by auto
qed simp

lemma mycelium_names [simp]:
  "MYCELIUM_EXCHANGE @ ''.retry'' \<noteq> MYCELIUM_EXCHANGE" "MYCELIUM_EXCHANGE @ ''.dlx'' \<noteq> MYCELIUM_EXCHANGE"
  "MYCELIUM_EXCHANGE \<noteq> MYCELIUM_EXCHANGE @ ''.retry''" "MYCELIUM_EXCHANGE \<noteq> MYCELIUM_EXCHANGE @ ''.dlx''"
  "MYCELIUM_EXCHANGE \<noteq> ''mycelium-results''"
  "MYCELIUM_EXCHANGE @ ''.dlx'' \<noteq> ''mycelium-results''" "MYCELIUM_EXCHANGE @ ''.retry'' \<noteq> ''mycelium-results''"
  by (simp_all add: MYCELIUM_EXCHANGE_def)

lemma route_stage_work:
  assumes "s \<in> set MYCELIUM_STAGES"
  shows "routes build_topology MYCELIUM_VHOST MYCELIUM_EXCHANGE (stage_key s) = [stage_key s]"
proof -
  have "routes_in (stage_bindings s') MYCELIUM_VHOST MYCELIUM_EXCHANGE (stage_key s) =
        (if s' = s then [stage_key s] else [])" for s'
    by (simp add: stage_bindings_def ladder_bindings_def TIER_TTLS_def)
  then show ?thesis
    using concat_map_one [OF distinct_stages assms] by (simp add: routes_guest)
qed

lemma route_stage_dlx:
  assumes "s \<in> set MYCELIUM_STAGES"
  shows "routes build_topology MYCELIUM_VHOST (MYCELIUM_EXCHANGE @ ''.dlx'') (stage_key s) = [stage_key s @ ''.dlq'']"
proof -
  have "routes_in (stage_bindings s') MYCELIUM_VHOST (MYCELIUM_EXCHANGE @ ''.dlx'') (stage_key s) =
        (if s' = s then [stage_key s @ ''.dlq''] else [])" for s'
    by (simp add: stage_bindings_def ladder_bindings_def TIER_TTLS_def)
  then show ?thesis
    using concat_map_one [OF distinct_stages assms] by (simp add: routes_guest)
qed

lemma stage_no_dot: "s \<in> set MYCELIUM_STAGES \<Longrightarrow> CHR ''.'' \<notin> set s"
  by (auto simp: MYCELIUM_STAGES_def)

lemma stage_key_dot_inject:
  assumes "s \<in> set MYCELIUM_STAGES" and "s' \<in> set MYCELIUM_STAGES"
  shows "stage_key s @ CHR ''.'' # x = stage_key s' @ CHR ''.'' # y \<longleftrightarrow> s = s' \<and> x = y"
proof
  assume "stage_key s @ CHR ''.'' # x = stage_key s' @ CHR ''.'' # y"
  then have eq: "s @ CHR ''.'' # x = s' @ CHR ''.'' # y" by (simp add: stage_key_def)
  have "takeWhile (\<lambda>c. c \<noteq> CHR ''.'') (z @ CHR ''.'' # w) = z" if "CHR ''.'' \<notin> set z" for z w
    using that by (simp add: takeWhile_append)
  with eq stage_no_dot [OF assms(1)] stage_no_dot [OF assms(2)] have "s = s'" by metis
  with eq show "s = s' \<and> x = y" by simp
qed simp

lemma route_stage_retry:
  assumes s: "s \<in> set MYCELIUM_STAGES" and tier: "(tier, ttl) \<in> set TIER_TTLS"
  shows "routes build_topology MYCELIUM_VHOST (MYCELIUM_EXCHANGE @ ''.retry'') (stage_key s @ ''.retry.'' @ tier)
       = [stage_key s @ ''.retry.'' @ tier]"
proof -
  have "routes_in (stage_bindings s') MYCELIUM_VHOST (MYCELIUM_EXCHANGE @ ''.retry'') (stage_key s @ ''.retry.'' @ tier)
        = (if s' = s then [stage_key s @ ''.retry.'' @ tier] else [])" if "s' \<in> set MYCELIUM_STAGES" for s'
    using tier
    by (elim tier_cases)
      (auto simp: stage_bindings_def ladder_bindings_def TIER_TTLS_def stage_key_dot_inject [OF that s])
  then have eq: "map (\<lambda>s'. routes_in (stage_bindings s') MYCELIUM_VHOST (MYCELIUM_EXCHANGE @ ''.retry'')
                 (stage_key s @ ''.retry.'' @ tier)) MYCELIUM_STAGES
           = map (\<lambda>s'. if s' = s then [stage_key s @ ''.retry.'' @ tier] else []) MYCELIUM_STAGES"
    by (intro map_cong refl)
  show ?thesis
    unfolding routes_guest eq concat_map_one [OF distinct_stages s] by simp
qed

section \<open>Names\<close>

lemma lab_names:
  "map q_name (concat (map pipeline_queues PIPELINES)) =
     concat (map (\<lambda>q. [q, q @ ''.retry.5s'', q @ ''.retry.30s'', q @ ''.retry.2m'', q @ ''.dlq'']) (map pl_q PIPELINES))"
  by (simp add: PIPELINES_def pipe_def pipeline_queues_def ladder_queues_def TIER_TTLS_def)

definition stage_names :: "string \<Rightarrow> string list" where
  "stage_names s = [stage_key s, stage_key s @ ''.retry.5s'', stage_key s @ ''.retry.30s'', stage_key s @ ''.retry.2m'',
     stage_key s @ ''.dlq'']"

lemma stage_queue_names: "map q_name (stage_queues s) = stage_names s"
  by (simp add: stage_queues_def ladder_queues_def TIER_TTLS_def stage_names_def)

lemma stage_key_dot_neq:
  assumes "s \<in> set MYCELIUM_STAGES" and "s' \<in> set MYCELIUM_STAGES"
  shows "stage_key s \<noteq> stage_key s' @ CHR ''.'' # x"
proof
  assume "stage_key s = stage_key s' @ CHR ''.'' # x"
  then have "s = s' @ CHR ''.'' # x" by (simp add: stage_key_def)
  with stage_no_dot [OF assms(1)] show False by simp
qed

lemma stage_names_disjoint:
  assumes "s \<in> set MYCELIUM_STAGES" and "s' \<in> set MYCELIUM_STAGES" and "s \<noteq> s'"
  shows "set (stage_names s) \<inter> set (stage_names s') = {}"
  using assms stage_key_dot_neq [OF assms(1,2)] stage_key_dot_neq [OF assms(2,1)]
  by (auto simp: stage_names_def stage_key_dot_inject [OF assms(1,2)] stage_key_dot_inject [OF assms(2,1)])

lemma distinct_stage_names: "distinct (stage_names s)"
  by (simp add: stage_names_def)

lemma distinct_concat_map:
  "distinct xs \<Longrightarrow> (\<And>x. x \<in> set xs \<Longrightarrow> distinct (f x)) \<Longrightarrow>
   (\<And>x y. x \<in> set xs \<Longrightarrow> y \<in> set xs \<Longrightarrow> x \<noteq> y \<Longrightarrow> set (f x) \<inter> set (f y) = {}) \<Longrightarrow>
   distinct (concat (map f xs))"
  by (induction xs) (auto simp: disjoint_iff)

lemma guest_names: "map q_name (concat (map stage_queues MYCELIUM_STAGES)) = concat (map stage_names MYCELIUM_STAGES)"
  by (simp add: map_concat comp_def stage_queue_names)

lemma guest_names_distinct: "distinct (concat (map stage_names MYCELIUM_STAGES) @ [''mycelium-task-results''])"
proof -
  have "distinct (concat (map stage_names MYCELIUM_STAGES))"
    by (rule distinct_concat_map)
      (auto simp: distinct_stages distinct_stage_names stage_names_disjoint simp del: set_concat dest: stage_names_disjoint)
  moreover have "''mycelium-task-results'' \<notin> set (stage_names s)" for s
    by (simp add: stage_names_def stage_key_def)
  ultimately show ?thesis by auto
qed

lemma lab_names_distinct:
  "distinct (map q_name (concat (map pipeline_queues PIPELINES)) @ [''email-expired'', ''task-results''])"
  unfolding lab_names by (simp add: PIPELINES_def pipe_def)

definition queue_key :: "queue_def \<Rightarrow> string \<times> string" where
  "queue_key q = (q_vhost q, q_name q)"

lemma queue_vhosts:
  "q \<in> set (pipeline_queues p) \<Longrightarrow> q_vhost q = ''/''" "q \<in> set (stage_queues s) \<Longrightarrow> q_vhost q = MYCELIUM_VHOST"
  by (auto simp: pipeline_queues_def stage_queues_def ladder_queues_def)

lemma distinct_keys_one_vhost:
  "(\<And>q. q \<in> set qs \<Longrightarrow> q_vhost q = v) \<Longrightarrow> distinct (map q_name qs) \<Longrightarrow> distinct (map queue_key qs)"
  by (induction qs) (auto simp: queue_key_def)

lemma distinct_keys_two_vhosts:
  assumes "\<And>q. q \<in> set qs \<Longrightarrow> q_vhost q = v" and "distinct (map q_name qs)"
    and "\<And>q. q \<in> set rs \<Longrightarrow> q_vhost q = v'" and "distinct (map q_name rs)" and "v \<noteq> v'"
  shows "distinct (map queue_key (qs @ rs))"
proof -
  have "distinct (map queue_key qs)" "distinct (map queue_key rs)"
    using distinct_keys_one_vhost assms by blast+
  moreover have "queue_key q \<noteq> queue_key r" if "q \<in> set qs" "r \<in> set rs" for q r
    using that assms by (metis fst_conv queue_key_def)
  ultimately show ?thesis by fastforce
qed

abbreviation lab_queues :: "queue_def list" where
  "lab_queues \<equiv> concat (map pipeline_queues PIPELINES)
     @ [mk_queue ''email-expired'' [(''x-message-ttl'', PInt EMAIL_EXPIRED_RETENTION_MS)] ''/'',
        mk_queue ''task-results'' [] ''/'']"

abbreviation guest_queues :: "queue_def list" where
  "guest_queues \<equiv> concat (map stage_queues MYCELIUM_STAGES) @ [mk_queue ''mycelium-task-results'' [] MYCELIUM_VHOST]"

lemma queues_split: "queues build_topology = lab_queues @ guest_queues"
  by (simp only: queues_build_topology append_assoc append_Cons append_Nil)

lemma lab_queue_vhost: "q \<in> set lab_queues \<Longrightarrow> q_vhost q = ''/''"
  using queue_vhosts(1) by fastforce

lemma guest_queue_vhost: "q \<in> set guest_queues \<Longrightarrow> q_vhost q = MYCELIUM_VHOST"
  using queue_vhosts(2) by fastforce

lemma distinct_queue_keys: "distinct (map queue_key (queues build_topology))"
proof -
  have "distinct (map q_name lab_queues)"
    using lab_names_distinct by (simp only: map_append list.map queue_def.simps)
  moreover have "distinct (map q_name guest_queues)"
    using guest_names_distinct guest_names by (simp only: map_append list.map queue_def.simps)
  ultimately show ?thesis
    unfolding queues_split using lab_queue_vhost guest_queue_vhost vhosts_differ(2)
    by (intro distinct_keys_two_vhosts) blast+
qed

lemma find_distinct:
  "distinct (map f xs) \<Longrightarrow> x \<in> set xs \<Longrightarrow> find (\<lambda>y. f y = f x) xs = Some x"
  by (induction xs) (auto simp: image_iff)

lemma find_queue_member:
  assumes "q \<in> set (queues build_topology)"
  shows "find_queue build_topology (q_vhost q) (q_name q) = Some q"
proof -
  have "(\<lambda>y. queue_key y = queue_key q) = (\<lambda>y. q_vhost y = q_vhost q \<and> q_name y = q_name q)"
    by (auto simp: queue_key_def)
  with find_distinct [OF distinct_queue_keys assms] show ?thesis by (simp add: find_queue_def)
qed

section \<open>Wait queues and work queues\<close>

lemma pipeline_queue_member: "p \<in> set PIPELINES \<Longrightarrow> q \<in> set (pipeline_queues p) \<Longrightarrow> q \<in> set (queues build_topology)"
  unfolding queues_split by auto

lemma stage_queue_member: "s \<in> set MYCELIUM_STAGES \<Longrightarrow> q \<in> set (stage_queues s) \<Longrightarrow> q \<in> set (queues build_topology)"
  unfolding queues_split by auto

abbreviation wait_queue :: "string \<Rightarrow> string \<Rightarrow> string \<Rightarrow> string \<Rightarrow> string \<Rightarrow> int \<Rightarrow> queue_def" where
  "wait_queue ex q rk v tier ttl \<equiv> mk_queue (q @ ''.retry.'' @ tier)
     [(''x-message-ttl'', PInt ttl), (''x-dead-letter-exchange'', PStr ex), (''x-dead-letter-routing-key'', PStr rk)] v"

lemma wait_queue_in_ladder: "(tier, ttl) \<in> set TIER_TTLS \<Longrightarrow> wait_queue ex q rk v tier ttl \<in> set (ladder_queues ex q rk v)"
  unfolding ladder_queues_def set_map by (rule image_eqI [where x = "(tier, ttl)"]) auto

lemma find_wait_queue:
  assumes "p \<in> set PIPELINES" and "(tier, ttl) \<in> set TIER_TTLS"
  shows "find_queue build_topology ''/'' (pl_q p @ ''.retry.'' @ tier) =
         Some (wait_queue (pl_ex p) (pl_q p) (pl_rk p) ''/'' tier ttl)"
  using find_queue_member [OF pipeline_queue_member [OF assms(1)], of "wait_queue (pl_ex p) (pl_q p) (pl_rk p) ''/'' tier ttl"]
    wait_queue_in_ladder [OF assms(2)] by (simp add: pipeline_queues_def)

lemma find_stage_wait_queue:
  assumes "s \<in> set MYCELIUM_STAGES" and "(tier, ttl) \<in> set TIER_TTLS"
  shows "find_queue build_topology MYCELIUM_VHOST (stage_key s @ ''.retry.'' @ tier) =
         Some (wait_queue MYCELIUM_EXCHANGE (stage_key s) (stage_key s) MYCELIUM_VHOST tier ttl)"
  using find_queue_member [OF stage_queue_member [OF assms(1)],
      of "wait_queue MYCELIUM_EXCHANGE (stage_key s) (stage_key s) MYCELIUM_VHOST tier ttl"]
    wait_queue_in_ladder [OF assms(2)] by (simp add: stage_queues_def)

lemma find_work_queue:
  assumes "p \<in> set PIPELINES"
  shows "find_queue build_topology ''/'' (pl_q p) = Some (mk_queue (pl_q p) (work_args p) ''/'')"
  using find_queue_member [OF pipeline_queue_member [OF assms], of "mk_queue (pl_q p) (work_args p) ''/''"]
  by (simp add: pipeline_queues_def)

section \<open>Declared references\<close>

definition declared :: "topology \<Rightarrow> binding_def \<Rightarrow> bool" where
  "declared t b =
     ((\<exists>x \<in> set (exchanges t). x_name x = b_source b \<and> x_vhost x = b_vhost b) \<and>
      (\<exists>q \<in> set (queues t). q_name q = b_destination b \<and> q_vhost q = b_vhost b))"

lemma declaredI:
  "mk_exchange s v \<in> set (exchanges t) \<Longrightarrow> mk_queue d a v \<in> set (queues t) \<Longrightarrow> declared t (mk_binding s d rk v)"
  by (force simp: declared_def)

lemma ladder_binding_cases:
  assumes "b \<in> set (ladder_bindings ex q rk v)"
  obtains tier ttl where "(tier, ttl) \<in> set TIER_TTLS"
    and "b = mk_binding (ex @ ''.retry'') (q @ ''.retry.'' @ tier) (rk @ ''.retry.'' @ tier) v"
  using assms unfolding ladder_bindings_def set_map by (auto simp del: append.simps)

lemma declared_ladder:
  assumes "mk_exchange (ex @ ''.retry'') v \<in> set (exchanges t)"
    and "set (ladder_queues ex q rk v) \<subseteq> set (queues t)" and "b \<in> set (ladder_bindings ex q rk v)"
  shows "declared t b"
  using assms(3) by (rule ladder_binding_cases) (use assms wait_queue_in_ladder in \<open>blast intro: declaredI\<close>)

lemma declared_pipeline:
  assumes p: "p \<in> set PIPELINES" and b: "b \<in> set (pipeline_bindings p)"
  shows "declared build_topology b"
proof -
  have x: "set (pipeline_exchanges p) \<subseteq> set (exchanges build_topology)"
    using p unfolding exchanges_build_topology by auto
  have q: "set (pipeline_queues p) \<subseteq> set (queues build_topology)"
    using pipeline_queue_member [OF p] by blast
  from b consider "b = mk_binding (pl_ex p) (pl_q p) (pl_rk p) ''/''"
    | "b = mk_binding (pl_ex p @ ''.dlx'') (pl_q p @ ''.dlq'') (pl_rk p) ''/''"
    | "b \<in> set (ladder_bindings (pl_ex p) (pl_q p) (pl_rk p) ''/'')"
    unfolding pipeline_bindings_def by auto
  then show ?thesis
  proof cases
    case 1
    with x q show ?thesis
      unfolding pipeline_exchanges_def pipeline_queues_def
      by (simp only:) (rule declaredI [where a = "work_args p"]; auto)
  next
    case 2
    with x q show ?thesis
      unfolding pipeline_exchanges_def pipeline_queues_def
      by (simp only:) (rule declaredI [where a = "[(''x-message-ttl'', PInt (pl_dlq_ttl p))]"]; auto)
  next
    case 3
    then show ?thesis
      by (rule declared_ladder [rotated 2])
        (use x q in \<open>auto simp: pipeline_exchanges_def pipeline_queues_def\<close>)
  qed
qed

lemma declared_stage:
  assumes s: "s \<in> set MYCELIUM_STAGES" and b: "b \<in> set (stage_bindings s)"
  shows "declared build_topology b"
proof -
  have q: "set (stage_queues s) \<subseteq> set (queues build_topology)"
    using stage_queue_member [OF s] by blast
  have x: "mk_exchange MYCELIUM_EXCHANGE MYCELIUM_VHOST \<in> set (exchanges build_topology)"
    "mk_exchange (MYCELIUM_EXCHANGE @ ''.dlx'') MYCELIUM_VHOST \<in> set (exchanges build_topology)"
    "mk_exchange (MYCELIUM_EXCHANGE @ ''.retry'') MYCELIUM_VHOST \<in> set (exchanges build_topology)"
    unfolding exchanges_build_topology by auto
  from b consider "b = mk_binding MYCELIUM_EXCHANGE (stage_key s) (stage_key s) MYCELIUM_VHOST"
    | "b = mk_binding (MYCELIUM_EXCHANGE @ ''.dlx'') (stage_key s @ ''.dlq'') (stage_key s) MYCELIUM_VHOST"
    | "b \<in> set (ladder_bindings MYCELIUM_EXCHANGE (stage_key s) (stage_key s) MYCELIUM_VHOST)"
    unfolding stage_bindings_def by auto
  then show ?thesis
  proof cases
    case 1
    with x q show ?thesis unfolding stage_queues_def by (simp only:) (rule declaredI; auto)
  next
    case 2
    with x q show ?thesis unfolding stage_queues_def by (simp only:) (rule declaredI; auto)
  next
    case 3
    then show ?thesis
      by (rule declared_ladder [rotated 2]) (use x q in \<open>auto simp: stage_queues_def\<close>)
  qed
qed

section \<open>Properties\<close>

text \<open>C9: For every pipeline and tier of the generated topology: a task published with the
  pipeline's key reaches its work queue; a retry published on \<open><exchange>.retry\<close> with
  \<open><rk>.retry.<tier>\<close> reaches that tier's wait queue, and nothing else; the wait queue holds
  it for the tier's delay and dead-letters it to the work queue it came from; and what is
  published on \<open><exchange>.dlx\<close> reaches the pipeline's dead-letter queue.\<close>

theorem retry_round_trip:
  assumes "p \<in> set PIPELINES" and "(tier, ttl) \<in> set TIER_TTLS"
  shows "routes build_topology ''/'' (pl_ex p) (pl_rk p) = [pl_q p]
    \<and> routes build_topology ''/'' (pl_ex p @ ''.retry'') (pl_rk p @ ''.retry.'' @ tier) = [pl_q p @ ''.retry.'' @ tier]
    \<and> (\<exists>wq. find_queue build_topology ''/'' (pl_q p @ ''.retry.'' @ tier) = Some wq
           \<and> map_of (q_args wq) ''x-message-ttl'' = Some (PInt ttl)
           \<and> dead_letter_targets build_topology wq = [pl_q p])
    \<and> routes build_topology ''/'' (pl_ex p @ ''.dlx'') (pl_rk p) = [pl_q p @ ''.dlq'']"
  using assms route_work route_retry route_dlx find_wait_queue
  by (auto simp: dead_letter_targets_def)

lemma retry_round_trip_witness:
  "routes build_topology ''/'' ''document-tasks.retry'' ''document.process.retry.30s'' = [''document-processing.retry.30s'']"
proof -
  let ?p = "pipe ''document.process'' ''document-tasks'' ''document-processing'' 604800000 1 ''graphrag-service''"
  have "?p \<in> set PIPELINES" "(''30s'', 30000) \<in> set TIER_TTLS"
    by (simp_all add: PIPELINES_def TIER_TTLS_def)
  from retry_round_trip [OF this] show ?thesis by (simp add: pipe_def)
qed

text \<open>The same round trip on the guest vhost, for every stage of the guest's registry.\<close>

theorem stage_round_trip:
  assumes "s \<in> set MYCELIUM_STAGES" and "(tier, ttl) \<in> set TIER_TTLS"
  shows "routes build_topology MYCELIUM_VHOST MYCELIUM_EXCHANGE (stage_key s) = [stage_key s]
    \<and> routes build_topology MYCELIUM_VHOST (MYCELIUM_EXCHANGE @ ''.retry'') (stage_key s @ ''.retry.'' @ tier)
         = [stage_key s @ ''.retry.'' @ tier]
    \<and> (\<exists>wq. find_queue build_topology MYCELIUM_VHOST (stage_key s @ ''.retry.'' @ tier) = Some wq
           \<and> map_of (q_args wq) ''x-message-ttl'' = Some (PInt ttl)
           \<and> dead_letter_targets build_topology wq = [stage_key s])
    \<and> routes build_topology MYCELIUM_VHOST (MYCELIUM_EXCHANGE @ ''.dlx'') (stage_key s) = [stage_key s @ ''.dlq'']"
  using assms route_stage_work route_stage_retry route_stage_dlx find_stage_wait_queue
  by (auto simp: dead_letter_targets_def)

lemma stage_round_trip_witness:
  "routes build_topology MYCELIUM_VHOST MYCELIUM_EXCHANGE (stage_key ''embed'') = [stage_key ''embed'']"
proof -
  have "''embed'' \<in> set MYCELIUM_STAGES" "(''5s'', 5000) \<in> set TIER_TTLS"
    by (simp_all add: MYCELIUM_STAGES_def TIER_TTLS_def)
  from stage_round_trip [OF this] show ?thesis by blast
qed

text \<open>A work queue's own dead letters (expiry) go to the pipeline's dead-letter queue,
  except that expired email goes to \<open>email-expired\<close> and never to the poison queue; only the
  email queue has a message time to live.\<close>

theorem expiry_split:
  assumes "p \<in> set PIPELINES"
  shows "\<exists>wq. find_queue build_topology ''/'' (pl_q p) = Some wq
     \<and> dead_letter_targets build_topology wq =
         (if pl_rk p = ''email.send'' then [''email-expired''] else [pl_q p @ ''.dlq''])
     \<and> has_ttl wq = (pl_rk p = ''email.send'')"
proof -
  from assms have "pl_rk p = ''email.send'' \<Longrightarrow> pl_ex p = ''email-tasks''"
    by (elim pipeline_cases) (simp_all add: pipe_def)
  then show ?thesis
    using find_work_queue [OF assms] route_dlx [OF assms] route_email_expired
    by (auto simp: dead_letter_targets_def work_args_def has_ttl_def)
qed

lemma expiry_split_witness:
  "\<exists>wq. find_queue build_topology ''/'' ''email-processing'' = Some wq
     \<and> dead_letter_targets build_topology wq = [''email-expired'']"
proof -
  have "pipe ''email.send'' ''email-tasks'' ''email-processing'' 86400000 5 ''email-worker'' \<in> set PIPELINES"
    by (simp add: PIPELINES_def)
  from expiry_split [OF this] show ?thesis by (auto simp: pipe_def)
qed

text \<open>The generated topology is well formed: no two queues of a vhost have the same
  name, and every binding joins an exchange and a queue declared on the binding's vhost.\<close>

theorem topology_well_formed:
  "distinct (map (\<lambda>q. (q_vhost q, q_name q)) (queues build_topology))
   \<and> filter (\<lambda>b. \<not> declared build_topology b) (bindings build_topology) = []"
proof
  show "distinct (map (\<lambda>q. (q_vhost q, q_name q)) (queues build_topology))"
    using distinct_queue_keys by (simp add: queue_key_def [abs_def])
  have rest: "declared build_topology (mk_binding ''email-tasks.dlx'' ''email-expired'' ''email.expired'' ''/'')"
    "declared build_topology (mk_binding ''task-results'' ''task-results'' ''task.result'' ''/'')"
    "declared build_topology (mk_binding ''mycelium-results'' ''mycelium-task-results'' ''km.stage.result'' MYCELIUM_VHOST)"
    unfolding declared_def exchanges_build_topology queues_build_topology
    by (simp_all add: PIPELINES_def pipe_def pipeline_exchanges_def)
  show "filter (\<lambda>b. \<not> declared build_topology b) (bindings build_topology) = []"
    using rest declared_pipeline declared_stage unfolding filter_empty_conv bindings_build_topology by auto
qed

end
