(* ===== verification/Retry_Ladder.thy ===== *)
theory Retry_Ladder
  imports Worker Consumer_Guard Topology
begin

text \<open>
  The worker, its handler and the broker's topology together: the consumer's names are those
  of the generated topology, so all it publishes is routed; a message that keeps failing
  climbs the three retry tiers and is then dead-lettered; a malformed message goes to the
  dead-letter exchange at once. The broker's header update on a dead-lettering (\<open>x-death\<close>)
  is the parameter \<open>bump\<close>.
\<close>

section \<open>The worker's names\<close>

lemma worker_consumer_eq:
  "worker_consumer S =
     \<lparr> exchange_name = ''document-tasks'', queue_name = ''document-processing'', routing_key = ''document.process'',
       retry_exchange_name = ''document-tasks.retry'', dlx_exchange_name = ''document-tasks.dlx'',
       results_exchange_name = ''task-results'', results_routing_key = ''task.result'',
       retry_queue_prefix = ''document-processing.retry.'' \<rparr>"
  by (simp add: worker_consumer_def load_config_def string_entries_def init_consumer_def cfg_get_def opt_str_def
      Let_def split: option.split)

abbreviation document_pipeline :: pipeline where
  "document_pipeline \<equiv> pipe ''document.process'' ''document-tasks'' ''document-processing'' 604800000 1 ''graphrag-service''"

lemma document_pipeline_mem: "document_pipeline \<in> set PIPELINES"
  by (simp add: PIPELINES_def)

text \<open>The queues a publication reaches on the lab vhost.\<close>

definition reaches :: "publication \<Rightarrow> string list" where
  "reaches p = routes build_topology ''/'' (p_exchange p) (p_routing_key p)"

lemma reaches_retry:
  assumes "tier \<in> set RETRY_TIERS"
  shows "reaches (retry_publication (worker_consumer S) m tier) = [''document-processing.retry.'' @ tier]"
proof -
  have "\<exists>ttl. (tier, ttl) \<in> set TIER_TTLS" using assms by (auto simp: RETRY_TIERS_def TIER_TTLS_def)
  then obtain ttl where "(tier, ttl) \<in> set TIER_TTLS" by blast
  from route_retry [OF document_pipeline_mem this] show ?thesis
    by (simp add: reaches_def retry_publication_def worker_consumer_eq pipe_def)
qed

lemma reaches_dlx: "reaches (dlx_publication (worker_consumer S) m) = [''document-processing.dlq'']"
  using route_dlx [OF document_pipeline_mem]
  by (simp add: reaches_def dlx_publication_def worker_consumer_eq pipe_def)

lemma reaches_results: "reaches (result_publication E (worker_consumer S) rd) = [''task-results'']"
  using route_results by (simp add: reaches_def result_publication_def worker_consumer_eq)

section \<open>The journey of a message\<close>

definition wait_queues :: "consumer \<Rightarrow> event list \<Rightarrow> string list" where
  "wait_queues C evs =
     concat (map (\<lambda>ev. case ev of
         Published p \<Rightarrow> filter (\<lambda>q. case find_queue build_topology ''/'' q of
              None \<Rightarrow> False
            | Some wq \<Rightarrow> queue_name C \<in> set (dead_letter_targets build_topology wq)) (reaches p)
       | _ \<Rightarrow> []) evs)"

definition redelivered :: "(string \<Rightarrow> dict \<Rightarrow> dict) \<Rightarrow> string \<Rightarrow> message \<Rightarrow> message" where
  "redelivered bump wq m = m\<lparr>m_headers := Some (bump wq (headers_copy m))\<rparr>"

text \<open>
  Deliver the message; if it was published where it waits and comes back, deliver it again
  with the headers the broker left on it. At most \<open>n\<close> deliveries.
\<close>

fun journey :: "nat \<Rightarrow> (string \<Rightarrow> dict \<Rightarrow> dict) \<Rightarrow> 'g env \<Rightarrow> consumer \<Rightarrow> handler \<Rightarrow> message \<Rightarrow> 'g world \<Rightarrow> event list" where
  "journey 0 bump E C h m w = []"
| "journey (Suc n) bump E C h m w =
     (case handle_delivery E C h m w of (r, w') \<Rightarrow>
        let evs = drop (length (broker_trace w)) (broker_trace w')
        in evs @ (case wait_queues C evs of
                    [] \<Rightarrow> []
                  | wq # _ \<Rightarrow> journey n bump E C h (redelivered bump wq m) w'))"

definition hops :: "event list \<Rightarrow> (string \<times> string) list" where
  "hops evs = concat (map (\<lambda>ev. case ev of Published p \<Rightarrow> [(p_exchange p, p_routing_key p)] | _ \<Rightarrow> []) evs)"

text \<open>The broker counts a pass through a wait queue in the \<open>x-death\<close> header.\<close>

definition counts_deaths :: "(string \<Rightarrow> dict \<Rightarrow> dict) \<Rightarrow> string \<Rightarrow> bool" where
  "counts_deaths bump prefix =
     (\<forall>wq h. str_startswith wq prefix \<longrightarrow>
        death_count (Some (bump wq h)) prefix = death_count (Some h) prefix + 1)"

definition prepend_death :: "string \<Rightarrow> dict \<Rightarrow> dict" where
  "prepend_death wq h =
     AList.update ''x-death''
       (PList (PDict [(''queue'', PStr wq), (''reason'', PStr ''expired''), (''count'', PInt 1)] # x_death_entries (Some h))) h"

lemma counts_deaths_prepend: "counts_deaths prepend_death prefix"
  by (simp add: counts_deaths_def death_count_sum x_death_entries_def prepend_death_def)

lemma attempt_redelivered:
  "counts_deaths bump (retry_queue_prefix C) \<Longrightarrow> str_startswith wq (retry_queue_prefix C) \<Longrightarrow>
   attempt_of C (redelivered bump wq m) = attempt_of C m + 1"
  by (simp add: counts_deaths_def attempt_of_def redelivered_def headers_copy_def)

lemma find_document_wait_queue:
  assumes "tier \<in> set RETRY_TIERS"
  shows "\<exists>wq. find_queue build_topology ''/'' (''document-processing.retry.'' @ tier) = Some wq
           \<and> dead_letter_targets build_topology wq = [''document-processing'']"
proof -
  have "\<exists>ttl. (tier, ttl) \<in> set TIER_TTLS" using assms by (auto simp: RETRY_TIERS_def TIER_TTLS_def)
  then obtain ttl where "(tier, ttl) \<in> set TIER_TTLS" by blast
  from find_wait_queue [OF document_pipeline_mem this] route_work [OF document_pipeline_mem]
  show ?thesis by (simp add: pipe_def dead_letter_targets_def)
qed

lemma wait_queues_retry:
  assumes "tier \<in> set RETRY_TIERS"
  shows "wait_queues (worker_consumer S) [Published (retry_publication (worker_consumer S) m tier), Acked]
         = [''document-processing.retry.'' @ tier]"
  using find_document_wait_queue [OF assms] reaches_retry [OF assms, of S m]
  by (auto simp: wait_queues_def worker_consumer_eq)

lemma find_dlq: "find_queue build_topology ''/'' ''document-processing.dlq'' =
    Some (mk_queue ''document-processing.dlq'' [(''x-message-ttl'', PInt 604800000)] ''/'')"
  using find_queue_member [OF pipeline_queue_member [OF document_pipeline_mem],
      of "mk_queue ''document-processing.dlq'' [(''x-message-ttl'', PInt 604800000)] ''/''"]
  by (simp add: pipeline_queues_def pipe_def)

lemma find_results: "find_queue build_topology ''/'' ''task-results'' = Some (mk_queue ''task-results'' [] ''/'')"
  using find_queue_member [of "mk_queue ''task-results'' [] ''/''"] unfolding queues_split by simp

lemma no_wait_queue_dlx:
  "wait_queues (worker_consumer S)
     (Published (dlx_publication (worker_consumer S) m) # result_event E (worker_consumer S) d s err @ [Acked]) = []"
  by (auto simp: wait_queues_def result_event_def reaches_dlx reaches_results find_dlq find_results dead_letter_targets_def)

section \<open>Climbing the ladder\<close>

text \<open>No attempt from \<open>a\<close> on has been claimed for the envelope.\<close>

definition unclaimed :: "string \<Rightarrow> int \<Rightarrow> seen \<Rightarrow> bool" where
  "unclaimed i a g = (\<forall>b \<ge> a. map_of g (key_for_attempt ''document-processing'' i b) = None)"

lemma unclaimed_begin:
  assumes "unclaimed i a g"
  shows "fst (in_memory_begin now (key_for_attempt ''document-processing'' i a) ttl g) = Inr True"
    and "unclaimed i (a + 1) (snd (in_memory_begin now (key_for_attempt ''document-processing'' i a) ttl g))"
  using assms by (auto simp: unclaimed_def in_memory_begin_def key_for_attempt_inject)

lemma expected_events_failing:
  assumes "snd (h (PDict d)) = Inl e" and "exn_type e \<noteq> ''UnretryableError''"
  shows "expected_events E C h m d =
     (case select_tier (attempt_of C m) of
        Some tier \<Rightarrow> [Published (retry_publication C m tier), Acked]
      | None \<Rightarrow> Published (dlx_publication C m) # result_event E C d ''failed'' (Some (exn_msg e)) @ [Acked])"
  using assms by (simp add: expected_events_def del: select_tier_None_iff split: option.split)

text \<open>
  The handler fails on the envelope \<open>d\<close>, each time, with the retryable exception \<open>e\<close>.
\<close>

definition keeps_failing :: "seen env \<Rightarrow> handler \<Rightarrow> string \<Rightarrow> dict \<Rightarrow> exn \<Rightarrow> bool" where
  "keeps_failing E h body d e =
     (no_failures E \<and> json_loads E body = Inr (PDict d) \<and> plain_envelope d \<and> truthy (dget d ''id'') \<and>
      snd (h (PDict d)) = Inl e \<and> exn_type e \<noteq> ''UnretryableError'' \<and> is_Exception e)"

abbreviation ident :: "seen env \<Rightarrow> dict \<Rightarrow> string" where
  "ident E d \<equiv> py_str E (dget d ''id'')"

lemma one_pass:
  assumes kf: "keeps_failing E h body d e" and "m_body m = body" and "unclaimed (ident E d) (attempt_of (worker_consumer S) m) (guard_state w)"
  shows "\<exists>w'. handle_delivery (in_memory_env now E) (worker_consumer S) h m w = (Inr (), w')
     \<and> broker_trace w' = broker_trace w @ expected_events (in_memory_env now E) (worker_consumer S) h m d
     \<and> unclaimed (ident E d) (attempt_of (worker_consumer S) m + 1) (guard_state w')"
proof -
  from kf have nf: "no_failures E" and json: "json_loads E body = Inr (PDict d)" and plain: "plain_envelope d"
    and id: "truthy (dget d ''id'')" and fails: "snd (h (PDict d)) = Inl e" and exc: "is_Exception e"
    by (simp_all add: keeps_failing_def)
  have nf': "no_failures (in_memory_env now E)" using nf by simp
  have js: "json_loads (in_memory_env now E) (m_body m) = Inr (PDict d)" using json assms(2) by simp
  have ex: "snd (h (PDict d)) = Inl x \<Longrightarrow> is_Exception x" for x using fails exc by simp
  have q: "queue_name (worker_consumer S) = ''document-processing''" by (simp add: worker_consumer_eq)
  have adm: "admitted (in_memory_env now E) (worker_consumer S) m d (guard_state w)"
    using unclaimed_begin(1) [OF assms(3), of now] by (simp add: admitted_def q)
  obtain w' where w': "handle_delivery (in_memory_env now E) (worker_consumer S) h m w = (Inr (), w')"
    "broker_trace w' = broker_trace w @ expected_events (in_memory_env now E) (worker_consumer S) h m d"
    using handle_delivery_no_failures [where h = h, OF nf' guard_raises_exceptions_in_memory js plain ex, where C = "worker_consumer S" and w = w]
      adm by auto
  moreover have "unclaimed (ident E d) (attempt_of (worker_consumer S) m + 1) (guard_state w')"
    using guard_state_handle_delivery [OF js id, of "worker_consumer S" h w] w'(1) unclaimed_begin(2) [OF assms(3), of now]
    by (simp add: q)
  ultimately show ?thesis by blast
qed

lemma journey_retry:
  assumes kf: "keeps_failing E h body d e" and m: "m_body m = body" "unclaimed (ident E d) (attempt_of (worker_consumer S) m) (guard_state w)"
    and tier: "select_tier (attempt_of (worker_consumer S) m) = Some tier"
    and bump: "counts_deaths bump ''document-processing.retry.''"
  shows "\<exists>m' w'. journey (Suc n) bump (in_memory_env now E) (worker_consumer S) h m w =
           [Published (retry_publication (worker_consumer S) m tier), Acked] @ journey n bump (in_memory_env now E) (worker_consumer S) h m' w'
     \<and> m_body m' = body \<and> attempt_of (worker_consumer S) m' = attempt_of (worker_consumer S) m + 1
     \<and> unclaimed (ident E d) (attempt_of (worker_consumer S) m') (guard_state w')"
proof -
  from kf have fails: "snd (h (PDict d)) = Inl e" and retryable: "exn_type e \<noteq> ''UnretryableError''"
    by (simp_all add: keeps_failing_def)
  from one_pass [OF kf m] obtain w' where w': "handle_delivery (in_memory_env now E) (worker_consumer S) h m w = (Inr (), w')"
    "broker_trace w' = broker_trace w @ expected_events (in_memory_env now E) (worker_consumer S) h m d"
    "unclaimed (ident E d) (attempt_of (worker_consumer S) m + 1) (guard_state w')" by blast
  let ?wq = "''document-processing.retry.'' @ tier"
  let ?m = "redelivered bump ?wq m"
  have evs: "expected_events (in_memory_env now E) (worker_consumer S) h m d = [Published (retry_publication (worker_consumer S) m tier), Acked]"
    using tier by (simp add: expected_events_failing [of h d e, OF fails retryable])
  have att: "attempt_of (worker_consumer S) ?m = attempt_of (worker_consumer S) m + 1"
    by (rule attempt_redelivered) (simp_all only: worker_consumer_eq consumer.simps bump str_startswith_append)
  have "journey (Suc n) bump (in_memory_env now E) (worker_consumer S) h m w =
      [Published (retry_publication (worker_consumer S) m tier), Acked] @ journey n bump (in_memory_env now E) (worker_consumer S) h ?m w'"
    using w'(1,2) evs wait_queues_retry [OF select_tier_in_tiers [OF tier], of S m] by simp
  moreover have "m_body ?m = body" using m(1) by (simp add: redelivered_def)
  ultimately show ?thesis using att w'(3) by metis
qed

lemma journey_dead_letter:
  assumes kf: "keeps_failing E h body d e" and m: "m_body m = body" "unclaimed (ident E d) (attempt_of (worker_consumer S) m) (guard_state w)"
    and att: "3 \<le> attempt_of (worker_consumer S) m"
  shows "journey (Suc n) bump (in_memory_env now E) (worker_consumer S) h m w =
     Published (dlx_publication (worker_consumer S) m) #
       result_event (in_memory_env now E) (worker_consumer S) d ''failed'' (Some (exn_msg e)) @ [Acked]"
proof -
  from kf have fails: "snd (h (PDict d)) = Inl e" and retryable: "exn_type e \<noteq> ''UnretryableError''"
    by (simp_all add: keeps_failing_def)
  from one_pass [OF kf m] obtain w' where w': "handle_delivery (in_memory_env now E) (worker_consumer S) h m w = (Inr (), w')"
    "broker_trace w' = broker_trace w @ expected_events (in_memory_env now E) (worker_consumer S) h m d" by blast
  have none: "select_tier (attempt_of (worker_consumer S) m) = None" using att by simp
  have "expected_events (in_memory_env now E) (worker_consumer S) h m d =
      Published (dlx_publication (worker_consumer S) m) # result_event (in_memory_env now E) (worker_consumer S) d ''failed'' (Some (exn_msg e)) @ [Acked]"
    using none by (simp add: expected_events_failing [of h d e, OF fails retryable] del: select_tier_None_iff)
  with w' no_wait_queue_dlx [of S m "in_memory_env now E" d "''failed''" "Some (exn_msg e)"] show ?thesis by simp
qed

text \<open>C3: A message whose processing fails on every attempt with a retryable exception, first
  delivered with no retry taken, is published on the 5s, 30s and 2m tiers in this order, each
  time comes back to the work queue through the broker's topology, and on the fourth delivery
  goes to the dead-letter exchange with a failed result; each delivery is acked once, and no
  further delivery follows, however many the broker would allow.\<close>

theorem failing_message_climbs_ladder:
  assumes kf: "keeps_failing E h (m_body m) d e"
    and fresh: "attempt_of (worker_consumer S) m = 0" "unclaimed (ident E d) 0 (guard_state w)"
    and bump: "counts_deaths bump ''document-processing.retry.''"
  shows "hops (journey (4 + n) bump (in_memory_env now E) (worker_consumer S) h m w) =
           [(''document-tasks.retry'', ''document.process.retry.5s''),
            (''document-tasks.retry'', ''document.process.retry.30s''),
            (''document-tasks.retry'', ''document.process.retry.2m''),
            (''document-tasks.dlx'', ''document.process''), (''task-results'', ''task.result'')]
       \<and> length (filter (\<lambda>ev. ev = Acked) (journey (4 + n) bump (in_memory_env now E) (worker_consumer S) h m w)) = 4"
proof -
  let ?C = "worker_consumer S" and ?E = "in_memory_env now E"
  let ?j = "\<lambda>k. journey k bump ?E ?C h"
  from fresh have u0: "unclaimed (ident E d) (attempt_of ?C m) (guard_state w)" by simp
  have t: "select_tier 0 = Some ''5s''" "select_tier 1 = Some ''30s''" "select_tier 2 = Some ''2m''"
    by (simp_all add: select_tier_eq)
  obtain m1 w1 where 1: "?j (Suc (3 + n)) m w = [Published (retry_publication ?C m ''5s''), Acked] @ ?j (3 + n) m1 w1"
    "m_body m1 = m_body m" "attempt_of ?C m1 = 1" "unclaimed (ident E d) (attempt_of ?C m1) (guard_state w1)"
    using journey_retry [OF kf refl u0 _ bump, of "''5s''" "3 + n" now] fresh(1) t by auto
  obtain m2 w2 where 2: "?j (Suc (2 + n)) m1 w1 = [Published (retry_publication ?C m1 ''30s''), Acked] @ ?j (2 + n) m2 w2"
    "m_body m2 = m_body m" "attempt_of ?C m2 = 2" "unclaimed (ident E d) (attempt_of ?C m2) (guard_state w2)"
    using journey_retry [OF kf 1(2,4) _ bump, of "''30s''" "2 + n" now] 1(3) t by auto
  obtain m3 w3 where 3: "?j (Suc (1 + n)) m2 w2 = [Published (retry_publication ?C m2 ''2m''), Acked] @ ?j (1 + n) m3 w3"
    "m_body m3 = m_body m" "attempt_of ?C m3 = 3" "unclaimed (ident E d) (attempt_of ?C m3) (guard_state w3)"
    using journey_retry [OF kf 2(2,4) _ bump, of "''2m''" "1 + n" now] 2(3) t by auto
  have 4: "?j (Suc n) m3 w3 = Published (dlx_publication ?C m3) # result_event ?E ?C d ''failed'' (Some (exn_msg e)) @ [Acked]"
    using journey_dead_letter [OF kf 3(2,4)] 3(3) by simp
  have "d \<noteq> []" using kf by (auto simp: keeps_failing_def dget_def)
  moreover have "?j (4 + n) m w =
      [Published (retry_publication ?C m ''5s''), Acked, Published (retry_publication ?C m1 ''30s''), Acked,
       Published (retry_publication ?C m2 ''2m''), Acked, Published (dlx_publication ?C m3)]
      @ result_event ?E ?C d ''failed'' (Some (exn_msg e)) @ [Acked]"
    using 1(1) 2(1) 3(1) 4 by (simp add: numeral_eq_Suc)
  ultimately show ?thesis
    by (simp add: hops_def result_event_def retry_publication_def dlx_publication_def result_publication_def
        worker_consumer_eq)
qed

lemma failing_message_climbs_ladder_witness:
  "hops (journey 4 prepend_death (in_memory_env 0 (demo_env no_broker_failure (PDict demo_envelope)))
     (worker_consumer default_settings) failing_handler demo_message demo_world) =
   [(''document-tasks.retry'', ''document.process.retry.5s''),
    (''document-tasks.retry'', ''document.process.retry.30s''),
    (''document-tasks.retry'', ''document.process.retry.2m''),
    (''document-tasks.dlx'', ''document.process''), (''task-results'', ''task.result'')]"
proof -
  have kf: "keeps_failing (demo_env no_broker_failure (PDict demo_envelope)) failing_handler (m_body demo_message)
      demo_envelope (Exn ''TimeoutError'' ''slow'')"
    by (simp add: keeps_failing_def demo_defs no_failures_def is_Exception_def plain_envelope_def dict_or_falsy_def dget_def)
  have a: "attempt_of (worker_consumer default_settings) demo_message = 0"
    by (simp add: attempt_of_def headers_copy_def demo_message_def)
  have u: "unclaimed i 0 (guard_state demo_world)" for i by (simp add: unclaimed_def demo_world_def)
  from failing_message_climbs_ladder [OF kf a u counts_deaths_prepend, of 0 0] show ?thesis by simp
qed

text \<open>Everything the worker publishes reaches exactly one queue of the generated topology:
  a retry its tier's wait queue, a dead letter the document pipeline's dead-letter queue, a
  result the results queue.\<close>

theorem publications_routed:
  assumes "tier \<in> set RETRY_TIERS"
  shows "reaches (retry_publication (worker_consumer S) m tier) = [''document-processing.retry.'' @ tier]
   \<and> reaches (dlx_publication (worker_consumer S) m) = [''document-processing.dlq'']
   \<and> reaches (result_publication E (worker_consumer S) rd) = [''task-results'']"
  using reaches_retry [OF assms] reaches_dlx reaches_results by blast

lemma publications_routed_witness:
  "reaches (retry_publication (worker_consumer default_settings) demo_message ''30s'') = [''document-processing.retry.30s'']"
proof -
  have "''30s'' \<in> set RETRY_TIERS" by (simp add: RETRY_TIERS_def)
  from conjunct1 [OF publications_routed [OF this]]
  have "reaches (retry_publication (worker_consumer default_settings) demo_message ''30s'')
      = [''document-processing.retry.'' @ ''30s'']" .
  then show ?thesis by simp
qed

end
