(* ===== verification/Worker_Facts.thy ===== *)
theory Worker_Facts
  imports Worker Consumer_Guard
begin

text \<open>
  What the worker's handler decides: which envelopes are valid, what an invalid one costs,
  what a null or mistyped payload does, which temporary files stay behind, how the metrics
  move, and which credentials are chosen.
\<close>

section \<open>Validation\<close>

lemma all_in_dict: "all_in ks (PDict d) = Inr (\<forall>k \<in> set ks. k \<in> set (keys d))"
  by (induction ks) auto

lemma validate_missing: "\<not> set required_fields \<subseteq> set (keys message) \<Longrightarrow> validate message = Inr False"
  by (auto simp: validate_def all_in_dict)

lemma validate_payload:
  "set required_fields \<subseteq> set (keys message) \<Longrightarrow>
   validate message = all_in payload_required (dget message ''payload'')"
proof -
  assume req: "set required_fields \<subseteq> set (keys message)"
  then have "''payload'' \<in> set (keys message)" by (simp add: required_fields_def)
  then obtain p where "map_of message ''payload'' = Some p"
    by (metis map_of_None_keys option.exhaust)
  with req show ?thesis by (auto simp: validate_def all_in_dict dget_def)
qed

section \<open>Temporary files\<close>

lemma process_files:
  "process S V message files = (r, files') \<Longrightarrow> files' = files \<or> (\<exists>n. files' = n # files \<and>
     (\<exists>b p e. fget_object V b p n = Some e \<and> r = Inl e))"
  by (auto simp: process_def download_document_def bindA_def seqA_def liftR_def modifyA_def ret_def raise_def Let_def
      split: prod.splits sum.splits option.splits)

section \<open>Metrics\<close>

definition apply_metrics :: "rat \<Rightarrow> (string \<times> string list) list \<Rightarrow> metrics \<Rightarrow> metrics" where
  "apply_metrics now = fold (apply_metric now)"

section \<open>Properties\<close>

text \<open>An envelope passes validation exactly when it has the four envelope fields and its
  payload, where that is a dictionary, has the three document fields.\<close>

theorem validate_iff:
  assumes "dget message ''payload'' = PDict p"
  shows "validate message = Inr (set required_fields \<subseteq> set (keys message) \<and> set payload_required \<subseteq> set (keys p))"
proof (cases "set required_fields \<subseteq> set (keys message)")
  case True
  with validate_payload [OF True] assms show ?thesis by (auto simp: all_in_dict)
next
  case False
  with validate_missing show ?thesis by simp
qed

lemma validate_iff_witness:
  "validate demo_envelope = Inr False"
proof -
  have "dget demo_envelope ''payload'' = PDict [(''document_id'', PStr ''d1'')]" by code_simp
  from validate_iff [OF this] show ?thesis by (simp add: demo_envelope_def required_fields_def)
qed

text \<open>An envelope with a dictionary payload that fails validation is unretryable: on its
  first delivery, and on any later one, it is published to the dead-letter exchange with a
  failed result and acked, never to a retry tier.\<close>

theorem invalid_envelope_dead_lettered:
  assumes "no_failures E" and "guard_raises_exceptions E" and "json_loads E (m_body m) = Inr (PDict d)"
    and "dget d ''payload'' = PDict p" and "dict_or_falsy (dget d ''metadata'')"
    and invalid: "\<not> (set required_fields \<subseteq> set (keys d) \<and> set payload_required \<subseteq> set (keys p))"
    and adm: "admitted E C m d (guard_state w)"
  shows "\<exists>w' err. handle_delivery E C (worker_handler S V str) m w = (Inr (), w')
           \<and> broker_trace w' = broker_trace w @
               Published (dlx_publication C m) # result_event E C d ''failed'' (Some err) @ [Acked]"
proof -
  have "validate d = Inr False"
  proof (cases "set required_fields \<subseteq> set (keys d)")
    case True
    with validate_payload [OF True] assms(4) invalid show ?thesis by (auto simp: all_in_dict)
  next
    case False
    then show ?thesis by (rule validate_missing)
  qed
  then have h: "snd (worker_handler S V str (PDict d)) =
      Inl (Exn ''UnretryableError'' (''validation failed for message '' @ unknown_id str d))"
    by (simp add: worker_handler_def handle_message_def)
  have plain: "plain_envelope d" using assms(4,5) by (simp add: plain_envelope_def dict_or_falsy_def)
  have exc: "snd (worker_handler S V str (PDict d)) = Inl e \<Longrightarrow> is_Exception e" for e
    using h by (auto simp: is_Exception_def)
  from handle_delivery_no_failures [where h = "worker_handler S V str", OF assms(1,2,3) plain exc, where C = C and w = w]
    adm h show ?thesis
    by (auto simp: expected_events_def)
qed

definition demo_services :: services where
  "demo_services = \<lparr> splitext = (\<lambda>_. Inr ''.pdf''), temp_name = (\<lambda>s. ''/tmp/x'' @ s),
     fget_object = (\<lambda>_ _ _. Some (Exn ''S3Error'' ''gone'')), import_pipelines = None, environ = [],
     ingest_from_args = (\<lambda>_ _ _. None), graphrag_from_args = (\<lambda>_ _ _. None),
     run_ingest = Inr 0, run_graphrag = Inr 0 \<rparr>"

lemma invalid_envelope_dead_lettered_witness:
  "\<exists>w' err. handle_delivery (demo_env no_broker_failure (PDict demo_envelope)) demo_consumer
       (worker_handler default_settings demo_services (\<lambda>_. [])) demo_message demo_world = (Inr (), w')
     \<and> broker_trace w' = Published (dlx_publication demo_consumer demo_message) #
          result_event (demo_env no_broker_failure (PDict demo_envelope)) demo_consumer demo_envelope ''failed'' (Some err) @ [Acked]"
proof -
  let ?E = "demo_env no_broker_failure (PDict demo_envelope)"
  have nf: "no_failures ?E" by (simp add: no_failures_def demo_defs)
  have gr: "guard_raises_exceptions ?E"
    using guard_raises_exceptions_in_memory [of 0 ?E] by (simp add: in_memory_env_def demo_env_def)
  have js: "json_loads ?E (m_body demo_message) = Inr (PDict demo_envelope)" by (simp add: demo_env_def)
  have p: "dget demo_envelope ''payload'' = PDict [(''document_id'', PStr ''d1'')]" by code_simp
  have md: "dict_or_falsy (dget demo_envelope ''metadata'')" by code_simp
  have inv: "\<not> (set required_fields \<subseteq> set (keys demo_envelope) \<and>
      set payload_required \<subseteq> set (keys [(''document_id'', PStr ''d1'')]))"
    by (simp add: payload_required_def)
  have adm: "admitted ?E demo_consumer demo_message demo_envelope (guard_state demo_world)" by code_simp
  have "broker_trace demo_world = []" by code_simp
  with invalid_envelope_dead_lettered [OF nf gr js p md inv adm] show ?thesis by simp
qed

text \<open>An envelope with all four fields whose payload is null, a boolean or a number makes
  validation itself raise \<open>TypeError\<close>; that is not classified as unretryable, so the message
  is published on the first retry tier although no retry can make it valid.\<close>

theorem null_payload_is_retried:
  assumes "no_failures E" and "guard_raises_exceptions E" and "json_loads E (m_body m) = Inr (PDict d)"
    and "set required_fields \<subseteq> set (keys d)" and "dget d ''payload'' = PNone"
    and "dict_or_falsy (dget d ''metadata'')" and "attempt_of C m = 0"
    and adm: "admitted E C m d (guard_state w)"
  shows "\<exists>w'. handle_delivery E C (worker_handler S V str) m w = (Inr (), w')
           \<and> broker_trace w' = broker_trace w @ [Published (retry_publication C m ''5s''), Acked]"
proof -
  have "\<exists>msg. validate d = Inl (Exn ''TypeError'' msg)"
    using validate_payload [OF assms(4)] assms(5) by (simp add: payload_required_def)
  then obtain msg where h: "snd (worker_handler S V str (PDict d)) = Inl (Exn ''TypeError'' msg)"
    by (auto simp: worker_handler_def handle_message_def)
  have plain: "plain_envelope d" using assms(5,6) by (simp add: plain_envelope_def dict_or_falsy_def)
  have exc: "snd (worker_handler S V str (PDict d)) = Inl e \<Longrightarrow> is_Exception e" for e
    using h by (auto simp: is_Exception_def)
  from handle_delivery_no_failures [where h = "worker_handler S V str", OF assms(1,2,3) plain exc, where C = C and w = w]
    adm h assms(7) show ?thesis
    by (auto simp: expected_events_def select_tier_eq)
qed

definition null_envelope :: dict where
  "null_envelope = [(''id'', PStr ''e1''), (''type'', PStr ''t''), (''timestamp'', PStr ''t''), (''payload'', PNone)]"

lemma null_payload_is_retried_witness:
  "\<exists>w'. handle_delivery (demo_env no_broker_failure (PDict null_envelope)) demo_consumer
       (worker_handler default_settings demo_services (\<lambda>_. [])) demo_message demo_world = (Inr (), w')
     \<and> broker_trace w' = [Published (retry_publication demo_consumer demo_message ''5s''), Acked]"
proof -
  let ?E = "demo_env no_broker_failure (PDict null_envelope)"
  have nf: "no_failures ?E" by (simp add: no_failures_def demo_defs)
  have gr: "guard_raises_exceptions ?E"
    using guard_raises_exceptions_in_memory [of 0 ?E] by (simp add: in_memory_env_def demo_env_def)
  have js: "json_loads ?E (m_body demo_message) = Inr (PDict null_envelope)" by (simp add: demo_env_def)
  have req: "set required_fields \<subseteq> set (keys null_envelope)" by (simp add: required_fields_def null_envelope_def)
  have p: "dget null_envelope ''payload'' = PNone" "dict_or_falsy (dget null_envelope ''metadata'')" by code_simp+
  have att: "attempt_of demo_consumer demo_message = 0" by code_simp
  have adm: "admitted ?E demo_consumer demo_message null_envelope (guard_state demo_world)" by code_simp
  have "broker_trace demo_world = []" by code_simp
  with null_payload_is_retried [OF nf gr js req p att adm] show ?thesis by simp
qed

text \<open>Processing removes the temporary file it downloaded into, whether the pipelines
  return or raise; the one exception is a download that raises, whose temporary file stays.\<close>

theorem temporary_files:
  assumes "process S V message files = (r, files')"
  shows "files' = files \<or>
         (\<exists>n b p e. files' = n # files \<and> fget_object V b p n = Some e \<and> r = Inl e)"
  using process_files [OF assms] by blast

definition valid_envelope :: dict where
  "valid_envelope = [(''id'', PStr ''e1''), (''type'', PStr ''t''), (''timestamp'', PStr ''t''),
     (''payload'', PDict [(''document_id'', PStr ''d''), (''storage_path'', PStr ''p.pdf''), (''storage_bucket'', PStr ''b'')])]"

lemma temporary_files_witness:
  "snd (process default_settings demo_services valid_envelope []) = [''/tmp/x.pdf''] \<and>
   (\<exists>b p e. fget_object demo_services b p ''/tmp/x.pdf'' = Some e)"
proof -
  have "process default_settings demo_services valid_envelope [] = (Inl (Exn ''S3Error'' ''gone''), [''/tmp/x.pdf''])"
    by code_simp
  from temporary_files [OF this] this show ?thesis by auto
qed

text \<open>Each message the handler takes leaves the gauge of documents in progress where it
  was and counts exactly once in \<open>messages_processed\<close>, except where validation itself raises
  or the processing is cancelled.\<close>

theorem handler_metrics_balanced:
  assumes "handle_message S V str files message = (ms, r, files')"
  shows "current_processing (apply_metrics now ms M) = current_processing M
    \<and> (ms = [] \<or> ms = [(''track_enter'', []), (''track_exit'', [])] \<or>
       (\<exists>label. messages_processed (apply_metrics now ms M) = inc_label label (messages_processed M) \<and>
          label = (case r of Inr _ \<Rightarrow> ''success''
                   | Inl e \<Rightarrow> if exn_type e = ''UnretryableError'' \<and> validate message = Inr False
                            then ''error_validation'' else ''error_processing'')))"
  using assms
  by (auto simp: handle_message_def apply_metrics_def apply_metric_def record_error_def record_success_def
      track_enter_def track_exit_def split: sum.splits prod.splits if_splits)

definition zero_metrics :: metrics where
  "zero_metrics = \<lparr> messages_processed = [], documents_processed = 0, durations_observed = 0,
     current_processing = 0, last_success = None, retries = [], dlq = 0, duplicates = 0, idempotency_errors = 0 \<rparr>"

lemma handler_metrics_balanced_witness:
  "\<exists>ms r files'. handle_message default_settings demo_services (\<lambda>_. []) [] valid_envelope = (ms, r, files')
     \<and> current_processing (apply_metrics 0 ms zero_metrics) = 0"
proof -
  obtain ms r files' where h: "handle_message default_settings demo_services (\<lambda>_. []) [] valid_envelope = (ms, r, files')"
    by (metis prod_cases3)
  from handler_metrics_balanced [OF h, of 0 zero_metrics] h show ?thesis by (auto simp: zero_metrics_def)
qed

text \<open>The object-store client uses the static keys when both are set, the ambient
  credential chain when both are empty, and fails fast when only one is set.\<close>

theorem minio_credentials:
  "init_minio S =
     (case (minio_access_key S, minio_secret_key S) of
        ([], []) \<Rightarrow> Inr (Ambient (minio_endpoint S) (minio_use_ssl S))
      | (a # as, k # ks) \<Rightarrow> Inr (Static (minio_endpoint S) (a # as) (k # ks) (minio_use_ssl S))
      | _ \<Rightarrow> Inl (Exn ''ValueError''
           ''MINIO_ACCESS_KEY and MINIO_SECRET_KEY must both be set (static creds) or both be empty (ambient/IRSA creds)''))"
  by (simp add: init_minio_def Let_def split: list.split)

end
