(* ===== verification/Lru_Cache.thy ===== *)
theory Lru_Cache
  imports Prelude
begin

text \<open>
  \<open>src/lib/caching/lru_cache.py\<close>: the LRU cache with its time to live, hit counters and
  eviction, and the memoizing decorator \<open>cached\<close>. An operation takes the time it reads from
  the clock. The locale \<open>kv_cache\<close> is what the decorator relies on; \<open>LRUCache\<close> interprets it.
  The lock serializes the operations, so a run is a sequence of them.
\<close>

section \<open>The cache\<close>

record entry =
  e_value :: pyval
  e_timestamp :: rat

record lru =
  max_size :: nat
  ttl :: "rat option"
  cache_name :: string
  cache :: "(string \<times> entry) list"
  hits :: nat
  misses :: nat

definition init_lru :: "int \<Rightarrow> rat option \<Rightarrow> string \<Rightarrow> lru" where
  "init_lru n t name =
     \<lparr> max_size = nat (max 1 n), ttl = t, cache_name = name, cache = [], hits = 0, misses = 0 \<rparr>"

definition move_to_end :: "string \<Rightarrow> (string \<times> entry) list \<Rightarrow> (string \<times> entry) list" where
  "move_to_end k c = (case map_of c k of None \<Rightarrow> c | Some e \<Rightarrow> AList.delete k c @ [(k, e)])"

definition expired :: "rat \<Rightarrow> lru \<Rightarrow> entry \<Rightarrow> bool" where
  "expired now L e = (case ttl L of None \<Rightarrow> False | Some t \<Rightarrow> t < now - e_timestamp e)"

definition lru_get :: "rat \<Rightarrow> string \<Rightarrow> pyval \<Rightarrow> lru \<Rightarrow> pyval \<times> lru" where
  "lru_get now k dflt L =
     (case map_of (cache L) k of
        None \<Rightarrow> (dflt, L\<lparr>misses := Suc (misses L)\<rparr>)
      | Some e \<Rightarrow>
          if expired now L e
          then (dflt, L\<lparr>cache := AList.delete k (cache L), misses := Suc (misses L)\<rparr>)
          else (e_value e, L\<lparr>cache := move_to_end k (cache L), hits := Suc (hits L)\<rparr>))"

definition lru_set :: "rat \<Rightarrow> string \<Rightarrow> pyval \<Rightarrow> lru \<Rightarrow> lru" where
  "lru_set now k v L =
     (let e = \<lparr> e_value = v, e_timestamp = now \<rparr>
      in if k \<in> set (keys (cache L))
         then L\<lparr>cache := move_to_end k (AList.update k e (cache L))\<rparr>
         else (let c = (if max_size L \<le> length (cache L) then drop 1 (cache L) else cache L)
               in L\<lparr>cache := AList.update k e c\<rparr>))"

definition lru_delete :: "string \<Rightarrow> lru \<Rightarrow> bool \<times> lru" where
  "lru_delete k L =
     (if k \<in> set (keys (cache L)) then (True, L\<lparr>cache := AList.delete k (cache L)\<rparr>) else (False, L))"

definition lru_clear :: "lru \<Rightarrow> lru" where
  "lru_clear L = L\<lparr>cache := [], hits := 0, misses := 0\<rparr>"

definition lru_size :: "lru \<Rightarrow> nat" where
  "lru_size L = length (cache L)"

record lru_stats =
  s_name :: string
  s_hits :: nat
  s_misses :: nat
  s_size :: nat
  s_max_size :: nat
  s_hit_rate :: rat
  s_ttl :: "rat option"

definition stats :: "lru \<Rightarrow> lru_stats" where
  "stats L =
     (let total = hits L + misses L
      in \<lparr> s_name = cache_name L, s_hits = hits L, s_misses = misses L, s_size = length (cache L),
           s_max_size = max_size L,
           s_hit_rate = (if 0 < total then of_nat (hits L) / of_nat total * 100 else 0), s_ttl = ttl L \<rparr>)"

section \<open>The decorator\<close>

text \<open>
  \<open>cached\<close>: the wrapper around \<open>func\<close>. \<open>str\<close> is Python's \<open>str\<close> of an argument; a supplied
  key function may raise. \<open>func\<close> runs over a state of its own. \<open>t1\<close> is the time of the lookup
  and \<open>t2\<close> that of the store.
\<close>

definition default_key :: "(pyval \<Rightarrow> string) \<Rightarrow> pyval list \<Rightarrow> (string \<times> pyval) list \<Rightarrow> string" where
  "default_key str args kwargs =
     str_join '':'' (map str args @ map (\<lambda>(k, v). k @ ''='' @ str v) (sort_key fst kwargs))"

type_synonym 's func = "pyval list \<times> (string \<times> pyval) list \<Rightarrow> ('s, pyval) act"

definition cached_with ::
  "(rat \<Rightarrow> string \<Rightarrow> pyval \<Rightarrow> 'c \<Rightarrow> pyval \<times> 'c) \<Rightarrow> (rat \<Rightarrow> string \<Rightarrow> pyval \<Rightarrow> 'c \<Rightarrow> 'c)
   \<Rightarrow> (pyval list \<times> (string \<times> pyval) list \<Rightarrow> string res) \<Rightarrow> 's func \<Rightarrow> rat \<Rightarrow> rat
   \<Rightarrow> pyval list \<times> (string \<times> pyval) list \<Rightarrow> ('s \<times> 'c, pyval) act" where
  "cached_with get_op set_op key f t1 t2 a = (\<lambda>(s, L).
     (case key a of
        Inl e \<Rightarrow>
          if is_Exception e then (case f a s of (r, s') \<Rightarrow> (r, (s', L))) else (Inl e, (s, L))
      | Inr k \<Rightarrow>
          (case get_op t1 k PNone L of (v, L1) \<Rightarrow>
             if v \<noteq> PNone then (Inr v, (s, L1))
             else (case f a s of
                     (Inl e, s') \<Rightarrow> (Inl e, (s', L1))
                   | (Inr r, s') \<Rightarrow> (Inr r, (s', set_op t2 k r L1))))))"

definition cached_call ::
  "(pyval list \<times> (string \<times> pyval) list \<Rightarrow> string res) \<Rightarrow> 's func \<Rightarrow> rat \<Rightarrow> rat
   \<Rightarrow> pyval list \<times> (string \<times> pyval) list \<Rightarrow> ('s \<times> lru, pyval) act" where
  "cached_call = cached_with lru_get lru_set"

section \<open>Invariant\<close>

definition lru_ok :: "lru \<Rightarrow> bool" where
  "lru_ok L = (1 \<le> max_size L \<and> wf_dict (cache L) \<and> length (cache L) \<le> max_size L)"

lemma lru_ok_init: "lru_ok (init_lru n t name)"
  by (simp add: lru_ok_def init_lru_def)

lemma keys_move_to_end:
  "keys (move_to_end k c) = (if k \<in> set (keys c) then filter (\<lambda>k'. k' \<noteq> k) (keys c) @ [k] else keys c)"
proof (cases "map_of c k")
  case None
  then have "k \<notin> set (keys c)" by (simp add: map_of_eq_None_iff)
  moreover have "move_to_end k c = c" unfolding move_to_end_def None by simp
  ultimately show ?thesis by simp
next
  case (Some e)
  then have "k \<in> set (keys c)" by (metis map_of_None_keys option.distinct(1))
  with Some show ?thesis by (simp add: move_to_end_def keys_delete)
qed

lemma map_of_move_to_end [simp]: "map_of (move_to_end k c) = map_of c"
  by (auto simp: move_to_end_def map_add_def fun_eq_iff split: option.split)

lemma wf_move_to_end: "wf_dict c \<Longrightarrow> wf_dict (move_to_end k c)"
  unfolding wf_dict_def keys_move_to_end by auto

lemma length_filter_neq: "distinct xs \<Longrightarrow> x \<in> set xs \<Longrightarrow> Suc (length (filter (\<lambda>y. y \<noteq> x) xs)) = length xs"
proof -
  assume "distinct xs" "x \<in> set xs"
  then have "filter (\<lambda>y. y \<noteq> x) xs = remove1 x xs"
    by (simp add: distinct_remove1_removeAll removeAll_filter_not_eq eq_commute [of _ x])
  with \<open>x \<in> set xs\<close> length_pos_if_in_set [of x xs] show ?thesis by (simp add: length_remove1)
qed

lemma length_move_to_end: "wf_dict c \<Longrightarrow> length (move_to_end k c) = length c"
proof -
  assume "wf_dict c"
  then have "length (keys (move_to_end k c)) = length (keys c)"
    unfolding keys_move_to_end using length_filter_neq [of "keys c" k] by (auto simp: wf_dict_def)
  then show ?thesis by simp
qed

lemma lru_ok_get: "lru_ok L \<Longrightarrow> lru_ok (snd (lru_get now k d L))"
  using length_delete_le [of k "cache L"]
  by (auto simp: lru_ok_def lru_get_def wf_move_to_end length_move_to_end split: option.split)

lemma wf_drop: "wf_dict c \<Longrightarrow> wf_dict (drop n c)"
  by (simp add: wf_dict_def drop_map [symmetric])

lemma lru_ok_set: "lru_ok L \<Longrightarrow> lru_ok (lru_set now k v L)"
proof -
  assume ok: "lru_ok L"
  show ?thesis
  proof (cases "k \<in> set (keys (cache L))")
    case True
    with ok show ?thesis
      by (simp add: lru_ok_def lru_set_def wf_move_to_end length_move_to_end length_update_old)
  next
    case False
    let ?c = "if max_size L \<le> length (cache L) then drop 1 (cache L) else cache L"
    have "k \<notin> set (keys ?c)"
      using False by (auto dest: in_set_dropD)
    moreover have "length ?c < max_size L" "wf_dict ?c"
      using ok wf_drop by (auto simp: lru_ok_def)
    ultimately have "length (AList.update k e ?c) \<le> max_size L" "wf_dict (AList.update k e ?c)" for e
      using length_update_new [of k ?c] by simp_all
    with False ok show ?thesis by (simp add: lru_ok_def lru_set_def Let_def)
  qed
qed

lemma lru_ok_delete: "lru_ok L \<Longrightarrow> lru_ok (snd (lru_delete k L))"
  using length_delete_le [of k "cache L"] by (auto simp: lru_ok_def lru_delete_def)

lemma lru_ok_clear: "lru_ok L \<Longrightarrow> lru_ok (lru_clear L)"
  by (simp add: lru_ok_def lru_clear_def)

section \<open>The interface the decorator relies on\<close>

text \<open>
  \<open>live c t k\<close> is what a lookup of \<open>k\<close> at time \<open>t\<close> finds. The laws let a cache forget
  (eviction, expiry) but never invent or confuse values.
\<close>

locale kv_cache =
  fixes get_op :: "rat \<Rightarrow> string \<Rightarrow> pyval \<Rightarrow> 'c \<Rightarrow> pyval \<times> 'c"
    and set_op :: "rat \<Rightarrow> string \<Rightarrow> pyval \<Rightarrow> 'c \<Rightarrow> 'c"
    and live :: "'c \<Rightarrow> rat \<Rightarrow> string \<Rightarrow> pyval option"
    and ok :: "'c \<Rightarrow> bool"
  assumes get_value: "fst (get_op t k d c) = (case live c t k of None \<Rightarrow> d | Some v \<Rightarrow> v)"
    and get_ok: "ok c \<Longrightarrow> ok (snd (get_op t k d c))"
    and set_ok: "ok c \<Longrightarrow> ok (set_op t k v c)"
    and get_live: "live (snd (get_op t k d c)) t' k' = Some v \<Longrightarrow> live c t' k' = Some v"
    and set_live: "ok c \<Longrightarrow> live (set_op t k v c) t' k' = Some w \<Longrightarrow>
                     (if k' = k then w = v else live c t' k' = Some w)"
begin

text \<open>Every value found under a key is the function's value for each call with that key.\<close>

definition coherent :: "('a \<Rightarrow> string res) \<Rightarrow> ('a \<Rightarrow> pyval) \<Rightarrow> 'c \<Rightarrow> bool" where
  "coherent key g c = (\<forall>t k v a. live c t k = Some v \<and> key a = Inr k \<longrightarrow> v = g a)"

lemma memo_step:
  assumes "ok c" and coh: "coherent key g c"
    and pure: "\<And>s. fst (f a s) = Inr (g a)" and key: "key a = Inr k"
    and resp: "\<And>b. key b = key a \<Longrightarrow> g b = g a"
    and run: "cached_with get_op set_op key f t1 t2 a (s, c) = (r, (s', c'))"
  shows "r = Inr (g a) \<and> ok c' \<and> coherent key g c'"
proof -
  obtain v c1 where g: "get_op t1 k PNone c = (v, c1)" by fastforce
  have ok1: "ok c1" using get_ok [OF \<open>ok c\<close>, of t1 k PNone] g by simp
  have coh1: "coherent key g c1"
    using coh get_live [of t1 k PNone c] g unfolding coherent_def by (metis snd_conv)
  show ?thesis
  proof (cases "v = PNone")
    case False
    have "v = (case live c t1 k of None \<Rightarrow> PNone | Some v \<Rightarrow> v)" using get_value [of t1 k PNone c] g by simp
    with False have "live c t1 k = Some v" by (simp split: option.splits)
    with coh key have "v = g a" unfolding coherent_def by blast
    with False run g key ok1 coh1 show ?thesis by (simp add: cached_with_def)
  next
    case True
    obtain s1 where f: "f a s = (Inr (g a), s1)" using pure [of s] by (metis prod.collapse)
    have eq: "r = Inr (g a)" "c' = set_op t2 k (g a) c1"
      using True run g key f by (simp_all add: cached_with_def)
    have "coherent key g c'"
      unfolding coherent_def eq(2)
    proof (intro allI impI, elim conjE)
      fix t k' w b
      assume "live (set_op t2 k (g a) c1) t k' = Some w" and b: "key b = Inr k'"
      from set_live [OF ok1 this(1)] have "if k' = k then w = g a else live c1 t k' = Some w" .
      then show "w = g b"
        using b key resp [of b] coh1 unfolding coherent_def by (cases "k' = k") (simp, metis)
    qed
    with eq set_ok [OF ok1] show ?thesis by simp
  qed
qed

end

definition lru_live :: "lru \<Rightarrow> rat \<Rightarrow> string \<Rightarrow> pyval option" where
  "lru_live L t k = (case map_of (cache L) k of
      None \<Rightarrow> None | Some e \<Rightarrow> if expired t L e then None else Some (e_value e))"

lemma expired_cache [simp]: "expired t (L\<lparr>cache := c\<rparr>) = expired t L"
  by (simp add: expired_def fun_eq_iff)

lemma expired_misses [simp]: "expired t (L\<lparr>misses := n\<rparr>) = expired t L" "expired t (L\<lparr>hits := n\<rparr>) = expired t L"
  by (simp_all add: expired_def fun_eq_iff)

lemma lru_live_set:
  assumes "lru_ok L"
  shows "lru_live (lru_set t k v L) t' k' = Some w \<Longrightarrow>
    (if k' = k then w = v else lru_live L t' k' = Some w)"
proof -
  have drop: "map_of (drop 1 c) k' = Some e \<Longrightarrow> map_of c k' = Some e"
    if "wf_dict c" for c :: "(string \<times> entry) list" and e
  proof (cases c)
    case (Cons x xs)
    assume "map_of (drop 1 c) k' = Some e"
    with Cons have "map_of xs k' = Some e" by simp
    moreover from this have "k' \<in> set (keys xs)" by (metis map_of_None_keys option.distinct(1))
    ultimately show ?thesis using Cons that by (cases x) (auto simp: wf_dict_def)
  qed simp
  from assms have wf: "wf_dict (cache L)" by (simp add: lru_ok_def)
  show "lru_live (lru_set t k v L) t' k' = Some w \<Longrightarrow> (if k' = k then w = v else lru_live L t' k' = Some w)"
    using drop [OF wf]
    by (fastforce simp: lru_live_def lru_set_def Let_def split: option.splits if_splits)
qed

interpretation lru_cache: kv_cache lru_get lru_set lru_live lru_ok
proof
  fix t k d and L :: lru and t' k' v w
  show "fst (lru_get t k d L) = (case lru_live L t k of None \<Rightarrow> d | Some v \<Rightarrow> v)"
    by (simp add: lru_get_def lru_live_def split: option.split)
  show "lru_ok L \<Longrightarrow> lru_ok (snd (lru_get t k d L))" by (rule lru_ok_get)
  show "lru_ok L \<Longrightarrow> lru_ok (lru_set t k v L)" by (rule lru_ok_set)
  show "lru_live (snd (lru_get t k d L)) t' k' = Some v \<Longrightarrow> lru_live L t' k' = Some v"
    by (auto simp: lru_get_def lru_live_def split: option.splits if_splits)
  show "lru_ok L \<Longrightarrow> lru_live (lru_set t k v L) t' k' = Some w \<Longrightarrow>
      (if k' = k then w = v else lru_live L t' k' = Some w)"
    by (rule lru_live_set)
qed

section \<open>Runs\<close>

datatype lru_op = Get rat string | Set rat string pyval | Del string | Clear

fun op_key :: "lru_op \<Rightarrow> string option" where
  "op_key (Get t k) = Some k"
| "op_key (Set t k v) = Some k"
| "op_key (Del k) = Some k"
| "op_key Clear = None"

fun run_op :: "lru_op \<Rightarrow> lru \<Rightarrow> lru" where
  "run_op (Get t k) L = snd (lru_get t k PNone L)"
| "run_op (Set t k v) L = lru_set t k v L"
| "run_op (Del k) L = snd (lru_delete k L)"
| "run_op Clear L = lru_clear L"

definition run_ops :: "lru_op list \<Rightarrow> lru \<Rightarrow> lru" where
  "run_ops ops L = fold run_op ops L"

lemma lru_ok_run: "lru_ok L \<Longrightarrow> lru_ok (run_ops ops L)"
  unfolding run_ops_def
proof (induction ops arbitrary: L)
  case (Cons op ops)
  then have "lru_ok (run_op op L)"
    by (cases op) (simp_all add: lru_ok_get lru_ok_set lru_ok_delete lru_ok_clear)
  with Cons.IH show ?case by simp
qed simp

lemma run_op_frame: "max_size (run_op op L) = max_size L \<and> ttl (run_op op L) = ttl L"
  by (cases op) (auto simp: lru_get_def lru_set_def lru_delete_def lru_clear_def Let_def split: option.split)

text \<open>\<open>recent k T L\<close>: \<open>k\<close> is cached and only keys of \<open>T\<close> are more recent.\<close>

definition recent :: "string \<Rightarrow> string set \<Rightarrow> lru \<Rightarrow> bool" where
  "recent k T L = (\<exists>xs ys. keys (cache L) = xs @ k # ys \<and> set ys \<subseteq> T)"

lemma recent_remove:
  assumes "keys (cache L) = xs @ k # ys" and "set ys \<subseteq> T" and "k' \<noteq> k" and "set zs \<subseteq> T"
    and "keys c = filter (\<lambda>x. x \<noteq> k') (keys (cache L)) @ zs"
  shows "recent k T (L\<lparr>cache := c\<rparr>)"
  unfolding recent_def
  by (rule exI [of _ "filter (\<lambda>x. x \<noteq> k') xs"], rule exI [of _ "filter (\<lambda>x. x \<noteq> k') ys @ zs"])
    (use assms in \<open>auto simp del: map_append\<close>)

lemma recent_cong: "cache L = cache L' \<Longrightarrow> recent k T L = recent k T L'"
  by (simp add: recent_def)

lemma recent_get:
  assumes "recent k T L" and "k' \<in> T" and "k' \<noteq> k"
  shows "recent k T (snd (lru_get t k' d L))"
proof -
  obtain xs ys where k: "keys (cache L) = xs @ k # ys" "set ys \<subseteq> T" using assms(1) by (auto simp: recent_def)
  show ?thesis
  proof (cases "map_of (cache L) k'")
    case None
    have "recent k T (snd (lru_get t k' d L)) = recent k T L"
      by (rule recent_cong) (simp add: lru_get_def None)
    with assms(1) show ?thesis by simp
  next
    case (Some e)
    then have mem: "k' \<in> set (keys (cache L))" by (metis map_of_None_keys option.distinct(1))
    show ?thesis
    proof (cases "expired t L e")
      case True
      have "recent k T (L\<lparr>cache := AList.delete k' (cache L)\<rparr>)"
        by (rule recent_remove [OF k assms(3), where zs = "[]"]) (simp_all add: keys_delete)
      then show ?thesis using Some True by (simp add: lru_get_def recent_def)
    next
      case False
      have "recent k T (L\<lparr>cache := move_to_end k' (cache L)\<rparr>)"
        by (rule recent_remove [OF k assms(3), where zs = "[k']"])
          (use assms(2) mem in \<open>simp_all add: keys_move_to_end\<close>)
      then show ?thesis using Some False by (simp add: lru_get_def recent_def)
    qed
  qed
qed

lemma recent_set:
  assumes "recent k T L" and "k' \<in> T" and "k' \<noteq> k" and ok: "lru_ok L" and "finite T" and "card T < max_size L"
  shows "recent k T (lru_set t k' v L)"
proof -
  obtain xs ys where k: "keys (cache L) = xs @ k # ys" "set ys \<subseteq> T" using assms(1) by (auto simp: recent_def)
  show ?thesis
  proof (cases "k' \<in> set (keys (cache L))")
    case True
    then have "recent k T (L\<lparr>cache := move_to_end k' (AList.update k' e (cache L))\<rparr>)" for e
      by (intro recent_remove [OF k assms(3), where zs = "[k']"])
        (use assms(2) in \<open>simp_all add: keys_move_to_end keys_update del: set_map\<close>)
    with True show ?thesis by (simp add: lru_set_def)
  next
    case False
    let ?c = "if max_size L \<le> length (cache L) then drop 1 (cache L) else cache L"
    have nin: "k' \<notin> set (keys ?c)" using False by (auto dest: in_set_dropD)
    have "\<exists>zs. keys ?c = zs @ k # ys"
    proof (cases "max_size L \<le> length (cache L)")
      case full: True
      have "xs \<noteq> []"
      proof
        assume "xs = []"
        with k(1) have len: "length (cache L) = Suc (length ys)" by (metis append_Nil length_Cons length_map)
        have "distinct ys" "k' \<notin> set ys" using k(1) ok False by (auto simp: lru_ok_def wf_dict_def)
        then have "Suc (length ys) = card (insert k' (set ys))" by (simp add: distinct_card)
        also have "\<dots> \<le> card T" using k(2) assms(2,5) by (intro card_mono) auto
        finally show False using len full assms(6) by simp
      qed
      then obtain x zs where "xs = x # zs" by (cases xs) auto
      with k(1) have "drop 1 (keys (cache L)) = zs @ k # ys" by simp
      then have "keys (drop 1 (cache L)) = zs @ k # ys" by (simp add: drop_map)
      with full show ?thesis by auto
    qed (use k(1) in auto)
    then obtain zs where zs: "keys ?c = zs @ k # ys" by blast
    have "keys (AList.update k' e ?c) = zs @ k # (ys @ [k'])" for e
      using nin zs keys_update [of k' e ?c] by (simp del: set_map)
    moreover have "set (ys @ [k']) \<subseteq> T" using k(2) assms(2) by auto
    ultimately have "recent k T (L\<lparr>cache := AList.update k' e ?c\<rparr>)" for e
      unfolding recent_def by (metis lru.simps(4) lru.select_convs(4) lru.surjective lru.update_convs(4))
    with False show ?thesis by (simp add: lru_set_def Let_def)
  qed
qed

lemma recent_run:
  assumes "recent k T L" and "lru_ok L" and "finite T" and "card T < max_size L" and "k \<notin> T"
    and "\<forall>op \<in> set ops. \<exists>t k'. k' \<in> T \<and> (op = Get t k' \<or> (\<exists>v. op = Set t k' v))"
  shows "recent k T (run_ops ops L)"
  using assms(1,2,4,6) unfolding run_ops_def
proof (induction ops arbitrary: L)
  case (Cons op ops)
  from Cons.prems(4) obtain t k' where k': "k' \<in> T" and op: "op = Get t k' \<or> (\<exists>v. op = Set t k' v)" by auto
  with assms(5) have "k' \<noteq> k" by auto
  with op k' Cons.prems assms(3) have "recent k T (run_op op L)"
    by (auto intro!: recent_get recent_set)
  moreover have "lru_ok (run_op op L)" using lru_ok_run [of L "[op]"] Cons.prems(2) by (simp add: run_ops_def)
  ultimately show ?case using Cons run_op_frame [of op L] by simp
qed simp

lemma recent_set_self: "lru_ok L \<Longrightarrow> recent k {} (lru_set t k v L)"
proof -
  assume ok: "lru_ok L"
  show ?thesis
  proof (cases "k \<in> set (keys (cache L))")
    case True
    then have "keys (cache (lru_set t k v L)) = filter (\<lambda>x. x \<noteq> k) (keys (cache L)) @ [k]"
      by (simp add: lru_set_def keys_move_to_end keys_update del: set_map)
    then show ?thesis by (auto simp: recent_def)
  next
    case False
    let ?c = "if max_size L \<le> length (cache L) then drop 1 (cache L) else cache L"
    have "k \<notin> set (keys ?c)" using False by (auto dest: in_set_dropD)
    then have "keys (cache (lru_set t k v L)) = keys ?c @ [k]"
      using False by (simp add: lru_set_def Let_def keys_update del: set_map)
    then show ?thesis by (auto simp: recent_def)
  qed
qed

lemma live_run:
  assumes "lru_ok L" and "\<forall>op \<in> set ops. \<exists>t k'. k' \<noteq> k \<and> (op = Get t k' \<or> (\<exists>v. op = Set t k' v))"
    and "lru_live (run_ops ops L) t0 k = Some w"
  shows "lru_live L t0 k = Some w"
  using assms unfolding run_ops_def
proof (induction ops arbitrary: L)
  case (Cons op ops)
  have ok: "lru_ok (run_op op L)" using lru_ok_run [of L "[op]"] Cons.prems(1) by (simp add: run_ops_def)
  have "lru_live (run_op op L) t0 k = Some w"
    using Cons.IH [OF ok] Cons.prems(2,3) by simp
  from Cons.prems(2) obtain t k' where k': "k' \<noteq> k" and "op = Get t k' \<or> (\<exists>v. op = Set t k' v)" by auto
  from this(2) show ?case
  proof (elim disjE exE)
    assume "op = Get t k'"
    with \<open>lru_live (run_op op L) t0 k = Some w\<close> show ?thesis
      using lru_cache.get_live [of t k' PNone L t0 k w] by simp
  next
    fix v assume "op = Set t k' v"
    with \<open>lru_live (run_op op L) t0 k = Some w\<close> k' show ?thesis
      using lru_live_set [OF Cons.prems(1), of t k' v t0 k w] by simp
  qed
qed simp

section \<open>Properties\<close>

text \<open>Whatever operations are run on a new cache, it never holds more entries than its
  maximum size (which is at least one), never two entries for a key, and its maximum size and
  time to live never change.\<close>

theorem lru_bounded:
  "lru_ok (run_ops ops (init_lru n t name)) \<and> lru_size (run_ops ops (init_lru n t name)) \<le> nat (max 1 n)"
proof -
  have "max_size (run_ops ops L) = max_size L" for L
    unfolding run_ops_def by (induction ops arbitrary: L) (simp_all add: run_op_frame)
  moreover have "lru_ok (run_ops ops (init_lru n t name))"
    by (rule lru_ok_run) (rule lru_ok_init)
  ultimately show ?thesis by (auto simp: lru_ok_def lru_size_def init_lru_def)
qed

text \<open>The cache keeps what was used last: after a value is stored under a key, and then any
  lookups and stores on other keys, of which there are fewer than the maximum size, the key
  is still found, with its value (in a cache without a time to live).\<close>

theorem recently_used_survives:
  assumes "lru_ok L" and "ttl L = None" and "finite T" and "card T < max_size L" and "k \<notin> T"
    and "\<forall>op \<in> set ops. \<exists>t k'. k' \<in> T \<and> (op = Get t k' \<or> (\<exists>v. op = Set t k' v))"
  shows "fst (lru_get now k d (run_ops ops (lru_set t k v L))) = v"
proof -
  let ?L1 = "lru_set t k v L" and ?L2 = "run_ops ops (lru_set t k v L)"
  have ok1: "lru_ok ?L1" by (rule lru_ok_set [OF assms(1)])
  have frame: "max_size ?L1 = max_size L" "ttl ?L1 = None"
    using run_op_frame [of "Set t k v" L] assms(2) by simp_all
  have "ttl (run_ops ops M) = ttl M" for M
    unfolding run_ops_def by (induction ops arbitrary: M) (simp_all add: run_op_frame)
  with frame have ttl2: "ttl ?L2 = None" by simp
  have "recent k {} ?L1" by (rule recent_set_self [OF assms(1)])
  then have "recent k T ?L1" unfolding recent_def by (metis empty_subsetI subset_trans)
  from recent_run [OF this ok1 assms(3) _ assms(5,6)] frame assms(4) have "recent k T ?L2" by simp
  then have "k \<in> set (keys (cache ?L2))" by (auto simp: recent_def simp del: set_map)
  then obtain e where "map_of (cache ?L2) k = Some e" by (metis map_of_None_keys option.exhaust)
  with ttl2 have live2: "lru_live ?L2 now k = Some (e_value e)" by (simp add: lru_live_def expired_def)
  have "\<forall>op \<in> set ops. \<exists>t k'. k' \<noteq> k \<and> (op = Get t k' \<or> (\<exists>v. op = Set t k' v))"
    using assms(5,6) by metis
  from live_run [OF ok1 this live2] have "lru_live ?L1 now k = Some (e_value e)" .
  with lru_live_set [OF assms(1)] have "e_value e = v" by (metis (full_types))
  with live2 lru_cache.get_value [of now k d ?L2] show ?thesis by simp
qed

lemma recently_used_survives_witness:
  "fst (lru_get 9 ''k'' PNone (run_ops [Set 1 ''a'' (PInt 1), Get 2 ''a'', Set 3 ''a'' (PInt 2)]
      (lru_set 0 ''k'' (PInt 7) (init_lru 2 None ''c'')))) = PInt 7"
proof (rule recently_used_survives [where T = "{''a''}"])
  show "\<forall>op \<in> set [Set 1 ''a'' (PInt 1), Get 2 ''a'', Set 3 ''a'' (PInt 2)].
      \<exists>t k'. k' \<in> {''a''} \<and> (op = Get t k' \<or> (\<exists>v. op = Set t k' v))" by simp
qed (simp_all add: lru_ok_init, simp_all add: init_lru_def)

text \<open>An entry lives for its time to live: a lookup at most \<open>ttl\<close> seconds after the store
  finds the value; a later lookup misses, removes the entry and returns the default.\<close>

theorem ttl_expiry:
  assumes "ttl L = Some life"
  shows "lru_get now k d (lru_set t k v L) =
     (if now - t \<le> life
      then (v, (lru_set t k v L)\<lparr>cache := move_to_end k (cache (lru_set t k v L)), hits := Suc (hits L)\<rparr>)
      else (d, (lru_set t k v L)\<lparr>cache := AList.delete k (cache (lru_set t k v L)), misses := Suc (misses L)\<rparr>))"
proof -
  have "map_of (cache (lru_set t k v L)) k = Some \<lparr> e_value = v, e_timestamp = t \<rparr>"
    by (simp add: lru_set_def Let_def)
  moreover have "ttl (lru_set t k v L) = Some life" "hits (lru_set t k v L) = hits L" "misses (lru_set t k v L) = misses L"
    using assms by (simp_all add: lru_set_def Let_def)
  ultimately show ?thesis by (simp add: lru_get_def expired_def)
qed

lemma ttl_expiry_witness:
  "fst (lru_get 5 ''k'' PNone (lru_set 0 ''k'' (PInt 1) (init_lru 3 (Some 4) ''c''))) = PNone"
proof -
  have "ttl (init_lru 3 (Some 4) ''c'') = Some 4" by (simp add: init_lru_def)
  from ttl_expiry [OF this, of 5 "''k''" PNone 0 "PInt 1"] show ?thesis by simp
qed

text \<open>A sequence of calls of the wrapper: the results in order.\<close>

fun cached_calls ::
  "(pyval list \<times> (string \<times> pyval) list \<Rightarrow> string res) \<Rightarrow> 's func
   \<Rightarrow> (rat \<times> rat \<times> (pyval list \<times> (string \<times> pyval) list)) list \<Rightarrow> 's \<times> lru \<Rightarrow> pyval res list" where
  "cached_calls key f [] sL = []"
| "cached_calls key f ((t1, t2, a) # cs) sL =
     (case cached_call key f t1 t2 a sL of (r, sL') \<Rightarrow> r # cached_calls key f cs sL')"

text \<open>A pure function behind the decorator, with a key function that separates calls with
  different results, returns through the cache what it returns without it, call after call,
  whatever is evicted or expires in between.\<close>

theorem memoization_sound:
  assumes "\<And>a s. fst (f a s) = Inr (g a)" and "\<And>a. \<exists>k. key a = Inr k"
    and "\<And>a b. key a = key b \<Longrightarrow> g a = g b"
  shows "cached_calls key f cs (s, init_lru n t name) = map (\<lambda>(t1, t2, a). Inr (g a)) cs"
proof -
  have "lru_ok L \<Longrightarrow> lru_cache.coherent key g L \<Longrightarrow> cached_calls key f cs (s, L) = map (\<lambda>(t1, t2, a). Inr (g a)) cs" for s L
  proof (induction cs arbitrary: s L)
    case (Cons c cs)
    obtain t1 t2 a where c: "c = (t1, t2, a)" by (cases c) auto
    obtain r s' L' where run: "cached_with lru_get lru_set key f t1 t2 a (s, L) = (r, (s', L'))"
      by (metis prod_cases3)
    obtain k where k: "key a = Inr k" using assms(2) by blast
    have "r = Inr (g a) \<and> lru_ok L' \<and> lru_cache.coherent key g L'"
      by (rule lru_cache.memo_step [OF Cons.prems(1,2) assms(1) k assms(3) run])
    with Cons.IH run c show ?case by (simp add: cached_call_def)
  qed simp
  moreover have "lru_cache.coherent key g (init_lru n t name)"
    by (simp add: lru_cache.coherent_def lru_live_def init_lru_def)
  ultimately show ?thesis using lru_ok_init by blast
qed

definition const_func :: "nat func" where
  "const_func a s = (Inr (PInt (int (length (fst a)))), Suc s)"

definition count_key :: "pyval list \<times> (string \<times> pyval) list \<Rightarrow> string res" where
  "count_key a = Inr (str_of_int (int (length (fst a))))"

lemma memoization_sound_witness:
  "cached_calls count_key const_func [(0, 0, ([PInt 5], [])), (1, 1, ([PInt 6], [])), (2, 2, ([], []))] (0, init_lru 1 None ''c'')
     = [Inr (PInt 1), Inr (PInt 1), Inr (PInt 0)]"
proof -
  have a: "fst (const_func a s) = Inr (PInt (int (length (fst a))))" for a s by (simp add: const_func_def)
  have b: "\<exists>k. count_key a = Inr k" for a by (simp add: count_key_def)
  have c: "count_key x = count_key y \<Longrightarrow> PInt (int (length (fst x))) = PInt (int (length (fst y)))" for x y
    by (simp add: count_key_def)
  have "cached_calls count_key const_func cs (0, init_lru 1 None ''c'') = map (\<lambda>(t1, t2, a). Inr (PInt (int (length (fst a))))) cs" for cs
    by (rule memoization_sound [where f = const_func and key = count_key and g = "\<lambda>a. PInt (int (length (fst a)))", OF a b c])
  note h = this
  show ?thesis unfolding h by simp
qed

text \<open>The default key joins the arguments' texts with colons, so it confuses calls: after
  \<open>f("a:b")\<close> returned a value other than \<open>None\<close>, the call \<open>f("a", "b")\<close> returns that value and
  \<open>f\<close> is not run, whatever \<open>f\<close> is.\<close>

theorem default_key_collision:
  assumes "\<And>s. str (PStr s) = s" and "f ([PStr ''a:b''], []) s = (Inr v, s1)" and "v \<noteq> PNone"
    and "key = (\<lambda>(args, kwargs). Inr (default_key str args kwargs))"
    and "cached_call key f t1 t2 ([PStr ''a:b''], []) (s, init_lru n None name) = (r, sL)"
  shows "\<exists>L'. cached_call key f t3 t4 ([PStr ''a'', PStr ''b''], []) sL = (Inr v, (s1, L'))"
proof -
  have keys: "default_key str [PStr ''a:b''] [] = ''a:b''" "default_key str [PStr ''a'', PStr ''b''] [] = ''a:b''"
    using assms(1) by (simp_all add: default_key_def)
  have "sL = (s1, lru_set t2 ''a:b'' v ((init_lru n None name)\<lparr>misses := 1\<rparr>))"
    using assms(2,3,5) keys(1) by (simp add: assms(4) cached_call_def cached_with_def lru_get_def init_lru_def)
  moreover have "fst (lru_get t3 ''a:b'' PNone (lru_set t2 ''a:b'' v ((init_lru n None name)\<lparr>misses := 1\<rparr>))) = v"
    by (simp add: lru_get_def lru_set_def Let_def init_lru_def expired_def)
  ultimately show ?thesis
    using assms(3) keys(2) by (auto simp: assms(4) cached_call_def cached_with_def split: prod.split)
qed

definition plain_str :: "pyval \<Rightarrow> string" where
  "plain_str v = (case v of PStr s \<Rightarrow> s | _ \<Rightarrow> [])"

lemma default_key_collision_witness:
  "\<exists>sL L'. cached_call (\<lambda>(args, kwargs). Inr (default_key plain_str args kwargs)) const_func 0 0 ([PStr ''a:b''], [])
       (0, init_lru 5 None ''c'') = (Inr (PInt 1), sL)
    \<and> cached_call (\<lambda>(args, kwargs). Inr (default_key plain_str args kwargs)) const_func 1 1 ([PStr ''a'', PStr ''b''], []) sL
       = (Inr (PInt 1), (1, L'))"
proof -
  let ?key = "\<lambda>(args, kwargs). Inr (default_key plain_str args kwargs)"
  have a: "plain_str (PStr s) = s" for s by (simp add: plain_str_def)
  have b: "const_func ([PStr ''a:b''], []) 0 = (Inr (PInt 1), 1)" by (simp add: const_func_def)
  have c: "PInt 1 \<noteq> PNone" by simp
  obtain r sL where d: "cached_call ?key const_func 0 0 ([PStr ''a:b''], []) (0, init_lru 5 None ''c'') = (r, sL)"
    by (rule prod.exhaust)
  moreover have "fst (cached_call ?key const_func 0 0 ([PStr ''a:b''], []) (0, init_lru 5 None ''c'')) = Inr (PInt 1)"
    by (simp add: cached_call_def cached_with_def const_func_def lru_get_def init_lru_def)
  ultimately show ?thesis using default_key_collision [OF a b c refl d, of 1 1] by auto
qed

text \<open>A function that returns \<open>None\<close> is never answered from the cache: a call whose earlier
  result was \<open>None\<close> runs the function again.\<close>

theorem none_is_not_cached:
  assumes "key a = Inr k" and "lru_live L t1 k = Some PNone \<or> lru_live L t1 k = None"
  shows "fst (cached_call key f t1 t2 a (s, L)) = fst (f a s) \<and> fst (snd (cached_call key f t1 t2 a (s, L))) = snd (f a s)"
proof -
  have "fst (lru_get t1 k PNone L) = PNone" using lru_cache.get_value [of t1 k PNone L] assms(2) by auto
  with assms(1) show ?thesis
    by (auto simp: cached_call_def cached_with_def split: prod.split sum.split)
qed

lemma none_is_not_cached_witness:
  "fst (cached_call count_key (\<lambda>a s. (Inr PNone, Suc s)) 1 1 ([], []) (1, lru_set 0 ''0'' PNone (init_lru 2 None ''c''))) = Inr PNone"
proof -
  have "count_key ([], []) = Inr ''0''" by code_simp
  moreover have "lru_live (lru_set 0 ''0'' PNone (init_lru 2 None ''c'')) 1 ''0'' = Some PNone"
    by (simp add: lru_live_def lru_set_def init_lru_def expired_def)
  ultimately show ?thesis
    using none_is_not_cached [of count_key "([], [])" "''0''" _ 1 "\<lambda>a s. (Inr PNone, Suc s)" 1 1] by simp
qed

end
