(* ===== verification/Errors.thy ===== *)
theory Errors
  imports Prelude
begin

text \<open>
  \<open>src/lib/error_handling\<close>: the exception hierarchy with context and cause, message
  formatting, the decorators that log, suppress or wrap, and the context managers. A log
  record is kept as its level, message and traceback flag, because the purpose of the
  library is that no failure goes unlogged. \<open>str\<close> of a context value is a parameter.
\<close>

section \<open>Exceptions with context\<close>

definition no_message :: string where
  "no_message = ''(no message)''"

definition format_exception_message :: "exn \<Rightarrow> string" where
  "format_exception_message e =
     exn_type e @ '': '' @ (if exn_msg e = [] then no_message else exn_msg e)"

text \<open>\<open>ae_args\<close> is the text \<open>str\<close> gives, set when the exception is made or enriched.\<close>

record app_error =
  ae_class :: string
  ae_message :: string
  ae_context :: dict
  ae_cause :: "exn option"
  ae_args :: string

definition app_classes :: "string set" where
  "app_classes = {''ApplicationError'', ''StageError'', ''AgentError'', ''PipelineError'', ''ConfigurationError'',
     ''DatabaseError'', ''LLMError''}"

definition format_message :: "(pyval \<Rightarrow> string) \<Rightarrow> string \<Rightarrow> dict \<Rightarrow> exn option \<Rightarrow> string" where
  "format_message str message context cause =
     message
     @ (if context = [] then []
        else '' [Context: '' @ str_join '', '' (map (\<lambda>(k, v). k @ ''='' @ str v) context) @ '']'')
     @ (case cause of None \<Rightarrow> []
        | Some e \<Rightarrow> '' [Cause: '' @ exn_type e @ '': '' @ (if exn_msg e = [] then no_message else exn_msg e) @ '']'')"

definition init_error :: "(pyval \<Rightarrow> string) \<Rightarrow> string \<Rightarrow> string \<Rightarrow> dict option \<Rightarrow> exn option \<Rightarrow> app_error" where
  "init_error str cls message context cause =
     (let c = (case context of None \<Rightarrow> [] | Some d \<Rightarrow> d)
      in \<lparr> ae_class = cls, ae_message = message, ae_context = c, ae_cause = cause,
           ae_args = format_message str message c cause \<rparr>)"

definition dict_update :: "dict \<Rightarrow> dict \<Rightarrow> dict" where
  "dict_update d kwargs = fold (\<lambda>(k, v). AList.update k v) kwargs d"

definition add_context :: "(pyval \<Rightarrow> string) \<Rightarrow> dict \<Rightarrow> app_error \<Rightarrow> app_error" where
  "add_context str kwargs E =
     (let c = dict_update (ae_context E) kwargs
      in E\<lparr>ae_context := c, ae_args := format_message str (ae_message E) c (ae_cause E)\<rparr>)"

text \<open>The exception a \<open>raise\<close> of the error throws.\<close>

definition as_exn :: "app_error \<Rightarrow> exn" where
  "as_exn E = Exn (ae_class E) (ae_args E)"

text \<open>
  \<open>wrap_exception\<close>: calling a class outside the hierarchy with the keyword arguments raises
  \<open>TypeError\<close>.
\<close>

definition wrap_exception :: "(pyval \<Rightarrow> string) \<Rightarrow> string \<Rightarrow> exn \<Rightarrow> string \<Rightarrow> dict \<Rightarrow> exn" where
  "wrap_exception str message original error_class context =
     (if error_class \<in> app_classes
      then as_exn (init_error str error_class message (Some context) (Some original))
      else Exn ''TypeError'' (error_class @ ''() takes no keyword arguments''))"

section \<open>Decorators\<close>

record log_record =
  l_level :: int
  l_message :: string
  l_traceback :: bool

type_synonym 's logged = "'s \<times> log_record list"

definition lift_log :: "('s, 'a) act \<Rightarrow> ('s logged, 'a) act" where
  "lift_log f = (\<lambda>(s, lg). case f s of (r, s') \<Rightarrow> (r, (s', lg)))"

record handler_options =
  fallback :: pyval
  log_traceback :: bool
  capture_context :: bool
  reraise :: bool
  log_level :: int

definition default_options :: handler_options where
  "default_options = \<lparr> fallback = PNone, log_traceback = True, capture_context = True, reraise = True, log_level = 40 \<rparr>"

text \<open>\<open>modname\<close> and \<open>name\<close> are \<open>func.__module__\<close> and \<open>func.__name__\<close>.\<close>

definition handle_errors ::
  "handler_options \<Rightarrow> string \<Rightarrow> string \<Rightarrow> ('s, pyval) act \<Rightarrow> ('s logged, pyval) act" where
  "handle_errors opts modname name f = (\<lambda>(s, lg).
     case f s of
       (Inr x, s') \<Rightarrow> (Inr x, (s', lg))
     | (Inl e, s') \<Rightarrow>
         if \<not> is_Exception e then (Inl e, (s', lg))
         else (let msg = exn_type e @ '': '' @ (if exn_msg e = [] then no_message else exn_msg e)
                         @ (if capture_context opts then '' [in '' @ modname @ ''.'' @ name @ '']'' else []);
                   lg' = lg @ [\<lparr> l_level = log_level opts, l_message = msg, l_traceback = log_traceback opts \<rparr>]
               in if reraise opts then (Inl e, (s', lg')) else (Inr (fallback opts), (s', lg'))))"

definition handle_stage_errors ::
  "(pyval \<Rightarrow> string) \<Rightarrow> string option \<Rightarrow> string \<Rightarrow> ('s, 'a) act \<Rightarrow> ('s, 'a) act" where
  "handle_stage_errors str stage_name fname f = (\<lambda>s.
     case f s of
       (Inr x, s') \<Rightarrow> (Inr x, s')
     | (Inl e, s') \<Rightarrow>
         if \<not> is_Exception e then (Inl e, s')
         else (let name = (case stage_name of None \<Rightarrow> fname | Some n \<Rightarrow> if n = [] then fname else n)
               in (Inl (as_exn (init_error str ''StageError''
                     (''Stage '' @ [quote] @ name @ [quote] @ '' failed'')
                     (Some [(''stage'', PStr name), (''function'', PStr fname)]) (Some e))), s')))"

definition handle_agent_errors ::
  "(pyval \<Rightarrow> string) \<Rightarrow> string option \<Rightarrow> string \<Rightarrow> ('s, 'a) act \<Rightarrow> ('s, 'a) act" where
  "handle_agent_errors str agent_name fname f = (\<lambda>s.
     case f s of
       (Inr x, s') \<Rightarrow> (Inr x, s')
     | (Inl e, s') \<Rightarrow>
         if \<not> is_Exception e then (Inl e, s')
         else (let name = (case agent_name of None \<Rightarrow> fname | Some n \<Rightarrow> if n = [] then fname else n)
               in (Inl (as_exn (init_error str ''AgentError''
                     (''Agent '' @ [quote] @ name @ [quote] @ '' failed'')
                     (Some [(''agent'', PStr name), (''function'', PStr fname)]) (Some e))), s')))"

definition log_and_suppress :: "pyval \<Rightarrow> int \<Rightarrow> string \<Rightarrow> string \<Rightarrow> ('s, pyval) act \<Rightarrow> ('s logged, pyval) act" where
  "log_and_suppress fb level =
     handle_errors \<lparr> fallback = fb, log_traceback = True, capture_context = True, reraise = False, log_level = level \<rparr>"

text \<open>\<open>is_a e c\<close>: \<open>isinstance(e, c)\<close>, for the exception classes of the program.\<close>

definition require_success ::
  "(pyval \<Rightarrow> string) \<Rightarrow> (exn \<Rightarrow> string \<Rightarrow> bool) \<Rightarrow> string \<Rightarrow> string \<Rightarrow> string \<Rightarrow> ('s, 'a) act \<Rightarrow> ('s, 'a) act" where
  "require_success str is_a error_class modname name f = (\<lambda>s.
     case f s of
       (Inr x, s') \<Rightarrow> (Inr x, s')
     | (Inl e, s') \<Rightarrow>
         if is_a e error_class then (Inl e, s')
         else if \<not> is_Exception e then (Inl e, s')
         else (Inl (wrap_exception str (name @ '' failed'') e error_class
                 [(''function'', PStr name), (''module'', PStr modname)]), s'))"

section \<open>Context managers\<close>

record err_context =
  ec_operation :: string
  ec_context :: dict

definition error_context :: "string \<Rightarrow> dict \<Rightarrow> err_context" where
  "error_context operation context = \<lparr> ec_operation = operation, ec_context = context \<rparr>"

definition stage_context :: "string \<Rightarrow> dict \<Rightarrow> err_context" where
  "stage_context stage_name context =
     error_context (''stage_'' @ stage_name) (AList.update ''stage'' (PStr stage_name) context)"

definition agent_context :: "string \<Rightarrow> dict \<Rightarrow> err_context" where
  "agent_context agent_name context =
     error_context (''agent_'' @ agent_name) (AList.update ''agent'' (PStr agent_name) context)"

definition db_operation_context :: "string \<Rightarrow> dict \<Rightarrow> err_context" where
  "db_operation_context operation context = error_context (''db_'' @ operation) context"

definition exit_message :: "(pyval \<Rightarrow> string) \<Rightarrow> err_context \<Rightarrow> exn \<Rightarrow> string" where
  "exit_message str C e =
     ''Exception in '' @ ec_operation C @ '': '' @ exn_type e @ '': '' @ (if exn_msg e = [] then no_message else exn_msg e)
     @ (if ec_context C = [] then []
        else nl @ ''  Context:'' @ concat (map (\<lambda>(k, v). nl @ ''    '' @ k @ '': '' @ str v) (ec_context C)))"

text \<open>\<open>with C: f\<close>. The exit method runs for every exception class and never suppresses.\<close>

definition with_context :: "(pyval \<Rightarrow> string) \<Rightarrow> err_context \<Rightarrow> ('s, 'a) act \<Rightarrow> ('s logged, 'a) act" where
  "with_context str C f = (\<lambda>(s, lg).
     case f s of
       (Inr x, s') \<Rightarrow> (Inr x, (s', lg))
     | (Inl e, s') \<Rightarrow>
         (Inl e, (s', lg @ [\<lparr> l_level = 40, l_message = exit_message str C e, l_traceback = True \<rparr>])))"

section \<open>Properties\<close>

lemma map_of_dict_update:
  "map_of (dict_update d kwargs) k = (case map_of (rev kwargs) k of None \<Rightarrow> map_of d k | Some v \<Rightarrow> Some v)"
  unfolding dict_update_def
  by (induction kwargs arbitrary: d) (auto simp: map_add_def split: option.split)

text \<open>Every exception that \<open>handle_errors\<close> sees and that is not a cancellation or exit is
  logged exactly once, with a non-empty text that names its class; the caller then gets the
  fallback or the same exception, as the options say. Results and cancellations pass through
  unlogged, and the wrapped function's state changes are kept in every case.\<close>

theorem handle_errors_logs_once:
  "handle_errors opts modname name f (s, lg) =
     (let (r, s') = f s in
        (case r of Inl e \<Rightarrow> if is_Exception e \<and> \<not> reraise opts then Inr (fallback opts) else Inl e | Inr x \<Rightarrow> Inr x,
         (s', lg @ (case r of
            Inl e \<Rightarrow> if is_Exception e
               then [\<lparr> l_level = log_level opts,
                       l_message = format_exception_message e
                         @ (if capture_context opts then '' [in '' @ modname @ ''.'' @ name @ '']'' else []),
                       l_traceback = log_traceback opts \<rparr>]
               else []
          | Inr x \<Rightarrow> []))))"
  by (auto simp: handle_errors_def format_exception_message_def Let_def split: prod.split sum.split)

text \<open>An error that is enriched after it was made reads as if it had been made with the
  merged context: each added key has its new value, the other keys keep theirs, and the text
  is formatted again from message, context and cause.\<close>

theorem add_context_reformats:
  "let E' = add_context str kwargs (init_error str cls message (Some d) cause)
   in E' = init_error str cls message (Some (dict_update d kwargs)) cause
      \<and> map_of (ae_context E') = map_of d ++ map_of (rev kwargs)"
  by (auto simp: add_context_def init_error_def Let_def map_of_dict_update map_add_def fun_eq_iff)

text \<open>\<open>require_success\<close> lets only its class out for a class of the hierarchy: whatever
  exception the function raises, the caller gets an instance of the class.\<close>

theorem require_success_class:
  assumes "c \<in> app_classes" and "fst (require_success str is_a c modname name f s) = Inl e"
    and "\<And>m. is_a (Exn c m) c" and "\<And>e s s'. f s = (Inl e, s') \<Longrightarrow> is_Exception e"
  shows "is_a e c"
  using assms
  by (cases "f s") (auto simp: require_success_def wrap_exception_def as_exn_def init_error_def Let_def
      split: sum.splits if_splits)

definition same_class :: "exn \<Rightarrow> string \<Rightarrow> bool" where
  "same_class e c = (exn_type e = c)"

lemma require_success_class_witness:
  "\<exists>e. fst (require_success (\<lambda>_. []) same_class ''DatabaseError'' ''m'' ''f''
        (raise (Exn ''KeyError'' ''k'') :: (unit, unit) act) ()) = Inl e \<and> same_class e ''DatabaseError''"
proof -
  let ?f = "raise (Exn ''KeyError'' ''k'') :: (unit, unit) act"
  have c: "''DatabaseError'' \<in> app_classes" by (simp add: app_classes_def)
  obtain e where e: "fst (require_success (\<lambda>_. []) same_class ''DatabaseError'' ''m'' ''f'' ?f ()) = Inl e"
    by (auto simp: require_success_def raise_def same_class_def is_Exception_def)
  have "same_class (Exn ''DatabaseError'' m) ''DatabaseError''" for m by (simp add: same_class_def)
  moreover have "?f s = (Inl e, s') \<Longrightarrow> is_Exception e" for e s s' by (auto simp: raise_def is_Exception_def)
  ultimately have "same_class e ''DatabaseError''"
    using require_success_class [OF c e] by blast
  with e show ?thesis by blast
qed

text \<open>For a class outside the hierarchy (a built-in such as \<open>ValueError\<close>) any other failure
  comes out as \<open>TypeError\<close> with the original text gone, because the class is called with
  keyword arguments it does not take.\<close>

theorem require_success_builtin:
  assumes "c \<notin> app_classes" and "f s = (Inl e, s')" and "is_Exception e" and "\<not> is_a e c"
  shows "require_success str is_a c modname name f s = (Inl (Exn ''TypeError'' (c @ ''() takes no keyword arguments'')), s')"
  using assms by (simp add: require_success_def wrap_exception_def)

lemma require_success_builtin_witness:
  "require_success (\<lambda>_. []) same_class ''ValueError'' ''m'' ''f'' (raise (Exn ''KeyError'' ''k'') :: (unit, unit) act) ()
     = (Inl (Exn ''TypeError'' ''ValueError() takes no keyword arguments''), ())"
  using require_success_builtin [of "''ValueError''" "raise (Exn ''KeyError'' ''k'') :: (unit, unit) act" "()"
      "Exn ''KeyError'' ''k''" "()" same_class "\<lambda>_. []" "''m''" "''f''"]
  by (simp add: app_classes_def raise_def is_Exception_def same_class_def)

text \<open>A context manager logs each exception that leaves its block once, naming the
  operation, the class and every context entry, and never swallows it.\<close>

theorem context_never_suppresses:
  "with_context str C f (s, lg) =
     (fst (f s), (snd (f s), lg @ (case fst (f s) of
        Inl e \<Rightarrow> [\<lparr> l_level = 40,
                   l_message = ''Exception in '' @ ec_operation C @ '': '' @ format_exception_message e
                     @ (if ec_context C = [] then []
                        else nl @ ''  Context:'' @ concat (map (\<lambda>(k, v). nl @ ''    '' @ k @ '': '' @ str v) (ec_context C))),
                   l_traceback = True \<rparr>]
      | Inr x \<Rightarrow> [])))"
  by (auto simp: with_context_def exit_message_def format_exception_message_def split: prod.split sum.split)

end
