(* ===== verification/Retry_Policy.thy ===== *)
theory Retry_Policy
  imports Errors
begin

text \<open>
  \<open>src/lib/retry\<close>: the retry policies and the decorator \<open>with_retry\<close>. The locale
  \<open>retry_policy\<close> is what the decorator relies on (a policy never asks for a retry beyond its
  maximum and never for a negative wait); each policy class interprets it under the
  arguments for which its delays are not negative. The decorated function is a computation
  over a state; the decorator's own effects, the waits and the retry counter, are kept beside.
\<close>

section \<open>Policies\<close>

datatype policy =
    Base (max_attempts: int)
  | Exponential (max_attempts: int) (base_delay: rat) (max_delay: rat) (multiplier: rat)
  | Fixed (max_attempts: int) (delay: rat)
  | No_Retry

definition policy_max :: "policy \<Rightarrow> int" where
  "policy_max p = (case p of No_Retry \<Rightarrow> 1 | Base m \<Rightarrow> m | Exponential m _ _ _ \<Rightarrow> m | Fixed m _ \<Rightarrow> m)"

fun should_retry :: "policy \<Rightarrow> int \<Rightarrow> exn \<Rightarrow> bool" where
  "should_retry No_Retry attempt e = False"
| "should_retry p attempt e = (attempt < policy_max p)"

fun get_delay :: "policy \<Rightarrow> int \<Rightarrow> rat" where
  "get_delay (Exponential m b d f) attempt = min (b * f powi (attempt - 1)) d"
| "get_delay (Fixed m d) attempt = d"
| "get_delay (Base m) attempt = 0"
| "get_delay No_Retry attempt = 0"

definition DEFAULT_POLICY :: policy where
  "DEFAULT_POLICY = Exponential 3 1 60 2"

definition choose_policy :: "int \<Rightarrow> string \<Rightarrow> rat \<Rightarrow> rat \<Rightarrow> policy option \<Rightarrow> policy" where
  "choose_policy n backoff base maxd pol =
     (case pol of
        Some p \<Rightarrow> p
      | None \<Rightarrow>
          if backoff = ''exponential'' then Exponential n base maxd 2
          else if backoff = ''fixed'' then Fixed n base
          else Exponential n 1 60 2)"

section \<open>Failures that are not retried\<close>

text \<open>
  \<open>body_quota e\<close> is what the attributes \<open>response\<close> and \<open>body\<close> of an OpenAI exception say;
  \<open>pydantic_msgs e\<close> the texts of \<open>e.errors()\<close>, none where there is no such method.
\<close>

definition is_quota_error :: "(exn \<Rightarrow> bool) \<Rightarrow> exn \<Rightarrow> bool" where
  "is_quota_error body_quota e =
     (let s = str_lower (exn_msg e)
      in exn_type e = ''RateLimitError''
           \<and> (str_contains ''insufficient_quota'' s
              \<or> str_contains ''quota'' s \<and> (str_contains ''exceeded'' s \<or> str_contains ''limit'' s))
         \<or> body_quota e)"

definition is_empty_entity_validation_error :: "(exn \<Rightarrow> string list) \<Rightarrow> exn \<Rightarrow> bool" where
  "is_empty_entity_validation_error pydantic_msgs e =
     (str_contains ''ValidationError'' (exn_type e)
      \<and> (str_contains ''At least one entity must be identified'' (exn_msg e)
         \<or> list_ex (str_contains ''At least one entity must be identified'') (pydantic_msgs e)))"

section \<open>The decorator\<close>

text \<open>\<open>waits\<close> are the sleeps; \<open>retried\<close> the error types counted by the retry counter.\<close>

record 's rstate =
  inner :: 's
  waits :: "rat list"
  retried :: "string list"
  tries :: nat

definition call_inner :: "('s, pyval) act \<Rightarrow> ('s rstate, pyval) act" where
  "call_inner f s = (case f (inner s) of (r, i) \<Rightarrow> (r, s\<lparr>inner := i, tries := Suc (tries s)\<rparr>))"

definition sleep :: "rat \<Rightarrow> ('s rstate, unit) act" where
  "sleep d s = (if d < 0 then (Inl (Exn ''ValueError'' ''sleep length must be non-negative''), s)
                else (Inr (), s\<lparr>waits := waits s @ [d]\<rparr>))"

text \<open>
  The loop, from \<open>attempt\<close> on, over the policy's maximum \<open>m\<close>, \<open>should\<close> and \<open>get\<close>;
  \<open>retry_on\<close> is the \<open>except\<close> clause and \<open>terminal\<close> the two classes of failures above.
\<close>

function retry_loop ::
  "int \<Rightarrow> (int \<Rightarrow> exn \<Rightarrow> bool) \<Rightarrow> (int \<Rightarrow> rat) \<Rightarrow> (exn \<Rightarrow> bool) \<Rightarrow> (exn \<Rightarrow> bool)
   \<Rightarrow> ('s, pyval) act \<Rightarrow> int \<Rightarrow> exn option \<Rightarrow> ('s rstate, pyval) act" where
  "retry_loop m should get retry_on terminal f attempt prev s =
     (if \<not> attempt < m
      then (case prev of Some e \<Rightarrow> (Inl e, s) | None \<Rightarrow> (Inr PNone, s))
      else (case call_inner f s of
          (Inr x, s1) \<Rightarrow> (Inr x, s1)
        | (Inl e, s1) \<Rightarrow>
            if \<not> retry_on e \<or> terminal e \<or> \<not> should (attempt + 1) e then (Inl e, s1)
            else (case sleep (get (attempt + 1)) (s1\<lparr>retried := retried s1 @ [exn_type e]\<rparr>) of
                (Inl e', s2) \<Rightarrow> (Inl e', s2)
              | (Inr _, s2) \<Rightarrow> retry_loop m should get retry_on terminal f (attempt + 1) (Some e) s2)))"
  by pat_completeness auto
termination
  by (relation "measure (\<lambda>(m, _, _, _, _, _, attempt, _, _). nat (m - attempt))") auto

declare retry_loop.simps [simp del]

definition with_retry ::
  "policy \<Rightarrow> (exn \<Rightarrow> bool) \<Rightarrow> (exn \<Rightarrow> bool) \<Rightarrow> (exn \<Rightarrow> string list) \<Rightarrow> ('s, pyval) act \<Rightarrow> ('s rstate, pyval) act" where
  "with_retry p retry_on body_quota pydantic_msgs f =
     retry_loop (policy_max p) (should_retry p) (get_delay p) retry_on
       (\<lambda>e. is_quota_error body_quota e \<or> is_empty_entity_validation_error pydantic_msgs e) f 0 None"

definition retry_llm_call ::
  "int \<Rightarrow> (exn \<Rightarrow> bool) \<Rightarrow> (exn \<Rightarrow> string list) \<Rightarrow> ('s, pyval) act \<Rightarrow> ('s rstate, pyval) act" where
  "retry_llm_call n = with_retry (choose_policy n ''exponential'' 1 60 None) is_Exception"

text \<open>The results of \<open>n\<close> calls in a row.\<close>

fun call_seq :: "nat \<Rightarrow> ('s, pyval) act \<Rightarrow> 's \<Rightarrow> pyval res list \<times> 's" where
  "call_seq 0 f i = ([], i)"
| "call_seq (Suc n) f i = (case f i of (r, i1) \<Rightarrow> (case call_seq n f i1 of (rs, i2) \<Rightarrow> (r # rs, i2)))"

section \<open>The policy interface\<close>

locale retry_policy =
  fixes m :: int and should :: "int \<Rightarrow> exn \<Rightarrow> bool" and get :: "int \<Rightarrow> rat"
  assumes stops: "should attempt e \<Longrightarrow> attempt < m"
    and delay_nonneg: "1 \<le> attempt \<Longrightarrow> 0 \<le> get attempt"
begin

text \<open>
  What the loop does from attempt number \<open>a\<close> on: it makes \<open>n\<close> calls, at most as many as are
  left; all but the last raised something to be retried; the caller gets the last call's
  result or exception; before the second and each later call it waited the policy's delay.
\<close>

lemma loop_calls:
  assumes "retry_loop m should get retry_on terminal f a prev s = (r, s')" and "0 \<le> a" and "a < m"
  shows "\<exists>n rs. call_seq (Suc n) f (inner s) = (rs, inner s') \<and> int (Suc n) \<le> m - a
     \<and> r = last rs \<and> tries s' = tries s + Suc n
     \<and> (\<forall>x \<in> set (butlast rs). \<exists>e. x = Inl e \<and> retry_on e \<and> \<not> terminal e)
     \<and> (\<forall>e. r = Inl e \<longrightarrow> \<not> retry_on e \<or> terminal e \<or> \<not> should (a + int (Suc n)) e)
     \<and> waits s' = waits s @ map (\<lambda>i. get (a + 1 + int i)) [0..<n]"
  using assms
proof (induction "nat (m - a)" arbitrary: a prev s)
  case 0
  then show ?case by simp
next
  case (Suc k)
  obtain r1 i1 where f: "f (inner s) = (r1, i1)" by fastforce
  define s1 where "s1 = s\<lparr>inner := i1, tries := Suc (tries s)\<rparr>"
  have call: "call_inner f s = (r1, s1)" by (simp add: call_inner_def f s1_def)
  show ?case
  proof (cases "\<exists>e. r1 = Inl e \<and> retry_on e \<and> \<not> terminal e \<and> should (a + 1) e")
    case False
    then have "(r, s') = (r1, s1)"
      using Suc.prems call by (cases r1) (auto simp: retry_loop.simps [of m should get retry_on terminal f a prev s])
    then have eq: "r = r1" "s' = s1" by simp_all
    show ?thesis
      by (rule exI [of _ 0], rule exI [of _ "[r1]"])
        (use eq f False Suc.prems in \<open>auto simp: s1_def\<close>)
  next
    case True
    then obtain e where e: "r1 = Inl e" "retry_on e" "\<not> terminal e" "should (a + 1) e" by blast
    let ?s2 = "s1\<lparr>retried := retried s1 @ [exn_type e], waits := waits s1 @ [get (a + 1)]\<rparr>"
    have less: "a + 1 < m" using stops e(4) by blast
    have nn: "\<not> get (a + 1) < 0" using delay_nonneg [of "a + 1"] Suc.prems(2) by simp
    have "retry_loop m should get retry_on terminal f a prev s
          = retry_loop m should get retry_on terminal f (a + 1) (Some e) ?s2"
      using call e Suc.prems(3) nn by (simp add: retry_loop.simps [of m should get retry_on terminal f a prev s] sleep_def)
    then have run: "retry_loop m should get retry_on terminal f (a + 1) (Some e) ?s2 = (r, s')"
      using Suc.prems(1) by simp
    have k: "k = nat (m - (a + 1))" using Suc.hyps(2) by linarith
    from Suc.hyps(1) [OF k run] Suc.prems(2) less obtain n rs where
      IH: "call_seq (Suc n) f i1 = (rs, inner s')" "int (Suc n) \<le> m - (a + 1)" "r = last rs"
      "tries s' = tries ?s2 + Suc n" "\<forall>x \<in> set (butlast rs). \<exists>e. x = Inl e \<and> retry_on e \<and> \<not> terminal e"
      "\<forall>e. r = Inl e \<longrightarrow> \<not> retry_on e \<or> terminal e \<or> \<not> should (a + 1 + int (Suc n)) e"
      "waits s' = waits ?s2 @ map (\<lambda>i. get (a + 1 + 1 + int i)) [0..<n]"
      by (auto simp: s1_def)
    have ne: "rs \<noteq> []" using IH(1) by (auto split: prod.splits)
    have seq: "call_seq (Suc (Suc n)) f (inner s) = (r1 # rs, inner s')"
      using f IH(1) by (simp split: prod.splits)
    have w: "[get (a + 1)] @ map (\<lambda>i. get (a + 1 + 1 + int i)) [0..<n] = map (\<lambda>i. get (a + 1 + int i)) [0..<Suc n]"
    proof -
      have "[0..<Suc n] = 0 # map Suc [0..<n]" by (simp only: map_Suc_upt upt_conv_Cons [of 0 "Suc n"] zero_less_Suc)
      then show ?thesis by (simp add: comp_def add.assoc)
    qed
    have bl: "\<forall>x \<in> set (butlast (r1 # rs)). \<exists>e. x = Inl e \<and> retry_on e \<and> \<not> terminal e"
      using ne e(1,2,3) IH(5) by simp
    have lst: "r = last (r1 # rs)" using ne IH(3) by simp
    have cnt: "int (Suc (Suc n)) \<le> m - a" using IH(2) by simp
    have tr: "tries s' = tries s + Suc (Suc n)" using IH(4) by (simp add: s1_def)
    have wt: "waits s' = waits s @ map (\<lambda>i. get (a + 1 + int i)) [0..<Suc n]"
      using IH(7) w by (simp add: s1_def del: upt_Suc)
    have stop: "\<forall>e. r = Inl e \<longrightarrow> \<not> retry_on e \<or> terminal e \<or> \<not> should (a + int (Suc (Suc n))) e"
      using IH(6) by (simp add: add.assoc)
    show ?thesis
      by (rule exI [of _ "Suc n"], rule exI [of _ "r1 # rs"])
        (intro conjI seq cnt lst tr bl stop wt)
  qed
qed

end

lemma policy_laws:
  assumes "case p of Exponential m b d f \<Rightarrow> 0 \<le> b \<and> 0 \<le> d \<and> 0 \<le> f | Fixed m d \<Rightarrow> 0 \<le> d | _ \<Rightarrow> True"
  shows "retry_policy (policy_max p) (should_retry p) (get_delay p)"
proof
  show "should_retry p attempt e \<Longrightarrow> attempt < policy_max p" for attempt e
    by (cases p) simp_all
  show "0 \<le> get_delay p attempt" if "1 \<le> attempt" for attempt
    using assms by (cases p) auto
qed

interpretation base_policy: retry_policy n "should_retry (Base n)" "get_delay (Base n)" for n
  using policy_laws [of "Base n"] by (simp add: policy_max_def)

interpretation no_retry_policy: retry_policy 1 "should_retry No_Retry" "get_delay No_Retry"
  using policy_laws [of No_Retry] by (simp add: policy_max_def)

interpretation default_policy: retry_policy "policy_max DEFAULT_POLICY" "should_retry DEFAULT_POLICY" "get_delay DEFAULT_POLICY"
  by (rule policy_laws) (simp add: DEFAULT_POLICY_def)

section \<open>Properties\<close>

abbreviation start_state :: "'s \<Rightarrow> 's rstate" where
  "start_state i \<equiv> \<lparr> inner = i, waits = [], retried = [], tries = 0 \<rparr>"

abbreviation terminal_failure :: "(exn \<Rightarrow> bool) \<Rightarrow> (exn \<Rightarrow> string list) \<Rightarrow> exn \<Rightarrow> bool" where
  "terminal_failure body_quota pydantic_msgs e \<equiv>
     is_quota_error body_quota e \<or> is_empty_entity_validation_error pydantic_msgs e"

text \<open>Under an exponential policy with \<open>k\<close> attempts the function is called at least once
  and at most \<open>k\<close> times; every call but the last failed with something to be retried; the
  caller gets exactly what the last call gave, and an exception only when the attempts are
  used up or the failure is not to be retried; and the \<open>i\<close>-th wait is the base delay times
  \<open>2 ^ i\<close>, capped at the maximum delay.\<close>

theorem exponential_retry:
  assumes "0 < k" and "0 \<le> b" and "0 \<le> d"
    and "with_retry (Exponential k b d 2) retry_on body_quota pydantic_msgs f (start_state i) = (r, s')"
  shows "\<exists>n rs. call_seq (Suc n) f i = (rs, inner s') \<and> int (Suc n) \<le> k \<and> tries s' = Suc n \<and> r = last rs
     \<and> (\<forall>x \<in> set (butlast rs). \<exists>e. x = Inl e \<and> retry_on e \<and> \<not> terminal_failure body_quota pydantic_msgs e)
     \<and> (\<forall>e. r = Inl e \<longrightarrow> \<not> retry_on e \<or> terminal_failure body_quota pydantic_msgs e \<or> int (Suc n) = k)
     \<and> waits s' = map (\<lambda>i. min (b * 2 ^ i) d) [0..<n]"
proof -
  let ?p = "Exponential k b d 2"
  have "retry_policy (policy_max ?p) (should_retry ?p) (get_delay ?p)"
    by (rule policy_laws) (use assms in simp)
  from retry_policy.loop_calls [OF this assms(4) [unfolded with_retry_def]] assms(1) obtain n rs where
    h: "call_seq (Suc n) f i = (rs, inner s')" "int (Suc n) \<le> k" "r = last rs" "tries s' = Suc n"
    "\<forall>x \<in> set (butlast rs). \<exists>e. x = Inl e \<and> retry_on e \<and> \<not> terminal_failure body_quota pydantic_msgs e"
    "\<forall>e. r = Inl e \<longrightarrow> \<not> retry_on e \<or> terminal_failure body_quota pydantic_msgs e \<or> \<not> int (Suc n) < k"
    "waits s' = map (\<lambda>i. get_delay ?p (1 + int i)) [0..<n]"
    by (auto simp: policy_max_def simp del: get_delay.simps call_seq.simps)
  have "waits s' = map (\<lambda>i. min (b * 2 ^ i) d) [0..<n]"
    using h(7) by (simp add: power_int_def)
  moreover have "\<forall>e. r = Inl e \<longrightarrow> \<not> retry_on e \<or> terminal_failure body_quota pydantic_msgs e \<or> int (Suc n) = k"
    using h(2,6) by fastforce
  ultimately show ?thesis using h(1-5) by blast
qed

definition flaky :: "(nat, pyval) act" where
  "flaky n = (if n < 2 then (Inl (Exn ''TimeoutError'' []), Suc n) else (Inr (PInt 5), Suc n))"

lemma exponential_retry_witness:
  "with_retry (Exponential 5 1 60 2) is_Exception (\<lambda>_. False) (\<lambda>_. []) flaky (start_state 0)
     = (Inr (PInt 5), \<lparr> inner = 3, waits = [1, 2], retried = [''TimeoutError'', ''TimeoutError''], tries = 3 \<rparr>)
   \<and> (\<exists>n rs. call_seq (Suc n) flaky 0 = (rs, 3) \<and> Suc n = 3 \<and> Inr (PInt 5) = last rs)"
proof -
  have run: "with_retry (Exponential 5 1 60 2) is_Exception (\<lambda>_. False) (\<lambda>_. []) flaky (start_state 0)
     = (Inr (PInt 5), \<lparr> inner = 3, waits = [1, 2], retried = [''TimeoutError'', ''TimeoutError''], tries = 3 \<rparr>)"
    by (simp add: with_retry_def policy_max_def retry_loop.simps call_inner_def flaky_def sleep_def is_Exception_def
        is_quota_error_def is_empty_entity_validation_error_def str_startswith_def power_int_def)
  from exponential_retry [OF _ _ _ run] run show ?thesis by auto
qed

text \<open>A quota failure is not retried: when the first call raises one, the function is called
  once, there is no wait, and the same exception comes out.\<close>

theorem quota_error_stops:
  assumes "0 < policy_max p" and "f i = (Inl e, i')" and "retry_on e" and "exn_type e = ''RateLimitError''"
    and "str_contains ''insufficient_quota'' (str_lower (exn_msg e))"
  shows "with_retry p retry_on body_quota pydantic_msgs f (start_state i) =
           (Inl e, \<lparr> inner = i', waits = [], retried = [], tries = 1 \<rparr>)"
  using assms by (simp add: with_retry_def retry_loop.simps call_inner_def is_quota_error_def Let_def)

lemma quota_error_stops_witness:
  "with_retry DEFAULT_POLICY is_Exception (\<lambda>_. False) (\<lambda>_. []) (raise (Exn ''RateLimitError'' ''Insufficient_quota'')) (start_state ())
     = (Inl (Exn ''RateLimitError'' ''Insufficient_quota''), \<lparr> inner = (), waits = [], retried = [], tries = 1 \<rparr>)"
proof (rule quota_error_stops)
  show "str_contains ''insufficient_quota'' (str_lower (exn_msg (Exn ''RateLimitError'' ''Insufficient_quota'')))"
    by code_simp
qed (simp_all add: DEFAULT_POLICY_def policy_max_def raise_def is_Exception_def)

text \<open>A decorator made with no attempts at all never calls the function: the call returns
  \<open>None\<close> at once, without an error.\<close>

theorem no_attempts_returns_None:
  assumes "k \<le> 0"
  shows "with_retry (choose_policy k backoff b d None) retry_on body_quota pydantic_msgs f s = (Inr PNone, s)"
  using assms by (simp add: with_retry_def choose_policy_def policy_max_def retry_loop.simps)

lemma no_attempts_returns_None_witness:
  "with_retry (choose_policy 0 ''fixed'' 1 1 None) is_Exception (\<lambda>_. False) (\<lambda>_. []) flaky (start_state 0)
     = (Inr PNone, start_state 0)"
  by (rule no_attempts_returns_None) simp

end
