(* ===== verification/Rate_Limiter.thy ===== *)
theory Rate_Limiter
  imports Prelude
begin

text \<open>
  \<open>src/lib/rate_limiting/limiter.py\<close>: the process-local rate limiter and its decorator. The
  lock serializes \<open>wait\<close> and \<open>delay\<close>, so a run is a sequence of them. An operation takes the
  clock readings it makes and the random jitter it draws; \<open>plausible\<close> says what the clock and
  the random source guarantee (a sleep lasts at least as long as asked, time does not go
  back, the jitter is within its bounds).
\<close>

section \<open>The limiter\<close>

record limiter =
  rpm :: int
  min_interval :: rat
  jitter :: rat
  next_allowed :: rat

text \<open>\<open>int(os.getenv(name, str(given)))\<close>: the environment wins over the argument.\<close>

definition env_int :: "(string \<times> string) list \<Rightarrow> string \<Rightarrow> int \<Rightarrow> int res" where
  "env_int env name given =
     (case map_of env name of
        None \<Rightarrow> Inr given
      | Some s \<Rightarrow> (case int_of_str s of
            Some i \<Rightarrow> Inr i
          | None \<Rightarrow> Inl (Exn ''ValueError'' (''invalid literal for int() with base 10: '' @ [quote] @ s @ [quote]))))"

definition init_limiter :: "(string \<times> string) list \<Rightarrow> int option \<Rightarrow> int option \<Rightarrow> limiter res" where
  "init_limiter env r j =
     (case env_int env ''RATE_LIMIT_RPM'' (case r of None \<Rightarrow> 20 | Some x \<Rightarrow> x) of
        Inl e \<Rightarrow> Inl e
      | Inr rpm_val \<Rightarrow>
        (case env_int env ''RATE_LIMIT_JITTER_MS'' (case j of None \<Rightarrow> 250 | Some x \<Rightarrow> x) of
           Inl e \<Rightarrow> Inl e
         | Inr jitter_val \<Rightarrow>
             Inr \<lparr> rpm = rpm_val, min_interval = 60 / of_int (max 1 rpm_val),
                   jitter = max 0 (of_int jitter_val / 1000), next_allowed = 0 \<rparr>))"

definition sleep_for :: "rat \<Rightarrow> limiter \<Rightarrow> rat" where
  "sleep_for now L = max 0 (next_allowed L - now)"

text \<open>\<open>after\<close> is the second clock reading, when the caller is let through; \<open>u\<close> the jitter.\<close>

definition wait :: "rat \<Rightarrow> rat \<Rightarrow> limiter \<Rightarrow> limiter" where
  "wait after u L = L\<lparr>next_allowed := after + min_interval L + u\<rparr>"

definition delay :: "rat \<Rightarrow> rat \<Rightarrow> rat \<Rightarrow> limiter \<Rightarrow> limiter" where
  "delay seconds now u L = L\<lparr>next_allowed := max (next_allowed L) (now + max 0 seconds + u)\<rparr>"

section \<open>The decorator\<close>

definition truncate :: "rat \<Rightarrow> int" where
  "truncate r = (if r < 0 then - \<lfloor>- r\<rfloor> else \<lfloor>r\<rfloor>)"

text \<open>\<open>rate_limit(max_calls, period, jitter_ms)\<close>: the limiter behind the decorated function.\<close>

definition rate_limit :: "(string \<times> string) list \<Rightarrow> int \<Rightarrow> rat \<Rightarrow> int \<Rightarrow> limiter res" where
  "rate_limit env max_calls period jitter_ms =
     (if period = 0 then Inl (Exn ''ZeroDivisionError'' ''division by zero'')
      else init_limiter env (Some (truncate (of_int max_calls / period * 60))) (Some jitter_ms))"

section \<open>Runs\<close>

text \<open>\<open>Wait now after u\<close> and \<open>Delay seconds now u\<close>.\<close>

datatype lim_op = Wait rat rat rat | Delay rat rat rat

fun run_lim :: "lim_op \<Rightarrow> limiter \<Rightarrow> limiter" where
  "run_lim (Wait now after u) L = wait after u L"
| "run_lim (Delay s now u) L = delay s now u L"

fun plausible_op :: "lim_op \<Rightarrow> limiter \<Rightarrow> bool" where
  "plausible_op (Wait now after u) L = (now + sleep_for now L \<le> after \<and> 0 \<le> u \<and> u \<le> jitter L)"
| "plausible_op (Delay s now u) L = (0 \<le> u \<and> u \<le> jitter L)"

fun plausible :: "lim_op list \<Rightarrow> limiter \<Rightarrow> bool" where
  "plausible [] L = True"
| "plausible (op # ops) L = (plausible_op op L \<and> plausible ops (run_lim op L))"

text \<open>The times at which callers are let through.\<close>

fun grants :: "lim_op list \<Rightarrow> rat list" where
  "grants [] = []"
| "grants (Wait now after u # ops) = after # grants ops"
| "grants (Delay s now u # ops) = grants ops"

lemma run_lim_frame: "min_interval (run_lim op L) = min_interval L \<and> jitter (run_lim op L) = jitter L"
  by (cases op) (simp_all add: wait_def delay_def)

lemma grants_after_next:
  "plausible ops L \<Longrightarrow> grants ops = g # gs \<Longrightarrow> next_allowed L \<le> g"
proof (induction ops arbitrary: L)
  case (Cons op ops)
  show ?case
  proof (cases op)
    case (Wait now after u)
    with Cons.prems show ?thesis by (auto simp: sleep_for_def max_def split: if_splits)
  next
    case (Delay s now u)
    with Cons have "next_allowed (run_lim op L) \<le> g" by simp
    with Delay show ?thesis by (simp add: delay_def)
  qed
qed simp

lemma grants_spaced:
  assumes "plausible ops L" and "0 \<le> min_interval L" and "Suc i < length (grants ops)"
  shows "grants ops ! i + min_interval L \<le> grants ops ! Suc i"
  using assms
proof (induction ops arbitrary: L i)
  case (Cons op ops)
  have frame: "min_interval (run_lim op L) = min_interval L" by (simp add: run_lim_frame)
  show ?case
  proof (cases op)
    case (Delay s now u)
    with Cons.IH [of "run_lim op L" i] Cons.prems frame show ?thesis by simp
  next
    case (Wait now after u)
    show ?thesis
    proof (cases i)
      case (Suc j)
      with Cons.IH [of "run_lim op L" j] Cons.prems frame Wait show ?thesis by simp
    next
      case 0
      with Cons.prems Wait obtain g gs where g: "grants ops = g # gs" by (cases "grants ops") auto
      have "next_allowed (run_lim op L) \<le> g"
        using Cons.prems(1) Wait by (intro grants_after_next [OF _ g]) simp
      with Wait Cons.prems g 0 show ?thesis by (simp add: wait_def)
    qed
  qed
qed simp

lemma grants_spread:
  assumes "plausible ops L" and "0 \<le> min_interval L" and "i + d < length (grants ops)"
  shows "grants ops ! i + of_nat d * min_interval L \<le> grants ops ! (i + d)"
  using assms(3)
proof (induction d)
  case (Suc d)
  then have "grants ops ! i + of_nat d * min_interval L \<le> grants ops ! (i + d)" by simp
  moreover have "grants ops ! (i + d) + min_interval L \<le> grants ops ! Suc (i + d)"
    using grants_spaced [OF assms(1,2)] Suc.prems by simp
  ultimately show ?case by (simp add: algebra_simps)
qed simp

section \<open>Properties\<close>

text \<open>C29: Whatever callers wait and whatever explicit delays come between, a limiter for \<open>n\<close>
  requests a minute lets any \<open>n + 1\<close> consecutive callers through over a span of at least a
  minute: never more than \<open>n\<close> in less than 60 seconds.\<close>

theorem rate_is_bounded:
  assumes "init_limiter env r j = Inr L" and "plausible ops L" and "n = nat (max 1 (rpm L))"
    and "i + n < length (grants ops)"
  shows "60 \<le> grants ops ! (i + n) - grants ops ! i"
proof -
  from assms(1) have m: "min_interval L = 60 / of_int (max 1 (rpm L))"
    by (auto simp: init_limiter_def split: sum.splits)
  have pos: "(0::rat) < of_int (max 1 (rpm L))" by simp
  have "0 \<le> min_interval L" unfolding m using pos by (intro divide_nonneg_pos) simp_all
  from grants_spread [OF assms(2) this assms(4)]
  have "grants ops ! i + of_nat n * min_interval L \<le> grants ops ! (i + n)" .
  moreover have "(of_nat n :: rat) = of_int (max 1 (rpm L))"
    using assms(3) by (metis linear max.bounded_iff max_def nat_0_le of_int_of_nat_eq zero_le_one order_trans)
  then have "of_nat n * min_interval L = 60" using pos m by simp
  ultimately show ?thesis by simp
qed

definition demo_limiter :: limiter where
  "demo_limiter = \<lparr> rpm = 2, min_interval = 30, jitter = 0, next_allowed = 0 \<rparr>"

lemma rate_is_bounded_witness:
  "init_limiter [] (Some 2) (Some 0) = Inr demo_limiter
   \<and> 60 \<le> grants [Wait 1 1 0, Wait 2 31 0, Wait 40 61 0] ! 2 - grants [Wait 1 1 0, Wait 2 31 0, Wait 40 61 0] ! 0"
proof -
  have a: "init_limiter [] (Some 2) (Some 0) = Inr demo_limiter"
    by (simp add: init_limiter_def env_int_def demo_limiter_def)
  have b: "plausible [Wait 1 1 0, Wait 2 31 0, Wait 40 61 0] demo_limiter"
    by (simp add: demo_limiter_def sleep_for_def wait_def)
  have c: "2 = nat (max 1 (rpm demo_limiter))" by (simp add: demo_limiter_def)
  from rate_is_bounded [OF a b c, of 0] a show ?thesis by simp
qed

text \<open>An explicit delay (a \<open>Retry-After\<close>) holds: no caller is let through before the time
  of the delay plus its seconds, and it never shortens a wait already due.\<close>

theorem explicit_delay_holds:
  assumes "plausible (Delay s now u # ops) L" and "grants ops = g # gs"
  shows "now + s \<le> g \<and> next_allowed L \<le> g"
proof -
  have "next_allowed (delay s now u L) \<le> g"
    using assms by (intro grants_after_next [OF _ assms(2)]) simp
  moreover have "0 \<le> u" using assms(1) by simp
  ultimately show ?thesis by (auto simp: delay_def)
qed

lemma explicit_delay_holds_witness:
  "grants [Wait 1 12 0] = [12] \<and> (0::rat) + 12 \<le> 12"
proof -
  have "plausible [Delay 12 0 0, Wait 1 12 0] demo_limiter"
    by (simp add: demo_limiter_def sleep_for_def delay_def)
  from explicit_delay_holds [OF this, of 12 "[]"] show ?thesis by simp
qed

text \<open>The decorator turns its calls per period into whole requests per minute and the
  limiter allows at least one a minute: \<open>rate_limit(max_calls=1, period=120)\<close> spaces calls by
  60 seconds, so two calls pass within its period of 120.\<close>

theorem slow_rates_exceeded:
  "\<exists>L. rate_limit [] 1 120 0 = Inr L \<and> min_interval L = 60
     \<and> plausible [Wait 0 0 0, Wait 0 60 0] L \<and> grants [Wait 0 0 0, Wait 0 60 0] = [0, 60]"
  by (simp add: rate_limit_def truncate_def init_limiter_def env_int_def sleep_for_def wait_def)

end
