(* ===== verification/Metrics.thy ===== *)
theory Metrics
  imports Prelude
begin

text \<open>
  \<open>src/lib/metrics\<close>: the collectors (counter, gauge, histogram, timer), the singleton
  registry, the Prometheus text exporter and the LLM cost model. A metric's values are an
  association list from label keys in insertion order. The locale \<open>labelled_cell\<close> is the
  contract the three collectors share: an update changes the cell of its label set and no
  other. Metric objects are shared by reference between the modules and the registry, so
  the registry works on a heap of them.

  Python identifies the label values 1, 1.0 and \<open>True\<close> as dictionary keys; the model keeps
  them apart.
\<close>

section \<open>Label keys\<close>

type_synonym labels = "(string \<times> pyval) list"

text \<open>\<open>tuple(sorted(labels.items()))\<close>: the keys of a dictionary differ, so they decide.\<close>

definition make_key :: "labels option \<Rightarrow> labels" where
  "make_key l = (case l of None \<Rightarrow> [] | Some d \<Rightarrow> sort_key fst d)"

record 'v metric =
  m_name :: string
  m_description :: string
  m_labels :: "string list"
  m_values :: "(labels \<times> 'v) list"

definition new_metric :: "string \<Rightarrow> string \<Rightarrow> string list option \<Rightarrow> 'v metric" where
  "new_metric name description labels =
     \<lparr> m_name = name, m_description = description,
       m_labels = (case labels of None \<Rightarrow> [] | Some ls \<Rightarrow> ls), m_values = [] \<rparr>"

definition cell :: "'v \<Rightarrow> labels option \<Rightarrow> 'v metric \<Rightarrow> 'v" where
  "cell dflt l m = (case map_of (m_values m) (make_key l) of None \<Rightarrow> dflt | Some v \<Rightarrow> v)"

definition put_cell :: "labels option \<Rightarrow> 'v \<Rightarrow> 'v metric \<Rightarrow> 'v metric" where
  "put_cell l v m = m\<lparr>m_values := AList.update (make_key l) v (m_values m)\<rparr>"

section \<open>Counter\<close>

definition counter_inc :: "rat \<Rightarrow> labels option \<Rightarrow> rat metric \<Rightarrow> rat metric" where
  "counter_inc amount l m = put_cell l (cell 0 l m + amount) m"

definition counter_get :: "labels option \<Rightarrow> rat metric \<Rightarrow> rat" where
  "counter_get l m = cell 0 l m"

definition counter_reset :: "labels option \<Rightarrow> rat metric \<Rightarrow> rat metric" where
  "counter_reset l m =
     (case l of
        None \<Rightarrow> m\<lparr>m_values := []\<rparr>
      | Some _ \<Rightarrow> if make_key l \<in> set (keys (m_values m)) then put_cell l 0 m else m)"

definition get_all :: "'v metric \<Rightarrow> (labels \<times> 'v) list" where
  "get_all m = m_values m"

section \<open>Gauge\<close>

definition gauge_set :: "rat \<Rightarrow> labels option \<Rightarrow> rat metric \<Rightarrow> rat metric" where
  "gauge_set value l m = put_cell l value m"

definition gauge_inc :: "rat \<Rightarrow> labels option \<Rightarrow> rat metric \<Rightarrow> rat metric" where
  "gauge_inc amount l m = put_cell l (cell 0 l m + amount) m"

definition gauge_dec :: "rat \<Rightarrow> labels option \<Rightarrow> rat metric \<Rightarrow> rat metric" where
  "gauge_dec amount l m = put_cell l (cell 0 l m - amount) m"

definition gauge_get :: "labels option \<Rightarrow> rat metric \<Rightarrow> rat" where
  "gauge_get l m = cell 0 l m"

section \<open>Histogram\<close>

definition observe :: "rat \<Rightarrow> labels option \<Rightarrow> rat list metric \<Rightarrow> rat list metric" where
  "observe value l m = put_cell l (cell [] l m @ [value]) m"

record summary =
  s_count :: nat
  s_sum :: rat
  s_min :: rat
  s_max :: rat
  s_avg :: rat

definition summary_of :: "labels option \<Rightarrow> rat list metric \<Rightarrow> summary" where
  "summary_of l m =
     (let values = cell [] l m
      in if values = [] then \<lparr> s_count = 0, s_sum = 0, s_min = 0, s_max = 0, s_avg = 0 \<rparr>
         else \<lparr> s_count = length values, s_sum = sum_list values, s_min = Min (set values),
                s_max = Max (set values), s_avg = sum_list values / of_nat (length values) \<rparr>)"

text \<open>\<open>xs[i]\<close> with Python's negative indices.\<close>

definition py_index :: "'a list \<Rightarrow> int \<Rightarrow> 'a res" where
  "py_index xs i =
     (if 0 \<le> i \<and> i < int (length xs) then Inr (xs ! nat i)
      else if i < 0 \<and> 0 \<le> int (length xs) + i then Inr (xs ! nat (int (length xs) + i))
      else Inl (Exn ''IndexError'' ''list index out of range''))"

definition trunc :: "rat \<Rightarrow> int" where
  "trunc r = (if r < 0 then - \<lfloor>- r\<rfloor> else \<lfloor>r\<rfloor>)"

definition percentile :: "rat \<Rightarrow> labels option \<Rightarrow> rat list metric \<Rightarrow> rat res" where
  "percentile p l m =
     (let values = sort (cell [] l m)
      in if values = [] then Inr 0
         else (let i = trunc (of_nat (length values) * p);
                   i = (if int (length values) \<le> i then int (length values) - 1 else i)
               in py_index values i))"

definition histogram_reset :: "labels option \<Rightarrow> rat list metric \<Rightarrow> rat list metric" where
  "histogram_reset l m =
     (case l of
        None \<Rightarrow> m\<lparr>m_values := []\<rparr>
      | Some _ \<Rightarrow> if make_key l \<in> set (keys (m_values m)) then put_cell l [] m else m)"

section \<open>Timer\<close>

record timer =
  start_time :: "rat option"
  end_time :: "rat option"

definition new_timer :: timer where
  "new_timer = \<lparr> start_time = None, end_time = None \<rparr>"

definition timer_enter :: "rat \<Rightarrow> timer \<Rightarrow> timer" where
  "timer_enter now T = T\<lparr>start_time := Some now\<rparr>"

definition timer_exit :: "rat \<Rightarrow> timer \<Rightarrow> timer" where
  "timer_exit now T = T\<lparr>end_time := Some now\<rparr>"

definition elapsed :: "rat \<Rightarrow> timer \<Rightarrow> rat" where
  "elapsed now T =
     (case start_time T of
        None \<Rightarrow> 0
      | Some s \<Rightarrow> (case end_time T of Some e \<Rightarrow> e | None \<Rightarrow> now) - s)"

section \<open>Registry\<close>

datatype any_metric = Counter "rat metric" | Gauge "rat metric" | Histogram "rat list metric"

fun metric_name :: "any_metric \<Rightarrow> string" where
  "metric_name (Counter m) = m_name m"
| "metric_name (Gauge m) = m_name m"
| "metric_name (Histogram m) = m_name m"

text \<open>
  The heap of metric objects, and the singleton with its map from names to objects. The two
  module-level counters are the objects 0 and 1.
\<close>

record reg_state =
  heap :: "any_metric list"
  the_instance :: "(string \<times> nat) list option"

definition errors_total :: any_metric where
  "errors_total = Counter (new_metric ''errors_total'' ''Total errors by type and component''
     (Some [''error_type'', ''component'']))"

definition retries_attempted :: any_metric where
  "retries_attempted = Counter (new_metric ''retries_attempted'' ''Total retry attempts by function and error type''
     (Some [''function'', ''error_type'']))"

definition module_state :: reg_state where
  "module_state = \<lparr> heap = [errors_total, retries_attempted], the_instance = None \<rparr>"

definition init_registry :: "(string \<times> nat) list" where
  "init_registry = [(''errors_total'', 0), (''retries_attempted'', 1)]"

definition get_instance :: "reg_state \<Rightarrow> (string \<times> nat) list \<times> reg_state" where
  "get_instance R =
     (case the_instance R of
        Some m \<Rightarrow> (m, R)
      | None \<Rightarrow> (init_registry, R\<lparr>the_instance := Some init_registry\<rparr>))"

definition register :: "nat \<Rightarrow> reg_state \<Rightarrow> reg_state" where
  "register obj R =
     (case get_instance R of (m, R1) \<Rightarrow>
        R1\<lparr>the_instance := Some (AList.update (metric_name (heap R1 ! obj)) obj m)\<rparr>)"

definition registry_get :: "string \<Rightarrow> reg_state \<Rightarrow> any_metric option \<times> reg_state" where
  "registry_get name R =
     (case get_instance R of (m, R1) \<Rightarrow> (map_option (\<lambda>i. heap R1 ! i) (map_of m name), R1))"

definition collect_all :: "reg_state \<Rightarrow> (string \<times> any_metric) list \<times> reg_state" where
  "collect_all R = (case get_instance R of (m, R1) \<Rightarrow> (map (\<lambda>(n, i). (n, heap R1 ! i)) m, R1))"

text \<open>\<open>metric.reset()\<close>: a gauge has no such method.\<close>

fun reset_metric :: "any_metric \<Rightarrow> any_metric res" where
  "reset_metric (Counter m) = Inr (Counter (counter_reset None m))"
| "reset_metric (Histogram m) = Inr (Histogram (histogram_reset None m))"
| "reset_metric (Gauge m) =
     Inl (Exn ''AttributeError'' ([quote] @ ''Gauge'' @ [quote] @ '' object has no attribute '' @ [quote] @ ''reset'' @ [quote]))"

fun reset_objects :: "nat list \<Rightarrow> (any_metric list, unit) act" where
  "reset_objects [] h = (Inr (), h)"
| "reset_objects (i # is) h =
     (case reset_metric (h ! i) of
        Inl e \<Rightarrow> (Inl e, h)
      | Inr x \<Rightarrow> reset_objects is (h[i := x]))"

definition reset_all :: "(reg_state, unit) act" where
  "reset_all R =
     (case get_instance R of (m, R1) \<Rightarrow>
        (case reset_objects (map snd m) (heap R1) of (r, h) \<Rightarrow> (r, R1\<lparr>heap := h\<rparr>)))"

definition reset_instance :: "reg_state \<Rightarrow> reg_state" where
  "reset_instance R = R\<lparr>the_instance := None\<rparr>"

section \<open>Exporter\<close>

text \<open>\<open>str\<close> prints label values and \<open>num\<close> prints floats.\<close>

definition label_str :: "(pyval \<Rightarrow> string) \<Rightarrow> labels \<Rightarrow> string" where
  "label_str str ls = str_join '','' (map (\<lambda>(k, v). k @ ''='' @ [CHR 0x22] @ str v @ [CHR 0x22]) ls)"

definition label_part :: "(pyval \<Rightarrow> string) \<Rightarrow> labels \<Rightarrow> string" where
  "label_part str ls = (if ls = [] then [] else ''{'' @ label_str str ls @ ''}'')"

definition header_lines :: "string \<Rightarrow> 'v metric \<Rightarrow> string list" where
  "header_lines kind m =
     (''# TYPE '' @ m_name m @ '' '' @ kind)
     # (if m_description m = [] then [] else [''# HELP '' @ m_name m @ '' '' @ m_description m])"

definition sample_lines :: "(pyval \<Rightarrow> string) \<Rightarrow> (rat \<Rightarrow> string) \<Rightarrow> rat metric \<Rightarrow> string list" where
  "sample_lines str num m =
     (if get_all m = [] then [m_name m @ '' 0'']
      else map (\<lambda>(ls, v). m_name m @ label_part str ls @ '' '' @ num v) (get_all m))"

definition export_counter :: "(pyval \<Rightarrow> string) \<Rightarrow> (rat \<Rightarrow> string) \<Rightarrow> rat metric \<Rightarrow> string list" where
  "export_counter str num m = header_lines ''counter'' m @ sample_lines str num m"

definition export_gauge :: "(pyval \<Rightarrow> string) \<Rightarrow> (rat \<Rightarrow> string) \<Rightarrow> rat metric \<Rightarrow> string list" where
  "export_gauge str num m = header_lines ''gauge'' m @ sample_lines str num m"

definition export_histogram :: "(pyval \<Rightarrow> string) \<Rightarrow> (rat \<Rightarrow> string) \<Rightarrow> rat list metric \<Rightarrow> string list" where
  "export_histogram str num m =
     header_lines ''summary'' m
     @ (if get_all m = [] then [m_name m @ ''_count 0'', m_name m @ ''_sum 0'']
        else concat (map (\<lambda>(ls, _).
          let s = summary_of (if ls = [] then None else Some ls) m; lp = label_part str ls
          in [m_name m @ ''_count'' @ lp @ '' '' @ str_of_nat (s_count s), m_name m @ ''_sum'' @ lp @ '' '' @ num (s_sum s),
              m_name m @ ''_min'' @ lp @ '' '' @ num (s_min s), m_name m @ ''_max'' @ lp @ '' '' @ num (s_max s),
              m_name m @ ''_avg'' @ lp @ '' '' @ num (s_avg s)]) (get_all m)))"

definition export_metric :: "(pyval \<Rightarrow> string) \<Rightarrow> (rat \<Rightarrow> string) \<Rightarrow> any_metric \<Rightarrow> string list" where
  "export_metric str num M = (case M of
       Counter m \<Rightarrow> export_counter str num m
     | Gauge m \<Rightarrow> export_gauge str num m
     | Histogram m \<Rightarrow> export_histogram str num m)"

definition export_prometheus_text :: "(pyval \<Rightarrow> string) \<Rightarrow> (rat \<Rightarrow> string) \<Rightarrow> reg_state \<Rightarrow> string \<times> reg_state" where
  "export_prometheus_text str num R =
     (case collect_all R of (ms, R1) \<Rightarrow>
        (str_join nl (concat (map (\<lambda>(n, M). export_metric str num M) ms)), R1))"

section \<open>Cost model\<close>

definition LLM_PRICING :: "(string \<times> rat \<times> rat) list" where
  "LLM_PRICING =
     [(''gpt-4o-mini'', 15/100, 60/100), (''gpt-4o'', 250/100, 10), (''gpt-4'', 30, 60),
      (''gpt-3.5-turbo'', 50/100, 150/100), (''gpt-3.5-turbo-16k'', 3, 4)]"

definition find_pricing :: "(string \<times> rat \<times> rat) list \<Rightarrow> string \<Rightarrow> rat \<times> rat" where
  "find_pricing table name =
     (case map_of table name of
        Some p \<Rightarrow> p
      | None \<Rightarrow> (case find (\<lambda>(k, _). str_contains k name) table of
            Some (_, p) \<Rightarrow> p
          | None \<Rightarrow> (250/100, 10)))"

definition estimate_llm_cost :: "(string \<times> rat \<times> rat) list \<Rightarrow> string \<Rightarrow> int \<Rightarrow> int \<Rightarrow> rat" where
  "estimate_llm_cost table name prompt_tokens completion_tokens =
     (case find_pricing table name of (input_price, output_price) \<Rightarrow>
        of_int prompt_tokens / 1000000 * input_price + of_int completion_tokens / 1000000 * output_price)"

definition add_model_pricing :: "string \<Rightarrow> rat \<Rightarrow> rat \<Rightarrow> (string \<times> rat \<times> rat) list \<Rightarrow> (string \<times> rat \<times> rat) list" where
  "add_model_pricing name ip op table = AList.update name (ip, op) table"

end
