(* ===== verification/Metrics_Facts.thy ===== *)
theory Metrics_Facts
  imports Metrics
begin

text \<open>
  What the collectors, the registry, the exporter and the cost model guarantee, and where
  they fail: label sets are unordered keys, updates touch one cell, a summary is consistent,
  the registry's reset stops at a gauge, the exporter does not escape label values, and
  dated names of the 16k model are priced as the base model.
\<close>

section \<open>Label keys\<close>

lemma make_key_unordered:
  assumes "set d = set d'" and "distinct (keys d)" and "distinct (keys d')"
  shows "make_key (Some d) = make_key (Some d')"
proof -
  have "map fst (sort_key fst d) = map fst (sort_key fst d')"
    using assms by (intro sorted_distinct_set_unique) (simp_all add: distinct_map)
  moreover have "inj_on fst (set (sort_key fst d) \<union> set (sort_key fst d'))"
    using assms by (simp add: distinct_map)
  ultimately show ?thesis
    by (simp add: make_key_def map_inj_on)
qed

lemma sort_key_keys: "distinct (keys d) \<Longrightarrow> sort_key fst (sort_key fst d) = sort_key fst d"
  by (simp add: sort_key_id_if_sorted)

section \<open>The contract of a collector\<close>

locale labelled_cell =
  fixes get_op :: "labels option \<Rightarrow> 'm \<Rightarrow> 'v" and upd :: "'x \<Rightarrow> labels option \<Rightarrow> 'm \<Rightarrow> 'm" and eff :: "'x \<Rightarrow> 'v \<Rightarrow> 'v"
  assumes get_upd: "get_op l' (upd x l m) = (if make_key l' = make_key l then eff x (get_op l m) else get_op l' m)"
    and get_key: "make_key l = make_key l' \<Longrightarrow> get_op l m = get_op l' m"
begin

text \<open>A cell's value is the effects of its own updates in order; the others do not matter.\<close>

lemma get_run:
  "get_op l (fold (\<lambda>(x, l'). upd x l') ups m) =
   fold eff (map fst (filter (\<lambda>(x, l'). make_key l' = make_key l) ups)) (get_op l m)"
proof (induction ups arbitrary: m)
  case (Cons u ups)
  obtain x l' where "u = (x, l')" by (cases u)
  with Cons.IH get_upd [of l x l' m] get_key [of l' l m] show ?case by (auto simp: eq_commute)
qed simp

end

lemma cell_put: "cell d l' (put_cell l v m) = (if make_key l' = make_key l then v else cell d l' m)"
  by (simp add: cell_def put_cell_def)

lemma cell_key: "make_key l = make_key l' \<Longrightarrow> cell d l m = cell d l' m"
  by (simp add: cell_def)

interpretation counter: labelled_cell counter_get counter_inc "\<lambda>a v. v + a"
  by unfold_locales (auto simp: counter_get_def counter_inc_def cell_put intro: cell_key)

interpretation gauge_setting: labelled_cell gauge_get gauge_set "\<lambda>a v. a"
  by unfold_locales (auto simp: gauge_get_def gauge_set_def cell_put intro: cell_key)

interpretation gauge_up: labelled_cell gauge_get gauge_inc "\<lambda>a v. v + a"
  by unfold_locales (auto simp: gauge_get_def gauge_inc_def cell_put intro: cell_key)

interpretation gauge_down: labelled_cell gauge_get gauge_dec "\<lambda>a v. v - a"
  by unfold_locales (auto simp: gauge_get_def gauge_dec_def cell_put intro: cell_key)

interpretation histogram: labelled_cell "cell []" observe "\<lambda>a vs. vs @ [a]"
  by unfold_locales (auto simp: observe_def cell_put intro: cell_key)

lemma fold_plus: "fold (\<lambda>a (v::rat). v + a) xs v = v + sum_list xs"
  by (induction xs arbitrary: v) (simp_all add: add.assoc)

lemma fold_snoc: "fold (\<lambda>a vs. vs @ [a]) xs vs = vs @ xs"
  by (induction xs arbitrary: vs) simp_all

lemma cell_new [simp]: "cell d l (new_metric n ds ls) = d"
  by (simp add: cell_def new_metric_def)

section \<open>Percentiles\<close>

lemma percentile_index:
  assumes "cell [] l m \<noteq> []" and "0 \<le> p"
  shows "percentile p l m =
    Inr (sort (cell [] l m) ! min (nat \<lfloor>of_nat (length (cell [] l m)) * p\<rfloor>) (length (cell [] l m) - 1))"
proof -
  let ?n = "length (cell [] l m)"
  have n: "0 < ?n" using assms(1) by simp
  have ne: "sort (cell [] l m) \<noteq> []" using assms(1) by (metis length_0_conv length_sort)
  have nn: "0 \<le> of_nat ?n * p" using assms(2) by simp
  then have t: "trunc (of_nat ?n * p) = \<lfloor>of_nat ?n * p\<rfloor>" "0 \<le> \<lfloor>of_nat ?n * p\<rfloor>" by (simp_all add: trunc_def)
  show ?thesis
  proof (cases "int ?n \<le> \<lfloor>of_nat ?n * p\<rfloor>")
    case True
    then have "min (nat \<lfloor>of_nat ?n * p\<rfloor>) (?n - 1) = ?n - 1" by linarith
    moreover have "nat (int ?n - 1) = ?n - 1" using n by linarith
    ultimately show ?thesis
      using True n ne t assms(1) by (simp add: percentile_def Let_def py_index_def)
  next
    case False
    then have "min (nat \<lfloor>of_nat ?n * p\<rfloor>) (?n - 1) = nat \<lfloor>of_nat ?n * p\<rfloor>" using t(2) by linarith
    then show ?thesis using False n ne t assms(1) by (simp add: percentile_def Let_def py_index_def)
  qed
qed

section \<open>Properties\<close>

text \<open>A new counter reads, for every label set, the sum of the amounts added under that
  label set, whatever was added under others in between, and label sets that differ only in
  the order of their entries are one.\<close>

theorem counter_total:
  "counter_get l (fold (\<lambda>(x, l'). counter_inc x l') ups (new_metric n ds ls)) =
     sum_list (map fst (filter (\<lambda>(x, l'). make_key l' = make_key l) ups))"
  using counter.get_run [of l ups "new_metric n ds ls"] by (simp add: fold_plus counter_get_def)

text \<open>Label sets with the same entries in another order are the same key.\<close>

theorem label_order_irrelevant:
  assumes "set d = set d'" and "distinct (keys d)" and "distinct (keys d')"
  shows "counter_get (Some d) m = counter_get (Some d') m \<and> counter_inc a (Some d) m = counter_inc a (Some d') m"
  using make_key_unordered [OF assms] by (simp add: counter_get_def counter_inc_def put_cell_def cell_def)

lemma label_order_irrelevant_witness:
  "counter_get (Some [(''b'', PInt 1), (''a'', PInt 2)])
     (counter_inc 4 (Some [(''a'', PInt 2), (''b'', PInt 1)]) (new_metric ''n'' [] None)) = 4"
proof -
  have "counter_get (Some [(''b'', PInt 1), (''a'', PInt 2)]) m = counter_get (Some [(''a'', PInt 2), (''b'', PInt 1)]) m" for m
    using label_order_irrelevant [of "[(''b'', PInt 1), (''a'', PInt 2)]" "[(''a'', PInt 2), (''b'', PInt 1)]"] by auto
  note flip = this
  show ?thesis by (rule trans [OF flip], subst counter.get_upd) (simp add: counter_get_def)
qed

text \<open>The summary of a histogram's label set counts its observations, and its average lies
  between its least and greatest observation.\<close>

theorem summary_consistent:
  assumes "map fst (filter (\<lambda>(x, l'). make_key l' = make_key l) ups) \<noteq> []"
    and "s = summary_of l (fold (\<lambda>(x, l'). observe x l') ups (new_metric n ds ls))"
  shows "s_count s = length (filter (\<lambda>(x, l'). make_key l' = make_key l) ups)
    \<and> s_avg s * of_nat (s_count s) = s_sum s \<and> s_min s \<le> s_avg s \<and> s_avg s \<le> s_max s"
proof -
  define vs where "vs = map fst (filter (\<lambda>(x, l'). make_key l' = make_key l) ups)"
  have c: "cell [] l (fold (\<lambda>(x, l'). observe x l') ups (new_metric n ds ls)) = vs"
    using histogram.get_run [of l ups "new_metric n ds ls"] by (simp add: fold_snoc vs_def)
  have ne: "vs \<noteq> []" using assms(1) by (simp add: vs_def)
  then have pos: "(0::rat) < of_nat (length vs)" by simp
  have lo: "of_nat (length xs) * Min (set vs) \<le> sum_list xs" if "set xs \<subseteq> set vs" for xs
    using that by (induction xs) (auto simp: algebra_simps intro!: add_mono)
  have hi: "sum_list xs \<le> of_nat (length xs) * Max (set vs)" if "set xs \<subseteq> set vs" for xs
    using that by (induction xs) (auto simp: algebra_simps intro!: add_mono)
  have "s_min s \<le> s_avg s" "s_avg s \<le> s_max s"
    using lo [of vs] hi [of vs] pos ne by (simp_all add: assms(2) summary_of_def c Let_def field_simps)
  with pos ne show ?thesis by (simp add: assms(2) summary_of_def c Let_def) (simp add: vs_def)
qed

lemma summary_consistent_witness:
  "s_avg (summary_of None (fold (\<lambda>(x, l'). observe x l') [(1, None), (3, None)] (new_metric ''h'' [] None))) * 2 = 4"
  using summary_consistent [of None "[(1, None), (3, None)]", OF _ refl]
  by (simp add: summary_of_def observe_def cell_put)

text \<open>A percentile between 0 and 1 is an observed value, and a higher percentile is not
  smaller.\<close>

theorem percentile_monotone:
  assumes "cell [] l m \<noteq> []" and "0 \<le> p" and "p \<le> q"
  shows "\<exists>v w. percentile p l m = Inr v \<and> percentile q l m = Inr w \<and> v \<in> set (cell [] l m) \<and> v \<le> w"
proof -
  let ?vs = "cell [] l m"
  let ?i = "\<lambda>p. min (nat \<lfloor>of_nat (length ?vs) * p\<rfloor>) (length ?vs - 1)"
  have n: "0 < length ?vs" using assms(1) by simp
  have "of_nat (length ?vs) * p \<le> of_nat (length ?vs) * q" using assms(3) by (simp add: mult_left_mono)
  then have "?i p \<le> ?i q" by (meson floor_mono min.mono nat_mono order_refl)
  moreover have "?i q < length (sort ?vs)" using n unfolding length_sort by linarith
  ultimately have "sort ?vs ! ?i p \<le> sort ?vs ! ?i q"
    using sorted_nth_mono [OF sorted_sort, of "?i p" "?i q" ?vs] by simp
  moreover have "sort ?vs ! ?i p \<in> set (sort ?vs)" using n by (intro nth_mem) (unfold length_sort, linarith)
  ultimately show ?thesis
    using percentile_index [OF assms(1,2)] percentile_index [OF assms(1), of q] assms(2,3) by simp
qed

lemma percentile_monotone_witness:
  "\<exists>v w. percentile (1/2) None (observe 5 None (observe 7 None (new_metric ''h'' [] None))) = Inr v
     \<and> percentile (19/20) None (observe 5 None (observe 7 None (new_metric ''h'' [] None))) = Inr w \<and> v \<le> w"
proof -
  have "cell [] None (observe 5 None (observe 7 None (new_metric ''h'' [] None))) \<noteq> []" by (simp add: observe_def cell_put)
  from percentile_monotone [OF this, of "1/2" "19/20"] show ?thesis by auto
qed

text \<open>Resetting the registry with a gauge in it raises \<open>AttributeError\<close>: the metrics
  registered before the gauge are reset, the gauge and those after it keep their values.\<close>

theorem reset_all_stops_at_gauge:
  assumes "the_instance R = Some (ms @ (name, g) # ns)" and "heap R ! g = Gauge m"
    and "\<forall>i \<in> set (map snd ms). \<forall>m'. heap R ! i \<noteq> Gauge m'" and "g \<notin> set (map snd ms)"
  shows "\<exists>msg R'. reset_all R = (Inl (Exn ''AttributeError'' msg), R') \<and> the_instance R' = the_instance R
           \<and> (\<forall>i. i \<in> set (map snd ms) \<or> heap R' ! i = heap R ! i)"
proof -
  have step: "g \<notin> set is \<Longrightarrow> \<forall>i \<in> set is. \<forall>m'. h ! i \<noteq> Gauge m' \<Longrightarrow> h ! g = Gauge m \<Longrightarrow>
      \<exists>msg h'. reset_objects (is @ g # js) h = (Inl (Exn ''AttributeError'' msg), h') \<and> (\<forall>i. i \<in> set is \<or> h' ! i = h ! i)"
    for "is" js and h :: "any_metric list"
  proof (induction "is" arbitrary: h)
    case (Cons i "is")
    obtain x where x: "reset_metric (h ! i) = Inr x" "\<And>m'. x \<noteq> Gauge m'"
      using Cons.prems(2) by (cases "h ! i") auto
    have "\<forall>j \<in> set is. \<forall>m'. h[i := x] ! j \<noteq> Gauge m'"
    proof (intro ballI allI)
      fix j m' assume "j \<in> set is"
      then have "h ! j \<noteq> Gauge m'" using Cons.prems(2) by simp
      with x(2) show "h[i := x] ! j \<noteq> Gauge m'"
        by (cases "i < length h") (simp_all add: nth_list_update list_update_beyond)
    qed
    moreover have "h[i := x] ! g = Gauge m" using Cons.prems by simp
    ultimately obtain msg h' where
      "reset_objects (is @ g # js) (h[i := x]) = (Inl (Exn ''AttributeError'' msg), h')"
      "\<forall>k. k \<in> set is \<or> h' ! k = h[i := x] ! k"
      using Cons.IH [of "h[i := x]"] Cons.prems(1) by auto
    moreover have "k = i \<or> h[i := x] ! k = h ! k" for k by (metis nth_list_update_neq)
    ultimately show ?case using x(1) by (simp) (metis)
  qed simp
  from step [of "map snd ms" "heap R" "map snd ns"] assms show ?thesis
    by (auto simp: reset_all_def get_instance_def simp del: set_map)
qed

definition demo_registry :: reg_state where
  "demo_registry = \<lparr> heap = [errors_total, retries_attempted, Gauge (new_metric ''depth'' [] None)],
     the_instance = Some [(''errors_total'', 0), (''retries_attempted'', 1), (''depth'', 2)] \<rparr>"

lemma reset_all_stops_at_gauge_witness:
  "register 2 \<lparr> heap = heap demo_registry, the_instance = None \<rparr> = demo_registry
   \<and> (\<exists>msg R'. reset_all demo_registry = (Inl (Exn ''AttributeError'' msg), R'))"
proof -
  have r: "register 2 \<lparr> heap = heap demo_registry, the_instance = None \<rparr> = demo_registry"
    by (simp add: register_def get_instance_def demo_registry_def init_registry_def new_metric_def)
  have a: "the_instance demo_registry = Some ([(''errors_total'', 0), (''retries_attempted'', 1)] @ (''depth'', 2) # [])"
    by (simp add: demo_registry_def)
  have b: "heap demo_registry ! 2 = Gauge (new_metric ''depth'' [] None)" by (simp add: demo_registry_def)
  have c: "\<forall>i \<in> set (map snd [(''errors_total'', 0), (''retries_attempted'', 1)]). \<forall>m'. heap demo_registry ! i \<noteq> Gauge m'"
    by (simp add: demo_registry_def errors_total_def retries_attempted_def)
  from reset_all_stops_at_gauge [OF a b c] r show ?thesis by auto
qed

text \<open>The exporter writes label values as they are: a value with a quotation mark makes two
  different label sets print as the same line, so a sample can be read as another's.\<close>

theorem exporter_ambiguous:
  assumes "\<And>s. str (PStr s) = s"
  shows "label_part str [(''a'', PStr (''x'' @ [CHR 0x22] @ '',b='' @ [CHR 0x22] @ ''y''))]
       = label_part str [(''a'', PStr ''x''), (''b'', PStr ''y'')]"
  using assms by (simp add: label_part_def label_str_def)

lemma exporter_ambiguous_witness:
  "label_part (\<lambda>v. case v of PStr s \<Rightarrow> s | _ \<Rightarrow> []) [(''a'', PStr (''x'' @ [CHR 0x22] @ '',b='' @ [CHR 0x22] @ ''y''))]
   = label_part (\<lambda>v. case v of PStr s \<Rightarrow> s | _ \<Rightarrow> []) [(''a'', PStr ''x''), (''b'', PStr ''y'')]"
  by (rule exporter_ambiguous) simp

text \<open>A timer that is used a second time still holds the end of the first use: reading it
  inside the second block gives a negative duration.\<close>

theorem timer_reuse_negative:
  assumes "t0 \<le> t1" and "t1 < t2" and "t2 \<le> t3"
  shows "elapsed t3 (timer_enter t2 (timer_exit t1 (timer_enter t0 new_timer))) < 0
    \<and> elapsed t3 (timer_exit t1 (timer_enter t0 new_timer)) = t1 - t0"
  using assms by (simp add: elapsed_def timer_enter_def timer_exit_def)

lemma timer_reuse_negative_witness:
  "elapsed 9 (timer_enter 7 (timer_exit 4 (timer_enter 1 new_timer))) < 0"
  using timer_reuse_negative [of 1 4 7 9] by simp

text \<open>A model whose name is in the table costs its own prices; the dated name
  \<open>gpt-3.5-turbo-16k-0613\<close>, which is not, is found under \<open>gpt-3.5-turbo\<close> first and costs the
  base model's prices, less than the 16k model's for every number of tokens.\<close>

theorem dated_16k_underpriced:
  assumes "0 < prompt_tokens" and "0 \<le> completion_tokens"
  shows "estimate_llm_cost LLM_PRICING ''gpt-3.5-turbo-16k-0613'' prompt_tokens completion_tokens
           = estimate_llm_cost LLM_PRICING ''gpt-3.5-turbo'' prompt_tokens completion_tokens
       \<and> estimate_llm_cost LLM_PRICING ''gpt-3.5-turbo-16k-0613'' prompt_tokens completion_tokens
           < estimate_llm_cost LLM_PRICING ''gpt-3.5-turbo-16k'' prompt_tokens completion_tokens"
proof -
  have "find_pricing LLM_PRICING ''gpt-3.5-turbo-16k-0613'' = (50/100, 150/100)"
    "find_pricing LLM_PRICING ''gpt-3.5-turbo'' = (50/100, 150/100)"
    "find_pricing LLM_PRICING ''gpt-3.5-turbo-16k'' = (3, 4)"
    by (simp_all add: find_pricing_def LLM_PRICING_def str_startswith_def)
  with assms show ?thesis by (simp add: estimate_llm_cost_def field_simps)
qed

lemma dated_16k_underpriced_witness:
  "estimate_llm_cost LLM_PRICING ''gpt-3.5-turbo-16k-0613'' 1000 500 < estimate_llm_cost LLM_PRICING ''gpt-3.5-turbo-16k'' 1000 500"
  using dated_16k_underpriced [of 1000 500] by simp

end
