(* ===== verification/Execution.thy ===== *)
theory Execution
  imports Metrics
begin

text \<open>
  \<open>app/api/stages/execution.py\<close> with the tracker of \<open>app/api/stages/metrics.py\<close>: the table of
  pipelines in memory, the background runner and the calls that read it or cancel. A runner and
  the callers interleave at the lock: what the source does inside one \<open>with _pipeline_lock\<close> is
  one step, and so are the creation of the pipeline object and the run of a stage, whose results
  are choices of the environment. The append of a stage that succeeded is in the step of that
  stage: it is done without the lock, before the progress is written, on a list that the entry
  shares from its first update on. Not here: the writes to MongoDB, the Grafana annotations and
  the historical metrics, which never change the table and never fail the runner.
\<close>

section \<open>Tracker\<close>

record tracker =
  active_pipelines :: "rat metric"
  pipeline_executions :: "rat metric"
  pipeline_duration :: "rat list metric"
  stage_executions :: "rat metric"
  stage_duration :: "rat list metric"
  stages_errors :: "rat metric"

definition new_tracker :: tracker where
  "new_tracker =
     \<lparr> active_pipelines = new_metric ''stages_api_active_pipelines'' ''Number of currently active pipelines'' None,
       pipeline_executions = new_metric ''stages_api_pipeline_executions'' ''Total pipeline executions''
         (Some [''pipeline'', ''status'']),
       pipeline_duration = new_metric ''stages_api_pipeline_duration_seconds'' ''Pipeline execution duration in seconds''
         (Some [''pipeline'']),
       stage_executions = new_metric ''stages_api_stage_executions'' ''Total stage executions''
         (Some [''stage'', ''status'']),
       stage_duration = new_metric ''stages_api_stage_duration_seconds'' ''Stage execution duration in seconds''
         (Some [''stage'']),
       stages_errors = new_metric ''stages_api_errors_total'' ''Total errors by type'' (Some [''error_type'', ''stage'']) \<rparr>"

definition labels2 :: "string \<Rightarrow> string \<Rightarrow> string \<Rightarrow> string \<Rightarrow> labels option" where
  "labels2 a x b y = Some [(a, PStr x), (b, PStr y)]"

definition pipeline_started :: "string \<Rightarrow> tracker \<Rightarrow> tracker" where
  "pipeline_started p T =
     T\<lparr>active_pipelines := gauge_inc 1 None (active_pipelines T),
       pipeline_executions := counter_inc 1 (labels2 ''pipeline'' p ''status'' ''started'') (pipeline_executions T)\<rparr>"

definition pipeline_completed :: "string \<Rightarrow> rat \<Rightarrow> tracker \<Rightarrow> tracker" where
  "pipeline_completed p d T =
     T\<lparr>active_pipelines := gauge_dec 1 None (active_pipelines T),
       pipeline_executions := counter_inc 1 (labels2 ''pipeline'' p ''status'' ''completed'') (pipeline_executions T),
       pipeline_duration := observe d (Some [(''pipeline'', PStr p)]) (pipeline_duration T)\<rparr>"

definition pipeline_failed :: "string \<Rightarrow> string \<Rightarrow> tracker \<Rightarrow> tracker" where
  "pipeline_failed p error_type T =
     T\<lparr>active_pipelines := gauge_dec 1 None (active_pipelines T),
       pipeline_executions := counter_inc 1 (labels2 ''pipeline'' p ''status'' ''failed'') (pipeline_executions T),
       stages_errors := counter_inc 1 (labels2 ''error_type'' error_type ''stage'' ''_pipeline'') (stages_errors T)\<rparr>"

definition stage_completed :: "string \<Rightarrow> rat \<Rightarrow> tracker \<Rightarrow> tracker" where
  "stage_completed st d T =
     T\<lparr>stage_executions := counter_inc 1 (labels2 ''stage'' st ''status'' ''completed'') (stage_executions T),
       stage_duration := observe d (Some [(''stage'', PStr st)]) (stage_duration T)\<rparr>"

definition stage_failed :: "string \<Rightarrow> string \<Rightarrow> tracker \<Rightarrow> tracker" where
  "stage_failed st error_type T =
     T\<lparr>stage_executions := counter_inc 1 (labels2 ''stage'' st ''status'' ''failed'') (stage_executions T),
       stages_errors := counter_inc 1 (labels2 ''error_type'' error_type ''stage'' st) (stages_errors T)\<rparr>"

section \<open>Pipeline state\<close>

text \<open>
  One entry of \<open>_active_pipelines\<close>; \<open>completed_at\<close> is \<open>completed_timestamp\<close> with
  \<open>duration_seconds\<close>. \<open>thread\<close> is where the pipeline's runner stands, with its local list of
  completed stages; \<open>Update\<close> is after the append, \<open>Killed\<close> after a \<open>SystemExit\<close>, which no handler
  of the runner catches.
\<close>

record pstate =
  pipeline :: string
  status :: string
  started_timestamp :: rat
  stages :: "string list"
  current_stage :: "string option"
  current_stage_index :: nat
  completed_stages :: "string list"
  total_stages :: nat
  progress_completed :: nat
  percent :: rat
  error :: "string option"
  error_stage :: "string option"
  exit_code :: "int option"
  completed_timestamp :: "rat option"
  duration_seconds :: "rat option"

datatype pc =
    Start
  | Create
  | Check nat "string list"
  | Announce nat "string list"
  | Stage nat "string list"
  | Update nat "string list"
  | Finished
  | Killed

record run =
  rstate :: pstate
  thread :: pc

record sys =
  active :: "(string \<times> run) list"
  tracking :: tracker

definition init_sys :: sys where
  "init_sys = \<lparr> active = [], tracking = new_tracker \<rparr>"

definition lookup :: "string \<Rightarrow> sys \<Rightarrow> run option" where
  "lookup pid S = map_of (active S) pid"

definition upd_state :: "string \<Rightarrow> (pstate \<Rightarrow> pstate) \<Rightarrow> sys \<Rightarrow> sys" where
  "upd_state pid f S = S\<lparr>active := AList.map_entry pid (\<lambda>r. r\<lparr>rstate := f (rstate r)\<rparr>) (active S)\<rparr>"

definition goto :: "string \<Rightarrow> pc \<Rightarrow> sys \<Rightarrow> sys" where
  "goto pid l S = S\<lparr>active := AList.map_entry pid (\<lambda>r. r\<lparr>thread := l\<rparr>) (active S)\<rparr>"

section \<open>Starting a pipeline\<close>

text \<open>
  \<open>execute_pipeline\<close> once the configuration is valid and the filter is resolved:
  \<open>execution_stages\<close> are the stages of the validated execution plan.
\<close>

definition initial_state :: "string \<Rightarrow> string list \<Rightarrow> rat \<Rightarrow> pstate" where
  "initial_state p execution_stages now =
     \<lparr> pipeline = p, status = ''starting'', started_timestamp = now, stages = execution_stages,
       current_stage = None, current_stage_index = 0, completed_stages = [],
       total_stages = length execution_stages, progress_completed = 0, percent = 0,
       error = None, error_stage = None, exit_code = None,
       completed_timestamp = None, duration_seconds = None \<rparr>"

definition execute_pipeline :: "string \<Rightarrow> string \<Rightarrow> string list \<Rightarrow> rat \<Rightarrow> sys \<Rightarrow> sys" where
  "execute_pipeline pid p execution_stages now S =
     S\<lparr>active := AList.update pid \<lparr> rstate = initial_state p execution_stages now, thread = Start \<rparr> (active S),
       tracking := pipeline_started p (tracking S)\<rparr>"

section \<open>State updates\<close>

definition update_pipeline_status :: "string \<Rightarrow> string \<Rightarrow> sys \<Rightarrow> sys" where
  "update_pipeline_status pid st = upd_state pid (\<lambda>s. s\<lparr>status := st\<rparr>)"

text \<open>Each argument of the source that may be absent is an option.\<close>

definition progress_of ::
  "string option \<Rightarrow> nat option \<Rightarrow> string list option \<Rightarrow> rat option \<Rightarrow> pstate \<Rightarrow> pstate" where
  "progress_of stage idx cstages pct s =
     (let s = (case stage of None \<Rightarrow> s | Some st \<Rightarrow> s\<lparr>current_stage := Some st\<rparr>);
          s = (case idx of None \<Rightarrow> s
               | Some i \<Rightarrow> (let s = s\<lparr>current_stage_index := i\<rparr>
                            in if total_stages s > 0
                               then s\<lparr>percent := of_nat i / of_nat (total_stages s) * 100\<rparr> else s));
          s = (case cstages of None \<Rightarrow> s
               | Some cs \<Rightarrow> s\<lparr>completed_stages := cs, progress_completed := length cs\<rparr>)
      in case pct of None \<Rightarrow> s | Some x \<Rightarrow> s\<lparr>percent := x\<rparr>)"

definition update_pipeline_progress ::
  "string \<Rightarrow> string option \<Rightarrow> nat option \<Rightarrow> string list option \<Rightarrow> rat option \<Rightarrow> sys \<Rightarrow> sys" where
  "update_pipeline_progress pid stage idx cstages pct = upd_state pid (progress_of stage idx cstages pct)"

definition completion_of :: "int \<Rightarrow> string list \<Rightarrow> rat \<Rightarrow> pstate \<Rightarrow> pstate" where
  "completion_of code sts now s =
     s\<lparr>status := (if code = 0 then ''completed'' else ''failed''),
       exit_code := Some code,
       completed_timestamp := Some now,
       duration_seconds := Some (now - started_timestamp s),
       completed_stages := (if code = 0 then sts else completed_stages s),
       progress_completed := (if code = 0 then length sts else progress_completed s),
       percent := (if code = 0 then 100 else percent s)\<rparr>"

definition update_pipeline_completion :: "string \<Rightarrow> int \<Rightarrow> string list \<Rightarrow> rat \<Rightarrow> sys \<Rightarrow> sys" where
  "update_pipeline_completion pid code sts now S =
     (case lookup pid S of
        None \<Rightarrow> S
      | Some r \<Rightarrow>
          (let s = completion_of code sts now (rstate r);
               T = (if code = 0
                    then fold (\<lambda>st. stage_completed st 0) (completed_stages s)
                           (pipeline_completed (pipeline s) (now - started_timestamp s) (tracking S))
                    else pipeline_failed (pipeline s) ''exit_code_nonzero'' (tracking S))
           in (upd_state pid (completion_of code sts now) S)\<lparr>tracking := T\<rparr>))"

definition error_of :: "string \<Rightarrow> string option \<Rightarrow> rat \<Rightarrow> pstate \<Rightarrow> pstate" where
  "error_of e stage now s =
     s\<lparr>status := ''error'', error := Some e, error_stage := stage,
       completed_timestamp := Some now,
       duration_seconds := Some (now - started_timestamp s)\<rparr>"

text \<open>The error is a string, so \<open>type(error).__name__\<close> is always \<open>str\<close>.\<close>

definition update_pipeline_error :: "string \<Rightarrow> string \<Rightarrow> string option \<Rightarrow> rat \<Rightarrow> sys \<Rightarrow> sys" where
  "update_pipeline_error pid e stage now S =
     (case lookup pid S of
        None \<Rightarrow> S
      | Some r \<Rightarrow>
          (let T = pipeline_failed (pipeline (rstate r)) ''str'' (tracking S);
               T = (case stage of Some st \<Rightarrow> if st = [] then T else stage_failed st ''str'' T | None \<Rightarrow> T)
           in (upd_state pid (error_of e stage now) S)\<lparr>tracking := T\<rparr>))"

section \<open>Cancelling\<close>

datatype cancel_reply = Cancelled | Not_Found | Not_Running string | Only_History string

text \<open>\<open>db_status\<close> is the status \<open>_load_from_db\<close> finds for a pipeline that is not in memory.\<close>

definition cancel_of :: "rat \<Rightarrow> pstate \<Rightarrow> pstate" where
  "cancel_of now s =
     s\<lparr>status := ''cancelled'', completed_timestamp := Some now,
       duration_seconds := Some (now - started_timestamp s)\<rparr>"

definition cancel_pipeline :: "(string \<Rightarrow> string option) \<Rightarrow> string \<Rightarrow> rat \<Rightarrow> sys \<Rightarrow> cancel_reply \<times> sys" where
  "cancel_pipeline db_status pid now S =
     (case lookup pid S of
        None \<Rightarrow>
          ((case db_status pid of
              None \<Rightarrow> Not_Found
            | Some st \<Rightarrow> if st \<notin> {''starting'', ''running''} then Not_Running st else Only_History st), S)
      | Some r \<Rightarrow>
          if status (rstate r) \<notin> {''starting'', ''running''} then (Not_Running (status (rstate r)), S)
          else (Cancelled, upd_state pid (cancel_of now) S))"

section \<open>Reading\<close>

definition list_active_pipelines :: "sys \<Rightarrow> (string \<times> pstate) list" where
  "list_active_pipelines S =
     filter (\<lambda>(_, s). status s \<in> {''starting'', ''running''}) (map (\<lambda>(k, r). (k, rstate r)) (active S))"

text \<open>\<open>get_pipeline_status\<close> for a pipeline in memory: its state and \<open>elapsed_seconds\<close>.\<close>

definition get_pipeline_status :: "string \<Rightarrow> rat \<Rightarrow> sys \<Rightarrow> (pstate \<times> int) option" where
  "get_pipeline_status pid now S =
     map_option (\<lambda>r. let s = rstate r in
         (s, trunc (if status s \<in> {''completed'', ''failed'', ''error'', ''cancelled'', ''interrupted''}
                    then (case duration_seconds s of Some d \<Rightarrow> d | None \<Rightarrow> 0)
                    else now - started_timestamp s)))
       (lookup pid S)"

text \<open>The history from memory: most recent first, ties in the order of the table.\<close>

definition get_pipeline_history :: "nat \<Rightarrow> sys \<Rightarrow> nat \<times> (string \<times> pstate) list" where
  "get_pipeline_history limit S =
     (let all = map (\<lambda>(k, r). (k, rstate r)) (active S)
      in (length all, take limit (sort_key (\<lambda>(_, s). - started_timestamp s) all)))"

section \<open>The runner\<close>

datatype outcome = Exit int | Raised string | Quit

text \<open>
  \<open>completed_stages.append\<close>. The first update of the progress stores the list itself in the entry,
  so from the second stage on the append is seen there at once.
\<close>

definition append_completed :: "string \<Rightarrow> nat \<Rightarrow> string list \<Rightarrow> sys \<Rightarrow> sys" where
  "append_completed pid i cs S = (if 0 < i then upd_state pid (\<lambda>s. s\<lparr>completed_stages := cs\<rparr>) S else S)"

text \<open>
  One step of \<open>_run_pipeline_background\<close>. \<open>made\<close> says whether \<open>_create_pipeline_object\<close> gives an
  object, \<open>out\<close> what \<open>run_stage\<close> does; \<open>Quit\<close> is a \<open>SystemExit\<close> of either, which ends the thread
  and leaves the entry as it is.
\<close>

definition runner_step :: "string \<Rightarrow> rat \<Rightarrow> bool \<Rightarrow> outcome \<Rightarrow> sys \<Rightarrow> sys" where
  "runner_step pid now made out S =
     (case lookup pid S of
        None \<Rightarrow> S
      | Some r \<Rightarrow>
          (let sts = stages (rstate r) in
           case thread r of
             Start \<Rightarrow> goto pid Create (update_pipeline_status pid ''running'' S)
           | Create \<Rightarrow>
               if out = Quit then goto pid Killed S
               else if made then goto pid (Check 0 []) S
               else goto pid Finished (update_pipeline_error pid ''Failed to create pipeline object'' None now S)
           | Check i cs \<Rightarrow>
               if i \<ge> length sts then goto pid Finished (update_pipeline_completion pid 0 sts now S)
               else if status (rstate r) = ''cancelled'' then goto pid Finished S
               else goto pid (Announce i cs) S
           | Announce i cs \<Rightarrow>
               goto pid (Stage i cs) (update_pipeline_progress pid (Some (sts ! i)) (Some i) None None S)
           | Stage i cs \<Rightarrow>
               (case out of
                  Exit code \<Rightarrow>
                    if code \<noteq> 0
                    then goto pid Finished (update_pipeline_error pid (''Stage '' @ sts ! i @ '' failed'') (Some (sts ! i)) now S)
                    else goto pid (Update i (cs @ [sts ! i])) (append_completed pid i (cs @ [sts ! i]) S)
                | Raised e \<Rightarrow> goto pid Finished (update_pipeline_error pid e (Some (sts ! i)) now S)
                | Quit \<Rightarrow> goto pid Killed S)
           | Update i cs \<Rightarrow>
               goto pid (Check (i + 1) cs)
                 (update_pipeline_progress pid None None (Some cs) (Some (of_nat (i + 1) / of_nat (length sts) * 100)) S)
           | Finished \<Rightarrow> S
           | Killed \<Rightarrow> S))"

section \<open>Interleavings\<close>

datatype event =
    Execute string string "string list" rat
  | Cancel string rat
  | Step string rat bool outcome

fun happens :: "event \<Rightarrow> sys \<Rightarrow> sys" where
  "happens (Execute pid p sts now) S = execute_pipeline pid p sts now S"
| "happens (Cancel pid now) S = snd (cancel_pipeline (\<lambda>_. None) pid now S)"
| "happens (Step pid now made out) S = runner_step pid now made out S"

text \<open>A pipeline's identifier (a time and a random part) is new.\<close>

fun fresh :: "event \<Rightarrow> sys \<Rightarrow> bool" where
  "fresh (Execute pid _ _ _) S = (lookup pid S = None)"
| "fresh _ S = True"

inductive reach :: "sys \<Rightarrow> bool" where
  start: "reach init_sys"
| more: "reach S \<Longrightarrow> fresh e S \<Longrightarrow> reach (happens e S)"

definition happen_all :: "event list \<Rightarrow> sys \<Rightarrow> sys" where
  "happen_all es S = fold happens es S"

end
