(* ===== verification/Execution_Facts.thy ===== *)
theory Execution_Facts
  imports Execution Metrics_Facts "HOL-Library.Sublist"
begin

text \<open>
  What holds of the pipeline table under every interleaving of starts, cancellations and
  runner steps: each entry is consistent and its runner ends; a cancellation stops the runner
  at its next check, is overwritten when it comes before the first step or during the last
  stage, and is never counted by the gauge of active pipelines.
\<close>

section \<open>One run at a time\<close>

definition map_state :: "(pstate \<Rightarrow> pstate) \<Rightarrow> run \<Rightarrow> run" where
  "map_state f r = r\<lparr>rstate := f (rstate r)\<rparr>"

lemma lookup_upd_state [simp]:
  "lookup q (upd_state p f S) = (if q = p then map_option (map_state f) (lookup p S) else lookup q S)"
  by (simp add: lookup_def upd_state_def map_of_map_entry map_state_def split: option.split)

lemma lookup_goto [simp]:
  "lookup q (goto p l S) = (if q = p then map_option (\<lambda>r. r\<lparr>thread := l\<rparr>) (lookup p S) else lookup q S)"
  by (simp add: lookup_def goto_def map_of_map_entry split: option.split)

lemma lookup_tracking [simp]: "lookup q (S\<lparr>tracking := T\<rparr>) = lookup q S"
  by (simp add: lookup_def)

lemma lookup_completion [simp]:
  "lookup q (update_pipeline_completion p c sts now S) =
     (if q = p then map_option (map_state (completion_of c sts now)) (lookup p S) else lookup q S)"
  by (simp add: update_pipeline_completion_def Let_def split: option.split)

lemma lookup_error [simp]:
  "lookup q (update_pipeline_error p e stage now S) =
     (if q = p then map_option (map_state (error_of e stage now)) (lookup p S) else lookup q S)"
  by (simp add: update_pipeline_error_def Let_def split: option.split)

text \<open>The runner's step on its own entry.\<close>

definition step_run :: "rat \<Rightarrow> bool \<Rightarrow> outcome \<Rightarrow> run \<Rightarrow> run" where
  "step_run now made out r =
     (let s = rstate r; sts = stages s in
      case thread r of
        Start \<Rightarrow> \<lparr> rstate = s\<lparr>status := ''running''\<rparr>, thread = Create \<rparr>
      | Create \<Rightarrow>
          if out = Quit then r\<lparr>thread := Killed\<rparr>
          else if made then r\<lparr>thread := Check 0 []\<rparr>
          else \<lparr> rstate = error_of ''Failed to create pipeline object'' None now s, thread = Finished \<rparr>
      | Check i cs \<Rightarrow>
          if i \<ge> length sts then \<lparr> rstate = completion_of 0 sts now s, thread = Finished \<rparr>
          else if status s = ''cancelled'' then r\<lparr>thread := Finished\<rparr> else r\<lparr>thread := Announce i cs\<rparr>
      | Announce i cs \<Rightarrow> \<lparr> rstate = progress_of (Some (sts ! i)) (Some i) None None s, thread = Stage i cs \<rparr>
      | Stage i cs \<Rightarrow>
          (case out of
             Exit code \<Rightarrow>
               if code \<noteq> 0
               then \<lparr> rstate = error_of (''Stage '' @ sts ! i @ '' failed'') (Some (sts ! i)) now s, thread = Finished \<rparr>
               else \<lparr> rstate = (if 0 < i then s\<lparr>completed_stages := cs @ [sts ! i]\<rparr> else s),
                      thread = Update i (cs @ [sts ! i]) \<rparr>
           | Raised e \<Rightarrow> \<lparr> rstate = error_of e (Some (sts ! i)) now s, thread = Finished \<rparr>
           | Quit \<Rightarrow> r\<lparr>thread := Killed\<rparr>)
      | Update i cs \<Rightarrow>
          \<lparr> rstate = progress_of None None (Some cs) (Some (of_nat (i + 1) / of_nat (length sts) * 100)) s,
            thread = Check (i + 1) cs \<rparr>
      | Finished \<Rightarrow> r
      | Killed \<Rightarrow> r)"

lemma lookup_step:
  "lookup q (runner_step p now made out S) =
     (if q = p then map_option (step_run now made out) (lookup p S) else lookup q S)"
  by (cases "lookup p S"; cases "thread (the (lookup p S))"; cases out)
    (simp_all add: runner_step_def step_run_def Let_def update_pipeline_status_def update_pipeline_progress_def
      append_completed_def map_state_def)

lemma lookup_execute:
  "lookup q (execute_pipeline p pl sts now S) =
     (if q = p then Some \<lparr> rstate = initial_state pl sts now, thread = Start \<rparr> else lookup q S)"
  by (simp add: lookup_def execute_pipeline_def update_conv')

lemma lookup_cancel:
  "lookup q (snd (cancel_pipeline db p now S)) =
     (if q = p then map_option (\<lambda>r. if status (rstate r) \<in> {''starting'', ''running''} then map_state (cancel_of now) r else r)
        (lookup p S) else lookup q S)"
  by (cases "lookup p S") (auto simp: cancel_pipeline_def)


text \<open>What an event does to the entry of \<open>q\<close>.\<close>

fun run_event :: "string \<Rightarrow> event \<Rightarrow> run option \<Rightarrow> run option" where
  "run_event q (Execute p pl sts now) r =
     (if q = p then Some \<lparr> rstate = initial_state pl sts now, thread = Start \<rparr> else r)"
| "run_event q (Cancel p now) r =
     (if q = p
      then map_option (\<lambda>r. if status (rstate r) \<in> {''starting'', ''running''} then map_state (cancel_of now) r else r) r
      else r)"
| "run_event q (Step p now made out) r = (if q = p then map_option (step_run now made out) r else r)"

lemma lookup_happens: "lookup q (happens e S) = run_event q e (lookup q S)"
  by (cases e) (simp_all only: happens.simps run_event.simps lookup_execute lookup_cancel lookup_step split: if_split, auto)

text \<open>An event that does not start \<open>pid\<close>.\<close>

fun other :: "string \<Rightarrow> event \<Rightarrow> bool" where
  "other pid (Execute p _ _ _) = (p \<noteq> pid)"
| "other pid _ = True"

lemma fresh_other: "fresh e S \<Longrightarrow> lookup pid S = Some r \<Longrightarrow> other pid e"
  by (cases e) auto

fun all_fresh :: "event list \<Rightarrow> sys \<Rightarrow> bool" where
  "all_fresh [] S = True"
| "all_fresh (e # es) S = (fresh e S \<and> all_fresh es (happens e S))"

lemma happen_all_simps [simp]:
  "happen_all [] S = S" "happen_all (e # es) S = happen_all es (happens e S)"
  by (simp_all add: happen_all_def)

text \<open>What no event on a present entry can break, no sequence of events can break.\<close>

lemma entry_invariant:
  assumes "lookup pid S = Some r" and "P r" and "all_fresh es S"
    and "\<And>e r. P r \<Longrightarrow> other pid e \<Longrightarrow> \<exists>r'. run_event pid e (Some r) = Some r' \<and> P r'"
  shows "\<exists>r'. lookup pid (happen_all es S) = Some r' \<and> P r'"
  using assms(1,2,3)
proof (induction es arbitrary: S r)
  case (Cons e es)
  have "other pid e" using fresh_other Cons.prems(1,3) by auto
  then obtain r' where "run_event pid e (Some r) = Some r'" "P r'" using assms(4) Cons.prems(2) by blast
  then show ?case using Cons.IH [of "happens e S" r'] Cons.prems by (simp add: lookup_happens)
qed simp

lemma lookup_happen_all: "lookup q (happen_all es S) = fold (run_event q) es (lookup q S)"
  by (induction es arbitrary: S) (simp_all add: lookup_happens)

lemma fold_steps:
  "fold (run_event p) (replicate k (Step p now made out)) (Some r) = Some ((step_run now made out ^^ k) r)"
  by (induction k arbitrary: r) (simp_all add: funpow_swap1)

lemma progress_of_fixed [simp]:
  "stages (progress_of st i cs pc s) = stages s" "status (progress_of st i cs pc s) = status s"
  by (simp_all add: progress_of_def Let_def split: option.split)

lemma all_stages_run:
  assumes "status s \<noteq> ''cancelled''" and "i + m = length (stages s)"
  shows "\<exists>s'. (step_run now True (Exit 0) ^^ (4 * m + 1)) \<lparr> rstate = s, thread = Check i cs \<rparr> = \<lparr> rstate = s', thread = Finished \<rparr>
     \<and> status s' = ''completed'' \<and> completed_stages s' = stages s"
  using assms
proof (induction m arbitrary: i cs s)
  case 0
  then show ?case by (simp add: step_run_def completion_of_def Let_def)
next
  case (Suc m)
  have eq: "4 * Suc m + 1 = (4 * m + 1) + 4" by simp
  obtain s1 where s1: "(step_run now True (Exit 0) ^^ 4) \<lparr> rstate = s, thread = Check i cs \<rparr>
      = \<lparr> rstate = s1, thread = Check (Suc i) (cs @ [stages s ! i]) \<rparr>"
    and same: "status s1 = status s" "stages s1 = stages s"
    using Suc.prems by (simp add: numeral_eq_Suc step_run_def Let_def progress_of_def)
  have "\<exists>s'. (step_run now True (Exit 0) ^^ (4 * m + 1)) \<lparr> rstate = s1, thread = Check (Suc i) (cs @ [stages s ! i]) \<rparr>
      = \<lparr> rstate = s', thread = Finished \<rparr> \<and> status s' = ''completed'' \<and> completed_stages s' = stages s1"
    by (rule Suc.IH) (use Suc.prems same in simp_all)
  then show ?case unfolding eq funpow_add [of "4 * m + 1" 4] o_apply s1 same(2) .
qed

section \<open>The invariant of an entry\<close>

text \<open>
  The list of completed stages is ahead of the progress by one stage between the append and the
  update, except for the first stage, whose append no one sees.
\<close>

definition at_stage :: "nat \<Rightarrow> string list \<Rightarrow> pstate \<Rightarrow> bool" where
  "at_stage i cs s \<longleftrightarrow>
     status s \<in> {''running'', ''cancelled''} \<and> cs = take i (stages s) \<and> completed_stages s = cs \<and> progress_completed s = i"

fun pc_ok :: "pc \<Rightarrow> pstate \<Rightarrow> bool" where
  "pc_ok Start s = (status s \<in> {''starting'', ''cancelled''} \<and> completed_stages s = [] \<and> progress_completed s = 0)"
| "pc_ok Create s = (status s \<in> {''running'', ''cancelled''} \<and> completed_stages s = [] \<and> progress_completed s = 0)"
| "pc_ok (Check i cs) s = (at_stage i cs s \<and> i \<le> length (stages s))"
| "pc_ok (Announce i cs) s = (at_stage i cs s \<and> i < length (stages s))"
| "pc_ok (Stage i cs) s = (at_stage i cs s \<and> i < length (stages s))"
| "pc_ok (Update i cs) s =
     (status s \<in> {''running'', ''cancelled''} \<and> i < length (stages s) \<and> cs = take (Suc i) (stages s)
      \<and> completed_stages s = (if 0 < i then cs else []) \<and> progress_completed s = i)"
| "pc_ok Finished s =
     (status s \<in> {''completed'', ''error'', ''cancelled''} \<and> completed_timestamp s \<noteq> None
      \<and> progress_completed s = length (completed_stages s)
      \<and> (status s = ''completed'' \<longrightarrow> completed_stages s = stages s \<and> percent s = 100 \<and> exit_code s = Some 0)
      \<and> (status s = ''error'' \<longrightarrow> error s \<noteq> None))"
| "pc_ok Killed s = (status s \<in> {''running'', ''cancelled''} \<and> progress_completed s = length (completed_stages s))"

definition timed :: "pstate \<Rightarrow> bool" where
  "timed s \<longleftrightarrow> duration_seconds s = map_option (\<lambda>t. t - started_timestamp s) (completed_timestamp s)"

definition state_ok :: "pstate \<Rightarrow> bool" where
  "state_ok s \<longleftrightarrow>
     total_stages s = length (stages s) \<and> prefix (completed_stages s) (stages s)
     \<and> 0 \<le> percent s \<and> percent s \<le> 100 \<and> timed s
     \<and> (status s = ''cancelled'' \<longrightarrow> completed_timestamp s \<noteq> None)"

definition run_ok :: "run \<Rightarrow> bool" where
  "run_ok r \<longleftrightarrow> pc_ok (thread r) (rstate r) \<and> state_ok (rstate r)"

lemma percent_bounds:
  assumes "i \<le> n" and "0 < n"
  shows "0 \<le> (of_nat i / of_nat n * 100 :: rat)" and "(of_nat i / of_nat n * 100 :: rat) \<le> 100"
  using assms by (simp_all add: divide_le_eq)

lemma state_ok_error: "state_ok s \<Longrightarrow> state_ok (error_of e st now s)"
  by (simp add: state_ok_def error_of_def timed_def)

lemma state_ok_completion: "state_ok s \<Longrightarrow> state_ok (completion_of 0 (stages s) now s)"
  by (simp add: state_ok_def completion_of_def timed_def)

lemma state_ok_announce:
  assumes "state_ok s" and "i < length (stages s)"
  shows "state_ok (progress_of (Some st) (Some i) None None s)"
proof -
  have "stages s \<noteq> []" using assms(2) by auto
  then show ?thesis
    using assms percent_bounds [of i "length (stages s)"] by (simp add: state_ok_def progress_of_def timed_def Let_def)
qed

lemma state_ok_stage:
  assumes "state_ok s" and "i < length (stages s)" and "cs = take (Suc i) (stages s)"
  shows "state_ok (progress_of None None (Some cs) (Some (of_nat (Suc i) / of_nat (length (stages s)) * 100)) s)"
proof -
  have "stages s \<noteq> []" using assms(2) by auto
  then show ?thesis
    using assms percent_bounds [of "Suc i" "length (stages s)"]
    by (simp add: state_ok_def progress_of_def timed_def Let_def take_is_prefix del: of_nat_Suc)
qed

lemma step_run_ok:
  assumes "run_ok r"
  shows "run_ok (step_run now made out r)"
proof -
  obtain s l where r: "r = \<lparr> rstate = s, thread = l \<rparr>" by (cases r)
  have ok: "pc_ok l s" "state_ok s" using assms r by (simp_all add: run_ok_def)
  show ?thesis
  proof (cases l)
    case Start
    then show ?thesis using ok r by (simp add: step_run_def run_ok_def state_ok_def timed_def)
  next
    case Create
    then show ?thesis using ok r state_ok_error
      by (auto simp: step_run_def run_ok_def at_stage_def) (simp_all add: error_of_def)
  next
    case (Check i cs)
    then show ?thesis using ok r state_ok_completion
      by (auto simp: step_run_def run_ok_def at_stage_def completion_of_def state_ok_def timed_def Let_def)
  next
    case (Announce i cs)
    then show ?thesis using ok r state_ok_announce
      by (simp add: step_run_def run_ok_def at_stage_def progress_of_def Let_def)
  next
    case (Stage i cs)
    have err: "run_ok \<lparr> rstate = error_of e st now s, thread = Finished \<rparr>" for e st
      using state_ok_error [OF ok(2)] ok(1) Stage by (simp add: run_ok_def at_stage_def) (simp add: error_of_def)
    have cs: "cs @ [stages s ! i] = take (Suc i) (stages s)" and i: "i < length (stages s)"
      using ok(1) Stage by (simp_all add: at_stage_def take_Suc_conv_app_nth)
    have fine: "run_ok \<lparr> rstate = (if 0 < i then s\<lparr>completed_stages := take (Suc i) (stages s)\<rparr> else s),
        thread = Update i (take (Suc i) (stages s)) \<rparr>"
      using ok i Stage by (auto simp: run_ok_def at_stage_def state_ok_def timed_def take_is_prefix)
    have dead: "run_ok \<lparr> rstate = s, thread = Killed \<rparr>"
      using ok Stage by (auto simp: run_ok_def at_stage_def)
    show ?thesis
      using Stage r err fine dead cs by (cases out) (auto simp: step_run_def Let_def split: if_splits)
  next
    case (Update i cs)
    have i: "i < length (stages s)" "cs = take (Suc i) (stages s)" using ok(1) Update by simp_all
    show ?thesis
      using state_ok_stage [OF ok(2) i] ok(1) i Update r
      by (simp add: step_run_def run_ok_def at_stage_def Let_def del: of_nat_Suc) (simp add: progress_of_def)
  next
    case Finished
    then show ?thesis using assms r by (simp add: step_run_def)
  next
    case Killed
    then show ?thesis using assms r by (simp add: step_run_def)
  qed
qed

lemma initial_ok: "run_ok \<lparr> rstate = initial_state pl sts now, thread = Start \<rparr>"
  by (simp add: run_ok_def state_ok_def timed_def initial_state_def)

lemma cancel_ok:
  assumes "run_ok r" and "status (rstate r) \<in> {''starting'', ''running''}"
  shows "run_ok (map_state (cancel_of now) r)"
  using assms by (cases "thread r") (auto simp: run_ok_def state_ok_def at_stage_def timed_def map_state_def cancel_of_def)

lemma run_event_ok:
  assumes "\<And>r. x = Some r \<Longrightarrow> run_ok r" and "run_event q e x = Some r"
  shows "run_ok r"
  using assms by (cases e) (auto simp: initial_ok cancel_ok step_run_ok split: if_splits)

lemma reach_run_ok: "reach S \<Longrightarrow> lookup pid S = Some r \<Longrightarrow> run_ok r"
proof (induction arbitrary: r rule: reach.induct)
  case start
  then show ?case by (simp add: init_sys_def lookup_def)
next
  case (more S e)
  then show ?case by (metis lookup_happens run_event_ok)
qed


section \<open>Properties\<close>

text \<open>C32: Under every interleaving of starts, cancellations and runner steps, the completed stages
  of a pipeline are a prefix of its stages and the percentage lies between 0 and 100. The progress
  counts the completed stages, except while the runner stands between the append of a stage and
  the update of the progress: the list may then be one stage ahead, never more and never behind.
  A pipeline that reads \<open>completed\<close> has all its stages and 100 percent, one that reads \<open>error\<close> has
  an error text; and the status \<open>failed\<close> is never reached.\<close>

theorem pipeline_invariant:
  assumes "reach S" and "lookup pid S = Some r" and "s = rstate r"
  shows "prefix (completed_stages s) (stages s) \<and> total_stages s = length (stages s)
     \<and> length (completed_stages s) \<in> {progress_completed s, Suc (progress_completed s)}
     \<and> (length (completed_stages s) \<noteq> progress_completed s \<longrightarrow> thread r = Update (progress_completed s) (completed_stages s))
     \<and> 0 \<le> percent s \<and> percent s \<le> 100
     \<and> status s \<in> {''starting'', ''running'', ''completed'', ''error'', ''cancelled''}
     \<and> (status s = ''completed'' \<longrightarrow> completed_stages s = stages s \<and> percent s = 100 \<and> exit_code s = Some 0)
     \<and> (status s = ''error'' \<longrightarrow> error s \<noteq> None)"
proof -
  have "pc_ok (thread r) s" "state_ok s"
    using reach_run_ok [OF assms(1,2)] assms(3) by (simp_all add: run_ok_def)
  then show ?thesis by (cases "thread r") (auto simp: state_ok_def at_stage_def)
qed

abbreviation demo_stages :: "string list" where
  "demo_stages \<equiv> [''ingest'', ''clean'']"

abbreviation demo_start :: sys where
  "demo_start \<equiv> happens (Execute ''p1'' ''ingestion'' demo_stages 5) init_sys"

lemma reach_demo: "reach demo_start"
  by (rule reach.more [OF reach.start]) (simp add: lookup_def init_sys_def)

lemma demo_lookup: "lookup ''p1'' demo_start = Some \<lparr> rstate = initial_state ''ingestion'' demo_stages 5, thread = Start \<rparr>"
  by (simp add: lookup_execute)

lemma pipeline_invariant_witness:
  "prefix (completed_stages (initial_state ''ingestion'' demo_stages 5)) demo_stages"
  using pipeline_invariant [OF reach_demo demo_lookup refl] by (simp add: initial_state_def)

text \<open>The lag is seen: after the second stage was appended, a reader finds two completed stages and a
  progress of one; and a cancellation then leaves the entry so until the runner goes on.\<close>

lemma progress_lags:
  "map_option (\<lambda>r. (completed_stages (rstate r), progress_completed (rstate r)))
     (lookup ''p1'' (happen_all (replicate 9 (Step ''p1'' 6 True (Exit 0))) demo_start)) = Some (demo_stages, 1)"
  unfolding lookup_happen_all demo_lookup fold_steps
  by (simp add: numeral_eq_Suc step_run_def initial_state_def progress_of_def Let_def)

text \<open>C33: A cancellation that is accepted before a runner's check of a further stage stops it:
  from then on, whatever happens, no stage is started, and the pipeline keeps its state.\<close>

theorem cancelled_runner_stops:
  assumes "lookup pid S = Some r" and "thread r = Check i cs" and "i < length (stages (rstate r))"
    and "cancel_pipeline db pid now S = (Cancelled, S')" and "all_fresh es S'"
  shows "\<exists>r'. lookup pid (happen_all es S') = Some r' \<and> rstate r' = cancel_of now (rstate r)
     \<and> thread r' \<in> {Check i cs, Finished}"
proof -
  let ?s = "cancel_of now (rstate r)"
  let ?P = "\<lambda>r'. rstate r' = ?s \<and> thread r' \<in> {Check i cs, Finished}"
  have "S' = snd (cancel_pipeline db pid now S)" and acc: "status (rstate r) \<in> {''starting'', ''running''}"
    using assms(1,4) by (auto simp: cancel_pipeline_def split: if_splits)
  then have now: "lookup pid S' = Some (map_state (cancel_of now) r)"
    using assms(1) by (simp add: lookup_cancel)
  have stopped: "status ?s = ''cancelled''" "i < length (stages ?s)"
    using assms(3) by (simp_all add: cancel_of_def)
  have step: "\<exists>r'. run_event pid e (Some r1) = Some r' \<and> ?P r'" if "?P r1" and "other pid e" for e r1
    using that stopped by (cases e) (auto simp: step_run_def Let_def)
  show ?thesis
    by (rule entry_invariant [where P = ?P, OF now _ assms(5) step]) (use assms(2) in \<open>simp_all add: map_state_def\<close>)
qed

lemma demo_check:
  "lookup ''p1'' (happen_all (replicate 6 (Step ''p1'' 6 True (Exit 0))) demo_start)
     = Some \<lparr> rstate = (progress_of None None (Some [''ingest'']) (Some 50)
         (progress_of (Some ''ingest'') (Some 0) None None
            ((initial_state ''ingestion'' demo_stages 5)\<lparr>status := ''running''\<rparr>))), thread = Check 1 [''ingest''] \<rparr>"
  unfolding lookup_happen_all demo_lookup fold_steps
  by (simp add: numeral_eq_Suc step_run_def initial_state_def Let_def)

lemma cancelled_runner_stops_witness:
  "\<exists>r'. lookup ''p1'' (happen_all [Step ''p1'' 8 True (Exit 0), Step ''p1'' 9 True (Exit 0)]
      (snd (cancel_pipeline (\<lambda>_. None) ''p1'' 7
         (happen_all (replicate 6 (Step ''p1'' 6 True (Exit 0))) demo_start)))) = Some r'
    \<and> status (rstate r') = ''cancelled'' \<and> completed_stages (rstate r') = [''ingest'']"
proof -
  let ?S = "happen_all (replicate 6 (Step ''p1'' 6 True (Exit 0))) demo_start"
  have "fst (cancel_pipeline (\<lambda>_. None) ''p1'' 7 ?S) = Cancelled"
    unfolding cancel_pipeline_def demo_check by (simp add: progress_of_def initial_state_def)
  then have c: "cancel_pipeline (\<lambda>_. None) ''p1'' 7 ?S = (Cancelled, snd (cancel_pipeline (\<lambda>_. None) ''p1'' 7 ?S))"
    by (simp add: prod_eq_iff)
  from cancelled_runner_stops [OF demo_check _ _ c, of 1 "[''ingest'']" "[Step ''p1'' 8 True (Exit 0), Step ''p1'' 9 True (Exit 0)]"]
  show ?thesis by (auto simp: progress_of_def initial_state_def cancel_of_def)
qed

text \<open>C34: A cancellation accepted before the runner's first step, while the last stage runs, or before
  the update of the progress after it, is overwritten: the caller is told the pipeline is cancelled, and when the stages succeed it runs
  them all and reads \<open>completed\<close>.\<close>

theorem cancellation_overwritten:
  assumes "lookup pid S = Some r" and "run_ok r" and "n = length (stages (rstate r))"
    and "cancel_pipeline db pid t S = (Cancelled, S')"
    and "thread r = Start \<and> k = 4 * n + 3 \<or> (\<exists>cs. thread r = Stage (n - 1) cs) \<and> k = 3
      \<or> (\<exists>cs. thread r = Update (n - 1) cs) \<and> k = 2"
  shows "\<exists>r'. lookup pid (happen_all (replicate k (Step pid now True (Exit 0))) S') = Some r'
     \<and> status (rstate r') = ''completed'' \<and> completed_stages (rstate r') = stages (rstate r) \<and> thread r' = Finished"
proof -
  let ?f = "step_run now True (Exit 0)" and ?s = "cancel_of t (rstate r)"
  obtain s l where r: "r = \<lparr> rstate = s, thread = l \<rparr>" by (cases r)
  have "S' = snd (cancel_pipeline db pid t S)" and "status (rstate r) \<in> {''starting'', ''running''}"
    using assms(1,4) by (auto simp: cancel_pipeline_def split: if_splits)
  then have now: "lookup pid S' = Some \<lparr> rstate = ?s, thread = l \<rparr>"
    using assms(1) r by (simp add: lookup_cancel map_state_def)
  have same: "stages ?s = stages s" "stages (?s\<lparr>status := ''running''\<rparr>) = stages s"
    by (simp_all add: cancel_of_def r)
  have "\<exists>s'. (?f ^^ k) \<lparr> rstate = ?s, thread = l \<rparr> = \<lparr> rstate = s', thread = Finished \<rparr>
      \<and> status s' = ''completed'' \<and> completed_stages s' = stages s"
    using assms(5)
  proof (elim disjE conjE exE)
    assume l: "thread r = Start" and k: "k = 4 * n + 3"
    have eq: "k = (4 * n + 1) + 2" using k by simp
    have two: "(?f ^^ 2) \<lparr> rstate = ?s, thread = l \<rparr> = \<lparr> rstate = ?s\<lparr>status := ''running''\<rparr>, thread = Check 0 [] \<rparr>"
      using l r by (simp add: numeral_eq_Suc step_run_def)
    have "\<exists>s'. (?f ^^ (4 * n + 1)) \<lparr> rstate = ?s\<lparr>status := ''running''\<rparr>, thread = Check 0 [] \<rparr> = \<lparr> rstate = s', thread = Finished \<rparr>
        \<and> status s' = ''completed'' \<and> completed_stages s' = stages (?s\<lparr>status := ''running''\<rparr>)"
      by (rule all_stages_run) (use assms(3) r same in simp_all)
    then show ?thesis unfolding eq funpow_add [of "4 * n + 1" 2] o_apply two same(2) .
  next
    fix cs assume l: "thread r = Stage (n - 1) cs" and k: "k = 3"
    then have "n - 1 < n" using assms(2,3) r by (simp add: run_ok_def)
    then have "Suc (length (stages s) - Suc 0) = length (stages s)" using assms(3) r by simp
    then show ?thesis using l k r assms(3) same
      by (simp add: numeral_eq_Suc step_run_def Let_def progress_of_def completion_of_def)
  next
    fix cs assume l: "thread r = Update (n - 1) cs" and k: "k = 2"
    then have "n - 1 < n" using assms(2,3) r by (simp add: run_ok_def)
    then have "Suc (length (stages s) - Suc 0) = length (stages s)" using assms(3) r by simp
    then show ?thesis using l k r assms(3) same
      by (simp add: numeral_eq_Suc step_run_def Let_def progress_of_def completion_of_def)
  qed
  then show ?thesis using r unfolding lookup_happen_all now fold_steps by auto
qed

lemma cancellation_overwritten_witness:
  "\<exists>r'. lookup ''p1'' (happen_all (replicate 11 (Step ''p1'' 8 True (Exit 0)))
      (snd (cancel_pipeline (\<lambda>_. None) ''p1'' 7 demo_start))) = Some r'
    \<and> status (rstate r') = ''completed'' \<and> completed_stages (rstate r') = demo_stages"
proof -
  have "fst (cancel_pipeline (\<lambda>_. None) ''p1'' 7 demo_start) = Cancelled"
    unfolding cancel_pipeline_def demo_lookup by (simp add: initial_state_def)
  then have c: "cancel_pipeline (\<lambda>_. None) ''p1'' 7 demo_start = (Cancelled, snd (cancel_pipeline (\<lambda>_. None) ''p1'' 7 demo_start))"
    by (simp add: prod_eq_iff)
  from cancellation_overwritten [OF demo_lookup initial_ok refl c, of 11] show ?thesis
    by (auto simp: initial_state_def)
qed


section \<open>The runner ends\<close>

fun pc_measure :: "nat \<Rightarrow> pc \<Rightarrow> nat" where
  "pc_measure n Start = 4 * n + 3"
| "pc_measure n Create = 4 * n + 2"
| "pc_measure n (Check i cs) = 4 * (n - i) + 1"
| "pc_measure n (Announce i cs) = 4 * (n - i)"
| "pc_measure n (Stage i cs) = 4 * (n - i) - 1"
| "pc_measure n (Update i cs) = 4 * (n - i) - 2"
| "pc_measure n Killed = 0"
| "pc_measure n Finished = 0"

definition left :: "run \<Rightarrow> nat" where
  "left r = pc_measure (length (stages (rstate r))) (thread r)"

lemma step_left:
  assumes "run_ok r"
  shows "left (step_run now made out r) \<le> left r - 1"
  using assms
  by (cases "thread r"; cases out)
    (auto simp: left_def step_run_def run_ok_def at_stage_def Let_def error_of_def completion_of_def)

lemma step_stages [simp]: "stages (rstate (step_run now made out r)) = stages (rstate r)"
  by (cases "thread r"; cases out) (auto simp: step_run_def Let_def error_of_def completion_of_def)

fun steps_of :: "string \<Rightarrow> event list \<Rightarrow> nat" where
  "steps_of pid [] = 0"
| "steps_of pid (Step p now made out # es) = (if p = pid then Suc (steps_of pid es) else steps_of pid es)"
| "steps_of pid (_ # es) = steps_of pid es"

lemma entry_left:
  assumes "lookup pid S = Some r" and "run_ok r" and "all_fresh es S"
  shows "\<exists>r'. lookup pid (happen_all es S) = Some r' \<and> left r' \<le> left r - steps_of pid es"
  using assms
proof (induction es arbitrary: S r)
  case (Cons e es)
  have o: "other pid e" using fresh_other Cons.prems(1,3) by auto
  have "\<exists>r1. run_event pid e (Some r) = Some r1 \<and> run_ok r1 \<and> left r1 \<le> left r - steps_of pid [e]"
  proof (cases e)
    case (Cancel p now)
    then show ?thesis using Cons.prems(2) cancel_ok [of r now] by (simp add: left_def map_state_def cancel_of_def)
  next
    case (Step p now made out)
    then show ?thesis using Cons.prems(2) step_left [of r now made out] by (simp add: step_run_ok)
  qed (use o Cons.prems in simp)
  then obtain r1 where r1: "lookup pid (happens e S) = Some r1" "run_ok r1" "left r1 \<le> left r - steps_of pid [e]"
    using Cons.prems(1) by (auto simp: lookup_happens)
  have "steps_of pid (e # es) = steps_of pid [e] + steps_of pid es" by (cases e) simp_all
  then show ?case using Cons.IH [OF r1(1,2)] Cons.prems(3) r1(3) by fastforce
qed simp

lemma left_0: "run_ok r \<Longrightarrow> left r = 0 \<Longrightarrow> thread r \<in> {Finished, Killed}"
  by (cases "thread r") (auto simp: left_def run_ok_def at_stage_def)

text \<open>A step in which the creation or a stage of \<open>pid\<close> raises \<open>SystemExit\<close>.\<close>

fun quits :: "string \<Rightarrow> event \<Rightarrow> bool" where
  "quits pid (Step p now made out) = (p = pid \<and> out = Quit)"
| "quits pid _ = False"

lemma never_killed:
  assumes "lookup pid S = Some r" and "thread r \<noteq> Killed" and "all_fresh es S" and "list_all (\<lambda>e. \<not> quits pid e) es"
  shows "\<exists>r'. lookup pid (happen_all es S) = Some r' \<and> thread r' \<noteq> Killed"
  using assms
proof (induction es arbitrary: S r)
  case (Cons e es)
  have o: "other pid e" using fresh_other Cons.prems(1,3) by auto
  have "\<exists>r1. run_event pid e (Some r) = Some r1 \<and> thread r1 \<noteq> Killed"
  proof (cases e)
    case (Step p now made out)
    then show ?thesis using Cons.prems(2,4)
      by (cases "thread r"; cases out) (auto simp: step_run_def Let_def)
  qed (use o Cons.prems(2) in \<open>auto simp: map_state_def\<close>)
  then show ?case using Cons by (auto simp: lookup_happens)
qed simp

text \<open>C35: A runner ends: once it has been scheduled \<open>4 n + 3\<close> times for a pipeline of \<open>n\<close> stages,
  however starts of other pipelines, cancellations and their steps are interleaved and whatever
  the stages do, the pipeline is completed, in error or cancelled, with its time of completion and
  its duration set, the second as the first less the time of the start. Excluded is a
  \<open>SystemExit\<close>, which ends the thread: the entry then never gets a final status of its own.\<close>

theorem runner_finishes:
  assumes "reach S" and "lookup pid S = Some r" and "all_fresh es S"
    and "4 * length (stages (rstate r)) + 3 \<le> steps_of pid es"
    and "thread r \<noteq> Killed" and "list_all (\<lambda>e. \<not> quits pid e) es"
  shows "\<exists>r' t. lookup pid (happen_all es S) = Some r' \<and> thread r' = Finished
     \<and> status (rstate r') \<in> {''completed'', ''error'', ''cancelled''}
     \<and> completed_timestamp (rstate r') = Some t
     \<and> duration_seconds (rstate r') = Some (t - started_timestamp (rstate r'))"
proof -
  have reached: "all_fresh es S \<Longrightarrow> reach S \<Longrightarrow> reach (happen_all es S)" for es S
    by (induction es arbitrary: S) (simp_all add: reach.more)
  have ok: "run_ok r" by (rule reach_run_ok [OF assms(1,2)])
  obtain r' where r': "lookup pid (happen_all es S) = Some r'" "left r' \<le> left r - steps_of pid es"
    using entry_left [OF assms(2) ok assms(3)] by blast
  have "left r \<le> 4 * length (stages (rstate r)) + 3"
    by (cases "thread r") (simp_all add: left_def)
  then have "left r' = 0" using r'(2) assms(4) by simp
  moreover have ok': "run_ok r'" by (rule reach_run_ok [OF reached [OF assms(3,1)] r'(1)])
  moreover have "thread r' \<noteq> Killed" using never_killed [OF assms(2,5,3,6)] r'(1) by simp
  ultimately have "thread r' = Finished" using left_0 by blast
  then show ?thesis using r'(1) ok' by (auto simp: run_ok_def state_ok_def timed_def)
qed

lemma runner_finishes_witness:
  "\<exists>r' t. lookup ''p1'' (happen_all (replicate 11 (Step ''p1'' 6 True (Raised ''boom''))) demo_start) = Some r' \<and> thread r' = Finished
    \<and> completed_timestamp (rstate r') = Some t \<and> duration_seconds (rstate r') = Some (t - started_timestamp (rstate r'))"
proof -
  have f: "all_fresh (replicate k (Step ''p1'' 6 True (Raised ''boom''))) S" for k S
    by (induction k arbitrary: S) simp_all
  have n: "steps_of ''p1'' (replicate k (Step ''p1'' 6 True (Raised ''boom''))) = k" for k
    by (induction k) simp_all
  have q: "list_all (\<lambda>e. \<not> quits ''p1'' e) (replicate k (Step ''p1'' 6 True (Raised ''boom'')))" for k
    by (simp add: list_all_iff)
  have "4 * length (stages (rstate \<lparr> rstate = initial_state ''ingestion'' demo_stages 5, thread = Start \<rparr>)) + 3 \<le> 11"
    "thread \<lparr> rstate = initial_state ''ingestion'' demo_stages 5, thread = Start \<rparr> \<noteq> Killed"
    by (simp_all add: initial_state_def)
  from runner_finishes [OF reach_demo demo_lookup f, unfolded n, OF this q] show ?thesis by blast
qed

text \<open>After a \<open>SystemExit\<close> the pipeline reads \<open>running\<close>, whatever the scheduler does, until someone
  cancels it.\<close>

lemma killed_stays:
  assumes "lookup pid S = Some r" and "thread r = Killed" and "all_fresh es S" and "list_all (\<lambda>e. \<forall>t. e \<noteq> Cancel pid t) es"
  shows "lookup pid (happen_all es S) = Some r"
  using assms
proof (induction es arbitrary: S)
  case (Cons e es)
  have "other pid e" using fresh_other Cons.prems(1,3) by auto
  then have "run_event pid e (Some r) = Some r" using Cons.prems(2,4) by (cases e) (auto simp: step_run_def)
  then show ?case using Cons by (simp add: lookup_happens)
qed simp

section \<open>The gauge\<close>

text \<open>The entries the gauge counts: runners that have not come to their end (a killed one never does), and those a cancellation ended.\<close>

fun counted :: "run \<Rightarrow> bool" where
  "counted r = (thread r \<noteq> Finished \<or> status (rstate r) = ''cancelled'')"

definition gauge_value :: "sys \<Rightarrow> rat" where
  "gauge_value S = gauge_get None (active_pipelines (tracking S))"

definition counted_ids :: "sys \<Rightarrow> string set" where
  "counted_ids S = {q. \<exists>r. lookup q S = Some r \<and> counted r}"

lemma finite_counted: "finite (counted_ids S)"
proof (rule finite_subset)
  show "counted_ids S \<subseteq> dom (map_of (active S))" by (auto simp: counted_ids_def lookup_def)
qed (rule finite_dom_map_of)

lemma gauge_tracker:
  "gauge_get None (active_pipelines (pipeline_started p T)) = gauge_get None (active_pipelines T) + 1"
  "gauge_get None (active_pipelines (pipeline_completed p d T)) = gauge_get None (active_pipelines T) - 1"
  "gauge_get None (active_pipelines (pipeline_failed p e T)) = gauge_get None (active_pipelines T) - 1"
  by (simp_all add: pipeline_started_def pipeline_completed_def pipeline_failed_def gauge_up.get_upd gauge_down.get_upd)

lemma gauge_stages [simp]:
  "active_pipelines (stage_failed st e T) = active_pipelines T"
  "active_pipelines (fold (\<lambda>st. stage_completed st d) sts T) = active_pipelines T"
proof -
  show "active_pipelines (fold (\<lambda>st. stage_completed st d) sts T) = active_pipelines T"
    by (induction sts arbitrary: T) (simp_all add: stage_completed_def)
qed (simp add: stage_failed_def)

lemma tracking_same [simp]:
  "tracking (goto p l S) = tracking S" "tracking (upd_state p f S) = tracking S"
  by (simp_all add: goto_def upd_state_def)

lemma gauge_updates:
  "lookup p S = Some r \<Longrightarrow> gauge_value (update_pipeline_completion p 0 sts now S) = gauge_value S - 1"
  "lookup p S = Some r \<Longrightarrow> gauge_value (update_pipeline_error p e st now S) = gauge_value S - 1"
  "gauge_value (goto p l S) = gauge_value S" "gauge_value (upd_state p f S) = gauge_value S"
  by (auto simp: gauge_value_def update_pipeline_completion_def update_pipeline_error_def Let_def gauge_tracker
      split: option.split)

lemma gauge_step:
  assumes "lookup p S = Some r" and "run_ok r"
  shows "gauge_value (runner_step p now made out S)
       = gauge_value S - (if counted r \<and> \<not> counted (step_run now made out r) then 1 else 0)"
proof -
  obtain s l where r: "r = \<lparr> rstate = s, thread = l \<rparr>" by (cases r)
  have ok: "pc_ok l s" using assms(2) r by (simp add: run_ok_def)
  note defs = runner_step_def step_run_def Let_def gauge_updates(1,2) [OF assms(1) [unfolded r]] gauge_updates(3,4)
    update_pipeline_status_def update_pipeline_progress_def
  show ?thesis
  proof (cases l)
    case (Stage i cs)
    then show ?thesis using ok assms(1) r by (cases out) (simp_all add: defs append_completed_def error_of_def)
  qed (use ok assms(1) r in \<open>simp_all add: defs error_of_def completion_of_def\<close>)
qed

lemma counted_back: "\<not> counted r \<Longrightarrow> \<not> counted (step_run now made out r)"
  by (simp add: step_run_def Let_def)

lemma gauge_counts:
  assumes "reach S"
  shows "gauge_value S = of_nat (card (counted_ids S))"
  using assms
proof (induction rule: reach.induct)
  case start
  then show ?case by (simp add: gauge_value_def counted_ids_def lookup_def init_sys_def new_tracker_def gauge_get_def)
next
  case (more S e)
  show ?case
  proof (cases e)
    case (Execute p pl sts now)
    have "counted_ids (happens e S) = insert p (counted_ids S)"
      using Execute by (auto simp: counted_ids_def lookup_execute)
    moreover have "p \<notin> counted_ids S" using Execute more.hyps(2) by (simp add: counted_ids_def)
    moreover have "gauge_value (happens e S) = gauge_value S + 1"
      using Execute by (simp add: gauge_value_def execute_pipeline_def gauge_tracker)
    ultimately show ?thesis using more.IH finite_counted by simp
  next
    case (Cancel p now)
    have ok: "lookup p S = Some r \<Longrightarrow> run_ok r" for r by (rule reach_run_ok [OF more.hyps(1)])
    have "counted_ids (happens e S) = counted_ids S"
    proof -
      have "(\<exists>r. lookup q (happens e S) = Some r \<and> counted r) \<longleftrightarrow> (\<exists>r. lookup q S = Some r \<and> counted r)" for q
      proof (cases "lookup p S")
        case (Some r)
        have "thread r \<noteq> Finished" if "status (rstate r) \<in> {''starting'', ''running''}"
          using ok [OF Some] that by (auto simp: run_ok_def)
        then show ?thesis using Cancel Some by (simp add: lookup_cancel map_state_def)
      qed (use Cancel in \<open>simp add: lookup_cancel\<close>)
      then show ?thesis by (simp add: counted_ids_def)
    qed
    moreover have "gauge_value (happens e S) = gauge_value S"
      using Cancel by (auto simp: cancel_pipeline_def gauge_updates split: option.split)
    ultimately show ?thesis using more.IH by simp
  next
    case (Step p now made out)
    show ?thesis
    proof (cases "lookup p S")
      case None
      then have "happens e S = S" using Step by (simp add: runner_step_def)
      then show ?thesis using more.IH by simp
    next
      case (Some r)
      have g: "gauge_value (happens e S) = gauge_value S - (if counted r \<and> \<not> counted (step_run now made out r) then 1 else 0)"
        using gauge_step [OF Some reach_run_ok [OF more.hyps(1) Some]] Step by simp
      show ?thesis
      proof (cases "counted r \<and> \<not> counted (step_run now made out r)")
        case True
        have "counted_ids (happens e S) = counted_ids S - {p}"
          using True Some Step by (auto simp: counted_ids_def lookup_step simp del: counted.simps)
        moreover have "p \<in> counted_ids S" using True Some by (simp add: counted_ids_def)
        moreover have "card (counted_ids S) = Suc (card (counted_ids S - {p}))"
          by (rule card.remove) (use calculation finite_counted in simp_all)
        ultimately show ?thesis using g True more.IH by simp
      next
        case False
        have "counted_ids (happens e S) = counted_ids S"
          using False Some Step counted_back [of r now made out]
          by (auto simp: counted_ids_def lookup_step simp del: counted.simps)
        then show ?thesis using g False more.IH by simp
      qed
    qed
  qed
qed

text \<open>The gauge of active pipelines is the number of pipelines whose runner has not come to its
  end, the killed ones among them, plus the number of pipelines that a cancellation ended: a cancelled pipeline is counted as active
  for ever.\<close>

theorem gauge_keeps_cancelled:
  assumes "reach S"
  shows "gauge_get None (active_pipelines (tracking S))
       = of_nat (card {q. \<exists>r. lookup q S = Some r \<and> thread r \<noteq> Finished})
       + of_nat (card {q. \<exists>r. lookup q S = Some r \<and> thread r = Finished \<and> status (rstate r) = ''cancelled''})"
proof -
  let ?A = "{q. \<exists>r. lookup q S = Some r \<and> thread r \<noteq> Finished}"
  let ?B = "{q. \<exists>r. lookup q S = Some r \<and> thread r = Finished \<and> status (rstate r) = ''cancelled''}"
  have "counted_ids S = ?A \<union> ?B" by (auto simp: counted_ids_def)
  moreover have "?A \<inter> ?B = {}" by auto
  moreover have "finite ?A" "finite ?B"
    using finite_counted [of S] by (auto simp: counted_ids_def elim: rev_finite_subset)
  ultimately have "card (counted_ids S) = card ?A + card ?B" by (simp add: card_Un_disjoint)
  then show ?thesis using gauge_counts [OF assms] by (simp add: gauge_value_def)
qed

lemma gauge_keeps_cancelled_witness:
  "gauge_get None (active_pipelines (tracking demo_start)) = 1"
proof -
  have only: "lookup q demo_start = (if q = ''p1'' then Some \<lparr> rstate = initial_state ''ingestion'' demo_stages 5, thread = Start \<rparr> else None)" for q
    by (simp add: lookup_execute) (simp add: lookup_def init_sys_def)
  have "{q. \<exists>r. lookup q demo_start = Some r \<and> thread r \<noteq> Finished} = {''p1''}"
    unfolding only by auto
  moreover have "{q. \<exists>r. lookup q demo_start = Some r \<and> thread r = Finished \<and> status (rstate r) = ''cancelled''} = {}"
    unfolding only by auto
  ultimately show ?thesis unfolding gauge_keeps_cancelled [OF reach_demo] by (simp only: card.empty card_1_singleton_iff) simp
qed

end
