(* ===== verification/Path_Finding.thy ===== *)
theory Path_Finding
  imports Prelude
begin

text \<open>
  \<open>app/api/graph/handlers/path_finding.py\<close>: the adjacency list of the relations, the
  breadth-first search for paths between two entities and the reply built from them. The two
  collections are lists of documents; identifiers are strings.
\<close>

section \<open>Adjacency list\<close>

record neighbor =
  target :: string
  relationship_id :: pyval
  predicate :: pyval
  confidence :: pyval
  direction :: string

type_synonym adjacency = "(string \<times> neighbor list) list"

text \<open>\<open>doc.get(k, d)\<close>, and \<open>doc.get(k)\<close> where it is a truthy string.\<close>

definition get_default :: "dict \<Rightarrow> string \<Rightarrow> pyval \<Rightarrow> pyval" where
  "get_default doc k d = (case map_of doc k of None \<Rightarrow> d | Some v \<Rightarrow> v)"

fun id_of :: "pyval \<Rightarrow> string option" where
  "id_of (PStr s) = (if s = [] then None else Some s)"
| "id_of _ = None"

definition nbrs :: "adjacency \<Rightarrow> string \<Rightarrow> neighbor list" where
  "nbrs adj v = (case map_of adj v of None \<Rightarrow> [] | Some ns \<Rightarrow> ns)"

definition add_edge :: "string \<Rightarrow> neighbor \<Rightarrow> adjacency \<Rightarrow> adjacency" where
  "add_edge v nb adj = AList.update v (nbrs adj v @ [nb]) adj"

definition add_relation :: "dict \<Rightarrow> adjacency \<Rightarrow> adjacency" where
  "add_relation rel adj =
     (case (id_of (dget rel ''subject_id''), id_of (dget rel ''object_id'')) of
        (Some subject_id, Some object_id) \<Rightarrow>
          (let nb = (\<lambda>v dir. \<lparr> target = v, relationship_id = dget rel ''relationship_id'',
                 predicate = get_default rel ''predicate'' (PStr ''related_to''),
                 confidence = get_default rel ''confidence'' (PFloat 0), direction = dir \<rparr>)
           in add_edge object_id (nb subject_id ''incoming'') (add_edge subject_id (nb object_id ''outgoing'') adj))
      | _ \<Rightarrow> adj)"

definition build_adjacency_list :: "dict list \<Rightarrow> adjacency" where
  "build_adjacency_list relations = fold add_relation relations []"

section \<open>Breadth-first search\<close>

text \<open>An edge of a path is its source with the neighbour's entry.\<close>

type_synonym path_edge = "string \<times> neighbor"

record path =
  node_ids :: "string list"
  edge_info :: "path_edge list"
  path_length :: int

type_synonym queue_entry = "string \<times> string list \<times> path_edge list"

record bfs =
  queue :: "queue_entry list"
  visited :: "(string \<times> int) list"
  paths :: "path list"
  shortest_found :: "int option"

text \<open>The inner loop over the neighbours; \<open>True\<close> is the early return with enough paths.\<close>

fun explore :: "string \<Rightarrow> int \<Rightarrow> queue_entry \<Rightarrow> neighbor list \<Rightarrow> bfs \<Rightarrow> bool \<times> bfs" where
  "explore target_id max_paths e [] B = (False, B)"
| "explore target_id max_paths (current, path_nodes, path_edges) (nb # nbs) B =
     (let neighbor_id = target nb;
          next_distance = int (length path_nodes) - 1 + 1;
          new_path_nodes = path_nodes @ [neighbor_id];
          new_path_edges = path_edges @ [(current, nb)]
      in if (case map_of (visited B) neighbor_id of Some d \<Rightarrow> d < next_distance | None \<Rightarrow> False)
         then explore target_id max_paths (current, path_nodes, path_edges) nbs B
         else if neighbor_id = target_id
         then (let B' = B\<lparr>paths := paths B @ [\<lparr> node_ids = new_path_nodes, edge_info = new_path_edges,
                            path_length = next_distance \<rparr>],
                          shortest_found := (case shortest_found B of None \<Rightarrow> Some next_distance | Some m \<Rightarrow> Some m)\<rparr>
               in if int (length (paths B')) \<ge> max_paths then (True, B')
                  else explore target_id max_paths (current, path_nodes, path_edges) nbs B')
         else explore target_id max_paths (current, path_nodes, path_edges) nbs
                (B\<lparr>visited := AList.update neighbor_id next_distance (visited B),
                   queue := queue B @ [(neighbor_id, new_path_nodes, new_path_edges)]\<rparr>))"

text \<open>
  The loop ends because every entry that is put back is one longer, up to \<open>max_hops\<close>: each
  entry weighs a power of the number of edges, more than what replaces it.
\<close>

definition edge_count :: "adjacency \<Rightarrow> nat" where
  "edge_count adj = sum_list (map (length \<circ> snd) adj)"

definition weight :: "adjacency \<Rightarrow> int \<Rightarrow> queue_entry \<Rightarrow> nat" where
  "weight adj max_hops e = (edge_count adj + 1) ^ (nat max_hops + 1 - length (fst (snd e)))"

lemma nbrs_count: "length (nbrs adj v) \<le> edge_count adj"
proof -
  have "map_of adj v = Some ns \<Longrightarrow> length ns \<le> edge_count adj" for ns
    unfolding edge_count_def by (induction adj) (auto split: if_splits)
  then show ?thesis by (simp add: nbrs_def split: option.split)
qed

text \<open>The four branches of the inner loop.\<close>

definition seen :: "bfs \<Rightarrow> string \<Rightarrow> int \<Rightarrow> bool" where
  "seen B v d = (case map_of (visited B) v of Some d' \<Rightarrow> d' < d | None \<Rightarrow> False)"

definition hit :: "queue_entry \<Rightarrow> neighbor \<Rightarrow> bfs \<Rightarrow> bfs" where
  "hit e nb B = (case e of (c, ns, es) \<Rightarrow>
     B\<lparr>paths := paths B @ [\<lparr> node_ids = ns @ [target nb], edge_info = es @ [(c, nb)], path_length = int (length ns) \<rparr>],
       shortest_found := (case shortest_found B of None \<Rightarrow> Some (int (length ns)) | Some m \<Rightarrow> Some m)\<rparr>)"

definition push :: "queue_entry \<Rightarrow> neighbor \<Rightarrow> bfs \<Rightarrow> bfs" where
  "push e nb B = (case e of (c, ns, es) \<Rightarrow>
     B\<lparr>visited := AList.update (target nb) (int (length ns)) (visited B),
       queue := queue B @ [(target nb, ns @ [target nb], es @ [(c, nb)])]\<rparr>)"

lemma explore_cases [consumes 1, case_names skip stop hit push]:
  assumes "explore t mp (c, ns, es) (nb # nbs) B = (d, B')"
  obtains "seen B (target nb) (int (length ns))" "explore t mp (c, ns, es) nbs B = (d, B')"
  | "\<not> seen B (target nb) (int (length ns))" "target nb = t" "mp \<le> int (length (paths B)) + 1" "d" "B' = hit (c, ns, es) nb B"
  | "\<not> seen B (target nb) (int (length ns))" "target nb = t" "\<not> mp \<le> int (length (paths B)) + 1"
    "explore t mp (c, ns, es) nbs (hit (c, ns, es) nb B) = (d, B')"
  | "\<not> seen B (target nb) (int (length ns))" "target nb \<noteq> t" "explore t mp (c, ns, es) nbs (push (c, ns, es) nb B) = (d, B')"
  using assms
  by (cases "seen B (target nb) (int (length ns))"; cases "target nb = t"; cases "mp \<le> int (length (paths B)) + 1")
    (auto simp: seen_def hit_def push_def Let_def add.commute)

lemma explore_weight:
  assumes "explore t mp (c, ns, es) nbs B = (d, B')" and "length ns \<le> nat max_hops"
  shows "sum_list (map (weight adj max_hops) (queue B'))
       \<le> sum_list (map (weight adj max_hops) (queue B)) + length nbs * (edge_count adj + 1) ^ (nat max_hops - length ns)"
  using assms(1)
proof (induction nbs arbitrary: B)
  case (Cons nb nbs)
  have w: "weight adj max_hops (x, ns @ [y], z) = (edge_count adj + 1) ^ (nat max_hops - length ns)" for x y z
    using assms(2) by (simp add: weight_def)
  from Cons.prems show ?case
  proof (cases rule: explore_cases)
    case skip
    then show ?thesis using Cons.IH [of B] by simp
  next
    case stop
    then show ?thesis by (simp add: hit_def)
  next
    case hit
    then show ?thesis using Cons.IH [of "hit (c, ns, es) nb B"] by (simp add: hit_def)
  next
    case push
    then show ?thesis using Cons.IH [of "push (c, ns, es) nb B"] by (simp add: push_def w)
  qed
qed simp

lemma explore_decreases:
  assumes "explore t mp (c, ns, es) (nbrs adj c) (B\<lparr>queue := q\<rparr>) = (d, B2)" and "int (length ns) \<le> mh"
  shows "sum_list (map (weight adj mh) (queue B2)) < weight adj mh (c, ns, es) + sum_list (map (weight adj mh) q)"
proof -
  let ?K = "edge_count adj + 1"
  have le: "length ns \<le> nat mh" using assms(2) by linarith
  from explore_weight [OF assms(1) le, of adj] have
    "sum_list (map (weight adj mh) (queue B2)) \<le> sum_list (map (weight adj mh) q) + length (nbrs adj c) * ?K ^ (nat mh - length ns)"
    by simp
  moreover have "length (nbrs adj c) * ?K ^ (nat mh - length ns) < ?K * ?K ^ (nat mh - length ns)"
    by (rule mult_strict_right_mono) (use nbrs_count [of adj c] in simp_all)
  moreover have "?K * ?K ^ (nat mh - length ns) = weight adj mh (c, ns, es)"
    using le by (simp add: weight_def Suc_diff_le)
  ultimately show ?thesis by simp
qed

function bfs_loop :: "adjacency \<Rightarrow> string \<Rightarrow> int \<Rightarrow> int \<Rightarrow> bfs \<Rightarrow> path list" where
  "bfs_loop adj target_id max_hops max_paths B =
     (case queue B of
        [] \<Rightarrow> paths B
      | (current, path_nodes, path_edges) # q \<Rightarrow>
          (let B1 = B\<lparr>queue := q\<rparr>; current_distance = int (length path_nodes) - 1
           in if (case shortest_found B of Some m \<Rightarrow> current_distance > m | None \<Rightarrow> False)
              then bfs_loop adj target_id max_hops max_paths B1
              else if current_distance \<ge> max_hops then bfs_loop adj target_id max_hops max_paths B1
              else (case explore target_id max_paths (current, path_nodes, path_edges) (nbrs adj current) B1 of
                      (True, B2) \<Rightarrow> paths B2
                    | (False, B2) \<Rightarrow> bfs_loop adj target_id max_hops max_paths B2)))"
  by pat_completeness auto
termination
proof (relation "measure (\<lambda>(adj, t, mh, mp, B). sum_list (map (weight adj mh) (queue B)))", goal_cases)
  case (4 adj t mh mp B e q c y ns es B1 cd d B2)
  then have "explore t mp (c, ns, es) (nbrs adj c) (B\<lparr>queue := q\<rparr>) = (False, B2)" "int (length ns) \<le> mh" by auto
  from explore_decreases [OF this] 4 show ?case by simp
qed (auto simp: weight_def)

declare bfs_loop.simps [simp del]

definition start_bfs :: "string \<Rightarrow> bfs" where
  "start_bfs source_id =
     \<lparr> queue = [(source_id, [source_id], [])], visited = [(source_id, 0)], paths = [], shortest_found = None \<rparr>"

definition bfs_find_paths :: "adjacency \<Rightarrow> string \<Rightarrow> string \<Rightarrow> int \<Rightarrow> int \<Rightarrow> path list" where
  "bfs_find_paths adj source_id target_id max_hops max_paths =
     (if source_id \<notin> set (map fst adj) then []
      else bfs_loop adj target_id max_hops max_paths (start_bfs source_id))"

section \<open>The reply\<close>

definition find_one :: "dict list \<Rightarrow> string \<Rightarrow> dict option" where
  "find_one docs eid = find (\<lambda>d. map_of d ''entity_id'' = Some (PStr eid)) docs"

definition format_entity :: "dict \<Rightarrow> dict" where
  "format_entity doc =
     [(''entity_id'', dget doc ''entity_id''),
      (''name'', py_or (py_or (dget doc ''name'') (dget doc ''canonical_name'')) (dget doc ''entity_id'')),
      (''type'', get_default doc ''type'' (PStr ''OTHER''))]"

text \<open>\<open>entity_map\<close>: of several documents with one identifier the last one found wins.\<close>

definition entity_of :: "dict list \<Rightarrow> string \<Rightarrow> dict" where
  "entity_of docs eid = (case find_one (rev docs) eid of None \<Rightarrow> [] | Some d \<Rightarrow> d)"

definition enrich_node :: "dict list \<Rightarrow> string \<Rightarrow> dict" where
  "enrich_node entities node_id =
     (let doc = entity_of entities node_id
      in [(''entity_id'', PStr node_id),
          (''name'', py_or (py_or (dget doc ''name'') (dget doc ''canonical_name'')) (PStr node_id)),
          (''type'', get_default doc ''type'' (PStr ''OTHER'')),
          (''description'', get_default doc ''description'' (PStr [])),
          (''confidence'', get_default doc ''confidence'' (PFloat 0))])"

definition enrich_edge :: "path_edge \<Rightarrow> dict" where
  "enrich_edge e = (case e of (source, nb) \<Rightarrow>
     [(''source'', PStr source), (''target'', PStr (target nb)), (''predicate'', predicate nb),
      (''confidence'', confidence nb), (''direction'', PStr (direction nb)), (''relationship_id'', relationship_id nb)])"

record rich_path =
  nodes :: "dict list"
  edges :: "dict list"
  rich_length :: int

definition enrich_paths :: "dict list \<Rightarrow> path list \<Rightarrow> rich_path list" where
  "enrich_paths entities raw_paths =
     map (\<lambda>p. \<lparr> nodes = map (enrich_node entities) (node_ids p), edges = map enrich_edge (edge_info p),
                rich_length = path_length p \<rparr>) raw_paths"

record reply =
  reply_paths :: "rich_path list"
  source :: dict
  target_entity :: dict
  total_paths :: nat
  shortest_length :: "int option"

text \<open>\<open>Inl\<close> is the reply with \<open>error\<close> and \<open>entity_id\<close>; \<open>max_hops\<close> and \<open>max_paths\<close> are echoed and left out.\<close>

definition find_shortest_paths ::
  "dict list \<Rightarrow> dict list \<Rightarrow> string \<Rightarrow> string \<Rightarrow> int \<Rightarrow> int \<Rightarrow> (string \<times> string) + reply" where
  "find_shortest_paths entities relations source_id target_id max_hops max_paths =
     (case find_one entities source_id of
        None \<Rightarrow> Inl (''Source entity not found'', source_id)
      | Some source_entity \<Rightarrow>
          (case find_one entities target_id of
             None \<Rightarrow> Inl (''Target entity not found'', target_id)
           | Some tgt_entity \<Rightarrow>
               if source_id = target_id
               then Inr \<lparr> reply_paths = [\<lparr> nodes = [format_entity source_entity], edges = [], rich_length = 0 \<rparr>],
                          source = format_entity source_entity, target_entity = format_entity tgt_entity,
                          total_paths = 1, shortest_length = Some 0 \<rparr>
               else (let ps = enrich_paths entities
                            (bfs_find_paths (build_adjacency_list relations) source_id target_id max_hops max_paths)
                     in Inr \<lparr> reply_paths = ps, source = format_entity source_entity, target_entity = format_entity tgt_entity,
                              total_paths = length ps,
                              shortest_length = (if ps = [] then None else Some (Min (set (map rich_length ps)))) \<rparr>)))"

end
