(* ===== verification/Path_Facts.thy ===== *)
theory Path_Facts
  imports Path_Finding "HOL-Library.Sublist"
begin

text \<open>
  Correctness of the breadth-first search against walks of the graph: what it returns are
  walks, the first of them is a shortest one, none is more than one edge longer, and when
  there is room every shortest walk is returned.
\<close>

section \<open>Walks\<close>

fun walk :: "adjacency \<Rightarrow> string \<Rightarrow> path_edge list \<Rightarrow> string \<Rightarrow> bool" where
  "walk adj s [] t = (s = t)"
| "walk adj s ((c, nb) # es) t = (c = s \<and> nb \<in> set (nbrs adj s) \<and> walk adj (target nb) es t)"

definition visits :: "string \<Rightarrow> path_edge list \<Rightarrow> string list" where
  "visits s es = s # map (\<lambda>(_, nb). target nb) es"

lemma visits_snoc [simp]: "visits s (es @ [(c, nb)]) = visits s es @ [target nb]"
  by (simp add: visits_def)

lemma visits_length [simp]: "length (visits s es) = Suc (length es)"
  by (simp add: visits_def)

lemma walk_append: "walk adj s (es @ fs) t \<longleftrightarrow> (\<exists>v. walk adj s es v \<and> walk adj v fs t)"
  by (induction es arbitrary: s) auto

lemma walk_snoc: "walk adj s (es @ [(c, nb)]) t \<longleftrightarrow> walk adj s es c \<and> nb \<in> set (nbrs adj c) \<and> target nb = t"
  by (auto simp: walk_append)

lemma walk_end: "walk adj s es v \<Longrightarrow> walk adj s es w \<Longrightarrow> v = w"
  by (induction es arbitrary: s) auto

text \<open>A shortest walk within the hop limit.\<close>

definition shortest :: "adjacency \<Rightarrow> int \<Rightarrow> string \<Rightarrow> string \<Rightarrow> path_edge list \<Rightarrow> bool" where
  "shortest adj mh s t W \<longleftrightarrow>
     walk adj s W t \<and> int (length W) \<le> mh \<and> (\<forall>V. walk adj s V t \<longrightarrow> length W \<le> length V)"

section \<open>The invariant\<close>

definition entry_ok :: "adjacency \<Rightarrow> string \<Rightarrow> queue_entry \<Rightarrow> bool" where
  "entry_ok adj s e = (case e of (c, ns, es) \<Rightarrow> walk adj s es c \<and> ns = visits s es)"

definition path_ok :: "adjacency \<Rightarrow> int \<Rightarrow> string \<Rightarrow> string \<Rightarrow> path \<Rightarrow> bool" where
  "path_ok adj mh s t p \<longleftrightarrow>
     walk adj s (edge_info p) t \<and> node_ids p = visits s (edge_info p)
     \<and> path_length p = int (length (edge_info p)) \<and> path_length p \<le> mh"

abbreviation depth :: "queue_entry \<Rightarrow> nat" where
  "depth e \<equiv> length (snd (snd e))"

text \<open>What holds at every point of the search, and the order of the queue while an entry of depth \<open>d\<close> is expanded.\<close>

definition sound :: "adjacency \<Rightarrow> int \<Rightarrow> string \<Rightarrow> string \<Rightarrow> bfs \<Rightarrow> bool" where
  "sound adj mh s t B \<longleftrightarrow>
     (\<forall>e \<in> set (queue B). entry_ok adj s e) \<and> (\<forall>p \<in> set (paths B). path_ok adj mh s t p)
     \<and> (\<forall>v d. map_of (visited B) v = Some d \<longrightarrow> (\<exists>V. walk adj s V v \<and> d = int (length V)))
     \<and> shortest_found B = (case paths B of [] \<Rightarrow> None | p # _ \<Rightarrow> Some (path_length p))"

definition near :: "nat \<Rightarrow> bfs \<Rightarrow> bool" where
  "near d B \<longleftrightarrow> sorted (map depth (queue B)) \<and> (\<forall>e \<in> set (queue B). d \<le> depth e \<and> depth e \<le> d + 1)"

text \<open>A shortest walk is found or still in the queue.\<close>

definition pending :: "path_edge list \<Rightarrow> bfs \<Rightarrow> bool" where
  "pending W B \<longleftrightarrow> (\<exists>p \<in> set (paths B). edge_info p = W) \<or> (\<exists>e \<in> set (queue B). strict_prefix (snd (snd e)) W)"

lemma sound_hit:
  assumes "sound adj mh s t B" and "walk adj s es c" and "nb \<in> set (nbrs adj c)" and "target nb = t"
    and "int (length es) + 1 \<le> mh"
  shows "sound adj mh s t (hit (c, visits s es, es) nb B)"
  using assms
  by (cases "paths B") (auto simp: sound_def hit_def path_ok_def walk_snoc)

lemma sound_push:
  assumes "sound adj mh s t B" and "walk adj s es c" and "nb \<in> set (nbrs adj c)"
  shows "sound adj mh s t (push (c, visits s es, es) nb B)"
proof -
  have w: "walk adj s (es @ [(c, nb)]) (target nb)" using assms(2,3) by (simp add: walk_snoc)
  have "\<exists>V. walk adj s V v \<and> d = int (length V)"
    if "map_of (AList.update (target nb) (int (Suc (length es))) (visited B)) v = Some d" for v d
  proof (cases "v = target nb")
    case True
    then show ?thesis using that w by (auto simp: update_conv' intro!: exI [of _ "es @ [(c, nb)]"])
  next
    case False
    then show ?thesis using that assms(1) by (auto simp: update_conv' sound_def)
  qed
  then show ?thesis using assms(1) w by (auto simp: sound_def push_def entry_ok_def)
qed

lemma near_push:
  assumes "near d B" and "depth e = d" and "e = (c, ns, es)"
  shows "near d (push e nb B)"
  using assms by (auto simp: near_def push_def sorted_append)

lemma near_hit [simp]: "near d (hit e nb B) = near d B"
  by (cases e) (simp add: near_def hit_def)

lemma pending_mono:
  "pending W B \<Longrightarrow> pending W (hit e nb B)" "pending W B \<Longrightarrow> pending W (push e nb B)"
  by (cases e; auto simp: pending_def hit_def push_def)+

section \<open>Expanding an entry\<close>

lemma explore_sound:
  assumes "explore t mp (c, visits s es, es) nbs B = (d, B')" and "sound adj mh s t B"
    and "walk adj s es c" and "set nbs \<subseteq> set (nbrs adj c)" and "int (length es) + 1 \<le> mh"
  shows "sound adj mh s t B'"
  using assms(1,2,4)
proof (induction nbs arbitrary: B)
  case (Cons nb nbs)
  from Cons.prems(1) show ?case
    by (cases rule: explore_cases)
      (use Cons.prems(2,3) Cons.IH sound_hit [OF _ assms(3) _ _ assms(5)] sound_push [OF _ assms(3)] in auto)
qed simp

lemma explore_near:
  assumes "explore t mp (c, ns, es) nbs B = (d, B')" and "near (length es) B"
  shows "near (length es) B'"
  using assms
proof (induction nbs arbitrary: B)
  case (Cons nb nbs)
  from Cons.prems(1) show ?case
    by (cases rule: explore_cases) (use Cons.prems(2) Cons.IH near_push [of "length es" B] in auto)
qed simp

lemma explore_pending:
  assumes "explore t mp (c, ns, es) nbs B = (d, B')" and "pending W B"
  shows "pending W B'"
  using assms
proof (induction nbs arbitrary: B)
  case (Cons nb nbs)
  from Cons.prems(1) show ?case
    by (cases rule: explore_cases) (use Cons.prems(2) Cons.IH pending_mono in auto)
qed simp

text \<open>Expanding a strict prefix of a shortest walk puts the walk's next edge in.\<close>

lemma explore_extends:
  assumes "explore t mp (c, visits s es, es) nbs B = (False, B')" and "sound adj mh s t B"
    and "walk adj s es c" and "set nbs \<subseteq> set (nbrs adj c)" and "int (length es) + 1 \<le> mh"
    and "shortest adj mh s t W" and "prefix (es @ [(c, nb)]) W" and "nb \<in> set nbs"
  shows "pending W B'"
  using assms(1,2,4,8)
proof (induction nbs arbitrary: B)
  case (Cons x nbs)
  obtain rest where W: "W = (es @ [(c, nb)]) @ rest" using assms(7) by (auto elim: prefixE)
  have later: "pending W B'"
    if "nb \<in> set nbs" "explore t mp (c, visits s es, es) nbs B1 = (False, B')" "sound adj mh s t B1" for B1
    using Cons.IH [OF that(2,3)] that(1) Cons.prems(3) by simp
  from Cons.prems(1) show ?case
  proof (cases rule: explore_cases)
    case skip
    have "x \<noteq> nb"
    proof
      assume "x = nb"
      then obtain d where "map_of (visited B) (target nb) = Some d" "d < int (Suc (length es))"
        using skip(1) by (auto simp: seen_def split: option.splits)
      then obtain V where V: "walk adj s V (target nb)" "length V < Suc (length es)"
        using Cons.prems(2) by (force simp: sound_def)
      have "walk adj (target nb) rest t"
        using assms(6) W by (auto simp: shortest_def walk_append)
      then have "walk adj s (V @ rest) t" using V(1) by (auto simp: walk_append)
      then have "length W \<le> length (V @ rest)" using assms(6) unfolding shortest_def by blast
      then show False using V(2) W by simp
    qed
    then show ?thesis using later [of B] skip(2) Cons.prems by simp
  next
    case stop
    then show ?thesis by simp
  next
    case hit
    have s1: "sound adj mh s t (hit (c, visits s es, es) x B)"
      using sound_hit [OF Cons.prems(2) assms(3) _ hit(2) assms(5)] Cons.prems(3) by simp
    show ?thesis
    proof (cases "x = nb")
      case True
      have "walk adj s (es @ [(c, nb)]) t"
        using assms(3) Cons.prems(3) True hit(2) by (simp add: walk_snoc)
      then have "length W \<le> length (es @ [(c, nb)])" using assms(6) unfolding shortest_def by blast
      then have "W = es @ [(c, nb)]" using W by simp
      then have "pending W (hit (c, visits s es, es) x B)" using True by (simp add: pending_def hit_def)
      then show ?thesis using explore_pending [OF hit(4)] by simp
    next
      case False
      then show ?thesis using later [OF _ hit(4) s1] Cons.prems(4) by simp
    qed
  next
    case push
    have s1: "sound adj mh s t (push (c, visits s es, es) x B)"
      using sound_push [OF Cons.prems(2) assms(3)] Cons.prems(3) by simp
    show ?thesis
    proof (cases "x = nb")
      case True
      have "rest \<noteq> []"
        using assms(6) W push(2) True by (auto simp: shortest_def walk_snoc)
      then have "strict_prefix (es @ [(c, nb)]) W" using W by (auto simp: strict_prefix_def)
      then have "pending W (push (c, visits s es, es) x B)" using True by (simp add: pending_def push_def)
      then show ?thesis using explore_pending [OF push(3)] by simp
    next
      case False
      then show ?thesis using later [OF _ push(3) s1] Cons.prems(4) by simp
    qed
  qed
qed simp


text \<open>The paths an expansion adds, and their number.\<close>

lemma explore_paths:
  assumes "explore t mp (c, visits s es, es) nbs B = (d, B')" and "int (length (paths B)) < mp \<or> paths B = []"
  shows "\<exists>xs. paths B' = paths B @ xs \<and> (\<forall>p \<in> set xs. path_length p = int (length es) + 1)
     \<and> int (length (paths B')) \<le> max 1 mp \<and> (d \<longrightarrow> xs \<noteq> [] \<and> mp \<le> int (length (paths B')))
     \<and> (\<not> d \<longrightarrow> int (length (paths B')) < mp \<or> paths B' = [])"
  using assms
proof (induction nbs arbitrary: B)
  case (Cons nb nbs)
  from Cons.prems(1) show ?case
  proof (cases rule: explore_cases)
    case skip
    then show ?thesis using Cons.IH Cons.prems(2) by blast
  next
    case stop
    then show ?thesis using Cons.prems(2) by (auto simp: hit_def)
  next
    case hit
    have "int (length (paths (hit (c, visits s es, es) nb B))) < mp" using hit(3) by (simp add: hit_def)
    from Cons.IH [OF hit(4) disjI1 [OF this]] show ?thesis by (auto simp: hit_def)
  next
    case push
    from Cons.IH [OF push(3)] Cons.prems(2) show ?thesis by (auto simp: push_def)
  qed
qed auto

section \<open>The loop\<close>

definition skipped :: "int \<Rightarrow> bfs \<Rightarrow> queue_entry \<Rightarrow> bool" where
  "skipped mh B e \<longleftrightarrow>
     (case shortest_found B of Some m \<Rightarrow> int (length (fst (snd e))) - 1 > m | None \<Rightarrow> False)
     \<or> int (length (fst (snd e))) - 1 \<ge> mh"

lemma skipped_entry:
  "skipped mh B (c, ns, es) \<longleftrightarrow>
     (case shortest_found B of Some m \<Rightarrow> int (length ns) - 1 > m | None \<Rightarrow> False) \<or> int (length ns) - 1 \<ge> mh"
  by (simp add: skipped_def split: option.split)

lemma bfs_loop_rule:
  assumes "Inv B"
    and drop: "\<And>B e q. Inv B \<Longrightarrow> queue B = e # q \<Longrightarrow> skipped mh B e \<Longrightarrow> Inv (B\<lparr>queue := q\<rparr>)"
    and expand: "\<And>B c ns es q B2. Inv B \<Longrightarrow> queue B = (c, ns, es) # q \<Longrightarrow> \<not> skipped mh B (c, ns, es) \<Longrightarrow>
        explore t mp (c, ns, es) (nbrs adj c) (B\<lparr>queue := q\<rparr>) = (False, B2) \<Longrightarrow> Inv B2"
    and stop: "\<And>B c ns es q B2. Inv B \<Longrightarrow> queue B = (c, ns, es) # q \<Longrightarrow> \<not> skipped mh B (c, ns, es) \<Longrightarrow>
        explore t mp (c, ns, es) (nbrs adj c) (B\<lparr>queue := q\<rparr>) = (True, B2) \<Longrightarrow> P (paths B2)"
    and final: "\<And>B. Inv B \<Longrightarrow> queue B = [] \<Longrightarrow> P (paths B)"
  shows "P (bfs_loop adj t mh mp B)"
  using assms(1)
proof (induction B rule: measure_induct_rule [where f = "\<lambda>B. sum_list (map (weight adj mh) (queue B))"])
  case (less B)
  show ?case
  proof (cases "queue B")
    case Nil
    then show ?thesis using final less.prems by (simp add: bfs_loop.simps [of adj t mh mp B])
  next
    case (Cons e q)
    obtain c ns es where e: "e = (c, ns, es)" by (cases e)
    let ?B1 = "B\<lparr>queue := q\<rparr>"
    show ?thesis
    proof (cases "skipped mh B e")
      case True
      have "0 < weight adj mh e" by (simp add: weight_def)
      then have "P (bfs_loop adj t mh mp ?B1)"
        using Cons by (intro less.IH drop [OF less.prems Cons True]) simp
      moreover have "bfs_loop adj t mh mp B = bfs_loop adj t mh mp ?B1"
        using True Cons e
        by (cases "shortest_found B") (auto simp add: bfs_loop.simps [of adj t mh mp B] skipped_entry Let_def)
      ultimately show ?thesis by simp
    next
      case False
      obtain d B2 where r: "explore t mp (c, ns, es) (nbrs adj c) ?B1 = (d, B2)" by fastforce
      have run: "bfs_loop adj t mh mp B = (if d then paths B2 else bfs_loop adj t mh mp B2)"
        using False Cons e r by (simp add: bfs_loop.simps [of adj t mh mp B] skipped_entry Let_def)
      note q = Cons [unfolded e] and go = False [unfolded e]
      show ?thesis
      proof (cases d)
        case True
        then show ?thesis using run stop [OF less.prems q go] r by simp
      next
        case d: False
        have i: "Inv B2" using expand [OF less.prems q go] r d by simp
        have "int (length ns) \<le> mh" using go by (simp add: skipped_entry)
        from explore_decreases [OF r this] have "P (bfs_loop adj t mh mp B2)"
          by (intro less.IH i) (simp add: q)
        then show ?thesis using run d by simp
      qed
    qed
  qed
qed

text \<open>The invariant of the loop.\<close>

definition inv_bfs :: "adjacency \<Rightarrow> int \<Rightarrow> int \<Rightarrow> string \<Rightarrow> string \<Rightarrow> bfs \<Rightarrow> bool" where
  "inv_bfs adj mh mp s t B \<longleftrightarrow>
     sound adj mh s t B \<and> (queue B \<noteq> [] \<longrightarrow> near (depth (hd (queue B))) B)
     \<and> (int (length (paths B)) < mp \<or> paths B = [])
     \<and> (\<forall>p \<in> set (paths B). path_length p \<le> path_length (hd (paths B)) + 1)
     \<and> (paths B \<noteq> [] \<longrightarrow> (\<forall>V. walk adj s V t \<longrightarrow> path_length (hd (paths B)) \<le> int (length V)))
     \<and> (\<forall>W. shortest adj mh s t W \<longrightarrow> pending W B)"

lemma shortest_exists:
  assumes "walk adj s V t" and "int (length V) \<le> mh"
  obtains W where "shortest adj mh s t W" and "length W \<le> length V"
proof -
  let ?W = "arg_min length (\<lambda>V. walk adj s V t)"
  have w: "walk adj s ?W t" and m: "\<And>V. walk adj s V t \<Longrightarrow> length ?W \<le> length V"
    using arg_min_nat_lemma [of "\<lambda>V. walk adj s V t" V length] assms(1) by blast+
  have "shortest adj mh s t ?W"
    using w m m [OF assms(1)] assms(2) by (simp add: shortest_def)
  then show ?thesis using that m assms(1) by blast
qed

lemma shortest_length:
  assumes "sound adj mh s t B" and "shortest adj mh s t W" and "p \<in> set (paths B)"
  shows "int (length W) \<le> path_length p"
  using assms by (auto simp: sound_def path_ok_def shortest_def)

text \<open>A skipped entry is not a prefix of a shortest walk.\<close>

lemma skipped_no_prefix:
  assumes "sound adj mh s t B" and "skipped mh B (c, ns, es)" and "entry_ok adj s (c, ns, es)"
    and "shortest adj mh s t W"
  shows "\<not> strict_prefix es W"
proof
  assume "strict_prefix es W"
  then have less: "length es < length W" by (rule prefix_length_less)
  from assms(2) show False
  proof (unfold skipped_entry, elim disjE)
    assume "case shortest_found B of None \<Rightarrow> False | Some m \<Rightarrow> m < int (length ns) - 1"
    then obtain p ps where "paths B = p # ps" "path_length p < int (length es)"
      using assms(1,3) by (auto simp: sound_def entry_ok_def split: list.splits)
    then show False using shortest_length [OF assms(1,4), of p] less by simp
  next
    assume "mh \<le> int (length ns) - 1"
    then show False using assms(3,4) less by (simp add: entry_ok_def shortest_def)
  qed
qed

lemma near_tail:
  assumes "near (depth (hd (queue B))) B" and "queue B = e # q"
  shows "near (depth e) (B\<lparr>queue := q\<rparr>)"
  using assms by (simp add: near_def)

lemma near_head:
  assumes "near d B" and "queue B \<noteq> []"
  shows "near (depth (hd (queue B))) B"
  using assms by (cases "queue B") (fastforce simp: near_def)+

lemma inv_drop:
  assumes "inv_bfs adj mh mp s t B" and "queue B = e # q" and "skipped mh B e"
  shows "inv_bfs adj mh mp s t (B\<lparr>queue := q\<rparr>)"
proof -
  obtain c ns es where e: "e = (c, ns, es)" by (cases e)
  have snd: "sound adj mh s t B" and nr: "near (depth (hd (queue B))) B"
    using assms(1,2) by (simp_all add: inv_bfs_def)
  have ok: "entry_ok adj s (c, ns, es)" using snd assms(2) e by (simp add: sound_def)
  have "pending W (B\<lparr>queue := q\<rparr>)" if "shortest adj mh s t W" for W
    using assms(1,2) that skipped_no_prefix [OF snd assms(3) [unfolded e] ok that] e
    by (auto simp: inv_bfs_def pending_def)
  moreover have "near (depth (hd q)) (B\<lparr>queue := q\<rparr>)" if "q \<noteq> []"
    using near_head [OF near_tail [OF nr assms(2)]] that by simp
  moreover have "sound adj mh s t (B\<lparr>queue := q\<rparr>)" using snd assms(2) by (simp add: sound_def)
  ultimately show ?thesis using assms(1) by (simp add: inv_bfs_def)
qed


lemma inv_paths:
  assumes "inv_bfs adj mh mp s t B" and "queue B = (c, ns, es) # q" and "\<not> skipped mh B (c, ns, es)"
    and "explore t mp (c, ns, es) (nbrs adj c) (B\<lparr>queue := q\<rparr>) = (d, B2)"
  shows "sound adj mh s t B2" and "int (length (paths B2)) \<le> max 1 mp"
    and "\<forall>p \<in> set (paths B2). path_length p \<le> path_length (hd (paths B2)) + 1"
    and "paths B2 \<noteq> [] \<longrightarrow> (\<forall>V. walk adj s V t \<longrightarrow> path_length (hd (paths B2)) \<le> int (length V))"
    and "\<not> d \<longrightarrow> int (length (paths B2)) < mp \<or> paths B2 = []"
    and "d \<longrightarrow> paths B2 \<noteq> [] \<and> mp \<le> int (length (paths B2))"
proof -
  have sndB: "sound adj mh s t B" using assms(1) by (simp add: inv_bfs_def)
  then have ok: "walk adj s es c" "ns = visits s es" using assms(2) by (simp_all add: sound_def entry_ok_def)
  have mh: "int (length es) + 1 \<le> mh" using assms(3) ok by (simp add: skipped_entry)
  have snd1: "sound adj mh s t (B\<lparr>queue := q\<rparr>)" using sndB assms(2) by (simp add: sound_def)
  show "sound adj mh s t B2"
    using explore_sound [OF assms(4) [unfolded ok(2)] snd1 ok(1) subset_refl mh] .
  have few: "int (length (paths (B\<lparr>queue := q\<rparr>))) < mp \<or> paths (B\<lparr>queue := q\<rparr>) = []"
    using assms(1) by (simp add: inv_bfs_def)
  from explore_paths [OF assms(4) [unfolded ok(2)] few] obtain xs where
    xs: "paths B2 = paths B @ xs" "\<forall>p \<in> set xs. path_length p = int (length es) + 1"
    and n: "int (length (paths B2)) \<le> max 1 mp" "d \<longrightarrow> xs \<noteq> [] \<and> mp \<le> int (length (paths B2))"
      "\<not> d \<longrightarrow> int (length (paths B2)) < mp \<or> paths B2 = []"
    by auto
  show "int (length (paths B2)) \<le> max 1 mp" by (rule n)
  show "\<not> d \<longrightarrow> int (length (paths B2)) < mp \<or> paths B2 = []" by (rule n)
  show "d \<longrightarrow> paths B2 \<noteq> [] \<and> mp \<le> int (length (paths B2))" using n(2) xs(1) by simp
  have m: "int (length es) \<le> path_length (hd (paths B))" if "paths B \<noteq> []"
    using assms(3) sndB that ok(2) by (cases "paths B") (auto simp: skipped_entry sound_def)
  show "\<forall>p \<in> set (paths B2). path_length p \<le> path_length (hd (paths B2)) + 1"
  proof (cases "paths B = []")
    case True
    then have "path_length (hd (paths B2)) = int (length es) + 1" if "paths B2 \<noteq> []" using that xs by simp
    then show ?thesis using True xs by fastforce
  next
    case False
    then show ?thesis using assms(1) xs m by (auto simp: inv_bfs_def)
  qed
  show "paths B2 \<noteq> [] \<longrightarrow> (\<forall>V. walk adj s V t \<longrightarrow> path_length (hd (paths B2)) \<le> int (length V))"
  proof (intro impI allI)
    fix V assume ne: "paths B2 \<noteq> []" and V: "walk adj s V t"
    show "path_length (hd (paths B2)) \<le> int (length V)"
    proof (cases "paths B = []")
      case False
      then show ?thesis using assms(1) xs(1) V by (simp add: inv_bfs_def)
    next
      case True
      have "path_length (hd (paths B2)) = int (length es) + 1" using True ne xs by simp
      moreover have "length es < length V"
      proof (rule ccontr)
        assume short: "\<not> length es < length V"
        then have "int (length V) \<le> mh" using mh by simp
        then obtain W where W: "shortest adj mh s t W" "length W \<le> length V" using shortest_exists [OF V] by blast
        then have "pending W B" using assms(1) by (simp add: inv_bfs_def)
        then obtain e where e: "e \<in> set (queue B)" "strict_prefix (snd (snd e)) W" using True by (auto simp: pending_def)
        have "length es \<le> depth e" using assms(1,2) e(1) by (auto simp: inv_bfs_def near_def)
        then show False using prefix_length_less [OF e(2)] W(2) short by simp
      qed
      ultimately show ?thesis by simp
    qed
  qed
qed

lemma inv_expand:
  assumes "inv_bfs adj mh mp s t B" and "queue B = (c, ns, es) # q" and "\<not> skipped mh B (c, ns, es)"
    and "explore t mp (c, ns, es) (nbrs adj c) (B\<lparr>queue := q\<rparr>) = (False, B2)"
  shows "inv_bfs adj mh mp s t B2"
proof -
  note facts = inv_paths [OF assms]
  have sndB: "sound adj mh s t B" and nr: "near (depth (hd (queue B))) B"
    using assms(1,2) by (simp_all add: inv_bfs_def)
  then have ok: "walk adj s es c" "ns = visits s es" using assms(2) by (simp_all add: sound_def entry_ok_def)
  have mh: "int (length es) + 1 \<le> mh" using assms(3) ok by (simp add: skipped_entry)
  have snd1: "sound adj mh s t (B\<lparr>queue := q\<rparr>)" using sndB assms(2) by (simp add: sound_def)
  have "near (length es) B2"
    using explore_near [OF assms(4)] near_tail [OF nr assms(2)] by simp
  then have nr2: "queue B2 \<noteq> [] \<longrightarrow> near (depth (hd (queue B2))) B2" using near_head by blast
  have "pending W B2" if W: "shortest adj mh s t W" for W
  proof -
    have "pending W B" using assms(1) W by (simp add: inv_bfs_def)
    then consider "pending W (B\<lparr>queue := q\<rparr>)" | "strict_prefix es W"
      using assms(2) by (auto simp: pending_def)
    then show ?thesis
    proof cases
      case 1
      then show ?thesis by (rule explore_pending [OF assms(4)])
    next
      case 2
      then obtain x rest where "W = es @ x # rest" by (auto elim: strict_prefixE')
      moreover obtain c' nb where x: "x = (c', nb)" by (cases x)
      ultimately have Weq: "W = es @ (c', nb) # rest" by simp
      have "walk adj s (es @ (c', nb) # rest) t" using W Weq by (simp add: shortest_def)
      then obtain v where "walk adj s es v" "c' = v" "nb \<in> set (nbrs adj v)" by (auto simp: walk_append)
      then have c': "c' = c" and nb: "nb \<in> set (nbrs adj c)"
        using walk_end [OF ok(1)] by simp_all
      have "prefix (es @ [(c, nb)]) W" using Weq c' by (simp add: prefix_def)
      from explore_extends [OF assms(4) [unfolded ok(2)] snd1 ok(1) subset_refl mh W this nb] show ?thesis .
    qed
  qed
  then show ?thesis using facts nr2 by (simp add: inv_bfs_def)
qed

lemma inv_start:
  assumes "s \<noteq> t"
  shows "inv_bfs adj mh mp s t (start_bfs s)"
proof -
  have "pending W (start_bfs s)" if "shortest adj mh s t W" for W
    using that assms by (auto simp: shortest_def pending_def start_bfs_def strict_prefix_def)
  moreover have "sound adj mh s t (start_bfs s)"
    by (auto simp: sound_def start_bfs_def entry_ok_def visits_def split: if_splits intro!: exI [of _ "[]"])
  ultimately show ?thesis
    by (simp add: inv_bfs_def start_bfs_def near_def)
qed

section \<open>Properties\<close>

text \<open>The facts of the search, one by one.\<close>

lemma search_result:
  assumes "s \<noteq> t" and "ps = bfs_find_paths adj s t max_hops max_paths"
  shows "(\<forall>p \<in> set ps. walk adj s (edge_info p) t \<and> node_ids p = visits s (edge_info p)
            \<and> path_length p = int (length (edge_info p)) \<and> path_length p \<le> max_hops
            \<and> path_length p \<le> path_length (hd ps) + 1)
     \<and> int (length ps) \<le> max 1 max_paths
     \<and> (\<forall>V. walk adj s V t \<longrightarrow> int (length V) \<le> max_hops \<longrightarrow> ps \<noteq> [])
     \<and> (\<forall>V. ps \<noteq> [] \<longrightarrow> walk adj s V t \<longrightarrow> path_length (hd ps) \<le> int (length V))
     \<and> (\<forall>W. int (length ps) < max_paths \<longrightarrow> shortest adj max_hops s t W \<longrightarrow> W \<in> edge_info ` set ps)"
proof (cases "s \<in> set (map fst adj)")
  case False
  have "ps = []" using assms(2) False by (simp add: bfs_find_paths_def)
  moreover have "\<not> walk adj s V t" for V
  proof
    assume "walk adj s V t"
    moreover have "nbrs adj s = []" using False by (simp add: nbrs_def map_of_eq_None_iff [THEN iffD2])
    ultimately show False using assms(1) by (cases V) auto
  qed
  ultimately show ?thesis by (simp add: shortest_def)
next
  case True
  let ?P = "\<lambda>ps. (\<forall>p \<in> set ps. path_ok adj max_hops s t p \<and> path_length p \<le> path_length (hd ps) + 1)
     \<and> int (length ps) \<le> max 1 max_paths
     \<and> (\<forall>V. walk adj s V t \<longrightarrow> int (length V) \<le> max_hops \<longrightarrow> ps \<noteq> [])
     \<and> (\<forall>V. ps \<noteq> [] \<longrightarrow> walk adj s V t \<longrightarrow> path_length (hd ps) \<le> int (length V))
     \<and> (\<forall>W. int (length ps) < max_paths \<longrightarrow> shortest adj max_hops s t W \<longrightarrow> W \<in> edge_info ` set ps)"
  have "?P (bfs_loop adj t max_hops max_paths (start_bfs s))"
  proof (rule bfs_loop_rule [where Inv = "inv_bfs adj max_hops max_paths s t", OF inv_start [OF assms(1)] inv_drop inv_expand])
    fix B c ns es q B2
    assume "inv_bfs adj max_hops max_paths s t B" "queue B = (c, ns, es) # q" "\<not> skipped max_hops B (c, ns, es)"
      "explore t max_paths (c, ns, es) (nbrs adj c) (B\<lparr>queue := q\<rparr>) = (True, B2)"
    note facts = inv_paths [OF this]
    then show "?P (paths B2)" by (auto simp: sound_def)
  next
    fix B
    assume inv: "inv_bfs adj max_hops max_paths s t B" and nil: "queue B = []"
    have found: "W \<in> edge_info ` set (paths B)" if "shortest adj max_hops s t W" for W
      using inv nil that by (auto simp: inv_bfs_def pending_def)
    have "paths B \<noteq> []" if "walk adj s V t" "int (length V) \<le> max_hops" for V
      using shortest_exists [OF that] found by (metis empty_iff image_empty list.set(1))
    then show "?P (paths B)" using inv found by (auto simp: inv_bfs_def sound_def)
  qed auto
  moreover have eq: "ps = bfs_loop adj t max_hops max_paths (start_bfs s)"
    using True assms(2) by (simp add: bfs_find_paths_def)
  ultimately show ?thesis unfolding path_ok_def eq by blast
qed


lemma shortest_path_facts:
  assumes "s \<noteq> t" and "ps = bfs_find_paths adj s t max_hops max_paths"
  shows "\<And>p. p \<in> set ps \<Longrightarrow> walk adj s (edge_info p) t \<and> path_length p = int (length (edge_info p)) \<and> int (length (edge_info p)) \<le> max_hops"
    and "int (length ps) \<le> max 1 max_paths"
    and "\<And>V. walk adj s V t \<Longrightarrow> int (length V) \<le> max_hops \<Longrightarrow> ps \<noteq> []"
    and "\<And>V. ps \<noteq> [] \<Longrightarrow> walk adj s V t \<Longrightarrow> path_length (hd ps) \<le> int (length V)"
proof -
  note R = search_result [OF assms]
  show "walk adj s (edge_info p) t \<and> path_length p = int (length (edge_info p)) \<and> int (length (edge_info p)) \<le> max_hops"
    if "p \<in> set ps" for p
    using bspec [OF conjunct1 [OF R] that] by simp
qed (use search_result [OF assms] in blast)+

text \<open>C36: Between different entities the search returns walks of the graph from the source to the
  target with at most \<open>max_hops\<close> edges, at most \<open>max_paths\<close> of them (but one if \<open>max_paths\<close> is not
  positive). If the target can be reached within \<open>max_hops\<close> it finds a path, the first one is a
  shortest, no other is more than one edge longer, and if there is room every shortest walk is
  among them.\<close>

theorem shortest_paths_found:
  assumes "s \<noteq> t" and "ps = bfs_find_paths adj s t max_hops max_paths"
  shows "(\<forall>p \<in> set ps. walk adj s (edge_info p) t \<and> node_ids p = visits s (edge_info p)
            \<and> path_length p = int (length (edge_info p)) \<and> path_length p \<le> max_hops
            \<and> path_length p \<le> path_length (hd ps) + 1)
     \<and> int (length ps) \<le> max 1 max_paths
     \<and> (\<forall>V. walk adj s V t \<longrightarrow> int (length V) \<le> max_hops \<longrightarrow> ps \<noteq> [])
     \<and> (\<forall>V. ps \<noteq> [] \<longrightarrow> walk adj s V t \<longrightarrow> path_length (hd ps) \<le> int (length V))
     \<and> (\<forall>W. int (length ps) < max_paths \<longrightarrow> shortest adj max_hops s t W \<longrightarrow> W \<in> edge_info ` set ps)"
  by (rule search_result [OF assms])

abbreviation demo_relations :: "dict list" where
  "demo_relations \<equiv>
     [[(''subject_id'', PStr ''s''), (''object_id'', PStr ''t''), (''relationship_id'', PStr ''r1''), (''predicate'', PStr ''knows'')],
      [(''subject_id'', PStr ''s''), (''object_id'', PStr ''a''), (''relationship_id'', PStr ''r2'')],
      [(''subject_id'', PStr ''a''), (''object_id'', PStr ''t''), (''relationship_id'', PStr ''r3'')]]"

lemma demo_search:
  "map (\<lambda>p. (node_ids p, path_length p)) (bfs_find_paths (build_adjacency_list demo_relations) ''s'' ''t'' 5 3)
     = [([''s'', ''t''], 1), ([''s'', ''a'', ''t''], 2)]"
  by code_simp

lemma shortest_paths_found_witness:
  "bfs_find_paths (build_adjacency_list demo_relations) ''s'' ''t'' 5 3 \<noteq> []
   \<and> list_all (\<lambda>p. path_length p \<le> 2) (bfs_find_paths (build_adjacency_list demo_relations) ''s'' ''t'' 5 3)"
proof -
  let ?ps = "bfs_find_paths (build_adjacency_list demo_relations) ''s'' ''t'' 5 3"
  have ne: "?ps \<noteq> []" using demo_search by fastforce
  have "path_length (hd ?ps) = 1" using demo_search by (cases ?ps) auto
  moreover have "\<forall>p \<in> set ?ps. path_length p \<le> path_length (hd ?ps) + 1"
    using shortest_paths_found [of "''s''" "''t''", OF _ refl, of "build_adjacency_list demo_relations" 5 3] by blast
  ultimately show ?thesis using ne by (simp add: list_all_iff)
qed

section \<open>Distance in the graph of the relations\<close>

text \<open>The undirected graph of the documents whose two identifiers are given.\<close>

definition related :: "dict list \<Rightarrow> (string \<times> string) set" where
  "related rels = {(v, w). \<exists>rel \<in> set rels.
     (id_of (dget rel ''subject_id'') = Some v \<and> id_of (dget rel ''object_id'') = Some w)
     \<or> (id_of (dget rel ''subject_id'') = Some w \<and> id_of (dget rel ''object_id'') = Some v)}"

lemma nbrs_add_edge: "nbrs (add_edge v nb adj) w = (if w = v then nbrs adj v @ [nb] else nbrs adj w)"
  by (auto simp: nbrs_def add_edge_def update_conv')

lemma nbrs_add_relation:
  "(\<exists>nb \<in> set (nbrs (add_relation rel adj) v). target nb = w)
     \<longleftrightarrow> (\<exists>nb \<in> set (nbrs adj v). target nb = w) \<or> (v, w) \<in> related [rel]"
  by (auto simp: add_relation_def related_def nbrs_add_edge Let_def split: option.split if_splits)

lemma related_Cons: "related (rel # rels) = related [rel] \<union> related rels"
  by (auto simp: related_def)

lemma nbrs_build:
  "(\<exists>nb \<in> set (nbrs (build_adjacency_list rels) v). target nb = w) \<longleftrightarrow> (v, w) \<in> related rels"
proof -
  have "(\<exists>nb \<in> set (nbrs (fold add_relation rels adj) v). target nb = w)
      \<longleftrightarrow> (\<exists>nb \<in> set (nbrs adj v). target nb = w) \<or> (v, w) \<in> related rels" for adj
  proof (induction rels arbitrary: adj)
    case Nil
    then show ?case by (simp add: related_def)
  next
    case (Cons rel rels)
    then show ?case using nbrs_add_relation [of rel adj v w] related_Cons [of rel rels] by auto
  qed
  then show ?thesis by (simp add: build_adjacency_list_def nbrs_def)
qed

lemma walk_related:
  "(\<exists>V. walk (build_adjacency_list rels) s V t \<and> length V = n) \<longleftrightarrow> (s, t) \<in> related rels ^^ n"
proof (induction n arbitrary: s)
  case 0
  then show ?case by auto
next
  case (Suc n)
  have "(\<exists>V. walk (build_adjacency_list rels) s V t \<and> length V = Suc n)
      \<longleftrightarrow> (\<exists>nb \<in> set (nbrs (build_adjacency_list rels) s). \<exists>V. walk (build_adjacency_list rels) (target nb) V t \<and> length V = n)"
  proof
    assume "\<exists>V. walk (build_adjacency_list rels) s V t \<and> length V = Suc n"
    then obtain c nb V where "walk (build_adjacency_list rels) s ((c, nb) # V) t" "length V = n"
      by (auto simp: length_Suc_conv)
    then show "\<exists>nb \<in> set (nbrs (build_adjacency_list rels) s). \<exists>V. walk (build_adjacency_list rels) (target nb) V t \<and> length V = n"
      by auto
  next
    assume "\<exists>nb \<in> set (nbrs (build_adjacency_list rels) s). \<exists>V. walk (build_adjacency_list rels) (target nb) V t \<and> length V = n"
    then obtain nb V where "walk (build_adjacency_list rels) s ((s, nb) # V) t" "length V = n" by auto
    then show "\<exists>V. walk (build_adjacency_list rels) s V t \<and> length V = Suc n" by (metis length_Cons)
  qed
  also have "\<dots> \<longleftrightarrow> (\<exists>w. (s, w) \<in> related rels \<and> (w, t) \<in> related rels ^^ n)"
    unfolding Suc.IH nbrs_build [symmetric] by blast
  also have "\<dots> \<longleftrightarrow> (s, t) \<in> related rels ^^ Suc n" by (blast dest: relpow_Suc_D2 intro: relpow_Suc_I2)
  finally show ?case .
qed

text \<open>The reply's shortest length is the distance of the two entities in the undirected graph of
  the relations when it is at most \<open>max_hops\<close>, and absent when they are further apart or not
  connected.\<close>

theorem reply_distance:
  assumes "find_one entities s \<noteq> None" and "find_one entities t \<noteq> None" and "s \<noteq> t"
  shows "\<exists>R. find_shortest_paths entities relations s t max_hops max_paths = Inr R
     \<and> shortest_length R = (if \<exists>n. int n \<le> max_hops \<and> (s, t) \<in> related relations ^^ n
                            then Some (int (LEAST n. (s, t) \<in> related relations ^^ n)) else None)"
proof -
  let ?adj = "build_adjacency_list relations"
  let ?ps = "bfs_find_paths ?adj s t max_hops max_paths"
  note found = shortest_path_facts [OF assms(3) refl, where adj = ?adj and max_hops = max_hops and max_paths = max_paths]
  have rich: "map rich_length (enrich_paths entities ?ps) = map path_length ?ps"
    by (simp add: enrich_paths_def)
  have len: "shortest_length R = (if ?ps = [] then None else Some (Min (path_length ` set ?ps)))"
    if "find_shortest_paths entities relations s t max_hops max_paths = Inr R" for R
    using that assms rich by (auto simp: find_shortest_paths_def Let_def enrich_paths_def image_image)
  have ex: "\<exists>R. find_shortest_paths entities relations s t max_hops max_paths = Inr R"
    using assms by (auto simp: find_shortest_paths_def Let_def)
  have reach: "(\<exists>n. int n \<le> max_hops \<and> (s, t) \<in> related relations ^^ n) \<longleftrightarrow> ?ps \<noteq> []"
  proof
    assume "\<exists>n. int n \<le> max_hops \<and> (s, t) \<in> related relations ^^ n"
    then obtain n where n: "int n \<le> max_hops" "(s, t) \<in> related relations ^^ n" by blast
    obtain V where "walk ?adj s V t" "length V = n" using n(2) walk_related [THEN iffD2] by blast
    then show "?ps \<noteq> []" using found(3) n(1) by simp
  next
    assume "?ps \<noteq> []"
    then have "hd ?ps \<in> set ?ps" by simp
    from found(1) [OF this] have "walk ?adj s (edge_info (hd ?ps)) t" "int (length (edge_info (hd ?ps))) \<le> max_hops"
      by blast+
    then have "(s, t) \<in> related relations ^^ length (edge_info (hd ?ps))" using walk_related [THEN iffD1] by blast
    then show "\<exists>n. int n \<le> max_hops \<and> (s, t) \<in> related relations ^^ n"
      using \<open>int (length (edge_info (hd ?ps))) \<le> max_hops\<close> by blast
  qed
  have least: "Min (path_length ` set ?ps) = int (LEAST n. (s, t) \<in> related relations ^^ n)" if ne: "?ps \<noteq> []"
  proof -
    let ?V = "edge_info (hd ?ps)"
    have hd: "hd ?ps \<in> set ?ps" using ne by simp
    have V: "walk ?adj s ?V t" "path_length (hd ?ps) = int (length ?V)" using found(1) [OF hd] by blast+
    have "(LEAST n. (s, t) \<in> related relations ^^ n) = length ?V"
    proof (rule Least_equality)
      show "(s, t) \<in> related relations ^^ length ?V" using V(1) walk_related [THEN iffD1] by blast
    next
      fix n assume "(s, t) \<in> related relations ^^ n"
      then obtain W where "walk ?adj s W t" "length W = n" using walk_related [THEN iffD2] by blast
      then show "length ?V \<le> n" using found(4) [OF ne] V(2) by fastforce
    qed
    moreover have "Min (path_length ` set ?ps) = path_length (hd ?ps)"
    proof (rule Min_eqI)
      fix y assume "y \<in> path_length ` set ?ps"
      then obtain p where "p \<in> set ?ps" "y = path_length p" by blast
      then show "path_length (hd ?ps) \<le> y" using found(1) found(4) [OF ne] by metis
    qed (use hd in auto)
    ultimately show ?thesis using V(2) by simp
  qed
  from ex obtain R where R: "find_shortest_paths entities relations s t max_hops max_paths = Inr R" by blast
  show ?thesis
    by (rule exI [of _ R]) (use R len [OF R] reach least in simp)
qed

lemma reply_distance_witness:
  "\<exists>R. find_shortest_paths [[(''entity_id'', PStr ''s'')], [(''entity_id'', PStr ''t'')]] demo_relations ''s'' ''t'' 5 3 = Inr R
     \<and> shortest_length R = (if \<exists>n. int n \<le> 5 \<and> (''s'', ''t'') \<in> related demo_relations ^^ n
         then Some (int (LEAST n. (''s'', ''t'') \<in> related demo_relations ^^ n)) else None)"
  by (rule reply_distance) (simp_all add: find_one_def)

text \<open>The reply is not limited to shortest paths: with a direct relation between two entities
  and a third entity related to both, the two-edge path is returned as well.\<close>

theorem longer_path_returned:
  "case find_shortest_paths [[(''entity_id'', PStr ''s'')], [(''entity_id'', PStr ''t''), (''name'', PStr ''T'')]]
          demo_relations ''s'' ''t'' 5 3 of
     Inl _ \<Rightarrow> False
   | Inr R \<Rightarrow> shortest_length R = Some 1 \<and> total_paths R = 2 \<and> map rich_length (reply_paths R) = [1, 2]"
  by code_simp

end
