(* ===== verification/Pipeline_Run.thy ===== *)
theory Pipeline_Run
  imports Errors Metrics
begin

text \<open>
  \<open>domain/shared/pipeline_runner.py\<close>: resolving stages, checking their configurations and
  running them in order, with the policy on failures and the run's metrics. The stage classes
  are parameters: their name, their configuration class and what \<open>run\<close> does to the world (their
  constructors do not raise).
\<close>

section \<open>Stages\<close>

text \<open>A configuration object is kept as the list of its classes, its own first.\<close>

record 's stage_class =
  cls_name :: string
  stage_name :: string
  config_cls :: "string option"
  stage_run :: "string list \<Rightarrow> ('s, int) act"

record stage_spec =
  spec_stage :: string
  spec_config :: "string list option"

definition STAGE_REGISTRY :: "(string \<times> string) list" where
  "STAGE_REGISTRY =
     [(''clean'', ''CleanStage''), (''chunk'', ''ChunkStage''), (''enrich'', ''EnrichStage''), (''ingest'', ''IngestStage''),
      (''embed'', ''EmbedStage''), (''redundancy'', ''RedundancyStage''), (''trust'', ''TrustStage''),
      (''compress'', ''CompressStage''), (''backfill_transcript'', ''BackfillTranscriptStage''),
      (''graph_extraction'', ''GraphExtractionStage''), (''entity_resolution'', ''EntityResolutionStage''),
      (''graph_construction'', ''GraphConstructionStage''), (''community_detection'', ''CommunityDetectionStage'')]"

definition resolve_stage_class :: "string \<Rightarrow> string res" where
  "resolve_stage_class ref =
     (case map_of STAGE_REGISTRY (str_lower (str_strip ref)) of
        None \<Rightarrow> Inl (Exn ''KeyError'' ([quote] @ ''Unknown stage: '' @ ref @ [quote]))
      | Some c \<Rightarrow> Inr c)"

text \<open>The configuration a stage is run with: its own class's defaults, or the checked one of the spec.\<close>

definition choose_config :: "'s stage_class \<Rightarrow> string list option \<Rightarrow> string list res" where
  "choose_config c cfg =
     (case config_cls c of
        None \<Rightarrow> Inl (Exn ''RuntimeError'' (''Stage '' @ cls_name c @ '' missing ConfigCls''))
      | Some k \<Rightarrow>
          (case cfg of
             None \<Rightarrow> Inr [k]
           | Some ks \<Rightarrow>
               if k \<notin> set ks
               then Inl (Exn ''TypeError'' (''Config type mismatch for stage '' @ cls_name c @ '': expected '' @ k
                          @ '', got '' @ (if ks = [] then [] else hd ks)))
               else Inr ks))"

definition run_spec :: "(string \<Rightarrow> 's stage_class) \<Rightarrow> stage_spec \<Rightarrow> ('s, int) act" where
  "run_spec classes sp =
     bindA (liftR (resolve_stage_class (spec_stage sp))) (\<lambda>k.
       bindA (liftR (choose_config (classes k) (spec_config sp))) (\<lambda>cfg. stage_run (classes k) cfg))"

section \<open>Metrics of a run\<close>

record run_metrics =
  pipeline_runs :: "rat metric"
  pipeline_completed_total :: "rat metric"
  pipeline_failed_total :: "rat metric"
  run_duration :: "rat list metric"
  stage_failures :: "rat metric"

definition pipeline_labels :: "string \<Rightarrow> labels" where
  "pipeline_labels pt = [(''pipeline_type'', PStr pt)]"

definition count_run :: "string \<Rightarrow> run_metrics \<Rightarrow> run_metrics" where
  "count_run pt M = M\<lparr>pipeline_runs := counter_inc 1 (Some (pipeline_labels pt)) (pipeline_runs M)\<rparr>"

definition count_completed :: "string \<Rightarrow> run_metrics \<Rightarrow> run_metrics" where
  "count_completed pt M = M\<lparr>pipeline_completed_total := counter_inc 1 (Some (pipeline_labels pt)) (pipeline_completed_total M)\<rparr>"

definition count_failed :: "string \<Rightarrow> run_metrics \<Rightarrow> run_metrics" where
  "count_failed pt M = M\<lparr>pipeline_failed_total := counter_inc 1 (Some (pipeline_labels pt)) (pipeline_failed_total M)\<rparr>"

definition observe_duration :: "string \<Rightarrow> rat \<Rightarrow> run_metrics \<Rightarrow> run_metrics" where
  "observe_duration pt d M = M\<lparr>run_duration := observe d (Some (pipeline_labels pt)) (run_duration M)\<rparr>"

definition count_stage_failure :: "string \<Rightarrow> string \<Rightarrow> run_metrics \<Rightarrow> run_metrics" where
  "count_stage_failure pt st M =
     M\<lparr>stage_failures := counter_inc 1 (Some (pipeline_labels pt @ [(''stage'', PStr st)])) (stage_failures M)\<rparr>"

section \<open>Running the stages\<close>

text \<open>The state of a run: the world the stages change, and the metrics.\<close>

type_synonym 's run_state = "'s \<times> run_metrics"

record run_params =
  stop_on_error :: bool
  pipeline_type :: string
  elapsed_time :: rat
  str_of :: "pyval \<Rightarrow> string"
  module :: string

definition pipeline_error :: "run_params \<Rightarrow> stage_spec \<Rightarrow> nat \<Rightarrow> nat \<Rightarrow> nat \<Rightarrow> exn \<Rightarrow> exn" where
  "pipeline_error P sp i n_specs n_ran e =
     as_exn (init_error (str_of P) ''PipelineError'' (''Pipeline failed at stage '' @ spec_stage sp)
       (Some [(''stage'', PStr (spec_stage sp)), (''stage_index'', PInt (int i)), (''total_stages'', PInt (int n_specs)),
              (''stages_completed'', PInt (int n_ran))]) (Some e))"

definition failed_exit :: "run_params \<Rightarrow> run_metrics \<Rightarrow> run_metrics" where
  "failed_exit P M = observe_duration (pipeline_type P) (elapsed_time P) (count_failed (pipeline_type P) M)"

definition finish_run :: "run_params \<Rightarrow> nat \<Rightarrow> ('s run_state, int) act" where
  "finish_run P failed = (\<lambda>(s, M).
     (Inr (if failed = 0 then 0 else 1),
      (s, observe_duration (pipeline_type P) (elapsed_time P)
            (if failed = 0 then count_completed (pipeline_type P) M else count_failed (pipeline_type P) M))))"

text \<open>
  The loop over the specs from number \<open>i\<close> on, with \<open>n_ran\<close> and \<open>failed\<close> the totals. A failed stage
  with an exit code is counted under the name of the stage, a crashed one under the spec's.
\<close>

fun run_specs ::
  "(string \<Rightarrow> 's stage_class) \<Rightarrow> run_params \<Rightarrow> nat \<Rightarrow> stage_spec list \<Rightarrow> nat \<Rightarrow> nat \<Rightarrow> nat \<Rightarrow> ('s run_state, int) act" where
  "run_specs classes P n_specs [] i n_ran failed s = finish_run P failed s"
| "run_specs classes P n_specs (sp # sps) i n_ran failed (s, M) =
     (case run_spec classes sp s of
        (Inr code, s') \<Rightarrow>
          if code \<noteq> 0
          then (let name = (case resolve_stage_class (spec_stage sp) of Inr k \<Rightarrow> stage_name (classes k) | Inl _ \<Rightarrow> []);
                    M' = count_stage_failure (pipeline_type P) name M
                in if stop_on_error P then (Inr code, (s', failed_exit P M'))
                   else run_specs classes P n_specs sps (i + 1) (n_ran + 1) (failed + 1) (s', M'))
          else run_specs classes P n_specs sps (i + 1) (n_ran + 1) failed (s', M)
      | (Inl e, s') \<Rightarrow>
          if \<not> is_Exception e then (Inl e, (s', M))
          else (let M' = count_stage_failure (pipeline_type P) (spec_stage sp) M
                in if stop_on_error P
                   then (Inl (pipeline_error P sp i n_specs n_ran e), (s', failed_exit P M'))
                   else run_specs classes P n_specs sps (i + 1) n_ran (failed + 1) (s', M')))"

definition run_body :: "(string \<Rightarrow> 's stage_class) \<Rightarrow> run_params \<Rightarrow> stage_spec list \<Rightarrow> ('s run_state, int) act" where
  "run_body classes P specs = (\<lambda>(s, M). run_specs classes P (length specs) specs 1 0 0 (s, count_run (pipeline_type P) M))"

text \<open>\<open>PipelineRunner.run\<close> under its decorator, which logs and raises again.\<close>

definition runner_run :: "(string \<Rightarrow> 's stage_class) \<Rightarrow> run_params \<Rightarrow> stage_spec list \<Rightarrow> ('s run_state logged, pyval) act" where
  "runner_run classes P specs =
     handle_errors \<lparr> fallback = PNone, log_traceback = True, capture_context = True, reraise = True, log_level = 40 \<rparr>
       (module P) ''run'' (bindA (run_body classes P specs) (\<lambda>code. ret (PInt code)))"

end
