(* ===== verification/Stage_Selection.thy ===== *)
theory Stage_Selection
  imports Pipeline_Run
begin

text \<open>
  \<open>domain/graphrag/pipeline.py\<close>: parsing a stage selection, closing it under the stages'
  dependencies, running the selected stages and resuming a run. \<open>interr\<close> is the text of the
  \<open>ValueError\<close> of \<open>int\<close>, a parameter; the warning on the order of a selection only logs.
\<close>

section \<open>Stages and dependencies\<close>

definition STAGE_ORDER :: "string list" where
  "STAGE_ORDER = [''graph_extraction'', ''entity_resolution'', ''graph_construction'', ''community_detection'']"

definition STAGE_DEPENDENCIES :: "(string \<times> string list) list" where
  "STAGE_DEPENDENCIES =
     [(''graph_extraction'', []), (''entity_resolution'', [''graph_extraction'']),
      (''graph_construction'', [''entity_resolution'']), (''community_detection'', [''graph_construction''])]"

definition STAGE_NAME_MAP :: "(string \<times> string) list" where
  "STAGE_NAME_MAP =
     [(''extraction'', ''graph_extraction''), (''resolution'', ''entity_resolution''),
      (''construction'', ''graph_construction''), (''detection'', ''community_detection''),
      (''graph_extraction'', ''graph_extraction''), (''entity_resolution'', ''entity_resolution''),
      (''graph_construction'', ''graph_construction''), (''community_detection'', ''community_detection'')]"

section \<open>Parsing\<close>

definition value_error :: "string \<Rightarrow> exn" where
  "value_error msg = Exn ''ValueError'' msg"

text \<open>\<open>s.split(sep)\<close> without a limit.\<close>

definition split_all :: "char \<Rightarrow> string \<Rightarrow> string list" where
  "split_all sep s = str_split_n sep (length s) [] s"

text \<open>\<open>start, end = map(int, parts)\<close>: the parts are read one by one, the third is read before there are too many.\<close>

fun unpack2 :: "(string \<Rightarrow> string) \<Rightarrow> string list \<Rightarrow> string + (int \<times> int)" where
  "unpack2 interr (p # q # rest) =
     (case (int_of_str p, int_of_str q) of
        (None, _) \<Rightarrow> Inl (interr p)
      | (Some i, None) \<Rightarrow> Inl (interr q)
      | (Some i, Some j) \<Rightarrow>
          (case rest of
             [] \<Rightarrow> Inr (i, j)
           | r # _ \<Rightarrow> (case int_of_str r of None \<Rightarrow> Inl (interr r)
                      | Some _ \<Rightarrow> Inl ''too many values to unpack (expected 2)'')))"
| "unpack2 interr _ = Inl ''not enough values to unpack (expected 2)''"

definition parse_range :: "(string \<Rightarrow> string) \<Rightarrow> string \<Rightarrow> string list res" where
  "parse_range interr stage_input =
     (case (case unpack2 interr (split_all (CHR ''-'') stage_input) of
              Inl m \<Rightarrow> Inl m
            | Inr (first, stop) \<Rightarrow>
                if first < 1 \<or> stop > int (length STAGE_ORDER) \<or> first > stop
                then Inl (''Invalid stage range: '' @ stage_input @ ''. Must be between 1 and '' @ str_of_int (int (length STAGE_ORDER)))
                else Inr (map (\<lambda>i. STAGE_ORDER ! nat (i - 1)) [first..stop]))
      of Inl m \<Rightarrow> Inl (value_error (''Invalid stage range format: '' @ stage_input @ ''. '' @ m))
       | Inr sts \<Rightarrow> Inr sts)"

definition valid_names :: string where
  "valid_names = ''['' @ str_join '', '' (map (\<lambda>n. [quote] @ n @ [quote]) (map fst STAGE_NAME_MAP)) @ '']''"

text \<open>
  A single value. An index out of range raises \<open>ValueError\<close> inside the \<open>try\<close>, so it is taken for
  a name like any other text.
\<close>

definition parse_one :: "string \<Rightarrow> string res" where
  "parse_one part =
     (case (case int_of_str part of
              None \<Rightarrow> None
            | Some idx \<Rightarrow> if idx < 1 \<or> idx > int (length STAGE_ORDER) then None else Some (STAGE_ORDER ! nat (idx - 1)))
      of Some st \<Rightarrow> Inr st
       | None \<Rightarrow>
           (case map_of STAGE_NAME_MAP (str_lower part) of
              Some st \<Rightarrow> Inr st
            | None \<Rightarrow> Inl (value_error (''Unknown stage name: '' @ part @ ''. Valid stages: '' @ valid_names))))"

fun parse_parts :: "string list \<Rightarrow> string list res" where
  "parse_parts [] = Inr []"
| "parse_parts (p # ps) =
     (case parse_one p of Inl e \<Rightarrow> Inl e
      | Inr st \<Rightarrow> (case parse_parts ps of Inl e \<Rightarrow> Inl e | Inr sts \<Rightarrow> Inr (st # sts)))"

definition parse_stage_selection :: "(string \<Rightarrow> string) \<Rightarrow> string option \<Rightarrow> string list option res" where
  "parse_stage_selection interr stage_input =
     (case stage_input of
        None \<Rightarrow> Inr None
      | Some text \<Rightarrow>
          if text = [] \<or> str_strip text = [] then Inr None
          else (let s = str_strip text in
                map_sum id Some
                  (if CHR ''-'' \<in> set s \<and> CHR '','' \<notin> set s then parse_range interr s
                   else if CHR '','' \<in> set s then parse_parts (map str_strip (split_all (CHR '','') s))
                   else map_sum id (\<lambda>st. [st]) (parse_one s))))"

section \<open>Dependencies\<close>

fun rank :: "string list \<Rightarrow> string \<Rightarrow> nat" where
  "rank [] s = 0"
| "rank (x # xs) s = (if x = s then 0 else Suc (rank xs s))"

lemma dependency_rank:
  assumes "map_of STAGE_DEPENDENCIES s = Some deps" and "d \<in> set deps"
  shows "rank STAGE_ORDER d < rank STAGE_ORDER s"
proof -
  have "list_all (\<lambda>(s, ds). list_all (\<lambda>d. rank STAGE_ORDER d < rank STAGE_ORDER s) ds) STAGE_DEPENDENCIES"
    by code_simp
  then show ?thesis using map_of_SomeD [OF assms(1)] assms(2) by (auto simp: list_all_iff)
qed

definition direct_deps :: "string \<Rightarrow> string list" where
  "direct_deps s = (case map_of STAGE_DEPENDENCIES s of None \<Rightarrow> [] | Some ds \<Rightarrow> ds)"

function get_stage_dependencies :: "string \<Rightarrow> string list" where
  "get_stage_dependencies s =
     fold (\<lambda>dep all_deps.
         let all_deps = all_deps @ get_stage_dependencies dep
         in if dep \<notin> set all_deps then all_deps @ [dep] else all_deps)
       (direct_deps s) []"
  by pat_completeness auto
termination
  by (relation "measure (rank STAGE_ORDER)")
    (auto simp: direct_deps_def dest: dependency_rank [OF sym] split: option.splits)

declare get_stage_dependencies.simps [simp del]

definition validate_stage_dependencies :: "string list \<Rightarrow> string list" where
  "validate_stage_dependencies selected =
     concat (map (\<lambda>st. filter (\<lambda>dep. dep \<notin> set selected) (get_stage_dependencies st)) selected)"

definition resolve_stage_selection :: "string list option \<Rightarrow> bool \<Rightarrow> (string list \<Rightarrow> string) \<Rightarrow> string list res" where
  "resolve_stage_selection selected auto_include_deps repr =
     (case selected of
        None \<Rightarrow> Inr STAGE_ORDER
      | Some sel \<Rightarrow>
          (let missing = validate_stage_dependencies sel
           in if missing \<noteq> [] \<and> \<not> auto_include_deps
              then Inl (value_error (''Selected stages '' @ repr sel @ '' are missing dependencies: '' @ repr missing
                     @ ''. Either include them or use auto_include_deps=True''))
              else Inr (filter (\<lambda>st. st \<in> set (sel @ missing)) STAGE_ORDER)))"

section \<open>Specs and runs\<close>

text \<open>\<open>configs\<close> gives the configuration of each of the four stages.\<close>

definition create_stage_specs :: "(string \<Rightarrow> string list option) \<Rightarrow> string list option \<Rightarrow> stage_spec list" where
  "create_stage_specs configs stage_filter =
     (let all_specs = map (\<lambda>st. \<lparr> spec_stage = st, spec_config = configs st \<rparr>) STAGE_ORDER
      in case stage_filter of None \<Rightarrow> all_specs | Some sel \<Rightarrow> filter (\<lambda>sp. spec_stage sp \<in> set sel) all_specs)"

record 's graphrag =
  gr_classes :: "string \<Rightarrow> 's stage_class"
  gr_params :: run_params
  gr_configs :: "string \<Rightarrow> string list option"
  gr_interr :: "string \<Rightarrow> string"
  gr_repr :: "string list \<Rightarrow> string"

definition run_stages :: "'s graphrag \<Rightarrow> string option \<Rightarrow> ('s run_state logged, pyval) act" where
  "run_stages R stage_selection =
     bindA (liftR (parse_stage_selection (gr_interr R) stage_selection)) (\<lambda>parsed.
       bindA (liftR (resolve_stage_selection parsed True (gr_repr R))) (\<lambda>resolved.
         runner_run (gr_classes R) (gr_params R) (create_stage_specs (gr_configs R) (Some resolved))))"

text \<open>\<open>run_stage\<close>: one stage of the pipeline's own specs, in a runner that stops on errors.\<close>

definition run_stage :: "'s graphrag \<Rightarrow> stage_spec list \<Rightarrow> string \<Rightarrow> ('s run_state logged, pyval) act" where
  "run_stage R specs name =
     (case find (\<lambda>sp. spec_stage sp = name) specs of
        Some sp \<Rightarrow> runner_run (gr_classes R) ((gr_params R)\<lparr>stop_on_error := True\<rparr>) [sp]
      | None \<Rightarrow> raise (value_error (''Unknown stage: '' @ name)))"

section \<open>Resuming\<close>

text \<open>\<open>chunks\<close> is the number of chunks, \<open>counts\<close> how many have completed each stage.\<close>

definition detect_stage_completion :: "nat \<Rightarrow> (string \<Rightarrow> nat) \<Rightarrow> (string \<times> rat) list" where
  "detect_stage_completion chunks counts =
     (if chunks = 0 then map (\<lambda>st. (st, 0)) STAGE_ORDER
      else map (\<lambda>st. (st, of_nat (counts st) / of_nat chunks)) STAGE_ORDER)"

definition ratio :: "(string \<times> rat) list \<Rightarrow> string \<Rightarrow> rat" where
  "ratio ratios st = (case map_of ratios st of None \<Rightarrow> 0 | Some r \<Rightarrow> r)"

definition get_stages_to_run :: "(string \<times> rat) list \<Rightarrow> rat \<Rightarrow> string list" where
  "get_stages_to_run ratios threshold = filter (\<lambda>st. ratio ratios st < threshold) STAGE_ORDER"

definition get_last_completed_stage :: "(string \<times> rat) list \<Rightarrow> rat \<Rightarrow> string option" where
  "get_last_completed_stage ratios threshold =
     (let complete = takeWhile (\<lambda>st. ratio ratios st \<ge> threshold) STAGE_ORDER
      in if complete = [] then None else Some (last complete))"

definition run_with_resume :: "'s graphrag \<Rightarrow> nat \<Rightarrow> (string \<Rightarrow> nat) \<Rightarrow> rat \<Rightarrow> ('s run_state logged, pyval) act" where
  "run_with_resume R chunks counts threshold =
     (let to_run = get_stages_to_run (detect_stage_completion chunks counts) threshold
      in if to_run = [] then ret (PInt 0) else run_stages R (Some (str_join '','' to_run)))"

end
