(* ===== verification/Stage_Facts.thy ===== *)
theory Stage_Facts
  imports Stage_Selection Metrics_Facts "HOL-Library.Sublist"
begin

text \<open>
  What a stage selection runs: the stages up to the last selected one, in pipeline order; what
  resuming runs: completed stages again; and what the runner returns and counts, against a
  reference that only lists the stages' results.
\<close>

section \<open>Prefixes of the stage order\<close>

lemma rank_take: "distinct xs \<Longrightarrow> filter (\<lambda>s. rank xs s < k) xs = take k xs"
proof (induction xs arbitrary: k)
  case (Cons x xs)
  have "rank (x # xs) s < k \<longleftrightarrow> rank xs s < k - 1" if "s \<in> set xs" for s
    using Cons.prems that by auto
  then have "filter (\<lambda>s. rank (x # xs) s < k) xs = filter (\<lambda>s. rank xs s < k - 1) xs"
    by (simp cong: filter_cong)
  then show ?case using Cons by (cases k) simp_all
qed simp

lemma rank_before:
  "x \<in> set xs \<Longrightarrow> s \<in> set xs \<Longrightarrow> s \<in> set (takeWhile (\<lambda>y. y \<noteq> x) xs) \<longleftrightarrow> rank xs s < rank xs x"
proof (induction xs)
  case (Cons y ys)
  then show ?case by (cases "y = x"; cases "y = s") simp_all
qed simp

lemma rank_inj: "x \<in> set xs \<Longrightarrow> s \<in> set xs \<Longrightarrow> rank xs s = rank xs x \<Longrightarrow> s = x"
  by (induction xs) (auto split: if_splits)

lemma order_distinct: "distinct STAGE_ORDER"
  by (simp add: STAGE_ORDER_def)

lemma deps_chain:
  "get_stage_dependencies ''graph_extraction'' = []"
  "get_stage_dependencies ''entity_resolution'' = [''graph_extraction'']"
  "get_stage_dependencies ''graph_construction'' = [''graph_extraction'', ''entity_resolution'']"
  "get_stage_dependencies ''community_detection'' = [''graph_extraction'', ''entity_resolution'', ''graph_construction'']"
proof -
  show 1: "get_stage_dependencies ''graph_extraction'' = []"
    by (simp add: get_stage_dependencies.simps [of "''graph_extraction''"] direct_deps_def STAGE_DEPENDENCIES_def)
  show 2: "get_stage_dependencies ''entity_resolution'' = [''graph_extraction'']"
    by (simp add: get_stage_dependencies.simps [of "''entity_resolution''"] direct_deps_def STAGE_DEPENDENCIES_def 1)
  show 3: "get_stage_dependencies ''graph_construction'' = [''graph_extraction'', ''entity_resolution'']"
    by (simp add: get_stage_dependencies.simps [of "''graph_construction''"] direct_deps_def STAGE_DEPENDENCIES_def 2)
  show "get_stage_dependencies ''community_detection'' = [''graph_extraction'', ''entity_resolution'', ''graph_construction'']"
    by (simp add: get_stage_dependencies.simps [of "''community_detection''"] direct_deps_def STAGE_DEPENDENCIES_def 3)
qed

lemma deps_before: "x \<in> set STAGE_ORDER \<Longrightarrow> get_stage_dependencies x = takeWhile (\<lambda>y. y \<noteq> x) STAGE_ORDER"
  unfolding STAGE_ORDER_def set_simps insert_iff empty_iff
  by (elim disjE FalseE) (simp_all only: deps_chain, simp_all)

text \<open>The stages a non-empty selection comes to.\<close>

definition up_to :: "string list \<Rightarrow> string list" where
  "up_to sel = take (Suc (Max (rank STAGE_ORDER ` set sel))) STAGE_ORDER"

lemma resolve_up_to:
  assumes "sel \<noteq> []" and "set sel \<subseteq> set STAGE_ORDER"
  shows "resolve_stage_selection (Some sel) True repr = Inr (up_to sel)"
proof -
  let ?m = "Max (rank STAGE_ORDER ` set sel)"
  have "st \<in> set (sel @ validate_stage_dependencies sel) \<longleftrightarrow> rank STAGE_ORDER st < Suc ?m" if "st \<in> set STAGE_ORDER" for st
  proof
    assume "st \<in> set (sel @ validate_stage_dependencies sel)"
    then consider "st \<in> set sel" | x where "x \<in> set sel" "st \<in> set (get_stage_dependencies x)"
      by (auto simp: validate_stage_dependencies_def)
    then obtain x where "x \<in> set sel" "rank STAGE_ORDER st \<le> rank STAGE_ORDER x"
    proof cases
      case 2
      have "x \<in> set STAGE_ORDER" using assms(2) 2(1) by blast
      then have "rank STAGE_ORDER st < rank STAGE_ORDER x" using 2(2) \<open>st \<in> set STAGE_ORDER\<close> deps_before [of x] rank_before [of x STAGE_ORDER st] by simp
      then show ?thesis using that 2(1) by simp
    qed (use that in auto)
    then show "rank STAGE_ORDER st < Suc ?m" by (meson List.finite_set Max_ge finite_imageI image_eqI le_imp_less_Suc le_trans)
  next
    assume "rank STAGE_ORDER st < Suc ?m"
    then obtain x where x: "x \<in> set sel" "rank STAGE_ORDER st \<le> rank STAGE_ORDER x"
      using assms(1) by (auto simp: less_Suc_eq_le Max_ge_iff)
    then have xo: "x \<in> set STAGE_ORDER" using assms(2) by blast
    show "st \<in> set (sel @ validate_stage_dependencies sel)"
    proof (cases "rank STAGE_ORDER st = rank STAGE_ORDER x")
      case True
      then show ?thesis using rank_inj [OF xo that] x(1) by simp
    next
      case False
      then have "st \<in> set (get_stage_dependencies x)"
        using x(2) rank_before [OF xo that] deps_before [OF xo] by simp
      then show ?thesis using x(1) by (auto simp: validate_stage_dependencies_def)
    qed
  qed
  then have "filter (\<lambda>st. st \<in> set (sel @ validate_stage_dependencies sel)) STAGE_ORDER
      = filter (\<lambda>st. rank STAGE_ORDER st < Suc ?m) STAGE_ORDER"
    by (intro filter_cong) auto
  also have "\<dots> = up_to sel" by (simp add: up_to_def rank_take order_distinct)
  finally show ?thesis by (simp add: resolve_stage_selection_def Let_def)
qed

section \<open>Parsing\<close>

lemma nth_order: "1 \<le> i \<Longrightarrow> i \<le> int (length STAGE_ORDER) \<Longrightarrow> STAGE_ORDER ! nat (i - 1) \<in> set STAGE_ORDER"
  by (intro nth_mem) auto

lemma name_map_known: "map_of STAGE_NAME_MAP n = Some st \<Longrightarrow> st \<in> set STAGE_ORDER"
proof -
  have "list_all (\<lambda>(n, st). st \<in> set STAGE_ORDER) STAGE_NAME_MAP" by code_simp
  then show "map_of STAGE_NAME_MAP n = Some st \<Longrightarrow> ?thesis"
    by (auto simp: list_all_iff dest: map_of_SomeD)
qed

lemma parse_one_known: "parse_one p = Inr st \<Longrightarrow> st \<in> set STAGE_ORDER"
  by (auto simp: parse_one_def nth_order name_map_known split: option.splits if_splits)

lemma parse_parts_known: "parse_parts ps = Inr sts \<Longrightarrow> set sts \<subseteq> set STAGE_ORDER \<and> length sts = length ps"
  by (induction ps arbitrary: sts) (auto simp: parse_one_known split: sum.splits)

lemma parse_range_known: "parse_range interr s = Inr sts \<Longrightarrow> set sts \<subseteq> set STAGE_ORDER \<and> sts \<noteq> []"
  by (auto simp: parse_range_def nth_order split: sum.splits if_splits prod.splits)

lemma parse_known:
  assumes "parse_stage_selection interr sel = Inr (Some sts)"
  shows "set sts \<subseteq> set STAGE_ORDER"
  using assms
  by (auto simp: parse_stage_selection_def Let_def map_sum_def parse_one_known
      dest: parse_range_known parse_parts_known split: option.splits if_splits sum.splits)


section \<open>The runner against a reference\<close>

text \<open>A cancellation or an exit, which the runner does not catch.\<close>

definition fatal :: "int res \<Rightarrow> bool" where
  "fatal r = (case r of Inl e \<Rightarrow> \<not> is_Exception e | Inr _ \<Rightarrow> False)"

text \<open>The results of the stages that are attempted, in order.\<close>

fun attempts :: "(string \<Rightarrow> 's stage_class) \<Rightarrow> bool \<Rightarrow> stage_spec list \<Rightarrow> 's \<Rightarrow> int res list \<times> 's" where
  "attempts classes stop [] s = ([], s)"
| "attempts classes stop (sp # sps) s =
     (case run_spec classes sp s of (r, s') \<Rightarrow>
        if stop \<and> r \<noteq> Inr 0 \<or> fatal r then ([r], s')
        else (case attempts classes stop sps s' of (rs, s'') \<Rightarrow> (r # rs, s'')))"

text \<open>What the caller gets for those results.\<close>

fun answer :: "bool \<Rightarrow> nat \<Rightarrow> int res list \<Rightarrow> int res \<Rightarrow> bool" where
  "answer stop n [] r = (r = Inr (if n = 0 then 0 else 1))"
| "answer stop n (x # xs) r =
     (case x of
        Inr code \<Rightarrow> if code = 0 then answer stop n xs r else if stop then r = Inr code else answer stop (Suc n) xs r
      | Inl e \<Rightarrow> if \<not> is_Exception e then r = Inl e
                 else if stop then (\<exists>m. r = Inl (Exn ''PipelineError'' m)) else answer stop (Suc n) xs r)"

lemma run_specs_answer:
  assumes "run_specs classes P n_specs sps i n_ran failed (s, M) = (r, (s', M'))"
  shows "s' = snd (attempts classes (stop_on_error P) sps s)
     \<and> answer (stop_on_error P) failed (fst (attempts classes (stop_on_error P) sps s)) r"
  using assms
proof (induction sps arbitrary: i n_ran failed s M)
  case Nil
  then show ?case by (auto simp: finish_run_def)
next
  case (Cons sp sps)
  obtain x s1 where x: "run_spec classes sp s = (x, s1)" by fastforce
  obtain rs w where att: "attempts classes (stop_on_error P) sps s1 = (rs, w)" by fastforce
  have IH: "run_specs classes P n_specs sps i n f (s1, M1) = (r, (s', M')) \<Longrightarrow> s' = w \<and> answer (stop_on_error P) f rs r"
    for i n f M1 using Cons.IH [of i n f s1 M1] att by simp
  show ?case
  proof (cases x)
    case (Inl e)
    then show ?thesis using Cons.prems x att
      by (auto simp: Let_def fatal_def pipeline_error_def as_exn_def init_error_def dest!: IH split: if_splits)
  next
    case (Inr code)
    then show ?thesis using Cons.prems x att
      by (auto simp: Let_def fatal_def dest!: IH split: if_splits)
  qed
qed

text \<open>The metrics of a run, for its pipeline type.\<close>

definition runs_of :: "string \<Rightarrow> run_metrics \<Rightarrow> rat" where
  "runs_of pt M = counter_get (Some (pipeline_labels pt)) (pipeline_runs M)"

definition completed_of :: "string \<Rightarrow> run_metrics \<Rightarrow> rat" where
  "completed_of pt M = counter_get (Some (pipeline_labels pt)) (pipeline_completed_total M)"

definition failed_of :: "string \<Rightarrow> run_metrics \<Rightarrow> rat" where
  "failed_of pt M = counter_get (Some (pipeline_labels pt)) (pipeline_failed_total M)"

lemma metric_effects [simp]:
  "completed_of pt (count_completed pt M) = completed_of pt M + 1" "completed_of pt (count_failed pt M) = completed_of pt M"
  "failed_of pt (count_failed pt M) = failed_of pt M + 1" "failed_of pt (count_completed pt M) = failed_of pt M"
  "completed_of pt (observe_duration pt d M) = completed_of pt M" "failed_of pt (observe_duration pt d M) = failed_of pt M"
  "completed_of pt (count_stage_failure pt st M) = completed_of pt M" "failed_of pt (count_stage_failure pt st M) = failed_of pt M"
  "runs_of pt (count_completed pt M) = runs_of pt M" "runs_of pt (count_failed pt M) = runs_of pt M"
  "runs_of pt (observe_duration pt d M) = runs_of pt M" "runs_of pt (count_stage_failure pt st M) = runs_of pt M"
  "completed_of pt (count_run pt M) = completed_of pt M" "failed_of pt (count_run pt M) = failed_of pt M"
  "runs_of pt (count_run pt M) = runs_of pt M + 1"
  by (simp_all add: completed_of_def failed_of_def runs_of_def count_completed_def count_failed_def observe_duration_def
      count_stage_failure_def count_run_def counter.get_upd)

lemma failed_exit_effects [simp]:
  "completed_of (pipeline_type P) (failed_exit P M) = completed_of (pipeline_type P) M"
  "failed_of (pipeline_type P) (failed_exit P M) = failed_of (pipeline_type P) M + 1"
  "runs_of (pipeline_type P) (failed_exit P M) = runs_of (pipeline_type P) M"
  by (simp_all add: failed_exit_def)

text \<open>A run ends as completed exactly when it returns 0, as failed otherwise, unless a cancellation ends it.\<close>

lemma run_specs_metrics:
  assumes "run_specs classes P n_specs sps i n_ran failed (s, M) = (r, (s', M'))"
  shows "runs_of (pipeline_type P) M' = runs_of (pipeline_type P) M
     \<and> completed_of (pipeline_type P) M' = completed_of (pipeline_type P) M + (if r = Inr 0 then 1 else 0)
     \<and> failed_of (pipeline_type P) M' = failed_of (pipeline_type P) M + (if r = Inr 0 \<or> fatal r then 0 else 1)"
  using assms
proof (induction sps arbitrary: i n_ran failed s M)
  case Nil
  then show ?case by (cases "failed = 0") (auto simp: finish_run_def fatal_def)
next
  case (Cons sp sps)
  obtain x s1 where x: "run_spec classes sp s = (x, s1)" by fastforce
  show ?case
  proof (cases x)
    case (Inl e)
    have pe: "is_Exception (pipeline_error P sp i n_specs n_ran e)"
      by (simp add: pipeline_error_def as_exn_def init_error_def is_Exception_def Let_def)
    show ?thesis using Cons.prems x Inl pe
      by (auto simp: Let_def fatal_def dest!: Cons.IH split: if_splits)
  next
    case (Inr code)
    then show ?thesis using Cons.prems x
      by (auto simp: Let_def fatal_def dest!: Cons.IH split: if_splits)
  qed
qed

section \<open>Properties\<close>

text \<open>C39: The runner attempts the stages in order and leaves the world as their attempts do. When it
  does not stop on errors it attempts all of them and returns 0 if all return 0 and 1
  otherwise; when it does, it ends at the first failure, with that exit code, or with a
  \<open>PipelineError\<close> for an exception. Each run is counted once as started, and as completed
  exactly when it returns 0, as failed otherwise (a cancellation is counted as neither).\<close>

theorem runner_result:
  assumes "runner_run classes P specs ((s, M), lg) = (r, ((s', M'), lg'))"
  shows "\<exists>c. r = map_sum id PInt c
     \<and> s' = snd (attempts classes (stop_on_error P) specs s)
     \<and> answer (stop_on_error P) 0 (fst (attempts classes (stop_on_error P) specs s)) c
     \<and> runs_of (pipeline_type P) M' = runs_of (pipeline_type P) M + 1
     \<and> completed_of (pipeline_type P) M' = completed_of (pipeline_type P) M + (if c = Inr 0 then 1 else 0)
     \<and> failed_of (pipeline_type P) M' = failed_of (pipeline_type P) M + (if c = Inr 0 \<or> fatal c then 0 else 1)"
proof -
  obtain c s1 M1 where run: "run_specs classes P (length specs) specs 1 0 0 (s, count_run (pipeline_type P) M) = (c, (s1, M1))"
    by (metis prod.exhaust)
  have "r = map_sum id PInt c" "s' = s1" "M' = M1"
    using assms run
    by (cases c; auto simp: runner_run_def handle_errors_def run_body_def bindA_def ret_def Let_def split: if_splits)+
  then show ?thesis using run_specs_answer [OF run] run_specs_metrics [OF run]
    by (intro exI [of _ c] conjI) simp_all
qed

definition demo_class :: "string \<Rightarrow> nat stage_class" where
  "demo_class k = \<lparr> cls_name = k, stage_name = k, config_cls = Some ''Config'',
     stage_run = (\<lambda>_ n. (if n = 1 then Inl (Exn ''RuntimeError'' ''boom'') else Inr 0, Suc n)) \<rparr>"

abbreviation demo_metrics :: run_metrics where
  "demo_metrics \<equiv> \<lparr> pipeline_runs = new_metric [] [] None, pipeline_completed_total = new_metric [] [] None,
     pipeline_failed_total = new_metric [] [] None, run_duration = new_metric [] [] None, stage_failures = new_metric [] [] None \<rparr>"

abbreviation demo_params :: run_params where
  "demo_params \<equiv> \<lparr> stop_on_error = False, pipeline_type = ''graphrag'', elapsed_time = 1, str_of = (\<lambda>_. []), module = ''m'' \<rparr>"

abbreviation demo_specs :: "stage_spec list" where
  "demo_specs \<equiv> map (\<lambda>st. \<lparr> spec_stage = st, spec_config = None \<rparr>) [''clean'', ''chunk'', ''embed'']"

lemma runner_result_witness:
  "fst (attempts demo_class False demo_specs 0) = [Inr 0, Inl (Exn ''RuntimeError'' ''boom''), Inr 0]
   \<and> (\<exists>r s' M' lg'. runner_run demo_class demo_params demo_specs ((0, demo_metrics), []) = (r, ((s', M'), lg'))
        \<and> r = Inr (PInt 1) \<and> s' = 3)"
proof -
  have a: "attempts demo_class False demo_specs 0 = ([Inr 0, Inl (Exn ''RuntimeError'' ''boom''), Inr 0], 3)"
    by code_simp
  obtain r s' M' lg' where run: "runner_run demo_class demo_params demo_specs ((0, demo_metrics), []) = (r, ((s', M'), lg'))"
    by (metis prod.exhaust)
  from runner_result [OF run] a show ?thesis
    using run by (auto simp: is_Exception_def)
qed


lemma take_rank: "distinct xs \<Longrightarrow> set (take k xs) = {s \<in> set xs. rank xs s < k}"
  by (simp add: rank_take [symmetric])

lemma specs_of_prefix:
  "create_stage_specs configs (Some (take k STAGE_ORDER)) = map (\<lambda>st. \<lparr> spec_stage = st, spec_config = configs st \<rparr>) (take k STAGE_ORDER)"
proof -
  have "filter (\<lambda>st. st \<in> set (take k STAGE_ORDER)) STAGE_ORDER = filter (\<lambda>st. rank STAGE_ORDER st < k) STAGE_ORDER"
    by (rule filter_cong) (simp_all add: take_rank order_distinct)
  then show ?thesis
    by (simp add: create_stage_specs_def filter_map o_def rank_take order_distinct)
qed

lemma split_nonempty: "str_split_n sep n acc s \<noteq> []"
  by (induction sep n acc s rule: str_split_n.induct) simp_all

lemma parse_nonempty:
  assumes "parse_stage_selection interr sel = Inr (Some sts)"
  shows "sts \<noteq> []"
  using assms
  by (auto simp: parse_stage_selection_def Let_def map_sum_def split_all_def split_nonempty
      dest: parse_range_known parse_parts_known split: option.splits if_splits sum.splits)

definition specs_for :: "'s graphrag \<Rightarrow> string list \<Rightarrow> stage_spec list" where
  "specs_for R sts = map (\<lambda>st. \<lparr> spec_stage = st, spec_config = gr_configs R st \<rparr>) sts"

lemma run_stages_parsed:
  assumes "parse_stage_selection (gr_interr R) sel = Inr (Some sts)"
  shows "run_stages R sel = runner_run (gr_classes R) (gr_params R) (specs_for R (up_to sts))"
proof -
  have "resolve_stage_selection (Some sts) True (gr_repr R) = Inr (up_to sts)"
    by (rule resolve_up_to [OF parse_nonempty [OF assms] parse_known [OF assms]])
  then show ?thesis
    by (rule_tac ext) (simp add: run_stages_def assms bindA_def liftR_def specs_for_def specs_of_prefix up_to_def)
qed

text \<open>A selection that parses runs, in pipeline order, the stages of the pipeline up to the last
  selected one: every selected stage, every stage one of them depends on, and no other.\<close>

theorem selection_runs_prefix:
  assumes "parse_stage_selection (gr_interr R) sel = Inr (Some sts)"
  shows "run_stages R sel = runner_run (gr_classes R) (gr_params R) (specs_for R (up_to sts))
     \<and> prefix (up_to sts) STAGE_ORDER \<and> set sts \<subseteq> set (up_to sts)
     \<and> (\<forall>st \<in> set (up_to sts). st \<in> set sts \<or> (\<exists>x \<in> set sts. st \<in> set (get_stage_dependencies x)))"
proof -
  let ?k = "Suc (Max (rank STAGE_ORDER ` set sts))"
  have known: "set sts \<subseteq> set STAGE_ORDER" and ne: "sts \<noteq> []"
    using parse_known [OF assms] parse_nonempty [OF assms] by simp_all
  have mem: "st \<in> set (up_to sts) \<longleftrightarrow> st \<in> set STAGE_ORDER \<and> rank STAGE_ORDER st < ?k" for st
    by (simp add: up_to_def take_rank order_distinct)
  have "set sts \<subseteq> set (up_to sts)"
    using known by (auto simp: mem less_Suc_eq_le)
  moreover have "st \<in> set sts \<or> (\<exists>x \<in> set sts. st \<in> set (get_stage_dependencies x))" if inn: "st \<in> set (up_to sts)" for st
  proof -
    obtain x where x: "x \<in> set sts" "rank STAGE_ORDER st \<le> rank STAGE_ORDER x" and st: "st \<in> set STAGE_ORDER"
      using inn ne by (auto simp: mem less_Suc_eq_le Max_ge_iff)
    have xo: "x \<in> set STAGE_ORDER" using x known by blast
    show ?thesis
    proof (cases "rank STAGE_ORDER st = rank STAGE_ORDER x")
      case True
      then show ?thesis using x rank_inj [OF xo st] by simp
    next
      case False
      then have "st \<in> set (get_stage_dependencies x)"
        using x(2) rank_before [OF xo st] deps_before [OF xo] by simp
      then show ?thesis using x(1) by blast
    qed
  qed
  moreover have "prefix (up_to sts) STAGE_ORDER" by (simp add: up_to_def take_is_prefix)
  ultimately show ?thesis using run_stages_parsed [OF assms] by blast
qed

abbreviation demo_graphrag :: "nat graphrag" where
  "demo_graphrag \<equiv> \<lparr> gr_classes = demo_class, gr_params = demo_params, gr_configs = (\<lambda>_. None), gr_interr = (\<lambda>_. []), gr_repr = (\<lambda>_. []) \<rparr>"

lemma selection_runs_prefix_witness:
  "run_stages demo_graphrag (Some '' 3,Extraction '')
     = runner_run demo_class demo_params (specs_for demo_graphrag [''graph_extraction'', ''entity_resolution'', ''graph_construction''])"
proof -
  have p: "parse_stage_selection (\<lambda>_. []) (Some '' 3,Extraction '') = Inr (Some [''graph_construction'', ''graph_extraction''])"
    by code_simp
  have "up_to [''graph_construction'', ''graph_extraction''] = [''graph_extraction'', ''entity_resolution'', ''graph_construction'']"
    by code_simp
  then show ?thesis using selection_runs_prefix [of demo_graphrag, simplified, OF p] by simp
qed

section \<open>Resuming\<close>

lemma parse_joined:
  assumes "sts \<noteq> []" and "subseq sts STAGE_ORDER"
  shows "parse_stage_selection interr (Some (str_join '','' sts)) = Inr (Some sts)"
proof -
  have "list_all (\<lambda>sts. sts \<noteq> [] \<longrightarrow> parse_stage_selection (\<lambda>_. []) (Some (str_join '','' sts)) = Inr (Some sts)) (subseqs STAGE_ORDER)"
    by code_simp
  then have p: "parse_stage_selection (\<lambda>_. []) (Some (str_join '','' sts)) = Inr (Some sts)"
    using assms by (auto simp: list_all_iff)
  have "CHR ''-'' \<notin> set (str_strip (str_join '','' sts))"
  proof -
    have "list_all (\<lambda>sts. CHR ''-'' \<notin> set (str_strip (str_join '','' sts))) (subseqs STAGE_ORDER)" by code_simp
    then show ?thesis using assms by (auto simp: list_all_iff)
  qed
  then show ?thesis using p by (simp add: parse_stage_selection_def Let_def split: if_splits)
qed

text \<open>Resuming does not skip completed stages: whenever any stage is incomplete, it runs all
  stages up to the last incomplete one, the completed ones before it included, because the
  selection of the incomplete stages is closed under their dependencies again.\<close>

theorem resume_reruns_completed:
  assumes "to_run = get_stages_to_run (detect_stage_completion chunks counts) threshold" and "to_run \<noteq> []"
  shows "run_with_resume R chunks counts threshold = runner_run (gr_classes R) (gr_params R) (specs_for R (up_to to_run))
     \<and> (\<forall>st \<in> set STAGE_ORDER. \<forall>x \<in> set to_run. st \<in> set (get_stage_dependencies x) \<longrightarrow> st \<in> set (up_to to_run))"
proof -
  have "subseq to_run STAGE_ORDER" using assms(1) by (simp add: get_stages_to_run_def)
  then have p: "parse_stage_selection (gr_interr R) (Some (str_join '','' to_run)) = Inr (Some to_run)"
    by (rule parse_joined [OF assms(2)])
  have "st \<in> set (up_to to_run)" if "x \<in> set to_run" "st \<in> set (get_stage_dependencies x)" "st \<in> set STAGE_ORDER" for st x
  proof -
    have xo: "x \<in> set STAGE_ORDER" using that(1) assms(1) by (simp add: get_stages_to_run_def)
    have "rank STAGE_ORDER st < rank STAGE_ORDER x" using that(2,3) deps_before [OF xo] rank_before [OF xo] by simp
    moreover have "rank STAGE_ORDER x \<le> Max (rank STAGE_ORDER ` set to_run)" using that(1) by simp
    ultimately show ?thesis using that(3) by (simp add: up_to_def take_rank order_distinct)
  qed
  then show ?thesis using run_stages_parsed [OF p] assms by (simp add: run_with_resume_def Let_def)
qed

lemma resume_reruns_completed_witness:
  "run_with_resume demo_graphrag 10 (\<lambda>st. if st = ''graph_construction'' then 3 else 10) (95/100)
     = runner_run demo_class demo_params (specs_for demo_graphrag [''graph_extraction'', ''entity_resolution'', ''graph_construction''])"
proof -
  let ?counts = "\<lambda>st. if st = ''graph_construction'' then 3 else 10"
  have r: "[''graph_construction''] = get_stages_to_run (detect_stage_completion 10 ?counts) (95/100)" by code_simp
  have u: "up_to [''graph_construction''] = [''graph_extraction'', ''entity_resolution'', ''graph_construction'']" by code_simp
  from resume_reruns_completed [OF r, of demo_graphrag] show ?thesis unfolding u by simp
qed

end
