(* ===== verification/Reaper.thy ===== *)
theory Reaper
  imports Prelude
begin

text \<open>
  \<open>deploy/aws/base/reaper/reaper.py\<close>: the scheduled function that deletes expired cloud
  resources. A delete is the call it makes; whether a call fails is a parameter, which may
  depend on the calls before it. A tagged resource is its ARN with its tags as strings.
\<close>

section \<open>Deletes\<close>

datatype aws_call =
    Terminate_Instances string
  | Delete_Nat_Gateway string
  | Release_Address string
  | Delete_Cluster string
  | Delete_Nodegroup string string
  | Delete_Db_Instance string
  | Delete_Load_Balancer string

datatype deleter =
    Del_Ec2_Instance | Del_Nat_Gateway | Del_Elastic_Ip | Del_Eks_Cluster | Del_Eks_Nodegroup | Del_Rds_Instance | Del_Elbv2

definition split_at :: "char \<Rightarrow> nat \<Rightarrow> string \<Rightarrow> string list" where
  "split_at sep n s = str_split_n sep n [] s"

fun delete_call :: "deleter \<Rightarrow> string \<Rightarrow> aws_call res" where
  "delete_call Del_Ec2_Instance rid = Inr (Terminate_Instances rid)"
| "delete_call Del_Nat_Gateway rid = Inr (Delete_Nat_Gateway rid)"
| "delete_call Del_Elastic_Ip rid = Inr (Release_Address rid)"
| "delete_call Del_Eks_Cluster rid = Inr (Delete_Cluster rid)"
| "delete_call Del_Eks_Nodegroup rid =
     (case split_at (CHR ''/'') (length rid) rid of
        cluster # nodegroup # _ \<Rightarrow> Inr (Delete_Nodegroup cluster nodegroup)
      | _ \<Rightarrow> Inl (Exn ''IndexError'' ''list index out of range''))"
| "delete_call Del_Rds_Instance rid = Inr (Delete_Db_Instance rid)"
| "delete_call Del_Elbv2 arn = Inr (Delete_Load_Balancer arn)"

text \<open>The flag says that the deleter takes the ARN and not the identifier.\<close>

definition DISPATCH :: "((string \<times> string) \<times> (deleter \<times> bool)) list" where
  "DISPATCH =
     [((''ec2'', ''instance''), (Del_Ec2_Instance, False)),
      ((''ec2'', ''natgateway''), (Del_Nat_Gateway, False)),
      ((''ec2'', ''elastic-ip''), (Del_Elastic_Ip, False)),
      ((''eks'', ''cluster''), (Del_Eks_Cluster, False)),
      ((''eks'', ''nodegroup''), (Del_Eks_Nodegroup, False)),
      ((''rds'', ''db''), (Del_Rds_Instance, False)),
      ((''elasticloadbalancing'', ''loadbalancer''), (Del_Elbv2, True))]"

section \<open>ARNs and tags\<close>

definition parse_arn :: "string \<Rightarrow> (string \<times> string \<times> string) option" where
  "parse_arn arn =
     (let parts = split_at (CHR '':'') 5 arn in
      if length parts < 6 then None
      else (let service = parts ! 2; resource = parts ! 5 in
            if CHR ''/'' \<in> set resource
            then (let p = split_at (CHR ''/'') 1 resource in Some (service, p ! 0, p ! 1))
            else if CHR '':'' \<in> set resource
            then (let p = split_at (CHR '':'') 1 resource in Some (service, p ! 0, p ! 1))
            else Some (service, resource, [])))"

record aws_resource =
  res_arn :: string
  res_tags :: "(string \<times> string) list"

definition tags_map :: "aws_resource \<Rightarrow> (string \<times> string) list" where
  "tags_map r = fold (\<lambda>(k, v). AList.update k v) (res_tags r) []"

section \<open>The handler\<close>

datatype log_line =
    Considered string "string option" bool string "string option"
  | Deleted string
  | Delete_Failed string string

record reaper =
  calls :: "aws_call list"
  log_lines :: "log_line list"
  considered :: nat
  reaped :: nat

definition dispatch_of :: "string \<Rightarrow> (deleter \<times> bool \<times> string) option" where
  "dispatch_of arn =
     (case parse_arn arn of
        None \<Rightarrow> None
      | Some (service, rtype, rid) \<Rightarrow> map_option (\<lambda>(h, whole). (h, whole, rid)) (map_of DISPATCH (service, rtype)))"

text \<open>What is decided for a resource: the action, whether it is expired and the reason.\<close>

definition decide :: "bool \<Rightarrow> int \<Rightarrow> aws_resource \<Rightarrow> string \<times> bool \<times> string option" where
  "decide dry_run now r =
     (let tags = tags_map r in
      if map_of tags ''stack'' = Some ''base'' then (''skip'', False, Some ''stack=base'')
      else (case map_of tags ''ttl'' of
          None \<Rightarrow> (''skip'', False, Some ''no-ttl-tag'')
        | Some ttl_raw \<Rightarrow>
            (case int_of_str ttl_raw of
               None \<Rightarrow> (''skip'', False, Some ''unparseable-ttl'')
             | Some ttl \<Rightarrow>
                 if \<not> ttl < now then (''skip'', False, Some ''not-expired'')
                 else if dispatch_of (res_arn r) = None then (''unsupported'', True, Some ''unsupported-service'')
                 else (if dry_run then ''would-delete'' else ''delete'', True, None))))"

text \<open>\<open>api\<close> says whether a call fails, given the calls made before.\<close>

definition perform :: "(aws_call list \<Rightarrow> aws_call \<Rightarrow> string option) \<Rightarrow> string \<Rightarrow> reaper \<Rightarrow> reaper" where
  "perform api arn R =
     (case dispatch_of arn of
        None \<Rightarrow> R
      | Some (h, whole, rid) \<Rightarrow>
          (case delete_call h (if whole then arn else rid) of
             Inl e \<Rightarrow> R\<lparr>log_lines := log_lines R @ [Delete_Failed arn (exn_msg e)]\<rparr>
           | Inr c \<Rightarrow>
               (case api (calls R) c of
                  None \<Rightarrow> R\<lparr>calls := calls R @ [c], reaped := reaped R + 1, log_lines := log_lines R @ [Deleted arn]\<rparr>
                | Some msg \<Rightarrow> R\<lparr>calls := calls R @ [c], log_lines := log_lines R @ [Delete_Failed arn msg]\<rparr>)))"

definition reap :: "(aws_call list \<Rightarrow> aws_call \<Rightarrow> string option) \<Rightarrow> bool \<Rightarrow> int \<Rightarrow> aws_resource \<Rightarrow> reaper \<Rightarrow> reaper" where
  "reap api dry_run now r R =
     (case decide dry_run now r of (action, expd, reason) \<Rightarrow>
        (let R1 = R\<lparr>considered := considered R + 1,
                    log_lines := log_lines R @ [Considered (res_arn r) (map_of (tags_map r) ''ttl'') expd action reason]\<rparr>
         in if action = ''delete'' then perform api (res_arn r) R1 else R1))"

text \<open>\<open>DRY_RUN\<close> is on unless the variable reads \<open>false\<close>.\<close>

definition dry_run_of :: "string option \<Rightarrow> bool" where
  "dry_run_of v = (str_lower (case v of None \<Rightarrow> ''true'' | Some s \<Rightarrow> s) \<noteq> ''false'')"

definition handler ::
  "(aws_call list \<Rightarrow> aws_call \<Rightarrow> string option) \<Rightarrow> string option \<Rightarrow> int \<Rightarrow> aws_resource list \<Rightarrow> reaper" where
  "handler api dry now resources =
     fold (reap api (dry_run_of dry) now) resources \<lparr> calls = [], log_lines = [], considered = 0, reaped = 0 \<rparr>"

section \<open>Facts\<close>

text \<open>What may be deleted: not of the base stack, with a numeric \<open>ttl\<close> in the past, of a known kind.\<close>

definition deletable :: "int \<Rightarrow> aws_resource \<Rightarrow> bool" where
  "deletable now r \<longleftrightarrow>
     map_of (tags_map r) ''stack'' \<noteq> Some ''base''
     \<and> (\<exists>raw ttl. map_of (tags_map r) ''ttl'' = Some raw \<and> int_of_str raw = Some ttl \<and> ttl < now)
     \<and> dispatch_of (res_arn r) \<noteq> None"

definition call_for :: "aws_resource \<Rightarrow> aws_call option" where
  "call_for r =
     (case dispatch_of (res_arn r) of
        None \<Rightarrow> None
      | Some (h, whole, rid) \<Rightarrow>
          (case delete_call h (if whole then res_arn r else rid) of Inl _ \<Rightarrow> None | Inr c \<Rightarrow> Some c))"

lemma decide_delete: "fst (decide dry now r) = ''delete'' \<longleftrightarrow> \<not> dry \<and> deletable now r"
  by (auto simp: decide_def deletable_def Let_def split: option.split if_splits)

lemma perform_calls:
  "calls (perform api (res_arn r) R) = calls R @ (case call_for r of None \<Rightarrow> [] | Some c \<Rightarrow> [c])"
  by (auto simp: perform_def call_for_def split: option.split sum.split prod.split)

lemma perform_counts:
  "considered (perform api a R) = considered R"
  "reaped (perform api a R) = reaped R \<or> (reaped (perform api a R) = reaped R + 1 \<and> length (calls (perform api a R)) = length (calls R) + 1)"
  by (auto simp: perform_def split: option.split sum.split prod.split)

lemma reap_calls:
  "calls (reap api dry now r R) =
     calls R @ (if \<not> dry \<and> deletable now r then (case call_for r of None \<Rightarrow> [] | Some c \<Rightarrow> [c]) else [])"
  using decide_delete [of dry now r]
  by (cases "decide dry now r") (auto simp: reap_def perform_calls split: option.split)

lemma perform_reaped: "reaped (perform api a R) - reaped R \<le> length (calls (perform api a R)) - length (calls R)"
  using perform_counts(2) [of api a R] by auto

text \<open>C40: The reaper's delete calls are exactly the calls for the resources that are not of the base
  stack, carry a numeric \<open>ttl\<close> in the past and are of a known kind, each once and in order, and
  there are none in a dry run; it considers every resource and reports at most as many
  deletions as it made calls.\<close>

theorem reaper_deletes_exactly:
  "calls (handler api dry now rs) =
     (if dry_run_of dry then [] else List.map_filter call_for (filter (deletable now) rs))
   \<and> considered (handler api dry now rs) = length rs
   \<and> reaped (handler api dry now rs) \<le> length (calls (handler api dry now rs))"
proof -
  have c: "calls (fold (reap api d now) rs R) = calls R @ (if d then [] else List.map_filter call_for (filter (deletable now) rs))" for d R
    by (induction rs arbitrary: R)
      (auto simp: reap_calls map_filter_simps split: option.split)
  have n: "considered (reap api d now r R) = considered R + 1" for d r R
    by (cases "decide d now r") (simp add: reap_def Let_def perform_counts(1))
  have k: "considered (fold (reap api d now) rs R) = considered R + length rs" for d R
    by (induction rs arbitrary: R) (simp_all add: n)
  have s: "reaped R \<le> length (calls R) \<Longrightarrow> reaped (reap api d now r R) \<le> length (calls (reap api d now r R))" for d r R
    by (cases "decide d now r")
      (auto simp: reap_def Let_def perform_def split: option.split sum.split prod.split)
  have m: "reaped R \<le> length (calls R) \<Longrightarrow> reaped (fold (reap api d now) rs R) \<le> length (calls (fold (reap api d now) rs R))" for d R
    by (induction rs arbitrary: R) (simp_all add: s)
  show ?thesis
    using c [of "dry_run_of dry"] k [of "dry_run_of dry"] m [of "\<lparr> calls = [], log_lines = [], considered = 0, reaped = 0 \<rparr>" "dry_run_of dry"]
    by (simp add: handler_def)
qed

lemma split_stop:
  "sep \<notin> set s \<Longrightarrow> 0 < n \<Longrightarrow> str_split_n sep n acc (s @ sep # t) = (rev acc @ s) # str_split_n sep (n - 1) [] t"
  by (induction s arbitrary: acc) auto

lemma split_rest: "sep \<notin> set s \<or> n = 0 \<Longrightarrow> str_split_n sep n acc s = [rev acc @ s]"
  by (induction s arbitrary: acc) auto

text \<open>An ARN is read back: for parts without colons, a resource \<open>type/id\<close> or \<open>type:id\<close> gives its
  service, its type and its whole identifier, nested slashes included.\<close>

theorem parse_arn_round_trip:
  assumes "\<forall>p \<in> {part, service, region, account}. CHR '':'' \<notin> set p"
    and "CHR ''/'' \<notin> set rtype" and "CHR '':'' \<notin> set rtype"
    and "sep = CHR ''/'' \<or> sep = CHR '':'' \<and> CHR ''/'' \<notin> set rid"
  shows "parse_arn (str_join '':'' [''arn'', part, service, region, account, rtype @ sep # rid]) = Some (service, rtype, rid)"
proof -
  have parts: "split_at (CHR '':'') 5 (str_join '':'' [''arn'', part, service, region, account, rtype @ sep # rid])
      = [''arn'', part, service, region, account, rtype @ sep # rid]"
  proof -
    let ?t5 = "rtype @ sep # rid"
    have "str_split_n (CHR '':'') 5 [] (''arn'' @ CHR '':'' # (part @ CHR '':'' # (service @ CHR '':'' # (region @ CHR '':'' # (account @ CHR '':'' # ?t5)))))
        = [''arn'', part, service, region, account, ?t5]"
      using assms(1) split_rest [of "CHR '':''" ?t5 0 "[]"]
      by (simp add: split_stop del: append.simps(2) str_split_n.simps)
    then show ?thesis by (simp add: split_at_def)
  qed
  have "CHR ''/'' \<in> set (rtype @ sep # rid) \<longleftrightarrow> sep = CHR ''/''"
    using assms(2,4) by auto
  moreover have "split_at sep 1 (rtype @ sep # rid) = [rtype, rid]"
  proof -
    have "sep \<notin> set rtype" using assms(2,3,4) by auto
    then have "str_split_n sep 1 [] (rtype @ sep # rid) = (rev [] @ rtype) # str_split_n sep (1 - 1) [] rid"
      by (rule split_stop) simp
    also have "\<dots> = [rtype, rid]" using split_rest [of sep rid 0 "[]"] by simp
    finally show ?thesis by (simp only: split_at_def)
  qed
  moreover have "CHR '':'' \<in> set (rtype @ sep # rid)" if "sep \<noteq> CHR ''/''" using assms(4) that by simp
  ultimately show ?thesis using assms(4) unfolding parse_arn_def parts Let_def
    by (cases "sep = CHR ''/''") simp_all
qed

lemma parse_arn_round_trip_witness:
  "parse_arn ''arn:aws:eks:us-east-1:123:nodegroup/demo/workers/4f'' = Some (''eks'', ''nodegroup'', ''demo/workers/4f'')"
  using parse_arn_round_trip [of "''aws''" "''eks''" "''us-east-1''" "''123''" "''nodegroup''" "CHR ''/''" "''demo/workers/4f''"]
  by simp

end
