(* ===== verification/Text.thy ===== *)
theory Text
  imports Prelude
begin

text \<open>
  The operations on text and on results that the entity components use: words, suffixes, the
  splitting of \<open>re.split\<close>, the ratio of \<open>difflib.SequenceMatcher\<close>, Jaccard similarity,
  \<open>max\<close> with a key, counting and grouping dictionaries, and sequencing of fallible calls.
  As in the prelude, text is ASCII.
\<close>

section \<open>Results\<close>

definition bindR :: "'a res \<Rightarrow> ('a \<Rightarrow> 'b res) \<Rightarrow> 'b res" where
  [py_simps]: "bindR r f = (case r of Inl e \<Rightarrow> Inl e | Inr x \<Rightarrow> f x)"

lemma bindR_Inr [simp]: "bindR (Inr x) f = f x"
  by (simp add: bindR_def)

lemma bindR_Inl [simp]: "bindR (Inl e) f = Inl e"
  by (simp add: bindR_def)

lemma bindR_eq_Inr: "bindR r f = Inr y \<longleftrightarrow> (\<exists>x. r = Inr x \<and> f x = Inr y)"
  by (cases r) auto

text \<open>\<open>d[k]\<close> for a key that may be missing.\<close>

definition need :: "string \<Rightarrow> 'a option \<Rightarrow> 'a res" where
  [py_simps]: "need k v = (case v of None \<Rightarrow> Inl (Exn ''KeyError'' ([quote] @ k @ [quote])) | Some x \<Rightarrow> Inr x)"

lemma need_eq_Inr [simp]: "need k v = Inr x \<longleftrightarrow> v = Some x"
  by (cases v) (auto simp: need_def)

text \<open>\<open>@handle_errors(fallback=fb, reraise=False)\<close> on a function whose only effect is its result.\<close>

definition with_fallback :: "'a \<Rightarrow> 'a res \<Rightarrow> 'a res" where
  [py_simps]: "with_fallback fb r = (case r of Inl e \<Rightarrow> if is_Exception e then Inr fb else Inl e | Inr x \<Rightarrow> Inr x)"

section \<open>Words, suffixes, sentences\<close>

definition str_endswith :: "string \<Rightarrow> string \<Rightarrow> bool" where
  "str_endswith s p = (length p \<le> length s \<and> drop (length s - length p) s = p)"

text \<open>\<open>s.split()\<close>: the runs of characters between blanks.\<close>

fun words_acc :: "string \<Rightarrow> string \<Rightarrow> string list" where
  "words_acc acc [] = (if acc = [] then [] else [rev acc])"
| "words_acc acc (c # s) =
     (if is_space c then (if acc = [] then words_acc [] s else rev acc # words_acc [] s)
      else words_acc (c # acc) s)"

definition str_words :: "string \<Rightarrow> string list" where
  "str_words s = words_acc [] s"

lemma words_acc_nonempty: "w \<in> set (words_acc acc s) \<Longrightarrow> w \<noteq> []"
  by (induction s arbitrary: acc) (auto split: if_splits)

text \<open>\<open>re.sub(r"\s+", " ", s)\<close>.\<close>

fun collapse_spaces :: "bool \<Rightarrow> string \<Rightarrow> string" where
  "collapse_spaces in_run [] = []"
| "collapse_spaces in_run (c # s) =
     (if is_space c then (if in_run then [] else '' '') @ collapse_spaces True s
      else c # collapse_spaces False s)"

text \<open>\<open>re.split(r"[...]+", s)\<close>: the text between the maximal runs of separators.\<close>

function split_runs :: "(char \<Rightarrow> bool) \<Rightarrow> string \<Rightarrow> string \<Rightarrow> string list" where
  "split_runs P acc [] = [rev acc]"
| "split_runs P acc (c # s) =
     (if P c then rev acc # split_runs P [] (dropWhile P s) else split_runs P (c # acc) s)"
  by pat_completeness auto
termination
  by (relation "measure (\<lambda>(P, acc, s). length s)") (auto simp: less_Suc_eq_le length_dropWhile_le)

definition is_alnum :: "char \<Rightarrow> bool" where
  "is_alnum c =
     (let n = (of_char c :: nat) in 48 \<le> n \<and> n \<le> 57 \<or> 65 \<le> n \<and> n \<le> 90 \<or> 97 \<le> n \<and> n \<le> 122)"

text \<open>\<open>s[:n]\<close>: a negative bound counts from the end.\<close>

definition slice_to :: "int \<Rightarrow> 'a list \<Rightarrow> 'a list" where
  "slice_to n xs = (if 0 \<le> n then take (nat n) xs else take (length xs - nat (- n)) xs)"

text \<open>\<open>s.replace(old, new)\<close> for a text \<open>old\<close> that is not empty.\<close>

function replace_all :: "string \<Rightarrow> string \<Rightarrow> string \<Rightarrow> string" where
  "replace_all old new [] = []"
| "replace_all old new (c # s) =
     (if old \<noteq> [] \<and> str_startswith (c # s) old then new @ replace_all old new (drop (length old - 1) s)
      else c # replace_all old new s)"
  by pat_completeness auto
termination
  by (relation "measure (\<lambda>(old, new, s). length s)") auto

section \<open>Similarity\<close>

text \<open>
  \<open>SequenceMatcher(None, a, b).ratio()\<close>: the longest common block, the earliest in \<open>a\<close> and
  then in \<open>b\<close>, and recursively what is left and right of it. The heuristic for popular
  elements starts at a second sequence of 200 elements and is not modelled.
\<close>

fun common_prefix :: "'a list \<Rightarrow> 'a list \<Rightarrow> nat" where
  "common_prefix (x # xs) (y # ys) = (if x = y then Suc (common_prefix xs ys) else 0)"
| "common_prefix _ _ = 0"

lemma common_prefix_le: "common_prefix a b \<le> length a \<and> common_prefix a b \<le> length b"
  by (induction a b rule: common_prefix.induct) auto

lemma common_prefix_take: "take (common_prefix a b) a = take (common_prefix a b) b"
  by (induction a b rule: common_prefix.induct) auto

definition blocks :: "'a list \<Rightarrow> 'a list \<Rightarrow> (nat \<times> nat \<times> nat) list" where
  "blocks a b = concat (map (\<lambda>i. map (\<lambda>j. (i, j, common_prefix (drop i a) (drop j b)))
                  [0..<length b]) [0..<length a])"

fun longest :: "nat \<times> nat \<times> nat \<Rightarrow> (nat \<times> nat \<times> nat) list \<Rightarrow> nat \<times> nat \<times> nat" where
  "longest best [] = best"
| "longest best (m # ms) = (if snd (snd best) < snd (snd m) then longest m ms else longest best ms)"

definition find_longest_match :: "'a list \<Rightarrow> 'a list \<Rightarrow> nat \<times> nat \<times> nat" where
  "find_longest_match a b = longest (0, 0, 0) (blocks a b)"

lemma longest_cases: "longest best ms = best \<or> longest best ms \<in> set ms"
  by (induction ms arbitrary: best) (auto split: if_splits)

lemma find_longest_match_bounds:
  assumes "find_longest_match a b = (i, j, k)"
  shows "i + k \<le> length a \<and> j + k \<le> length b"
proof -
  from longest_cases [of "(0, 0, 0)" "blocks a b"]
  consider "(i, j, k) = (0, 0, 0)" | "(i, j, k) \<in> set (blocks a b)"
    using assms by (auto simp: find_longest_match_def)
  then show ?thesis
  proof cases
    case 2
    then have "i < length a" "j < length b" "k = common_prefix (drop i a) (drop j b)"
      by (auto simp: blocks_def)
    then show ?thesis
      using common_prefix_le [of "drop i a" "drop j b"] by auto
  qed auto
qed

function matched :: "'a list \<Rightarrow> 'a list \<Rightarrow> nat" where
  "matched a b =
     (case find_longest_match a b of (i, j, k) \<Rightarrow>
        if k = 0 then 0
        else matched (take i a) (take j b) + k + matched (drop (i + k) a) (drop (j + k) b))"
  by pat_completeness auto
termination
  by (relation "measure (\<lambda>(a, b). length a)")
    (auto dest!: find_longest_match_bounds [OF sym])

declare matched.simps [simp del]

lemma matched_le: "matched a b \<le> length a \<and> matched a b \<le> length b"
proof (induction a b rule: matched.induct)
  case (1 a b)
  obtain i j k where f: "find_longest_match a b = (i, j, k)" by (metis prod_cases3)
  note bounds = find_longest_match_bounds [OF f]
  show ?case
  proof (cases "k = 0")
    case False
    with 1 [OF f [symmetric] refl False] f bounds show ?thesis
      by (subst (1 2) matched.simps) auto
  qed (use f in \<open>simp add: matched.simps\<close>)
qed

definition sequence_ratio :: "'a list \<Rightarrow> 'a list \<Rightarrow> real" where
  "sequence_ratio a b =
     (if length a + length b = 0 then 1
      else 2 * real (matched a b) / real (length a + length b))"

lemma sequence_ratio_range: "0 \<le> sequence_ratio a b \<and> sequence_ratio a b \<le> 1"
proof -
  have "2 * matched a b \<le> length a + length b"
    using matched_le [of a b] by linarith
  then have "2 * real (matched a b) \<le> real (length a + length b)"
    by linarith
  then show ?thesis
    by (auto simp: sequence_ratio_def divide_le_eq_1)
qed

text \<open>The quotient of the sizes of intersection and union.\<close>

definition jaccard :: "'a set \<Rightarrow> 'a set \<Rightarrow> real" where
  "jaccard A B = (let u = card (A \<union> B) in if 0 < u then real (card (A \<inter> B)) / real u else 0)"

lemma jaccard_range:
  assumes "finite A" and "finite B"
  shows "0 \<le> jaccard A B \<and> jaccard A B \<le> 1"
proof -
  have "card (A \<inter> B) \<le> card (A \<union> B)"
    using assms by (intro card_mono) auto
  then show ?thesis
    by (auto simp: jaccard_def Let_def divide_le_eq_1)
qed

lemma jaccard_self: "finite A \<Longrightarrow> A \<noteq> {} \<Longrightarrow> jaccard A A = 1"
  by (simp add: jaccard_def card_gt_0_iff)

lemma jaccard_commute: "jaccard A B = jaccard B A"
  unfolding jaccard_def Un_commute [of A B] Int_commute [of A B] by (rule refl)

section \<open>Rounding\<close>

text \<open>\<open>round(x, n)\<close> and \<open>$round\<close>: a half goes to the even neighbour.\<close>

definition rounded :: "nat \<Rightarrow> rat \<Rightarrow> rat" where
  "rounded n x =
     (let y = x * 10 ^ n; f = \<lfloor>y\<rfloor>; r = y - of_int f
      in of_int (if r < 1/2 then f else if 1/2 < r then f + 1 else if even f then f else f + 1) / 10 ^ n)"

section \<open>Maximum with a key\<close>

text \<open>\<open>max(b, *xs, key=f)\<close>: the first element whose key is the largest.\<close>

fun max_by :: "('a \<Rightarrow> 'k::linorder) \<Rightarrow> 'a \<Rightarrow> 'a list \<Rightarrow> 'a" where
  "max_by f b [] = b"
| "max_by f b (x # xs) = max_by f (if f b < f x then x else b) xs"

lemma max_by_in: "max_by f b xs \<in> insert b (set xs)"
proof (induction xs arbitrary: b)
  case (Cons x xs)
  then show ?case using Cons.IH [of "if f b < f x then x else b"] by (auto split: if_splits)
qed simp

lemma max_by_max: "y \<in> insert b (set xs) \<Longrightarrow> f y \<le> f (max_by f b xs)"
proof (induction xs arbitrary: b y)
  case (Cons x xs)
  define c where "c = (if f b < f x then x else b)"
  have c: "f b \<le> f c" "f x \<le> f c" by (auto simp: c_def)
  have IH: "z \<in> insert c (set xs) \<Longrightarrow> f z \<le> f (max_by f c xs)" for z
    by (rule Cons.IH)
  have "f y \<le> f c \<or> y \<in> set xs"
    using Cons.prems c by auto
  then have "f y \<le> f (max_by f c xs)"
    using IH [of c] IH [of y] order_trans by blast
  then show ?case by (simp add: c_def)
qed simp

section \<open>Counting and grouping dictionaries\<close>

text \<open>\<open>d[k].append(x)\<close> on a \<open>defaultdict(list)\<close> and \<open>d[k] += n\<close> on a counter.\<close>

definition dd_append :: "'k \<Rightarrow> 'v \<Rightarrow> ('k \<times> 'v list) list \<Rightarrow> ('k \<times> 'v list) list" where
  "dd_append k x d = AList.update k ((case map_of d k of None \<Rightarrow> [] | Some xs \<Rightarrow> xs) @ [x]) d"

definition dd_add :: "'k \<Rightarrow> 'n::{zero,plus} \<Rightarrow> ('k \<times> 'n) list \<Rightarrow> ('k \<times> 'n) list" where
  "dd_add k n d = AList.update k ((case map_of d k of None \<Rightarrow> 0 | Some m \<Rightarrow> m) + n) d"

lemma wf_dict_dd [simp, intro]:
  "wf_dict d \<Longrightarrow> wf_dict (dd_append k x d)" "wf_dict e \<Longrightarrow> wf_dict (dd_add k' n e)"
  by (auto simp: dd_append_def dd_add_def)

lemma wf_dict_fold_dd_add: "wf_dict d \<Longrightarrow> wf_dict (fold (\<lambda>x. dd_add (k x) (n x)) xs d)"
  by (induction xs arbitrary: d) auto

lemma map_of_dd_append:
  "map_of (dd_append k x d) q =
     (if q = k then Some ((case map_of d k of None \<Rightarrow> [] | Some xs \<Rightarrow> xs) @ [x]) else map_of d q)"
  by (simp add: dd_append_def)

lemma map_of_dd_add:
  "map_of (dd_add k n d) q =
     (if q = k then Some ((case map_of d k of None \<Rightarrow> 0 | Some m \<Rightarrow> m) + n) else map_of d q)"
  by (simp add: dd_add_def)

text \<open>What a grouping and a counting loop leave under a key.\<close>

lemma map_of_fold_dd_append:
  "map_of (fold (\<lambda>x. dd_append (k x) (v x)) xs d) q =
     (let ys = (case map_of d q of None \<Rightarrow> [] | Some l \<Rightarrow> l) @ map v (filter (\<lambda>x. k x = q) xs)
      in if map_of d q = None \<and> (\<forall>x\<in>set xs. k x \<noteq> q) then None else Some ys)"
proof (induction xs arbitrary: d)
  case Nil
  then show ?case by (auto split: option.splits)
next
  case (Cons x xs)
  show ?case
    by (simp add: Cons.IH map_of_dd_append split: option.splits)
qed

lemma map_of_fold_dd_add:
  fixes n :: "'a \<Rightarrow> 'n::comm_monoid_add"
  shows "map_of (fold (\<lambda>x. dd_add (k x) (n x)) xs d) q =
     (let s = (case map_of d q of None \<Rightarrow> 0 | Some m \<Rightarrow> m) + sum_list (map n (filter (\<lambda>x. k x = q) xs))
      in if map_of d q = None \<and> (\<forall>x\<in>set xs. k x \<noteq> q) then None else Some s)"
proof (induction xs arbitrary: d)
  case Nil
  then show ?case by (auto split: option.splits)
next
  case (Cons x xs)
  show ?case
    by (simp add: Cons.IH map_of_dd_add split: option.splits) (auto simp: add.assoc)
qed

lemma set_keys_update: "set (keys (AList.update k v d)) = insert k (set (keys d))"
  by (simp only: keys_update) auto

lemma keys_fold_dd_append:
  "set (keys (fold (\<lambda>x. dd_append (k x) (v x)) xs d)) = set (keys d) \<union> k ` set xs"
  by (induction xs arbitrary: d) (auto simp only: dd_append_def set_keys_update fold_simps list.set image_insert)

lemma keys_fold_dd_add:
  "set (keys (fold (\<lambda>x. dd_add (k x) (n x)) xs d)) = set (keys d) \<union> k ` set xs"
  by (induction xs arbitrary: d) (auto simp only: dd_add_def set_keys_update fold_simps list.set image_insert)

lemma wf_dict_fold_dd_append: "wf_dict d \<Longrightarrow> wf_dict (fold (\<lambda>x. dd_append (k x) (v x)) xs d)"
  by (induction xs arbitrary: d) auto

lemma split_n_no_sep:
  "sep \<notin> set s \<Longrightarrow> str_split_n sep n acc s = [rev acc @ s]"
  by (induction s arbitrary: acc) auto

section \<open>Documents\<close>

text \<open>\<open>update_one\<close>: the first document that matches.\<close>

fun update_first :: "('a \<Rightarrow> bool) \<Rightarrow> ('a \<Rightarrow> 'a) \<Rightarrow> 'a list \<Rightarrow> 'a list" where
  "update_first p f [] = []"
| "update_first p f (x # xs) = (if p x then f x # xs else x # update_first p f xs)"

lemma update_first_none: "list_all (\<lambda>x. \<not> p x) xs \<Longrightarrow> update_first p f xs = xs"
  by (induction xs) auto

lemma update_first_twice:
  "(\<And>x. p x \<Longrightarrow> p (f x)) \<Longrightarrow> update_first p g (update_first p f xs) = update_first p (g \<circ> f) xs"
  by (induction xs) auto

lemma length_update_first [simp]: "length (update_first p f xs) = length xs"
  by (induction xs) auto

end
