(* ===== verification/Entity_Resolution.thy ===== *)
theory Entity_Resolution
  imports Text "HOL-Library.Product_Lexorder"
begin

text \<open>
  \<open>domain/graphrag/agents/entity_resolution.py\<close> and the entity part of
  \<open>core/models/graphrag.py\<close>: grouping of the extracted entities by normalized name, blocking
  keys, similarity scores, and the resolution of a group to one canonical entity.

  An extracted entity is a dictionary with at most the keys of the record \<open>instance_data\<close>;
  \<open>None\<close> is a missing key. Confidences and scores are exact reals. The iteration order of a
  Python set is the order of first insertion. The language model, the phonetic codes of
  \<open>jellyfish\<close>, the \<open>WRatio\<close> of \<open>rapidfuzz\<close> and MD5 are parameters.
\<close>

section \<open>The data model\<close>

datatype entity_type =
  PERSON | ORGANIZATION | TECHNOLOGY | CONCEPT | LOCATION | EVENT | OTHER

fun type_value :: "entity_type \<Rightarrow> string" where
  "type_value PERSON = ''PERSON''"
| "type_value ORGANIZATION = ''ORGANIZATION''"
| "type_value TECHNOLOGY = ''TECHNOLOGY''"
| "type_value CONCEPT = ''CONCEPT''"
| "type_value LOCATION = ''LOCATION''"
| "type_value EVENT = ''EVENT''"
| "type_value OTHER = ''OTHER''"

definition entity_types :: "(string \<times> entity_type) list" where
  "entity_types = map (\<lambda>t. (type_value t, t))
     [PERSON, ORGANIZATION, TECHNOLOGY, CONCEPT, LOCATION, EVENT, OTHER]"

text \<open>\<open>EntityType(s)\<close> and the attribute \<open>EntityType.s\<close>.\<close>

definition EntityType :: "string \<Rightarrow> entity_type res" where
  "EntityType s = (case map_of entity_types s of
       Some t \<Rightarrow> Inr t
     | None \<Rightarrow> Inl (Exn ''ValueError'' ([quote] @ s @ [quote] @ '' is not a valid EntityType'')))"

definition enum_member :: "string \<Rightarrow> entity_type res" where
  "enum_member s = (case map_of entity_types s of
       Some t \<Rightarrow> Inr t
     | None \<Rightarrow> Inl (Exn ''AttributeError'' (''type object '' @ [quote] @ ''EntityType'' @ [quote]
                 @ '' has no attribute '' @ [quote] @ s @ [quote])))"

record instance_data =
  i_name :: "string option"
  i_type :: "string option"
  i_description :: "string option"
  i_confidence :: "real option"
  source_chunk :: string

record extraction =
  ex_entities :: "instance_data list option"
  ex_chunk_id :: "string option"

record resolved_entity =
  entity_id :: string
  canonical_name :: string
  name :: string
  etype :: entity_type
  description :: string
  confidence :: real
  source_count :: int
  resolution_methods :: "string list"
  aliases :: "string list"

definition hex_digits :: string where
  "hex_digits = ''0123456789abcdef''"

text \<open>The constraints of the fields of \<open>ResolvedEntity\<close>.\<close>

definition resolved_fields_ok :: "resolved_entity \<Rightarrow> bool" where
  "resolved_fields_ok e =
     (length (entity_id e) = 32 \<and> list_all (\<lambda>c. c \<in> set hex_digits) (str_lower (entity_id e)) \<and>
      1 \<le> length (canonical_name e) \<and> length (canonical_name e) \<le> 200 \<and>
      1 \<le> length (name e) \<and> length (name e) \<le> 200 \<and>
      10 \<le> length (description e) \<and> length (description e) \<le> 2000 \<and>
      0 \<le> confidence e \<and> confidence e \<le> 1 \<and> 1 \<le> source_count e)"

text \<open>The construction of a \<open>ResolvedEntity\<close>; the text of the validation error is not modelled.\<close>

definition ResolvedEntity :: "resolved_entity \<Rightarrow> resolved_entity res" where
  "ResolvedEntity e =
     (if resolved_fields_ok e then Inr (e\<lparr>entity_id := str_lower (entity_id e)\<rparr>)
      else Inl (Exn ''ValidationError'' ''ResolvedEntity''))"

definition generate_entity_id :: "(string \<Rightarrow> string) \<Rightarrow> string \<Rightarrow> entity_type option \<Rightarrow> string" where
  "generate_entity_id md5hex nm t =
     (let normalized_name = str_strip (str_lower nm)
      in md5hex (case t of Some ty \<Rightarrow> normalized_name @ ''|'' @ type_value ty | None \<Rightarrow> normalized_name))"

section \<open>The agent\<close>

record chat_request =
  rq_model :: string
  rq_system :: string
  rq_user :: string
  rq_temperature :: "real option"
  rq_max_completion_tokens :: "int option"
  rq_max_tokens :: "int option"

text \<open>
  The configuration and the parameters: \<open>wratio\<close> is \<open>None\<close> without \<open>rapidfuzz\<close>, \<open>phonetic\<close>
  without \<open>jellyfish\<close>; \<open>chat\<close> is the content of the reply after the retries of
  \<open>retry_llm_call(max_attempts=3)\<close>.
\<close>

record agent =
  model_name :: string
  temperature :: real
  similarity_threshold :: real
  max_input_tokens :: "int option"
  resolution_prompt :: string
  wratio :: "(string \<Rightarrow> string \<Rightarrow> real) option"
  phonetic :: "((string \<Rightarrow> string res) \<times> (string \<Rightarrow> string res)) option"
  chat :: "chat_request \<Rightarrow> string res"
  md5 :: "string \<Rightarrow> string"

definition is_restricted_model :: "agent \<Rightarrow> bool" where
  "is_restricted_model A = list_ex (\<lambda>p. str_contains p (model_name A)) [''gpt-5'', ''o1'', ''o3'']"

section \<open>Names\<close>

definition PREFIXES :: "string list" where
  "PREFIXES = [''mr.'', ''ms.'', ''dr.'', ''prof.'', ''the '']"

definition SUFFIXES :: "string list" where
  "SUFFIXES = ['' inc.'', '' corp.'', '' ltd.'', '' llc.'', '' co.'']"

definition drop_prefix :: "string \<Rightarrow> string \<Rightarrow> string" where
  "drop_prefix p s = (if str_startswith s p then str_strip (drop (length p) s) else s)"

definition drop_suffix :: "string \<Rightarrow> string \<Rightarrow> string" where
  "drop_suffix p s = (if str_endswith s p then str_strip (take (length s - length p) s) else s)"

definition normalize_entity_name :: "string \<Rightarrow> string" where
  "normalize_entity_name nm =
     fold drop_suffix SUFFIXES (fold drop_prefix PREFIXES (str_strip (str_lower nm)))"

definition STOP_WORDS :: "string set" where
  "STOP_WORDS = {''of'', ''the'', ''a'', ''an'', ''and'', ''or'', ''but'', ''in'', ''on'', ''at'',
     ''to'', ''for'', ''with'', ''by''}"

definition acronym_of :: "string list \<Rightarrow> string" where
  "acronym_of ws =
     (let filtered = filter (\<lambda>w. w \<notin> STOP_WORDS) ws
      in map hd (filter (\<lambda>w. w \<noteq> []) (if 1 < length filtered then filtered else ws)))"

definition phonetic_keys :: "agent \<Rightarrow> string \<Rightarrow> string list res" where
  "phonetic_keys A normalized = (case phonetic A of
       None \<Rightarrow> Inr []
     | Some (soundex, metaphone) \<Rightarrow>
         (case soundex normalized of
            Inl e \<Rightarrow> if is_Exception e then Inr [] else Inl e
          | Inr sk \<Rightarrow>
              let k1 = (if sk \<noteq> [] then [''soundex:'' @ sk] else [])
              in (case metaphone normalized of
                    Inl e \<Rightarrow> if is_Exception e then Inr k1 else Inl e
                  | Inr mk \<Rightarrow> Inr (k1 @ (if mk \<noteq> [] then [''metaphone:'' @ mk] else [])))))"

definition blocking_keys :: "agent \<Rightarrow> string \<Rightarrow> string list res" where
  "blocking_keys A nm =
     (let normalized = normalize_entity_name nm;
          alnum_only = str_strip (collapse_spaces False
                         (filter (\<lambda>c. is_alnum c \<or> is_space c) normalized));
          ws = str_words normalized;
          acronym = (if 1 < length ws then acronym_of ws else [])
      in bindR (phonetic_keys A normalized) (\<lambda>ph.
           Inr (remdups ([normalized] @ (if alnum_only \<noteq> [] then [alnum_only] else [])
                  @ (if acronym \<noteq> [] then [acronym] else []) @ ph))))"

section \<open>Scores\<close>

definition clamp01 :: "real \<Rightarrow> real" where
  "clamp01 x = max 0 (min 1 x)"

definition string_score :: "agent \<Rightarrow> string \<Rightarrow> string \<Rightarrow> real" where
  "string_score A a b =
     (if a = [] \<or> b = [] then 0
      else if a = b then 1
      else (let a_norm = normalize_entity_name a; b_norm = normalize_entity_name b
            in if a_norm = b_norm then 1
               else clamp01 (case wratio A of
                      Some w \<Rightarrow> w a_norm b_norm / 100
                    | None \<Rightarrow> sequence_ratio a_norm b_norm)))"

definition name_tokens :: "string \<Rightarrow> string set" where
  "name_tokens nm = set (filter (\<lambda>w. 1 < length w) (str_words (normalize_entity_name nm)))"

definition token_score :: "string \<Rightarrow> string \<Rightarrow> real" where
  "token_score a b =
     (if a = [] \<or> b = [] then 0
      else (let ta = name_tokens a; tb = name_tokens b
            in if ta = {} \<and> tb = {} then 1
               else if ta = {} \<or> tb = {} then 0
               else clamp01 (jaccard ta tb)))"

definition multi_strategy_score :: "agent \<Rightarrow> string \<Rightarrow> string \<Rightarrow> bool \<Rightarrow> real" where
  "multi_strategy_score A a b use_embeddings =
     (let s = string_score A a b;
          t = token_score a b;
          e = (if use_embeddings then t else 0)
      in clamp01 (if use_embeddings \<and> 0 < e
                  then 0.5 * s + 0.3 * t + 0.2 * e
                  else 0.6 * s + 0.4 * t))"

section \<open>Grouping\<close>

fun group_one :: "string \<Rightarrow> instance_data list \<Rightarrow> (string \<times> instance_data list) list
    \<Rightarrow> (string \<times> instance_data list) list res" where
  "group_one chunk [] g = Inr g"
| "group_one chunk (i # is) g =
     (case need ''name'' (i_name i) of
        Inl e \<Rightarrow> Inl e
      | Inr nm \<Rightarrow> group_one chunk is
          (dd_append (normalize_entity_name nm) (i\<lparr>source_chunk := chunk\<rparr>) g))"

fun group_extractions :: "extraction list \<Rightarrow> (string \<times> instance_data list) list
    \<Rightarrow> (string \<times> instance_data list) list res" where
  "group_extractions [] g = Inr g"
| "group_extractions (x # xs) g =
     (case ex_entities x of
        None \<Rightarrow> group_extractions xs g
      | Some is \<Rightarrow>
          (case group_one (case ex_chunk_id x of None \<Rightarrow> ''unknown'' | Some c \<Rightarrow> c) is g of
             Inl e \<Rightarrow> Inl e
           | Inr g' \<Rightarrow> group_extractions xs g'))"

definition group_entities_by_name :: "extraction list \<Rightarrow> (string \<times> instance_data list) list res" where
  "group_entities_by_name data = group_extractions data []"

section \<open>Canonical name and type\<close>

text \<open>The two dictionaries of the loop: occurrences and confidences per name.\<close>

fun count_names :: "instance_data list \<Rightarrow> (string \<times> nat) list \<times> (string \<times> real list) list
    \<Rightarrow> ((string \<times> nat) list \<times> (string \<times> real list) list) res" where
  "count_names [] d = Inr d"
| "count_names (i # is) (counts, confs) =
     bindR (need ''name'' (i_name i)) (\<lambda>nm.
     bindR (need ''confidence'' (i_confidence i)) (\<lambda>c.
       count_names is (dd_add nm 1 counts, dd_append nm c confs)))"

definition name_key :: "(string \<times> nat) list \<Rightarrow> (string \<times> real list) list \<Rightarrow> string \<Rightarrow> nat \<times> real" where
  "name_key counts confs nm =
     (let cs = the (map_of confs nm)
      in (the (map_of counts nm), sum_list cs / real (length cs)))"

definition determine_canonical_name :: "instance_data list \<Rightarrow> string res" where
  "determine_canonical_name grp =
     bindR (count_names grp ([], [])) (\<lambda>(counts, confs).
       case keys counts of
         [] \<Rightarrow> Inl (Exn ''ValueError'' ''max() arg is an empty sequence'')
       | n # ns \<Rightarrow> Inr (max_by (name_key counts confs) n ns))"

definition type_of_instance :: "instance_data \<Rightarrow> string" where
  "type_of_instance i = (case i_type i of None \<Rightarrow> ''OTHER'' | Some t \<Rightarrow> t)"

definition confidence_of :: "instance_data \<Rightarrow> real" where
  "confidence_of i = (case i_confidence i of None \<Rightarrow> 0.5 | Some c \<Rightarrow> c)"

definition type_scores :: "instance_data list \<Rightarrow> (string \<times> real) list" where
  "type_scores grp = fold (\<lambda>i. dd_add (type_of_instance i) (confidence_of i)) grp []"

definition determine_entity_type :: "instance_data list \<Rightarrow> entity_type option \<Rightarrow> entity_type res" where
  "determine_entity_type grp existing =
     (let scores = type_scores grp
      in case keys scores of
           [] \<Rightarrow> Inr OTHER
         | t # ts \<Rightarrow>
             let best = max_by (\<lambda>u. the (map_of scores u)) t ts;
                 best_score = the (map_of scores best);
                 tied = map fst (filter (\<lambda>(u, s). \<bar>s - best_score\<bar> < 0.1) scores)
             in case existing of
                  Some ex \<Rightarrow>
                    if 1 < length tied \<and> type_value ex \<in> set tied then EntityType (type_value ex)
                    else EntityType best
                | None \<Rightarrow> EntityType best)"

text \<open>
  The list of incompatible pairs is built before it is consulted: its members are looked up
  as attributes of the class, in the order written.
\<close>

definition incompatible_pairs :: "(entity_type \<times> entity_type) list res" where
  "incompatible_pairs =
     bindR (enum_member ''PERSON'') (\<lambda>p1. bindR (enum_member ''ORG'') (\<lambda>o1.
     bindR (enum_member ''PERSON'') (\<lambda>p2. bindR (enum_member ''TECHNOLOGY'') (\<lambda>t2.
     bindR (enum_member ''ORG'') (\<lambda>o3. bindR (enum_member ''PERSON'') (\<lambda>p3.
     bindR (enum_member ''TECHNOLOGY'') (\<lambda>t4. bindR (enum_member ''PERSON'') (\<lambda>p4.
       Inr [(p1, o1), (p2, t2), (o3, p3), (t4, p4)]))))))))"

definition are_types_compatible :: "string \<Rightarrow> string \<Rightarrow> bool res" where
  "are_types_compatible type1 type2 =
     bindR (EntityType type1) (\<lambda>t1. bindR (EntityType type2) (\<lambda>t2.
       if t1 = t2 then Inr True
       else bindR incompatible_pairs (\<lambda>ps. Inr ((t1, t2) \<notin> set ps))))"

section \<open>Descriptions\<close>

definition description_tokens :: "string \<Rightarrow> string set" where
  "description_tokens s = set (filter (\<lambda>w. 2 < length w) (str_words (str_lower s)))"

fun similarities :: "string list \<Rightarrow> real list" where
  "similarities [] = []"
| "similarities (d # ds) =
     map (\<lambda>d'. jaccard (description_tokens d) (description_tokens d'))
       (filter (\<lambda>d'. description_tokens d \<noteq> {} \<and> description_tokens d' \<noteq> {}) ds)
     @ similarities ds"

definition description_similarity :: "string list \<Rightarrow> real" where
  "description_similarity ds =
     (if length ds < 2 then 1
      else (let ss = similarities ds
            in if ss = [] then 0 else sum_list ss / real (length ss)))"

fun collect_sentences :: "string list \<Rightarrow> string list \<Rightarrow> string list \<Rightarrow> string list" where
  "collect_sentences sentences seen [] = sentences"
| "collect_sentences sentences seen (s # ss) =
     (let t = str_strip s
      in if t = [] \<or> str_lower t \<in> set seen then collect_sentences sentences seen ss
         else collect_sentences (sentences @ [t]) (str_lower t # seen) ss)"

definition is_stop :: "char \<Rightarrow> bool" where
  "is_stop c = (c \<in> {CHR ''.'', CHR ''!'', CHR ''?''})"

definition merge_descriptions_locally :: "string list \<Rightarrow> string" where
  "merge_descriptions_locally ds =
     (let sentences = collect_sentences [] [] (concat (map (split_runs is_stop []) ds));
          joined = str_join ''. '' sentences;
          merged = (if joined \<noteq> [] \<and> \<not> is_stop (last joined) then joined @ ''.'' else joined)
      in if 1200 < length merged then take 1197 merged @ ''...'' else merged)"

definition estimate_tokens :: "string \<Rightarrow> int" where
  "estimate_tokens s = int (length s) div 4"

fun split_sentences :: "string \<Rightarrow> string \<Rightarrow> string list" where
  "split_sentences cur [] = (if str_strip (rev cur) \<noteq> [] then [str_strip (rev cur)] else [])"
| "split_sentences cur (c # s) =
     (if is_stop c
      then (let t = str_strip (rev (c # cur))
            in (if t \<noteq> [] then [t] else []) @ split_sentences [] s)
      else split_sentences (c # cur) s)"

definition sentence_score :: "string \<Rightarrow> nat" where
  "sentence_score s = length s + length (str_words s) * 10"

fun select_sentences :: "int \<Rightarrow> int \<Rightarrow> string list \<Rightarrow> string list" where
  "select_sentences max_tokens cur [] = []"
| "select_sentences max_tokens cur (s # ss) =
     (if cur + estimate_tokens s \<le> max_tokens
      then s # select_sentences max_tokens (cur + estimate_tokens s) ss
      else if 50 < max_tokens - cur
           then (let tr = slice_to ((max_tokens - cur) * 4) s
                 in if tr \<noteq> [] then [tr @ ''...''] else [])
           else [])"

definition truncate_descriptions_smartly :: "string \<Rightarrow> int \<Rightarrow> string" where
  "truncate_descriptions_smartly text max_tokens =
     (let scored = sort_key (\<lambda>s. - int (sentence_score s)) (split_sentences [] text);
          selected = select_sentences max_tokens 0 scored;
          max_chars = max_tokens * 4
      in if selected \<noteq> [] then str_join '' '' selected
         else slice_to max_chars text @ (if max_chars < int (length text) then ''...'' else []))"

definition resolution_request :: "agent \<Rightarrow> string \<Rightarrow> string \<Rightarrow> chat_request" where
  "resolution_request A nm text =
     \<lparr> rq_model = model_name A, rq_system = resolution_prompt A,
       rq_user = ''Entity: '' @ nm @ nl @ nl @ ''Descriptions:'' @ nl @ text,
       rq_temperature = (if is_restricted_model A then None else Some (temperature A)),
       rq_max_completion_tokens = (if is_restricted_model A then Some 4000 else None),
       rq_max_tokens = (if is_restricted_model A then None else Some 1000) \<rparr>"

definition resolve_with_llm :: "agent \<Rightarrow> string \<Rightarrow> string \<Rightarrow> string res" where
  "resolve_with_llm A nm text = bindR (chat A (resolution_request A nm text)) (\<lambda>s. Inr (str_strip s))"

definition description_of :: "instance_data \<Rightarrow> string" where
  "description_of i = (case i_description i of None \<Rightarrow> [] | Some d \<Rightarrow> d)"

definition clean_descriptions :: "instance_data list \<Rightarrow> string list" where
  "clean_descriptions grp = filter (\<lambda>d. d \<noteq> []) (map (\<lambda>i. str_strip (description_of i)) grp)"

fun unique_descriptions :: "string list \<Rightarrow> string list \<Rightarrow> string list" where
  "unique_descriptions seen [] = []"
| "unique_descriptions seen (d # ds) =
     (if str_lower d \<in> set seen then unique_descriptions seen ds
      else d # unique_descriptions (str_lower d # seen) ds)"

definition combine_descriptions :: "string list \<Rightarrow> string" where
  "combine_descriptions ds = str_join (nl @ nl)
     (map (\<lambda>(i, d). ''Description '' @ str_of_nat (i + 1) @ '': '' @ d) (enumerate 0 ds))"

definition llm_text :: "agent \<Rightarrow> string list \<Rightarrow> string" where
  "llm_text A ds =
     (let text = combine_descriptions ds
      in case max_input_tokens A of
           None \<Rightarrow> text
         | Some m \<Rightarrow> if m < estimate_tokens text then truncate_descriptions_smartly text m else text)"

definition resolve_descriptions :: "agent \<Rightarrow> instance_data list \<Rightarrow> string \<Rightarrow> string option res" where
  "resolve_descriptions A grp nm =
     (let descriptions = clean_descriptions grp
      in if descriptions = [] then Inr None
         else if length descriptions = 1 then Inr (Some (hd descriptions))
         else (let unique = unique_descriptions [] descriptions
               in if length unique = 1 then Inr (Some (hd unique))
                  else if 0.8 \<le> description_similarity unique
                  then Inr (Some (merge_descriptions_locally unique))
                  else (case resolve_with_llm A nm (llm_text A unique) of
                          Inl e \<Rightarrow> if is_Exception e then Inr None else Inl e
                        | Inr d \<Rightarrow> Inr (if length d < 10 then None else Some d))))"

section \<open>Resolution of a group\<close>

definition overall_confidence :: "instance_data list \<Rightarrow> real" where
  "overall_confidence grp =
     (if grp = [] then 0
      else (let mean = sum_list (map confidence_of grp) / real (length grp);
                descriptions = clean_descriptions grp;
                agreement = (if 2 \<le> length descriptions then description_similarity descriptions else 1)
            in clamp01 (mean + 0.1 * log 10 (1 + real (length grp)) + 0.05 * agreement)))"

definition create_resolved_entity_from_single :: "agent \<Rightarrow> instance_data \<Rightarrow> resolved_entity res" where
  "create_resolved_entity_from_single A i =
     bindR (need ''name'' (i_name i)) (\<lambda>nm.
     bindR (need ''type'' (i_type i)) (\<lambda>ts.
     bindR (EntityType ts) (\<lambda>t.
     bindR (need ''description'' (i_description i)) (\<lambda>d.
     bindR (need ''confidence'' (i_confidence i)) (\<lambda>c.
       ResolvedEntity \<lparr> entity_id = generate_entity_id (md5 A) nm (Some t), canonical_name = nm,
         name = nm, etype = t, description = d, confidence = c, source_count = 1,
         resolution_methods = [''single_instance''], aliases = [nm] \<rparr>)))))"

text \<open>\<open>list(set(entity["name"] for entity in entity_group))\<close>.\<close>

definition alias_list :: "instance_data list \<Rightarrow> string list" where
  "alias_list grp = remdups (map (the \<circ> i_name) grp)"

definition resolve_multiple_entities :: "agent \<Rightarrow> instance_data list \<Rightarrow> resolved_entity option res" where
  "resolve_multiple_entities A grp =
     bindR (determine_canonical_name grp) (\<lambda>nm.
     bindR (determine_entity_type grp None) (\<lambda>t.
     bindR (resolve_descriptions A grp nm) (\<lambda>d.
       case d of
         None \<Rightarrow> Inr None
       | Some text \<Rightarrow>
           if text = [] then Inr None
           else bindR (ResolvedEntity
             \<lparr> entity_id = generate_entity_id (md5 A) nm (Some t), canonical_name = nm, name = nm,
               etype = t, description = text, confidence = overall_confidence grp,
               source_count = int (length grp),
               resolution_methods = [''llm_summary'', ''name_grouping'']
                 @ (if 1 < length grp then [''multi_instance''] else []),
               aliases = alias_list grp \<rparr>) (\<lambda>e. Inr (Some e)))))"

definition resolve_entity_group :: "agent \<Rightarrow> instance_data list \<Rightarrow> resolved_entity option res" where
  "resolve_entity_group A grp =
     (case grp of
        [] \<Rightarrow> Inr None
      | [i] \<Rightarrow> bindR (create_resolved_entity_from_single A i) (\<lambda>e. Inr (Some e))
      | _ \<Rightarrow> resolve_multiple_entities A grp)"

fun resolve_groups :: "agent \<Rightarrow> (string \<times> instance_data list) list \<Rightarrow> resolved_entity list res" where
  "resolve_groups A [] = Inr []"
| "resolve_groups A ((n, grp) # gs) =
     (case resolve_entity_group A grp of
        Inl e \<Rightarrow> if is_Exception e then resolve_groups A gs else Inl e
      | Inr r \<Rightarrow> bindR (resolve_groups A gs) (\<lambda>es.
          Inr ((case r of None \<Rightarrow> [] | Some e \<Rightarrow> [e]) @ es)))"

definition resolve_entities :: "agent \<Rightarrow> extraction list \<Rightarrow> resolved_entity list res" where
  "resolve_entities A data =
     with_fallback [] (bindR (group_entities_by_name data) (resolve_groups A))"

section \<open>Statistics\<close>

record resolution_stats =
  total_entities :: nat
  single_instance_entities :: nat
  multi_instance_entities :: int
  avg_source_count :: real
  avg_confidence :: real
  entity_type_distribution :: "(string \<times> nat) list"
  resolution_method_distribution :: "(string \<times> nat) list"

definition get_resolution_stats :: "resolved_entity list \<Rightarrow> resolution_stats" where
  "get_resolution_stats es =
     (let n = length es; single = length (filter (\<lambda>e. source_count e = 1) es)
      in if es = []
         then \<lparr> total_entities = 0, single_instance_entities = 0, multi_instance_entities = 0,
                avg_source_count = 0, avg_confidence = 0, entity_type_distribution = [],
                resolution_method_distribution = [] \<rparr>
         else \<lparr> total_entities = n, single_instance_entities = single,
                multi_instance_entities = int n - int single,
                avg_source_count = sum_list (map (real_of_int \<circ> source_count) es) / real n,
                avg_confidence = sum_list (map confidence es) / real n,
                entity_type_distribution = fold (\<lambda>e. dd_add (type_value (etype e)) 1) es [],
                resolution_method_distribution =
                  fold (\<lambda>m. dd_add m 1) (concat (map resolution_methods es)) [] \<rparr>)"

end
