(* ===== verification/Entity_Facts.thy ===== *)
theory Entity_Facts
  imports Entity_Resolution
begin

text \<open>
  What the entity resolution agent guarantees: the groups partition the extracted entities, the
  canonical name and the type are maximal, every resolved entity is well-formed, scores are
  bounded; and where the code falls short of its documentation.
\<close>

section \<open>Grouping\<close>

definition tagged :: "extraction list \<Rightarrow> instance_data list" where
  "tagged data = concat (map (\<lambda>x. case ex_entities x of None \<Rightarrow> []
     | Some is \<Rightarrow> map (\<lambda>i. i\<lparr>source_chunk := (case ex_chunk_id x of None \<Rightarrow> ''unknown'' | Some c \<Rightarrow> c)\<rparr>) is)
     data)"

abbreviation norm_name :: "instance_data \<Rightarrow> string" where
  "norm_name i \<equiv> normalize_entity_name (the (i_name i))"

lemma group_one_fold:
  "group_one c is g = Inr g' \<longleftrightarrow>
     (\<forall>i\<in>set is. i_name i \<noteq> None) \<and>
     g' = fold (\<lambda>i. dd_append (norm_name i) i) (map (\<lambda>i. i\<lparr>source_chunk := c\<rparr>) is) g"
proof (induction "is" arbitrary: g)
  case (Cons i "is")
  then show ?case by (cases "i_name i") (auto simp: need_def)
qed auto

lemma group_extractions_fold:
  "group_extractions data g = Inr g' \<longleftrightarrow>
     (\<forall>i\<in>set (tagged data). i_name i \<noteq> None) \<and>
     g' = fold (\<lambda>i. dd_append (norm_name i) i) (tagged data) g"
proof (induction data arbitrary: g)
  case (Cons x xs)
  show ?case
  proof (cases "ex_entities x")
    case None
    with Cons show ?thesis by (simp add: tagged_def)
  next
    case (Some "is")
    define c where "c = (case ex_chunk_id x of None \<Rightarrow> ''unknown'' | Some c \<Rightarrow> c)"
    have t: "tagged (x # xs) = map (\<lambda>i. i\<lparr>source_chunk := c\<rparr>) is @ tagged xs"
      by (simp add: tagged_def Some c_def)
    show ?thesis
    proof (cases "group_one c is g")
      case (Inl e)
      then have "\<not> (\<forall>i\<in>set is. i_name i \<noteq> None)"
        using group_one_fold [of c "is" g] by auto
      with Inl show ?thesis
        by (force simp: Some t c_def [symmetric] ball_Un)
    next
      case (Inr h)
      with group_one_fold [of c "is" g h] show ?thesis
        by (auto simp: Some t c_def [symmetric] Cons.IH)
    qed
  qed
qed (auto simp: tagged_def)

text \<open>Grouping partitions: it succeeds exactly when every extracted entity has a name, there is
  one group per normalized name, and the group of a name holds exactly the entities with that
  normalized name, each with its chunk, in the order of extraction.\<close>

theorem groups_partition:
  assumes "group_entities_by_name data = Inr groups"
  shows "list_all (\<lambda>i. i_name i \<noteq> None) (tagged data) \<and> distinct (keys groups)
    \<and> set (keys groups) = norm_name ` set (tagged data)
    \<and> list_all (\<lambda>(k, grp). grp \<noteq> [] \<and> grp = filter (\<lambda>i. norm_name i = k) (tagged data)) groups"
proof -
  define F where "F = fold (\<lambda>i. dd_append (norm_name i) i) (tagged data)"
  from assms have names: "\<forall>i\<in>set (tagged data). i_name i \<noteq> None" and g: "groups = F []"
    unfolding group_entities_by_name_def group_extractions_fold F_def by auto
  have wf: "wf_dict groups"
    unfolding g F_def by (rule wf_dict_fold_dd_append) simp
  have ks: "set (keys groups) = norm_name ` set (tagged data)"
    unfolding g F_def keys_fold_dd_append by simp
  have "grp \<noteq> [] \<and> grp = filter (\<lambda>i. norm_name i = k) (tagged data)"
    if "(k, grp) \<in> set groups" for k grp
  proof -
    have "map_of groups k = Some grp"
      using that wf by (simp add: wf_dict_def)
    moreover have "k \<in> norm_name ` set (tagged data)"
      using that ks by force
    ultimately show ?thesis
      unfolding g F_def map_of_fold_dd_append by (auto simp: filter_empty_conv split: if_splits)
  qed
  with names wf ks show ?thesis
    by (auto simp: list_all_iff wf_dict_def)
qed

section \<open>Canonical name and type\<close>

definition occurrences :: "string \<Rightarrow> instance_data list \<Rightarrow> nat" where
  "occurrences nm grp = length (filter (\<lambda>i. i_name i = Some nm) grp)"

definition mean_confidence :: "string \<Rightarrow> instance_data list \<Rightarrow> real" where
  "mean_confidence nm grp =
     sum_list (map (the \<circ> i_confidence) (filter (\<lambda>i. i_name i = Some nm) grp))
       / real (occurrences nm grp)"

lemma count_names_fold:
  "count_names grp (d, e) = Inr (d', e') \<longleftrightarrow>
     (\<forall>i\<in>set grp. i_name i \<noteq> None \<and> i_confidence i \<noteq> None) \<and>
     d' = fold (\<lambda>i. dd_add (the (i_name i)) 1) grp d \<and>
     e' = fold (\<lambda>i. dd_append (the (i_name i)) (the (i_confidence i))) grp e"
proof (induction grp arbitrary: d e)
  case (Cons i grp)
  then show ?case
    by (cases "i_name i"; cases "i_confidence i") (auto simp: need_def)
qed auto

lemma canonical_name_max:
  assumes "determine_canonical_name grp = Inr nm"
  shows "(\<forall>i\<in>set grp. i_name i \<noteq> None \<and> i_confidence i \<noteq> None) \<and> nm \<in> (the \<circ> i_name) ` set grp \<and>
    (\<forall>m \<in> (the \<circ> i_name) ` set grp.
       (occurrences m grp, mean_confidence m grp) \<le> (occurrences nm grp, mean_confidence nm grp))"
proof -
  obtain d e where c: "count_names grp ([], []) = Inr (d, e)"
    and r: "(case keys d of [] \<Rightarrow> Inl (Exn ''ValueError'' ''max() arg is an empty sequence'')
             | n # ns \<Rightarrow> Inr (max_by (name_key d e) n ns)) = Inr nm"
    using assms by (auto simp: determine_canonical_name_def bindR_eq_Inr)
  from c have all: "\<forall>i\<in>set grp. i_name i \<noteq> None \<and> i_confidence i \<noteq> None"
    and d: "d = fold (\<lambda>i. dd_add (the (i_name i)) 1) grp []"
    and e: "e = fold (\<lambda>i. dd_append (the (i_name i)) (the (i_confidence i))) grp []"
    unfolding count_names_fold by auto
  have ks: "set (keys d) = (the \<circ> i_name) ` set grp"
    unfolding d keys_fold_dd_add by (simp add: image_comp comp_def)
  have flt: "filter (\<lambda>i. the (i_name i) = m) grp = filter (\<lambda>i. i_name i = Some m) grp" for m
    using all by (intro filter_cong) auto
  have key: "name_key d e m = (occurrences m grp, mean_confidence m grp)"
    if "m \<in> (the \<circ> i_name) ` set grp" for m
  proof -
    have ex: "\<not> (\<forall>i\<in>set grp. the (i_name i) \<noteq> m)" using that by auto
    then have "map_of d m = Some (occurrences m grp)"
      unfolding d map_of_fold_dd_add by (simp add: flt occurrences_def sum_list_triv)
    moreover have "map_of e m = Some (map (the \<circ> i_confidence) (filter (\<lambda>i. i_name i = Some m) grp))"
      using ex unfolding e map_of_fold_dd_append by (simp add: flt comp_def)
    ultimately show ?thesis
      by (simp add: name_key_def mean_confidence_def occurrences_def)
  qed
  obtain n ns where k: "keys d = n # ns" and nm: "nm = max_by (name_key d e) n ns"
    using r by (cases "keys d") auto
  have set: "insert n (set ns) = (the \<circ> i_name) ` set grp"
    using ks k by simp
  have "nm \<in> (the \<circ> i_name) ` set grp"
    using max_by_in [of "name_key d e" n ns] nm set by simp
  moreover have "name_key d e m \<le> name_key d e nm" if "m \<in> (the \<circ> i_name) ` set grp" for m
    using max_by_max [of m n ns "name_key d e"] that nm set by simp
  ultimately show ?thesis
    using all key by metis
qed

text \<open>The canonical name of a group is one of the names in it; no other name occurs more
  often, and none that occurs as often has a higher mean confidence.\<close>

theorem canonical_name_best:
  assumes "determine_canonical_name grp = Inr nm" and "m \<in> (the \<circ> i_name) ` set grp"
  shows "nm \<in> (the \<circ> i_name) ` set grp \<and> occurrences m grp \<le> occurrences nm grp
    \<and> (occurrences m grp < occurrences nm grp \<or> mean_confidence m grp \<le> mean_confidence nm grp)"
  using canonical_name_max [OF assms(1)] assms(2) by fastforce

definition type_weight :: "string \<Rightarrow> instance_data list \<Rightarrow> real" where
  "type_weight t grp = sum_list (map confidence_of (filter (\<lambda>i. type_of_instance i = t) grp))"

lemma type_scores_wf: "wf_dict (type_scores grp)"
  unfolding type_scores_def by (rule wf_dict_fold_dd_add) simp

lemma keys_type_scores: "set (keys (type_scores grp)) = type_of_instance ` set grp"
  unfolding type_scores_def keys_fold_dd_add by simp

lemma type_scores_weight:
  "t \<in> type_of_instance ` set grp \<Longrightarrow> map_of (type_scores grp) t = Some (type_weight t grp)"
  unfolding type_scores_def map_of_fold_dd_add by (auto simp: type_weight_def)

lemma EntityType_value [simp]: "EntityType (type_value t) = Inr t"
  by (cases t) (simp_all add: EntityType_def entity_types_def)

lemma EntityType_inverse: "EntityType s = Inr t \<Longrightarrow> s = type_value t"
  by (auto simp: EntityType_def entity_types_def split: if_splits)

lemma type_value_inject [simp]: "type_value s = type_value t \<longleftrightarrow> s = t"
  by (metis EntityType_value sum.inject(2))

text \<open>Without a stored type, the type of a group has the largest sum of confidences; with a
  stored type that one is kept if its sum is within a tenth of the largest.\<close>

theorem entity_type_best:
  assumes "determine_entity_type grp existing = Inr t" and "grp \<noteq> []"
    and "s \<in> type_of_instance ` set grp"
  shows "type_value t \<in> type_of_instance ` set grp
    \<and> (type_weight s grp \<le> type_weight (type_value t) grp
       \<or> existing = Some t \<and> type_weight s grp < type_weight (type_value t) grp + 0.1)"
proof -
  define sc where "sc = type_scores grp"
  obtain u us where k: "keys sc = u # us"
    using assms(3) keys_type_scores [of grp] unfolding sc_def
    by (cases "keys (type_scores grp)") auto
  define best where "best = max_by (\<lambda>u. the (map_of sc u)) u us"
  have set: "insert u (set us) = type_of_instance ` set grp"
    using k keys_type_scores [of grp] unfolding sc_def by simp
  have weight: "the (map_of sc x) = type_weight x grp" if "x \<in> type_of_instance ` set grp" for x
    using type_scores_weight [OF that] by (simp add: sc_def)
  have bin: "best \<in> type_of_instance ` set grp"
    using max_by_in [of "\<lambda>u. the (map_of sc u)" u us] set by (simp add: best_def)
  have bmax: "type_weight x grp \<le> type_weight best grp" if "x \<in> type_of_instance ` set grp" for x
    using max_by_max [of x u us "\<lambda>u. the (map_of sc u)"] that set weight bin by (simp add: best_def)
  define tied where "tied = map fst (filter (\<lambda>(u, s). \<bar>s - the (map_of sc best)\<bar> < 0.1) sc)"
  have res: "determine_entity_type grp existing =
     (case existing of
        Some ex \<Rightarrow> if 1 < length tied \<and> type_value ex \<in> set tied then EntityType (type_value ex)
                   else EntityType best
      | None \<Rightarrow> EntityType best)"
    using k unfolding determine_entity_type_def sc_def [symmetric] tied_def best_def Let_def
    by (simp del: list.map)
  show ?thesis
  proof (cases "EntityType best = Inr t")
    case True
    then show ?thesis
      using EntityType_inverse bin bmax [OF assms(3)] by metis
  next
    case False
    with assms(1) res have ex: "existing = Some t" and "type_value t \<in> set tied"
      by (auto split: option.splits if_splits)
    then obtain w where w: "(type_value t, w) \<in> set sc" and near: "\<bar>w - the (map_of sc best)\<bar> < 0.1"
      by (auto simp: tied_def)
    have tin: "type_value t \<in> type_of_instance ` set grp"
      using w keys_type_scores [of grp] unfolding sc_def by force
    have "map_of sc (type_value t) = Some w"
      using w type_scores_wf [of grp] by (simp add: sc_def wf_dict_def)
    then have "w = type_weight (type_value t) grp"
      using weight [OF tin] by simp
    then have "type_weight best grp < type_weight (type_value t) grp + 0.1"
      using near weight [OF bin] by linarith
    with bmax [OF assms(3)] ex tin show ?thesis by simp
  qed
qed

section \<open>Well-formed results\<close>

lemma lower_char_idem [simp]: "lower_char (lower_char c) = lower_char c"
proof (cases "65 \<le> (of_char c :: nat) \<and> (of_char c :: nat) \<le> 90")
  case True
  then have "(of_char (lower_char c) :: nat) = of_char c + 32"
    by (simp add: lower_char_def)
  with True show ?thesis by (subst lower_char_def) simp
qed (auto simp: lower_char_def)

lemma str_lower_idem [simp]: "str_lower (str_lower s) = str_lower s"
  by (simp add: str_lower_def comp_def)

lemma length_str_lower [simp]: "length (str_lower s) = length s"
  by (simp add: str_lower_def)

definition well_formed :: "agent \<Rightarrow> resolved_entity \<Rightarrow> bool" where
  "well_formed A e =
     (resolved_fields_ok e \<and> name e = canonical_name e \<and> canonical_name e \<in> set (aliases e)
      \<and> distinct (aliases e)
      \<and> list_all (\<lambda>a. normalize_entity_name a = normalize_entity_name (canonical_name e)) (aliases e)
      \<and> entity_id e = str_lower (generate_entity_id (md5 A) (canonical_name e) (Some (etype e))))"

lemma ResolvedEntity_Inr:
  "ResolvedEntity e = Inr e' \<longleftrightarrow> resolved_fields_ok e \<and> e' = e\<lparr>entity_id := str_lower (entity_id e)\<rparr>"
  by (auto simp: ResolvedEntity_def)

lemma fields_ok_lower [simp]:
  "resolved_fields_ok (e\<lparr>entity_id := str_lower s\<rparr>) = resolved_fields_ok (e\<lparr>entity_id := s\<rparr>)"
  by (simp add: resolved_fields_ok_def)

lemma fields_ok_ResolvedEntity:
  "ResolvedEntity e = Inr e' \<Longrightarrow> resolved_fields_ok e'"
  by (auto simp: ResolvedEntity_Inr resolved_fields_ok_def)

lemma single_well_formed:
  assumes "create_resolved_entity_from_single A i = Inr e"
  shows "well_formed A e \<and> canonical_name e = the (i_name i) \<and> source_count e = 1"
proof -
  obtain nm t d c where i: "i_name i = Some nm"
    and r: "ResolvedEntity \<lparr> entity_id = generate_entity_id (md5 A) nm (Some t), canonical_name = nm,
         name = nm, etype = t, description = d, confidence = c, source_count = 1,
         resolution_methods = [''single_instance''], aliases = [nm] \<rparr> = Inr e"
    using assms unfolding create_resolved_entity_from_single_def bindR_eq_Inr need_eq_Inr by blast
  from fields_ok_ResolvedEntity [OF r] r show ?thesis
    by (auto simp: ResolvedEntity_Inr well_formed_def i)
qed

lemma multiple_well_formed:
  assumes "resolve_multiple_entities A grp = Inr (Some e)"
    and k: "\<forall>i\<in>set grp. norm_name i = k"
  shows "well_formed A e \<and> normalize_entity_name (canonical_name e) = k
    \<and> source_count e = int (length grp)"
proof -
  obtain nm t d where nm: "determine_canonical_name grp = Inr nm"
    and r: "ResolvedEntity
             \<lparr> entity_id = generate_entity_id (md5 A) nm (Some t), canonical_name = nm, name = nm,
               etype = t, description = d, confidence = overall_confidence grp,
               source_count = int (length grp),
               resolution_methods = [''llm_summary'', ''name_grouping'']
                 @ (if 1 < length grp then [''multi_instance''] else []),
               aliases = alias_list grp \<rparr> = Inr e"
    using assms(1)
    by (auto simp: resolve_multiple_entities_def bindR_eq_Inr split: option.splits if_splits)
  have nm_in: "nm \<in> set (alias_list grp)"
    using canonical_name_max [OF nm] by (auto simp: alias_list_def)
  have al: "normalize_entity_name a = k" if "a \<in> set (alias_list grp)" for a
    using that k by (auto simp: alias_list_def)
  from fields_ok_ResolvedEntity [OF r] r nm_in al show ?thesis
    by (auto simp: ResolvedEntity_Inr well_formed_def list_all_iff alias_list_def)
qed

lemma group_well_formed:
  assumes "resolve_entity_group A grp = Inr (Some e)" and "\<forall>i\<in>set grp. norm_name i = k"
  shows "well_formed A e \<and> normalize_entity_name (canonical_name e) = k
    \<and> source_count e = int (length grp)"
proof (cases grp)
  case Nil
  with assms show ?thesis by (simp add: resolve_entity_group_def)
next
  case (Cons i rest)
  show ?thesis
  proof (cases rest)
    case Nil
    with assms Cons show ?thesis
      using single_well_formed [of A i e] by (auto simp: resolve_entity_group_def bindR_eq_Inr)
  next
    case (Cons j rest')
    with assms \<open>grp = i # rest\<close> show ?thesis
      using multiple_well_formed [of A grp e k] by (simp add: resolve_entity_group_def)
  qed
qed

lemma resolve_groups_well_formed:
  assumes "resolve_groups A gs = Inr es" and "distinct (keys gs)"
    and "list_all (\<lambda>(k, grp). grp = filter (\<lambda>i. norm_name i = k) ds) gs"
  shows "list_all (\<lambda>e. well_formed A e \<and> source_count e = int (length
           (filter (\<lambda>i. norm_name i = normalize_entity_name (canonical_name e)) ds))) es
    \<and> distinct (map (\<lambda>e. normalize_entity_name (canonical_name e)) es)
    \<and> set (map (\<lambda>e. normalize_entity_name (canonical_name e)) es) \<subseteq> set (keys gs)"
  using assms
proof (induction A gs arbitrary: es rule: resolve_groups.induct)
  case (2 A k grp gs)
  have grp: "\<forall>i\<in>set grp. norm_name i = k" and len: "grp = filter (\<lambda>i. norm_name i = k) ds"
    using "2.prems"(3) by auto
  have rest: "distinct (keys gs)" "list_all (\<lambda>(k, grp). grp = filter (\<lambda>i. norm_name i = k) ds) gs"
    "k \<notin> set (keys gs)"
    using "2.prems"(2,3) by auto
  show ?case
  proof (cases "resolve_entity_group A grp")
    case (Inl e)
    with 2 show ?thesis by (auto split: if_splits)
  next
    case (Inr r)
    then obtain es' where es': "resolve_groups A gs = Inr es'"
      and es: "es = (case r of None \<Rightarrow> [] | Some e \<Rightarrow> [e]) @ es'"
      using "2.prems"(1) by (auto simp: bindR_eq_Inr)
    note IH = "2.IH" (2) [OF Inr es' rest(1,2)]
    show ?thesis
    proof (cases r)
      case None
      with es IH show ?thesis by auto
    next
      case (Some e)
      from group_well_formed [OF _ grp, of A e] Inr Some
      have e: "well_formed A e" "normalize_entity_name (canonical_name e) = k"
        "source_count e = int (length grp)" by auto
      have cnt: "source_count e = int (length (filter (\<lambda>i. norm_name i = k) ds))"
        using e(3) len by simp
      have "k \<notin> set (map (\<lambda>e. normalize_entity_name (canonical_name e)) es')"
        using IH rest(3) by blast
      with IH e(1,2) cnt es Some show ?thesis by auto
    qed
  qed
qed simp

text \<open>C10: Every entity the agent returns satisfies the constraints of its model, has its canonical
  name among its distinct aliases, an identifier computed from that name and its type, aliases
  that share one normalized name, and as source count the number of extracted entities with
  that normalized name; no two returned entities share a normalized name.\<close>

theorem resolved_entities_well_formed:
  assumes "resolve_entities A data = Inr es"
  shows "list_all (\<lambda>e. well_formed A e \<and> source_count e = int (length
           (filter (\<lambda>i. norm_name i = normalize_entity_name (canonical_name e)) (tagged data)))) es
    \<and> distinct (map (\<lambda>e. normalize_entity_name (canonical_name e)) es)"
proof (cases "bindR (group_entities_by_name data) (resolve_groups A)")
  case (Inl e)
  with assms show ?thesis by (auto simp: resolve_entities_def with_fallback_def split: if_splits)
next
  case (Inr r)
  then obtain gs where gs: "group_entities_by_name data = Inr gs" and r: "resolve_groups A gs = Inr es"
    using assms by (auto simp: resolve_entities_def with_fallback_def bindR_eq_Inr)
  from groups_partition [OF gs] have "distinct (keys gs)"
    and "list_all (\<lambda>(k, grp). grp = filter (\<lambda>i. norm_name i = k) (tagged data)) gs"
    by (auto simp: list_all_iff)
  from resolve_groups_well_formed [OF r this] show ?thesis by blast
qed

end
