(* ===== verification/Entity_Scores.thy ===== *)
theory Entity_Scores
  imports Entity_Facts
begin

text \<open>
  Bounds of the similarity scores and confidences, the size of merged and truncated
  descriptions, and what the type checks and the token budget of the agent really do.
\<close>

section \<open>Scores\<close>

lemma clamp01_range [simp]: "0 \<le> clamp01 x" "clamp01 x \<le> 1"
  by (auto simp: clamp01_def)

lemma clamp01_id: "0 \<le> x \<Longrightarrow> x \<le> 1 \<Longrightarrow> clamp01 x = x"
  by (simp add: clamp01_def)

lemma string_score_range: "0 \<le> string_score A a b \<and> string_score A a b \<le> 1"
  by (simp add: string_score_def Let_def)

lemma string_score_equal:
  "a \<noteq> [] \<Longrightarrow> b \<noteq> [] \<Longrightarrow> normalize_entity_name a = normalize_entity_name b \<Longrightarrow> string_score A a b = 1"
  by (simp add: string_score_def Let_def)

lemma token_score_range: "0 \<le> token_score a b \<and> token_score a b \<le> 1"
  by (simp add: token_score_def Let_def)

lemma token_score_equal:
  assumes "a \<noteq> []" and "b \<noteq> []" and "normalize_entity_name a = normalize_entity_name b"
  shows "token_score a b = 1"
proof -
  have "name_tokens a = name_tokens b" "finite (name_tokens a)"
    using assms(3) by (simp_all add: name_tokens_def)
  with assms(1,2) show ?thesis
    by (simp add: token_score_def Let_def jaccard_self clamp01_def)
qed

text \<open>The combined similarity of two names lies between 0 and 1, whatever the fuzzy matcher
  returns, and is 1 for nonempty names with the same normalized form.\<close>

theorem multi_score_range:
  "0 \<le> multi_strategy_score A a b emb \<and> multi_strategy_score A a b emb \<le> 1"
  by (simp add: multi_strategy_score_def Let_def)

lemma multi_score_equal:
  assumes "a \<noteq> []" and "b \<noteq> []" and "normalize_entity_name a = normalize_entity_name b"
  shows "multi_strategy_score A a b emb = 1"
  using string_score_equal [OF assms, of A] token_score_equal [OF assms]
  by (simp add: multi_strategy_score_def Let_def clamp01_def)

lemma jaccard_tokens: "0 \<le> jaccard (description_tokens a) (description_tokens b)
    \<and> jaccard (description_tokens a) (description_tokens b) \<le> 1"
  by (rule jaccard_range) (simp_all add: description_tokens_def)

lemma similarities_range: "x \<in> set (similarities ds) \<Longrightarrow> 0 \<le> x \<and> x \<le> 1"
  using jaccard_tokens by (induction ds) auto

lemma mean_range:
  assumes "\<forall>x\<in>set xs. 0 \<le> x \<and> x \<le> (1::real)" and "xs \<noteq> []"
  shows "0 \<le> sum_list xs / real (length xs) \<and> sum_list xs / real (length xs) \<le> 1"
proof -
  have "0 \<le> sum_list xs \<and> sum_list xs \<le> real (length xs)"
    using assms(1) by (induction xs) auto
  with assms(2) show ?thesis by (simp add: divide_le_eq_1)
qed

lemma description_similarity_range:
  "0 \<le> description_similarity ds \<and> description_similarity ds \<le> 1"
  using mean_range [of "similarities ds"] similarities_range [of _ ds]
  by (auto simp: description_similarity_def Let_def)

text \<open>The confidence of a group lies between 0 and 1 and is at least the mean of the
  confidences of its members, when these lie in that range: more sources never lower it.\<close>

theorem confidence_at_least_mean:
  assumes "grp \<noteq> []" and "list_all (\<lambda>i. 0 \<le> confidence_of i \<and> confidence_of i \<le> 1) grp"
  shows "sum_list (map confidence_of grp) / real (length grp) \<le> overall_confidence grp
    \<and> overall_confidence grp \<le> 1"
proof -
  define mean where "mean = sum_list (map confidence_of grp) / real (length grp)"
  have mean: "mean \<le> 1"
    using mean_range [of "map confidence_of grp"] assms by (auto simp: mean_def list_all_iff)
  define agreement where "agreement = (if 2 \<le> length (clean_descriptions grp)
    then description_similarity (clean_descriptions grp) else 1)"
  have "0 \<le> agreement"
    using description_similarity_range by (simp add: agreement_def)
  moreover have "0 \<le> log 10 (1 + real (length grp))"
    by simp
  ultimately have "mean \<le> mean + 0.1 * log 10 (1 + real (length grp)) + 0.05 * agreement"
    by simp
  with mean have "mean \<le> clamp01 (mean + 0.1 * log 10 (1 + real (length grp)) + 0.05 * agreement)"
    unfolding clamp01_def by linarith
  then show ?thesis
    using assms(1) by (simp add: overall_confidence_def mean_def agreement_def Let_def)
qed

section \<open>Descriptions\<close>

text \<open>A description merged without the language model has at most 1200 characters.\<close>

theorem merged_bounded: "length (merge_descriptions_locally ds) \<le> 1200"
  by (simp add: merge_descriptions_locally_def Let_def)

lemma resolve_descriptions_local:
  assumes "length (unique_descriptions [] (clean_descriptions grp)) \<le> 1
    \<or> 0.8 \<le> description_similarity (unique_descriptions [] (clean_descriptions grp))"
  shows "resolve_descriptions (A\<lparr>chat := c\<rparr>) grp nm = resolve_descriptions A grp nm"
  using assms
  by (cases "clean_descriptions grp")
    (auto simp: resolve_descriptions_def Let_def split: if_splits)

lemma split_short_sentences:
  "split_sentences [] (concat (replicate n ''ab.'')) = replicate n ''ab.''"
  by (induction n) (simp_all add: is_stop_def str_strip_def is_space_def Let_def)

lemma sort_key_replicate: "sort_key f (replicate n x) = replicate n x"
  by (induction n) (auto simp: insort_is_Cons)

lemma select_short: "0 \<le> m \<Longrightarrow> select_sentences m 0 (replicate n ''ab.'') = replicate n ''ab.''"
  by (induction n) (simp_all add: estimate_tokens_def)

lemma length_str_join: "ss \<noteq> [] \<Longrightarrow>
  length (str_join sep ss) = sum_list (map length ss) + length sep * (length ss - 1)"
  by (induction sep ss rule: str_join.induct) (auto simp: algebra_simps)

text \<open>The token budget is not a bound: the estimate of each sentence is rounded down to whole
  tokens before it is added, so sentences of up to three characters are free, and for every
  budget there is a text whose truncated form exceeds it.\<close>

theorem budget_exceeded:
  "\<exists>t. int m < estimate_tokens (truncate_descriptions_smartly t (int m))"
proof
  define n where "n = m + 2"
  have n: "replicate n ''ab.'' \<noteq> []" by (simp add: n_def)
  have "truncate_descriptions_smartly (concat (replicate n ''ab.'')) (int m) =
    str_join '' '' (replicate n ''ab.'')"
    using n by (simp add: truncate_descriptions_smartly_def split_short_sentences
      sort_key_replicate select_short Let_def)
  moreover have "length (str_join '' '' (replicate n ''ab.'')) = 4 * m + 7"
    using sum_list_replicate [of "m + 2" "3::nat"]
    by (subst length_str_join [OF n]) (simp add: n_def map_replicate numeral_3_eq_3)
  ultimately show "int m < estimate_tokens (truncate_descriptions_smartly (concat (replicate n ''ab.'')) (int m))"
    by (simp add: estimate_tokens_def)
qed

section \<open>Types and names\<close>

lemma incompatible_pairs_raise:
  "\<exists>m. incompatible_pairs = Inl (Exn ''AttributeError'' m)"
  by (simp add: incompatible_pairs_def enum_member_def entity_types_def)

text \<open>The compatibility check never answers for two different types: the table of pairs that
  must not be merged names a member the enumeration does not have.\<close>

theorem different_types_raise:
  assumes "s \<noteq> t"
  shows "\<exists>m. are_types_compatible (type_value s) (type_value t) = Inl (Exn ''AttributeError'' m)"
proof -
  obtain m where m: "incompatible_pairs = Inl (Exn ''AttributeError'' m)"
    using incompatible_pairs_raise by blast
  have "are_types_compatible (type_value s) (type_value t) = Inl (Exn ''AttributeError'' m)"
    using assms unfolding are_types_compatible_def m by simp
  then show ?thesis by blast
qed

lemma different_types_raise_witness:
  "PERSON \<noteq> ORGANIZATION \<and>
   (\<exists>m. are_types_compatible (type_value PERSON) (type_value ORGANIZATION) = Inl (Exn ''AttributeError'' m))"
  using different_types_raise [of PERSON ORGANIZATION] by simp

text \<open>The normalized form is not stable: two titles are removed only in the order of the list.\<close>

lemma normalization_not_idempotent:
  "normalize_entity_name ''The Mr. Smith'' = ''mr. smith''
   \<and> normalize_entity_name ''mr. smith'' = ''smith''"
  by code_simp

text \<open>Pairs of descriptions without a word of three letters are given a similarity, which is
  then dropped: identical sets of tokens count as no agreement.\<close>

lemma empty_tokens_no_agreement: "description_similarity [''a b c d e f'', ''a b c d e f''] = 0"
  by code_simp

end
