(* ===== verification/Entity_Store.thy ===== *)
theory Entity_Store
  imports Entity_Scores
begin

text \<open>
  \<open>domain/graphrag/stages/entity_resolution.py\<close>: candidates, matching, the merge into the stored
  entities, mentions and the status of a chunk.

  The database is a state of any type with the operations of \<open>entity_db\<close>, each of which may
  raise. What the code relies on is \<open>entity_db_laws\<close>: the documented meaning of \<open>find_one\<close>, of
  a query with \<open>$or\<close> and \<open>$in\<close> and a limit, and of \<open>find_one_and_update\<close> with its update
  operators, over an abstraction of the state to the stored documents. The transformation log
  and the intermediate data go to collections of their own, and their services catch what
  they raise: they are not modelled. One time is read per document.
\<close>

section \<open>Stored documents\<close>

record provenance_entry =
  p_video_id :: string
  p_chunk_id :: string
  p_method :: string
  p_at :: rat

text \<open>
  A stored entity. Documents written before the normalized fields existed lack them:
  \<open>d_canonical_norm\<close> is \<open>None\<close> and \<open>d_aliases_norm\<close> is empty.
\<close>

record entity_doc =
  d_id :: string
  d_canonical :: string
  d_canonical_norm :: "string option"
  d_name :: string
  d_type :: string
  d_description :: string
  d_confidence :: real
  d_source_count :: int
  d_aliases :: "string list"
  d_aliases_norm :: "string list"
  d_source_chunks :: "string list"
  d_provenance :: "provenance_entry list"
  d_created_at :: rat
  d_first_seen :: rat
  d_updated_at :: rat
  d_last_seen :: rat

text \<open>The update document, one part per operator.\<close>

record insert_fields =
  si_entity_id :: string
  si_created_at :: rat
  si_first_seen :: rat
  si_type :: string

record set_fields =
  st_canonical :: string
  st_canonical_norm :: string
  st_name :: string
  st_updated_at :: rat
  st_last_seen :: rat
  st_description :: string

record update_doc =
  u_set_on_insert :: insert_fields
  u_set :: set_fields
  u_add_aliases :: "string list"
  u_add_aliases_norm :: "string list"
  u_add_source_chunk :: string
  u_max_confidence :: real
  u_inc_source_count :: "int option"
  u_push_provenance :: "provenance_entry list"
  u_slice :: nat

record mention =
  m_entity_id :: string
  m_chunk_id :: string
  m_video_id :: string
  m_confidence :: real
  m_position :: int
  m_created_at :: rat

datatype resolution_status =
    Resolution_Completed nat nat rat string
  | Resolution_Failed string rat string

record 's entity_db =
  find_one :: "string \<Rightarrow> ('s, entity_doc option) act"
  find_in :: "string list \<Rightarrow> nat \<Rightarrow> ('s, entity_doc list) act"
  find_one_and_update :: "string \<Rightarrow> update_doc \<Rightarrow> ('s, unit) act"
  insert_mentions :: "mention list \<Rightarrow> ('s, unit) act"
  chunk_completed :: "string \<Rightarrow> string \<Rightarrow> ('s, bool) act"
  update_chunk :: "string \<Rightarrow> string \<Rightarrow> resolution_status \<Rightarrow> ('s, unit) act"

section \<open>Matching\<close>

fun collect_keys :: "agent \<Rightarrow> string list \<Rightarrow> string list res" where
  "collect_keys A [] = Inr []"
| "collect_keys A (n # ns) = bindR (blocking_keys A n) (\<lambda>ks. bindR (collect_keys A ns) (\<lambda>r. Inr (ks @ r)))"

definition find_db_candidates ::
  "'s entity_db \<Rightarrow> agent \<Rightarrow> string \<Rightarrow> string list \<Rightarrow> ('s, entity_doc list) act" where
  "find_db_candidates D A nm als =
     bindA (liftR (collect_keys A (nm # als))) (\<lambda>ks.
       let keys = remdups ks
       in if keys = [] then ret []
          else tryA (find_in D keys 20) (\<lambda>e. ret []))"

definition exact_match :: "string \<Rightarrow> entity_doc \<Rightarrow> bool" where
  "exact_match normalized d =
     ((case d_canonical_norm d of
         Some n \<Rightarrow> n = normalized
       | None \<Rightarrow> normalize_entity_name (d_canonical d) = normalized)
      \<or> normalized \<in> set (if d_aliases_norm d \<noteq> [] then d_aliases_norm d
                          else map normalize_entity_name (d_aliases d)))"

text \<open>The loop over the names of the candidates, with the best match so far.\<close>

fun best_alias :: "agent \<Rightarrow> string \<Rightarrow> entity_doc \<Rightarrow> string list
    \<Rightarrow> entity_doc option \<times> real \<Rightarrow> entity_doc option \<times> real" where
  "best_alias A nm d [] best = best"
| "best_alias A nm d (a # as) best =
     (let s = multi_strategy_score A nm a False
      in best_alias A nm d as (if a \<noteq> [] \<and> snd best < s then (Some d, s) else best))"

fun best_candidate :: "agent \<Rightarrow> string \<Rightarrow> entity_doc list
    \<Rightarrow> entity_doc option \<times> real \<Rightarrow> entity_doc option \<times> real" where
  "best_candidate A nm [] best = best"
| "best_candidate A nm (d # ds) best =
     best_candidate A nm ds (best_alias A nm d (d_canonical d # d_aliases d) best)"

definition choose_match :: "agent \<Rightarrow> string \<Rightarrow> entity_doc list \<Rightarrow> entity_doc option" where
  "choose_match A nm candidates =
     (if candidates = [] then None
      else (case find (exact_match (normalize_entity_name nm)) candidates of
              Some d \<Rightarrow> Some d
            | None \<Rightarrow>
                (case best_candidate A nm candidates (None, 0) of
                   (best, score) \<Rightarrow> if similarity_threshold A \<le> score then best else None)))"

section \<open>Storing\<close>

definition update_of :: "string \<Rightarrow> resolved_entity \<Rightarrow> string \<Rightarrow> string \<Rightarrow> rat \<Rightarrow> bool \<Rightarrow> update_doc" where
  "update_of eid e chunk video now new_chunk =
     \<lparr> u_set_on_insert = \<lparr> si_entity_id = eid, si_created_at = now, si_first_seen = now,
                           si_type = type_value (etype e) \<rparr>,
       u_set = \<lparr> st_canonical = canonical_name e,
                 st_canonical_norm = normalize_entity_name (canonical_name e),
                 st_name = name e, st_updated_at = now, st_last_seen = now,
                 st_description = description e \<rparr>,
       u_add_aliases = aliases e,
       u_add_aliases_norm = map normalize_entity_name (aliases e),
       u_add_source_chunk = chunk,
       u_max_confidence = confidence e,
       u_inc_source_count = (if new_chunk then Some 1 else None),
       u_push_provenance = [\<lparr> p_video_id = video, p_chunk_id = chunk,
                              p_method = str_join '','' (resolution_methods e), p_at = now \<rparr>],
       u_slice = 50 \<rparr>"

definition upsert_entity :: "'s entity_db \<Rightarrow> rat \<Rightarrow> resolved_entity \<Rightarrow> string \<Rightarrow> string \<Rightarrow> string option
    \<Rightarrow> ('s, unit) act" where
  "upsert_entity D now e chunk video existing_id =
     (let eid = (case existing_id of Some i \<Rightarrow> if i \<noteq> [] then i else entity_id e | None \<Rightarrow> entity_id e)
      in bindA (find_one D eid) (\<lambda>existing.
           let new_chunk = (case existing of None \<Rightarrow> True | Some d \<Rightarrow> chunk \<notin> set (d_source_chunks d))
           in find_one_and_update D eid (update_of eid e chunk video now new_chunk)))"

fun add_aliases :: "string \<Rightarrow> string list \<Rightarrow> string list \<Rightarrow> string list" where
  "add_aliases existing merged [] = merged"
| "add_aliases existing merged (a # as) =
     add_aliases existing (if a \<noteq> [] \<and> a \<notin> set merged \<and> a \<noteq> existing then merged @ [a] else merged) as"

definition merge_entity :: "resolved_entity \<Rightarrow> entity_doc \<Rightarrow> resolved_entity res" where
  "merge_entity e d =
     (let existing = d_canonical d;
          merged = add_aliases existing (d_aliases d) [canonical_name e];
          final = (if existing \<noteq> [] then existing else canonical_name e)
      in ResolvedEntity (e\<lparr>entity_id := d_id d, canonical_name := final, name := final,
           aliases := add_aliases existing merged (aliases e)\<rparr>))"

text \<open>The body of the loop for one entity; the result is the identifier it is mapped to.\<close>

definition store_entity :: "'s entity_db \<Rightarrow> agent \<Rightarrow> rat \<Rightarrow> string \<Rightarrow> string \<Rightarrow> resolved_entity
    \<Rightarrow> ('s, string) act" where
  "store_entity D A now chunk video e =
     bindA (find_one D (entity_id e)) (\<lambda>existing.
       case existing of
         Some _ \<Rightarrow> seqA (upsert_entity D now e chunk video None) (ret (entity_id e))
       | None \<Rightarrow>
           bindA (find_db_candidates D A (canonical_name e) (aliases e)) (\<lambda>candidates.
             case choose_match A (canonical_name e) candidates of
               Some d \<Rightarrow>
                 bindA (liftR (merge_entity e d)) (\<lambda>m.
                   seqA (upsert_entity D now m chunk video (Some (d_id d))) (ret (d_id d)))
             | None \<Rightarrow> seqA (upsert_entity D now e chunk video None) (ret (entity_id e))))"

fun store_resolved_entities :: "'s entity_db \<Rightarrow> agent \<Rightarrow> rat \<Rightarrow> string \<Rightarrow> string
    \<Rightarrow> (string \<times> string) list \<Rightarrow> resolved_entity list \<Rightarrow> ('s, (string \<times> string) list) act" where
  "store_resolved_entities D A now chunk video id_map [] = ret id_map"
| "store_resolved_entities D A now chunk video id_map (e # es) =
     bindA (tryA (store_entity D A now chunk video e) (\<lambda>ex. ret (entity_id e))) (\<lambda>i.
       store_resolved_entities D A now chunk video (AList.update (entity_id e) i id_map) es)"

definition mention_of :: "rat \<Rightarrow> string \<Rightarrow> string \<Rightarrow> (string \<times> string) list \<Rightarrow> resolved_entity \<Rightarrow> mention" where
  "mention_of now chunk video id_map e =
     \<lparr> m_entity_id = (case map_of id_map (entity_id e) of None \<Rightarrow> entity_id e | Some i \<Rightarrow> i),
       m_chunk_id = chunk, m_video_id = video, m_confidence = confidence e, m_position = 0,
       m_created_at = now \<rparr>"

text \<open>\<open>batch_insert\<close> catches every exception of the driver; a duplicate is not an error.\<close>

definition store_entity_mentions :: "'s entity_db \<Rightarrow> rat \<Rightarrow> resolved_entity list \<Rightarrow> string \<Rightarrow> string
    \<Rightarrow> (string \<times> string) list \<Rightarrow> ('s, unit) act" where
  "store_entity_mentions D now es chunk video id_map =
     (let mentions = map (mention_of now chunk video id_map) es
      in if mentions = [] then ret ()
         else tryA (insert_mentions D mentions) (\<lambda>e. ret ()))"

section \<open>One chunk\<close>

record stage_config =
  s_model_name :: string
  s_upsert_existing :: bool

record stage_stats =
  n_updated :: nat
  n_skipped :: nat
  n_failed :: nat

record chunk_doc =
  c_chunk_id :: string
  c_video_id :: string
  c_extraction :: extraction

type_synonym 's staged = "'s \<times> stage_stats"

definition on_db :: "('s, 'a) act \<Rightarrow> ('s staged, 'a) act" where
  "on_db f = (\<lambda>(s, st). case f s of (r, s') \<Rightarrow> (r, (s', st)))"

definition on_stats :: "(stage_stats \<Rightarrow> stage_stats) \<Rightarrow> ('s staged, unit) act" where
  "on_stats f = (\<lambda>(s, st). (Inr (), (s, f st)))"

definition mark_resolution_failed ::
  "'s entity_db \<Rightarrow> stage_config \<Rightarrow> rat \<Rightarrow> chunk_doc \<Rightarrow> string \<Rightarrow> ('s staged, unit) act" where
  "mark_resolution_failed D cfg now doc msg =
     seqA (on_db (update_chunk D (c_video_id doc) (c_chunk_id doc)
             (Resolution_Failed msg now (s_model_name cfg))))
          (on_stats (\<lambda>st. st\<lparr>n_failed := Suc (n_failed st)\<rparr>))"

definition resolve_chunk ::
  "'s entity_db \<Rightarrow> agent \<Rightarrow> stage_config \<Rightarrow> rat \<Rightarrow> chunk_doc \<Rightarrow> ('s staged, unit) act" where
  "resolve_chunk D A cfg now doc =
     (if ex_entities (c_extraction doc) = None
      then mark_resolution_failed D cfg now doc ''no_extraction_data''
      else bindA (liftR (resolve_entities A [c_extraction doc])) (\<lambda>es.
        if es = [] then mark_resolution_failed D cfg now doc ''no_entities_resolved''
        else bindA (on_db (store_resolved_entities D A now (c_chunk_id doc) (c_video_id doc) [] es)) (\<lambda>id_map.
          seqA (on_db (store_entity_mentions D now es (c_chunk_id doc) (c_video_id doc) id_map))
            (bindA (if s_upsert_existing cfg then ret False
                    else on_db (chunk_completed D (c_video_id doc) (c_chunk_id doc))) (\<lambda>already.
              if already then on_stats (\<lambda>st. st\<lparr>n_skipped := Suc (n_skipped st)\<rparr>)
              else seqA (on_db (update_chunk D (c_video_id doc) (c_chunk_id doc)
                           (Resolution_Completed (length es) (length id_map) now (s_model_name cfg))))
                     (on_stats (\<lambda>st. st\<lparr>n_updated := Suc (n_updated st)\<rparr>)))))))"

text \<open>The inner \<open>try\<close> records the failure; the decorator returns \<open>None\<close> for what remains.\<close>

definition handle_doc ::
  "'s entity_db \<Rightarrow> agent \<Rightarrow> stage_config \<Rightarrow> rat \<Rightarrow> chunk_doc \<Rightarrow> ('s staged, unit) act" where
  "handle_doc D A cfg now doc =
     tryA (tryA (resolve_chunk D A cfg now doc)
                (\<lambda>e. mark_resolution_failed D cfg now doc (exn_msg e)))
          (\<lambda>e. ret ())"

text \<open>\<open>process_batch\<close>: one result, always \<open>None\<close>, per document.\<close>

fun process_batch :: "'s entity_db \<Rightarrow> agent \<Rightarrow> stage_config \<Rightarrow> rat list \<Rightarrow> chunk_doc list
    \<Rightarrow> ('s staged, unit list) act" where
  "process_batch D A cfg (now # ts) (doc # docs) =
     bindA (tryA (handle_doc D A cfg now doc) (\<lambda>e. ret ())) (\<lambda>u.
     bindA (process_batch D A cfg ts docs) (\<lambda>us. ret (u # us)))"
| "process_batch D A cfg _ _ = ret []"

definition estimate_resolution_tokens :: "chunk_doc \<Rightarrow> nat" where
  "estimate_resolution_tokens doc =
     max (length (case ex_entities (c_extraction doc) of None \<Rightarrow> [] | Some es \<Rightarrow> es) * 200 + 500) 100"

section \<open>What the stage relies on\<close>

text \<open>The documented effect of the update operators on a document that may not exist.\<close>

fun add_to_set :: "'a list \<Rightarrow> 'a list \<Rightarrow> 'a list" where
  "add_to_set xs [] = xs"
| "add_to_set xs (y # ys) = add_to_set (if y \<in> set xs then xs else xs @ [y]) ys"

definition last_n :: "nat \<Rightarrow> 'a list \<Rightarrow> 'a list" where
  "last_n n xs = drop (length xs - n) xs"

definition inserted_doc :: "update_doc \<Rightarrow> entity_doc" where
  "inserted_doc u =
     (let si = u_set_on_insert u; st = u_set u
      in \<lparr> d_id = si_entity_id si, d_canonical = st_canonical st,
           d_canonical_norm = Some (st_canonical_norm st), d_name = st_name st, d_type = si_type si,
           d_description = st_description st, d_confidence = u_max_confidence u,
           d_source_count = (case u_inc_source_count u of None \<Rightarrow> 0 | Some n \<Rightarrow> n),
           d_aliases = add_to_set [] (u_add_aliases u),
           d_aliases_norm = add_to_set [] (u_add_aliases_norm u),
           d_source_chunks = [u_add_source_chunk u],
           d_provenance = last_n (u_slice u) (u_push_provenance u),
           d_created_at = si_created_at si, d_first_seen = si_first_seen si,
           d_updated_at = st_updated_at st, d_last_seen = st_last_seen st \<rparr>)"

definition updated_doc :: "update_doc \<Rightarrow> entity_doc \<Rightarrow> entity_doc" where
  "updated_doc u d =
     (let st = u_set u
      in d\<lparr> d_canonical := st_canonical st, d_canonical_norm := Some (st_canonical_norm st),
            d_name := st_name st, d_description := st_description st,
            d_confidence := max (d_confidence d) (u_max_confidence u),
            d_source_count := d_source_count d + (case u_inc_source_count u of None \<Rightarrow> 0 | Some n \<Rightarrow> n),
            d_aliases := add_to_set (d_aliases d) (u_add_aliases u),
            d_aliases_norm := add_to_set (d_aliases_norm d) (u_add_aliases_norm u),
            d_source_chunks := add_to_set (d_source_chunks d) [u_add_source_chunk u],
            d_provenance := last_n (u_slice u) (d_provenance d @ u_push_provenance u),
            d_updated_at := st_updated_at st, d_last_seen := st_last_seen st \<rparr>)"

definition apply_update :: "update_doc \<Rightarrow> entity_doc option \<Rightarrow> entity_doc" where
  "apply_update u existing = (case existing of None \<Rightarrow> inserted_doc u | Some d \<Rightarrow> updated_doc u d)"

text \<open>\<open>{"$or": [{"canonical_name_normalized": {"$in": ks}}, {"aliases_normalized": {"$in": ks}}]}\<close>.\<close>

definition query_matches :: "string list \<Rightarrow> entity_doc \<Rightarrow> bool" where
  "query_matches ks d =
     ((case d_canonical_norm d of None \<Rightarrow> False | Some n \<Rightarrow> n \<in> set ks)
      \<or> (\<exists>a \<in> set (d_aliases_norm d). a \<in> set ks))"

text \<open>\<open>docs\<close> gives the stored document of an identifier. A read has no effect on the entities; an
  update that raises an exception was not applied, or it was and its acknowledgement is lost.\<close>

definition entity_db_laws :: "'s entity_db \<Rightarrow> ('s \<Rightarrow> string \<Rightarrow> entity_doc option) \<Rightarrow> bool" where
  "entity_db_laws D docs =
     ((\<forall>i s. \<exists>r s'. find_one D i s = (r, s') \<and> docs s' = docs s \<and> (\<forall>x. r = Inr x \<longrightarrow> x = docs s i)) \<and>
      (\<forall>ks n s. \<exists>r s'. find_in D ks n s = (r, s') \<and> docs s' = docs s \<and>
         (\<forall>ds. r = Inr ds \<longrightarrow> length ds \<le> n \<and>
            (\<forall>d \<in> set ds. query_matches ks d \<and> docs s (d_id d) = Some d))) \<and>
      (\<forall>i u s. \<exists>r s'. find_one_and_update D i u s = (r, s') \<and>
         (docs s' = (docs s)(i \<mapsto> apply_update u (docs s i)) \<or> isl r \<and> docs s' = docs s)) \<and>
      (\<forall>ms s. \<exists>r s'. insert_mentions D ms s = (r, s') \<and> docs s' = docs s) \<and>
      (\<forall>v c s. \<exists>r s'. chunk_completed D v c s = (r, s') \<and> docs s' = docs s) \<and>
      (\<forall>v c x s. \<exists>r s'. update_chunk D v c x s = (r, s') \<and> docs s' = docs s))"

end
