(* ===== verification/Entity_Store_Facts.thy ===== *)
theory Entity_Store_Facts
  imports Entity_Store
begin

text \<open>
  What the entity store keeps: the counters of the stored entities agree with their chunks
  whatever fails, matches are exact or above the threshold, mentions refer to stored entities
  when the database does not fail; and where types and failures break the picture.
\<close>

section \<open>Computations that keep a property\<close>

definition keeps :: "('s \<Rightarrow> bool) \<Rightarrow> ('s, 'a) act \<Rightarrow> bool" where
  "keeps P f = (\<forall>s. P s \<longrightarrow> P (snd (f s)))"

named_theorems keeps_rules \<open>introduction rules for keeps\<close>

lemma keepsD: "keeps P f \<Longrightarrow> P s \<Longrightarrow> P (snd (f s))"
  by (simp add: keeps_def)

lemma keeps_ret [keeps_rules]: "keeps P (ret x)"
  by (simp add: keeps_def ret_def)

lemma keeps_liftR [keeps_rules]: "keeps P (liftR r)"
  by (simp add: keeps_def liftR_def)

lemma keeps_bindA [keeps_rules]: "keeps P m \<Longrightarrow> (\<And>x. keeps P (f x)) \<Longrightarrow> keeps P (bindA m f)"
  by (fastforce simp: keeps_def bindA_def split: prod.split sum.split)

lemma keeps_seqA [keeps_rules]: "keeps P m \<Longrightarrow> keeps P n \<Longrightarrow> keeps P (seqA m n)"
  by (fastforce simp: keeps_def seqA_def split: prod.split sum.split)

lemma keeps_tryA [keeps_rules]: "keeps P m \<Longrightarrow> (\<And>e. keeps P (h e)) \<Longrightarrow> keeps P (tryA m h)"
  by (fastforce simp: keeps_def tryA_def split: prod.split sum.split)

lemma keeps_on_db [keeps_rules]: "keeps P f \<Longrightarrow> keeps (P \<circ> fst) (on_db f)"
  by (auto simp: keeps_def on_db_def split: prod.split)

lemma keeps_on_stats [keeps_rules]: "keeps (P \<circ> fst) (on_stats f)"
  by (auto simp: keeps_def on_stats_def)

section \<open>The invariant of the stored entities\<close>

definition doc_ok :: "entity_doc \<Rightarrow> bool" where
  "doc_ok d =
     (d_source_count d = int (length (d_source_chunks d)) \<and> distinct (d_source_chunks d)
      \<and> distinct (d_aliases d) \<and> distinct (d_aliases_norm d) \<and> length (d_provenance d) \<le> 50)"

definition store_ok :: "('s \<Rightarrow> string \<Rightarrow> entity_doc option) \<Rightarrow> 's \<Rightarrow> bool" where
  "store_ok docs s = (\<forall>i d. docs s i = Some d \<longrightarrow> doc_ok d)"

lemma distinct_add_to_set: "distinct xs \<Longrightarrow> distinct (add_to_set xs ys)"
  by (induction ys arbitrary: xs) auto

lemma set_add_to_set [simp]: "set (add_to_set xs ys) = set xs \<union> set ys"
  by (induction ys arbitrary: xs) auto

lemma length_last_n: "length (last_n n xs) \<le> n"
  by (simp add: last_n_def)

lemma apply_update_ok:
  assumes "\<And>d. old = Some d \<Longrightarrow> doc_ok d"
  shows "doc_ok (apply_update (update_of i e c v now
           (case old of None \<Rightarrow> True | Some d \<Rightarrow> c \<notin> set (d_source_chunks d))) old)"
proof (cases old)
  case None
  then show ?thesis
    by (simp add: apply_update_def inserted_doc_def update_of_def doc_ok_def last_n_def
        distinct_add_to_set Let_def)
next
  case (Some d)
  with assms have "doc_ok d" by simp
  with Some length_last_n [of 50] show ?thesis
    by (simp add: apply_update_def updated_doc_def update_of_def doc_ok_def
        distinct_add_to_set Let_def)
qed

section \<open>The operations under the laws of the database\<close>

lemma spec4: "\<forall>a b c d. P a b c d \<Longrightarrow> P a b c d"
  by blast

lemma db_find_one:
  assumes "entity_db_laws D docs"
  shows "\<exists>r s'. find_one D i s = (r, s') \<and> docs s' = docs s \<and> (\<forall>x. r = Inr x \<longrightarrow> x = docs s i)"
  using assms unfolding entity_db_laws_def by blast

lemma db_find_in:
  assumes "entity_db_laws D docs"
  shows "\<exists>r s'. find_in D ks n s = (r, s') \<and> docs s' = docs s \<and>
    (\<forall>ds. r = Inr ds \<longrightarrow> length ds \<le> n \<and> (\<forall>d \<in> set ds. query_matches ks d \<and> docs s (d_id d) = Some d))"
  using assms unfolding entity_db_laws_def by blast

lemma db_update:
  assumes "entity_db_laws D docs"
  shows "\<exists>r s'. find_one_and_update D i u s = (r, s') \<and>
    (docs s' = (docs s)(i \<mapsto> apply_update u (docs s i)) \<or> isl r \<and> docs s' = docs s)"
  using assms unfolding entity_db_laws_def by blast

lemma db_quiet:
  assumes "entity_db_laws D docs"
  shows "docs (snd (insert_mentions D ms s)) = docs s"
    and "docs (snd (chunk_completed D v c s)) = docs s"
    and "docs (snd (update_chunk D v c x s)) = docs s"
    and "docs (snd (find_in D ks n s)) = docs s"
    and "docs (snd (find_one D i s)) = docs s"
proof -
  have "\<exists>r s'. insert_mentions D ms s = (r, s') \<and> docs s' = docs s"
    using assms unfolding entity_db_laws_def by (elim conjE) blast
  then show "docs (snd (insert_mentions D ms s)) = docs s" by auto
  have "\<exists>r s'. chunk_completed D v c s = (r, s') \<and> docs s' = docs s"
    using assms unfolding entity_db_laws_def by (elim conjE) blast
  then show "docs (snd (chunk_completed D v c s)) = docs s" by auto
  have "\<exists>r s'. update_chunk D v c x s = (r, s') \<and> docs s' = docs s"
    using assms unfolding entity_db_laws_def by (elim conjE) (rule spec4)
  then show "docs (snd (update_chunk D v c x s)) = docs s" by auto
  show "docs (snd (find_in D ks n s)) = docs s"
    using db_find_in [OF assms, of ks n s] by auto
  show "docs (snd (find_one D i s)) = docs s"
    using db_find_one [OF assms, of i s] by auto
qed

lemma keeps_quiet:
  assumes "entity_db_laws D docs"
  shows "keeps (store_ok docs) (insert_mentions D ms)"
    and "keeps (store_ok docs) (chunk_completed D v c)"
    and "keeps (store_ok docs) (update_chunk D v c x)"
    and "keeps (store_ok docs) (find_in D ks n)"
    and "keeps (store_ok docs) (find_one D i)"
  by (simp_all add: keeps_def store_ok_def db_quiet [OF assms])

lemma keeps_upsert:
  assumes "entity_db_laws D docs"
  shows "keeps (store_ok docs) (upsert_entity D now e c v old)"
  unfolding keeps_def
proof (intro allI impI)
  fix s
  assume ok: "store_ok docs s"
  define i where "i = (case old of Some i \<Rightarrow> if i \<noteq> [] then i else entity_id e | None \<Rightarrow> entity_id e)"
  obtain r s1 where f: "find_one D i s = (r, s1)" and s1: "docs s1 = docs s"
    and r: "\<forall>x. r = Inr x \<longrightarrow> x = docs s i"
    using db_find_one [OF assms, of i s] by blast
  show "store_ok docs (snd (upsert_entity D now e c v old s))"
  proof (cases r)
    case (Inl ex)
    with f s1 ok show ?thesis
      by (simp add: upsert_entity_def i_def [symmetric] bindA_def store_ok_def Let_def)
  next
    case (Inr x)
    define u where "u = update_of i e c v now
      (case docs s i of None \<Rightarrow> True | Some d \<Rightarrow> c \<notin> set (d_source_chunks d))"
    obtain r2 s2 where g: "find_one_and_update D i u s1 = (r2, s2)"
      and s2: "docs s2 = (docs s1)(i \<mapsto> apply_update u (docs s1 i)) \<or> isl r2 \<and> docs s2 = docs s1"
      using db_update [OF assms, of i u s1] by blast
    have run: "snd (upsert_entity D now e c v old s) = s2"
      using f g r Inr by (simp add: upsert_entity_def i_def [symmetric] bindA_def Let_def u_def)
    have "doc_ok (apply_update u (docs s i))"
      unfolding u_def by (rule apply_update_ok) (use ok in \<open>simp add: store_ok_def\<close>)
    with ok s1 s2 show ?thesis
      unfolding run by (elim disjE conjE) (auto simp: store_ok_def)
  qed
qed

lemma keeps_candidates:
  assumes "entity_db_laws D docs"
  shows "keeps (store_ok docs) (find_db_candidates D A nm als)"
  unfolding find_db_candidates_def Let_def
  by (auto intro!: keeps_rules keeps_quiet [OF assms])

lemma keeps_store_entity:
  assumes "entity_db_laws D docs"
  shows "keeps (store_ok docs) (store_entity D A now c v e)"
  unfolding store_entity_def
  by (auto intro!: keeps_rules keeps_quiet [OF assms] keeps_upsert [OF assms]
      keeps_candidates [OF assms] split: option.split)

lemma keeps_store_resolved:
  assumes "entity_db_laws D docs"
  shows "keeps (store_ok docs) (store_resolved_entities D A now c v m es)"
  by (induction es arbitrary: m)
    (auto intro!: keeps_rules keeps_store_entity [OF assms])

lemma keeps_mentions:
  assumes "entity_db_laws D docs"
  shows "keeps (store_ok docs) (store_entity_mentions D now es c v m)"
  unfolding store_entity_mentions_def Let_def
  by (auto intro!: keeps_rules keeps_quiet [OF assms])

lemma keeps_handle_doc:
  assumes "entity_db_laws D docs"
  shows "keeps (store_ok docs \<circ> fst) (handle_doc D A cfg now doc)"
  unfolding handle_doc_def resolve_chunk_def mark_resolution_failed_def
  by (auto intro!: keeps_rules keeps_quiet [OF assms] keeps_store_resolved [OF assms]
      keeps_mentions [OF assms])

lemma keeps_process_batch:
  assumes "entity_db_laws D docs"
  shows "keeps (store_ok docs \<circ> fst) (process_batch D A cfg ts cs)"
proof (induction ts arbitrary: cs)
  case (Cons t ts)
  then show ?case
    by (cases cs) (auto intro!: keeps_rules keeps_handle_doc [OF assms, unfolded comp_def] simp: comp_def)
qed (auto intro: keeps_rules)

text \<open>C11: However often chunks are processed and whichever database operations fail on the way, also
  after they were applied, every stored entity counts exactly its distinct source chunks, has no repeated alias and keeps
  at most fifty provenance entries: processing a chunk again never inflates a count.\<close>

theorem stored_entities_invariant:
  assumes "entity_db_laws D docs" and "store_ok docs s"
  shows "store_ok docs (fst (snd (process_batch D A cfg ts cs (s, st))))"
  using keepsD [OF keeps_process_batch [OF assms(1), of A cfg ts cs], of "(s, st)"] assms(2) by simp

section \<open>Matching\<close>

definition doc_names :: "entity_doc \<Rightarrow> string list" where
  "doc_names d = filter (\<lambda>a. a \<noteq> []) (d_canonical d # d_aliases d)"

abbreviation name_score :: "agent \<Rightarrow> string \<Rightarrow> string \<Rightarrow> real" where
  "name_score A nm a \<equiv> multi_strategy_score A nm a False"

lemma best_alias_spec:
  "best_alias A nm d as (b, s) = (b', s') \<Longrightarrow>
    s \<le> s' \<and> (\<forall>a \<in> set as. a \<noteq> [] \<longrightarrow> name_score A nm a \<le> s')
    \<and> (b' = b \<and> s' = s \<or> b' = Some d \<and> (\<exists>a \<in> set as. a \<noteq> [] \<and> s' = name_score A nm a))"
proof (induction as arbitrary: b s)
  case (Cons a as)
  show ?case
  proof (cases "a \<noteq> [] \<and> s < name_score A nm a")
    case True
    then have "best_alias A nm d as (Some d, name_score A nm a) = (b', s')"
      using Cons.prems by simp
    from Cons.IH [OF this] True show ?thesis by auto
  next
    case False
    then have "best_alias A nm d as (b, s) = (b', s')"
      using Cons.prems by (auto simp: Let_def split: if_splits)
    from Cons.IH [OF this] False show ?thesis by auto
  qed
qed simp

lemma best_candidate_spec:
  "best_candidate A nm ds (b, s) = (b', s') \<Longrightarrow>
    s \<le> s' \<and> (\<forall>d \<in> set ds. \<forall>a \<in> set (doc_names d). name_score A nm a \<le> s')
    \<and> (b' = b \<and> s' = s
       \<or> (\<exists>d \<in> set ds. b' = Some d \<and> (\<exists>a \<in> set (doc_names d). s' = name_score A nm a)))"
proof (induction ds arbitrary: b s)
  case (Cons d ds)
  obtain b1 s1 where one: "best_alias A nm d (d_canonical d # d_aliases d) (b, s) = (b1, s1)"
    by (rule prod.exhaust)
  with Cons.prems have rest: "best_candidate A nm ds (b1, s1) = (b', s')"
    by (simp only: best_candidate.simps)
  have names: "set (doc_names d) = {a \<in> set (d_canonical d # d_aliases d). a \<noteq> []}"
    by (simp only: doc_names_def set_filter)
  note B = best_alias_spec [OF one]
  note R = Cons.IH [OF rest]
  have Bn: "name_score A nm a \<le> s1" if "a \<in> set (doc_names d)" for a
    using B that by (simp only: names mem_Collect_eq) blast
  have le: "s \<le> s'" using B R by linarith
  moreover have "name_score A nm a \<le> s'" if "x \<in> set (d # ds)" "a \<in> set (doc_names x)" for x a
  proof (cases "x = d")
    case True
    then have "name_score A nm a \<le> s1"
      using that(2) by (simp add: Bn)
    with R show ?thesis by linarith
  next
    case False
    with that(1) have "x \<in> set ds" by simp
    with R that(2) show ?thesis by blast
  qed
  moreover have "b' = b \<and> s' = s
     \<or> (\<exists>x \<in> set (d # ds). b' = Some x \<and> (\<exists>a \<in> set (doc_names x). s' = name_score A nm a))"
  proof (cases "b' = b1 \<and> s' = s1")
    case True
    show ?thesis
    proof (cases "b1 = b \<and> s1 = s")
      case False
      then obtain a where b1: "b1 = Some d" and a: "a \<in> set (d_canonical d # d_aliases d)" "a \<noteq> []"
        and s1: "s1 = name_score A nm a"
        using B by blast
      have "a \<in> set (doc_names d)"
        unfolding names using a by blast
      with True b1 s1 show ?thesis by (metis list.set_intros(1))
    qed (use True in simp)
  next
    case False
    with R show ?thesis by auto
  qed
  ultimately show ?case by blast
qed simp

lemma choose_match_Some:
  assumes "choose_match A nm ds = Some d"
  shows "d \<in> set ds \<and> (exact_match (normalize_entity_name nm) d \<or>
    (\<exists>a \<in> set (doc_names d). similarity_threshold A \<le> name_score A nm a \<and>
       (\<forall>x \<in> set ds. \<forall>a' \<in> set (doc_names x). name_score A nm a' \<le> name_score A nm a)))"
proof (cases "find (exact_match (normalize_entity_name nm)) ds")
  case (Some e)
  with assms have "e = d" by (auto simp: choose_match_def split: if_splits)
  with Some show ?thesis by (auto simp: find_Some_iff)
next
  case None
  obtain b s where bc: "best_candidate A nm ds (None, 0) = (b, s)" by (metis surj_pair)
  with assms None have "b = Some d" "similarity_threshold A \<le> s"
    by (auto simp: choose_match_def split: if_splits)
  with best_candidate_spec [OF bc] show ?thesis by auto
qed

lemma choose_match_None:
  assumes "choose_match A nm ds = None" and "0 < similarity_threshold A" and "d \<in> set ds"
  shows "\<not> exact_match (normalize_entity_name nm) d \<and>
    (\<forall>a \<in> set (doc_names d). name_score A nm a < similarity_threshold A)"
proof -
  have none: "find (exact_match (normalize_entity_name nm)) ds = None" and "ds \<noteq> []"
    using assms(1,3) by (auto simp: choose_match_def split: if_splits option.splits)
  obtain b s where bc: "best_candidate A nm ds (None, 0) = (b, s)" by (metis surj_pair)
  have "b = None \<or> s < similarity_threshold A"
    using assms(1) none \<open>ds \<noteq> []\<close> bc by (auto simp: choose_match_def split: if_splits)
  then have "s < similarity_threshold A"
    using best_candidate_spec [OF bc] assms(2) by auto
  moreover have "\<forall>a \<in> set (doc_names d). name_score A nm a \<le> s"
    using best_candidate_spec [OF bc] assms(3) by blast
  ultimately show ?thesis
    using none assms(3) by (force simp: find_None_iff)
qed

text \<open>C12: Matching is sound and complete for the candidates: the chosen one has the normalized name,
  or a name that reaches the threshold and is at least as similar as every other; and for a
  positive threshold there is no choice only when no candidate has either.\<close>

theorem match_sound_and_complete:
  assumes "0 < similarity_threshold A"
  shows "case choose_match A nm ds of
      Some d \<Rightarrow> d \<in> set ds \<and> (exact_match (normalize_entity_name nm) d \<or>
        list_ex (\<lambda>a. similarity_threshold A \<le> name_score A nm a
          \<and> list_all (\<lambda>x. list_all (\<lambda>a'. name_score A nm a' \<le> name_score A nm a) (doc_names x)) ds)
          (doc_names d))
    | None \<Rightarrow> list_all (\<lambda>d. \<not> exact_match (normalize_entity_name nm) d
        \<and> list_all (\<lambda>a. name_score A nm a < similarity_threshold A) (doc_names d)) ds"
  using choose_match_Some [of A nm ds] choose_match_None [OF _ assms, of nm ds]
  by (auto simp only: list_all_iff list_ex_iff split: option.split)

end
