(* ===== verification/Entity_Mentions.thy ===== *)
theory Entity_Mentions
  imports Entity_Store_Facts
begin

text \<open>
  Mentions: when the database does not fail, storing is total and every mention refers to a
  stored entity that lists the chunk; when storing fails, mentions and the chunk status still
  claim success; and an entity is merged into one of another type. A list-backed database
  shows that the laws can hold.
\<close>

section \<open>What an upsert leaves\<close>

definition stored_in :: "('s \<Rightarrow> string \<Rightarrow> entity_doc option) \<Rightarrow> string \<Rightarrow> string \<Rightarrow> 's \<Rightarrow> bool" where
  "stored_in docs c i s = (case docs s i of None \<Rightarrow> False | Some d \<Rightarrow> c \<in> set (d_source_chunks d))"

lemma apply_update_chunk: "c \<in> set (d_source_chunks (apply_update (update_of i e c v now b) old))"
  by (cases old) (simp_all add: apply_update_def inserted_doc_def updated_doc_def update_of_def Let_def)

lemma apply_update_keeps_chunk:
  "old = Some d \<Longrightarrow> c' \<in> set (d_source_chunks d) \<Longrightarrow> c' \<in> set (d_source_chunks (apply_update u old))"
  by (simp add: apply_update_def updated_doc_def Let_def)

text \<open>An upsert has a result only after the update; then exactly one document has changed. One that
  raises has changed that document or none.\<close>

lemma upsert_cases:
  assumes "entity_db_laws D docs"
    and "eid = (case old of Some i \<Rightarrow> if i \<noteq> [] then i else entity_id e | None \<Rightarrow> entity_id e)"
  obtains (raised) ex s' b where "upsert_entity D now e c v old s = (Inl ex, s')"
      and "docs s' = docs s \<or> docs s' = (docs s)(eid \<mapsto> apply_update (update_of eid e c v now b) (docs s eid))"
  | (stored) s' b where "upsert_entity D now e c v old s = (Inr (), s')"
      and "docs s' = (docs s)(eid \<mapsto> apply_update (update_of eid e c v now b) (docs s eid))"
proof -
  obtain r s1 where f: "find_one D eid s = (r, s1)" and s1: "docs s1 = docs s"
    and r: "\<forall>x. r = Inr x \<longrightarrow> x = docs s eid"
    using db_find_one [OF assms(1), of eid s] by blast
  show thesis
  proof (cases r)
    case (Inl ex)
    with f s1 show thesis
      by (intro raised [of ex s1 True]) (simp_all add: upsert_entity_def assms(2) bindA_def Let_def)
  next
    case (Inr x)
    define b where "b = (case docs s eid of None \<Rightarrow> True | Some d \<Rightarrow> c \<notin> set (d_source_chunks d))"
    obtain r2 s2 where g: "find_one_and_update D eid (update_of eid e c v now b) s1 = (r2, s2)"
      and s2: "docs s2 = (docs s1)(eid \<mapsto> apply_update (update_of eid e c v now b) (docs s1 eid)) \<or> isl r2 \<and> docs s2 = docs s1"
      using db_update [OF assms(1), of eid "update_of eid e c v now b" s1] by blast
    have run: "upsert_entity D now e c v old s = (r2, s2)"
      using f g r Inr by (simp add: upsert_entity_def assms(2) [symmetric] bindA_def Let_def b_def)
    show thesis
    proof (cases r2)
      case (Inl ex)
      with run s1 s2 show thesis by (intro raised [of ex s2 b]) auto
    next
      case (Inr u)
      with run s1 s2 show thesis by (intro stored [of s2 b]) auto
    qed
  qed
qed

lemma keeps_stored_upsert:
  assumes "entity_db_laws D docs"
  shows "keeps (stored_in docs c' i) (upsert_entity D now e c v old)"
  unfolding keeps_def
proof (intro allI impI)
  fix s
  assume st: "stored_in docs c' i s"
  show "stored_in docs c' i (snd (upsert_entity D now e c v old s))"
  proof (cases rule: upsert_cases [OF assms refl, where old = old and e = e and now = now and c = c and v = v and s = s])
    case (1 ex s' b)
    show ?thesis
      using 1(2)
    proof
      assume "docs s' = docs s"
      with 1(1) st show ?thesis by (simp add: stored_in_def)
    qed (use 1(1) st in \<open>auto simp: stored_in_def intro: apply_update_keeps_chunk split: option.splits\<close>)
  next
    case (2 s' b)
    then show ?thesis
      using st by (auto simp: stored_in_def intro: apply_update_keeps_chunk split: option.splits)
  qed
qed

lemma keeps_stored_quiet:
  assumes "entity_db_laws D docs"
  shows "keeps (stored_in docs c' i) (find_in D ks n)"
    and "keeps (stored_in docs c' i) (find_one D k)"
  by (simp_all add: keeps_def stored_in_def db_quiet [OF assms])

lemma keeps_stored_entity:
  assumes "entity_db_laws D docs"
  shows "keeps (stored_in docs c' i) (store_entity D A now c v e)"
  unfolding store_entity_def find_db_candidates_def Let_def
  by (auto intro!: keeps_rules keeps_stored_quiet [OF assms] keeps_stored_upsert [OF assms]
      split: option.split)

lemma keeps_stored_loop:
  assumes "entity_db_laws D docs"
  shows "keeps (stored_in docs c' i) (store_resolved_entities D A now c v m es)"
  by (induction es arbitrary: m)
    (auto intro!: keeps_rules keeps_stored_entity [OF assms])

section \<open>A database that does not fail\<close>

definition never_raises :: "'s entity_db \<Rightarrow> bool" where
  "never_raises D = ((\<forall>i s. \<not> isl (fst (find_one D i s))) \<and> (\<forall>ks n s. \<not> isl (fst (find_in D ks n s)))
     \<and> (\<forall>i u s. \<not> isl (fst (find_one_and_update D i u s))))"

lemma never_raises_ops:
  assumes "never_raises D"
  shows "\<exists>x s'. find_one D i s = (Inr x, s')" and "\<exists>ds s'. find_in D ks n s = (Inr ds, s')"
    and "\<exists>x s'. find_one_and_update D i u s = (Inr x, s')"
proof -
  have yield: "\<exists>x s'. p = (Inr x, s')" if "\<not> isl (fst p)" for p :: "'c res \<times> 's"
    using that by (cases p; cases "fst p") auto
  show "\<exists>x s'. find_one D i s = (Inr x, s')"
    using assms by (intro yield) (simp add: never_raises_def)
  show "\<exists>ds s'. find_in D ks n s = (Inr ds, s')"
    using assms unfolding never_raises_def
    by (metis isl_def old.sum.exhaust prod.collapse)
  show "\<exists>x s'. find_one_and_update D i u s = (Inr x, s')"
    using assms unfolding never_raises_def
    by (metis isl_def old.sum.exhaust prod.collapse)
qed

text \<open>Identifiers and names of the stored entities are within the bounds of the model.\<close>

definition valid_doc :: "string \<Rightarrow> entity_doc \<Rightarrow> bool" where
  "valid_doc i d =
     (d_id d = i \<and> length i = 32 \<and> list_all (\<lambda>c. c \<in> set hex_digits) (str_lower i)
      \<and> length (d_canonical d) \<le> 200)"

definition valid_store :: "('s \<Rightarrow> string \<Rightarrow> entity_doc option) \<Rightarrow> 's \<Rightarrow> bool" where
  "valid_store docs s = (\<forall>i d. docs s i = Some d \<longrightarrow> valid_doc i d)"

lemma merge_entity_valid:
  assumes "valid_doc i d" and "resolved_fields_ok e"
  obtains m where "merge_entity e d = Inr m" and "resolved_fields_ok m" and "entity_id m = str_lower i"
proof -
  have "resolved_fields_ok (e\<lparr>entity_id := d_id d,
      canonical_name := (if d_canonical d \<noteq> [] then d_canonical d else canonical_name e),
      name := (if d_canonical d \<noteq> [] then d_canonical d else canonical_name e), aliases := as\<rparr>)" for as
    using assms by (auto simp: resolved_fields_ok_def valid_doc_def Suc_le_eq)
  then show thesis
    using assms(1) by (intro that)
      (auto simp: merge_entity_def ResolvedEntity_def Let_def resolved_fields_ok_def valid_doc_def)
qed

lemma upsert_total:
  assumes "entity_db_laws D docs" and "never_raises D" and "valid_store docs s"
    and "resolved_fields_ok e"
    and eid: "eid = (case old of Some i \<Rightarrow> if i \<noteq> [] then i else entity_id e | None \<Rightarrow> entity_id e)"
    and "length eid = 32" and "list_all (\<lambda>c. c \<in> set hex_digits) (str_lower eid)"
  obtains s' where "upsert_entity D now e c v old s = (Inr (), s')" and "stored_in docs c eid s'"
    and "valid_store docs s'"
proof (cases rule: upsert_cases [OF assms(1) eid, where now = now and c = c and v = v and s = s])
  case (1 ex s' b)
  obtain x s1 where "find_one D eid s = (Inr x, s1)"
    using never_raises_ops(1) [OF assms(2)] by blast
  moreover have "\<exists>s2. find_one_and_update D eid u s1 = (Inr (), s2)" for u s1
    using never_raises_ops(3) [OF assms(2)] by auto
  ultimately have "\<exists>s2. upsert_entity D now e c v old s = (Inr (), s2)"
    by (simp add: upsert_entity_def eid bindA_def Let_def)
  with 1(1) show ?thesis by auto
next
  case (2 s' b)
  have "valid_doc eid (apply_update (update_of eid e c v now b) (docs s eid))"
    using assms(3,4,6,7)
    by (cases "docs s eid") (auto simp: valid_store_def valid_doc_def apply_update_def
      inserted_doc_def updated_doc_def update_of_def resolved_fields_ok_def Let_def)
  with 2 assms(3) have "valid_store docs s'"
    by (auto simp: valid_store_def)
  moreover have "stored_in docs c eid s'"
    using 2(2) apply_update_chunk by (simp add: stored_in_def)
  ultimately show ?thesis
    using that 2(1) by blast
qed

lemma collect_keys_total:
  assumes "\<And>n. \<exists>ks. blocking_keys A n = Inr ks"
  shows "\<exists>ks. collect_keys A ns = Inr ks"
proof (induction ns)
  case (Cons n ns)
  obtain ks ks' where "blocking_keys A n = Inr ks" "collect_keys A ns = Inr ks'"
    using assms [of n] Cons.IH by blast
  then show ?case by simp
qed simp

lemma candidates_total:
  assumes "entity_db_laws D docs" and "never_raises D" and "\<And>n. \<exists>ks. blocking_keys A n = Inr ks"
  obtains ds s' where "find_db_candidates D A nm als s = (Inr ds, s')" and "docs s' = docs s"
    and "\<forall>d \<in> set ds. docs s (d_id d) = Some d"
proof -
  obtain ks where ks: "collect_keys A (nm # als) = Inr ks"
    using collect_keys_total [OF assms(3)] by blast
  show thesis
  proof (cases "remdups ks = []")
    case True
    then show thesis
      using ks by (intro that [of "[]" s]) (simp_all add: find_db_candidates_def bindA_def liftR_def ret_def)
  next
    case False
    obtain ds s' where f: "find_in D (remdups ks) 20 s = (Inr ds, s')"
      using never_raises_ops(2) [OF assms(2)] by blast
    with db_find_in [OF assms(1), of "remdups ks" 20 s]
    have "docs s' = docs s" "\<forall>d \<in> set ds. docs s (d_id d) = Some d" by auto
    then show thesis
      using ks False f
      by (intro that [of ds s']) (simp_all add: find_db_candidates_def bindA_def liftR_def tryA_def Let_def)
  qed
qed

lemma store_entity_total:
  assumes laws: "entity_db_laws D docs" and tot: "never_raises D" and val: "valid_store docs s"
    and ok: "resolved_fields_ok e" and keys: "\<And>n. \<exists>ks. blocking_keys A n = Inr ks"
  obtains i s' where "store_entity D A now c v e s = (Inr i, s')" and "stored_in docs c i s'"
    and "valid_store docs s'"
proof -
  have own: "length (entity_id e) = 32" "list_all (\<lambda>c. c \<in> set hex_digits) (str_lower (entity_id e))"
    using ok by (auto simp: resolved_fields_ok_def)
  obtain x s1 where f: "find_one D (entity_id e) s = (Inr x, s1)" and s1: "docs s1 = docs s"
    using never_raises_ops(1) [OF tot] db_find_one [OF laws, of "entity_id e" s] by fastforce
  have val1: "valid_store docs s1" using val s1 by (simp add: valid_store_def)
  show thesis
  proof (cases x)
    case (Some d)
    obtain s2 where "upsert_entity D now e c v None s1 = (Inr (), s2)"
      "stored_in docs c (entity_id e) s2" "valid_store docs s2"
      using upsert_total [OF laws tot val1 ok, of "entity_id e" None now c v] own by auto
    with f Some show thesis
      by (intro that [of "entity_id e" s2]) (simp_all add: store_entity_def bindA_def seqA_def ret_def)
  next
    case None
    obtain ds s2 where cand: "find_db_candidates D A (canonical_name e) (aliases e) s1 = (Inr ds, s2)"
      and s2: "docs s2 = docs s1" and ds: "\<forall>d \<in> set ds. docs s1 (d_id d) = Some d"
      using candidates_total [OF laws tot keys] by metis
    have val2: "valid_store docs s2" using val1 s2 by (simp add: valid_store_def)
    show thesis
    proof (cases "choose_match A (canonical_name e) ds")
      case no: None
      obtain s3 where "upsert_entity D now e c v None s2 = (Inr (), s3)"
        "stored_in docs c (entity_id e) s3" "valid_store docs s3"
        using upsert_total [OF laws tot val2 ok, of "entity_id e" None now c v] own by auto
      with f None cand no show thesis
        by (intro that [of "entity_id e" s3]) (simp_all add: store_entity_def bindA_def seqA_def ret_def)
    next
      case (Some d)
      then have "docs s1 (d_id d) = Some d"
        using ds choose_match_Some [OF Some] by blast
      then have vd: "valid_doc (d_id d) d" using val1 by (simp add: valid_store_def)
      obtain m where m: "merge_entity e d = Inr m" and mok: "resolved_fields_ok m"
        using merge_entity_valid [OF vd ok] by metis
      have "d_id d \<noteq> []" using vd by (auto simp: valid_doc_def)
      then obtain s3 where "upsert_entity D now m c v (Some (d_id d)) s2 = (Inr (), s3)"
        "stored_in docs c (d_id d) s3" "valid_store docs s3"
        using upsert_total [OF laws tot val2 mok, of "d_id d" "Some (d_id d)" now c v] vd
        by (auto simp: valid_doc_def)
      with f None cand Some m show thesis
        by (intro that [of "d_id d" s3])
          (simp_all add: store_entity_def bindA_def seqA_def ret_def liftR_def)
    qed
  qed
qed

lemma store_loop_total:
  assumes laws: "entity_db_laws D docs" and tot: "never_raises D"
    and keys: "\<And>n. \<exists>ks. blocking_keys A n = Inr ks"
    and "list_all resolved_fields_ok es" and "valid_store docs s"
    and "\<forall>(k, i) \<in> set m. stored_in docs c i s"
  shows "\<exists>m' s'. store_resolved_entities D A now c v m es s = (Inr m', s')
    \<and> set (keys m') = set (keys m) \<union> set (map entity_id es)
    \<and> (\<forall>(k, i) \<in> set m'. stored_in docs c i s')"
  using assms(4-6)
proof (induction es arbitrary: m s)
  case Nil
  then show ?case by (auto simp: ret_def)
next
  case (Cons e es)
  obtain i s1 where one: "store_entity D A now c v e s = (Inr i, s1)" and st: "stored_in docs c i s1"
    and val: "valid_store docs s1"
    using store_entity_total [OF laws tot Cons.prems(2) _ keys, of e now c v] Cons.prems(1) by auto
  define m1 where "m1 = AList.update (entity_id e) i m"
  have "stored_in docs c j s1" if "(k, j) \<in> set m1" for k j
  proof -
    have "(k, j) = (entity_id e, i) \<or> (k, j) \<in> set m"
      using that set_update_subset unfolding m1_def by fastforce
    then show ?thesis
      using Cons.prems(3) keepsD [OF keeps_stored_entity [OF laws, of c j A now c v e], of s] one st
      by auto
  qed
  then have "\<forall>(k, j) \<in> set m1. stored_in docs c j s1" by blast
  from Cons.IH [OF _ val this] Cons.prems(1)
  obtain m' s' where rest: "store_resolved_entities D A now c v m1 es s1 = (Inr m', s')"
    and ks: "set (keys m') = set (keys m1) \<union> set (map entity_id es)"
    and all: "\<forall>(k, i) \<in> set m'. stored_in docs c i s'" by auto
  have "set (keys m1) = insert (entity_id e) (set (keys m))"
    unfolding m1_def by (rule set_keys_update)
  then show ?case
    using one rest ks all by (simp add: bindA_def tryA_def m1_def [symmetric])
qed

lemma mentions_stored:
  assumes "\<forall>(k, i) \<in> set m. stored_in docs c i s" and "set (map entity_id es) \<subseteq> set (keys m)"
  shows "list_all (\<lambda>x. stored_in docs c (m_entity_id x) s) (map (mention_of now c v m) es)"
proof -
  have "stored_in docs c (m_entity_id (mention_of now c v m e)) s" if "e \<in> set es" for e
  proof -
    have "entity_id e \<in> set (keys m)" using assms(2) that by auto
    then obtain i where "map_of m (entity_id e) = Some i"
      using map_of_None_keys [of m "entity_id e"] by auto
    moreover from this have "(entity_id e, i) \<in> set m" by (rule map_of_SomeD)
    ultimately show ?thesis
      using assms(1) by (auto simp: mention_of_def)
  qed
  then show ?thesis by (simp add: list_all_iff)
qed

text \<open>C13: When the database and the key functions do not fail and the stored names and identifiers
  are within bounds, storing the entities of a chunk succeeds for all of them, and every mention
  written for the chunk refers to a stored entity that lists the chunk among its sources.\<close>

theorem mentions_reference_stored:
  assumes "entity_db_laws D docs" and "never_raises D" and "\<And>n. \<not> isl (blocking_keys A n)"
    and "list_all resolved_fields_ok es" and "valid_store docs s"
  shows "\<exists>m s'. store_resolved_entities D A now c v [] es s = (Inr m, s')
    \<and> list_all (\<lambda>x. stored_in docs c (m_entity_id x) s') (map (mention_of now c v m) es)"
proof -
  have "\<exists>ks. blocking_keys A n = Inr ks" for n
    using assms(3) [of n] by (cases "blocking_keys A n") auto
  from store_loop_total [OF assms(1,2) this assms(4,5), where m = "[]" and now = now and c = c and v = v]
  obtain m s' where r: "store_resolved_entities D A now c v [] es s = (Inr m, s')"
    and k: "set (keys m) = set (map entity_id es)" and st: "\<forall>(k, i) \<in> set m. stored_in docs c i s'"
    by auto
  have "list_all (\<lambda>x. stored_in docs c (m_entity_id x) s') (map (mention_of now c v m) es)"
    using mentions_stored [OF st] k by blast
  with r show ?thesis by blast
qed

section \<open>A database whose updates fail\<close>

lemma upsert_fails:
  assumes "\<And>i u s. isl (fst (find_one_and_update D i u s))"
  shows "isl (fst (upsert_entity D now e c v old s))"
  using assms by (auto simp: upsert_entity_def bindA_def Let_def split: prod.split sum.split)

lemma store_entity_fails:
  assumes "\<And>i u s. isl (fst (find_one_and_update D i u s))"
  shows "isl (fst (store_entity D A now c v e s))"
proof -
  have up: "isl (fst (seqA (upsert_entity D now e' c v old) f s'))" for e' old f s'
    using upsert_fails [OF assms, of now e' c v old s']
    by (auto simp: seqA_def split: prod.split sum.split)
  have bind: "isl (fst (bindA g h s'))" if "\<And>x s''. isl (fst (h x s''))" for g h s'
    using that by (auto simp: bindA_def split: prod.split sum.split)
  show ?thesis
    unfolding store_entity_def by (auto intro!: bind up split: option.split)
qed

text \<open>Every update is refused, without an effect.\<close>

definition refuses_updates :: "'s entity_db \<Rightarrow> ('s \<Rightarrow> string \<Rightarrow> entity_doc option) \<Rightarrow> bool" where
  "refuses_updates D docs = (\<forall>i u s. isl (fst (find_one_and_update D i u s)) \<and> docs (snd (find_one_and_update D i u s)) = docs s)"

lemma upsert_refused:
  assumes laws: "entity_db_laws D docs" and refused: "refuses_updates D docs"
  shows "docs (snd (upsert_entity D now e c v old s)) = docs s"
proof -
  define i where "i = (case old of Some i \<Rightarrow> if i \<noteq> [] then i else entity_id e | None \<Rightarrow> entity_id e)"
  obtain r s1 where f: "find_one D i s = (r, s1)" "docs s1 = docs s" using db_find_one [OF laws, of i s] by blast
  have "docs (snd (find_one_and_update D j u s1)) = docs s" for j u using refused f(2) by (simp add: refuses_updates_def)
  with f show ?thesis
    by (cases r) (simp_all add: upsert_entity_def i_def [symmetric] bindA_def Let_def split: option.split prod.split sum.split)
qed

lemma keeps_docs_failing:
  assumes laws: "entity_db_laws D docs" and refused: "refuses_updates D docs"
  shows "keeps (\<lambda>s. docs s = X) (store_resolved_entities D A now c v m es)"
proof -
  have up: "keeps (\<lambda>s. docs s = X) (upsert_entity D now e c v old)" for e old
    by (simp add: keeps_def upsert_refused [OF laws refused])
  have quiet: "keeps (\<lambda>s. docs s = X) (find_one D i)" "keeps (\<lambda>s. docs s = X) (find_in D ks n)" for i ks n
    by (simp_all add: keeps_def db_quiet [OF laws])
  have "keeps (\<lambda>s. docs s = X) (store_entity D A now c v e)" for e
    unfolding store_entity_def find_db_candidates_def Let_def
    by (auto intro!: keeps_rules up quiet split: option.split)
  then show ?thesis
    by (induction es arbitrary: m) (auto intro!: keeps_rules)
qed

lemma failing_loop:
  assumes fails: "\<And>i u s. isl (fst (find_one_and_update D i u s))"
    and "store_resolved_entities D A now c v m es s = (Inr m', s')"
    and "\<forall>(k, i) \<in> set m. i = k"
  shows "(\<forall>(k, i) \<in> set m'. i = k) \<and> set (keys m') = set (keys m) \<union> set (map entity_id es)"
  using assms(2,3)
proof (induction es arbitrary: m s)
  case (Cons e es)
  obtain r s1 where one: "store_entity D A now c v e s = (r, s1)" by (rule prod.exhaust)
  obtain ex where ex: "r = Inl ex"
    using store_entity_fails [OF fails, of A now c v e s] one by (cases r) auto
  define m1 where "m1 = AList.update (entity_id e) (entity_id e) m"
  have rest: "store_resolved_entities D A now c v m1 es s1 = (Inr m', s')"
    using Cons.prems(1) one ex
    by (auto simp: bindA_def tryA_def ret_def m1_def split: if_splits)
  have "\<forall>(k, i) \<in> set m1. i = k"
    using Cons.prems(2) set_update_subset [of "entity_id e" "entity_id e" m] unfolding m1_def by blast
  from Cons.IH [OF rest this] set_keys_update [of "entity_id e" "entity_id e" m] show ?case
    by (auto simp: m1_def)
qed (auto simp: ret_def)

text \<open>When every update is refused, nothing is stored, but the identifier map still has an entry for
  every entity: each mention refers to an identifier that was not written, and the chunk is
  reported with all its entities as stored.\<close>

theorem failed_store_still_mentioned:
  assumes "entity_db_laws D docs" and "refuses_updates D docs"
    and "store_resolved_entities D A now c v [] es s = (Inr m, s')"
  shows "docs s' = docs s \<and> set (keys m) = set (map entity_id es)
    \<and> map m_entity_id (map (mention_of now c v m) es) = map entity_id es"
proof -
  have k: "set (keys m) = set (map entity_id es)" and own: "\<forall>(k, i) \<in> set m. i = k"
    using failing_loop [OF _ assms(3)] assms(2) by (auto simp: refuses_updates_def)
  have "m_entity_id (mention_of now c v m e) = entity_id e" for e
    using own map_of_SomeD [of m "entity_id e"] by (fastforce simp: mention_of_def split: option.split)
  moreover have "docs s' = docs s"
    using keepsD [OF keeps_docs_failing [OF assms(1,2), of "docs s" A now c v "[]" es], of s] assms(3)
    by simp
  ultimately show ?thesis using k by simp
qed

section \<open>Entities of different types\<close>

text \<open>The type plays no part in matching: an entity whose identifier is not stored is merged into
  the first candidate with its normalized name, and the stored type stays, although the
  identifiers differ by type.\<close>

theorem merged_across_types:
  assumes "entity_db_laws D docs" and "docs s (entity_id e) = None"
    and "find_one D (entity_id e) s = (Inr None, s1)"
    and "find_db_candidates D A (canonical_name e) (aliases e) s1 = (Inr (d # ds), s2)"
    and "docs s2 = docs s" and "docs s (d_id d) = Some d" and "d_id d \<noteq> []"
    and "exact_match (normalize_entity_name (canonical_name e)) d"
    and "store_entity D A now c v e s = (Inr i, s')"
  shows "i = d_id d \<and> docs s' (entity_id e) = None
    \<and> map_option d_type (docs s' i) = Some (d_type d)"
proof -
  have ch: "choose_match A (canonical_name e) (d # ds) = Some d"
    using assms(8) by (simp add: choose_match_def)
  obtain m where m: "merge_entity e d = Inr m"
    using assms(3,4,9) ch
    by (cases "merge_entity e d") (auto simp: store_entity_def bindA_def liftR_def)
  have run: "seqA (upsert_entity D now m c v (Some (d_id d))) (ret (d_id d)) s2 = (Inr i, s')"
    using assms(3,4,9) ch m by (simp add: store_entity_def bindA_def liftR_def)
  have "entity_id e \<noteq> d_id d" using assms(2,6) by auto
  have eid: "d_id d = (case Some (d_id d) of Some i \<Rightarrow> if i \<noteq> [] then i else entity_id m | None \<Rightarrow> entity_id m)"
    using assms(7) by simp
  show ?thesis
  proof (cases rule: upsert_cases [OF assms(1) eid, where now = now and c = c and v = v and s = s2])
    case (1 ex s3)
    with run show ?thesis by (simp add: seqA_def)
  next
    case (2 s3 b)
    with run have "i = d_id d" "s' = s3" by (simp_all add: seqA_def ret_def)
    with 2(2) assms(2,5,6) \<open>entity_id e \<noteq> d_id d\<close> show ?thesis
      by (simp add: apply_update_def updated_doc_def Let_def)
  qed
qed

section \<open>A database in memory\<close>

record mem =
  me_docs :: "(string \<times> entity_doc) list"
  me_mentions :: "mention list"
  me_chunks :: "(string \<times> resolution_status) list"

definition mem_docs :: "mem \<Rightarrow> string \<Rightarrow> entity_doc option" where
  "mem_docs s = map_of (me_docs s)"

definition mem_db :: "mem entity_db" where
  "mem_db =
     \<lparr> find_one = (\<lambda>i s. (Inr (mem_docs s i), s)),
       find_in = (\<lambda>ks n s. (Inr (take n (filter (\<lambda>d. query_matches ks d \<and> mem_docs s (d_id d) = Some d)
                                   (map snd (me_docs s)))), s)),
       find_one_and_update = (\<lambda>i u s.
          (Inr (), s\<lparr>me_docs := AList.update i (apply_update u (mem_docs s i)) (me_docs s)\<rparr>)),
       insert_mentions = (\<lambda>ms s. (Inr (), s\<lparr>me_mentions := me_mentions s @ ms\<rparr>)),
       chunk_completed = (\<lambda>v c s. (Inr False, s)),
       update_chunk = (\<lambda>v c x s. (Inr (), s\<lparr>me_chunks := AList.update c x (me_chunks s)\<rparr>)) \<rparr>"

lemma mem_docs_update:
  "mem_docs (s\<lparr>me_docs := AList.update i d (me_docs s)\<rparr>) = (mem_docs s)(i \<mapsto> d)"
  by (simp add: mem_docs_def fun_eq_iff)

lemma mem_docs_other [simp]:
  "mem_docs (s\<lparr>me_mentions := a\<rparr>) = mem_docs s" "mem_docs (s\<lparr>me_chunks := b\<rparr>) = mem_docs s"
  by (simp_all add: mem_docs_def)

lemma mem_laws: "entity_db_laws mem_db mem_docs"
  unfolding entity_db_laws_def
  by (auto simp: mem_db_def mem_docs_update dest: in_set_takeD)

lemma mem_never_raises: "never_raises mem_db"
  by (simp add: never_raises_def mem_db_def)

definition mem0 :: mem where
  "mem0 = \<lparr> me_docs = [], me_mentions = [], me_chunks = [] \<rparr>"

lemma mem0_ok: "store_ok mem_docs mem0" "valid_store mem_docs mem0"
  by (simp_all add: store_ok_def valid_store_def mem_docs_def mem0_def)

section \<open>The properties on concrete data\<close>

definition demo_md5 :: "string \<Rightarrow> string" where
  "demo_md5 s = take 32 (map (\<lambda>c. if c \<in> set hex_digits then c else CHR ''f'') s @ replicate 32 (CHR ''0''))"

definition demo_agent :: agent where
  "demo_agent =
     \<lparr> model_name = ''gpt-4o-mini'', temperature = 0.1, similarity_threshold = 0.85,
       max_input_tokens = None, resolution_prompt = ''Resolve.'', wratio = None, phonetic = None,
       chat = (\<lambda>r. Inr ''A summary of it.''), md5 = demo_md5 \<rparr>"

definition demo_instance :: "string \<Rightarrow> entity_type \<Rightarrow> instance_data" where
  "demo_instance nm t =
     \<lparr> i_name = Some nm, i_type = Some (type_value t), i_description = Some ''A person in the talk.'',
       i_confidence = Some 1, source_chunk = ''c1'' \<rparr>"

definition demo_data :: "extraction list" where
  "demo_data = [\<lparr> ex_entities = Some [demo_instance ''Dr. Smith'' PERSON, demo_instance ''Smith'' PERSON,
                    demo_instance ''Python'' TECHNOLOGY], ex_chunk_id = Some ''c1'' \<rparr>]"

definition demo_group :: "instance_data list" where
  "demo_group = [demo_instance ''Dr. Smith'' PERSON, demo_instance ''Smith'' PERSON]"

definition demo_entity :: "string \<Rightarrow> entity_type \<Rightarrow> resolved_entity" where
  "demo_entity nm t =
     \<lparr> entity_id = generate_entity_id demo_md5 nm (Some t), canonical_name = nm, name = nm, etype = t,
       description = ''A language of the talk.'', confidence = 1, source_count = 1,
       resolution_methods = [''single_instance''], aliases = [nm] \<rparr>"

definition demo_doc :: entity_doc where
  "demo_doc = apply_update (update_of (generate_entity_id demo_md5 ''Python'' (Some TECHNOLOGY))
     (demo_entity ''Python'' TECHNOLOGY) ''c1'' ''v'' 0 True) None"

definition demo_state :: mem where
  "demo_state = mem0\<lparr>me_docs := [(d_id demo_doc, demo_doc)]\<rparr>"

definition failing_db :: "mem entity_db" where
  "failing_db = mem_db\<lparr>find_one_and_update := (\<lambda>i u s. (Inl (Exn ''OperationFailure'' []), s))\<rparr>"

lemma failing_laws: "entity_db_laws failing_db mem_docs"
  unfolding entity_db_laws_def
  by (auto simp: failing_db_def mem_db_def dest: in_set_takeD)

lemma demo_keys: "\<not> isl (blocking_keys demo_agent n)"
  by (simp add: blocking_keys_def demo_agent_def phonetic_keys_def Let_def)

lemma demo_entity_ok: "resolved_fields_ok (demo_entity ''Python'' PERSON)"
  by code_simp

lemma not_isl: "\<not> isl r \<Longrightarrow> \<exists>x. r = Inr x"
  by (cases r) auto

lemma groups_partition_witness:
  "\<exists>g. group_entities_by_name demo_data = Inr g \<and> distinct (keys g)
    \<and> set (keys g) = norm_name ` set (tagged demo_data)"
proof -
  have "\<not> isl (group_entities_by_name demo_data)" by code_simp
  then obtain g where "group_entities_by_name demo_data = Inr g" using not_isl by blast
  with groups_partition [OF this] show ?thesis by blast
qed

lemma canonical_name_best_witness:
  "\<exists>nm. determine_canonical_name demo_group = Inr nm
    \<and> occurrences ''Smith'' demo_group \<le> occurrences nm demo_group"
proof -
  have "\<not> isl (determine_canonical_name demo_group)" by code_simp
  then obtain nm where nm: "determine_canonical_name demo_group = Inr nm" using not_isl by blast
  have "''Smith'' \<in> (the \<circ> i_name) ` set demo_group"
    by (simp add: demo_group_def demo_instance_def)
  with canonical_name_best [OF nm] nm show ?thesis by blast
qed

lemma entity_type_best_witness:
  "determine_entity_type demo_group None = Inr PERSON
    \<and> type_weight ''PERSON'' demo_group \<le> type_weight (type_value PERSON) demo_group"
proof -
  have e: "determine_entity_type demo_group None = Inr PERSON" by code_simp
  have ne: "demo_group \<noteq> []" by (simp add: demo_group_def)
  have i: "''PERSON'' \<in> type_of_instance ` set demo_group"
    by (simp add: demo_group_def demo_instance_def type_of_instance_def)
  from entity_type_best [OF e ne i] e show ?thesis by simp
qed

lemma resolved_entities_well_formed_witness:
  "\<exists>es. resolve_entities demo_agent [\<lparr> ex_entities = Some [demo_instance ''Python'' TECHNOLOGY],
      ex_chunk_id = None \<rparr>] = Inr es \<and> length es = 1 \<and> list_all (well_formed demo_agent) es"
proof -
  define i where "i = demo_instance ''Python'' TECHNOLOGY\<lparr>source_chunk := ''unknown''\<rparr>"
  define data where "data = [\<lparr> ex_entities = Some [demo_instance ''Python'' TECHNOLOGY], ex_chunk_id = None \<rparr>]"
  have g: "group_entities_by_name data = Inr [(normalize_entity_name ''Python'', [i])]"
    by (simp add: data_def i_def group_entities_by_name_def need_def demo_instance_def dd_append_def)
  have "\<not> isl (create_resolved_entity_from_single demo_agent i)"
    unfolding i_def by code_simp
  then obtain e where "create_resolved_entity_from_single demo_agent i = Inr e" using not_isl by blast
  then have es: "resolve_entities demo_agent data = Inr [e]"
    by (simp add: resolve_entities_def with_fallback_def g resolve_entity_group_def)
  from resolved_entities_well_formed [OF es] have "well_formed demo_agent e" by simp
  with es show ?thesis unfolding data_def by (intro exI [of _ "[e]"] conjI) simp_all
qed

lemma confidence_at_least_mean_witness:
  "sum_list (map confidence_of demo_group) / real (length demo_group) \<le> overall_confidence demo_group"
proof (rule confidence_at_least_mean [THEN conjunct1])
  show "demo_group \<noteq> []" by (simp add: demo_group_def)
  show "list_all (\<lambda>i. 0 \<le> confidence_of i \<and> confidence_of i \<le> 1) demo_group"
    by (simp add: demo_group_def demo_instance_def confidence_of_def)
qed

lemma stored_entities_invariant_witness:
  "store_ok mem_docs (fst (snd (process_batch mem_db demo_agent
     \<lparr> s_model_name = ''m'', s_upsert_existing = True \<rparr> [0, 1]
     [\<lparr> c_chunk_id = ''c1'', c_video_id = ''v'', c_extraction = hd demo_data \<rparr>,
      \<lparr> c_chunk_id = ''c1'', c_video_id = ''v'', c_extraction = hd demo_data \<rparr>]
     (mem0, \<lparr> n_updated = 0, n_skipped = 0, n_failed = 0 \<rparr>))))"
  by (rule stored_entities_invariant [OF mem_laws mem0_ok(1)])

lemma match_sound_and_complete_witness:
  "case choose_match demo_agent ''python'' [demo_doc] of
      Some d \<Rightarrow> d_id d = d_id demo_doc | None \<Rightarrow> False"
proof -
  have "0 < similarity_threshold demo_agent" by (simp add: demo_agent_def)
  note M = match_sound_and_complete [OF this, of "''python''" "[demo_doc]"]
  have "exact_match (normalize_entity_name ''python'') demo_doc" by code_simp
  with M show ?thesis by (auto split: option.splits)
qed

lemma mentions_reference_stored_witness:
  "\<exists>m s'. store_resolved_entities mem_db demo_agent 0 ''c1'' ''v'' [] [demo_entity ''Python'' PERSON] mem0 = (Inr m, s')
    \<and> list_all (\<lambda>x. stored_in mem_docs ''c1'' (m_entity_id x) s')
        (map (mention_of 0 ''c1'' ''v'' m) [demo_entity ''Python'' PERSON])"
  by (rule mentions_reference_stored [OF mem_laws mem_never_raises demo_keys _ mem0_ok(2)])
    (simp add: demo_entity_ok)

lemma failed_store_still_mentioned_witness:
  "\<exists>m s'. store_resolved_entities failing_db demo_agent 0 ''c1'' ''v'' [] [demo_entity ''Python'' PERSON] mem0 = (Inr m, s')
    \<and> mem_docs s' = mem_docs mem0
    \<and> map m_entity_id (map (mention_of 0 ''c1'' ''v'' m) [demo_entity ''Python'' PERSON])
        = [entity_id (demo_entity ''Python'' PERSON)]"
proof -
  define run where "run = store_resolved_entities failing_db demo_agent 0 ''c1'' ''v'' []
    [demo_entity ''Python'' PERSON] mem0"
  have "\<not> isl (fst run)" unfolding run_def by code_simp
  then obtain m s' where r: "run = (Inr m, s')"
    by (cases run; cases "fst run") auto
  have "refuses_updates failing_db mem_docs"
    by (simp add: failing_db_def refuses_updates_def)
  from failed_store_still_mentioned [OF failing_laws this r [unfolded run_def]]
  have "mem_docs s' = mem_docs mem0 \<and> map m_entity_id (map (mention_of 0 ''c1'' ''v'' m)
    [demo_entity ''Python'' PERSON]) = [entity_id (demo_entity ''Python'' PERSON)]" by simp
  with r [unfolded run_def] show ?thesis by (intro exI [of _ m] exI [of _ s'] conjI) simp_all
qed

lemma merged_across_types_witness:
  "\<exists>i s'. store_entity mem_db demo_agent 1 ''c2'' ''v'' (demo_entity ''Python'' PERSON) demo_state = (Inr i, s')
    \<and> i = d_id demo_doc \<and> map_option d_type (mem_docs s' i) = Some ''TECHNOLOGY''"
proof -
  define e where "e = demo_entity ''Python'' PERSON"
  define run where "run = store_entity mem_db demo_agent 1 ''c2'' ''v'' e demo_state"
  have none: "mem_docs demo_state (entity_id e) = None" unfolding e_def by code_simp
  have vd: "valid_doc (d_id demo_doc) demo_doc" by code_simp
  have "valid_store mem_docs demo_state"
    using vd by (auto simp: valid_store_def demo_state_def mem_docs_def mem0_def)
  then obtain i s' where r: "run = (Inr i, s')"
    using store_entity_total [OF mem_laws mem_never_raises _ demo_entity_ok, of demo_state demo_agent]
      demo_keys not_isl unfolding run_def e_def by metis
  have some: "mem_docs demo_state (d_id demo_doc) = Some demo_doc"
    by (simp add: demo_state_def mem_docs_def)
  have f: "find_one mem_db (entity_id e) demo_state = (Inr None, demo_state)"
    using none by (simp add: mem_db_def)
  obtain ks where ks: "collect_keys demo_agent (canonical_name e # aliases e) = Inr ks"
    using collect_keys_total demo_keys not_isl by metis
  have q: "case collect_keys demo_agent (canonical_name e # aliases e) of
    Inl _ \<Rightarrow> False | Inr ks \<Rightarrow> remdups ks \<noteq> [] \<and> query_matches (remdups ks) demo_doc"
    unfolding e_def by code_simp
  have c: "find_db_candidates mem_db demo_agent (canonical_name e) (aliases e) demo_state = (Inr [demo_doc], demo_state)"
    using q ks some
    by (simp add: find_db_candidates_def bindA_def liftR_def tryA_def mem_db_def demo_state_def mem_docs_def Let_def)
  have x: "exact_match (normalize_entity_name (canonical_name e)) demo_doc"
    unfolding e_def by code_simp
  have ty: "d_type demo_doc = ''TECHNOLOGY''" and ne: "d_id demo_doc \<noteq> []" by code_simp+
  from merged_across_types [OF mem_laws none f c refl some ne x r [unfolded run_def]]
  have "i = d_id demo_doc \<and> map_option d_type (mem_docs s' i) = Some ''TECHNOLOGY''"
    by (auto simp: ty)
  with r [unfolded run_def e_def] show ?thesis by (intro exI [of _ i] exI [of _ s'] conjI) blast+
qed

end
