(* ===== verification/Relationship_Resolution.thy ===== *)
theory Relationship_Resolution
  imports Entity_Scores
begin

text \<open>
  \<open>domain/graphrag/agents/relationship_resolution.py\<close>, the relationship part of
  \<open>core/models/graphrag.py\<close>, and the name index of \<open>stages/graph_construction.py\<close>: grouping of
  the extracted relationships, lookup of their endpoints, and the resolved relationship.

  As for entities, an extracted relationship is a dictionary with at most the keys of the
  record; \<open>None\<close> is a missing key. The language model and MD5 are parameters.
\<close>

section \<open>The data model\<close>

text \<open>The endpoints are dictionaries of their own: \<open>Some None\<close> is one without a name.\<close>

record rel_instance =
  ri_source :: "string option option"
  ri_target :: "string option option"
  ri_relation :: "string option"
  ri_description :: "string option"
  ri_confidence :: "real option"
  ri_source_chunk :: string

record rel_extraction =
  rx_relationships :: "rel_instance list option"
  rx_chunk_id :: "string option"

record resolved_relationship =
  rr_id :: string
  rr_subject :: string
  rr_object :: string
  rr_predicate :: string
  rr_description :: string
  rr_confidence :: real
  rr_source_count :: int

definition is_md5 :: "string \<Rightarrow> bool" where
  "is_md5 s = (length s = 32 \<and> list_all (\<lambda>c. c \<in> set hex_digits) (str_lower s))"

definition relationship_fields_ok :: "resolved_relationship \<Rightarrow> bool" where
  "relationship_fields_ok r =
     (length (rr_id r) = 32 \<and> is_md5 (rr_subject r) \<and> is_md5 (rr_object r) \<and>
      1 \<le> length (rr_predicate r) \<and> length (rr_predicate r) \<le> 100 \<and>
      10 \<le> length (rr_description r) \<and> length (rr_description r) \<le> 1000 \<and>
      0 \<le> rr_confidence r \<and> rr_confidence r \<le> 1 \<and> 1 \<le> rr_source_count r)"

definition ResolvedRelationship :: "resolved_relationship \<Rightarrow> resolved_relationship res" where
  "ResolvedRelationship r =
     (if relationship_fields_ok r
      then Inr (r\<lparr>rr_subject := str_lower (rr_subject r), rr_object := str_lower (rr_object r)\<rparr>)
      else Inl (Exn ''ValidationError'' ''ResolvedRelationship''))"

definition generate_relationship_id :: "(string \<Rightarrow> string) \<Rightarrow> string \<Rightarrow> string \<Rightarrow> string \<Rightarrow> string" where
  "generate_relationship_id md5hex s ob p = md5hex (str_lower (s @ '':'' @ ob @ '':'' @ p))"

record rel_agent =
  ra_md5 :: "string \<Rightarrow> string"
  ra_model_name :: string
  ra_temperature :: real
  ra_prompt :: string
  ra_chat :: "chat_request \<Rightarrow> string res"

section \<open>Grouping\<close>

definition relationship_key :: "rel_instance \<Rightarrow> string res" where
  "relationship_key r =
     bindR (bindR (need ''source_entity'' (ri_source r)) (need ''name'')) (\<lambda>s.
     bindR (bindR (need ''target_entity'' (ri_target r)) (need ''name'')) (\<lambda>t.
     bindR (need ''relation'' (ri_relation r)) (\<lambda>p.
       Inr (str_strip (str_lower s) @ '':'' @ str_strip (str_lower t) @ '':'' @ str_strip (str_lower p)))))"

fun group_relationships_of :: "string \<Rightarrow> rel_instance list \<Rightarrow> (string \<times> rel_instance list) list
    \<Rightarrow> (string \<times> rel_instance list) list res" where
  "group_relationships_of chunk [] g = Inr g"
| "group_relationships_of chunk (r # rs) g =
     bindR (relationship_key r) (\<lambda>k.
       group_relationships_of chunk rs (dd_append k (r\<lparr>ri_source_chunk := chunk\<rparr>) g))"

fun group_relationships_by_tuple :: "rel_extraction list \<Rightarrow> (string \<times> rel_instance list) list
    \<Rightarrow> (string \<times> rel_instance list) list res" where
  "group_relationships_by_tuple [] g = Inr g"
| "group_relationships_by_tuple (x # xs) g =
     (case rx_relationships x of
        None \<Rightarrow> group_relationships_by_tuple xs g
      | Some rs \<Rightarrow>
          bindR (group_relationships_of (case rx_chunk_id x of None \<Rightarrow> ''unknown'' | Some c \<Rightarrow> c) rs g)
            (group_relationships_by_tuple xs))"

text \<open>\<open>a, b, c = key.split(":")\<close>.\<close>

definition split_key :: "string \<Rightarrow> (string \<times> string \<times> string) res" where
  "split_key key =
     (case str_split_n (CHR '':'') (length key) [] key of
        [s, t, p] \<Rightarrow> Inr (s, t, p)
      | parts \<Rightarrow> Inl (Exn ''ValueError''
          (if length parts < 3 then ''not enough values to unpack (expected 3)''
           else ''too many values to unpack (expected 3)'')))"

section \<open>Endpoints\<close>

definition lookup_entity_id :: "rel_agent \<Rightarrow> string \<Rightarrow> (string \<times> string) list option \<Rightarrow> string option" where
  "lookup_entity_id A nm mapping =
     (let normalized = str_strip (str_lower nm)
      in case mapping of
           None \<Rightarrow> Some (generate_entity_id (ra_md5 A) normalized None)
         | Some m \<Rightarrow>
             if m = [] then Some (generate_entity_id (ra_md5 A) normalized None)
             else (case map_of m normalized of
                     Some i \<Rightarrow> Some i
                   | None \<Rightarrow> map_option snd (find (\<lambda>(n, i). str_lower n = normalized) m)))"

section \<open>Descriptions and confidence\<close>

definition restricted_model :: "rel_agent \<Rightarrow> bool" where
  "restricted_model A = list_ex (\<lambda>p. str_contains p (ra_model_name A)) [''gpt-5'', ''o1'', ''o3'']"

definition relationship_request :: "rel_agent \<Rightarrow> string \<Rightarrow> string \<Rightarrow> string \<Rightarrow> string \<Rightarrow> chat_request" where
  "relationship_request A s ob p text =
     \<lparr> rq_model = ra_model_name A, rq_system = ra_prompt A,
       rq_user = ''Subject: '' @ s @ nl @ ''Object: '' @ ob @ nl @ ''Predicate: '' @ p @ nl @ nl
                 @ ''Descriptions:'' @ nl @ text,
       rq_temperature = (if restricted_model A then None else Some (ra_temperature A)),
       rq_max_completion_tokens = (if restricted_model A then Some 4000 else None),
       rq_max_tokens = (if restricted_model A then None else Some 1000) \<rparr>"

definition relationship_llm :: "rel_agent \<Rightarrow> string \<Rightarrow> string \<Rightarrow> string \<Rightarrow> string \<Rightarrow> string res" where
  "relationship_llm A s ob p text =
     bindR (ra_chat A (relationship_request A s ob p text)) (\<lambda>d. Inr (str_strip d))"

fun all_of :: "string \<Rightarrow> 'a option list \<Rightarrow> 'a list res" where
  "all_of k [] = Inr []"
| "all_of k (x # xs) = bindR (need k x) (\<lambda>y. bindR (all_of k xs) (\<lambda>ys. Inr (y # ys)))"

definition resolve_relationship_descriptions ::
  "rel_agent \<Rightarrow> rel_instance list \<Rightarrow> string \<Rightarrow> string \<Rightarrow> string \<Rightarrow> string option res" where
  "resolve_relationship_descriptions A grp s ob p =
     bindR (all_of ''description'' (map ri_description grp)) (\<lambda>ds.
       if length ds = 1 then Inr (Some (hd ds))
       else (case relationship_llm A s ob p (combine_descriptions ds) of
               Inl e \<Rightarrow> if is_Exception e then Inr None else Inl e
             | Inr d \<Rightarrow> Inr (if length d < 10 then None else Some d)))"

definition relationship_confidence :: "rel_instance list \<Rightarrow> real res" where
  "relationship_confidence grp =
     bindR (all_of ''confidence'' (map ri_confidence grp)) (\<lambda>cs.
       Inr (if 0 < length cs then sum_list cs / real (length cs) else 0))"

section \<open>Resolution of a group\<close>

definition single_relationship ::
  "rel_agent \<Rightarrow> rel_instance \<Rightarrow> string \<Rightarrow> string \<Rightarrow> string \<Rightarrow> resolved_relationship res" where
  "single_relationship A r s ob p =
     bindR (need ''description'' (ri_description r)) (\<lambda>d.
     bindR (need ''confidence'' (ri_confidence r)) (\<lambda>c.
       ResolvedRelationship \<lparr> rr_id = generate_relationship_id (ra_md5 A) s ob p, rr_subject = s,
         rr_object = ob, rr_predicate = p, rr_description = d, rr_confidence = c, rr_source_count = 1 \<rparr>))"

definition endpoint_name :: "string option option \<Rightarrow> string \<Rightarrow> string" where
  "endpoint_name e fallback_name = (case e of Some (Some n) \<Rightarrow> n | _ \<Rightarrow> fallback_name)"

definition multiple_relationships ::
  "rel_agent \<Rightarrow> rel_instance list \<Rightarrow> string \<Rightarrow> string \<Rightarrow> string \<Rightarrow> resolved_relationship option res" where
  "multiple_relationships A grp s ob p =
     bindR (resolve_relationship_descriptions A grp
              (endpoint_name (ri_source (hd grp)) ''subject'')
              (endpoint_name (ri_target (hd grp)) ''object'') p) (\<lambda>d.
       case d of
         None \<Rightarrow> Inr None
       | Some text \<Rightarrow>
           if text = [] then Inr None
           else bindR (relationship_confidence grp) (\<lambda>c.
             bindR (ResolvedRelationship
               \<lparr> rr_id = generate_relationship_id (ra_md5 A) s ob p, rr_subject = s, rr_object = ob,
                 rr_predicate = p, rr_description = text, rr_confidence = c,
                 rr_source_count = int (length grp) \<rparr>) (\<lambda>r. Inr (Some r))))"

definition resolve_relationship_group ::
  "rel_agent \<Rightarrow> (string \<times> string) list option \<Rightarrow> string \<Rightarrow> rel_instance list
    \<Rightarrow> resolved_relationship option res" where
  "resolve_relationship_group A mapping key grp =
     (if grp = [] then Inr None
      else bindR (split_key key) (\<lambda>(s, t, p).
        case (lookup_entity_id A s mapping, lookup_entity_id A t mapping) of
          (Some sid, Some tid) \<Rightarrow>
            if sid = [] \<or> tid = [] then Inr None
            else if length grp = 1
            then bindR (single_relationship A (hd grp) sid tid p) (\<lambda>r. Inr (Some r))
            else multiple_relationships A grp sid tid p
        | _ \<Rightarrow> Inr None))"

fun resolve_relationship_groups ::
  "rel_agent \<Rightarrow> (string \<times> string) list option \<Rightarrow> (string \<times> rel_instance list) list
    \<Rightarrow> resolved_relationship list res" where
  "resolve_relationship_groups A mapping [] = Inr []"
| "resolve_relationship_groups A mapping ((k, grp) # gs) =
     (case resolve_relationship_group A mapping k grp of
        Inl e \<Rightarrow> if is_Exception e then resolve_relationship_groups A mapping gs else Inl e
      | Inr r \<Rightarrow> bindR (resolve_relationship_groups A mapping gs) (\<lambda>rs.
          Inr ((case r of None \<Rightarrow> [] | Some x \<Rightarrow> [x]) @ rs)))"

definition resolve_relationships ::
  "rel_agent \<Rightarrow> rel_extraction list \<Rightarrow> (string \<times> string) list option \<Rightarrow> resolved_relationship list res" where
  "resolve_relationships A data mapping =
     with_fallback [] (bindR (group_relationships_by_tuple data []) (resolve_relationship_groups A mapping))"

definition validate_entity_existence ::
  "resolved_relationship list \<Rightarrow> string list \<Rightarrow> resolved_relationship list" where
  "validate_entity_existence rs ids =
     filter (\<lambda>r. rr_subject r \<in> set ids \<and> rr_object r \<in> set ids) rs"

record relationship_stats =
  rs_total :: nat
  rs_single :: nat
  rs_multi :: int
  rs_avg_source_count :: real
  rs_avg_confidence :: real
  rs_predicates :: "(string \<times> nat) list"

definition relationship_resolution_stats :: "resolved_relationship list \<Rightarrow> relationship_stats" where
  "relationship_resolution_stats rs =
     (if rs = []
      then \<lparr> rs_total = 0, rs_single = 0, rs_multi = 0, rs_avg_source_count = 0, rs_avg_confidence = 0,
             rs_predicates = [] \<rparr>
      else (let n = length rs; single = length (filter (\<lambda>r. rr_source_count r = 1) rs)
            in \<lparr> rs_total = n, rs_single = single, rs_multi = int n - int single,
                 rs_avg_source_count = sum_list (map (real_of_int \<circ> rr_source_count) rs) / real n,
                 rs_avg_confidence = sum_list (map rr_confidence rs) / real n,
                 rs_predicates = fold (\<lambda>r. dd_add (rr_predicate r) 1) rs [] \<rparr>))"

section \<open>The index of names\<close>

text \<open>A document of the query \<open>find({}, {entity_id, name, canonical_name, aliases})\<close>.\<close>

record name_doc =
  nd_id :: string
  nd_canonical :: "string option"
  nd_name :: "string option"
  nd_aliases :: "string list option"

definition put_name :: "string \<Rightarrow> string \<Rightarrow> (string \<times> string) list \<Rightarrow> (string \<times> string) list" where
  "put_name i nm m =
     (let normalized = str_strip (str_lower nm)
      in if normalized = [] then m else AList.update normalized i m)"

definition doc_all_names :: "name_doc \<Rightarrow> string list" where
  "doc_all_names d =
     (case nd_canonical d of None \<Rightarrow> [] | Some n \<Rightarrow> [n]) @
     (case nd_name d of None \<Rightarrow> [] | Some n \<Rightarrow> [n]) @
     (case nd_aliases d of None \<Rightarrow> [] | Some ns \<Rightarrow> ns)"

definition entity_name_to_id_mapping :: "name_doc list \<Rightarrow> (string \<times> string) list" where
  "entity_name_to_id_mapping docs =
     fold (\<lambda>d m. fold (put_name (nd_id d)) (doc_all_names d) m) docs []"

definition display_name :: "name_doc \<Rightarrow> string" where
  "display_name d =
     (case nd_name d of
        Some n \<Rightarrow> if n \<noteq> [] then n else
          (case nd_canonical d of Some c \<Rightarrow> if c \<noteq> [] then c else take 8 (nd_id d) | None \<Rightarrow> take 8 (nd_id d))
      | None \<Rightarrow> (case nd_canonical d of Some c \<Rightarrow> if c \<noteq> [] then c else take 8 (nd_id d) | None \<Rightarrow> take 8 (nd_id d)))"

definition entity_id_to_name :: "name_doc list \<Rightarrow> (string \<times> string) list" where
  "entity_id_to_name docs = fold (\<lambda>d. AList.update (nd_id d) (display_name d)) docs []"

section \<open>The key of a relationship\<close>

lemma split_n_sep:
  "sep \<notin> set s \<Longrightarrow> str_split_n sep (Suc n) acc (s @ sep # t) = (rev acc @ s) # str_split_n sep n [] t"
  by (induction s arbitrary: acc) auto

lemma length_split_n:
  "length (filter (\<lambda>c. c = sep) s) \<le> n \<Longrightarrow>
    length (str_split_n sep n acc s) = Suc (length (filter (\<lambda>c. c = sep) s))"
  by (induction sep n acc s rule: str_split_n.induct) auto

lemma split_key_of_parts:
  assumes "CHR '':'' \<notin> set s" and "CHR '':'' \<notin> set t" and "CHR '':'' \<notin> set p"
  shows "split_key (s @ '':'' @ t @ '':'' @ p) = Inr (s, t, p)"
proof -
  have "\<exists>n. length (s @ '':'' @ t @ '':'' @ p) = Suc (Suc n)" by simp
  then obtain n where n: "length (s @ '':'' @ t @ '':'' @ p) = Suc (Suc n)" by blast
  have "str_split_n (CHR '':'') (Suc (Suc n)) [] (s @ CHR '':'' # t @ CHR '':'' # p) = [s, t, p]"
    using split_n_sep [OF assms(1), of "Suc n" "[]" "t @ CHR '':'' # p"]
      split_n_sep [OF assms(2), of n "[]" p] split_n_no_sep [OF assms(3), of n "[]"] by simp
  then show ?thesis
    unfolding split_key_def n by simp
qed

lemma split_key_colons:
  assumes "2 < length (filter (\<lambda>c. c = CHR '':'') key)"
  shows "split_key key = Inl (Exn ''ValueError'' ''too many values to unpack (expected 3)'')"
proof -
  have "length (str_split_n (CHR '':'') (length key) [] key) = Suc (length (filter (\<lambda>c. c = CHR '':'') key))"
    by (rule length_split_n) (rule length_filter_le)
  with assms have "Suc (Suc (Suc (Suc 0))) \<le> length (str_split_n (CHR '':'') (length key) [] key)" by simp
  then obtain a b c d r where "str_split_n (CHR '':'') (length key) [] key = a # b # c # d # r"
    by (auto simp only: Suc_le_length_iff)
  then show ?thesis by (simp add: split_key_def)
qed

text \<open>A colon in a name or predicate makes the key ambiguous: its group raises \<open>ValueError\<close> when
  the key is taken apart, so the relationship is dropped.\<close>

theorem colon_drops_relationship:
  assumes "grp \<noteq> []" and "2 < length (filter (\<lambda>c. c = CHR '':'') key)"
  shows "resolve_relationship_group A mapping key grp =
    Inl (Exn ''ValueError'' ''too many values to unpack (expected 3)'')"
  using assms split_key_colons [of key] by (simp add: resolve_relationship_group_def)

end
