(* ===== verification/Relationship_Facts.thy ===== *)
theory Relationship_Facts
  imports Relationship_Resolution
begin

text \<open>
  What the relationship resolution agent guarantees: resolved relationships satisfy their model,
  and with the name index of the stored entities both endpoints are stored entities.
\<close>

section \<open>Endpoints are stored entities\<close>

lemma put_name_ids: "snd ` set (put_name i n m) \<subseteq> insert i (snd ` set m)"
proof -
  have "snd ` set (AList.update k i m) \<subseteq> insert i (snd ` set m)" for k
    by (induction m) auto
  then show ?thesis by (simp add: put_name_def Let_def subset_insertI)
qed

lemma put_names_ids: "snd ` set (fold (put_name i) ns m) \<subseteq> insert i (snd ` set m)"
proof (induction ns arbitrary: m)
  case (Cons n ns)
  from Cons.IH [of "put_name i n m"] put_name_ids [of i n m] show ?case by auto
qed auto

lemma mapping_ids_gen:
  "snd ` set (fold (\<lambda>d m. fold (put_name (nd_id d)) (doc_all_names d) m) docs m) \<subseteq>
     nd_id ` set docs \<union> snd ` set m"
proof (induction docs arbitrary: m)
  case (Cons d docs)
  from Cons.IH [of "fold (put_name (nd_id d)) (doc_all_names d) m"]
    put_names_ids [of "nd_id d" "doc_all_names d" m] show ?case by auto
qed auto

lemma mapping_ids: "snd ` set (entity_name_to_id_mapping docs) \<subseteq> nd_id ` set docs"
  using mapping_ids_gen [of docs "[]"] by (simp add: entity_name_to_id_mapping_def)

lemma lookup_in_mapping:
  assumes "lookup_entity_id A nm (Some m) = Some i" and "m \<noteq> []"
  shows "i \<in> snd ` set m"
proof (cases "map_of m (str_strip (str_lower nm))")
  case None
  then obtain p where "find (\<lambda>(n, i). str_lower n = str_strip (str_lower nm)) m = Some p" and "i = snd p"
    using assms by (auto simp: lookup_entity_id_def Let_def)
  then show ?thesis by (auto simp: find_Some_iff intro: image_eqI [OF _ nth_mem])
next
  case (Some j)
  with assms have "j = i" by (simp add: lookup_entity_id_def Let_def)
  with map_of_SomeD [OF Some] show ?thesis by force
qed

lemma ResolvedRelationship_Inr:
  "ResolvedRelationship r = Inr r' \<longleftrightarrow> relationship_fields_ok r \<and>
    r' = r\<lparr>rr_subject := str_lower (rr_subject r), rr_object := str_lower (rr_object r)\<rparr>"
  by (auto simp: ResolvedRelationship_def)

text \<open>What one group gives: a relationship within the bounds of its model whose endpoints were
  looked up.\<close>

lemma group_result:
  assumes "resolve_relationship_group A mapping key grp = Inr (Some r)"
  obtains s t p sid tid where "split_key key = Inr (s, t, p)"
    and "lookup_entity_id A s mapping = Some sid" and "lookup_entity_id A t mapping = Some tid"
    and "rr_subject r = str_lower sid" and "rr_object r = str_lower tid" and "rr_predicate r = p"
    and "rr_id r = generate_relationship_id (ra_md5 A) sid tid p"
    and "relationship_fields_ok r" and "rr_source_count r = int (length grp)"
proof -
  have ok: "relationship_fields_ok r'" if "ResolvedRelationship x = Inr r'" for x r'
    using that by (auto simp: ResolvedRelationship_Inr relationship_fields_ok_def is_md5_def)
  obtain s t p where key: "split_key key = Inr (s, t, p)" and ne: "grp \<noteq> []"
    using assms by (auto simp: resolve_relationship_group_def bindR_eq_Inr split: if_splits)
  obtain sid tid where ids: "lookup_entity_id A s mapping = Some sid" "lookup_entity_id A t mapping = Some tid"
    and r: "(if length grp = 1 then bindR (single_relationship A (hd grp) sid tid p) (\<lambda>r. Inr (Some r))
             else multiple_relationships A grp sid tid p) = Inr (Some r)"
    using assms key ne by (auto simp: resolve_relationship_group_def split: option.splits if_splits)
  show thesis
  proof (cases "length grp = 1")
    case True
    with r have "single_relationship A (hd grp) sid tid p = Inr r"
      by (auto simp: bindR_eq_Inr)
    then obtain d c where "ResolvedRelationship \<lparr> rr_id = generate_relationship_id (ra_md5 A) sid tid p,
        rr_subject = sid, rr_object = tid, rr_predicate = p, rr_description = d, rr_confidence = c,
        rr_source_count = 1 \<rparr> = Inr r"
      by (auto simp: single_relationship_def bindR_eq_Inr)
    from this ok [OF this] key ids True show thesis
      by (intro that) (auto simp: ResolvedRelationship_Inr)
  next
    case False
    with r have "multiple_relationships A grp sid tid p = Inr (Some r)" by simp
    then obtain d c where "ResolvedRelationship \<lparr> rr_id = generate_relationship_id (ra_md5 A) sid tid p,
        rr_subject = sid, rr_object = tid, rr_predicate = p, rr_description = d, rr_confidence = c,
        rr_source_count = int (length grp) \<rparr> = Inr r"
      by (auto simp: multiple_relationships_def bindR_eq_Inr split: option.splits if_splits)
    from this ok [OF this] key ids show thesis
      by (intro that) (auto simp: ResolvedRelationship_Inr)
  qed
qed

lemma resolve_groups_result:
  assumes "resolve_relationship_groups A mapping gs = Inr rs" and "r \<in> set rs"
  shows "\<exists>(k, grp) \<in> set gs. resolve_relationship_group A mapping k grp = Inr (Some r)"
  using assms
proof (induction A mapping gs arbitrary: rs rule: resolve_relationship_groups.induct)
  case (2 A mapping k grp gs)
  show ?case
  proof (cases "resolve_relationship_group A mapping k grp")
    case (Inl e)
    with 2 show ?thesis by (auto split: if_splits)
  next
    case (Inr x)
    then obtain rs' where "resolve_relationship_groups A mapping gs = Inr rs'"
      and "rs = (case x of None \<Rightarrow> [] | Some y \<Rightarrow> [y]) @ rs'"
      using "2.prems"(1) by (auto simp: bindR_eq_Inr)
    with "2.IH"(2) [OF Inr] "2.prems"(2) Inr show ?thesis
      by (cases x) auto
  qed
qed simp

lemma resolved_from_group:
  assumes "resolve_relationships A data mapping = Inr rs" and "r \<in> set rs"
  shows "\<exists>k grp. resolve_relationship_group A mapping k grp = Inr (Some r)"
proof (cases "bindR (group_relationships_by_tuple data []) (resolve_relationship_groups A mapping)")
  case (Inl e)
  with assms show ?thesis
    by (auto simp: resolve_relationships_def with_fallback_def split: if_splits)
next
  case (Inr x)
  then obtain gs where "resolve_relationship_groups A mapping gs = Inr rs"
    using assms(1) by (auto simp: resolve_relationships_def with_fallback_def bindR_eq_Inr)
  from resolve_groups_result [OF this assms(2)] show ?thesis by blast
qed


section \<open>Keys\<close>

lemma set_dropWhile_keeps: "x \<in> set xs \<Longrightarrow> \<not> P x \<Longrightarrow> x \<in> set (dropWhile P xs)"
  by (induction xs) auto

lemma lower_char_colon: "lower_char c = CHR '':'' \<longleftrightarrow> c = CHR '':''"
proof
  assume h: "lower_char c = CHR '':''"
  show "c = CHR '':''"
  proof (cases "65 \<le> (of_char c :: nat) \<and> (of_char c :: nat) \<le> 90")
    case True
    then have "(of_char (lower_char c) :: nat) = of_char c + 32" by (simp add: lower_char_def Let_def)
    with h True show ?thesis by simp
  qed (use h in \<open>auto simp: lower_char_def Let_def\<close>)
qed (simp add: lower_char_def)

text \<open>\<open>name.lower().strip()\<close>: neither adds nor removes a colon.\<close>

definition normal_name :: "string \<Rightarrow> string" where
  "normal_name s = str_strip (str_lower s)"

lemma colon_normal_name: "CHR '':'' \<in> set (normal_name s) \<longleftrightarrow> CHR '':'' \<in> set s"
proof -
  have strip: "CHR '':'' \<in> set (str_strip u) \<longleftrightarrow> CHR '':'' \<in> set u" for u
  proof
    assume "CHR '':'' \<in> set u"
    then have "CHR '':'' \<in> set (rev (dropWhile is_space u))"
      using set_dropWhile_keeps [of "CHR '':''" u is_space] by (simp add: is_space_def)
    then show "CHR '':'' \<in> set (str_strip u)"
      using set_dropWhile_keeps [of "CHR '':''" _ is_space] by (simp add: str_strip_def is_space_def)
  next
    assume "CHR '':'' \<in> set (str_strip u)"
    then have "CHR '':'' \<in> set (dropWhile is_space u)"
      unfolding str_strip_def set_rev using set_dropWhileD by fastforce
    then show "CHR '':'' \<in> set u" using set_dropWhileD by fastforce
  qed
  have "CHR '':'' \<in> set (str_lower s) \<longleftrightarrow> CHR '':'' \<in> set s"
    by (induction s) (auto simp: str_lower_def lower_char_colon eq_commute [of "CHR '':''"])
  with strip show ?thesis by (simp add: normal_name_def)
qed

text \<open>The names of a relationship, and what taking its key apart should give.\<close>

definition named :: "rel_instance \<Rightarrow> string \<Rightarrow> string \<Rightarrow> string \<Rightarrow> bool" where
  "named r s t p \<longleftrightarrow> ri_source r = Some (Some s) \<and> ri_target r = Some (Some t) \<and> ri_relation r = Some p"

definition parts_of :: "string \<Rightarrow> string \<Rightarrow> string \<Rightarrow> (string \<times> string \<times> string) res" where
  "parts_of s t p =
     (if CHR '':'' \<in> set (s @ t @ p) then Inl (Exn ''ValueError'' ''too many values to unpack (expected 3)'')
      else Inr (normal_name s, normal_name t, normal_name p))"

lemma relationship_key_named:
  "relationship_key r = Inr k \<longleftrightarrow>
     (\<exists>s t p. named r s t p \<and> k = normal_name s @ '':'' @ normal_name t @ '':'' @ normal_name p)"
  by (auto simp: relationship_key_def named_def normal_name_def bindR_eq_Inr need_def split: option.splits)

lemma split_key_named:
  "split_key (normal_name s @ '':'' @ normal_name t @ '':'' @ normal_name p) = parts_of s t p"
proof (cases "CHR '':'' \<in> set (s @ t @ p)")
  case True
  then have "filter (\<lambda>c. c = CHR '':'') (normal_name s) \<noteq> [] \<or> filter (\<lambda>c. c = CHR '':'') (normal_name t) \<noteq> []
      \<or> filter (\<lambda>c. c = CHR '':'') (normal_name p) \<noteq> []"
    using colon_normal_name by (auto simp: filter_empty_conv)
  then have "2 < length (filter (\<lambda>c. c = CHR '':'') (normal_name s @ '':'' @ normal_name t @ '':'' @ normal_name p))"
    by (auto simp: length_greater_0_conv [symmetric] simp del: length_greater_0_conv)
  from split_key_colons [OF this] True show ?thesis by (simp add: parts_of_def)
next
  case False
  then show ?thesis
    using split_key_of_parts [of "normal_name s" "normal_name t" "normal_name p"] colon_normal_name
    by (simp add: parts_of_def)
qed

text \<open>Every group holds relationships with its key, and every relationship is in the group of its key.\<close>

definition keyed :: "(string \<times> rel_instance list) list \<Rightarrow> bool" where
  "keyed g \<longleftrightarrow> (\<forall>(k, grp) \<in> set g. grp \<noteq> [] \<and> (\<forall>r \<in> set grp. relationship_key r = Inr k))"

definition in_group :: "(string \<times> rel_instance list) list \<Rightarrow> rel_instance \<Rightarrow> bool" where
  "in_group g r \<longleftrightarrow> (\<exists>k grp. map_of g k = Some grp \<and> r \<in> set grp)"

lemma relationship_key_chunk [simp]: "relationship_key (r\<lparr>ri_source_chunk := c\<rparr>) = relationship_key r"
  by (simp add: relationship_key_def)

lemma keyed_dd_append:
  assumes "keyed g" and "relationship_key r = Inr k"
  shows "keyed (dd_append k r g)"
  unfolding keyed_def
proof
  fix x assume "x \<in> set (dd_append k r g)"
  then consider "x \<in> set g" | "x = (k, (case map_of g k of None \<Rightarrow> [] | Some xs \<Rightarrow> xs) @ [r])"
    using set_update_subset [of k _ g] by (auto simp: dd_append_def)
  then show "case x of (k, grp) \<Rightarrow> grp \<noteq> [] \<and> (\<forall>r \<in> set grp. relationship_key r = Inr k)"
  proof cases
    case 2
    with assms show ?thesis by (fastforce simp: keyed_def dest: map_of_SomeD split: option.splits)
  qed (use assms(1) in \<open>auto simp: keyed_def\<close>)
qed

lemma in_group_dd_append: "in_group g r \<or> r = x \<Longrightarrow> in_group (dd_append k x g) r"
proof (elim disjE)
  assume "in_group g r"
  then obtain q grp where q: "map_of g q = Some grp" "r \<in> set grp" by (auto simp: in_group_def)
  show ?thesis unfolding in_group_def
    by (rule exI [of _ q]) (use q in \<open>auto simp: map_of_dd_append\<close>)
next
  assume "r = x"
  then show ?thesis unfolding in_group_def
    by (intro exI [of _ k]) (simp add: map_of_dd_append)
qed

lemma group_relationships_keyed:
  "group_relationships_of c rs g = Inr g' \<Longrightarrow> keyed g \<Longrightarrow>
     keyed g' \<and> (\<forall>r. in_group g r \<longrightarrow> in_group g' r) \<and> (\<forall>r \<in> set rs. in_group g' (r\<lparr>ri_source_chunk := c\<rparr>))"
proof (induction c rs g arbitrary: g' rule: group_relationships_of.induct)
  case (2 c r rs g)
  obtain k where k: "relationship_key r = Inr k"
    and rest: "group_relationships_of c rs (dd_append k (r\<lparr>ri_source_chunk := c\<rparr>) g) = Inr g'"
    using "2.prems"(1) by (auto simp: bindR_eq_Inr)
  have "keyed (dd_append k (r\<lparr>ri_source_chunk := c\<rparr>) g)" using keyed_dd_append "2.prems"(2) k by simp
  from "2.IH" [OF rest this] in_group_dd_append show ?case by auto
qed simp

lemma group_all_keyed:
  "group_relationships_by_tuple data g = Inr g' \<Longrightarrow> keyed g \<Longrightarrow>
     keyed g' \<and> (\<forall>r. in_group g r \<longrightarrow> in_group g' r)
     \<and> (\<forall>x \<in> set data. \<forall>rs. rx_relationships x = Some rs \<longrightarrow>
          (\<forall>r \<in> set rs. in_group g' (r\<lparr>ri_source_chunk := (case rx_chunk_id x of None \<Rightarrow> ''unknown'' | Some c \<Rightarrow> c)\<rparr>)))"
proof (induction data arbitrary: g)
  case (Cons x data)
  show ?case
  proof (cases "rx_relationships x")
    case None
    with Cons.prems Cons.IH [of g] show ?thesis by simp
  next
    case (Some rs)
    let ?c = "case rx_chunk_id x of None \<Rightarrow> ''unknown'' | Some c \<Rightarrow> c"
    obtain h where h: "group_relationships_of ?c rs g = Inr h" "group_relationships_by_tuple data h = Inr g'"
      using Cons.prems(1) Some by (auto simp: bindR_eq_Inr)
    note one = group_relationships_keyed [OF h(1) Cons.prems(2)]
    with Cons.IH [OF h(2)] Some show ?thesis by auto
  qed
qed simp

text \<open>C14: The groups of the extracted relationships are read back: taking the key of a group apart
  gives the normal forms of the source, the target and the predicate of every relationship in it,
  or raises for all of them when a name has a colon in it (their group is then dropped); and every
  extracted relationship, with its chunk noted, is in one of the groups.\<close>

theorem relationship_groups_read_back:
  assumes "group_relationships_by_tuple data [] = Inr gs"
  shows "(\<forall>(k, grp) \<in> set gs. grp \<noteq> [] \<and> (\<forall>r \<in> set grp. \<exists>s t p. named r s t p \<and> split_key k = parts_of s t p))
    \<and> (\<forall>x \<in> set data. \<forall>rs. rx_relationships x = Some rs \<longrightarrow>
         (\<forall>r \<in> set rs. in_group gs (r\<lparr>ri_source_chunk := (case rx_chunk_id x of None \<Rightarrow> ''unknown'' | Some c \<Rightarrow> c)\<rparr>)))"
proof -
  have "keyed []" by (simp add: keyed_def)
  note all = group_all_keyed [OF assms this]
  have "\<exists>s t p. named r s t p \<and> split_key k = parts_of s t p" if "(k, grp) \<in> set gs" "r \<in> set grp" for k grp r
  proof -
    have "relationship_key r = Inr k" using all that by (auto simp: keyed_def)
    then obtain s t p where n: "named r s t p" and k: "k = normal_name s @ '':'' @ normal_name t @ '':'' @ normal_name p"
      using relationship_key_named by blast
    show ?thesis unfolding k split_key_named using n by blast
  qed
  moreover have "grp \<noteq> []" if "(k, grp) \<in> set gs" for k grp using all that by (auto simp: keyed_def)
  ultimately show ?thesis using all by blast
qed

definition demo_relationship :: "string \<Rightarrow> rel_instance" where
  "demo_relationship s = \<lparr> ri_source = Some (Some s), ri_target = Some (Some ''Python ''), ri_relation = Some ''uses'',
     ri_description = None, ri_confidence = None, ri_source_chunk = [] \<rparr>"

lemma relationship_groups_read_back_witness:
  "\<exists>s t p. named (demo_relationship '' Alice'') s t p \<and> split_key ''alice:python:uses'' = parts_of s t p
     \<and> parts_of s t p = Inr (''alice'', ''python'', ''uses'')"
proof -
  let ?data = "[\<lparr> rx_relationships = Some [demo_relationship '' Alice''], rx_chunk_id = Some [] \<rparr>]"
  have run: "group_relationships_by_tuple ?data [] = Inr [(''alice:python:uses'', [demo_relationship '' Alice''])]"
    by code_simp
  from relationship_groups_read_back [OF run] obtain s t p where
    n: "named (demo_relationship '' Alice'') s t p" and k: "split_key ''alice:python:uses'' = parts_of s t p" by auto
  have "parts_of '' Alice'' ''Python '' ''uses'' = Inr (''alice'', ''python'', ''uses'')" by code_simp
  moreover have "s = '' Alice'' \<and> t = ''Python '' \<and> p = ''uses''" using n by (auto simp: named_def demo_relationship_def)
  ultimately show ?thesis using n k by (intro exI [of _ s] exI [of _ t] exI [of _ p]) simp
qed

section \<open>Where names lead astray\<close>

text \<open>An alias of a later entity hides the canonical name of an earlier one.\<close>

lemma later_alias_wins:
  "map_of (entity_name_to_id_mapping
     [\<lparr> nd_id = ''a'', nd_canonical = Some ''Java'', nd_name = None, nd_aliases = None \<rparr>,
      \<lparr> nd_id = ''b'', nd_canonical = Some ''Java Island'', nd_name = None, nd_aliases = Some [''java''] \<rparr>])
     ''java'' = Some ''b''"
  by code_simp

text \<open>Without a mapping, or with an empty one, an identifier is computed from the name alone;
  those of the entities are computed from name and type, so for a collision-free hash they
  never agree.\<close>

theorem untyped_identifier_differs:
  assumes "inj (ra_md5 A)" and "m = None \<or> m = Some []"
  shows "lookup_entity_id A nm m \<noteq> Some (generate_entity_id (ra_md5 A) nm (Some t))"
proof
  assume "lookup_entity_id A nm m = Some (generate_entity_id (ra_md5 A) nm (Some t))"
  then have "generate_entity_id (ra_md5 A) (str_strip (str_lower nm)) None =
    generate_entity_id (ra_md5 A) nm (Some t)"
    using assms(2) by (auto simp: lookup_entity_id_def Let_def)
  then have "str_strip (str_lower (str_strip (str_lower nm))) = str_strip (str_lower nm) @ ''|'' @ type_value t"
    using assms(1) by (simp add: generate_entity_id_def Let_def inj_eq)
  then have "length (str_strip (str_lower nm)) < length (str_strip (str_lower (str_strip (str_lower nm))))"
    by simp
  moreover have "length (str_strip s) \<le> length s" for s
    unfolding str_strip_def by (metis length_dropWhile_le length_rev order_trans)
  ultimately show False
    by (metis length_str_lower not_less)
qed

end
