(* ===== verification/Stage_Run.thy ===== *)
theory Stage_Run
  imports Text
begin

text \<open>
  \<open>core/base/stage.py\<close>: how every stage runs over its documents, one after the other or in
  batches on a thread pool with token tracking.

  The methods a stage overrides are the record \<open>stage_methods\<close>; they work on a state of any type
  together with the statistics of the stage. The work of one document is one step; a schedule
  gives the order in which the workers of a batch finish. Durations, log lines and the request
  limiter (theory \<open>Rate_Limiter\<close>), which only delays, are left out.
\<close>

section \<open>State\<close>

record stage_statistics =
  processed :: nat
  skipped :: nat
  failed :: nat
  updated :: nat

record counters =
  stage_started :: nat
  stage_completed :: nat
  stage_failed :: nat
  documents_processed :: nat
  documents_failed :: nat

type_synonym token_window = "(rat \<times> int) list"

record 's stage_state =
  world :: 's
  stats :: stage_statistics
  counts :: counters
  window :: token_window

definition on_world :: "('s \<times> stage_statistics, 'a) act \<Rightarrow> ('s stage_state, 'a) act" where
  "on_world f = (\<lambda>t. case f (world t, stats t) of (r, (w, st)) \<Rightarrow> (r, t\<lparr>world := w, stats := st\<rparr>))"

definition count_stat :: "(stage_statistics \<Rightarrow> stage_statistics) \<Rightarrow> ('s stage_state, unit) act" where
  "count_stat f = modifyA (\<lambda>t. t\<lparr>stats := f (stats t)\<rparr>)"

definition count_metric :: "(counters \<Rightarrow> counters) \<Rightarrow> ('s stage_state, unit) act" where
  "count_metric f = modifyA (\<lambda>t. t\<lparr>counts := f (counts t)\<rparr>)"

record ('s, 'd) stage_methods =
  m_setup :: "('s \<times> stage_statistics, unit) act"
  m_iter_docs :: "('s \<times> stage_statistics, 'd list) act"
  m_handle_doc :: "'d \<Rightarrow> ('s \<times> stage_statistics, pyval) act"
  m_process_doc_with_tracking :: "'d \<Rightarrow> ('s \<times> stage_statistics, pyval) act"
  m_estimate_tokens :: "'d \<Rightarrow> int res"
  m_store_batch_results :: "pyval list \<Rightarrow> 'd list \<Rightarrow> ('s \<times> stage_statistics, unit) act"
  m_finalize :: "('s \<times> stage_statistics, unit) act"
  m_run_concurrent :: "('d list \<Rightarrow> ('s \<times> stage_statistics, int) act) option"

text \<open>
  The configuration, the environment, and the schedule: when the workers take the lock and
  finish, and in which order the documents of each batch complete.
\<close>

record 'd run_setting =
  r_max :: "int option"
  r_concurrency :: "int option"
  r_use_tpm_tracking :: bool
  r_target_tpm :: int
  r_start_time :: "'d \<Rightarrow> rat"
  r_end_time :: "'d \<Rightarrow> rat"
  r_order :: "nat \<Rightarrow> nat list"

section \<open>Token tracking\<close>

definition window_tokens :: "token_window \<Rightarrow> int" where
  "window_tokens w = sum_list (map snd w)"

text \<open>The new window and the time slept while the lock is held.\<close>

definition wait_for_tpm_capacity :: "int \<Rightarrow> rat \<Rightarrow> int \<Rightarrow> token_window \<Rightarrow> token_window \<times> rat" where
  "wait_for_tpm_capacity target_tpm now estimated w =
     (let recent = filter (\<lambda>(ts, tok). now - 60 < ts) w
      in (recent @ [(now, estimated)],
          if of_int target_tpm * (12 / 10) < (of_int (window_tokens recent) :: rat) then 5 / 100 else 0))"

section \<open>Concurrent processing\<close>

definition process_with_tracking ::
  "('s, 'd) stage_methods \<Rightarrow> 'd run_setting \<Rightarrow> 'd \<Rightarrow> ('s stage_state, pyval) act" where
  "process_with_tracking M R d =
     tryA (bindA (liftR (m_estimate_tokens M d)) (\<lambda>est.
             seqA (modifyA (\<lambda>t. t\<lparr>window := fst (wait_for_tpm_capacity (r_target_tpm R) (r_start_time R d) est (window t))\<rparr>))
               (bindA (on_world (m_process_doc_with_tracking M d)) (\<lambda>result.
                 seqA (modifyA (\<lambda>t. t\<lparr>window := window t @ [(r_end_time R d, est)]\<rparr>)) (ret result)))))
          (\<lambda>e. seqA (count_stat (\<lambda>st. st\<lparr>failed := Suc (failed st)\<rparr>)) (ret PNone))"

text \<open>The workers of a batch, in the order of completion, fill the dictionary of results.\<close>

fun run_workers :: "('s, 'd) stage_methods \<Rightarrow> 'd run_setting \<Rightarrow> 'd list \<Rightarrow> nat list
    \<Rightarrow> (nat \<times> pyval) list \<Rightarrow> ('s stage_state, (nat \<times> pyval) list) act" where
  "run_workers M R docs [] results = ret results"
| "run_workers M R docs (i # is) results =
     bindA (process_with_tracking M R (docs ! i)) (\<lambda>r.
       run_workers M R docs is (AList.update i r results))"

definition in_order :: "nat \<Rightarrow> (nat \<times> pyval) list \<Rightarrow> pyval list" where
  "in_order n results = map (\<lambda>i. the (map_of results i)) [0..<n]"

function run_batches :: "('s, 'd) stage_methods \<Rightarrow> 'd run_setting \<Rightarrow> nat \<Rightarrow> nat \<Rightarrow> 'd list
    \<Rightarrow> ('s stage_state, unit) act" where
  "run_batches M R bs num docs =
     (if docs = [] \<or> bs = 0 then ret ()
      else bindA (run_workers M R (take bs docs) (r_order R num) []) (\<lambda>results.
        seqA (on_world (m_store_batch_results M (in_order (length (take bs docs)) results) (take bs docs)))
          (run_batches M R bs (Suc num) (drop bs docs))))"
  by pat_completeness auto
termination
  by (relation "measure (\<lambda>(M, R, bs, num, docs). length docs)") auto

declare run_batches.simps [simp del]

definition concurrency_of :: "'d run_setting \<Rightarrow> int" where
  "concurrency_of R = (case r_concurrency R of None \<Rightarrow> 300 | Some c \<Rightarrow> if c = 0 then 300 else c)"

definition batch_size :: "'d run_setting \<Rightarrow> nat" where
  "batch_size R = nat (min (concurrency_of R * 2) 1000)"

definition run_concurrent_with_tpm ::
  "('s, 'd) stage_methods \<Rightarrow> 'd run_setting \<Rightarrow> 'd list \<Rightarrow> ('s stage_state, int) act" where
  "run_concurrent_with_tpm M R docs =
     tryA (seqA (run_batches M R (batch_size R) 0 docs) (ret 0)) (\<lambda>e. ret 1)"

section \<open>The run\<close>

fun run_sequential :: "('s, 'd) stage_methods \<Rightarrow> int option \<Rightarrow> int \<Rightarrow> 'd list \<Rightarrow> ('s stage_state, unit) act" where
  "run_sequential M mx i [] = ret ()"
| "run_sequential M mx i (d # ds) =
     (if (case mx of None \<Rightarrow> False | Some m \<Rightarrow> m \<noteq> 0 \<and> m \<le> i) then ret ()
      else seqA
        (tryA (seqA (bindA (on_world (m_handle_doc M d)) (\<lambda>_. ret ()))
                (seqA (count_stat (\<lambda>st. st\<lparr>processed := Suc (processed st)\<rparr>))
                   (count_metric (\<lambda>c. c\<lparr>documents_processed := Suc (documents_processed c)\<rparr>))))
              (\<lambda>e. seqA (count_stat (\<lambda>st. st\<lparr>failed := Suc (failed st)\<rparr>))
                   (count_metric (\<lambda>c. c\<lparr>documents_failed := Suc (documents_failed c)\<rparr>))))
        (run_sequential M mx (i + 1) ds))"

definition use_concurrent :: "'d run_setting \<Rightarrow> bool" where
  "use_concurrent R = (case r_concurrency R of None \<Rightarrow> False | Some c \<Rightarrow> 1 < c)"

definition run_docs :: "('s, 'd) stage_methods \<Rightarrow> 'd run_setting \<Rightarrow> 'd list \<Rightarrow> ('s stage_state, int) act" where
  "run_docs M R docs =
     (if docs = [] then ret 0
      else if use_concurrent R \<and> r_use_tpm_tracking R then run_concurrent_with_tpm M R docs
      else if use_concurrent R
      then (case m_run_concurrent M of
              Some f \<Rightarrow> on_world (f docs)
            | None \<Rightarrow> run_concurrent_with_tpm M R docs)
      else seqA (run_sequential M (r_max R) 0 docs)
             (seqA (on_world (m_finalize M))
               (seqA (count_metric (\<lambda>c. c\<lparr>stage_completed := Suc (stage_completed c)\<rparr>)) (ret 0))))"

definition stage_run :: "('s, 'd) stage_methods \<Rightarrow> 'd run_setting \<Rightarrow> ('s stage_state, int) act" where
  "stage_run M R =
     seqA (count_metric (\<lambda>c. c\<lparr>stage_started := Suc (stage_started c)\<rparr>))
       (tryA (seqA (on_world (m_setup M))
                (bindA (on_world (m_iter_docs M)) (\<lambda>all.
                   run_docs M R (case r_max R of None \<Rightarrow> all | Some m \<Rightarrow> slice_to m all))))
             (\<lambda>e. seqA (count_metric (\<lambda>c. c\<lparr>stage_failed := Suc (stage_failed c)\<rparr>)) (ret 1)))"

section \<open>Concurrent helpers\<close>

text \<open>
  \<open>lib/concurrency/executor.py\<close>: \<open>run_concurrent_map\<close> submits every item and collects the
  results in the order of submission; \<open>results\<close> is what the workers return or raise.
\<close>

fun collect_results :: "('a \<Rightarrow> 'b res) \<Rightarrow> (exn \<Rightarrow> 'a \<Rightarrow> 'b res) option \<Rightarrow> 'a list \<Rightarrow> 'b list res" where
  "collect_results worker on_error [] = Inr []"
| "collect_results worker on_error (x # xs) =
     bindR (case worker x of
              Inr r \<Rightarrow> Inr r
            | Inl e \<Rightarrow> if is_Exception e
                       then (case on_error of None \<Rightarrow> Inl e | Some h \<Rightarrow> h e x) else Inl e) (\<lambda>r.
     bindR (collect_results worker on_error xs) (\<lambda>rs. Inr (r # rs)))"

definition run_concurrent_map ::
  "('a \<Rightarrow> 'b res) \<Rightarrow> (exn \<Rightarrow> 'a \<Rightarrow> 'b res) option \<Rightarrow> bool \<Rightarrow> 'a list \<Rightarrow> 'b list res" where
  "run_concurrent_map worker on_error preserve_order items =
     bindR (collect_results worker on_error items) (\<lambda>rs.
       Inr (map snd (if preserve_order then sort_key fst (enumerate 0 rs) else enumerate 0 rs)))"

definition run_concurrent_with_limit :: "('a \<Rightarrow> 'b res) \<Rightarrow> 'a list \<Rightarrow> 'b list res" where
  "run_concurrent_with_limit func items = run_concurrent_map func None True items"

text \<open>
  The worker of \<open>run_llm_concurrent\<close>: the calls of the agent for one chunk are a list of
  outcomes; the waits are the backoff times without jitter and throttling.
\<close>

fun llm_worker :: "int \<Rightarrow> rat \<Rightarrow> (exn \<Rightarrow> 'b res) option \<Rightarrow> nat \<Rightarrow> 'b res list \<Rightarrow> ('b res \<times> rat list) option" where
  "llm_worker retries backoff on_error attempt [] = None"
| "llm_worker retries backoff on_error attempt (o1 # os) =
     (case o1 of
        Inr r \<Rightarrow> Some (Inr r, [])
      | Inl e \<Rightarrow>
          if \<not> is_Exception e then Some (Inl e, [])
          else if max 0 retries < int (Suc attempt)
          then Some ((case on_error of Some h \<Rightarrow> h e | None \<Rightarrow> Inl e), [])
          else map_option (\<lambda>(r, ws). (r, backoff * 2 ^ attempt # ws))
                 (llm_worker retries backoff on_error (Suc attempt) os))"

end
