(* ===== verification/Graph_Construction.thy ===== *)
theory Graph_Construction
  imports Relationship_Facts Stage_Run Entity_Store
begin

text \<open>
  \<open>domain/graphrag/stages/graph_construction.py\<close>: the relationships of a chunk are stored, and
  the final step adds derived relationships until the graph is dense.

  The database operations of one chunk are the parameter \<open>rel_db\<close>. The steps of the final pass
  read collections and write once, at their end, through \<open>batch_insert\<close>: a step is modelled as
  the function from what it reads (the documents of the collections, a set as a list without
  repetitions in the order of iteration) to the documents it inserts and its counts. The
  embeddings and the link prediction agent's graph library are parameters; the embedding of
  new entities, the logging services, the aggregation behind the metrics and the clean-up
  queries are not modelled.
\<close>

section \<open>Stored relationships\<close>

record attribution =
  at_stage :: string
  at_algorithm :: string
  at_version :: string
  at_params :: "(string \<times> string) list"
  at_created :: rat

definition build_attribution :: "string \<Rightarrow> string \<Rightarrow> (string \<times> string) list \<Rightarrow> rat \<Rightarrow> attribution" where
  "build_attribution stage algorithm params now =
     \<lparr> at_stage = stage, at_algorithm = algorithm, at_version = ''1.0'', at_params = params,
       at_created = now \<rparr>"

record rel_doc =
  rd_id :: string
  rd_subject :: string
  rd_object :: string
  rd_predicate :: string
  rd_description :: string
  rd_confidence :: real
  rd_source_count :: int
  rd_source_chunks :: "string list"
  rd_type :: string
  rd_attribution :: attribution

text \<open>The update of a stored relationship: the chunk, and what changes with it.\<close>

record rel_update =
  ru_add_chunk :: string
  ru_inc :: "int option"
  ru_confidence :: "real option"
  ru_description :: "string option"
  ru_updated_at :: rat

datatype construction_status =
    Construction_Completed nat nat nat rat
  | Construction_Failed string rat

record 's rel_db =
  rel_find_one :: "string \<Rightarrow> ('s, rel_doc option) act"
  rel_update_one :: "string \<Rightarrow> rel_update \<Rightarrow> ('s, unit) act"
  rel_insert_one :: "rel_doc \<Rightarrow> ('s, unit) act"
  find_by_object_id :: "string \<Rightarrow> ('s, rel_doc option) act"
  entity_names :: "('s, name_doc list) act"
  entity_ids :: "('s, string list) act"
  construction_completed :: "string \<Rightarrow> string \<Rightarrow> ('s, bool) act"
  update_construction :: "string \<Rightarrow> string \<Rightarrow> construction_status \<Rightarrow> ('s, unit) act"

definition relationship_update :: "rel_doc \<Rightarrow> resolved_relationship \<Rightarrow> string \<Rightarrow> rat \<Rightarrow> rel_update" where
  "relationship_update old r chunk now =
     \<lparr> ru_add_chunk = chunk,
       ru_inc = (if chunk \<notin> set (rd_source_chunks old) then Some 1 else None),
       ru_confidence = (if rd_confidence old < rr_confidence r then Some (rr_confidence r) else None),
       ru_description = (if length (rd_description old) < length (rr_description r)
                         then Some (rr_description r) else None),
       ru_updated_at = now \<rparr>"

definition new_relationship :: "resolved_relationship \<Rightarrow> string \<Rightarrow> string \<Rightarrow> rat \<Rightarrow> rel_doc" where
  "new_relationship r chunk video now =
     \<lparr> rd_id = rr_id r, rd_subject = rr_subject r, rd_object = rr_object r,
       rd_predicate = rr_predicate r, rd_description = rr_description r,
       rd_confidence = rr_confidence r, rd_source_count = 1, rd_source_chunks = [chunk],
       rd_type = ''extracted'',
       rd_attribution = build_attribution ''graph_construction'' ''extraction''
         [(''chunk_id'', chunk), (''video_id'', video)] now \<rparr>"

definition store_relationship :: "'s rel_db \<Rightarrow> rat \<Rightarrow> string \<Rightarrow> string \<Rightarrow> resolved_relationship \<Rightarrow> ('s, unit) act" where
  "store_relationship D now chunk video r =
     bindA (rel_find_one D (rr_id r)) (\<lambda>old.
       case old of
         Some d \<Rightarrow> rel_update_one D (rr_id r) (relationship_update d r chunk now)
       | None \<Rightarrow> rel_insert_one D (new_relationship r chunk video now))"

fun store_relationships :: "'s rel_db \<Rightarrow> rat \<Rightarrow> string \<Rightarrow> string \<Rightarrow> resolved_relationship list \<Rightarrow> ('s, string list) act" where
  "store_relationships D now chunk video [] = ret []"
| "store_relationships D now chunk video (r # rs) =
     bindA (tryA (seqA (store_relationship D now chunk video r) (ret [rr_id r])) (\<lambda>e. ret [])) (\<lambda>ids.
     bindA (store_relationships D now chunk video rs) (\<lambda>more. ret (ids @ more)))"

text \<open>
  The reading back of the stored relationships for the intermediate data:
  \<open>find_one({"_id": rel_id})\<close>, a lookup by MongoDB's own identifier.
\<close>

fun final_relationships :: "'s rel_db \<Rightarrow> string list \<Rightarrow> ('s, rel_doc list) act" where
  "final_relationships D [] = ret []"
| "final_relationships D (i # is) =
     bindA (find_by_object_id D i) (\<lambda>d.
     bindA (final_relationships D is) (\<lambda>ds. ret ((case d of None \<Rightarrow> [] | Some x \<Rightarrow> [x]) @ ds)))"

section \<open>One chunk\<close>

record rel_chunk =
  rc_chunk_id :: string
  rc_video_id :: string
  rc_extraction :: rel_extraction

definition mark_construction_failed ::
  "'s rel_db \<Rightarrow> rat \<Rightarrow> rel_chunk \<Rightarrow> string \<Rightarrow> ('s staged, bool) act" where
  "mark_construction_failed D now doc msg =
     seqA (on_db (update_construction D (rc_video_id doc) (rc_chunk_id doc) (Construction_Failed msg now)))
       (seqA (on_stats (\<lambda>st. st\<lparr>n_failed := Suc (n_failed st)\<rparr>)) (ret False))"

definition construct_chunk ::
  "'s rel_db \<Rightarrow> rel_agent \<Rightarrow> bool \<Rightarrow> rat \<Rightarrow> rel_chunk \<Rightarrow> ('s staged, bool) act" where
  "construct_chunk D A upsert_existing now doc =
     (if rx_relationships (rc_extraction doc) = None
      then mark_construction_failed D now doc ''no_extraction_data''
      else bindA (on_db (entity_names D)) (\<lambda>names.
        bindA (liftR (resolve_relationships A [rc_extraction doc]
                        (Some (entity_name_to_id_mapping names)))) (\<lambda>resolved.
          if resolved = [] then mark_construction_failed D now doc ''no_relationships_resolved''
          else bindA (on_db (entity_ids D)) (\<lambda>ids.
            let validated = validate_entity_existence resolved ids
            in if validated = [] then mark_construction_failed D now doc ''no_validated_relationships''
               else bindA (on_db (store_relationships D now (rc_chunk_id doc) (rc_video_id doc) validated)) (\<lambda>stored.
                 seqA (on_db (final_relationships D stored))
                   (bindA (if upsert_existing then ret False
                           else on_db (construction_completed D (rc_video_id doc) (rc_chunk_id doc))) (\<lambda>already.
                     if already
                     then seqA (on_stats (\<lambda>st. st\<lparr>n_skipped := Suc (n_skipped st)\<rparr>)) (ret True)
                     else seqA (on_db (update_construction D (rc_video_id doc) (rc_chunk_id doc)
                                  (Construction_Completed (length resolved) (length validated)
                                     (length stored) now)))
                            (seqA (on_stats (\<lambda>st. st\<lparr>n_updated := Suc (n_updated st)\<rparr>)) (ret True)))))))))"

definition handle_relationships ::
  "'s rel_db \<Rightarrow> rel_agent \<Rightarrow> bool \<Rightarrow> rat \<Rightarrow> rel_chunk \<Rightarrow> ('s staged, bool) act" where
  "handle_relationships D A upsert_existing now doc =
     tryA (tryA (construct_chunk D A upsert_existing now doc)
                (\<lambda>e. mark_construction_failed D now doc (exn_msg e)))
          (\<lambda>e. ret False)"

definition estimate_construction_tokens :: "rel_chunk \<Rightarrow> nat" where
  "estimate_construction_tokens doc =
     max (length (case rx_relationships (rc_extraction doc) of None \<Rightarrow> [] | Some rs \<Rightarrow> rs) * 300 + 600) 100"

section \<open>Co-occurrence\<close>

type_synonym groups = "(string \<times> string list) list"

text \<open>\<open>chunk_entities[chunk_id].add(entity_id)\<close> over the mentions.\<close>

definition add_entity :: "string \<Rightarrow> string \<Rightarrow> groups \<Rightarrow> groups" where
  "add_entity c e g =
     (let es = (case map_of g c of None \<Rightarrow> [] | Some es \<Rightarrow> es)
      in AList.update c (if e \<in> set es then es else es @ [e]) g)"

definition group_mentions :: "mention list \<Rightarrow> groups" where
  "group_mentions ms =
     fold (\<lambda>m g. if m_chunk_id m \<noteq> [] \<and> m_entity_id m \<noteq> [] then add_entity (m_chunk_id m) (m_entity_id m) g
                 else g) ms []"

definition exists_relation :: "rel_doc list \<Rightarrow> string \<Rightarrow> string \<Rightarrow> string \<Rightarrow> bool" where
  "exists_relation rels s ob p =
     list_ex (\<lambda>r. rd_subject r = s \<and> rd_object r = ob \<and> rd_predicate r = p) rels"

definition entity_degree :: "rel_doc list \<Rightarrow> string \<Rightarrow> string option \<Rightarrow> nat" where
  "entity_degree rels e rtype =
     length (filter (\<lambda>r. (rd_subject r = e \<or> rd_object r = e)
       \<and> (case rtype of None \<Rightarrow> True | Some t \<Rightarrow> rd_type r = t)) rels)"

fun pairs :: "'a list \<Rightarrow> ('a \<times> 'a) list" where
  "pairs [] = []"
| "pairs (x # xs) = map (\<lambda>y. (x, y)) xs @ pairs xs"

record plan =
  pl_docs :: "rel_doc list"
  pl_skipped :: nat
  pl_capped :: nat

definition empty_plan :: plan where
  "empty_plan = \<lparr> pl_docs = [], pl_skipped = 0, pl_capped = 0 \<rparr>"

definition co_occurrence_doc :: "(string \<Rightarrow> string) \<Rightarrow> rat \<Rightarrow> string \<Rightarrow> string \<Rightarrow> string \<Rightarrow> rel_doc" where
  "co_occurrence_doc md5hex now chunk e1 e2 =
     \<lparr> rd_id = generate_relationship_id md5hex e1 e2 ''co_occurs_with'', rd_subject = e1, rd_object = e2,
       rd_predicate = ''co_occurs_with'',
       rd_description = ''These entities appear together in chunk '' @ chunk, rd_confidence = 0.7,
       rd_source_count = 1, rd_source_chunks = [chunk], rd_type = ''co_occurrence'',
       rd_attribution = build_attribution ''graph_construction'' ''co_occurrence'' [(''chunk_id'', chunk)] now \<rparr>"

definition plan_pair :: "(string \<Rightarrow> string) \<Rightarrow> rat \<Rightarrow> int \<Rightarrow> rel_doc list \<Rightarrow> string \<Rightarrow> string \<times> string \<Rightarrow> plan \<Rightarrow> plan" where
  "plan_pair md5hex now cap rels chunk = (\<lambda>(e1, e2) pl.
     if exists_relation rels e1 e2 ''co_occurs_with'' then pl\<lparr>pl_skipped := Suc (pl_skipped pl)\<rparr>
     else if cap \<le> int (entity_degree rels e1 (Some ''co_occurrence''))
           \<or> cap \<le> int (entity_degree rels e2 (Some ''co_occurrence''))
     then pl\<lparr>pl_capped := Suc (pl_capped pl)\<rparr>
     else pl\<lparr>pl_docs := pl_docs pl @ [co_occurrence_doc md5hex now chunk e1 e2]\<rparr>)"

definition co_occurrence_plan ::
  "(string \<Rightarrow> string) \<Rightarrow> rat \<Rightarrow> int \<Rightarrow> rel_doc list \<Rightarrow> groups \<Rightarrow> plan" where
  "co_occurrence_plan md5hex now cap rels chunk_entities =
     fold (\<lambda>(chunk, es) pl. if length es < 2 then pl
             else fold (plan_pair md5hex now cap rels chunk) (pairs es) pl)
       chunk_entities empty_plan"

section \<open>Semantic similarity\<close>

text \<open>An entity with its embedding and whether it is flagged as normalized; \<open>dot\<close> and \<open>vnorm\<close>
  are numpy's.\<close>

record embedded =
  em_id :: string
  em_vector :: "real list"
  em_normalized :: bool

definition similarity_of :: "(real list \<Rightarrow> real list \<Rightarrow> real) \<Rightarrow> (real list \<Rightarrow> real) \<Rightarrow> embedded \<Rightarrow> embedded \<Rightarrow> real" where
  "similarity_of dot vnorm a b =
     (if em_normalized a \<and> em_normalized b then dot (em_vector a) (em_vector b)
      else dot (em_vector a) (em_vector b) / (vnorm (em_vector a) * vnorm (em_vector b)))"

definition similarity_doc :: "(string \<Rightarrow> string) \<Rightarrow> (real \<Rightarrow> string) \<Rightarrow> rat \<Rightarrow> string \<Rightarrow> string \<Rightarrow> real \<Rightarrow> rel_doc" where
  "similarity_doc md5hex show_real now e1 e2 s =
     \<lparr> rd_id = generate_relationship_id md5hex e1 e2 ''semantically_similar_to'', rd_subject = e1,
       rd_object = e2, rd_predicate = ''semantically_similar_to'',
       rd_description = ''Entities are semantically similar (cosine similarity: '' @ show_real s @ '')'',
       rd_confidence = s, rd_source_count = 1, rd_source_chunks = [], rd_type = ''semantic_similarity'',
       rd_attribution = build_attribution ''graph_construction'' ''semantic_similarity''
         [(''similarity_score'', show_real s)] now \<rparr>"

text \<open>The cap on the edges of an entity is read from the environment and not used.\<close>

definition similarity_plan ::
  "(string \<Rightarrow> string) \<Rightarrow> (real \<Rightarrow> string) \<Rightarrow> (embedded \<Rightarrow> embedded \<Rightarrow> real) \<Rightarrow> rat \<Rightarrow> int \<Rightarrow> real
    \<Rightarrow> rel_doc list \<Rightarrow> embedded list \<Rightarrow> plan" where
  "similarity_plan md5hex show_real sim now max_sim_per_entity threshold rels entities =
     fold (\<lambda>(a, b) pl.
        if exists_relation rels (em_id a) (em_id b) ''semantically_similar_to''
        then pl\<lparr>pl_skipped := Suc (pl_skipped pl)\<rparr>
        else if threshold \<le> sim a b
        then pl\<lparr>pl_docs := pl_docs pl @ [similarity_doc md5hex show_real now (em_id a) (em_id b) (sim a b)]\<rparr>
        else pl) (pairs entities) empty_plan"

section \<open>Nearby chunks\<close>

definition type_patterns :: "((string \<times> string) \<times> string) list" where
  "type_patterns =
     [((''PERSON'', ''CONCEPT''), ''discusses''), ((''PERSON'', ''TECHNOLOGY''), ''uses''),
      ((''PERSON'', ''ORGANIZATION''), ''affiliated_with''), ((''CONCEPT'', ''CONCEPT''), ''related_to''),
      ((''CONCEPT'', ''TECHNOLOGY''), ''implemented_in''), ((''TECHNOLOGY'', ''TECHNOLOGY''), ''works_with''),
      ((''ORGANIZATION'', ''TECHNOLOGY''), ''develops'')]"

definition determine_cross_chunk_predicate :: "string option \<Rightarrow> string option \<Rightarrow> string" where
  "determine_cross_chunk_predicate ty1 ty2 =
     (let t1 = (case ty1 of None \<Rightarrow> ''OTHER'' | Some t \<Rightarrow> t);
          t2 = (case ty2 of None \<Rightarrow> ''OTHER'' | Some t \<Rightarrow> t)
      in case map_of type_patterns (t1, t2) of
           Some p \<Rightarrow> p
         | None \<Rightarrow> (case map_of type_patterns (t2, t1) of Some p \<Rightarrow> p | None \<Rightarrow> ''mentioned_together''))"

definition chunk_window :: "int option \<Rightarrow> nat \<Rightarrow> int" where
  "chunk_window override n =
     (case override of
        Some w \<Rightarrow> w
      | None \<Rightarrow> if n \<le> 15 then 1 else if n \<le> 30 then 2 else if n \<le> 60 then 3 else 5)"

definition distance_confidence :: "int \<Rightarrow> real" where
  "distance_confidence d = max 0.4 (0.6 - (of_int d - 1) * 0.05)"

text \<open>The chunks with mentions, by video, sorted by time stamp and chunk.\<close>

record chunk_meta =
  cm_chunk_id :: string
  cm_video_id :: string
  cm_timestamp :: string

definition video_chunks :: "chunk_meta list \<Rightarrow> groups \<Rightarrow> (string \<times> (string \<times> string) list) list" where
  "video_chunks metas chunk_entities =
     map (\<lambda>(v, cs). (v, sort cs))
       (fold (\<lambda>m. if cm_chunk_id m \<in> set (keys chunk_entities)
                  then dd_append (cm_video_id m) (cm_timestamp m, cm_chunk_id m) else id) metas [])"

definition window_pairs :: "int \<Rightarrow> 'a list \<Rightarrow> ('a \<times> 'a \<times> int) list" where
  "window_pairs w cs =
     concat (map (\<lambda>i. map (\<lambda>j. (cs ! i, cs ! j, int j - int i))
       (filter (\<lambda>j. int j < int i + w + 1) [Suc i..<length cs])) [0..<length cs])"

definition cross_chunk_doc ::
  "(string \<Rightarrow> string) \<Rightarrow> rat \<Rightarrow> string \<Rightarrow> string \<Rightarrow> string \<Rightarrow> string \<Rightarrow> string \<Rightarrow> string \<Rightarrow> string \<Rightarrow> int \<Rightarrow> rel_doc" where
  "cross_chunk_doc md5hex now mode video c1 c2 e1 e2 p d =
     \<lparr> rd_id = generate_relationship_id md5hex e1 e2 p, rd_subject = e1, rd_object = e2, rd_predicate = p,
       rd_description = ''Entities mentioned in nearby chunks (distance: '' @ str_of_int d @ '')'',
       rd_confidence = distance_confidence d, rd_source_count = 1, rd_source_chunks = [c1, c2],
       rd_type = ''cross_chunk'',
       rd_attribution = build_attribution ''graph_construction'' ''cross_chunk''
         [(''chunk_window'', mode), (''chunk_distance'', str_of_int d), (''video_id'', video)] now \<rparr>"

definition entities_of :: "groups \<Rightarrow> string \<Rightarrow> string list" where
  "entities_of g c = (case map_of g c of None \<Rightarrow> [] | Some es \<Rightarrow> es)"

text \<open>\<open>types\<close> gives the type of a stored entity; an entity that is not stored is passed over.\<close>

definition cross_pair ::
  "(string \<Rightarrow> string) \<Rightarrow> rat \<Rightarrow> string \<Rightarrow> (string \<Rightarrow> string option option) \<Rightarrow> rel_doc list
    \<Rightarrow> string \<Rightarrow> string \<Rightarrow> string \<Rightarrow> int \<Rightarrow> string \<times> string \<Rightarrow> plan \<Rightarrow> plan" where
  "cross_pair md5hex now mode types rels video c1 c2 d = (\<lambda>(e1, e2) pl.
     if e1 = e2 then pl
     else case (types e1, types e2) of
            (Some t1, Some t2) \<Rightarrow>
              (let p = determine_cross_chunk_predicate t1 t2
               in if exists_relation rels e1 e2 p then pl\<lparr>pl_skipped := Suc (pl_skipped pl)\<rparr>
                  else pl\<lparr>pl_docs := pl_docs pl @ [cross_chunk_doc md5hex now mode video c1 c2 e1 e2 p d]\<rparr>)
          | _ \<Rightarrow> pl)"

definition cross_chunk_plan ::
  "(string \<Rightarrow> string) \<Rightarrow> rat \<Rightarrow> int option \<Rightarrow> (string \<Rightarrow> string option option) \<Rightarrow> rel_doc list
    \<Rightarrow> chunk_meta list \<Rightarrow> groups \<Rightarrow> plan" where
  "cross_chunk_plan md5hex now override types rels metas chunk_entities =
     (let mode = (case override of None \<Rightarrow> ''adaptive'' | Some w \<Rightarrow> str_of_int w)
      in fold (\<lambda>(video, cs).
           fold (\<lambda>((ts1, c1), (ts2, c2), d).
             fold (cross_pair md5hex now mode types rels video c1 c2 d)
               (List.product (entities_of chunk_entities c1) (entities_of chunk_entities c2)))
             (window_pairs (chunk_window override (length cs)) cs))
           (video_chunks metas chunk_entities) empty_plan)"

section \<open>Reverse relationships\<close>

definition reverse_patterns :: "(string \<times> string) list" where
  "reverse_patterns =
     [(''uses'', ''used_by''), (''teaches'', ''taught_by''), (''creates'', ''created_by''),
      (''develops'', ''developed_by''), (''implements'', ''implemented_by''),
      (''contains'', ''contained_in''), (''has'', ''belongs_to''), (''manages'', ''managed_by''),
      (''leads'', ''led_by''), (''explains'', ''explained_by''), (''demonstrates'', ''demonstrated_by''),
      (''requires'', ''required_by''), (''depends_on'', ''dependency_of''), (''applies_to'', ''applied_by''),
      (''works_at'', ''employs''), (''part_of'', ''has_part''), (''subtype_of'', ''has_subtype''),
      (''is_a'', ''has_instance'')]"

definition get_reverse_predicate :: "string list \<Rightarrow> string \<Rightarrow> string option" where
  "get_reverse_predicate symmetric p = (if p \<in> set symmetric then None else map_of reverse_patterns p)"

definition reverse_doc :: "(string \<Rightarrow> string) \<Rightarrow> rat \<Rightarrow> rel_doc \<Rightarrow> string \<Rightarrow> rel_doc" where
  "reverse_doc md5hex now r q =
     \<lparr> rd_id = generate_relationship_id md5hex (rd_object r) (rd_subject r) q, rd_subject = rd_object r,
       rd_object = rd_subject r, rd_predicate = q, rd_description = ''Reverse of: '' @ rd_description r,
       rd_confidence = rd_confidence r, rd_source_count = rd_source_count r,
       rd_source_chunks = rd_source_chunks r, rd_type = ''bidirectional'',
       rd_attribution = build_attribution ''graph_construction'' ''bidirectional''
         [(''original_predicate'', rd_predicate r), (''reverse_predicate'', q)] now \<rparr>"

text \<open>The merge into an existing reverse: description, maximum of the confidences, chunks.\<close>

definition merge_reverse :: "rel_doc \<Rightarrow> rel_doc \<Rightarrow> rel_doc" where
  "merge_reverse r old =
     old\<lparr>rd_description := (if length (rd_description r) < length (rd_description old)
                            then rd_description old else ''Reverse of: '' @ rd_description r),
         rd_confidence := max (rd_confidence old) (max (rd_confidence r) (rd_confidence old)),
         rd_source_chunks := add_to_set (rd_source_chunks old) (rd_source_chunks r)\<rparr>"

definition find_relation :: "rel_doc list \<Rightarrow> string \<Rightarrow> rel_doc option" where
  "find_relation rels i = find (\<lambda>r. rd_id r = i) rels"

definition replace_relation :: "rel_doc \<Rightarrow> rel_doc list \<Rightarrow> rel_doc list" where
  "replace_relation new rels = map (\<lambda>r. if rd_id r = rd_id new then new else r) rels"

text \<open>
  The loop: the cursor yields the relationships as stored at its start; merges are written at
  once, new ones collected. The state is the stored list and the plan.
\<close>

definition reverse_one ::
  "(string \<Rightarrow> string) \<Rightarrow> rat \<Rightarrow> string list \<Rightarrow> rel_doc \<Rightarrow> rel_doc list \<times> plan \<Rightarrow> rel_doc list \<times> plan" where
  "reverse_one md5hex now symmetric r = (\<lambda>(rels, pl).
     case get_reverse_predicate symmetric (rd_predicate r) of
       None \<Rightarrow> (rels, pl)
     | Some q \<Rightarrow>
         (case find_relation rels (generate_relationship_id md5hex (rd_object r) (rd_subject r) q) of
            Some old \<Rightarrow> (replace_relation (merge_reverse r old) rels, pl\<lparr>pl_skipped := Suc (pl_skipped pl)\<rparr>)
          | None \<Rightarrow> (rels, pl\<lparr>pl_docs := pl_docs pl @ [reverse_doc md5hex now r q]\<rparr>)))"

definition bidirectional_plan ::
  "(string \<Rightarrow> string) \<Rightarrow> rat \<Rightarrow> string list \<Rightarrow> rel_doc list \<Rightarrow> rel_doc list \<times> plan" where
  "bidirectional_plan md5hex now symmetric rels =
     fold (reverse_one md5hex now symmetric) rels (rels, empty_plan)"

section \<open>Predicted relationships\<close>

definition predicted_doc :: "(string \<Rightarrow> string) \<Rightarrow> (real \<Rightarrow> string) \<Rightarrow> rat \<Rightarrow> string \<times> string \<times> string \<times> real \<Rightarrow> rel_doc" where
  "predicted_doc md5hex show_real now = (\<lambda>(s, t, p, c).
     \<lparr> rd_id = generate_relationship_id md5hex s t p, rd_subject = s, rd_object = t, rd_predicate = p,
       rd_description = ''Predicted relationship (confidence: '' @ show_real c @ '')'', rd_confidence = c,
       rd_source_count = 0, rd_source_chunks = [], rd_type = ''predicted'',
       rd_attribution = build_attribution ''graph_construction'' ''link_prediction''
         [(''predicted_confidence'', show_real c)] now \<rparr>)"

definition predicted_plan ::
  "(string \<Rightarrow> string) \<Rightarrow> (real \<Rightarrow> string) \<Rightarrow> rat \<Rightarrow> rel_doc list \<Rightarrow> (string \<times> string \<times> string \<times> real) list
    \<Rightarrow> rel_doc list" where
  "predicted_plan md5hex show_real now rels predictions =
     map (predicted_doc md5hex show_real now)
       (filter (\<lambda>(s, t, p, c). \<not> list_ex (\<lambda>r. rd_subject r = s \<and> rd_object r = t
                                               \<or> rd_subject r = t \<and> rd_object r = s) rels) predictions)"

text \<open>\<open>agents/link_prediction.py\<close>: predicate from the types, and the removal of duplicates.\<close>

definition infer_predicate_from_types :: "string \<Rightarrow> string \<Rightarrow> string" where
  "infer_predicate_from_types t1 t2 =
     (case map_of type_patterns (t1, t2) of
        Some p \<Rightarrow> p
      | None \<Rightarrow> (case map_of type_patterns (t2, t1) of Some p \<Rightarrow> p | None \<Rightarrow> ''related_to''))"

type_synonym prediction = "string \<times> string \<times> string \<times> real"

definition prediction_key :: "prediction \<Rightarrow> string list \<times> string" where
  "prediction_key = (\<lambda>(s, t, p, c). (sort [s, t], p))"

definition keep_prediction :: "prediction \<Rightarrow> ((string list \<times> string) \<times> prediction) list
    \<Rightarrow> ((string list \<times> string) \<times> prediction) list" where
  "keep_prediction x seen =
     (case map_of seen (prediction_key x) of
        None \<Rightarrow> AList.update (prediction_key x) x seen
      | Some y \<Rightarrow> if snd (snd (snd y)) < snd (snd (snd x))
                  then AList.update (prediction_key x) x seen else seen)"

definition deduplicate_predictions :: "prediction list \<Rightarrow> prediction list" where
  "deduplicate_predictions ps = map snd (fold keep_prediction ps [])"

text \<open>The entities most similar to one, without itself and its neighbours.\<close>

definition similar_entities ::
  "(embedded \<Rightarrow> embedded \<Rightarrow> real) \<Rightarrow> (string \<Rightarrow> string list) \<Rightarrow> real \<Rightarrow> int \<Rightarrow> embedded list \<Rightarrow> embedded
    \<Rightarrow> (string \<times> real) list" where
  "similar_entities sim neighbors threshold max_n entities e =
     slice_to max_n (sort_key (\<lambda>(i, s). - s)
       (map (\<lambda>x. (em_id x, sim e x))
         (filter (\<lambda>x. em_id x \<noteq> em_id e \<and> em_id x \<notin> set (neighbors (em_id e)) \<and> threshold \<le> sim e x)
           entities)))"

definition predict_via_embeddings ::
  "(embedded \<Rightarrow> embedded \<Rightarrow> real) \<Rightarrow> (string \<Rightarrow> string list) \<Rightarrow> (string \<Rightarrow> string) \<Rightarrow> real \<Rightarrow> int
    \<Rightarrow> embedded list \<Rightarrow> prediction list" where
  "predict_via_embeddings sim neighbors type_of threshold max_n entities =
     concat (map (\<lambda>e. map (\<lambda>(i, s). (em_id e, i, infer_predicate_from_types (type_of (em_id e)) (type_of i), s))
       (similar_entities sim neighbors threshold max_n entities e)) entities)"

section \<open>Density and the final step\<close>

definition pair_key :: "rel_doc \<Rightarrow> string list" where
  "pair_key r = sort [rd_subject r, rd_object r]"

text \<open>
  The aggregation returns one document, whose only key is \<open>unique_pairs\<close>, or none for an empty
  collection; the code reads the key \<open>count\<close> of it.
\<close>

definition pair_result :: "rel_doc list \<Rightarrow> (string \<times> nat) list list" where
  "pair_result rels = (if rels = [] then [] else [[(''unique_pairs'', length (remdups (map pair_key rels)))]])"

definition current_graph_density :: "nat \<Rightarrow> rel_doc list \<Rightarrow> real res" where
  "current_graph_density n rels =
     (if n < 2 then Inr 0
      else bindR (case pair_result rels of
                    [] \<Rightarrow> Inr 0
                  | doc # _ \<Rightarrow> (case map_of doc ''count'' of
                        Some k \<Rightarrow> Inr k
                      | None \<Rightarrow> Inl (Exn ''KeyError'' ([quote] @ ''count'' @ [quote])))) (\<lambda>unique.
           (let max_possible = real n * (real n - 1) / 2
            in Inr (if 0 < max_possible then real unique / max_possible else 0))))"

text \<open>
  The steps of \<open>finalize\<close> over the state of the stage, with the two reads of the density: the number
  of entities and the stored relationships. \<open>_log_comprehensive_metrics\<close> is not a method of the class
  or of its base.
\<close>

record 's final_steps =
  f_co_occurrence :: "('s, int) act"
  f_similarity :: "('s, int) act"
  f_cross_chunk :: "('s, int) act"
  f_bidirectional :: "('s, int) act"
  f_predicted :: "('s, int) act"
  f_entities :: "('s, nat) act"
  f_relations :: "('s, rel_doc list) act"

definition f_density :: "'s final_steps \<Rightarrow> ('s, real) act" where
  "f_density F =
     bindA (f_entities F) (\<lambda>n. if n < 2 then ret 0
       else bindA (f_relations F) (\<lambda>rels. liftR (current_graph_density n rels)))"

definition attempt :: "'s final_steps \<Rightarrow> ('s, int) act \<Rightarrow> ('s, unit) act" where
  "attempt F step = tryA (bindA step (\<lambda>n. bindA (f_density F) (\<lambda>d. ret ()))) (\<lambda>e. ret ())"

definition log_comprehensive_metrics :: "('s, unit) act" where
  "log_comprehensive_metrics = raise (Exn ''AttributeError''
     ([quote] @ ''GraphConstructionStage'' @ [quote] @ '' object has no attribute '' @ [quote]
      @ ''_log_comprehensive_metrics'' @ [quote]))"

definition unless_dense :: "'s final_steps \<Rightarrow> real \<Rightarrow> ('s, unit) act \<Rightarrow> ('s, unit) act \<Rightarrow> ('s, unit) act" where
  "unless_dense F max_density stop go = bindA (f_density F) (\<lambda>d. if max_density \<le> d then stop else go)"

definition graph_finalize :: "'s final_steps \<Rightarrow> real \<Rightarrow> bool \<Rightarrow> ('s, unit) act" where
  "graph_finalize F max_density link_prediction =
     seqA (attempt F (f_co_occurrence F))
       (unless_dense F max_density (ret ())
         (seqA (attempt F (f_similarity F))
           (unless_dense F max_density (ret ())
             (seqA (attempt F (f_cross_chunk F))
               (unless_dense F max_density (ret ())
                 (seqA (attempt F (f_bidirectional F))
                   (unless_dense F max_density (seqA log_comprehensive_metrics (ret ()))
                     (seqA (if link_prediction then attempt F (f_predicted F) else ret ())
                       (seqA log_comprehensive_metrics (ret ()))))))))))"

end
