(* ===== verification/Stage_Run_Facts.thy ===== *)
theory Stage_Run_Facts
  imports Stage_Run
begin

text \<open>
  What a stage run guarantees: results in the order of the documents whatever order the workers
  finish in, every document counted once, a failure code when the final step fails; and what it
  does not: the final step in concurrent runs, and the token target.
\<close>

section \<open>The order of the results\<close>

lemma run_workers_pure:
  assumes "\<And>d t. \<exists>t'. process_with_tracking M R d t = (Inr (f d), t')"
  shows "\<exists>t'. run_workers M R docs order results t =
    (Inr (fold (\<lambda>i. AList.update i (f (docs ! i))) order results), t')"
proof (induction order arbitrary: results t)
  case Nil
  then show ?case by (simp add: ret_def)
next
  case (Cons i "is")
  obtain t1 where one: "process_with_tracking M R (docs ! i) t = (Inr (f (docs ! i)), t1)"
    using assms by blast
  from Cons.IH [of "AList.update i (f (docs ! i)) results" t1] one show ?case
    by (auto simp: bindA_def)
qed

lemma map_of_fold_update:
  "map_of (fold (\<lambda>i. AList.update i (g i)) is m) k = (if k \<in> set is then Some (g k) else map_of m k)"
  by (induction "is" arbitrary: m) auto

text \<open>In whatever order the workers of a batch finish, the results handed to
  \<open>store_batch_results\<close> are those of the documents in their original order.\<close>

theorem results_in_document_order:
  assumes "\<And>d t. \<exists>t'. process_with_tracking M R d t = (Inr (f d), t')"
    and "set order = {0..<length docs}"
  shows "\<exists>results t'. run_workers M R docs order [] t = (Inr results, t')
    \<and> in_order (length docs) results = map f docs"
proof -
  obtain t' where r: "run_workers M R docs order [] t =
    (Inr (fold (\<lambda>i. AList.update i (f (docs ! i))) order []), t')"
    using run_workers_pure [OF assms(1)] by blast
  have "in_order (length docs) (fold (\<lambda>i. AList.update i (f (docs ! i))) order []) = map f docs"
    using assms(2) by (auto simp: in_order_def map_of_fold_update intro!: nth_equalityI)
  with r show ?thesis by blast
qed

section \<open>The final step\<close>

lemma process_finalize [simp]:
  "process_with_tracking (M\<lparr>m_finalize := f\<rparr>) R d = process_with_tracking M R d"
  by (simp add: process_with_tracking_def)

lemma workers_finalize [simp]:
  "run_workers (M\<lparr>m_finalize := f\<rparr>) R docs order results = run_workers M R docs order results"
  by (induction order arbitrary: results) simp_all

lemma batches_finalize [simp]:
  "run_batches (M\<lparr>m_finalize := f\<rparr>) R n num docs = run_batches M R n num docs"
proof (induction M R n num docs rule: run_batches.induct)
  case (1 M R n num docs)
  show ?case
  proof (cases "docs = [] \<or> n = 0")
    case True
    then show ?thesis by (subst (1 2) run_batches.simps) simp
  next
    case False
    with "1.IH" have IH: "run_batches (M\<lparr>m_finalize := f\<rparr>) R n (Suc num) (drop n docs) =
      run_batches M R n (Suc num) (drop n docs)" by simp
    show ?thesis by (subst (1 2) run_batches.simps) (simp add: IH)
  qed
qed

text \<open>A run with more than one worker never calls \<open>finalize\<close>: the run of the stage is the same
  whatever the final step of the stage would do.\<close>

theorem concurrent_run_never_finalizes:
  assumes "use_concurrent R" and "r_use_tpm_tracking R \<or> m_run_concurrent M = None"
  shows "stage_run (M\<lparr>m_finalize := f\<rparr>) R = stage_run M R"
proof -
  have "run_docs (M\<lparr>m_finalize := f\<rparr>) R docs = run_docs M R docs" for docs
    using assms by (auto simp: run_docs_def run_concurrent_with_tpm_def)
  then show ?thesis by (simp add: stage_run_def)
qed

section \<open>Sequential runs\<close>

definition only_exceptions :: "('s, 'a) act \<Rightarrow> bool" where
  "only_exceptions f = (\<forall>s. case fst (f s) of Inl e \<Rightarrow> is_Exception e | Inr _ \<Rightarrow> True)"

lemma on_world_cases:
  obtains r w st where "f (world t, stats t) = (r, (w, st))"
    and "on_world f t = (r, t\<lparr>world := w, stats := st\<rparr>)"
  by (cases "f (world t, stats t)") (auto simp: on_world_def)

lemma run_sequential_counts:
  assumes "\<And>d. only_exceptions (m_handle_doc M d)"
  shows "\<exists>t'. run_sequential M None i ds t = (Inr (), t')
    \<and> documents_processed (counts t') + documents_failed (counts t') =
        documents_processed (counts t) + documents_failed (counts t) + length ds
    \<and> stage_completed (counts t') = stage_completed (counts t)
    \<and> stage_failed (counts t') = stage_failed (counts t)"
proof (induction ds arbitrary: i t)
  case Nil
  then show ?case by (simp add: ret_def)
next
  case (Cons d ds)
  obtain r w st where h: "m_handle_doc M d (world t, stats t) = (r, (w, st))"
    and o: "on_world (m_handle_doc M d) t = (r, t\<lparr>world := w, stats := st\<rparr>)"
    by (rule on_world_cases)
  show ?case
  proof (cases r)
    case (Inl e)
    with assms [of d] h have "is_Exception e"
      unfolding only_exceptions_def by (metis (no_types, lifting) fst_conv old.sum.simps(5))
    with Inl o Cons.IH [of "i + 1"
        "t\<lparr>world := w, stats := st\<lparr>failed := Suc (failed st)\<rparr>,
           counts := (counts t)\<lparr>documents_failed := Suc (documents_failed (counts t))\<rparr>\<rparr>"]
    show ?thesis
      by (auto simp: seqA_def tryA_def bindA_def count_stat_def count_metric_def modifyA_def)
  next
    case (Inr x)
    with o Cons.IH [of "i + 1"
        "t\<lparr>world := w, stats := st\<lparr>processed := Suc (processed st)\<rparr>,
           counts := (counts t)\<lparr>documents_processed := Suc (documents_processed (counts t))\<rparr>\<rparr>"]
    show ?thesis
      by (auto simp: seqA_def tryA_def bindA_def ret_def count_stat_def count_metric_def modifyA_def)
  qed
qed

lemma sequential_prefix:
  assumes "\<not> use_concurrent R" and "r_max R = None"
    and "\<And>d. only_exceptions (m_handle_doc M d)"
    and "\<And>s. \<exists>s'. m_setup M s = (Inr (), s')" and "\<And>s. \<exists>s'. m_iter_docs M s = (Inr docs, s')"
    and "docs \<noteq> []"
  shows "\<exists>t1. stage_run M R t =
      tryA (seqA (on_world (m_finalize M))
             (seqA (count_metric (\<lambda>c. c\<lparr>stage_completed := Suc (stage_completed c)\<rparr>)) (ret 0)))
           (\<lambda>e. seqA (count_metric (\<lambda>c. c\<lparr>stage_failed := Suc (stage_failed c)\<rparr>)) (ret 1)) t1
    \<and> documents_processed (counts t1) + documents_failed (counts t1) =
        documents_processed (counts t) + documents_failed (counts t) + length docs
    \<and> stage_completed (counts t1) = stage_completed (counts t)
    \<and> stage_failed (counts t1) = stage_failed (counts t)"
proof -
  define t0 where "t0 = t\<lparr>counts := (counts t)\<lparr>stage_started := Suc (stage_started (counts t))\<rparr>\<rparr>"
  obtain w1 st1 where s: "m_setup M (world t0, stats t0) = (Inr (), (w1, st1))"
    using assms(4) [of "(world t0, stats t0)"] by auto
  obtain w2 st2 where i: "m_iter_docs M (w1, st1) = (Inr docs, (w2, st2))"
    using assms(5) [of "(w1, st1)"] by auto
  define t2 where "t2 = t0\<lparr>world := w2, stats := st2\<rparr>"
  obtain t1 where q: "run_sequential M None 0 docs t2 = (Inr (), t1)"
    and c: "documents_processed (counts t1) + documents_failed (counts t1) =
        documents_processed (counts t2) + documents_failed (counts t2) + length docs"
      "stage_completed (counts t1) = stage_completed (counts t2)"
      "stage_failed (counts t1) = stage_failed (counts t2)"
    using run_sequential_counts [OF assms(3), where i = 0 and ds = docs and t = t2] by blast
  have "stage_run M R t = tryA (seqA (on_world (m_finalize M))
             (seqA (count_metric (\<lambda>c. c\<lparr>stage_completed := Suc (stage_completed c)\<rparr>)) (ret 0)))
           (\<lambda>e. seqA (count_metric (\<lambda>c. c\<lparr>stage_failed := Suc (stage_failed c)\<rparr>)) (ret 1)) t1"
    using assms(1,2,6) s i q
    by (simp add: stage_run_def run_docs_def seqA_def bindA_def tryA_def on_world_def count_metric_def
        modifyA_def t0_def [symmetric] t2_def [symmetric])
  moreover have "counts t2 = (counts t)\<lparr>stage_started := Suc (stage_started (counts t))\<rparr>"
    by (simp add: t2_def t0_def)
  ultimately show ?thesis using c by auto
qed

text \<open>In a sequential run every document is counted exactly once, as processed or as failed, and
  the run reports success, when only its documents fail.\<close>

theorem sequential_run_accounts:
  assumes "\<not> use_concurrent R" and "r_max R = None"
    and "\<And>d. only_exceptions (m_handle_doc M d)"
    and "\<And>s. \<exists>s'. m_setup M s = (Inr (), s')" and "\<And>s. \<exists>s'. m_iter_docs M s = (Inr docs, s')"
    and "docs \<noteq> []" and "\<And>s. \<exists>s'. m_finalize M s = (Inr (), s')"
  shows "\<exists>t'. stage_run M R t = (Inr 0, t')
    \<and> documents_processed (counts t') + documents_failed (counts t') =
        documents_processed (counts t) + documents_failed (counts t) + length docs
    \<and> stage_completed (counts t') = Suc (stage_completed (counts t))
    \<and> stage_failed (counts t') = stage_failed (counts t)"
proof -
  obtain t1 where r: "stage_run M R t = tryA (seqA (on_world (m_finalize M))
             (seqA (count_metric (\<lambda>c. c\<lparr>stage_completed := Suc (stage_completed c)\<rparr>)) (ret 0)))
           (\<lambda>e. seqA (count_metric (\<lambda>c. c\<lparr>stage_failed := Suc (stage_failed c)\<rparr>)) (ret 1)) t1"
    and c: "documents_processed (counts t1) + documents_failed (counts t1) =
        documents_processed (counts t) + documents_failed (counts t) + length docs"
      "stage_completed (counts t1) = stage_completed (counts t)"
      "stage_failed (counts t1) = stage_failed (counts t)"
    using sequential_prefix [OF assms(1-6), of t] by blast
  obtain w st where f: "m_finalize M (world t1, stats t1) = (Inr (), (w, st))"
    using assms(7) [of "(world t1, stats t1)"] by auto
  show ?thesis
    unfolding r using f c
    by (simp add: tryA_def seqA_def on_world_def count_metric_def modifyA_def ret_def)
qed

text \<open>A sequential run whose final step raises is reported as failed, although every document
  has been counted.\<close>

theorem failing_finalize_fails_run:
  assumes "\<not> use_concurrent R" and "r_max R = None"
    and "\<And>d. only_exceptions (m_handle_doc M d)"
    and "\<And>s. \<exists>s'. m_setup M s = (Inr (), s')" and "\<And>s. \<exists>s'. m_iter_docs M s = (Inr docs, s')"
    and "docs \<noteq> []" and "\<And>s. \<exists>e s'. m_finalize M s = (Inl e, s') \<and> is_Exception e"
  shows "\<exists>t'. stage_run M R t = (Inr 1, t')
    \<and> documents_processed (counts t') + documents_failed (counts t') =
        documents_processed (counts t) + documents_failed (counts t) + length docs
    \<and> stage_completed (counts t') = stage_completed (counts t)
    \<and> stage_failed (counts t') = Suc (stage_failed (counts t))
    \<and> (\<exists>s e. m_finalize M s = (Inl e, (world t', stats t')))"
proof -
  obtain t1 where r: "stage_run M R t = tryA (seqA (on_world (m_finalize M))
             (seqA (count_metric (\<lambda>c. c\<lparr>stage_completed := Suc (stage_completed c)\<rparr>)) (ret 0)))
           (\<lambda>e. seqA (count_metric (\<lambda>c. c\<lparr>stage_failed := Suc (stage_failed c)\<rparr>)) (ret 1)) t1"
    and c: "documents_processed (counts t1) + documents_failed (counts t1) =
        documents_processed (counts t) + documents_failed (counts t) + length docs"
      "stage_completed (counts t1) = stage_completed (counts t)"
      "stage_failed (counts t1) = stage_failed (counts t)"
    using sequential_prefix [OF assms(1-6), of t] by blast
  obtain e w st where f: "m_finalize M (world t1, stats t1) = (Inl e, (w, st))" and e: "is_Exception e"
    using assms(7) [of "(world t1, stats t1)"] by auto
  show ?thesis
    unfolding r using f e c
    by (auto simp: tryA_def seqA_def on_world_def count_metric_def modifyA_def ret_def)
qed

section \<open>The token target\<close>

definition admit :: "int \<Rightarrow> (rat \<times> int) list \<Rightarrow> token_window \<Rightarrow> token_window" where
  "admit target_tpm reqs w = fold (\<lambda>(now, est) w. fst (wait_for_tpm_capacity target_tpm now est w)) reqs w"

lemma admit_keeps:
  assumes "list_all (\<lambda>(ts, tok). t0 \<le> ts) w" and "list_all (\<lambda>(ts, tok). t0 \<le> ts \<and> ts < t0 + 60) reqs"
  shows "admit target_tpm reqs w = w @ reqs"
  using assms
proof (induction reqs arbitrary: w)
  case Nil
  then show ?case by (simp add: admit_def)
next
  case (Cons r reqs)
  obtain now est where r: "r = (now, est)" by (rule prod.exhaust)
  have "filter (\<lambda>(ts, tok). now - 60 < ts) w = w"
    using Cons.prems r by (intro filter_True) (fastforce simp: list_all_iff)
  then have "fst (wait_for_tpm_capacity target_tpm now est w) = w @ [(now, est)]"
    by (simp add: wait_for_tpm_capacity_def Let_def)
  moreover have "list_all (\<lambda>(ts, tok). t0 \<le> ts) (w @ [(now, est)])"
    using Cons.prems r by simp
  ultimately show ?case
    using Cons.IH [of "w @ [(now, est)]"] Cons.prems(2) r by (simp add: admit_def)
qed

text \<open>The target of tokens a minute is not enforced: whatever the target, every request is
  admitted after at most a twentieth of a second, so the requests of one minute are all in the
  window, however many tokens they add up to.\<close>

theorem tpm_target_not_enforced:
  assumes "list_all (\<lambda>(ts, tok). t0 \<le> ts \<and> ts < t0 + 60) reqs"
  shows "window_tokens (admit target_tpm reqs []) = sum_list (map snd reqs)
    \<and> snd (wait_for_tpm_capacity target_tpm now est w) \<le> 5 / 100"
  using admit_keeps [of t0 "[]" reqs target_tpm] assms
  by (simp add: window_tokens_def wait_for_tpm_capacity_def Let_def)

section \<open>Helpers\<close>

lemma collect_results_map:
  assumes "\<And>x. x \<in> set xs \<Longrightarrow> worker x = Inr (f x)"
  shows "collect_results worker on_error xs = Inr (map f xs)"
  using assms by (induction xs) auto

lemma sort_enumerate: "sort_key fst (enumerate n rs) = enumerate n rs"
proof -
  have "sorted (map fst (enumerate n rs))"
    by (simp add: sorted_enumerate)
  then show ?thesis by (rule sort_key_id_if_sorted)
qed

text \<open>The concurrent map of a function that does not raise is its sequential map.\<close>

theorem concurrent_map_is_map:
  assumes "\<And>x. x \<in> set xs \<Longrightarrow> worker x = Inr (f x)"
  shows "run_concurrent_map worker on_error preserve xs = Inr (map f xs)"
  using collect_results_map [of xs worker f on_error, OF assms]
  by (simp add: run_concurrent_map_def sort_enumerate)

text \<open>A worker makes at most \<open>retries + 1\<close> calls, and has a result as soon as that many outcomes
  are given; it waits twice as long after each failure.\<close>

lemma llm_worker_returns:
  assumes "nat (max 0 retries) < length os + attempt" and "attempt \<le> nat (max 0 retries)"
  shows "\<exists>r ws. llm_worker retries backoff h attempt os = Some (r, ws)
    \<and> length ws \<le> nat (max 0 retries) - attempt"
  using assms
proof (induction os arbitrary: attempt)
  case (Cons o1 os)
  show ?case
  proof (cases o1)
    case (Inr r)
    then show ?thesis by simp
  next
    case (Inl e)
    show ?thesis
    proof (cases "is_Exception e \<and> \<not> max 0 retries < int (Suc attempt)")
      case True
      then have "Suc attempt \<le> nat (max 0 retries)" by linarith
      from Cons.IH [OF _ this] Cons.prems(1)
      obtain r ws where "llm_worker retries backoff h (Suc attempt) os = Some (r, ws)"
        and "length ws \<le> nat (max 0 retries) - Suc attempt" by auto
      with True Inl \<open>Suc attempt \<le> nat (max 0 retries)\<close> show ?thesis by auto
    next
      case False
      with Inl show ?thesis by auto
    qed
  qed
qed simp

end
