(* ===== verification/Graph_Facts.thy ===== *)
theory Graph_Facts
  imports Graph_Construction Stage_Run_Facts
begin

text \<open>
  Properties of the final pass over the graph: adding reverse relationships twice adds nothing,
  every pair is accounted for, distances and densities are bounded, duplicates keep their best
  prediction; and its faults: caps that are not applied, and a last step that always raises.
\<close>

section \<open>Reverse relationships\<close>

text \<open>What the loop looks at in a relationship.\<close>

definition triple :: "rel_doc \<Rightarrow> string \<times> string \<times> string" where
  "triple r = (rd_subject r, rd_object r, rd_predicate r)"

definition reverse_id :: "(string \<Rightarrow> string) \<Rightarrow> string list \<Rightarrow> rel_doc \<Rightarrow> string option" where
  "reverse_id md5hex symmetric r =
     map_option (generate_relationship_id md5hex (rd_object r) (rd_subject r))
       (get_reverse_predicate symmetric (rd_predicate r))"

lemma reverse_id_triple: "triple r = triple r' \<Longrightarrow> reverse_id m syms r = reverse_id m syms r'"
  by (simp add: triple_def reverse_id_def)

lemma no_reverse_of_reverse:
  "get_reverse_predicate syms p = Some q \<Longrightarrow> get_reverse_predicate syms' q = None"
proof -
  assume "get_reverse_predicate syms p = Some q"
  then have "(p, q) \<in> set reverse_patterns"
    by (auto simp: get_reverse_predicate_def split: if_splits dest: map_of_SomeD)
  moreover have "list_all (\<lambda>(p, q). map_of reverse_patterns q = None) reverse_patterns"
    by code_simp
  ultimately show "get_reverse_predicate syms' q = None"
    by (auto simp: get_reverse_predicate_def list_all_iff)
qed

lemma reverse_one_none:
  "get_reverse_predicate syms (rd_predicate r) = None \<Longrightarrow> reverse_one m now syms r s = s"
  by (cases s) (simp add: reverse_one_def)

lemma reverse_one_new:
  assumes "get_reverse_predicate syms (rd_predicate r) = Some q"
    and "find_relation rels (generate_relationship_id m (rd_object r) (rd_subject r) q) = None"
  shows "reverse_one m now syms r (rels, pl) = (rels, pl\<lparr>pl_docs := pl_docs pl @ [reverse_doc m now r q]\<rparr>)"
  using assms by (simp add: reverse_one_def)

lemma reverse_one_old:
  assumes "get_reverse_predicate syms (rd_predicate r) = Some q"
    and "find_relation rels (generate_relationship_id m (rd_object r) (rd_subject r) q) = Some old"
  shows "reverse_one m now syms r (rels, pl) =
    (replace_relation (merge_reverse r old) rels, pl\<lparr>pl_skipped := Suc (pl_skipped pl)\<rparr>)"
  using assms by (simp add: reverse_one_def)

lemma replace_ids: "rd_id new = i \<Longrightarrow> map rd_id (replace_relation new rels) = map rd_id rels"
  by (induction rels) (auto simp: replace_relation_def)

lemma find_relation_None: "find_relation rels i = None \<longleftrightarrow> i \<notin> set (map rd_id rels)"
  by (auto simp: find_relation_def find_None_iff)

lemma reverse_fold:
  assumes "fold (reverse_one m now syms) rs (rels, pl) = (rels', pl')"
  shows "map rd_id rels' = map rd_id rels \<and> set (pl_docs pl) \<subseteq> set (pl_docs pl')
    \<and> (\<forall>r \<in> set rs. \<forall>i. reverse_id m syms r = Some i \<longrightarrow>
         i \<in> set (map rd_id rels) \<union> rd_id ` set (pl_docs pl'))
    \<and> (\<forall>d \<in> set (pl_docs pl'). d \<in> set (pl_docs pl) \<or> reverse_id m syms d = None)
    \<and> ((\<forall>r \<in> set rs. \<forall>i. reverse_id m syms r = Some i \<longrightarrow> i \<in> set (map rd_id rels)) \<longrightarrow> pl_docs pl' = pl_docs pl)"
  using assms
proof (induction rs arbitrary: rels pl)
  case (Cons r rs)
  show ?case
  proof (cases "get_reverse_predicate syms (rd_predicate r)")
    case None
    then have "fold (reverse_one m now syms) rs (rels, pl) = (rels', pl')"
      using Cons.prems by (simp add: reverse_one_none)
    from Cons.IH [OF this] None show ?thesis by (simp add: reverse_id_def)
  next
    case (Some q)
    define i where "i = generate_relationship_id m (rd_object r) (rd_subject r) q"
    have rid: "reverse_id m syms r = Some i" by (simp add: reverse_id_def Some i_def)
    show ?thesis
    proof (cases "find_relation rels i")
      case None
      define pl1 where "pl1 = pl\<lparr>pl_docs := pl_docs pl @ [reverse_doc m now r q]\<rparr>"
      have step: "fold (reverse_one m now syms) rs (rels, pl1) = (rels', pl')"
        using Cons.prems reverse_one_new [OF Some None [unfolded i_def]] by (simp add: pl1_def)
      have new: "rd_id (reverse_doc m now r q) = i" "reverse_id m syms (reverse_doc m now r q) = None"
        using no_reverse_of_reverse [OF Some] by (simp_all add: reverse_doc_def i_def reverse_id_def)
      have "i \<notin> set (map rd_id rels)" using None find_relation_None by blast
      with Cons.IH [OF step] new rid show ?thesis
        by (auto simp: pl1_def)
    next
      case (Some old)
      define rels1 where "rels1 = replace_relation (merge_reverse r old) rels"
      have step: "fold (reverse_one m now syms) rs (rels1, pl\<lparr>pl_skipped := Suc (pl_skipped pl)\<rparr>) = (rels', pl')"
        using Cons.prems reverse_one_old [OF \<open>get_reverse_predicate syms (rd_predicate r) = Some q\<close> Some [unfolded i_def]]
        by (simp add: rels1_def)
      have ids: "map rd_id rels1 = map rd_id rels"
        unfolding rels1_def by (rule replace_ids) (rule refl)
      have "i \<in> set (map rd_id rels)"
        using Some find_relation_None [of rels i] by auto
      with Cons.IH [OF step] ids rid show ?thesis by auto
    qed
  qed
qed simp

lemma merge_triple: "triple (merge_reverse r old) = triple old"
  by (simp add: triple_def merge_reverse_def)

lemma merge_id: "rd_id (merge_reverse r old) = rd_id old"
  by (simp add: merge_reverse_def)

lemma reverse_fold_triples:
  assumes "fold (reverse_one m now syms) rs (rels, pl) = (rels', pl')"
  shows "set (map triple rels') \<subseteq> set (map triple rels)"
  using assms
proof (induction rs arbitrary: rels pl)
  case (Cons r rs)
  obtain rels1 pl1 where one: "reverse_one m now syms r (rels, pl) = (rels1, pl1)" by (rule prod.exhaust)
  have "set (map triple rels1) \<subseteq> set (map triple rels)"
  proof (cases "\<exists>q old. get_reverse_predicate syms (rd_predicate r) = Some q \<and>
      find_relation rels (generate_relationship_id m (rd_object r) (rd_subject r) q) = Some old")
    case True
    then obtain q old where q: "get_reverse_predicate syms (rd_predicate r) = Some q"
      and old: "find_relation rels (generate_relationship_id m (rd_object r) (rd_subject r) q) = Some old"
      by blast
    then have "old \<in> set rels"
      by (auto simp: find_relation_def find_Some_iff)
    with one q old show ?thesis
      by (auto simp: reverse_one_def replace_relation_def merge_triple)
  next
    case False
    with one show ?thesis
      by (auto simp: reverse_one_def split: option.splits)
  qed
  moreover have "set (map triple rels') \<subseteq> set (map triple rels1)"
    using Cons.IH [of rels1 pl1] Cons.prems one by simp
  ultimately show ?case by blast
qed simp

text \<open>C16: Adding the reverse relationships is idempotent: once they are stored, another pass inserts
  nothing, because each reverse is found by its identifier and no reverse has a reverse.\<close>

theorem reverse_pass_idempotent:
  assumes "bidirectional_plan m now syms rels = (rels', pl)"
  shows "pl_docs (snd (bidirectional_plan m now' syms (rels' @ pl_docs pl))) = []"
proof -
  define all where "all = rels' @ pl_docs pl"
  note F = reverse_fold [OF assms [unfolded bidirectional_plan_def]]
  note T = reverse_fold_triples [OF assms [unfolded bidirectional_plan_def]]
  have ids: "map rd_id rels' = map rd_id rels" using F by blast
  have known: "i \<in> set (map rd_id all)" if r: "r \<in> set all" and i: "reverse_id m syms r = Some i" for r i
  proof (cases "r \<in> set rels'")
    case True
    then obtain r0 where "r0 \<in> set rels" and "triple r0 = triple r" using T by fastforce
    then have "reverse_id m syms r0 = Some i" using i reverse_id_triple by metis
    with F \<open>r0 \<in> set rels\<close> have "i \<in> set (map rd_id rels) \<union> rd_id ` set (pl_docs pl)" by blast
    with ids show ?thesis by (auto simp: all_def)
  next
    case False
    with r have "r \<in> set (pl_docs pl)" by (simp add: all_def)
    with F have "reverse_id m syms r = None" by (auto simp: empty_plan_def)
    with i show ?thesis by simp
  qed
  obtain rels2 pl2 where two: "fold (reverse_one m now' syms) all (all, empty_plan) = (rels2, pl2)"
    by (rule prod.exhaust)
  have "pl_docs pl2 = pl_docs empty_plan"
    using reverse_fold [OF two] known by blast
  with two show ?thesis
    by (simp add: bidirectional_plan_def all_def [symmetric] empty_plan_def)
qed

text \<open>A merge adds chunks without counting them.\<close>

lemma merge_miscounts:
  assumes "rd_source_chunks old = [''c1'']" and "rd_source_count old = 1"
    and "rd_source_chunks r = [''c2'']"
  shows "rd_source_count (merge_reverse r old) = 1 \<and>
    rd_source_chunks (merge_reverse r old) = [''c1'', ''c2'']"
  using assms by (simp add: merge_reverse_def)

section \<open>Co-occurrence\<close>

definition accounted :: "plan \<Rightarrow> nat" where
  "accounted pl = length (pl_docs pl) + pl_skipped pl + pl_capped pl"

lemma plan_pair_accounts: "accounted (plan_pair m now cap rels c p pl) = Suc (accounted pl)"
  by (cases p) (simp add: plan_pair_def accounted_def)

lemma plan_pairs_account:
  "accounted (fold (plan_pair m now cap rels c) ps pl) = length ps + accounted pl"
  by (induction ps arbitrary: pl) (simp_all add: plan_pair_accounts)

lemma pairs_short: "length xs < 2 \<Longrightarrow> pairs xs = []"
  by (cases xs rule: pairs.cases) (auto simp: Suc_less_eq2)

lemma pairs_fold_short:
  "(if length es < 2 then pl else fold f (pairs es) pl) = fold f (pairs es) pl"
  by (simp add: pairs_short)

text \<open>Every pair of entities of a chunk is accounted for once: planned, already there, or capped.\<close>

theorem co_occurrence_accounts:
  "accounted (co_occurrence_plan m now cap rels g) = sum_list (map (\<lambda>(c, es). length (pairs es)) g)"
proof -
  have "accounted (fold (\<lambda>(c, es) pl. fold (plan_pair m now cap rels c) (pairs es) pl) g pl) =
      sum_list (map (\<lambda>(c, es). length (pairs es)) g) + accounted pl" for pl
    by (induction g arbitrary: pl) (auto simp: plan_pairs_account)
  then show ?thesis
    by (simp add: co_occurrence_plan_def pairs_fold_short accounted_def empty_plan_def cong: prod.case_cong)
qed

lemma uncapped_pairs:
  assumes "0 < cap"
  shows "pl_capped (fold (plan_pair m now cap [] c) ps pl) = pl_capped pl
    \<and> map (\<lambda>d. (rd_subject d, rd_object d)) (pl_docs (fold (plan_pair m now cap [] c) ps pl)) =
      map (\<lambda>d. (rd_subject d, rd_object d)) (pl_docs pl) @ ps"
  using assms
  by (induction ps arbitrary: pl)
    (auto simp: plan_pair_def exists_relation_def entity_degree_def co_occurrence_doc_def)

text \<open>The cap on co-occurrence edges looks only at stored edges, and nothing is stored before the
  end of the pass: on a graph without relationships every pair of every chunk is inserted,
  whatever the cap.\<close>

theorem co_occurrence_cap_not_enforced:
  assumes "0 < cap"
  shows "pl_capped (co_occurrence_plan m now cap [] g) = 0
    \<and> map (\<lambda>d. (rd_subject d, rd_object d)) (pl_docs (co_occurrence_plan m now cap [] g)) =
      concat (map (\<lambda>(c, es). pairs es) g)"
proof -
  have "pl_capped (fold (\<lambda>(c, es) pl. fold (plan_pair m now cap [] c) (pairs es) pl) g pl) = pl_capped pl
    \<and> map (\<lambda>d. (rd_subject d, rd_object d))
        (pl_docs (fold (\<lambda>(c, es) pl. fold (plan_pair m now cap [] c) (pairs es) pl) g pl)) =
      map (\<lambda>d. (rd_subject d, rd_object d)) (pl_docs pl) @ concat (map (\<lambda>(c, es). pairs es) g)" for pl
    by (induction g arbitrary: pl) (auto simp: uncapped_pairs [OF assms])
  then show ?thesis
    by (simp add: co_occurrence_plan_def pairs_fold_short empty_plan_def cong: prod.case_cong)
qed

lemma co_occurrence_cap_not_enforced_witness:
  "pl_capped (co_occurrence_plan id 0 1 [] [(''c'', [''a'', ''b'', ''d''])]) = 0
    \<and> map (\<lambda>d. (rd_subject d, rd_object d)) (pl_docs (co_occurrence_plan id 0 1 [] [(''c'', [''a'', ''b'', ''d''])])) =
      [(''a'', ''b''), (''a'', ''d''), (''b'', ''d'')]"
  using co_occurrence_cap_not_enforced [of 1 id 0 "[(''c'', [''a'', ''b'', ''d''])]"] by simp

end
