(* ===== verification/Graph_Final.thy ===== *)
theory Graph_Final
  imports Graph_Facts
begin

text \<open>
  The rest of the final pass: relationships between nearby chunks, predicted links, the density
  that stops the pass, and the order of its steps.
\<close>

section \<open>Nearby chunks\<close>

definition near :: "(string \<Rightarrow> string option option) \<Rightarrow> rel_doc \<Rightarrow> bool" where
  "near types d =
     (rd_subject d \<noteq> rd_object d \<and> types (rd_subject d) \<noteq> None \<and> types (rd_object d) \<noteq> None
      \<and> 0.4 \<le> rd_confidence d \<and> rd_confidence d \<le> 0.6)"

lemma distance_confidence_range: "1 \<le> d \<Longrightarrow> 0.4 \<le> distance_confidence d \<and> distance_confidence d \<le> 0.6"
proof -
  assume "1 \<le> d"
  then have "1 \<le> (of_int d :: real)" by simp
  then have "0.6 - (of_int d - 1) * 0.05 \<le> (0.6 :: real)" by simp
  then show ?thesis
    unfolding distance_confidence_def max.bounded_iff by (intro conjI max.cobounded1) simp_all
qed

lemma cross_pair_near:
  assumes "list_all (near types) (pl_docs pl)" and "1 \<le> d"
  shows "list_all (near types) (pl_docs (cross_pair m now mode types rels v c1 c2 d p pl))"
proof (cases p)
  case (Pair e1 e2)
  show ?thesis
    using assms distance_confidence_range [OF assms(2)] unfolding Pair
    by (auto simp: cross_pair_def Let_def near_def cross_chunk_doc_def split: option.split)
qed

lemma fold_keeps:
  assumes "\<And>x s. x \<in> set xs \<Longrightarrow> P s \<Longrightarrow> P (f x s)" and "P s"
  shows "P (fold f xs s)"
  using assms by (induction xs arbitrary: s) auto

lemma window_pairs_distance:
  "(a, b, d) \<in> set (window_pairs w cs) \<Longrightarrow> 1 \<le> d \<and> d \<le> w \<and> a \<in> set cs \<and> b \<in> set cs"
  by (auto simp: window_pairs_def)

text \<open>Every relationship planned between nearby chunks joins two different stored entities, with a
  confidence between 0.4 and 0.6.\<close>

theorem cross_chunk_relations_near:
  "list_all (near types) (pl_docs (cross_chunk_plan m now override types rels metas g))"
  unfolding cross_chunk_plan_def Let_def
proof (rule fold_keeps [where P = "\<lambda>pl. list_all (near types) (pl_docs pl)"], goal_cases)
  case (1 x s)
  obtain video cs where x: "x = (video, cs)" by (rule prod.exhaust)
  show ?case
    unfolding x prod.case
  proof (rule fold_keeps [where P = "\<lambda>pl. list_all (near types) (pl_docs pl)"], goal_cases)
    case (1 y s)
    obtain ts1 c1 ts2 c2 d where y: "y = ((ts1, c1), (ts2, c2), d)" by (metis prod.exhaust)
    have d: "1 \<le> d" using window_pairs_distance [OF 1(1) [unfolded y]] by simp
    show ?case
      unfolding y prod.case
      by (rule fold_keeps [where P = "\<lambda>pl. list_all (near types) (pl_docs pl)"])
        (use cross_pair_near d 1(2) in auto)
  qed (use 1(2) in simp)
qed (simp add: empty_plan_def)

text \<open>The pattern of the reversed types keeps the order of the entities: a concept discusses a
  person.\<close>

lemma reversed_pattern_not_swapped:
  "determine_cross_chunk_predicate (Some ''CONCEPT'') (Some ''PERSON'') = ''discusses''"
  by code_simp

section \<open>Predicted links\<close>

definition score :: "prediction \<Rightarrow> real" where
  "score x = snd (snd (snd x))"

lemma keep_prediction_score:
  "keep_prediction x seen =
     (case map_of seen (prediction_key x) of
        None \<Rightarrow> AList.update (prediction_key x) x seen
      | Some y \<Rightarrow> if score y < score x then AList.update (prediction_key x) x seen else seen)"
  unfolding keep_prediction_def score_def by (rule refl)

definition seen_ok :: "((string list \<times> string) \<times> prediction) list \<Rightarrow> bool" where
  "seen_ok seen = (wf_dict seen \<and> (\<forall>(k, x) \<in> set seen. prediction_key x = k))"

lemma keep_prediction_ok: "seen_ok seen \<Longrightarrow> seen_ok (keep_prediction x seen)"
proof -
  assume ok: "seen_ok seen"
  have sub: "set (AList.update i x seen) \<subseteq> insert (i, x) (set seen)" for i
    by (induction seen) auto
  have "seen_ok (AList.update (prediction_key x) x seen)"
    unfolding seen_ok_def
  proof
    show "wf_dict (AList.update (prediction_key x) x seen)"
      using ok by (simp add: seen_ok_def)
    show "\<forall>(k, y) \<in> set (AList.update (prediction_key x) x seen). prediction_key y = k"
      using ok sub [of "prediction_key x"] unfolding seen_ok_def by blast
  qed
  with ok show ?thesis
    unfolding keep_prediction_def by (cases "map_of seen (prediction_key x)") auto
qed

lemma keep_prediction_best:
  assumes "map_of (keep_prediction x seen) k = Some y"
  shows "y = x \<or> map_of seen k = Some y"
  using assms by (auto simp: keep_prediction_def split: option.splits if_splits)

lemma keep_prediction_cases:
  obtains (new) "map_of (keep_prediction x seen) = (map_of seen)(prediction_key x \<mapsto> x)"
      and "\<And>y. map_of seen (prediction_key x) = Some y \<Longrightarrow> score y < score x"
  | (old) y where "keep_prediction x seen = seen" and "map_of seen (prediction_key x) = Some y"
      and "score x \<le> score y"
proof (cases "map_of seen (prediction_key x)")
  case None
  then show thesis by (intro new) (simp_all add: keep_prediction_score fun_eq_iff)
next
  case (Some y)
  show thesis
  proof (cases "score y < score x")
    case True
    with Some show thesis by (intro new) (simp_all add: keep_prediction_score fun_eq_iff)
  next
    case False
    with Some show thesis by (intro old [of y]) (simp_all add: keep_prediction_score)
  qed
qed

lemma keep_prediction_covers:
  "\<exists>y. map_of (keep_prediction x seen) (prediction_key x) = Some y \<and> score x \<le> score y"
proof (cases rule: keep_prediction_cases [of x seen])
  case new
  then show ?thesis by (intro exI [of _ x]) simp
next
  case (old y)
  then show ?thesis by (intro exI [of _ y]) simp
qed

lemma keep_prediction_grows:
  assumes "map_of seen k = Some z"
  shows "\<exists>y. map_of (keep_prediction x seen) k = Some y \<and> score z \<le> score y"
proof (cases rule: keep_prediction_cases [of x seen])
  case new
  show ?thesis
  proof (cases "k = prediction_key x")
    case True
    with new assms show ?thesis by (intro exI [of _ x]) (simp add: less_imp_le)
  next
    case False
    with new assms show ?thesis by (intro exI [of _ z]) simp
  qed
next
  case (old y)
  with assms show ?thesis by (intro exI [of _ z]) simp
qed

lemma keep_fold_grows:
  "map_of seen k = Some z \<Longrightarrow> \<exists>y. map_of (fold keep_prediction ps seen) k = Some y \<and> score z \<le> score y"
proof (induction ps arbitrary: seen z)
  case (Cons p ps)
  obtain y where "map_of (keep_prediction p seen) k = Some y" and "score z \<le> score y"
    using keep_prediction_grows [OF Cons.prems] by blast
  with Cons.IH [of "keep_prediction p seen" y] show ?case
    by (auto intro: order_trans)
qed auto

lemma keep_fold_covers:
  "x \<in> set ps \<Longrightarrow> \<exists>y. map_of (fold keep_prediction ps seen) (prediction_key x) = Some y \<and> score x \<le> score y"
proof (induction ps arbitrary: seen)
  case (Cons p ps)
  show ?case
  proof (cases "x = p")
    case True
    obtain y where y: "map_of (keep_prediction x seen) (prediction_key x) = Some y" "score x \<le> score y"
      using keep_prediction_covers by blast
    from keep_fold_grows [OF y(1), of ps] y(2) True show ?thesis
      by (auto intro: order_trans)
  next
    case False
    with Cons show ?thesis by simp
  qed
qed simp

lemma keep_fold_ok: "seen_ok seen \<Longrightarrow> seen_ok (fold keep_prediction ps seen)"
  by (induction ps arbitrary: seen) (simp_all add: keep_prediction_ok)

lemma keep_fold_subset:
  "map_of (fold keep_prediction ps seen) k = Some y \<Longrightarrow> y \<in> set ps \<or> map_of seen k = Some y"
proof (induction ps arbitrary: seen)
  case (Cons p ps)
  then have "y \<in> set ps \<or> map_of (keep_prediction p seen) k = Some y" by simp
  with keep_prediction_best [of p seen k y] show ?case by fastforce
qed simp

text \<open>C17: Removing duplicates keeps one prediction for each unordered pair and predicate, taken from
  the input, and every prediction is represented by one at least as confident.\<close>

theorem deduplication_keeps_best:
  "distinct (map prediction_key (deduplicate_predictions ps))
    \<and> set (deduplicate_predictions ps) \<subseteq> set ps
    \<and> list_all (\<lambda>x. list_ex (\<lambda>y. prediction_key y = prediction_key x \<and> score x \<le> score y)
        (deduplicate_predictions ps)) ps"
proof -
  define seen where "seen = fold keep_prediction ps []"
  have ok: "seen_ok seen"
    unfolding seen_def by (rule keep_fold_ok) (simp add: seen_ok_def)
  have d: "deduplicate_predictions ps = map snd seen"
    by (simp add: deduplicate_predictions_def seen_def)
  have keys: "map prediction_key (map snd seen) = keys seen"
    using ok by (auto simp: seen_ok_def)
  have "distinct (map prediction_key (deduplicate_predictions ps))"
    unfolding d keys using ok by (simp add: seen_ok_def wf_dict_def)
  moreover have "set (deduplicate_predictions ps) \<subseteq> set ps"
  proof
    fix y
    assume "y \<in> set (deduplicate_predictions ps)"
    then obtain k where "(k, y) \<in> set seen" by (auto simp: d)
    then have "map_of seen k = Some y" using ok by (simp add: seen_ok_def wf_dict_def)
    then show "y \<in> set ps" using keep_fold_subset [of ps "[]" k y] by (simp add: seen_def)
  qed
  moreover have "list_ex (\<lambda>y. prediction_key y = prediction_key x \<and> score x \<le> score y)
      (deduplicate_predictions ps)" if mem: "x \<in> set ps" for x
  proof -
    obtain y where y: "map_of seen (prediction_key x) = Some y" "score x \<le> score y"
      using keep_fold_covers [OF mem, of "[]"] unfolding seen_def by blast
    then have "(prediction_key x, y) \<in> set seen" by (simp add: map_of_SomeD)
    with ok y(2) show ?thesis
      unfolding d list_ex_iff seen_ok_def by force
  qed
  ultimately show ?thesis by (simp add: list_all_iff)
qed

section \<open>Density\<close>

text \<open>
  The density is never measured: without a relationship, or with fewer than two entities, it is 0; with
  both, the key that is read does not exist.
\<close>

lemma density_raises:
  assumes "2 \<le> n" and "rels \<noteq> []"
  shows "current_graph_density n rels = Inl (Exn ''KeyError'' ([quote] @ ''count'' @ [quote]))"
  using assms by (simp add: current_graph_density_def pair_result_def bindR_def)

lemma density_zero:
  assumes "\<not> (2 \<le> n \<and> rels \<noteq> [])"
  shows "current_graph_density n rels = Inr 0"
  using assms by (auto simp: current_graph_density_def pair_result_def bindR_def Let_def)

section \<open>The order of the final steps\<close>

text \<open>Reads that return what is stored and change nothing.\<close>

definition plain_reads :: "'s final_steps \<Rightarrow> ('s \<Rightarrow> nat) \<Rightarrow> ('s \<Rightarrow> rel_doc list) \<Rightarrow> bool" where
  "plain_reads F ents rels \<longleftrightarrow>
     (\<forall>s. f_entities F s = (Inr (ents s), s)) \<and> (\<forall>s. f_relations F s = (Inr (rels s), s))"

lemma f_density_reads:
  assumes "plain_reads F ents rels"
  shows "f_density F s =
    ((if 2 \<le> ents s \<and> rels s \<noteq> [] then Inl (Exn ''KeyError'' ([quote] @ ''count'' @ [quote])) else Inr 0), s)"
  using assms by (auto simp: f_density_def plain_reads_def bindA_def ret_def liftR_def density_raises density_zero not_le)

text \<open>A step is attempted: its exception and that of the density are swallowed, what it did stays.\<close>

lemma attempt_returns:
  assumes "only_exceptions step" and "plain_reads F ents rels"
  shows "attempt F step s = (Inr (), snd (step s))"
proof -
  obtain r s1 where st: "step s = (r, s1)" by (rule prod.exhaust)
  show ?thesis
  proof (cases r)
    case (Inl e)
    with assms(1) st have "is_Exception e"
      unfolding only_exceptions_def by (metis (no_types, lifting) fst_conv old.sum.simps(5))
    with Inl st show ?thesis by (simp add: attempt_def tryA_def bindA_def ret_def)
  next
    case (Inr n)
    with st show ?thesis
      by (simp add: attempt_def tryA_def bindA_def ret_def f_density_reads [OF assms(2)] is_Exception_def)
  qed
qed

text \<open>How the final pass ends: by the \<open>KeyError\<close> of the density, or by the missing method.\<close>

definition ends_badly :: "('s, unit) act \<Rightarrow> bool" where
  "ends_badly m \<longleftrightarrow> (\<forall>s. \<exists>e s'. m s = (Inl e, s') \<and> exn_type e \<in> {''KeyError'', ''AttributeError''})"

lemma unless_dense_ends_badly:
  assumes "plain_reads F ents rels" and "0 < max_density" and "ends_badly go"
  shows "ends_badly (unless_dense F max_density stop go)"
  using assms(2,3) by (simp add: ends_badly_def unless_dense_def bindA_def f_density_reads [OF assms(1)])

lemma attempt_ends_badly:
  assumes "only_exceptions step" and "plain_reads F ents rels" and "ends_badly go"
  shows "ends_badly (seqA (attempt F step) go)"
  using assms(3) by (simp add: ends_badly_def seqA_def attempt_returns [OF assms(1,2)])

lemma log_ends_badly: "ends_badly (seqA log_comprehensive_metrics m)"
  by (simp add: ends_badly_def seqA_def log_comprehensive_metrics_def raise_def)

definition steps_raise_exceptions :: "'s final_steps \<Rightarrow> bool" where
  "steps_raise_exceptions F \<longleftrightarrow>
     list_all only_exceptions [f_co_occurrence F, f_similarity F, f_cross_chunk F, f_bidirectional F, f_predicted F]"

lemma graph_finalize_raises:
  assumes reads: "plain_reads F ents rels" and steps: "steps_raise_exceptions F" and max: "0 < max_density"
  shows "ends_badly (graph_finalize F max_density link)"
proof -
  have predicted: "ends_badly (seqA (if link then attempt F (f_predicted F) else ret ()) (seqA log_comprehensive_metrics (ret ())))"
  proof (cases link)
    case True
    then show ?thesis using attempt_ends_badly [OF _ reads log_ends_badly] steps by (simp add: steps_raise_exceptions_def)
  next
    case False
    then show ?thesis by (simp add: ends_badly_def seqA_def ret_def log_comprehensive_metrics_def raise_def)
  qed
  show ?thesis
    unfolding graph_finalize_def
    by (intro attempt_ends_badly [OF _ reads] unless_dense_ends_badly [OF reads max] predicted)
      (use steps in \<open>simp_all add: steps_raise_exceptions_def\<close>)
qed

lemma graph_finalize_stops:
  assumes reads: "plain_reads F ents rels" and steps: "steps_raise_exceptions F"
    and s1: "s1 = snd (f_co_occurrence F s)" and graph: "2 \<le> ents s1" "rels s1 \<noteq> []"
  shows "graph_finalize F max_density link s = (Inl (Exn ''KeyError'' ([quote] @ ''count'' @ [quote])), s1)"
proof -
  have co: "only_exceptions (f_co_occurrence F)" using steps by (simp add: steps_raise_exceptions_def)
  show ?thesis unfolding graph_finalize_def seqA_def [of "attempt F (f_co_occurrence F)"]
    using attempt_returns [OF co reads, of s] graph
    by (simp add: unless_dense_def bindA_def f_density_reads [OF reads] s1)
qed


text \<open>The properties of relationship resolution, stage runs and the final pass on concrete data.\<close>

section \<open>Stage runs\<close>

definition demo_steps :: "(unit \<times> stage_statistics) final_steps" where
  "demo_steps =
     \<lparr> f_co_occurrence = ret 0, f_similarity = ret 0, f_cross_chunk = ret 0, f_bidirectional = ret 0,
       f_predicted = ret 0, f_entities = ret 2,
       f_relations = ret [co_occurrence_doc id 0 ''c1'' ''a'' ''b''] \<rparr>"

definition demo_methods :: "(unit, nat) stage_methods" where
  "demo_methods =
     \<lparr> m_setup = ret (), m_iter_docs = ret [7, 8, 9], m_handle_doc = (\<lambda>d. ret (PInt (int d))),
       m_process_doc_with_tracking = (\<lambda>d. ret (PInt (int d))), m_estimate_tokens = (\<lambda>d. Inr 100),
       m_store_batch_results = (\<lambda>rs ds. ret ()), m_finalize = ret (), m_run_concurrent = None \<rparr>"

definition demo_setting :: "int option \<Rightarrow> nat run_setting" where
  "demo_setting workers =
     \<lparr> r_max = None, r_concurrency = workers, r_use_tpm_tracking = True, r_target_tpm = 1000,
       r_start_time = (\<lambda>d. 0), r_end_time = (\<lambda>d. 1), r_order = (\<lambda>n. [2, 0, 1]) \<rparr>"

definition demo_start :: "unit stage_state" where
  "demo_start =
     \<lparr> world = (), stats = \<lparr> processed = 0, skipped = 0, failed = 0, updated = 0 \<rparr>,
       counts = \<lparr> stage_started = 0, stage_completed = 0, stage_failed = 0, documents_processed = 0,
                  documents_failed = 0 \<rparr>,
       window = [] \<rparr>"

lemma only_exceptions_ret: "only_exceptions (ret x)"
  by (simp add: only_exceptions_def ret_def)

lemma results_in_document_order_witness:
  "\<exists>results t'. run_workers demo_methods (demo_setting (Some 2)) [7, 8, 9] [2, 0, 1] [] demo_start = (Inr results, t')
    \<and> in_order (length [7, 8, 9 :: nat]) results = map (\<lambda>d. PInt (int d)) [7, 8, 9]"
proof (rule results_in_document_order)
  show "\<exists>t'. process_with_tracking demo_methods (demo_setting (Some 2)) d t = (Inr (PInt (int d)), t')" for d t
    by (simp add: process_with_tracking_def demo_methods_def tryA_def bindA_def seqA_def liftR_def
        modifyA_def on_world_def ret_def)
  show "set [2, 0, 1] = {0..<length [7, 8, 9 :: nat]}" by auto
qed

lemma concurrent_run_never_finalizes_witness:
  "stage_run (demo_methods\<lparr>m_finalize := raise (Exn ''RuntimeError'' [])\<rparr>) (demo_setting (Some 2)) =
   stage_run demo_methods (demo_setting (Some 2))"
  by (rule concurrent_run_never_finalizes) (simp_all add: use_concurrent_def demo_setting_def)

lemma sequential_run_accounts_witness:
  "\<exists>t'. stage_run demo_methods (demo_setting None) demo_start = (Inr 0, t')
    \<and> documents_processed (counts t') + documents_failed (counts t') =
        documents_processed (counts demo_start) + documents_failed (counts demo_start) + length [7, 8, 9 :: nat]
    \<and> stage_completed (counts t') = Suc (stage_completed (counts demo_start))
    \<and> stage_failed (counts t') = stage_failed (counts demo_start)"
  by (rule sequential_run_accounts)
    (auto simp: use_concurrent_def demo_setting_def demo_methods_def only_exceptions_def ret_def)

lemma tpm_target_not_enforced_witness:
  "window_tokens (admit 1000 [(0, 900), (1, 900), (2, 900)] []) = 2700
    \<and> snd (wait_for_tpm_capacity 1000 3 900 []) \<le> 5 / 100"
  using tpm_target_not_enforced [of 0 "[(0, 900), (1, 900), (2, 900)]" 1000 3 900 "[]"] by simp


section \<open>The final pass\<close>

definition demo_rel :: "string \<Rightarrow> string \<Rightarrow> string \<Rightarrow> rel_doc" where
  "demo_rel s p t =
     \<lparr> rd_id = generate_relationship_id id s t p, rd_subject = s, rd_object = t, rd_predicate = p,
       rd_description = ''A sentence of it.'', rd_confidence = 0.9, rd_source_count = 1,
       rd_source_chunks = [''c1''], rd_type = ''extracted'',
       rd_attribution = build_attribution ''graph_construction'' ''extraction'' [] 0 \<rparr>"

lemma reverse_pass_idempotent_witness:
  "\<exists>rels' pl. bidirectional_plan id 0 [] [demo_rel ''a'' ''uses'' ''b''] = (rels', pl)
    \<and> length (pl_docs pl) = 1
    \<and> pl_docs (snd (bidirectional_plan id 1 [] (rels' @ pl_docs pl))) = []"
proof -
  obtain rels' pl where p: "bidirectional_plan id 0 [] [demo_rel ''a'' ''uses'' ''b''] = (rels', pl)"
    by (rule prod.exhaust)
  have "length (pl_docs (snd (bidirectional_plan id 0 [] [demo_rel ''a'' ''uses'' ''b'']))) = 1"
    by code_simp
  with p have "length (pl_docs pl) = 1" by simp
  with p reverse_pass_idempotent [OF p, of 1] show ?thesis by blast
qed

section \<open>Relationships\<close>

definition demo_rel_agent :: rel_agent where
  "demo_rel_agent =
     \<lparr> ra_md5 = id, ra_model_name = ''gpt-4o-mini'', ra_temperature = 0.1, ra_prompt = [],
       ra_chat = (\<lambda>r. Inr ''A summary of it.'') \<rparr>"

definition demo_id :: "char \<Rightarrow> string" where
  "demo_id c = replicate 32 c"

definition demo_names :: "name_doc list" where
  "demo_names =
     [\<lparr> nd_id = demo_id (CHR ''a''), nd_canonical = Some ''Alice'', nd_name = None, nd_aliases = None \<rparr>,
      \<lparr> nd_id = demo_id (CHR ''b''), nd_canonical = Some ''Python'', nd_name = None, nd_aliases = None \<rparr>]"

definition demo_relations :: "rel_extraction list" where
  "demo_relations =
     [\<lparr> rx_relationships = Some
          [\<lparr> ri_source = Some (Some ''Alice''), ri_target = Some (Some ''Python''), ri_relation = Some ''uses'',
             ri_description = Some ''Alice uses Python.'', ri_confidence = Some 0.9, ri_source_chunk = [] \<rparr>],
        rx_chunk_id = Some ''c1'' \<rparr>]"

definition demo_rel_agent32 :: rel_agent where
  "demo_rel_agent32 = demo_rel_agent\<lparr>ra_md5 := (\<lambda>s. demo_id (CHR ''c''))\<rparr>"

lemma colon_drops_relationship_witness:
  "resolve_relationship_group demo_rel_agent None ''c:d:e:f'' [hd (the (rx_relationships (hd demo_relations)))] =
    Inl (Exn ''ValueError'' ''too many values to unpack (expected 3)'')"
  by (rule colon_drops_relationship) simp_all


lemma untyped_identifier_differs_witness:
  "lookup_entity_id demo_rel_agent ''python'' (Some []) \<noteq>
    Some (generate_entity_id (ra_md5 demo_rel_agent) ''python'' (Some TECHNOLOGY))"
  by (rule untyped_identifier_differs) (simp_all add: demo_rel_agent_def)

end
