(* ===== verification/Ontology.thy ===== *)
theory Ontology
  imports Text
begin

text \<open>
  \<open>lib/ontology/loader.py\<close>: the canonical predicates, the map from variants to them, the type
  constraints and the map of types, read from YAML files and cached.

  What \<open>yaml.safe_load\<close> returns is the datatype \<open>yaml\<close>; the files of the ontology directory,
  each missing, unreadable or read, are a parameter. Sets are lists without repetitions. The
  search for the directory and the log records are left out.
\<close>

section \<open>YAML values\<close>

datatype yaml =
    YNull
  | YBool bool
  | YInt int
  | YFloat rat
  | YStr string
  | YList "yaml list"
  | YMap "(yaml \<times> yaml) list"

fun yaml_truthy :: "yaml \<Rightarrow> bool" where
  "yaml_truthy YNull = False"
| "yaml_truthy (YBool b) = b"
| "yaml_truthy (YInt i) = (i \<noteq> 0)"
| "yaml_truthy (YFloat r) = (r \<noteq> 0)"
| "yaml_truthy (YStr s) = (s \<noteq> [])"
| "yaml_truthy (YList xs) = (xs \<noteq> [])"
| "yaml_truthy (YMap d) = (d \<noteq> [])"

text \<open>\<open>data[k] if k in data\<close>: a list or a text that contains the key raises at the lookup, and a
  number or a truth value at the test.\<close>

fun yaml_section :: "string \<Rightarrow> yaml \<Rightarrow> yaml option res" where
  "yaml_section k (YMap d) = Inr (map_of d (YStr k))"
| "yaml_section k (YList xs) =
     (if YStr k \<in> set xs then Inl (Exn ''TypeError'' ''list indices must be integers or slices, not str'')
      else Inr None)"
| "yaml_section k (YStr s) =
     (if str_contains k s then Inl (Exn ''TypeError'' ''string indices must be integers'') else Inr None)"
| "yaml_section k _ = Inl (Exn ''TypeError'' ''argument is not iterable'')"

fun strings_of :: "yaml list \<Rightarrow> string list" where
  "strings_of [] = []"
| "strings_of (YStr s # ys) = s # strings_of ys"
| "strings_of (_ # ys) = strings_of ys"

section \<open>The ontology\<close>

record ontology =
  canonical_predicates :: "string list"
  symmetric_predicates :: "string list"
  predicate_map :: "(string \<times> string) list"
  type_constraints :: "(string \<times> (string \<times> string) list) list"
  type_map :: "(yaml \<times> yaml) list"

definition empty_ontology :: ontology where
  "empty_ontology =
     \<lparr> canonical_predicates = [], symmetric_predicates = [], predicate_map = [],
       type_constraints = [], type_map = [] \<rparr>"

definition is_comment :: "string \<Rightarrow> bool" where
  "is_comment s = str_startswith (str_strip s) ''#''"

text \<open>A list section without comments and entries that are not strings, as a set.\<close>

definition predicate_set :: "yaml list \<Rightarrow> string list" where
  "predicate_set ys = remdups (filter (\<lambda>s. \<not> is_comment s) (strings_of ys))"

fun type_pairs :: "yaml list \<Rightarrow> (string \<times> string) list" where
  "type_pairs [] = []"
| "type_pairs (YList [YStr s, YStr t] # ys) = (s, t) # type_pairs ys"
| "type_pairs (_ # ys) = type_pairs ys"

fun constraints_of :: "(yaml \<times> yaml) list \<Rightarrow> (string \<times> (string \<times> string) list) list
    \<Rightarrow> (string \<times> (string \<times> string) list) list" where
  "constraints_of [] acc = acc"
| "constraints_of ((YStr p, YList ys) # cs) acc =
     constraints_of cs (if type_pairs ys \<noteq> [] then AList.update p (type_pairs ys) acc else acc)"
| "constraints_of (_ # cs) acc = constraints_of cs acc"

definition set_canonical :: "yaml option \<Rightarrow> ontology \<Rightarrow> ontology" where
  "set_canonical v ont =
     (case v of Some (YList ys) \<Rightarrow> ont\<lparr>canonical_predicates := predicate_set ys\<rparr> | _ \<Rightarrow> ont)"

definition set_symmetric :: "yaml option \<Rightarrow> ontology \<Rightarrow> ontology" where
  "set_symmetric v ont =
     (case v of Some (YList ys) \<Rightarrow> ont\<lparr>symmetric_predicates := predicate_set ys\<rparr> | _ \<Rightarrow> ont)"

definition set_constraints :: "yaml option \<Rightarrow> ontology \<Rightarrow> ontology" where
  "set_constraints v ont =
     (case v of Some (YMap cs) \<Rightarrow> ont\<lparr>type_constraints := constraints_of cs (type_constraints ont)\<rparr>
      | _ \<Rightarrow> ont)"

text \<open>One section after the other; an exception keeps what was loaded before it.\<close>

fun load_sections :: "(string \<times> (yaml option \<Rightarrow> ontology \<Rightarrow> ontology)) list \<Rightarrow> yaml \<Rightarrow> ontology \<Rightarrow> ontology" where
  "load_sections [] data ont = ont"
| "load_sections ((k, f) # fs) data ont =
     (case yaml_section k data of Inl e \<Rightarrow> ont | Inr v \<Rightarrow> load_sections fs data (f v ont))"

definition load_canonical :: "yaml \<Rightarrow> ontology \<Rightarrow> ontology" where
  "load_canonical data =
     load_sections [(''canonical_predicates'', set_canonical), (''symmetric_predicates'', set_symmetric),
                    (''predicate_type_constraints'', set_constraints)]
       (if yaml_truthy data then data else YMap [])"

fun map_entries :: "(yaml \<times> yaml) list \<Rightarrow> (string \<times> string) list \<Rightarrow> (string \<times> string) list" where
  "map_entries [] acc = acc"
| "map_entries ((YStr k, YStr v) # es) acc =
     map_entries es (if is_comment k then acc else AList.update k v acc)"
| "map_entries (_ # es) acc = map_entries es acc"

fun load_predicate_map :: "yaml \<Rightarrow> ontology \<Rightarrow> ontology" where
  "load_predicate_map (YMap d) ont = ont\<lparr>predicate_map := map_entries d (predicate_map ont)\<rparr>"
| "load_predicate_map _ ont = ont"

fun load_types :: "yaml \<Rightarrow> ontology \<Rightarrow> ontology" where
  "load_types (YMap d) ont =
     (case map_of d (YStr ''type_map'') of Some (YMap m) \<Rightarrow> ont\<lparr>type_map := m\<rparr> | _ \<Rightarrow> ont)"
| "load_types _ ont = ont"

fun merge_suggestions :: "(yaml \<times> yaml) list \<Rightarrow> (yaml \<times> yaml) list \<Rightarrow> (yaml \<times> yaml) list" where
  "merge_suggestions [] acc = acc"
| "merge_suggestions ((k, YMap info) # es) acc =
     merge_suggestions es
       (case map_of info (YStr ''canonical'') of
          None \<Rightarrow> acc
        | Some c \<Rightarrow> if yaml_truthy c then AList.update k c acc else acc)"
| "merge_suggestions ((k, YStr s) # es) acc = merge_suggestions es (AList.update k (YStr s) acc)"
| "merge_suggestions (_ # es) acc = merge_suggestions es acc"

fun load_entity_types :: "yaml \<Rightarrow> ontology \<Rightarrow> ontology" where
  "load_entity_types (YMap d) ont =
     (case map_of d (YStr ''type_map'') of
        Some v \<Rightarrow> (case v of YMap m \<Rightarrow> ont\<lparr>type_map := m\<rparr> | _ \<Rightarrow> ont)
      | None \<Rightarrow>
          (case map_of d (YStr ''merge_suggestions'') of
             Some (YMap m) \<Rightarrow> (let tm = merge_suggestions m [] in if tm \<noteq> [] then ont\<lparr>type_map := tm\<rparr> else ont)
           | _ \<Rightarrow> ont))"
| "load_entity_types _ ont = ont"

text \<open>A file of the directory: missing, or the outcome of opening and parsing it.\<close>

type_synonym files = "string \<Rightarrow> yaml res option"

definition with_file :: "files \<Rightarrow> string \<Rightarrow> (yaml \<Rightarrow> ontology \<Rightarrow> ontology) \<Rightarrow> ontology \<Rightarrow> ontology" where
  "with_file fs n f ont = (case fs n of Some (Inr v) \<Rightarrow> f v ont | _ \<Rightarrow> ont)"

definition read_ontology :: "files \<Rightarrow> ontology" where
  "read_ontology fs =
     (let o1 = with_file fs ''canonical_predicates.yml'' load_canonical empty_ontology;
          o2 = with_file fs ''predicate_map.yml'' load_predicate_map o1;
          o3 = with_file fs ''types.yml'' load_types o2
      in case fs ''types.yml'' of
           Some (Inr v) \<Rightarrow> o3
         | _ \<Rightarrow> with_file fs ''entity_types.yml'' load_entity_types o3)"

text \<open>The module's cache; without PyYAML nothing is read and nothing is cached.\<close>

definition load_ontology :: "bool \<Rightarrow> files \<Rightarrow> ontology option \<Rightarrow> ontology \<times> ontology option" where
  "load_ontology has_yaml fs cached =
     (case cached of
        Some ont \<Rightarrow> (ont, cached)
      | None \<Rightarrow> if \<not> has_yaml then (empty_ontology, None)
                else (read_ontology fs, Some (read_ontology fs)))"

definition clear_cache :: "ontology option \<Rightarrow> ontology option" where
  "clear_cache cached = None"

section \<open>What is loaded is well formed\<close>

definition ontology_ok :: "ontology \<Rightarrow> bool" where
  "ontology_ok ont =
     (distinct (canonical_predicates ont) \<and> distinct (symmetric_predicates ont)
      \<and> list_all (\<lambda>p. \<not> is_comment p) (canonical_predicates ont @ symmetric_predicates ont)
      \<and> wf_dict (predicate_map ont) \<and> list_all (\<lambda>(k, v). \<not> is_comment k) (predicate_map ont)
      \<and> wf_dict (type_constraints ont) \<and> list_all (\<lambda>(p, ps). ps \<noteq> []) (type_constraints ont))"

lemma constraints_of_ok:
  "wf_dict acc \<Longrightarrow> list_all (\<lambda>(p, ps). ps \<noteq> []) acc \<Longrightarrow>
   wf_dict (constraints_of cs acc) \<and> list_all (\<lambda>(p, ps). ps \<noteq> []) (constraints_of cs acc)"
proof (induction cs acc rule: constraints_of.induct)
  case (2 p ys cs acc)
  have "list_all (\<lambda>(p, ps). ps \<noteq> []) (AList.update p (type_pairs ys) acc)" if "type_pairs ys \<noteq> []"
    using set_update_subset [of p "type_pairs ys" acc] 2(3) that by (fastforce simp: list_all_iff)
  then show ?case using 2 by simp
qed auto

lemma map_entries_ok:
  "wf_dict acc \<Longrightarrow> list_all (\<lambda>(k, v). \<not> is_comment k) acc \<Longrightarrow>
   wf_dict (map_entries es acc) \<and> list_all (\<lambda>(k, v). \<not> is_comment k) (map_entries es acc)"
proof (induction es acc rule: map_entries.induct)
  case (2 k v es acc)
  have "list_all (\<lambda>(k, v). \<not> is_comment k) (AList.update k v acc)" if "\<not> is_comment k"
    using set_update_subset [of k v acc] 2(3) that by (fastforce simp: list_all_iff)
  then show ?case using 2 by simp
qed auto

lemma ok_canonical: "ontology_ok ont \<Longrightarrow> ontology_ok (set_canonical v ont)"
  by (auto simp: set_canonical_def ontology_ok_def predicate_set_def list_all_iff split: option.split yaml.split)

lemma ok_symmetric: "ontology_ok ont \<Longrightarrow> ontology_ok (set_symmetric v ont)"
  by (auto simp: set_symmetric_def ontology_ok_def predicate_set_def list_all_iff split: option.split yaml.split)

lemma ok_constraints: "ontology_ok ont \<Longrightarrow> ontology_ok (set_constraints v ont)"
  using constraints_of_ok [of "type_constraints ont"]
  by (simp add: set_constraints_def ontology_ok_def split: option.split yaml.split)

lemma load_sections_ok:
  "list_all (\<lambda>(k, f). \<forall>v ont. ontology_ok ont \<longrightarrow> ontology_ok (f v ont)) fs \<Longrightarrow> ontology_ok ont \<Longrightarrow>
   ontology_ok (load_sections fs data ont)"
  by (induction fs data ont rule: load_sections.induct) (auto split: sum.split)

lemma load_canonical_ok: "ontology_ok ont \<Longrightarrow> ontology_ok (load_canonical v ont)"
  unfolding load_canonical_def
  by (rule load_sections_ok) (simp_all add: ok_canonical ok_symmetric ok_constraints)

lemma load_predicate_map_ok: "ontology_ok ont \<Longrightarrow> ontology_ok (load_predicate_map v ont)"
  by (cases v) (auto simp: ontology_ok_def map_entries_ok)

lemma load_types_ok: "ontology_ok ont \<Longrightarrow> ontology_ok (load_types v ont)"
  by (cases v) (auto simp: ontology_ok_def split: option.splits yaml.splits)

lemma load_entity_types_ok: "ontology_ok ont \<Longrightarrow> ontology_ok (load_entity_types v ont)"
  by (cases v) (auto simp: ontology_ok_def Let_def split: option.splits yaml.splits)

lemma with_file_ok:
  "(\<And>v o'. ontology_ok o' \<Longrightarrow> ontology_ok (f v o')) \<Longrightarrow> ontology_ok ont \<Longrightarrow> ontology_ok (with_file fs n f ont)"
  by (auto simp: with_file_def split: option.split sum.split)

lemmas load_ok = load_canonical_ok load_predicate_map_ok load_types_ok load_entity_types_ok with_file_ok

lemma ontology_ok_empty [simp]: "ontology_ok empty_ontology"
  by (simp add: ontology_ok_def empty_ontology_def)

text \<open>
  Whatever the files hold, the loader returns a well-formed ontology: predicates without
  comments or repetitions, one entry per variant, and a non-empty list of pairs under every
  constrained predicate; a second call returns the same, from the cache.
\<close>

theorem ontology_loaded_well_formed:
  assumes "load_ontology has_yaml fs None = (ont, cached)"
  shows "ontology_ok ont \<and> (has_yaml \<longrightarrow> load_ontology has_yaml fs' cached = (ont, cached))"
  using assms
  by (auto simp: load_ontology_def read_ontology_def Let_def load_ok split: if_splits option.split sum.split)

lemma ontology_loaded_well_formed_witness:
  "ontology_ok (fst (load_ontology True (\<lambda>n. None) None))
    \<and> load_ontology True (\<lambda>n. Some (Inr YNull)) (snd (load_ontology True (\<lambda>n. None) None)) =
        load_ontology True (\<lambda>n. None) None"
  using ontology_loaded_well_formed [of True "\<lambda>n. None" "fst (load_ontology True (\<lambda>n. None) None)"
      "snd (load_ontology True (\<lambda>n. None) None)" "\<lambda>n. Some (Inr YNull)"] by simp

text \<open>Without the files the ontology is empty.\<close>

lemma missing_files: "read_ontology (\<lambda>n. None) = empty_ontology"
  by (simp add: read_ontology_def with_file_def)

end
