(* ===== verification/Knowledge_Extraction.thy ===== *)
theory Knowledge_Extraction
  imports Entity_Resolution Ontology
begin

text \<open>
  \<open>domain/graphrag/agents/extraction.py\<close> and the extraction part of \<open>core/models/graphrag.py\<close>:
  what the language model extracts from a chunk is filtered and brought to the predicates of the
  ontology.

  The language model is a parameter: \<open>xa_extract\<close> is the structured call with its retries
  (theory \<open>Retry_Policy\<close>), \<open>xa_normalize n t\<close> the content of the reply when the token \<open>t\<close> is
  asked as the \<open>n\<close>-th question. The cache of normalized tokens and the number of questions are
  the state. \<open>unidecode\<close> is the identity on ASCII text. The texts of the prompts and the log
  records are left out.
\<close>

section \<open>The data model\<close>

definition is_letter :: "char \<Rightarrow> bool" where
  "is_letter c = (let n = (of_char c :: nat) in 65 \<le> n \<and> n \<le> 90 \<or> 97 \<le> n \<and> n \<le> 122)"

definition upper_char :: "char \<Rightarrow> char" where
  "upper_char c = (let n = (of_char c :: nat) in if 97 \<le> n \<and> n \<le> 122 then char_of (n - 32) else c)"

definition str_upper :: "string \<Rightarrow> string" where
  "str_upper s = map upper_char s"

text \<open>\<open>s.title()\<close>: a letter is upper case after a character that is not one.\<close>

fun title_from :: "bool \<Rightarrow> string \<Rightarrow> string" where
  "title_from in_word [] = []"
| "title_from in_word (c # s) =
     (if in_word then lower_char c else upper_char c) # title_from (is_letter c) s"

record entity_model =
  xe_name :: string
  xe_type :: entity_type
  xe_description :: string
  xe_confidence :: real

record relationship_model =
  xr_source :: entity_model
  xr_target :: entity_model
  xr_relation :: string
  xr_description :: string
  xr_confidence :: real

record knowledge_model =
  km_entities :: "entity_model list"
  km_relationships :: "relationship_model list"

definition EntityModel :: "entity_model \<Rightarrow> entity_model res" where
  "EntityModel e =
     (if 1 \<le> length (xe_name e) \<and> length (xe_name e) \<le> 200
         \<and> 10 \<le> length (xe_description e) \<and> length (xe_description e) \<le> 2000
         \<and> 10 \<le> length (str_strip (xe_description e)) \<and> 0 \<le> xe_confidence e \<and> xe_confidence e \<le> 1
      then Inr (e\<lparr>xe_name := title_from False (str_strip (xe_name e)),
                  xe_description := str_strip (xe_description e)\<rparr>)
      else Inl (Exn ''ValidationError'' ''EntityModel''))"

definition RelationshipModel :: "relationship_model \<Rightarrow> relationship_model res" where
  "RelationshipModel r =
     (if 1 \<le> length (xr_relation r) \<and> length (xr_relation r) \<le> 100
         \<and> 10 \<le> length (xr_description r) \<and> length (xr_description r) \<le> 1000
         \<and> 10 \<le> length (str_strip (xr_description r)) \<and> 0 \<le> xr_confidence r \<and> xr_confidence r \<le> 1
      then Inr (r\<lparr>xr_relation := str_lower (str_strip (xr_relation r)),
                  xr_description := str_strip (xr_description r)\<rparr>)
      else Inl (Exn ''ValidationError'' ''RelationshipModel''))"

definition KnowledgeModel :: "entity_model list \<Rightarrow> relationship_model list \<Rightarrow> knowledge_model res" where
  "KnowledgeModel es rs =
     (if es = [] then Inl (Exn ''ValidationError'' ''At least one entity must be identified'')
      else Inr \<lparr> km_entities = es, km_relationships = rs \<rparr>)"

record extraction_request =
  xq_model :: string
  xq_user :: string
  xq_temperature :: "real option"
  xq_max_completion_tokens :: "int option"
  xq_max_tokens :: "int option"

record ext_agent =
  xa_model_name :: string
  xa_temperature :: real
  xa_max_tokens :: "int option"
  xa_ontology :: ontology
  xa_keep_unknown :: bool
  xa_normalize :: "nat \<Rightarrow> string \<Rightarrow> string option res"
  xa_extract :: "extraction_request \<Rightarrow> knowledge_model option res"

record ext_state =
  ncache :: "(string \<times> string) list"
  questions :: nat

section \<open>Normal forms of predicates\<close>

definition is_snake :: "char \<Rightarrow> bool" where
  "is_snake c = (let n = (of_char c :: nat) in 48 \<le> n \<and> n \<le> 57 \<or> 97 \<le> n \<and> n \<le> 122)"

text \<open>\<open>re.sub(r"[^a-z0-9]+", "_", p)\<close>; a second substitution for runs of underscores finds none.\<close>

fun snake_runs :: "bool \<Rightarrow> string \<Rightarrow> string" where
  "snake_runs in_run [] = []"
| "snake_runs in_run (c # s) =
     (if is_snake c then c # snake_runs False s
      else (if in_run then [] else ''_'') @ snake_runs True s)"

definition strip_char :: "char \<Rightarrow> string \<Rightarrow> string" where
  "strip_char x s = rev (dropWhile ((=) x) (rev (dropWhile ((=) x) s)))"

definition snake :: "string \<Rightarrow> string" where
  "snake p = strip_char (CHR ''_'') (snake_runs False (str_lower (str_strip p)))"

definition special_plurals :: "string list" where
  "special_plurals = [''classes'', ''phases'', ''bases'', ''cases'']"

definition is_ambiguous_token :: "string \<Rightarrow> bool" where
  "is_ambiguous_token t =
     (if length t \<le> 3 then False
      else if str_endswith t ''ing'' \<and> 4 < length t then False
      else if str_endswith t ''ies'' \<and> 4 < length t then False
      else t \<notin> set special_plurals)"

definition drop_end :: "nat \<Rightarrow> string \<Rightarrow> string" where
  "drop_end n s = take (length s - n) s"

definition long_plural :: "string \<Rightarrow> bool" where
  "long_plural t = list_ex (str_endswith t) [''ses'', ''xes'', ''zes'', ''ches'', ''shes'']"

definition short_verbs :: "string list" where
  "short_verbs = [''has'', ''is'', ''was'', ''as'']"

definition normalize_with_logic :: "string \<Rightarrow> string" where
  "normalize_with_logic t =
     (if length t \<le> 3 then t
      else if str_endswith t ''ing'' \<and> 4 < length t then drop_end 3 t
      else if str_endswith t ''ies'' \<and> 4 < length t then drop_end 3 t @ ''y''
      else if t \<in> set special_plurals then t
      else if long_plural t \<and> 4 < length t then (if t \<notin> set short_verbs then drop_end 1 t else t)
      else if str_endswith t ''es'' \<and> 4 < length t then drop_end 2 t
      else if str_endswith t ''s'' \<and> 2 < length t then (if t \<notin> set short_verbs then drop_end 1 t else t)
      else t)"

definition normalize_with_fallback_logic :: "string \<Rightarrow> string" where
  "normalize_with_fallback_logic t =
     (if long_plural t \<and> 4 < length t then drop_end 1 t
      else if str_endswith t ''es'' \<and> 4 < length t then drop_end 2 t
      else if str_endswith t ''s'' \<and> 2 < length t \<and> t \<notin> set short_verbs then drop_end 1 t
      else t)"

definition clean_reply :: "string option \<Rightarrow> string" where
  "clean_reply content =
     filter (\<lambda>c. is_snake c \<or> c = CHR ''_'')
       (str_lower (str_strip (case content of None \<Rightarrow> [] | Some c \<Rightarrow> c)))"

definition normalize_predicate_with_llm :: "ext_agent \<Rightarrow> string \<Rightarrow> (ext_state, string) act" where
  "normalize_predicate_with_llm A t = (\<lambda>s.
     case map_of (ncache s) (''normalize:'' @ t) of
       Some b \<Rightarrow> (Inr b, s)
     | None \<Rightarrow>
         (let s' = s\<lparr>questions := Suc (questions s)\<rparr>
          in case xa_normalize A (questions s) t of
               Inl e \<Rightarrow> if is_Exception e then (Inr (normalize_with_fallback_logic t), s') else (Inl e, s')
             | Inr content \<Rightarrow>
                 (let b = clean_reply content
                  in if b = [] then (Inr (normalize_with_fallback_logic t), s')
                     else (Inr b, s'\<lparr>ncache := AList.update (''normalize:'' @ t) b (ncache s)\<rparr>))))"

fun normalize_tokens :: "ext_agent \<Rightarrow> string list \<Rightarrow> (ext_state, string list) act" where
  "normalize_tokens A [] = ret []"
| "normalize_tokens A (t # ts) =
     bindA (if is_ambiguous_token t then normalize_predicate_with_llm A t else ret (normalize_with_logic t)) (\<lambda>b.
     bindA (normalize_tokens A ts) (\<lambda>bs. ret (b # bs)))"

definition split_on :: "char \<Rightarrow> string \<Rightarrow> string list" where
  "split_on c s = str_split_n c (length s) [] s"

definition normalize_predicate_string :: "ext_agent \<Rightarrow> string \<Rightarrow> (ext_state, string) act" where
  "normalize_predicate_string A p =
     (let q = snake p
      in if length q \<le> 3 then ret q
         else bindA (normalize_tokens A (split_on (CHR ''_'') q)) (\<lambda>ts. ret (str_join ''_'' ts)))"

section \<open>Canonical predicates\<close>

definition drop_mark :: string where
  "drop_mark = ''__DROP__''"

text \<open>What the map says of a predicate: nothing, that it is dropped, or its canonical form.\<close>

definition map_verdict :: "ontology \<Rightarrow> string \<Rightarrow> string option option" where
  "map_verdict ont k =
     (case map_of (predicate_map ont) k of
        None \<Rightarrow> None
      | Some c \<Rightarrow> if c = drop_mark then Some None else if c = [] then None else Some (Some c))"

definition lookup_normalized :: "ext_agent \<Rightarrow> string \<Rightarrow> real \<Rightarrow> string option" where
  "lookup_normalized A q conf =
     (case map_verdict (xa_ontology A) q of
        Some v \<Rightarrow> v
      | None \<Rightarrow>
          if q \<in> set (canonical_predicates (xa_ontology A)) then Some q
          else if xa_keep_unknown A \<and> 0.85 \<le> conf \<and> 4 \<le> length q then Some q
          else None)"

definition canonicalize_predicate :: "ext_agent \<Rightarrow> string \<Rightarrow> real \<Rightarrow> (ext_state, string option) act" where
  "canonicalize_predicate A p conf =
     (if snake p \<in> set (canonical_predicates (xa_ontology A)) then ret (Some (snake p))
      else (case map_verdict (xa_ontology A) (snake p) of
              Some v \<Rightarrow> ret v
            | None \<Rightarrow> bindA (normalize_predicate_string A p) (\<lambda>q. ret (lookup_normalized A q conf))))"

definition validate_type_pair :: "ontology \<Rightarrow> string \<Rightarrow> entity_type \<Rightarrow> entity_type \<Rightarrow> bool" where
  "validate_type_pair ont p s t =
     (let allowed = (case map_of (type_constraints ont) (snake p) of None \<Rightarrow> [] | Some ps \<Rightarrow> ps)
      in allowed = [] \<or>
         list_ex (\<lambda>(a, b). str_upper (type_value s) = str_upper a \<and> str_upper (type_value t) = str_upper b) allowed)"

section \<open>Symmetric relations\<close>

definition is_symmetric :: "ontology \<Rightarrow> string \<Rightarrow> bool" where
  "is_symmetric ont rel =
     (let r = str_lower (str_strip rel); syms = symmetric_predicates ont
      in r \<in> set syms \<or> list_ex (\<lambda>p. r = str_lower (str_strip p)) syms
         \<or> list_ex (\<lambda>p. snake r = snake p) syms)"

definition normalize_symmetric_relation :: "ontology \<Rightarrow> relationship_model \<Rightarrow> relationship_model res" where
  "normalize_symmetric_relation ont r =
     (if \<not> is_symmetric ont (xr_relation r) then Inr r
      else if str_lower (xe_name (xr_target r)) < str_lower (xe_name (xr_source r))
      then RelationshipModel (r\<lparr>xr_source := xr_target r, xr_target := xr_source r\<rparr>)
      else Inr r)"

section \<open>Filtering the extracted knowledge\<close>

text \<open>
  A relation whose predicate is dropped is normalized once more, to count the reason; the
  counts are only logged, but the questions to the model are not.
\<close>

fun canonicalize_relations :: "ext_agent \<Rightarrow> relationship_model list \<Rightarrow> (ext_state, relationship_model list) act" where
  "canonicalize_relations A [] = ret []"
| "canonicalize_relations A (r # rs) =
     bindA (canonicalize_predicate A (xr_relation r) (xr_confidence r)) (\<lambda>c.
     bindA (case c of
              None \<Rightarrow> bindA (normalize_predicate_string A (xr_relation r)) (\<lambda>q. ret [])
            | Some p \<Rightarrow>
                if validate_type_pair (xa_ontology A) p (xe_type (xr_source r)) (xe_type (xr_target r))
                then ret [r\<lparr>xr_relation := p\<rparr>] else ret []) (\<lambda>here.
     bindA (canonicalize_relations A rs) (\<lambda>more. ret (here @ more))))"

fun mapR :: "('a \<Rightarrow> 'b res) \<Rightarrow> 'a list \<Rightarrow> 'b list res" where
  "mapR f [] = Inr []"
| "mapR f (x # xs) = bindR (f x) (\<lambda>y. bindR (mapR f xs) (\<lambda>ys. Inr (y # ys)))"

definition validate_and_enhance :: "ext_agent \<Rightarrow> knowledge_model \<Rightarrow> (ext_state, knowledge_model) act" where
  "validate_and_enhance A km =
     (let es = filter (\<lambda>e. 0.3 \<le> xe_confidence e) (km_entities km);
          rs = filter (\<lambda>r. 0.3 \<le> xr_confidence r) (km_relationships km);
          names = map xe_name es
      in bindA (canonicalize_relations A rs) (\<lambda>cs.
         bindA (liftR (mapR (normalize_symmetric_relation (xa_ontology A)) cs)) (\<lambda>ns.
           let kept = filter (\<lambda>r. xe_name (xr_source r) \<in> set names \<and> xe_name (xr_target r) \<in> set names) ns
           in liftR (KnowledgeModel (map (\<lambda>e. e\<lparr>xe_confidence := max (xe_confidence e) 0.1\<rparr>) es)
                                    (map (\<lambda>r. r\<lparr>xr_confidence := max (xr_confidence r) 0.1\<rparr>) kept)))))"

section \<open>Extraction\<close>

definition extraction_restricted :: "ext_agent \<Rightarrow> bool" where
  "extraction_restricted A = list_ex (\<lambda>p. str_contains p (xa_model_name A)) [''gpt-5'', ''o1'', ''o3'']"

definition extract_request :: "ext_agent \<Rightarrow> string \<Rightarrow> extraction_request" where
  "extract_request A txt =
     \<lparr> xq_model = xa_model_name A, xq_user = ''Text: '' @ txt,
       xq_temperature = (if extraction_restricted A then None else Some (xa_temperature A)),
       xq_max_completion_tokens =
         (if extraction_restricted A
          then Some (case xa_max_tokens A of None \<Rightarrow> 16000 | Some m \<Rightarrow> if m = 0 then 16000 else max m 16000)
          else None),
       xq_max_tokens =
         (if extraction_restricted A then None
          else (case xa_max_tokens A of None \<Rightarrow> None | Some m \<Rightarrow> if m = 0 then None else Some m)) \<rparr>"

record ext_chunk =
  xc_chunk_id :: string
  xc_text :: "string option"

text \<open>
  Every exception of the model, the quota included, and every failure of the filter end as no
  result; a reply without a parsed model is the \<open>AttributeError\<close> of \<open>None.entities\<close>.
\<close>

definition extract_from_chunk :: "ext_agent \<Rightarrow> ext_chunk \<Rightarrow> (ext_state, knowledge_model option) act" where
  "extract_from_chunk A ch =
     (case xc_text ch of
        None \<Rightarrow> ret None
      | Some txt \<Rightarrow>
          if str_strip txt = [] then ret None
          else tryA (bindA (liftR (xa_extract A (extract_request A (str_strip txt)))) (\<lambda>reply.
                 case reply of
                   None \<Rightarrow> raise (Exn ''AttributeError'' ''entities'')
                 | Some km \<Rightarrow> bindA (validate_and_enhance A km) (\<lambda>v. ret (Some v))))
               (\<lambda>e. ret None))"

fun extract_all :: "ext_agent \<Rightarrow> ext_chunk list \<Rightarrow> (ext_state, knowledge_model option list) act" where
  "extract_all A [] = ret []"
| "extract_all A (c # cs) =
     bindA (extract_from_chunk A c) (\<lambda>r. bindA (extract_all A cs) (\<lambda>rs. ret (r # rs)))"

definition extract_batch :: "ext_agent \<Rightarrow> ext_chunk list \<Rightarrow> (ext_state, knowledge_model option list) act" where
  "extract_batch A cs = tryA (extract_all A cs) (\<lambda>e. ret [])"

record extraction_stats =
  es_total :: nat
  es_successful :: nat
  es_entities :: nat
  es_relationships :: nat
  es_avg_entities :: real
  es_avg_relationships :: real
  es_types :: "(entity_type \<times> nat) list"
  es_success_rate :: real

definition get_extraction_stats :: "knowledge_model option list \<Rightarrow> extraction_stats" where
  "get_extraction_stats results =
     (let ok = List.map_filter id results;
          n = sum_list (map (\<lambda>k. length (km_entities k)) ok);
          m = sum_list (map (\<lambda>k. length (km_relationships k)) ok)
      in if ok = []
         then \<lparr> es_total = length results, es_successful = 0, es_entities = 0, es_relationships = 0,
                es_avg_entities = 0, es_avg_relationships = 0, es_types = [], es_success_rate = 0 \<rparr>
         else \<lparr> es_total = length results, es_successful = length ok, es_entities = n, es_relationships = m,
                es_avg_entities = real n / real (length ok), es_avg_relationships = real m / real (length ok),
                es_types = fold (\<lambda>e. dd_add (xe_type e) 1) (concat (map km_entities ok)) [],
                es_success_rate = real (length ok) / real (length results) \<rparr>)"

end
