(* ===== verification/Knowledge_Facts.thy ===== *)
theory Knowledge_Facts
  imports Knowledge_Extraction
begin

text \<open>
  What the extraction agent guarantees of the knowledge it returns, what its cache saves, and
  where the ontology is enforced less than its documentation says.
\<close>

section \<open>Relations of the result\<close>

lemma bindA_Inr:
  "bindA m f s = (Inr y, s') \<longleftrightarrow> (\<exists>x t. m s = (Inr x, t) \<and> f x t = (Inr y, s'))"
  by (cases "m s") (auto simp: bindA_def split: sum.split)

lemma ret_Inr [simp]: "ret x s = (Inr y, s') \<longleftrightarrow> y = x \<and> s' = s"
  by (auto simp: ret_def)

lemma liftR_Inr [simp]: "liftR r s = (Inr y, s') \<longleftrightarrow> r = Inr y \<and> s' = s"
  by (cases r) (auto simp: liftR_def)

text \<open>A predicate the ontology knows: canonical, or the value of a variant, or kept although unknown.\<close>

definition known_predicate :: "ext_agent \<Rightarrow> real \<Rightarrow> string \<Rightarrow> bool" where
  "known_predicate A conf p =
     (p \<in> set (canonical_predicates (xa_ontology A))
      \<or> p \<noteq> drop_mark \<and> list_ex (\<lambda>(k, v). v = p) (predicate_map (xa_ontology A))
      \<or> xa_keep_unknown A \<and> 0.85 \<le> conf \<and> 4 \<le> length p)"

lemma map_verdict_known: "map_verdict (xa_ontology A) k = Some (Some p) \<Longrightarrow> known_predicate A conf p"
  by (auto simp: map_verdict_def known_predicate_def list_ex_iff dest!: map_of_SomeD split: option.splits if_splits)

lemma lookup_known: "lookup_normalized A q conf = Some p \<Longrightarrow> known_predicate A conf p"
  by (auto simp: lookup_normalized_def map_verdict_known split: option.splits if_splits)
    (simp_all add: known_predicate_def)

lemma canonicalize_known:
  assumes "canonicalize_predicate A p conf s = (Inr (Some q), s')"
  shows "known_predicate A conf q"
  using assms
  by (auto simp: canonicalize_predicate_def bindA_Inr map_verdict_known lookup_known known_predicate_def [of A conf "snake p"]
        split: if_splits option.splits)

definition accepted :: "ext_agent \<Rightarrow> relationship_model \<Rightarrow> bool" where
  "accepted A r = (known_predicate A (xr_confidence r) (xr_relation r)
     \<and> validate_type_pair (xa_ontology A) (xr_relation r) (xe_type (xr_source r)) (xe_type (xr_target r)))"

lemma canonicalize_relations_accepted:
  assumes "canonicalize_relations A rs s = (Inr cs, s')"
  shows "list_all (\<lambda>c. accepted A c \<and> list_ex (\<lambda>r. c = r\<lparr>xr_relation := xr_relation c\<rparr>) rs) cs"
  using assms
proof (induction rs arbitrary: s cs)
  case (Cons r rs)
  from Cons.prems obtain c t here u more where
    c: "canonicalize_predicate A (xr_relation r) (xr_confidence r) s = (Inr c, t)"
    and here: "(case c of None \<Rightarrow> bindA (normalize_predicate_string A (xr_relation r)) (\<lambda>q. ret [])
        | Some p \<Rightarrow> if validate_type_pair (xa_ontology A) p (xe_type (xr_source r)) (xe_type (xr_target r))
            then ret [r\<lparr>xr_relation := p\<rparr>] else ret []) t = (Inr here, u)"
    and more: "canonicalize_relations A rs u = (Inr more, s')" and cs: "cs = here @ more"
    by (auto simp: bindA_Inr)
  have "list_all (\<lambda>c. accepted A c \<and> c = r\<lparr>xr_relation := xr_relation c\<rparr>) here"
  proof (cases c)
    case None
    with here show ?thesis by (auto simp: bindA_Inr)
  next
    case (Some p)
    with here canonicalize_known [of A "xr_relation r" "xr_confidence r" s p t] c show ?thesis
      by (auto simp: accepted_def split: if_splits)
  qed
  moreover have "list_all (\<lambda>c. accepted A c \<and> list_ex (\<lambda>r. c = r\<lparr>xr_relation := xr_relation c\<rparr>) rs) more"
    using Cons.IH [OF more] .
  ultimately show ?case unfolding cs by (auto simp: list_all_iff)
qed simp

lemma mapR_in: "mapR f xs = Inr ys \<Longrightarrow> y \<in> set ys \<Longrightarrow> \<exists>x\<in>set xs. f x = Inr y"
  by (induction xs arbitrary: ys) (auto simp: bindR_eq_Inr)

text \<open>The normal form of a relation: the same, or mirrored with its predicate in lower case.\<close>

definition ordered :: "ontology \<Rightarrow> relationship_model \<Rightarrow> bool" where
  "ordered ont r = (is_symmetric ont (xr_relation r) \<longrightarrow>
     str_lower (xe_name (xr_source r)) \<le> str_lower (xe_name (xr_target r)))"

lemma normalize_symmetric_ordered:
  assumes "normalize_symmetric_relation ont r = Inr q"
  shows "ordered ont q \<and> xr_confidence q = xr_confidence r
    \<and> (q = r \<or> xr_source q = xr_target r \<and> xr_target q = xr_source r \<and> is_symmetric ont (xr_relation r)
               \<and> xr_relation q = str_lower (str_strip (xr_relation r)))"
  using assms
  by (auto simp: normalize_symmetric_relation_def ordered_def RelationshipModel_def split: if_splits)

section \<open>The filtered knowledge\<close>

lemma validate_and_enhance_cases:
  assumes "validate_and_enhance A km s = (Inr out, s')"
  obtains cs ns t where
    "canonicalize_relations A (filter (\<lambda>r. 0.3 \<le> xr_confidence r) (km_relationships km)) s = (Inr cs, t)"
    and "mapR (normalize_symmetric_relation (xa_ontology A)) cs = Inr ns"
    and "km_entities out = map (\<lambda>e. e\<lparr>xe_confidence := max (xe_confidence e) 0.1\<rparr>)
           (filter (\<lambda>e. 0.3 \<le> xe_confidence e) (km_entities km))"
    and "km_entities out \<noteq> []"
    and "km_relationships out = map (\<lambda>r. r\<lparr>xr_confidence := max (xr_confidence r) 0.1\<rparr>)
           (filter (\<lambda>r. xe_name (xr_source r) \<in> xe_name ` set (km_entities out)
              \<and> xe_name (xr_target r) \<in> xe_name ` set (km_entities out)) ns)"
proof -
  from assms obtain cs ns t where
    1: "canonicalize_relations A (filter (\<lambda>r. 0.3 \<le> xr_confidence r) (km_relationships km)) s = (Inr cs, t)"
    and 2: "mapR (normalize_symmetric_relation (xa_ontology A)) cs = Inr ns"
    and 3: "KnowledgeModel (map (\<lambda>e. e\<lparr>xe_confidence := max (xe_confidence e) 0.1\<rparr>)
             (filter (\<lambda>e. 0.3 \<le> xe_confidence e) (km_entities km)))
           (map (\<lambda>r. r\<lparr>xr_confidence := max (xr_confidence r) 0.1\<rparr>)
             (filter (\<lambda>r. xe_name (xr_source r) \<in> set (map xe_name (filter (\<lambda>e. 0.3 \<le> xe_confidence e) (km_entities km)))
               \<and> xe_name (xr_target r) \<in> set (map xe_name (filter (\<lambda>e. 0.3 \<le> xe_confidence e) (km_entities km)))) ns)) = Inr out"
    by (auto simp: validate_and_enhance_def Let_def bindA_Inr)
  have names: "xe_name ` set (map (\<lambda>e. e\<lparr>xe_confidence := max (xe_confidence e) 0.1\<rparr>) es) = xe_name ` set es"
    for es :: "entity_model list"
    by (force simp: image_image)
  have ents: "km_entities out = map (\<lambda>e. e\<lparr>xe_confidence := max (xe_confidence e) 0.1\<rparr>)
           (filter (\<lambda>e. 0.3 \<le> xe_confidence e) (km_entities km))" and ne: "km_entities out \<noteq> []"
    using 3 by (auto simp: KnowledgeModel_def split: if_splits)
  have "km_relationships out = map (\<lambda>r. r\<lparr>xr_confidence := max (xr_confidence r) 0.1\<rparr>)
           (filter (\<lambda>r. xe_name (xr_source r) \<in> xe_name ` set (km_entities out)
              \<and> xe_name (xr_target r) \<in> xe_name ` set (km_entities out)) ns)"
    unfolding ents names using 3 by (auto simp: KnowledgeModel_def split: if_splits)
  with 1 2 ents ne show ?thesis using that by blast
qed

text \<open>C19: 
  The knowledge of a chunk after the filter: at least one entity, all confident; relations
  confident, between entities of the result, symmetric ones with their endpoints in order; and
  each comes from a relation the ontology accepted, as it stood or mirrored.
\<close>

theorem extracted_knowledge_filtered:
  assumes "validate_and_enhance A km s = (Inr out, s')"
  shows "km_entities out \<noteq> [] \<and> list_all (\<lambda>e. 0.3 \<le> xe_confidence e) (km_entities out)
    \<and> list_all (\<lambda>r. 0.3 \<le> xr_confidence r \<and> ordered (xa_ontology A) r
        \<and> xe_name (xr_source r) \<in> set (map xe_name (km_entities out))
        \<and> xe_name (xr_target r) \<in> set (map xe_name (km_entities out))
        \<and> (accepted A r \<or> (\<exists>p. accepted A (r\<lparr>xr_source := xr_target r, xr_target := xr_source r, xr_relation := p\<rparr>)
              \<and> xr_relation r = str_lower (str_strip p))))
      (km_relationships out)"
proof -
  from assms obtain cs ns t where
    1: "canonicalize_relations A (filter (\<lambda>r. 0.3 \<le> xr_confidence r) (km_relationships km)) s = (Inr cs, t)"
    and 2: "mapR (normalize_symmetric_relation (xa_ontology A)) cs = Inr ns"
    and ents: "km_entities out = map (\<lambda>e. e\<lparr>xe_confidence := max (xe_confidence e) 0.1\<rparr>)
           (filter (\<lambda>e. 0.3 \<le> xe_confidence e) (km_entities km))"
    and ne: "km_entities out \<noteq> []"
    and rels: "km_relationships out = map (\<lambda>r. r\<lparr>xr_confidence := max (xr_confidence r) 0.1\<rparr>)
           (filter (\<lambda>r. xe_name (xr_source r) \<in> xe_name ` set (km_entities out)
              \<and> xe_name (xr_target r) \<in> xe_name ` set (km_entities out)) ns)"
    by (rule validate_and_enhance_cases)
  have rel: "0.3 \<le> xr_confidence q \<and> ordered (xa_ontology A) q
      \<and> (accepted A q \<or> (\<exists>p. accepted A (q\<lparr>xr_source := xr_target q, xr_target := xr_source q, xr_relation := p\<rparr>)
            \<and> xr_relation q = str_lower (str_strip p)))" if q: "q \<in> set ns" for q
  proof -
    obtain c where c: "c \<in> set cs" "normalize_symmetric_relation (xa_ontology A) c = Inr q"
      using mapR_in [OF 2 q] by blast
    from canonicalize_relations_accepted [OF 1] c(1) have acc: "accepted A c" and
      src: "\<exists>r. 0.3 \<le> xr_confidence r \<and> c = r\<lparr>xr_relation := xr_relation c\<rparr>"
      by (auto simp: list_all_iff list_ex_iff)
    from src obtain r where r: "0.3 \<le> xr_confidence r" "c = r\<lparr>xr_relation := xr_relation c\<rparr>" by blast
    have "xr_confidence c = xr_confidence r" using arg_cong [OF r(2), of xr_confidence] by simp
    with r(1) have conf: "0.3 \<le> xr_confidence c" by linarith
    note n = normalize_symmetric_ordered [OF c(2)]
    from n consider "q = c" | "xr_source q = xr_target c" "xr_target q = xr_source c"
        "xr_relation q = str_lower (str_strip (xr_relation c))" by blast
    then show ?thesis
    proof cases
      case 1
      with acc conf n show ?thesis by simp
    next
      case 2
      have "accepted A (q\<lparr>xr_source := xr_target q, xr_target := xr_source q, xr_relation := xr_relation c\<rparr>)"
        using acc n 2 by (simp add: accepted_def)
      with 2 conf n show ?thesis by metis
    qed
  qed
  have keep: "accepted A (r\<lparr>xr_confidence := max (xr_confidence r) 0.1\<rparr>) = accepted A r"
    "ordered (xa_ontology A) (r\<lparr>xr_confidence := max (xr_confidence r) 0.1\<rparr>) = ordered (xa_ontology A) r"
    if "0.3 \<le> xr_confidence r" for r
    using that by (simp_all add: max_def)
  have same: "r\<lparr>xr_confidence := max (xr_confidence r) 0.1\<rparr> = r" if "0.3 \<le> xr_confidence r" for r
    using that by (simp add: max_def)
  have "km_relationships out = filter (\<lambda>r. xe_name (xr_source r) \<in> xe_name ` set (km_entities out)
              \<and> xe_name (xr_target r) \<in> xe_name ` set (km_entities out)) ns"
    unfolding rels using rel same by (intro map_idI) auto
  then show ?thesis
    using rel ne ents by (auto simp: list_all_iff)
qed


section \<open>Without an ontology\<close>

lemma canonicalize_empty:
  assumes "xa_ontology A = empty_ontology" and "\<not> xa_keep_unknown A"
    and "canonicalize_predicate A p conf s = (Inr c, s')"
  shows "c = None"
proof -
  have "lookup_normalized A q conf = None" for q
    using assms(1,2) by (simp add: lookup_normalized_def map_verdict_def empty_ontology_def)
  then show ?thesis
    using assms(1,3) by (auto simp: canonicalize_predicate_def map_verdict_def empty_ontology_def bindA_Inr)
qed

lemma canonicalize_relations_empty:
  assumes "xa_ontology A = empty_ontology" and "\<not> xa_keep_unknown A"
    and "canonicalize_relations A rs s = (Inr cs, s')"
  shows "cs = []"
  using assms(3)
proof (induction rs arbitrary: s cs)
  case (Cons r rs)
  from Cons.prems obtain c t where c: "canonicalize_predicate A (xr_relation r) (xr_confidence r) s = (Inr c, t)"
    by (auto simp: bindA_Inr)
  from canonicalize_empty [OF assms(1,2) c] c Cons show ?case
    by (auto simp: bindA_Inr)
qed simp

text \<open>
  With no ontology file found, which the loader describes as continuing without filtering, every
  relation of every chunk is dropped.
\<close>

theorem empty_ontology_drops_relations:
  assumes "xa_ontology A = fst (load_ontology has_yaml (\<lambda>n. None) None)" and "\<not> xa_keep_unknown A"
    and "validate_and_enhance A km s = (Inr out, s')"
  shows "km_relationships out = []"
proof -
  have e: "xa_ontology A = empty_ontology"
    using assms(1) by (simp add: load_ontology_def missing_files)
  from assms(3) obtain cs ns t where
    1: "canonicalize_relations A (filter (\<lambda>r. 0.3 \<le> xr_confidence r) (km_relationships km)) s = (Inr cs, t)"
    and 2: "mapR (normalize_symmetric_relation (xa_ontology A)) cs = Inr ns"
    and rels: "km_relationships out = map (\<lambda>r. r\<lparr>xr_confidence := max (xr_confidence r) 0.1\<rparr>)
           (filter (\<lambda>r. xe_name (xr_source r) \<in> xe_name ` set (km_entities out)
              \<and> xe_name (xr_target r) \<in> xe_name ` set (km_entities out)) ns)"
    by (rule validate_and_enhance_cases)
  from canonicalize_relations_empty [OF e assms(2) 1] 2 rels show ?thesis by simp
qed

section \<open>Symmetric relations\<close>

definition mirror :: "relationship_model \<Rightarrow> relationship_model" where
  "mirror r = r\<lparr>xr_source := xr_target r, xr_target := xr_source r\<rparr>"

definition relation_normal :: "relationship_model \<Rightarrow> bool" where
  "relation_normal r = (RelationshipModel r = Inr r)"

lemma relation_normal_mirror: "relation_normal (mirror r) = relation_normal r"
  by (cases r) (auto simp: relation_normal_def mirror_def RelationshipModel_def)

text \<open>
  For a symmetric predicate the two directions have one normal form, so they are stored once,
  and normalizing again changes nothing.
\<close>

theorem symmetric_directions_agree:
  assumes "is_symmetric ont (xr_relation r)" and "relation_normal r"
    and "str_lower (xe_name (xr_source r)) \<noteq> str_lower (xe_name (xr_target r))"
  shows "normalize_symmetric_relation ont (mirror r) = normalize_symmetric_relation ont r
    \<and> (\<exists>q. normalize_symmetric_relation ont r = Inr q \<and> normalize_symmetric_relation ont q = Inr q)"
proof -
  have m: "mirror (mirror r) = r" by (simp add: mirror_def)
  have rel: "xr_relation (mirror r) = xr_relation r" "xr_source (mirror r) = xr_target r"
    "xr_target (mirror r) = xr_source r" by (simp_all add: mirror_def)
  have n: "normalize_symmetric_relation ont q =
      (if str_lower (xe_name (xr_target q)) < str_lower (xe_name (xr_source q)) then RelationshipModel (mirror q) else Inr q)"
    if "xr_relation q = xr_relation r" for q
    using that assms(1) by (simp add: normalize_symmetric_relation_def mirror_def)
  have ok: "RelationshipModel r = Inr r" "RelationshipModel (mirror r) = Inr (mirror r)"
    using assms(2) relation_normal_mirror [of r] by (auto simp: relation_normal_def)
  from assms(3) consider "str_lower (xe_name (xr_target r)) < str_lower (xe_name (xr_source r))"
    | "str_lower (xe_name (xr_source r)) < str_lower (xe_name (xr_target r))"
    by (metis linorder_neqE)
  then show ?thesis
    by cases (auto simp: n [OF refl] n [OF rel(1)] rel m ok dest: order.asym)
qed

text \<open>
  The type constraint is tested before the endpoints are put in order, so the relation that is
  kept can violate it.
\<close>

definition constrained :: ontology where
  "constrained =
     \<lparr> canonical_predicates = [''works_with''], symmetric_predicates = [''works_with''], predicate_map = [],
       type_constraints = [(''works_with'', [(''PERSON'', ''TECHNOLOGY'')])], type_map = [] \<rparr>"

definition some_entity :: "string \<Rightarrow> entity_type \<Rightarrow> entity_model" where
  "some_entity n t = \<lparr> xe_name = n, xe_type = t, xe_description = ''A description'', xe_confidence = 1 \<rparr>"

definition some_relation :: "entity_model \<Rightarrow> entity_model \<Rightarrow> string \<Rightarrow> relationship_model" where
  "some_relation s t p =
     \<lparr> xr_source = s, xr_target = t, xr_relation = p, xr_description = ''A description'', xr_confidence = 1 \<rparr>"

definition some_agent :: "ontology \<Rightarrow> (nat \<Rightarrow> string \<Rightarrow> string option res) \<Rightarrow> ext_agent" where
  "some_agent ont f =
     \<lparr> xa_model_name = ''gpt-4o-mini'', xa_temperature = 0, xa_max_tokens = None, xa_ontology = ont,
       xa_keep_unknown = False, xa_normalize = f, xa_extract = (\<lambda>q. Inr None) \<rparr>"

definition no_answers :: "nat \<Rightarrow> string \<Rightarrow> string option res" where
  "no_answers n t = Inr None"

definition fresh_state :: ext_state where
  "fresh_state = \<lparr> ncache = [], questions = 0 \<rparr>"

definition swapped_knowledge :: knowledge_model where
  "swapped_knowledge =
     \<lparr> km_entities = [some_entity ''Zoe'' PERSON, some_entity ''Ada'' TECHNOLOGY],
       km_relationships = [some_relation (some_entity ''Zoe'' PERSON) (some_entity ''Ada'' TECHNOLOGY) ''works with''] \<rparr>"

theorem swapped_pair_violates_constraint:
  "\<exists>out r s'. validate_and_enhance (some_agent constrained no_answers) swapped_knowledge fresh_state = (Inr out, s')
    \<and> km_relationships out = [r]
    \<and> \<not> validate_type_pair constrained (xr_relation r) (xe_type (xr_source r)) (xe_type (xr_target r))"
proof -
  have "case validate_and_enhance (some_agent constrained no_answers) swapped_knowledge fresh_state of
      (Inr out, s') \<Rightarrow> (case km_relationships out of
         [r] \<Rightarrow> \<not> validate_type_pair constrained (xr_relation r) (xe_type (xr_source r)) (xe_type (xr_target r))
       | _ \<Rightarrow> False)
    | _ \<Rightarrow> False"
    by code_simp
  then show ?thesis by (auto split: prod.splits sum.splits list.splits)
qed

section \<open>Tokens\<close>

text \<open>A successful answer is cached: the same token asks no second question.\<close>

theorem normalization_asked_once:
  assumes "normalize_predicate_with_llm A t s = (Inr b, s')" and "map_of (ncache s') (''normalize:'' @ t) \<noteq> None"
  shows "normalize_predicate_with_llm A t s' = (Inr b, s')"
  using assms
  by (auto simp: normalize_predicate_with_llm_def Let_def split: option.splits sum.splits if_splits)

text \<open>Stemming cuts four-letter-plus words in \<open>-ing\<close> whatever is left of them.\<close>

lemma over_stemmed: "map normalize_with_logic [''using'', ''bring'', ''string''] = [''us'', ''br'', ''str'']"
  by code_simp

text \<open>A canonical predicate in its own spelling is accepted without a question.\<close>

theorem canonical_predicate_kept:
  assumes "p \<in> set (canonical_predicates (xa_ontology A))" and "snake p = p"
  shows "canonicalize_predicate A p conf s = (Inr (Some p), s)"
  using assms by (simp add: canonicalize_predicate_def ret_def)

section \<open>Concrete knowledge\<close>

lemma extracted_knowledge_filtered_witness:
  "\<exists>out s'. validate_and_enhance (some_agent constrained no_answers) swapped_knowledge fresh_state = (Inr out, s')
    \<and> km_entities out \<noteq> []
    \<and> list_all (\<lambda>r. xe_name (xr_source r) \<in> set (map xe_name (km_entities out))
        \<and> xe_name (xr_target r) \<in> set (map xe_name (km_entities out))) (km_relationships out)"
proof -
  obtain out r s' where
    v: "validate_and_enhance (some_agent constrained no_answers) swapped_knowledge fresh_state = (Inr out, s')"
    using swapped_pair_violates_constraint by blast
  from v extracted_knowledge_filtered [OF v] show ?thesis by (auto simp: list_all_iff)
qed

lemma empty_ontology_drops_relations_witness:
  "\<exists>out s'. validate_and_enhance (some_agent empty_ontology no_answers) swapped_knowledge fresh_state = (Inr out, s')
    \<and> length (km_relationships swapped_knowledge) = 1 \<and> km_relationships out = []"
proof -
  have "case validate_and_enhance (some_agent empty_ontology no_answers) swapped_knowledge fresh_state of
      (Inr out, s') \<Rightarrow> True | _ \<Rightarrow> False"
    by code_simp
  then obtain out s' where
    v: "validate_and_enhance (some_agent empty_ontology no_answers) swapped_knowledge fresh_state = (Inr out, s')"
    by (auto split: prod.splits sum.splits)
  have "km_relationships out = []"
    by (rule empty_ontology_drops_relations [OF _ _ v, of True])
      (simp_all add: some_agent_def load_ontology_def missing_files)
  with v show ?thesis by (auto simp: swapped_knowledge_def)
qed

lemma symmetric_directions_agree_witness:
  "normalize_symmetric_relation constrained
     (mirror (some_relation (some_entity ''Zoe'' PERSON) (some_entity ''Ada'' TECHNOLOGY) ''works_with'')) =
   normalize_symmetric_relation constrained
     (some_relation (some_entity ''Zoe'' PERSON) (some_entity ''Ada'' TECHNOLOGY) ''works_with'')"
proof -
  define r where "r = some_relation (some_entity ''Zoe'' PERSON) (some_entity ''Ada'' TECHNOLOGY) ''works_with''"
  have "is_symmetric constrained (xr_relation r)" by (simp add: r_def) code_simp
  moreover have "relation_normal r" unfolding r_def by code_simp
  moreover have "str_lower (xe_name (xr_source r)) \<noteq> str_lower (xe_name (xr_target r))"
    unfolding r_def by code_simp
  ultimately show ?thesis
    using symmetric_directions_agree [of constrained r] by (simp add: r_def)
qed

lemma normalization_asked_once_witness:
  "fst (normalize_predicate_with_llm (some_agent constrained (\<lambda>n t. Inr (Some ''Teach.''))) ''teaches''
      (snd (normalize_predicate_with_llm (some_agent constrained (\<lambda>n t. Inr (Some ''Teach.''))) ''teaches'' fresh_state)))
    = Inr ''teach''"
proof -
  define A where "A = some_agent constrained (\<lambda>n t. Inr (Some ''Teach.''))"
  define s' where "s' = snd (normalize_predicate_with_llm A ''teaches'' fresh_state)"
  have "fst (normalize_predicate_with_llm A ''teaches'' fresh_state) = Inr ''teach''"
    unfolding A_def by code_simp
  then have 1: "normalize_predicate_with_llm A ''teaches'' fresh_state = (Inr ''teach'', s')"
    by (simp add: s'_def prod_eq_iff)
  have "map_of (ncache s') (''normalize:'' @ ''teaches'') \<noteq> None"
    unfolding s'_def A_def by code_simp
  from normalization_asked_once [OF 1 this] show ?thesis by (simp add: A_def s'_def)
qed

lemma canonical_predicate_kept_witness:
  "canonicalize_predicate (some_agent constrained no_answers) ''works_with'' 0 fresh_state =
    (Inr (Some ''works_with''), fresh_state)"
  by (rule canonical_predicate_kept) (simp add: some_agent_def constrained_def, code_simp)

end
