(* ===== verification/Community_Detection.thy ===== *)
theory Community_Detection
  imports Relationship_Resolution Ontology
begin

text \<open>
  \<open>domain/graphrag/agents/community_detection.py\<close>: the weighted graph of entities and
  relationships, the choice of an algorithm with its fallbacks, the communities by level, the
  splitting of large and merging of small ones, and the quality gates.

  The algorithms of networkx and graspologic and SHA-1 are parameters. A set of nodes is the
  list of its elements in the order of iteration. The thresholds of the environment are fields
  of the detector; the log records are left out.
\<close>

section \<open>The graph\<close>

text \<open>
  An undirected \<open>nx.Graph\<close>: the nodes with their type, in the order of insertion, and one
  weight for each pair.
\<close>

record wgraph =
  g_nodes :: "(string \<times> string) list"
  g_edges :: "((string \<times> string) \<times> real) list"

definition has_node :: "wgraph \<Rightarrow> string \<Rightarrow> bool" where
  "has_node G u = (u \<in> set (keys (g_nodes G)))"

definition edge_weight :: "wgraph \<Rightarrow> string \<Rightarrow> string \<Rightarrow> real option" where
  "edge_weight G u v =
     (case map_of (g_edges G) (u, v) of Some w \<Rightarrow> Some w | None \<Rightarrow> map_of (g_edges G) (v, u))"

definition add_node :: "resolved_entity \<Rightarrow> wgraph \<Rightarrow> wgraph" where
  "add_node e G = G\<lparr>g_nodes := AList.update (entity_id e) (type_value (etype e)) (g_nodes G)\<rparr>"

definition add_edge :: "string \<Rightarrow> string \<Rightarrow> real \<Rightarrow> wgraph \<Rightarrow> wgraph" where
  "add_edge u v w G =
     G\<lparr>g_edges := AList.update (if map_of (g_edges G) (v, u) \<noteq> None then (v, u) else (u, v)) w (g_edges G)\<rparr>"

definition subgraph :: "string list \<Rightarrow> wgraph \<Rightarrow> wgraph" where
  "subgraph ids G =
     \<lparr> g_nodes = filter (\<lambda>(u, t). u \<in> set ids) (g_nodes G),
       g_edges = filter (\<lambda>((u, v), w). u \<in> set ids \<and> v \<in> set ids) (g_edges G) \<rparr>"

section \<open>Edge weights\<close>

definition soft_kept_mark :: string where
  "soft_kept_mark = ''__DROP__''"

definition ontology_weight :: "ontology \<Rightarrow> real \<Rightarrow> string \<Rightarrow> string option \<Rightarrow> string option \<Rightarrow> real" where
  "ontology_weight ont weight p st ot =
     (let w1 = (if p \<in> set (canonical_predicates ont) then weight * 1.15
                else (case map_of (predicate_map ont) (str_strip (str_lower p)) of
                        Some m \<Rightarrow> if m = soft_kept_mark then weight * 0.85 else weight
                      | None \<Rightarrow> weight * 0.85))
      in case (st, ot, map_of (type_constraints ont) p) of
           (Some s, Some t, Some pairs) \<Rightarrow>
             if s \<noteq> [] \<and> t \<noteq> [] then (if (s, t) \<in> set pairs then w1 * 1.1 else w1 * 0.8) else w1
         | _ \<Rightarrow> w1)"

text \<open>
  \<open>getattr(relationship, "relationship_type", None)\<close>: a \<open>ResolvedRelationship\<close> has no such
  field, whatever kind of relationship it was read from.
\<close>

definition relationship_type :: "resolved_relationship \<Rightarrow> string option" where
  "relationship_type r = None"

definition source_weight :: "string option \<Rightarrow> real \<Rightarrow> real" where
  "source_weight rtype conf =
     (if rtype = Some ''co_occurrence'' then conf
      else if rtype = Some ''semantic_similarity'' then conf * 0.8
      else if rtype = Some ''cross_chunk'' then conf * 0.5
      else if rtype = Some ''bidirectional'' then conf
      else if rtype = Some ''predicted'' then conf * 0.4
      else conf)"

definition relationship_weight :: "ontology \<Rightarrow> wgraph \<Rightarrow> resolved_relationship \<Rightarrow> real" where
  "relationship_weight ont G r =
     max 0.1 (min 1 (ontology_weight ont (source_weight (relationship_type r) (rr_confidence r)) (rr_predicate r)
       (map_of (g_nodes G) (rr_subject r)) (map_of (g_nodes G) (rr_object r))))"

definition add_relationship :: "ontology \<Rightarrow> resolved_relationship \<Rightarrow> wgraph \<Rightarrow> wgraph" where
  "add_relationship ont r G =
     (if has_node G (rr_subject r) \<and> has_node G (rr_object r)
      then add_edge (rr_subject r) (rr_object r) (relationship_weight ont G r) G else G)"

definition create_graph :: "ontology \<Rightarrow> resolved_entity list \<Rightarrow> resolved_relationship list \<Rightarrow> wgraph" where
  "create_graph ont es rs =
     fold (add_relationship ont) rs (fold add_node es \<lparr> g_nodes = [], g_edges = [] \<rparr>)"

section \<open>Communities\<close>

record community =
  co_id :: string
  co_level :: int
  co_entities :: "string list"
  co_count :: nat
  co_relationships :: "string list"
  co_relationship_count :: nat
  co_coherence :: real
  co_names :: "string list"
  co_types :: "string list"
  co_parent :: "string option"

type_synonym level = "(string \<times> community) list"
type_synonym levels = "(int \<times> level) list"

definition mean :: "real list \<Rightarrow> real" where
  "mean xs = sum_list xs / real (length xs)"

definition coherence_score :: "resolved_entity list \<Rightarrow> resolved_relationship list \<Rightarrow> real" where
  "coherence_score es rs =
     (if length es \<le> 1 then 0
      else (let potential = real (length es) * (real (length es) - 1) / 2;
                connectivity = (if 0 < potential then real (length rs) / potential else 0);
                avg_rel = (if rs = [] then 0 else mean (map rr_confidence rs))
            in min 1 (max 0 (0.4 * connectivity + 0.3 * mean (map confidence es) + 0.3 * avg_rel))))"

definition members :: "resolved_entity list \<Rightarrow> string list \<Rightarrow> resolved_entity list" where
  "members es ids = filter (\<lambda>e. entity_id e \<in> set ids) es"

definition inner :: "resolved_relationship list \<Rightarrow> string list \<Rightarrow> resolved_relationship list" where
  "inner rs ids = filter (\<lambda>r. rr_subject r \<in> set ids \<and> rr_object r \<in> set ids) rs"

text \<open>The dictionary of a community of the nodes \<open>ids\<close>; \<open>listed\<close> is what it gives as its entities.\<close>

definition make_community ::
  "string \<Rightarrow> int \<Rightarrow> string list \<Rightarrow> string option \<Rightarrow> resolved_entity list \<Rightarrow> resolved_relationship list
    \<Rightarrow> string list \<Rightarrow> community" where
  "make_community cid lv listed parent es rs ids =
     \<lparr> co_id = cid, co_level = lv, co_entities = listed, co_count = length (members es ids),
       co_relationships = map rr_id (inner rs ids), co_relationship_count = length (inner rs ids),
       co_coherence = coherence_score (members es ids) (inner rs ids),
       co_names = map name (members es ids), co_types = map (type_value \<circ> etype) (members es ids),
       co_parent = parent \<rparr>"

definition stable_community_id :: "(string \<Rightarrow> string) \<Rightarrow> int \<Rightarrow> string list \<Rightarrow> string" where
  "stable_community_id sha1 lv ids =
     ''lvl'' @ str_of_int lv @ ''-'' @ take 12 (sha1 (str_join '','' (sort ids)))"

section \<open>The detector\<close>

text \<open>A cluster of graspologic, or of the fallback: a level, and several nodes or one.\<close>

record cluster =
  cl_level :: "int option"
  cl_nodes :: "string list option"
  cl_node :: string

datatype detected = Sets "string list list" | Clusters "cluster list"

record networkx =
  nx_louvain :: "wgraph \<Rightarrow> real \<Rightarrow> int \<Rightarrow> string list list res"
  nx_leiden :: "(wgraph \<Rightarrow> real \<Rightarrow> int \<Rightarrow> string list list res) option"
  graspologic :: "(wgraph \<Rightarrow> int \<Rightarrow> cluster list res) option"
  nx_label_propagation :: "wgraph \<Rightarrow> int \<Rightarrow> string list list res"
  nx_modularity :: "wgraph \<Rightarrow> string list list \<Rightarrow> real res"
  nx_components :: "wgraph \<Rightarrow> string list list"
  nx_density :: "wgraph \<Rightarrow> real"

record detector =
  dt_algorithm :: string
  dt_min_size :: int
  dt_max_size :: int
  dt_resolution :: real
  dt_multires :: "real list"
  dt_ontology :: ontology
  dt_sha1 :: "string \<Rightarrow> string"
  dt_seed :: int
  dt_label_runs :: int
  dt_split_threshold :: int
  dt_merge_threshold :: int
  dt_split_resolution :: real
  dt_min_modularity :: real
  dt_min_coverage :: real
  dt_max_community :: int
  dt_max_singletons :: real

text \<open>\<open>float\<close> of the decimal notation with an optional fraction; exponents are not modelled.\<close>

definition real_of_str :: "string \<Rightarrow> real option" where
  "real_of_str s0 =
     (let s = str_strip s0; neg = str_startswith s ''-'';
          t = (if neg \<or> str_startswith s ''+'' then drop 1 s else s)
      in if t = [] \<or> \<not> list_all (\<lambda>c. is_digit c \<or> c = CHR ''.'') t then None
         else (case str_split_n (CHR ''.'') (length t) [] t of
                 [a] \<Rightarrow> map_option (\<lambda>n. (if neg then -1 else 1) * real n) (parse_digits False 0 a)
               | [a, b] \<Rightarrow>
                   if a = [] \<and> b = [] then None
                   else map_option (\<lambda>n. (if neg then -1 else 1) * real n / 10 ^ length b) (parse_digits False 0 (a @ b))
               | _ \<Rightarrow> None))"

fun all_some :: "'a option list \<Rightarrow> 'a list option" where
  "all_some [] = Some []"
| "all_some (None # xs) = None"
| "all_some (Some x # xs) = map_option ((#) x) (all_some xs)"

definition parse_multires_config :: "string \<Rightarrow> real list" where
  "parse_multires_config s =
     (case all_some (map real_of_str (str_split_n (CHR '','') (length s) [] s)) of
        None \<Rightarrow> [1]
      | Some rs \<Rightarrow> if filter (\<lambda>r. 0 < r) rs = [] then [1] else filter (\<lambda>r. 0 < r) rs)"

text \<open>\<open>try: r except Exception: h\<close>.\<close>

definition tryR :: "'a res \<Rightarrow> (exn \<Rightarrow> 'a res) \<Rightarrow> 'a res" where
  [py_simps]: "tryR r h = (case r of Inl e \<Rightarrow> if is_Exception e then h e else Inl e | Inr x \<Rightarrow> Inr x)"

definition detect_louvain :: "networkx \<Rightarrow> detector \<Rightarrow> wgraph \<Rightarrow> detected res" where
  "detect_louvain N D G =
     bindR (nx_louvain N G (dt_resolution D) (dt_seed D)) (\<lambda>cs.
     bindR (nx_modularity N G cs) (\<lambda>m. Inr (Sets cs)))"

definition graspologic_leiden :: "networkx \<Rightarrow> detector \<Rightarrow> wgraph \<Rightarrow> detected res" where
  "graspologic_leiden N D G =
     (case graspologic N of
        None \<Rightarrow> detect_louvain N D G
      | Some f \<Rightarrow> tryR (bindR (f G (dt_max_size D)) (\<lambda>cs. Inr (Clusters cs))) (\<lambda>e. detect_louvain N D G))"

definition detect_leiden :: "networkx \<Rightarrow> detector \<Rightarrow> wgraph \<Rightarrow> detected res" where
  "detect_leiden N D G =
     (case nx_leiden N of
        None \<Rightarrow> graspologic_leiden N D G
      | Some f \<Rightarrow>
          tryR (bindR (f G (dt_resolution D) (dt_seed D)) (\<lambda>cs.
                bindR (nx_modularity N G cs) (\<lambda>m. Inr (Sets cs))))
               (\<lambda>e. graspologic_leiden N D G))"

text \<open>The successful runs; \<open>label_propagation_communities\<close> is called with a seed.\<close>

fun label_runs :: "networkx \<Rightarrow> wgraph \<Rightarrow> int list \<Rightarrow> string list list list res" where
  "label_runs N G [] = Inr []"
| "label_runs N G (s # ss) =
     bindR (tryR (bindR (nx_label_propagation N G s) (\<lambda>cs. Inr [cs])) (\<lambda>e. Inr [])) (\<lambda>here.
     bindR (label_runs N G ss) (\<lambda>more. Inr (here @ more)))"

definition label_seeds :: "detector \<Rightarrow> int list" where
  "label_seeds D = map (\<lambda>i. if 1 < dt_label_runs D then dt_seed D + int i else dt_seed D) [0..<nat (dt_label_runs D)]"

definition detect_label_propagation :: "networkx \<Rightarrow> detector \<Rightarrow> wgraph \<Rightarrow> detected res" where
  "detect_label_propagation N D G =
     bindR (label_runs N G (label_seeds D)) (\<lambda>runs.
       if runs = [] then detect_louvain N D G
       else (let cs = sort_key length runs ! (length runs div 2)
             in bindR (nx_modularity N G cs) (\<lambda>m. Inr (Sets cs))))"

definition fallback_detection :: "networkx \<Rightarrow> detector \<Rightarrow> wgraph \<Rightarrow> detected" where
  "fallback_detection N D G =
     Clusters (map (\<lambda>c. if 1 < length c then \<lparr> cl_level = Some 1, cl_nodes = Some c, cl_node = [] \<rparr>
                        else \<lparr> cl_level = Some 1, cl_nodes = None, cl_node = hd c \<rparr>)
       (filter (\<lambda>c. dt_min_size D \<le> int (length c)) (nx_components N G)))"

section \<open>Organization by level\<close>

definition put_community :: "int \<Rightarrow> community \<Rightarrow> levels \<Rightarrow> levels" where
  "put_community lv c ls =
     AList.update lv (AList.update (co_id c) c (case map_of ls lv of None \<Rightarrow> [] | Some d \<Rightarrow> d)) ls"

definition node_community :: "detector \<Rightarrow> resolved_entity list \<Rightarrow> resolved_relationship list \<Rightarrow> int \<Rightarrow> string list
    \<Rightarrow> community" where
  "node_community D es rs lv ids =
     make_community (stable_community_id (dt_sha1 D) lv ids) lv (map entity_id (members es ids)) None es rs ids"

definition organize_nodes ::
  "detector \<Rightarrow> resolved_entity list \<Rightarrow> resolved_relationship list \<Rightarrow> int \<Rightarrow> string list \<Rightarrow> levels \<Rightarrow> levels" where
  "organize_nodes D es rs lv ids ls =
     (if int (length ids) < dt_min_size D then ls else put_community lv (node_community D es rs lv ids) ls)"

definition cluster_level :: "cluster \<Rightarrow> int" where
  "cluster_level c = max 1 (case cl_level c of None \<Rightarrow> 1 | Some l \<Rightarrow> l)"

definition cluster_ids :: "cluster \<Rightarrow> string list" where
  "cluster_ids c = (case cl_nodes c of Some ns \<Rightarrow> ns | None \<Rightarrow> [cl_node c])"

definition organize_by_level ::
  "detector \<Rightarrow> resolved_entity list \<Rightarrow> resolved_relationship list \<Rightarrow> detected \<Rightarrow> levels" where
  "organize_by_level D es rs det =
     (case det of
        Sets cs \<Rightarrow> fold (organize_nodes D es rs 1) cs []
      | Clusters cs \<Rightarrow>
          fold (\<lambda>(lv, group). fold (\<lambda>c. organize_nodes D es rs lv (cluster_ids c)) group)
            (fold (\<lambda>c. dd_append (cluster_level c) c) cs []) [])"

text \<open>One level for each resolution; a resolution that fails is left out.\<close>

definition organize_multires_level ::
  "detector \<Rightarrow> resolved_entity list \<Rightarrow> resolved_relationship list \<Rightarrow> int \<Rightarrow> string list list \<Rightarrow> level" where
  "organize_multires_level D es rs lv cs =
     fold (\<lambda>ids d. if int (length ids) < dt_min_size D then d
                   else (let c = node_community D es rs lv ids in AList.update (co_id c) c d)) cs []"

fun multires_louvain ::
  "networkx \<Rightarrow> detector \<Rightarrow> wgraph \<Rightarrow> resolved_entity list \<Rightarrow> resolved_relationship list \<Rightarrow> int \<Rightarrow> real list
    \<Rightarrow> levels res" where
  "multires_louvain N D G es rs lv [] = Inr []"
| "multires_louvain N D G es rs lv (res # rest) =
     bindR (tryR (bindR (nx_louvain N G res (dt_seed D)) (\<lambda>cs.
                  bindR (nx_modularity N G cs) (\<lambda>m.
                    Inr [(lv, organize_multires_level D es rs lv cs)])))
                 (\<lambda>e. Inr [])) (\<lambda>here.
     bindR (multires_louvain N D G es rs (lv + 1) rest) (\<lambda>more. Inr (here @ more)))"

end
