(* ===== verification/Community_Sizes.thy ===== *)
theory Community_Sizes
  imports Community_Detection
begin

text \<open>
  The second half of \<open>domain/graphrag/agents/community_detection.py\<close>: large communities are
  split, small ones merged into the neighbour they are most connected to, the result is measured
  and tested against the quality gates, and \<open>detect_communities\<close> puts the parts together.
\<close>

section \<open>Splitting\<close>

definition partition_community ::
  "detector \<Rightarrow> resolved_entity list \<Rightarrow> resolved_relationship list \<Rightarrow> int \<Rightarrow> string \<Rightarrow> string list \<Rightarrow> community" where
  "partition_community D es rs lv base ids =
     make_community (base @ ''-p'' @ take 8 (dt_sha1 D (str_join '','' (sort ids)))) lv ids (Some base) es rs ids"

definition split_oversized_community ::
  "networkx \<Rightarrow> detector \<Rightarrow> resolved_entity list \<Rightarrow> resolved_relationship list \<Rightarrow> wgraph \<Rightarrow> int \<Rightarrow> community
    \<Rightarrow> level res" where
  "split_oversized_community N D es rs G lv c =
     (let sub = subgraph (co_entities c) G
      in if length (g_nodes sub) < 2 then Inr [(co_id c, c)]
         else tryR (bindR (nx_louvain N sub (dt_split_resolution D) (dt_seed D)) (\<lambda>cs.
                      Inr (fold (\<lambda>ids d. let p = partition_community D es rs lv (co_id c) ids
                                         in AList.update (co_id p) p d) cs [])))
                   (\<lambda>e. Inr [(co_id c, c)]))"

text \<open>\<open>updated_communities[level][id] = data\<close>.\<close>

definition put_at :: "int \<Rightarrow> string \<Rightarrow> community \<Rightarrow> levels \<Rightarrow> levels" where
  "put_at lv k c ls = AList.update lv (AList.update k c (case map_of ls lv of None \<Rightarrow> [] | Some d \<Rightarrow> d)) ls"

fun split_level ::
  "networkx \<Rightarrow> detector \<Rightarrow> resolved_entity list \<Rightarrow> resolved_relationship list \<Rightarrow> wgraph \<Rightarrow> int \<Rightarrow> level
    \<Rightarrow> levels \<Rightarrow> levels res" where
  "split_level N D es rs G lv [] ls = Inr ls"
| "split_level N D es rs G lv ((k, c) # cs) ls =
     (if dt_split_threshold D < int (co_count c)
      then bindR (split_oversized_community N D es rs G lv c) (\<lambda>parts.
             split_level N D es rs G lv cs (fold (\<lambda>(k', p). put_at lv k' p) parts ls))
      else split_level N D es rs G lv cs (put_at lv k c ls))"

fun split_levels ::
  "networkx \<Rightarrow> detector \<Rightarrow> resolved_entity list \<Rightarrow> resolved_relationship list \<Rightarrow> wgraph \<Rightarrow> levels
    \<Rightarrow> levels \<Rightarrow> levels res" where
  "split_levels N D es rs G [] ls = Inr ls"
| "split_levels N D es rs G ((lv, d) # rest) ls =
     bindR (split_level N D es rs G lv d ls) (split_levels N D es rs G rest)"

section \<open>Merging\<close>

definition connection :: "wgraph \<Rightarrow> string list \<Rightarrow> string list \<Rightarrow> real" where
  "connection G us vs =
     sum_list (map (\<lambda>u. sum_list (map (\<lambda>v. case edge_weight G u v of None \<Rightarrow> 0 | Some w \<Rightarrow> w) (remdups vs)))
       (remdups us))"

text \<open>The first community with the largest positive connection.\<close>

fun best_neighbor :: "wgraph \<Rightarrow> string list \<Rightarrow> level \<Rightarrow> (string \<times> community) option \<Rightarrow> real
    \<Rightarrow> (string \<times> community) option \<times> real" where
  "best_neighbor G us [] best w = (best, w)"
| "best_neighbor G us ((k, c) # cs) best w =
     (let t = connection G us (co_entities c)
      in if w < t then best_neighbor G us cs (Some (k, c)) t else best_neighbor G us cs best w)"

definition merge_into ::
  "resolved_entity list \<Rightarrow> resolved_relationship list \<Rightarrow> int \<Rightarrow> string \<Rightarrow> community \<Rightarrow> community \<Rightarrow> community" where
  "merge_into es rs lv k neighbor micro =
     (let ids = remdups (co_entities neighbor @ co_entities micro)
      in make_community k lv ids None es rs ids)"

definition merge_one ::
  "resolved_entity list \<Rightarrow> resolved_relationship list \<Rightarrow> wgraph \<Rightarrow> int \<Rightarrow> string \<times> community \<Rightarrow> level \<Rightarrow> level" where
  "merge_one es rs G lv m normal =
     (case best_neighbor G (co_entities (snd m)) normal None 0 of
        (Some (k, c), w) \<Rightarrow>
          if k \<noteq> [] \<and> 0.1 < w then AList.update k (merge_into es rs lv k c (snd m)) normal
          else AList.update (fst m) (snd m) normal
      | (None, w) \<Rightarrow> AList.update (fst m) (snd m) normal)"

definition is_micro :: "detector \<Rightarrow> community \<Rightarrow> bool" where
  "is_micro D c = (int (co_count c) < dt_merge_threshold D)"

definition merge_level ::
  "detector \<Rightarrow> resolved_entity list \<Rightarrow> resolved_relationship list \<Rightarrow> wgraph \<Rightarrow> int \<Rightarrow> level \<Rightarrow> level" where
  "merge_level D es rs G lv d =
     fold (merge_one es rs G lv) (filter (\<lambda>(k, c). is_micro D c) d) (filter (\<lambda>(k, c). \<not> is_micro D c) d)"

definition merge_micro_communities ::
  "detector \<Rightarrow> resolved_entity list \<Rightarrow> resolved_relationship list \<Rightarrow> wgraph \<Rightarrow> levels \<Rightarrow> levels" where
  "merge_micro_communities D es rs G ls = map (\<lambda>(lv, d). (lv, merge_level D es rs G lv d)) ls"

definition apply_size_management ::
  "networkx \<Rightarrow> detector \<Rightarrow> resolved_entity list \<Rightarrow> resolved_relationship list \<Rightarrow> wgraph \<Rightarrow> levels \<Rightarrow> levels res" where
  "apply_size_management N D es rs G ls =
     bindR (split_levels N D es rs G ls []) (\<lambda>ls'. Inr (merge_micro_communities D es rs G ls'))"

section \<open>Quality\<close>

definition all_communities :: "levels \<Rightarrow> community list" where
  "all_communities ls = concat (map (\<lambda>(lv, d). map snd d) ls)"

record quality =
  qu_total :: nat
  qu_coherence :: real
  qu_size :: real
  qu_coverage :: real
  qu_extremes :: "(real \<times> real \<times> nat \<times> nat) option"

definition community_quality :: "wgraph \<Rightarrow> levels \<Rightarrow> quality" where
  "community_quality G ls =
     (let cs = all_communities ls
      in if cs = [] then \<lparr> qu_total = 0, qu_coherence = 0, qu_size = 0, qu_coverage = 0, qu_extremes = None \<rparr>
         else \<lparr> qu_total = length cs, qu_coherence = mean (map co_coherence cs),
                qu_size = mean (map (\<lambda>c. real (co_count c)) cs),
                qu_coverage = (if g_nodes G = [] then 0
                               else real (sum_list (map co_count cs)) / real (length (g_nodes G))),
                qu_extremes = Some (foldr max (map co_coherence (tl cs)) (co_coherence (hd cs)),
                                    foldr min (map co_coherence (tl cs)) (co_coherence (hd cs)),
                                    foldr max (map co_count (tl cs)) (co_count (hd cs)),
                                    foldr min (map co_count (tl cs)) (co_count (hd cs))) \<rparr>)"

datatype gate_failure =
    Low_Modularity real
  | Low_Coverage real
  | Giant_Community nat
  | Too_Many_Singletons real

text \<open>A modularity that cannot be computed skips its gate.\<close>

definition gate_modularity :: "networkx \<Rightarrow> wgraph \<Rightarrow> levels \<Rightarrow> real option res" where
  "gate_modularity N G ls =
     (if all_communities ls = [] then Inr (Some 0)
      else tryR (bindR (nx_modularity N G (map (remdups \<circ> co_entities) (all_communities ls))) (\<lambda>m. Inr (Some m)))
             (\<lambda>e. Inr None))"

definition max_size :: "levels \<Rightarrow> nat" where
  "max_size ls = foldr max (map co_count (all_communities ls)) 0"

definition singleton_ratio :: "levels \<Rightarrow> real" where
  "singleton_ratio ls =
     real (length (filter (\<lambda>c. co_count c = 1) (all_communities ls))) / real (length (all_communities ls))"

definition quality_gates :: "networkx \<Rightarrow> detector \<Rightarrow> wgraph \<Rightarrow> levels \<Rightarrow> quality \<Rightarrow> gate_failure list res" where
  "quality_gates N D G ls q =
     bindR (gate_modularity N G ls) (\<lambda>m.
       Inr ((case m of None \<Rightarrow> [] | Some v \<Rightarrow> if v < dt_min_modularity D then [Low_Modularity v] else [])
            @ (if qu_coverage q < dt_min_coverage D then [Low_Coverage (qu_coverage q)] else [])
            @ (if dt_max_community D < int (max_size ls) then [Giant_Community (max_size ls)] else [])
            @ (if 0 < qu_total q \<and> dt_max_singletons D < singleton_ratio ls
               then [Too_Many_Singletons (singleton_ratio ls)] else [])))"

section \<open>Detection\<close>

record detection =
  dn_communities :: levels
  dn_levels :: nat
  dn_total :: nat
  dn_quality :: "quality option"
  dn_gates :: "gate_failure list option"
  dn_graph :: "(nat \<times> nat \<times> real) option"

definition no_detection :: detection where
  "no_detection =
     \<lparr> dn_communities = [], dn_levels = 0, dn_total = 0, dn_quality = None, dn_gates = None, dn_graph = None \<rparr>"

definition run_algorithm :: "networkx \<Rightarrow> detector \<Rightarrow> wgraph \<Rightarrow> detected res" where
  "run_algorithm N D G =
     tryR (if dt_algorithm D = ''louvain'' then detect_louvain N D G
           else if dt_algorithm D = ''leiden'' then detect_leiden N D G
           else if dt_algorithm D = ''label_prop'' then detect_label_propagation N D G
           else if dt_algorithm D = ''hierarchical_leiden'' then detect_leiden N D G
           else detect_louvain N D G)
          (\<lambda>e. Inr (fallback_detection N D G))"

definition organize ::
  "networkx \<Rightarrow> detector \<Rightarrow> wgraph \<Rightarrow> resolved_entity list \<Rightarrow> resolved_relationship list \<Rightarrow> levels res" where
  "organize N D G es rs =
     (if 1 < length (dt_multires D) \<and> dt_algorithm D = ''louvain''
      then multires_louvain N D G es rs 1 (dt_multires D)
      else bindR (run_algorithm N D G) (\<lambda>det. Inr (organize_by_level D es rs det)))"

definition detect_communities ::
  "networkx \<Rightarrow> detector \<Rightarrow> resolved_entity list \<Rightarrow> resolved_relationship list \<Rightarrow> detection res" where
  "detect_communities N D es rs =
     with_fallback no_detection
       (let G = create_graph (dt_ontology D) es rs
        in if es = [] \<or> g_nodes G = [] then Inr no_detection
           else bindR (organize N D G es rs) (\<lambda>org.
                bindR (apply_size_management N D es rs G org) (\<lambda>ls.
                let q = community_quality G ls
                in bindR (quality_gates N D G ls q) (\<lambda>gates.
                     Inr \<lparr> dn_communities = ls, dn_levels = length ls, dn_total = length (all_communities ls),
                           dn_quality = Some q, dn_gates = Some gates,
                           dn_graph = Some (length (g_nodes G), length (g_edges G), nx_density N G) \<rparr>))))"

record detection_statistics =
  cs_total :: nat
  cs_levels :: nat
  cs_level_distribution :: "(string \<times> nat) list"
  cs_size_distribution :: "(string \<times> nat) list"

definition community_statistics :: "detection \<Rightarrow> detection_statistics" where
  "community_statistics d =
     \<lparr> cs_total = dn_total d, cs_levels = dn_levels d,
       cs_level_distribution = fold (\<lambda>(lv, cs). AList.update (''level_'' @ str_of_int lv) (length cs)) (dn_communities d) [],
       cs_size_distribution =
         fold (\<lambda>c. dd_add (if co_count c \<le> 2 then ''small'' else if co_count c \<le> 5 then ''medium'' else ''large'') 1)
           (all_communities (dn_communities d)) [] \<rparr>"

end
