(* ===== verification/Tpm_Processor.thy ===== *)
theory Tpm_Processor
  imports Stage_Run "HOL-Library.Multiset"
begin

text \<open>
  \<open>lib/concurrency/tpm_processor.py\<close>: items are processed in batches by a pool of workers under
  a window of reserved tokens, and their results are returned in the order of the items.

  What is done with an item is a function of it (\<open>j_process\<close>), as is the estimate of its tokens.
  The times at which an item starts and ends, and the order in which the futures of a batch
  complete, are parameters. The rate limiter (theory \<open>Rate_Limiter\<close>) only delays; the log
  records are left out.
\<close>

section \<open>Processing\<close>

record ('a, 'b) tpm_job =
  j_process :: "'a \<Rightarrow> 'b res"
  j_estimate :: "'a \<Rightarrow> int res"
  j_start :: "'a \<Rightarrow> rat"
  j_end :: "'a \<Rightarrow> rat"
  j_order :: "nat \<Rightarrow> nat list"
  j_target :: int

text \<open>The window after the reservation, and the time waited.\<close>

definition reserve_tokens :: "int \<Rightarrow> rat \<Rightarrow> int \<Rightarrow> token_window \<Rightarrow> token_window \<times> rat" where
  "reserve_tokens target now estimated w =
     (let recent = filter (\<lambda>(ts, tok). now - 60 < ts) w
      in (recent @ [(now, estimated)],
          if of_int target * (12 / 10) < (of_int (sum_list (map snd recent)) :: rat) then 5 / 100 else 0))"

definition track_item :: "('a, 'b) tpm_job \<Rightarrow> 'a \<Rightarrow> (token_window, 'a \<times> 'b option) act" where
  "track_item J x =
     tryA (bindA (liftR (j_estimate J x)) (\<lambda>est.
           seqA (modifyA (\<lambda>w. fst (reserve_tokens (j_target J) (j_start J x) est w)))
             (bindA (liftR (j_process J x)) (\<lambda>y.
               seqA (modifyA (\<lambda>w. w @ [(j_end J x, est)])) (ret (x, Some y))))))
          (\<lambda>e. ret (x, None))"

text \<open>The futures of a batch, as they complete, fill the slots of their items.\<close>

fun fill_slots :: "('a, 'b) tpm_job \<Rightarrow> 'a list \<Rightarrow> nat list \<Rightarrow> ('a \<times> 'b option) option list
    \<Rightarrow> (token_window, ('a \<times> 'b option) option list) act" where
  "fill_slots J xs [] slots = ret slots"
| "fill_slots J xs (i # is) slots =
     bindA (track_item J (xs ! i)) (\<lambda>r. fill_slots J xs is (slots[i := Some r]))"

function tpm_batches :: "('a, 'b) tpm_job \<Rightarrow> nat \<Rightarrow> nat \<Rightarrow> 'a list
    \<Rightarrow> (token_window, ('a \<times> 'b option) option list) act" where
  "tpm_batches J b k xs =
     (if xs = [] \<or> b = 0 then ret []
      else bindA (fill_slots J (take b xs) (j_order J k) (replicate (length (take b xs)) None)) (\<lambda>rs.
             bindA (tpm_batches J b (Suc k) (drop b xs)) (\<lambda>more. ret (rs @ more))))"
  by pat_completeness auto
termination
  by (relation "measure (\<lambda>(J, b, k, xs). length xs)") auto

declare tpm_batches.simps [simp del]

text \<open>A batch size of zero makes \<open>range\<close> raise; a negative one leaves no batch.\<close>

definition run_tpm :: "('a, 'b) tpm_job \<Rightarrow> int \<Rightarrow> int option \<Rightarrow> 'a list
    \<Rightarrow> (token_window, ('a \<times> 'b option) option list) act" where
  "run_tpm J max_workers batch xs =
     (let b = (case batch of None \<Rightarrow> min (max_workers * 2) 1000 | Some n \<Rightarrow> n)
      in if xs = [] then ret []
         else if b = 0 then raise (Exn ''ValueError'' ''range() arg 3 must not be zero'')
         else if b < 0 then ret []
         else if max_workers \<le> 0 then raise (Exn ''ValueError'' ''max_workers must be greater than 0'')
         else tpm_batches J (nat b) 0 xs)"

section \<open>Results in the order of the items\<close>

text \<open>Every batch is completed in some order; no call raises past \<open>Exception\<close>.\<close>

definition orders_ok :: "('a, 'b) tpm_job \<Rightarrow> nat \<Rightarrow> nat \<Rightarrow> nat \<Rightarrow> bool" where
  "orders_ok J b k n =
     (\<forall>j. mset (j_order J (k + j)) = mset [0..<min b (n - j * b)])"

definition outcome :: "('a, 'b) tpm_job \<Rightarrow> 'a \<Rightarrow> 'b option" where
  "outcome J x =
     (case j_estimate J x of
        Inl e \<Rightarrow> None
      | Inr n \<Rightarrow> (case j_process J x of Inl e \<Rightarrow> None | Inr y \<Rightarrow> Some y))"

definition survives :: "('a, 'b) tpm_job \<Rightarrow> 'a \<Rightarrow> bool" where
  "survives J x =
     ((case j_estimate J x of Inl e \<Rightarrow> is_Exception e | Inr n \<Rightarrow> True)
      \<and> (case j_process J x of Inl e \<Rightarrow> is_Exception e | Inr y \<Rightarrow> True))"

lemma track_item_outcome:
  assumes "survives J x"
  shows "\<exists>w'. track_item J x w = (Inr (x, outcome J x), w')"
  using assms
  by (cases "j_estimate J x"; cases "j_process J x")
    (simp_all add: track_item_def outcome_def survives_def tryA_def bindA_def seqA_def liftR_def ret_def modifyA_def)

lemma fill_slots_all:
  assumes "list_all (survives J) xs" "distinct is" "set is \<subseteq> {..<length xs}" "length slots = length xs"
  shows "\<exists>w'. fill_slots J xs is slots w =
      (Inr (map (\<lambda>i. if i \<in> set is then Some (xs ! i, outcome J (xs ! i)) else slots ! i) [0..<length xs]), w')"
  using assms
proof (induction "is" arbitrary: slots w)
  case Nil
  show ?case using map_nth [of slots] Nil(4) by (simp add: ret_def)
next
  case (Cons i "is")
  then have ix: "i < length xs" by simp
  obtain w1 where t: "track_item J (xs ! i) w = (Inr (xs ! i, outcome J (xs ! i)), w1)"
    using track_item_outcome [of J "xs ! i" w] Cons(2) ix by (auto simp: list_all_length)
  obtain w2 where f: "fill_slots J xs is (slots[i := Some (xs ! i, outcome J (xs ! i))]) w1 =
      (Inr (map (\<lambda>j. if j \<in> set is then Some (xs ! j, outcome J (xs ! j))
                     else slots[i := Some (xs ! i, outcome J (xs ! i))] ! j) [0..<length xs]), w2)"
    using Cons(1) [of "slots[i := Some (xs ! i, outcome J (xs ! i))]" w1] Cons(2-5) by auto
  show ?case using t f Cons(5) by (auto simp: bindA_def nth_list_update)
qed

lemma fill_slots_permutation:
  assumes "list_all (survives J) xs" "mset is = mset [0..<length xs]"
  shows "\<exists>w'. fill_slots J xs is (replicate (length xs) None) w = (Inr (map (\<lambda>x. Some (x, outcome J x)) xs), w')"
proof -
  have s: "set is = {..<length xs}" using assms(2) by (metis set_mset_mset atLeast_upt)
  have d: "distinct is" using assms(2) by (metis distinct_upt mset_eq_imp_distinct_iff)
  obtain w' where w: "fill_slots J xs is (replicate (length xs) None) w =
      (Inr (map (\<lambda>i. if i \<in> set is then Some (xs ! i, outcome J (xs ! i)) else replicate (length xs) None ! i)
         [0..<length xs]), w')"
    using fill_slots_all [OF assms(1) d, of "replicate (length xs) None" w] s by auto
  have "map (\<lambda>i. if i \<in> set is then Some (xs ! i, outcome J (xs ! i)) else replicate (length xs) None ! i)
      [0..<length xs] = map (\<lambda>x. Some (x, outcome J x)) xs"
    by (rule nth_equalityI) (simp_all add: s)
  then show ?thesis using w by auto
qed

lemma tpm_batches_all:
  assumes "list_all (survives J) xs" "0 < b" "orders_ok J b k (length xs)"
  shows "\<exists>w'. tpm_batches J b k xs w = (Inr (map (\<lambda>x. Some (x, outcome J x)) xs), w')"
  using assms
proof (induction "length xs" arbitrary: xs k w rule: less_induct)
  case less
  show ?case
  proof (cases "xs = []")
    case True
    then show ?thesis by (simp add: tpm_batches.simps ret_def)
  next
    case False
    have sv: "list_all (survives J) (take b xs)" "list_all (survives J) (drop b xs)"
      using less(2) by (auto simp: list_all_iff dest: in_set_takeD in_set_dropD)
    have p: "mset (j_order J k) = mset [0..<length (take b xs)]"
      using spec [OF less(4) [unfolded orders_ok_def], of 0] by (simp add: min.commute)
    obtain w1 where f: "fill_slots J (take b xs) (j_order J k) (replicate (length (take b xs)) None) w =
        (Inr (map (\<lambda>x. Some (x, outcome J x)) (take b xs)), w1)"
      using fill_slots_permutation [OF sv(1) p, of w] by blast
    have o: "orders_ok J b (Suc k) (length (drop b xs))"
      unfolding orders_ok_def
    proof
      fix j
      show "mset (j_order J (Suc k + j)) = mset [0..<min b (length (drop b xs) - j * b)]"
        using spec [OF less(4) [unfolded orders_ok_def], of "Suc j"] by (simp add: diff_diff_left)
    qed
    obtain w2 where r: "tpm_batches J b (Suc k) (drop b xs) w1 = (Inr (map (\<lambda>x. Some (x, outcome J x)) (drop b xs)), w2)"
      using less(1) [OF _ sv(2) less(3) o, of w1] less(3) False by (auto simp: diff_less)
    have "map (\<lambda>x. Some (x, outcome J x)) (take b xs) @ map (\<lambda>x. Some (x, outcome J x)) (drop b xs) =
        map (\<lambda>x. Some (x, outcome J x)) xs"
      by (metis append_take_drop_id map_append)
    then show ?thesis using f r False less(3)
      by (subst tpm_batches.simps) (simp add: bindA_def ret_def)
  qed
qed

lemma run_tpm_outcomes:
  assumes "list_all (survives J) xs" "0 < max_workers" "orders_ok J (nat (min (max_workers * 2) 1000)) 0 (length xs)"
  shows "fst (run_tpm J max_workers None xs w) = Inr (map (\<lambda>x. Some (x, outcome J x)) xs)"
  using tpm_batches_all [of J xs "nat (min (max_workers * 2) 1000)" 0 w] assms
  by (cases "xs = []") (auto simp: run_tpm_def Let_def ret_def)

text \<open>
  Whatever the order in which the workers finish, the results are those of the items, in the
  order of the items; an item that raises has none and stops no other.
\<close>

theorem results_in_item_order:
  assumes "list_all (survives J) xs" "0 < max_workers" "orders_ok J (nat (min (max_workers * 2) 1000)) 0 (length xs)"
  shows "fst (run_tpm J max_workers None xs w) = Inr (map (\<lambda>x. Some (x, outcome J x)) xs)"
  by (rule run_tpm_outcomes [OF assms])

text \<open>An item that is processed is counted twice in the window: at the reservation and at its end.\<close>

lemma tokens_counted_twice:
  assumes "j_estimate J x = Inr n" "j_process J x = Inr y"
  shows "snd (track_item J x []) = [(j_start J x, n), (j_end J x, n)]"
  using assms by (simp add: track_item_def tryA_def bindA_def seqA_def liftR_def modifyA_def ret_def reserve_tokens_def)

end
