(* ===== verification/Community_Summaries.thy ===== *)
theory Community_Summaries
  imports Community_Sizes Tpm_Processor
begin

text \<open>
  \<open>domain/graphrag/agents/community_summarization.py\<close> and the model \<open>CommunitySummary\<close>: the
  language model describes every community; one that is too large for the model is reduced to
  its most central entities and relationships first.

  Parameters: the language model with its retries, whose reply may depend on the community, the
  encodings of tiktoken, PageRank and degree centrality. The text of the system prompt is a
  field of the summarizer; the log records are left out.
\<close>

section \<open>Summaries\<close>

record community_summary =
  sm_id :: string
  sm_level :: int
  sm_title :: string
  sm_summary :: string
  sm_entities :: "string list"
  sm_entity_count :: nat
  sm_relationship_count :: nat
  sm_coherence :: real

definition summary_ok :: "community_summary \<Rightarrow> bool" where
  "summary_ok s =
     (1 \<le> length (sm_id s) \<and> length (sm_id s) \<le> 100 \<and> 1 \<le> sm_level s \<and> sm_level s \<le> 10 \<and>
      1 \<le> length (sm_title s) \<and> length (sm_title s) \<le> 200 \<and>
      50 \<le> length (sm_summary s) \<and> length (sm_summary s) \<le> 5000 \<and>
      sm_entities s \<noteq> [] \<and> 1 \<le> sm_entity_count s \<and> 0 \<le> sm_coherence s \<and> sm_coherence s \<le> 1 \<and>
      list_all is_md5 (sm_entities s))"

definition CommunitySummary :: "community_summary \<Rightarrow> community_summary res" where
  "CommunitySummary s =
     (if summary_ok s then Inr s else Inl (Exn ''ValidationError'' ''CommunitySummary''))"

record summary_request =
  sq_model :: string
  sq_user :: string
  sq_temperature :: real
  sq_max_completion_tokens :: "int option"
  sq_max_tokens :: "int option"

record summarizer =
  sz_model :: string
  sz_large_model :: string
  sz_temperature :: real
  sz_max_tokens :: "int option"
  sz_max_summary :: int
  sz_min_summary :: int
  sz_max_context :: "int option"
  sz_prompt :: string
  sz_encodings :: "string \<Rightarrow> (string \<Rightarrow> nat res) option"
  sz_llm :: "string \<Rightarrow> bool \<Rightarrow> summary_request \<Rightarrow> string option res"
  sz_pagerank :: "wgraph \<Rightarrow> (string \<times> real) list res"
  sz_degree :: "wgraph \<Rightarrow> (string \<times> real) list res"

section \<open>Counting tokens\<close>

fun model_limit :: "(string \<times> int) list \<Rightarrow> string \<Rightarrow> int \<Rightarrow> int" where
  "model_limit [] m d = d"
| "model_limit ((k, n) # ls) m d = (if str_contains k (str_lower m) then n else model_limit ls m d)"

definition context_limits :: "(string \<times> int) list" where
  "context_limits =
     [(''gpt-4o'', 120000), (''gpt-4o-mini'', 120000), (''gpt-4-turbo'', 120000), (''o1-mini'', 110000),
      (''o1-preview'', 110000), (''o3-mini'', 110000), (''gpt-4'', 7000), (''gpt-3.5-turbo'', 14000)]"

definition small_model_limits :: "(string \<times> int) list" where
  "small_model_limits =
     [(''gpt-4o-mini'', 60000), (''gpt-4o'', 60000), (''gpt-4-turbo'', 60000), (''gpt-4'', 5000),
      (''gpt-3.5-turbo'', 10000)]"

definition max_context_tokens :: "summarizer \<Rightarrow> int" where
  "max_context_tokens S =
     (case sz_max_context S of Some n \<Rightarrow> n | None \<Rightarrow> model_limit context_limits (sz_large_model S) 100000)"

definition small_model_limit :: "summarizer \<Rightarrow> int" where
  "small_model_limit S = model_limit small_model_limits (sz_model S) 60000"

definition encoding_map :: "(string \<times> string) list" where
  "encoding_map =
     [(''gpt-4o-mini'', ''o200k_base''), (''gpt-4o'', ''o200k_base''), (''gpt-4-turbo'', ''cl100k_base''),
      (''gpt-4'', ''cl100k_base''), (''gpt-3.5-turbo'', ''cl100k_base'')]"

definition encoding_name :: "string \<Rightarrow> string" where
  "encoding_name m =
     (let parts = str_split_n (CHR ''-'') (length m) [] m;
          key = (if CHR ''-'' \<in> set m then parts ! 0 @ ''-'' @ parts ! 1 else m)
      in case map_of encoding_map key of None \<Rightarrow> ''cl100k_base'' | Some n \<Rightarrow> n)"

definition count_tokens_exact :: "summarizer \<Rightarrow> string \<Rightarrow> nat res" where
  "count_tokens_exact S t =
     (case sz_encodings S (encoding_name (sz_model S)) of Some f \<Rightarrow> f t | None \<Rightarrow> Inr (length t div 4))"

definition entity_line :: "resolved_entity \<Rightarrow> string" where
  "entity_line e = ''- '' @ name e @ '' ('' @ type_value (etype e) @ ''): '' @ description e"

definition relationship_line :: "resolved_relationship \<Rightarrow> string" where
  "relationship_line r =
     ''- '' @ rr_subject r @ '' -> '' @ rr_object r @ '' ('' @ rr_predicate r @ ''): '' @ rr_description r"

definition output_tokens :: "summarizer \<Rightarrow> int" where
  "output_tokens S = (case sz_max_tokens S of None \<Rightarrow> 2000 | Some n \<Rightarrow> if n = 0 then 2000 else n)"

definition estimate_tokens_for_community ::
  "summarizer \<Rightarrow> resolved_entity list \<Rightarrow> resolved_relationship list \<Rightarrow> int res" where
  "estimate_tokens_for_community S es rs =
     bindR (count_tokens_exact S (str_join nl (map entity_line es) @ nl @ str_join nl (map relationship_line rs))) (\<lambda>i.
     bindR (count_tokens_exact S (sz_prompt S)) (\<lambda>p.
       Inr (int p + int i + output_tokens S)))"

section \<open>Centrality\<close>

definition or_half :: "real \<Rightarrow> real" where
  "or_half x = (if x = 0 then 1 / 2 else x)"

definition or_one :: "int \<Rightarrow> real" where
  "or_one n = (if n = 0 then 1 else real_of_int n)"

definition centrality_graph :: "resolved_entity list \<Rightarrow> resolved_relationship list \<Rightarrow> wgraph" where
  "centrality_graph es rs =
     fold (\<lambda>r G. if rr_subject r \<in> set (map entity_id es) \<and> rr_object r \<in> set (map entity_id es)
                 then add_edge (rr_subject r) (rr_object r) (rr_confidence r) G else G) rs
       \<lparr> g_nodes = fold (\<lambda>e. AList.update (entity_id e) []) es [], g_edges = [] \<rparr>"

definition community_centrality ::
  "summarizer \<Rightarrow> resolved_entity list \<Rightarrow> resolved_relationship list \<Rightarrow> (string \<times> real) list res" where
  "community_centrality S es rs =
     (if es = [] \<or> rs = [] then Inr (map (\<lambda>e. (entity_id e, 1)) es)
      else bindR (tryR (sz_pagerank S (centrality_graph es rs)) (\<lambda>e. sz_degree S (centrality_graph es rs))) (\<lambda>scores.
             let top = (if scores = [] then 1 else foldr max (map snd (tl scores)) (snd (hd scores)));
                 m = (if top = 0 then 1 else top)
             in Inr (map (\<lambda>e. (entity_id e,
                  if 0 < m then (case map_of scores (entity_id e) of None \<Rightarrow> 0 | Some v \<Rightarrow> v) / m else 1 / 2)) es)))"

definition centrality_of :: "(string \<times> real) list \<Rightarrow> string \<Rightarrow> real" where
  "centrality_of cs i = (case map_of cs i of None \<Rightarrow> 1 / 2 | Some v \<Rightarrow> v)"

definition entity_score :: "(string \<times> real) list \<Rightarrow> resolved_entity \<Rightarrow> real" where
  "entity_score cs e = centrality_of cs (entity_id e) * or_half (confidence e) * or_one (source_count e)"

text \<open>\<open>sort(key=score, reverse=True)\<close>, which keeps the order of equal scores, and the first ones.\<close>

definition top_by :: "('a \<Rightarrow> real) \<Rightarrow> nat \<Rightarrow> 'a list \<Rightarrow> 'a list" where
  "top_by f n xs = take n (sort_key (\<lambda>x. - f x) xs)"

definition select_important_entities ::
  "summarizer \<Rightarrow> resolved_entity list \<Rightarrow> resolved_relationship list \<Rightarrow> nat \<Rightarrow> resolved_entity list res" where
  "select_important_entities S es rs n =
     (if length es \<le> n then Inr es
      else bindR (community_centrality S es rs) (\<lambda>cs. Inr (top_by (entity_score cs) n es)))"

definition dict_by :: "('a \<Rightarrow> string) \<Rightarrow> 'a list \<Rightarrow> (string \<times> 'a) list" where
  "dict_by k xs = fold (\<lambda>x. AList.update (k x) x) xs []"

definition relationship_score ::
  "(string \<times> real) list \<Rightarrow> resolved_entity \<Rightarrow> resolved_entity \<Rightarrow> resolved_relationship \<Rightarrow> real" where
  "relationship_score cs s t r =
     (entity_score cs s + entity_score cs t) / 2 * or_half (rr_confidence r) * or_one (rr_source_count r)"

definition scored_relationships ::
  "resolved_entity list \<Rightarrow> (string \<times> real) list \<Rightarrow> resolved_relationship list \<Rightarrow> (real \<times> resolved_relationship) list" where
  "scored_relationships es cs rs =
     List.map_filter (\<lambda>r.
       case (map_of (dict_by entity_id es) (rr_subject r), map_of (dict_by entity_id es) (rr_object r)) of
         (Some s, Some t) \<Rightarrow> Some (relationship_score cs s t r, r)
       | _ \<Rightarrow> None) rs"

definition select_important_relationships ::
  "resolved_relationship list \<Rightarrow> resolved_entity list \<Rightarrow> (string \<times> real) list \<Rightarrow> nat \<Rightarrow> resolved_relationship list" where
  "select_important_relationships rs es cs n =
     (if length rs \<le> n then rs else map snd (top_by fst n (scored_relationships es cs rs)))"

text \<open>Frequency times mean weight.\<close>

definition predicate_profile :: "resolved_relationship list \<Rightarrow> nat \<Rightarrow> string list" where
  "predicate_profile rs n =
     (let counts = fold (\<lambda>r. dd_add (rr_predicate r) (1::nat)) rs [];
          weights = fold (\<lambda>r. dd_add (rr_predicate r) (or_half (rr_confidence r))) rs [];
          scored = map (\<lambda>(p, c). (real c * ((case map_of weights p of None \<Rightarrow> 0 | Some w \<Rightarrow> w) / real c), p)) counts
      in map snd (top_by fst n scored))"

section \<open>The text of a summary\<close>

definition blanks :: string where
  "blanks = ''        ''"

definition summary_input :: "resolved_entity list \<Rightarrow> resolved_relationship list \<Rightarrow> string" where
  "summary_input es rs =
     (let profile = predicate_profile rs 10;
          focus = (if profile = [] then []
                   else nl @ nl @ ''This community focuses on these relationship types: '' @ str_join '', '' (take 5 profile))
      in nl @ blanks @ ''Entities in this community:'' @ nl @ blanks @ str_join nl (map entity_line es) @ nl @ nl
         @ blanks @ ''Relationships in this community:'' @ nl @ blanks @ str_join nl (map relationship_line rs) @ focus
         @ nl @ nl @ blanks @ ''Please create a comprehensive summary of this community.'' @ nl @ blanks)"

definition summary_restricted :: "string \<Rightarrow> bool" where
  "summary_restricted m = list_ex (\<lambda>p. str_contains p (str_lower m)) [''gpt-5'', ''o1'', ''o3'', ''o4'']"

definition request_of :: "summarizer \<Rightarrow> bool \<Rightarrow> string \<Rightarrow> summary_request" where
  "request_of S large txt =
     (let m = (if large then sz_large_model S else sz_model S)
      in \<lparr> sq_model = m, sq_user = txt, sq_temperature = sz_temperature S,
           sq_max_completion_tokens = (if summary_restricted m then Some (max (output_tokens S) 8000) else None),
           sq_max_tokens = (if summary_restricted m then None else Some (output_tokens S)) \<rparr>)"

definition generate_with_llm :: "summarizer \<Rightarrow> string \<Rightarrow> bool \<Rightarrow> string \<Rightarrow> string res" where
  "generate_with_llm S cid large txt =
     bindR (sz_llm S cid large (request_of S large txt)) (\<lambda>content.
       Inr (case content of None \<Rightarrow> [] | Some c \<Rightarrow> str_strip c))"

text \<open>A text that is too short is none; one that is too long is cut.\<close>

definition fit_text :: "summarizer \<Rightarrow> string \<Rightarrow> string option" where
  "fit_text S t =
     (if int (length t) < sz_min_summary S then None
      else if sz_max_summary S < int (length t) then Some (slice_to (sz_max_summary S) t @ ''...'')
      else Some t)"

definition generate_summary_text ::
  "summarizer \<Rightarrow> string \<Rightarrow> bool \<Rightarrow> resolved_entity list \<Rightarrow> resolved_relationship list \<Rightarrow> string option res" where
  "generate_summary_text S cid large es rs =
     tryR (bindR (generate_with_llm S cid large (summary_input es rs)) (\<lambda>t. Inr (fit_text S t))) (\<lambda>e. Inr None)"

fun title_line :: "string list \<Rightarrow> string option" where
  "title_line [] = None"
| "title_line (l # ls) =
     (let s = str_strip l
      in if str_startswith s ''Title:'' then Some (str_strip (drop 6 s))
         else if str_startswith s ''#'' then Some (str_strip (drop 1 s))
         else if length s < 100 \<and> str_endswith s '':'' then Some (str_strip (butlast s))
         else title_line ls)"

definition extract_title :: "string \<Rightarrow> string" where
  "extract_title t =
     (let ls = str_split_n (CHR 0x0A) (length t) [] t; f = str_strip (hd ls)
      in case title_line ls of
           Some s \<Rightarrow> s
         | None \<Rightarrow> if length f < 100 then f else if 50 < length f then take 50 f @ ''...'' else f)"

section \<open>Summarizing a community\<close>

definition text_summary :: "community \<Rightarrow> string \<Rightarrow> community_summary res" where
  "text_summary c t =
     CommunitySummary
       \<lparr> sm_id = co_id c, sm_level = co_level c, sm_title = extract_title t, sm_summary = t,
         sm_entities = co_entities c, sm_entity_count = co_count c,
         sm_relationship_count = co_relationship_count c, sm_coherence = co_coherence c \<rparr>"

definition known_items :: "(string \<times> 'a) list \<Rightarrow> string list \<Rightarrow> 'a list" where
  "known_items d ids = List.map_filter (map_of d) ids"

definition truncation_note :: "nat \<Rightarrow> nat \<Rightarrow> nat \<Rightarrow> nat \<Rightarrow> string" where
  "truncation_note se ne sr nr =
     nl @ nl @ ''Note: This summary covers '' @ str_of_nat se @ '' of '' @ str_of_nat ne @ '' entities and ''
     @ str_of_nat sr @ '' of '' @ str_of_nat nr @ '' relationships.''"

definition summarize_large_community ::
  "summarizer \<Rightarrow> (string \<times> resolved_entity) list \<Rightarrow> (string \<times> resolved_relationship) list \<Rightarrow> community
    \<Rightarrow> nat \<Rightarrow> nat \<Rightarrow> community_summary option res" where
  "summarize_large_community S em rm c max_es max_rs =
     (let es = known_items em (co_entities c); rs = known_items rm (co_relationships c)
      in if es = [] then Inr None
         else bindR (community_centrality S es rs) (\<lambda>cs.
              bindR (select_important_entities S es rs max_es) (\<lambda>ses.
              let srs = select_important_relationships rs es cs max_rs
              in bindR (generate_summary_text S (co_id c) True ses srs) (\<lambda>reply.
                   case reply of
                     None \<Rightarrow> Inr None
                   | Some t \<Rightarrow>
                       if t = [] then Inr None
                       else bindR (text_summary c
                              (if max_es < length es \<or> max_rs < length rs
                               then t @ truncation_note (length ses) (length es) (length srs) (length rs) else t))
                            (\<lambda>s. Inr (Some s))))))"

text \<open>\<open>int(x)\<close> of a float.\<close>

definition truncate_real :: "real \<Rightarrow> int" where
  "truncate_real x = (if x < 0 then ceiling x else floor x)"

definition cap_limits :: "bool \<Rightarrow> nat \<Rightarrow> nat \<Rightarrow> int \<Rightarrow> int \<Rightarrow> nat \<times> nat" where
  "cap_limits huge ne nr es rs =
     (let es' = min es (min 30 (int ne)); rs' = min rs (min 50 (int nr))
      in if huge then (nat (min es' 15), nat (min rs' 25)) else (nat es', nat rs'))"

text \<open>How many entities and relationships of a community over the limit are kept.\<close>

definition truncation_limits :: "int \<Rightarrow> int \<Rightarrow> nat \<Rightarrow> nat \<Rightarrow> nat \<times> nat" where
  "truncation_limits context est ne nr =
     (let available = truncate_real (real_of_int context / 2) - 2000;
          per_item = (if 0 < ne then real_of_int est / (real ne + real nr * (3 / 2)) else 200);
          ratio = real ne / (if 0 < ne + nr then real (ne + nr) else 1);
          items = truncate_real (real_of_int available / per_item);
          es = max 1 (min (truncate_real (real_of_int items * ratio)) (int ne));
          rs = max 1 (min (truncate_real (real_of_int items * (1 - ratio))) (int nr))
      in cap_limits (context * 2 < est) ne nr es rs)"

definition summarize_single_community ::
  "summarizer \<Rightarrow> (string \<times> resolved_entity) list \<Rightarrow> (string \<times> resolved_relationship) list \<Rightarrow> community
    \<Rightarrow> community_summary option res" where
  "summarize_single_community S em rm c =
     (let es = known_items em (co_entities c); rs = known_items rm (co_relationships c)
      in if es = [] then Inr None
         else bindR (estimate_tokens_for_community S es rs) (\<lambda>est.
                if small_model_limit S < est
                then (let (max_es, max_rs) = truncation_limits (max_context_tokens S) est (length es) (length rs)
                      in summarize_large_community S em rm c max_es max_rs)
                else bindR (generate_summary_text S (co_id c) False es rs) (\<lambda>reply.
                       case reply of
                         None \<Rightarrow> summarize_large_community S em rm c (min 100 (length es)) (min 150 (length rs))
                       | Some t \<Rightarrow>
                           if t = [] then summarize_large_community S em rm c (min 100 (length es)) (min 150 (length rs))
                           else bindR (text_summary c t) (\<lambda>s. Inr (Some s)))))"

section \<open>Summarizing all communities\<close>

type_synonym summaries = "(string \<times> community_summary) list"

definition put_summary :: "string \<Rightarrow> community_summary option \<Rightarrow> summaries \<Rightarrow> summaries" where
  "put_summary k s acc = (case s of None \<Rightarrow> acc | Some x \<Rightarrow> AList.update k x acc)"

fun summarize_each ::
  "summarizer \<Rightarrow> (string \<times> resolved_entity) list \<Rightarrow> (string \<times> resolved_relationship) list
    \<Rightarrow> (string \<times> community) list \<Rightarrow> summaries \<Rightarrow> summaries res" where
  "summarize_each S em rm [] acc = Inr acc"
| "summarize_each S em rm ((k, c) # cs) acc =
     bindR (tryR (summarize_single_community S em rm c) (\<lambda>e. Inr None)) (\<lambda>s.
       summarize_each S em rm cs (put_summary k s acc))"

text \<open>The pool of the concurrent mode: its size, the order of completion and the times.\<close>

record pool =
  pl_workers :: int
  pl_target :: int
  pl_order :: "nat \<Rightarrow> nat list"
  pl_start :: "string \<Rightarrow> rat"
  pl_end :: "string \<Rightarrow> rat"

definition summary_tokens :: "community \<Rightarrow> int" where
  "summary_tokens c = max (int (length (co_entities c) * 200 + length (co_relationships c) * 300 + 2000)) 500"

definition summary_job ::
  "summarizer \<Rightarrow> pool \<Rightarrow> (string \<times> resolved_entity) list \<Rightarrow> (string \<times> resolved_relationship) list
    \<Rightarrow> (string \<times> community, string \<times> community_summary option) tpm_job" where
  "summary_job S P em rm =
     \<lparr> j_process = (\<lambda>(k, c). bindR (summarize_single_community S em rm c) (\<lambda>s. Inr (k, s))),
       j_estimate = (\<lambda>(k, c). Inr (summary_tokens c)),
       j_start = pl_start P \<circ> fst, j_end = pl_end P \<circ> fst, j_order = pl_order P, j_target = pl_target P \<rparr>"

text \<open>A slot without a result would make the unpacking of the pair raise.\<close>

fun collect_summaries ::
  "((string \<times> community) \<times> (string \<times> community_summary option) option) option list \<Rightarrow> summaries \<Rightarrow> summaries res" where
  "collect_summaries [] acc = Inr acc"
| "collect_summaries (None # rs) acc = Inl (Exn ''TypeError'' ''cannot unpack non-iterable NoneType object'')"
| "collect_summaries (Some (item, None) # rs) acc = collect_summaries rs acc"
| "collect_summaries (Some (item, Some (k, s)) # rs) acc = collect_summaries rs (put_summary k s acc)"

definition summarize_concurrent ::
  "summarizer \<Rightarrow> pool \<Rightarrow> (string \<times> resolved_entity) list \<Rightarrow> (string \<times> resolved_relationship) list
    \<Rightarrow> (string \<times> community) list \<Rightarrow> summaries res" where
  "summarize_concurrent S P em rm items =
     (if items = [] then Inr []
      else bindR (fst (run_tpm (summary_job S P em rm) (pl_workers P) None items [])) (\<lambda>rs. collect_summaries rs []))"

definition community_items :: "levels \<Rightarrow> (string \<times> community) list" where
  "community_items ls = concat (map snd ls)"

definition summarize_communities ::
  "summarizer \<Rightarrow> pool \<Rightarrow> bool \<Rightarrow> levels \<Rightarrow> resolved_entity list \<Rightarrow> resolved_relationship list \<Rightarrow> summaries res" where
  "summarize_communities S P concurrent ls es rs =
     with_fallback []
       (let em = dict_by entity_id es; rm = dict_by rr_id rs
        in if concurrent then summarize_concurrent S P em rm (community_items ls)
           else summarize_each S em rm (community_items ls) [])"

text \<open>The extremes and the mean coherence are absent without summaries.\<close>

record summarization_stats =
  ss_total :: nat
  ss_avg_length :: real
  ss_levels :: "(int \<times> nat) list"
  ss_coherence :: "(string \<times> nat) list"
  ss_extremes :: "(nat \<times> nat \<times> real) option"

definition get_summarization_stats :: "summaries \<Rightarrow> summarization_stats" where
  "get_summarization_stats d =
     (let xs = map snd d; lens = map (\<lambda>s. length (sm_summary s)) xs; cs = map sm_coherence xs
      in if d = []
         then \<lparr> ss_total = 0, ss_avg_length = 0, ss_levels = [], ss_coherence = [], ss_extremes = None \<rparr>
         else \<lparr> ss_total = length d, ss_avg_length = real (sum_list lens) / real (length lens),
                ss_levels = fold (\<lambda>s. dd_add (sm_level s) 1) xs [],
                ss_coherence = [(''high'', length (filter (\<lambda>s. 7 / 10 \<le> s) cs)),
                                (''medium'', length (filter (\<lambda>s. 4 / 10 \<le> s \<and> s < 7 / 10) cs)),
                                (''low'', length (filter (\<lambda>s. s < 4 / 10) cs))],
                ss_extremes = Some (foldr min (tl lens) (hd lens), foldr max (tl lens) (hd lens),
                                    sum_list cs / real (length cs)) \<rparr>)"

end
