(* ===== verification/Run_Metadata.thy ===== *)
theory Run_Metadata
  imports Community_Sizes "HOL-Library.Product_Lexorder" "HOL-Library.Multiset"
begin

text \<open>
  \<open>domain/graphrag/services/run_metadata.py\<close>: the hash of the parameters of a run, the
  signature of the graph it ran on, and the documents of the collection of runs.

  SHA-1, the JSON text of a parameter dictionary and the text of an object identifier are
  parameters. The identifier of a document is an object identifier or a text; a query by one
  never matches the other.
\<close>

section \<open>Hashes\<close>

datatype param = Text_Param string | Num_Param real

text \<open>\<open>dict(sorted(params.items()))\<close>; the keys of a dictionary are distinct.\<close>

definition compute_params_hash ::
  "(string \<Rightarrow> string) \<Rightarrow> ((string \<times> param) list \<Rightarrow> string) \<Rightarrow> (string \<times> param) list \<Rightarrow> string" where
  "compute_params_hash sha1 dumps params = take 12 (sha1 (dumps (sort_key fst params)))"

text \<open>\<open>round(x, 2)\<close> as a number of hundredths, ties to even.\<close>

definition hundredths :: "real \<Rightarrow> int" where
  "hundredths x =
     (let y = x * 100; f = floor y; d = y - of_int f
      in if d < 1 / 2 then f else if 1 / 2 < d then f + 1 else if even f then f else f + 1)"

definition show_hundredths :: "int \<Rightarrow> string" where
  "show_hundredths n =
     (let m = nat (abs n)
      in (if n < 0 then ''-'' else []) @ str_of_nat (m div 100) @ ''.'' @ [digit_char (m mod 100 div 10), digit_char (m mod 10)])"

definition signature_tuple :: "resolved_relationship \<Rightarrow> string \<times> string \<times> string \<times> int" where
  "signature_tuple r = (rr_subject r, rr_object r, rr_predicate r, hundredths (rr_confidence r))"

definition signature_text :: "string \<times> string \<times> string \<times> int \<Rightarrow> string" where
  "signature_text = (\<lambda>(s, t, p, c). s @ ''|'' @ t @ ''|'' @ p @ ''|'' @ show_hundredths c)"

definition compute_graph_signature ::
  "(string \<Rightarrow> string) \<Rightarrow> resolved_entity list \<Rightarrow> resolved_relationship list \<Rightarrow> string" where
  "compute_graph_signature sha1 es rs =
     take 12 (sha1 (str_of_nat (length es) @ '':'' @ str_join '','' (map signature_text (sort (map signature_tuple rs)))))"

section \<open>Run documents\<close>

datatype mongo_id = OId nat | SId string

record kept_metrics =
  rm_total :: nat
  rm_levels :: nat
  rm_stored :: nat
  rm_modularity :: real
  rm_coverage :: real
  rm_graph :: "(nat \<times> nat \<times> real) option"
  rm_quality :: "quality option"

text \<open>Fresh runs have an empty dictionary of metrics, here \<open>None\<close>.\<close>

record run_doc =
  rn_id :: mongo_id
  rn_stage :: string
  rn_params_hash :: string
  rn_signature :: string
  rn_params :: "(string \<times> param) list"
  rn_ontology :: string
  rn_status :: string
  rn_started_at :: rat
  rn_completed_at :: "rat option"
  rn_metrics :: "kept_metrics option"
  rn_trace :: "string option"

definition create_run_document ::
  "(nat \<Rightarrow> string) \<Rightarrow> nat \<Rightarrow> rat \<Rightarrow> string \<Rightarrow> string \<Rightarrow> string \<Rightarrow> (string \<times> param) list \<Rightarrow> string \<Rightarrow> string option
    \<Rightarrow> run_doc list \<Rightarrow> string \<times> run_doc list" where
  "create_run_document oid_text new_oid now stage ph sig params version trace runs =
     (oid_text new_oid,
      runs @ [\<lparr> rn_id = OId new_oid, rn_stage = stage, rn_params_hash = ph, rn_signature = sig, rn_params = params,
                rn_ontology = version, rn_status = ''started'', rn_started_at = now, rn_completed_at = None,
                rn_metrics = None, rn_trace = (if trace = Some [] then None else trace) \<rparr>])"

definition find_existing_run :: "string \<Rightarrow> string \<Rightarrow> string \<Rightarrow> run_doc list \<Rightarrow> run_doc option" where
  "find_existing_run stage ph sig runs =
     find (\<lambda>r. rn_stage r = stage \<and> rn_params_hash r = ph \<and> rn_signature r = sig \<and> rn_status r = ''completed'') runs"

text \<open>The query is by \<open>{"_id": run_id}\<close> with the text of the identifier.\<close>

definition update_run_document ::
  "string \<Rightarrow> string \<Rightarrow> kept_metrics option \<Rightarrow> rat \<Rightarrow> run_doc list \<Rightarrow> run_doc list" where
  "update_run_document rid status metrics now runs =
     update_first (\<lambda>r. rn_id r = SId rid)
       (\<lambda>r. r\<lparr>rn_status := status, rn_completed_at := Some now,
             rn_metrics := (case metrics of None \<Rightarrow> rn_metrics r | Some m \<Rightarrow> Some m)\<rparr>) runs"

definition get_run_document :: "(string \<Rightarrow> nat res) \<Rightarrow> string \<Rightarrow> run_doc list \<Rightarrow> run_doc option res" where
  "get_run_document object_id rid runs =
     tryR (bindR (object_id rid) (\<lambda>n. Inr (find (\<lambda>r. rn_id r = OId n) runs)))
       (\<lambda>e. Inr (find (\<lambda>r. rn_id r = SId rid) runs))"

section \<open>Signatures do not depend on the order\<close>

lemma sort_eq_mset: "mset xs = mset ys \<Longrightarrow> sort xs = sort (ys :: 'a::linorder list)"
  by (metis mset_sort properties_for_sort sorted_sort)

text \<open>
  The signature of a graph is that of any other listing of its relationships, and the hash of
  the parameters that of any other order of their dictionary.
\<close>

theorem signatures_order_independent:
  assumes "mset rs' = mset rs" "length es' = length es"
    and "mset params' = mset params" "distinct (map fst params)"
  shows "compute_graph_signature sha1 es' rs' = compute_graph_signature sha1 es rs \<and>
    compute_params_hash sha1 dumps params' = compute_params_hash sha1 dumps params"
proof -
  have "sort (map signature_tuple rs') = sort (map signature_tuple rs)"
    by (rule sort_eq_mset) (simp add: assms(1))
  moreover have "sort_key fst params' = sort_key fst params"
  proof (rule properties_for_sort_key)
    show "mset (sort_key fst params) = mset params'" using assms(3) by simp
    show "filter (\<lambda>x. fst k = fst x) (sort_key fst params) = filter (\<lambda>x. fst k = fst x) params'"
      if "k \<in> set (sort_key fst params)" for k
    proof -
      have d: "distinct (map fst (sort_key fst params))" "distinct (map fst params')"
        using assms(3,4) by (metis distinct_map mset_eq_imp_distinct_iff mset_map mset_sort)+
      have k: "k \<in> set params'" using that assms(3) by (metis mset_eq_setD set_sort)
      have one: "filter (\<lambda>x. fst k = fst x) xs = [k]" if "distinct (map fst xs)" "k \<in> set xs" for xs :: "(string \<times> param) list"
        using that
      proof (induction xs)
        case (Cons x xs)
        then show ?case by (cases "k = x") (auto simp: filter_empty_conv rev_image_eqI)
      qed simp
      show ?thesis using one [OF d(1) that] one [OF d(2) k] by simp
    qed
  qed simp
  ultimately show ?thesis using assms(2) by (simp add: compute_graph_signature_def compute_params_hash_def)
qed

lemma signatures_order_independent_witness:
  "compute_graph_signature sha1 [e] [r2, r1] = compute_graph_signature sha1 [e'] [r1, r2] \<and>
    compute_params_hash sha1 dumps [(''b'', Num_Param 2), (''a'', Num_Param 1)] =
    compute_params_hash sha1 dumps [(''a'', Num_Param 1), (''b'', Num_Param 2)]"
  by (rule signatures_order_independent) (simp_all add: add_mset_commute)

section \<open>Runs are not completed\<close>

text \<open>Every run has an object identifier and the status with which it was created.\<close>

definition runs_open :: "run_doc list \<Rightarrow> bool" where
  "runs_open runs = list_all (\<lambda>r. (\<exists>n. rn_id r = OId n) \<and> rn_status r = ''started'') runs"

lemma update_run_no_match: "runs_open runs \<Longrightarrow> update_run_document rid status metrics now runs = runs"
  unfolding update_run_document_def by (rule update_first_none) (auto simp: runs_open_def list_all_iff)

lemma runs_open_create:
  "runs_open runs \<Longrightarrow> runs_open (snd (create_run_document f n now st ph sig ps v t runs))"
  by (simp add: runs_open_def create_run_document_def)

lemma no_existing_run: "runs_open runs \<Longrightarrow> find_existing_run st ph sig runs = None"
  by (auto simp: runs_open_def find_existing_run_def find_None_iff list_all_iff)

end
