(* ===== verification/Community_Stage.thy ===== *)
theory Community_Stage
  imports Community_Summaries Run_Metadata Graph_Construction
begin

text \<open>
  \<open>domain/graphrag/stages/community_detection.py\<close>: the first chunk that reaches the stage
  detects the communities of the whole graph under a lock, has them described, stores them and
  marks every chunk; the others are skipped.

  The state is the collections the stage reads and writes, its flag and its statistics. What
  the lock protects is one step. The agents are those of the theories \<open>Community_Sizes\<close> and
  \<open>Community_Summaries\<close>. The transformation log, whose failures are swallowed, and the choice
  of the databases are left out.
\<close>

section \<open>State\<close>

record clustered_entity = entity_doc +
  ce_assignments :: "(string \<times> string list) list"

record community_doc =
  cm_id :: string
  cm_level :: int
  cm_title :: string
  cm_summary :: string
  cm_entities :: "string list"
  cm_entity_count :: nat
  cm_relationship_count :: nat
  cm_coherence :: real
  cm_chunks :: "string list"
  cm_video :: string
  cm_created_at :: rat
  cm_run :: string
  cm_params_hash :: string

record detection_payload =
  dp_detected :: nat
  dp_total :: nat
  dp_levels :: nat
  dp_stored :: nat
  dp_at :: rat
  dp_model :: string
  dp_run :: string
  dp_params_hash :: string

datatype detection_status = Detection_Completed detection_payload | Detection_Failed string rat string

text \<open>A chunk: the status of its construction, and that of this stage.\<close>

record chunk_row =
  ck_id :: string
  ck_video :: string
  ck_constructed :: bool
  ck_excluded :: bool
  ck_detection :: "detection_status option"

record level_sizes =
  lz_min :: nat
  lz_max :: nat
  lz_mean :: real
  lz_median :: nat
  lz_histogram :: "(string \<times> nat) list"

record metrics_doc =
  mt_run :: string
  mt_params_hash :: string
  mt_at :: rat
  mt_nodes :: nat
  mt_edges :: nat
  mt_density :: real
  mt_ratio :: real
  mt_total :: nat
  mt_levels :: nat
  mt_modularity :: real
  mt_coverage :: real
  mt_sizes :: "(int \<times> level_sizes) list"
  mt_coherence :: "real \<times> real \<times> real"

record detection_state =
  sd_entities :: "clustered_entity list"
  sd_relations :: "rel_doc list"
  sd_communities :: "community_doc list"
  sd_runs :: "run_doc list"
  sd_metrics :: "metrics_doc list"
  sd_chunks :: "chunk_row list"
  sd_detected :: bool
  sd_stats :: stage_statistics

record detection_setting =
  se_networkx :: networkx
  se_detector :: detector
  se_summarizer :: summarizer
  se_pool :: pool
  se_tracking :: bool
  se_concurrency :: "int option"
  se_iterations :: int
  se_levels :: int
  se_seed :: string
  se_dumps :: "(string \<times> param) list \<Rightarrow> string"
  se_oid_text :: "nat \<Rightarrow> string"
  se_new_oid :: "run_doc list \<Rightarrow> nat"
  se_trace :: "string option"
  se_clock :: "string \<Rightarrow> rat"
  se_video :: string
  se_input_videos :: "string list"
  se_max :: nat
  se_stores :: "string \<Rightarrow> bool"

section \<open>Reading\<close>

definition needs_detection :: "chunk_row \<Rightarrow> bool" where
  "needs_detection c =
     (ck_constructed c \<and> (case ck_detection c of Some (Detection_Completed p) \<Rightarrow> False | _ \<Rightarrow> True))"

definition detection_docs :: "detection_setting \<Rightarrow> detection_state \<Rightarrow> chunk_row list" where
  "detection_docs S s =
     (let cs = filter (\<lambda>c. needs_detection c \<and> \<not> ck_excluded c \<and>
                 (if se_video S \<noteq> [] then ck_video c = se_video S
                  else se_input_videos S = [] \<or> ck_video c \<in> set (se_input_videos S))) (sd_chunks s)
      in if se_max S = 0 then cs else take (se_max S) cs)"

definition parse_entity :: "clustered_entity \<Rightarrow> resolved_entity res" where
  "parse_entity d =
     bindR (EntityType (d_type d)) (\<lambda>t.
       ResolvedEntity \<lparr> entity_id = d_id d, canonical_name = d_canonical d, name = d_name d, etype = t,
         description = d_description d, confidence = d_confidence d, source_count = d_source_count d,
         resolution_methods = [], aliases = d_aliases d \<rparr>)"

definition parse_relationship :: "rel_doc \<Rightarrow> resolved_relationship res" where
  "parse_relationship d =
     ResolvedRelationship \<lparr> rr_id = rd_id d, rr_subject = rd_subject d, rr_object = rd_object d,
       rr_predicate = rd_predicate d, rr_description = rd_description d, rr_confidence = rd_confidence d,
       rr_source_count = rd_source_count d \<rparr>"

definition parsed :: "('a \<Rightarrow> 'b res) \<Rightarrow> 'a list \<Rightarrow> 'b list" where
  "parsed f ds = List.map_filter (\<lambda>d. case f d of Inl e \<Rightarrow> None | Inr x \<Rightarrow> Some x) ds"

definition all_entities :: "detection_state \<Rightarrow> resolved_entity list" where
  "all_entities s = parsed parse_entity (sd_entities s)"

definition all_relationships :: "detection_state \<Rightarrow> resolved_relationship list" where
  "all_relationships s = parsed parse_relationship (sd_relations s)"

section \<open>The parameters of a run\<close>

definition concurrency_setting :: "detection_setting \<Rightarrow> int" where
  "concurrency_setting S = (case se_concurrency S of None \<Rightarrow> 300 | Some n \<Rightarrow> if n = 0 then 300 else n)"

definition collect_detection_params :: "detection_setting \<Rightarrow> (string \<times> param) list" where
  "collect_detection_params S =
     (let D = se_detector S
      in [(''algorithm'', Text_Param (dt_algorithm D)), (''resolution_parameter'', Num_Param (dt_resolution D)),
          (''min_cluster_size'', Num_Param (of_int (dt_min_size D))), (''max_cluster_size'', Num_Param (of_int (dt_max_size D))),
          (''max_iterations'', Num_Param (of_int (se_iterations S))), (''max_levels'', Num_Param (of_int (se_levels S))),
          (''seed'', Text_Param (se_seed S)), (''model_name'', Text_Param (sz_model (se_summarizer S))),
          (''temperature'', Num_Param (sz_temperature (se_summarizer S))),
          (''concurrency'', Num_Param (of_int (concurrency_setting S)))])"

definition ontology_version :: "detection_setting \<Rightarrow> string" where
  "ontology_version S =
     (let ps = canonical_predicates (dt_ontology (se_detector S))
      in if ps = [] then ''unknown'' else ''hash-'' @ take 8 (dt_sha1 (se_detector S) (str_join '','' (sort ps))))"

definition params_hash :: "detection_setting \<Rightarrow> string" where
  "params_hash S = compute_params_hash (dt_sha1 (se_detector S)) (se_dumps S) (collect_detection_params S)"

definition graph_signature :: "detection_setting \<Rightarrow> detection_state \<Rightarrow> string" where
  "graph_signature S s = compute_graph_signature (dt_sha1 (se_detector S)) (all_entities s) (all_relationships s)"

section \<open>Writing\<close>

definition add_stats :: "(stage_statistics \<Rightarrow> stage_statistics) \<Rightarrow> detection_state \<Rightarrow> detection_state" where
  "add_stats f s = s\<lparr>sd_stats := f (sd_stats s)\<rparr>"

definition mark_detection_failed :: "detection_setting \<Rightarrow> chunk_row \<Rightarrow> string \<Rightarrow> detection_state \<Rightarrow> detection_state" where
  "mark_detection_failed S ch msg s =
     add_stats (\<lambda>t. t\<lparr>failed := Suc (failed t)\<rparr>)
       (s\<lparr>sd_chunks := update_first (\<lambda>c. ck_video c = ck_video ch \<and> ck_id c = ck_id ch)
            (\<lambda>c. c\<lparr>ck_detection := Some (Detection_Failed msg (se_clock S (ck_id ch)) (sz_model (se_summarizer S)))\<rparr>)
            (sd_chunks s)\<rparr>)"

definition batch_update_all_chunks :: "detection_payload \<Rightarrow> detection_state \<Rightarrow> detection_state" where
  "batch_update_all_chunks p s =
     add_stats (\<lambda>t. t\<lparr>updated := updated t + length (filter needs_detection (sd_chunks s))\<rparr>)
       (s\<lparr>sd_chunks := map (\<lambda>c. if needs_detection c then c\<lparr>ck_detection := Some (Detection_Completed p)\<rparr> else c) (sd_chunks s)\<rparr>)"

definition insert_new_community ::
  "community_summary \<Rightarrow> string \<Rightarrow> string \<Rightarrow> rat \<Rightarrow> string \<Rightarrow> string \<Rightarrow> community_doc" where
  "insert_new_community y chunk video now rid ph =
     \<lparr> cm_id = sm_id y, cm_level = sm_level y, cm_title = sm_title y, cm_summary = sm_summary y,
       cm_entities = sm_entities y, cm_entity_count = sm_entity_count y,
       cm_relationship_count = sm_relationship_count y, cm_coherence = sm_coherence y, cm_chunks = [chunk],
       cm_video = video, cm_created_at = now, cm_run = rid, cm_params_hash = ph \<rparr>"

text \<open>\<open>_update_existing_community\<close> is called with six arguments and takes four.\<close>

definition update_existing_community :: "community_doc \<Rightarrow> community_summary \<Rightarrow> community_doc res" where
  "update_existing_community d y =
     Inl (Exn ''TypeError'' ''_update_existing_community() takes 5 positional arguments but 7 were given'')"

text \<open>
  The stored identifiers and the collection. \<open>works\<close> says for which communities the database takes
  the calls; any failure, also of an insertion, is logged and the community left out.
\<close>

fun store_communities ::
  "(string \<Rightarrow> bool) \<Rightarrow> string \<Rightarrow> string \<Rightarrow> rat \<Rightarrow> string \<Rightarrow> string \<Rightarrow> summaries \<Rightarrow> community_doc list
    \<Rightarrow> string list \<times> community_doc list" where
  "store_communities works chunk video now rid ph [] coms = ([], coms)"
| "store_communities works chunk video now rid ph ((k, y) # ys) coms =
     (if \<not> works k then store_communities works chunk video now rid ph ys coms
      else (case find (\<lambda>d. cm_id d = k) coms of
        Some d \<Rightarrow>
          (case update_existing_community d y of
             Inl e \<Rightarrow> store_communities works chunk video now rid ph ys coms
           | Inr d' \<Rightarrow>
               (let (ids, cs) = store_communities works chunk video now rid ph ys (update_first (\<lambda>x. cm_id x = k) (\<lambda>x. d') coms)
                in (k # ids, cs)))
      | None \<Rightarrow>
          (let (ids, cs) = store_communities works chunk video now rid ph ys (coms @ [insert_new_community y chunk video now rid ph])
           in (k # ids, cs))))"

definition level_key :: "int \<Rightarrow> string" where
  "level_key n = ''level_'' @ str_of_int n"

definition assign_community :: "string \<Rightarrow> int \<Rightarrow> clustered_entity \<Rightarrow> clustered_entity" where
  "assign_community cid lv d =
     d\<lparr>ce_assignments := AList.update (level_key lv)
        (add_to_set (case map_of (ce_assignments d) (level_key lv) of None \<Rightarrow> [] | Some xs \<Rightarrow> xs) [cid]) (ce_assignments d)\<rparr>"

definition update_entity_communities :: "summaries \<Rightarrow> clustered_entity list \<Rightarrow> clustered_entity list" where
  "update_entity_communities ys ds =
     fold (\<lambda>(k, y). map (\<lambda>d. if d_id d \<in> set (sm_entities y) then assign_community k (sm_level y) d else d)) ys ds"

section \<open>Metrics\<close>

definition size_bins :: "(nat \<times> nat option) list" where
  "size_bins = [(0, Some 5), (5, Some 10), (10, Some 25), (25, Some 50), (50, Some 100), (100, Some 500),
                (500, Some 1000), (1000, None)]"

fun bin_of :: "(nat \<times> nat option) list \<Rightarrow> nat \<Rightarrow> string option" where
  "bin_of [] n = None"
| "bin_of ((a, b) # bs) n =
     (if a \<le> n \<and> (case b of None \<Rightarrow> True | Some k \<Rightarrow> n < k)
      then Some (str_of_nat a @ ''-'' @ (case b of None \<Rightarrow> ''inf'' | Some k \<Rightarrow> str_of_nat k))
      else bin_of bs n)"

definition compute_size_histogram :: "nat list \<Rightarrow> (string \<times> nat) list" where
  "compute_size_histogram sizes =
     fold (\<lambda>n h. case bin_of size_bins n of None \<Rightarrow> h | Some l \<Rightarrow> dd_add l 1 h) sizes []"

definition level_sizes_of :: "nat list \<Rightarrow> level_sizes" where
  "level_sizes_of sizes =
     \<lparr> lz_min = foldr min (tl sizes) (hd sizes), lz_max = foldr max (tl sizes) (hd sizes),
       lz_mean = real (sum_list sizes) / real (length sizes), lz_median = sort sizes ! (length sizes div 2),
       lz_histogram = compute_size_histogram sizes \<rparr>"

definition size_distribution :: "levels \<Rightarrow> (int \<times> level_sizes) list" where
  "size_distribution ls =
     List.map_filter (\<lambda>(lv, cs). if cs = [] then None else Some (lv, level_sizes_of (map (co_count \<circ> snd) cs))) ls"

text \<open>The quality metrics have no entry for the modularity: its default 0 is stored.\<close>

definition quality_metrics_doc :: "string \<Rightarrow> string \<Rightarrow> rat \<Rightarrow> detection \<Rightarrow> metrics_doc" where
  "quality_metrics_doc rid ph now d =
     (let (n, m, dens) = (case dn_graph d of None \<Rightarrow> (0, 0, 0) | Some g \<Rightarrow> g)
      in \<lparr> mt_run = rid, mt_params_hash = ph, mt_at = now, mt_nodes = n, mt_edges = m, mt_density = dens,
           mt_ratio = (if 0 < n then real m / real n else 0), mt_total = dn_total d, mt_levels = dn_levels d,
           mt_modularity = 0, mt_coverage = (case dn_quality d of None \<Rightarrow> 0 | Some q \<Rightarrow> qu_coverage q),
           mt_sizes = size_distribution (dn_communities d),
           mt_coherence = (case dn_quality d of None \<Rightarrow> (0, 0, 0)
             | Some q \<Rightarrow> (case qu_extremes q of None \<Rightarrow> (qu_coherence q, 0, 0)
                          | Some (hi, lo, sz) \<Rightarrow> (qu_coherence q, lo, hi))) \<rparr>)"

text \<open>What is kept with the run; the mean coherence is stored as the modularity.\<close>

definition metrics_of_run :: "nat \<Rightarrow> detection \<Rightarrow> kept_metrics" where
  "metrics_of_run stored d =
     \<lparr> rm_total = dn_total d, rm_levels = dn_levels d, rm_stored = stored,
       rm_modularity = (case dn_quality d of None \<Rightarrow> 0 | Some q \<Rightarrow> qu_coherence q),
       rm_coverage = (case dn_quality d of None \<Rightarrow> 0 | Some q \<Rightarrow> qu_coverage q),
       rm_graph = dn_graph d, rm_quality = dn_quality d \<rparr>"

section \<open>A chunk\<close>

definition payload_of :: "detection_setting \<Rightarrow> string \<Rightarrow> string \<Rightarrow> nat \<Rightarrow> nat \<Rightarrow> nat \<Rightarrow> nat \<Rightarrow> string \<Rightarrow> detection_payload" where
  "payload_of S chunk ph n_detected n_total n_levels n_stored rid =
     \<lparr> dp_detected = n_detected, dp_total = n_total, dp_levels = n_levels, dp_stored = n_stored, dp_at = se_clock S chunk,
       dp_model = sz_model (se_summarizer S), dp_run = rid, dp_params_hash = ph \<rparr>"

text \<open>A completed run with the same parameters and graph: its metrics, with their defaults.\<close>

definition reuse_run :: "detection_setting \<Rightarrow> chunk_row \<Rightarrow> run_doc \<Rightarrow> detection_state \<Rightarrow> detection_state" where
  "reuse_run S ch run s =
     (let (t, l, k) = (case rn_metrics run of None \<Rightarrow> (0, 1, 0) | Some m \<Rightarrow> (rm_total m, rm_levels m, rm_stored m));
          rid = (case rn_id run of OId n \<Rightarrow> se_oid_text S n | SId x \<Rightarrow> x)
      in batch_update_all_chunks (payload_of S (ck_id ch) (params_hash S) 0 t l k rid) s)"

text \<open>After the detection and the summaries.\<close>

definition finish_detection ::
  "detection_setting \<Rightarrow> chunk_row \<Rightarrow> string \<Rightarrow> detection \<Rightarrow> summaries \<Rightarrow> detection_state \<Rightarrow> detection_state" where
  "finish_detection S ch rid d ys s =
     (let now = se_clock S (ck_id ch); ph = params_hash S;
          (ids, coms) = store_communities (se_stores S) (ck_id ch) (ck_video ch) now rid ph ys (sd_communities s);
          s1 = s\<lparr>sd_communities := coms,
                 sd_runs := update_run_document rid ''completed'' (Some (metrics_of_run (length ids) d)) now (sd_runs s),
                 sd_metrics := sd_metrics s @ [quality_metrics_doc rid ph now d],
                 sd_detected := True,
                 sd_entities := update_entity_communities ys (sd_entities s)\<rparr>
      in batch_update_all_chunks
           (payload_of S (ck_id ch) ph (length (dn_communities d)) (dn_total d) (dn_levels d) (length ids) rid) s1)"

definition run_pool :: "detection_setting \<Rightarrow> pool" where
  "run_pool S = (se_pool S)\<lparr>pl_workers := concurrency_setting S\<rparr>"

text \<open>The detection, after the document of the run has been created.\<close>

definition detect_and_store ::
  "detection_setting \<Rightarrow> chunk_row \<Rightarrow> resolved_entity list \<Rightarrow> resolved_relationship list \<Rightarrow> string
    \<Rightarrow> (detection_state, unit) act" where
  "detect_and_store S ch es rs rid = (\<lambda>s.
     case detect_communities (se_networkx S) (se_detector S) es rs of
       Inl e \<Rightarrow> (Inl e, s)
     | Inr d \<Rightarrow>
         if dn_communities d = [] then (Inr (), mark_detection_failed S ch ''no_communities_detected'' s)
         else (case summarize_communities (se_summarizer S) (run_pool S) (se_tracking S) (dn_communities d) es rs of
                 Inl e \<Rightarrow> (Inl e, s)
               | Inr ys \<Rightarrow>
                   if ys = [] then (Inr (), mark_detection_failed S ch ''no_summaries_generated'' s)
                   else (Inr (), finish_detection S ch rid d ys s)))"

definition detect_graph :: "detection_setting \<Rightarrow> chunk_row \<Rightarrow> (detection_state, unit) act" where
  "detect_graph S ch = (\<lambda>s.
     let es = all_entities s; rs = all_relationships s
     in if es = [] then (Inr (), mark_detection_failed S ch ''no_entities'' s)
        else (case find_existing_run ''community_detection'' (params_hash S) (graph_signature S s) (sd_runs s) of
                Some run \<Rightarrow> (Inr (), reuse_run S ch run s)
              | None \<Rightarrow>
                  (let (rid, runs) = create_run_document (se_oid_text S) (se_new_oid S (sd_runs s)) (se_clock S (ck_id ch))
                         ''community_detection'' (params_hash S) (graph_signature S s) (collect_detection_params S)
                         (ontology_version S) (se_trace S) (sd_runs s)
                   in detect_and_store S ch es rs rid (s\<lparr>sd_runs := runs\<rparr>))))"

definition handle_detection :: "detection_setting \<Rightarrow> chunk_row \<Rightarrow> (detection_state, unit) act" where
  "handle_detection S ch =
     tryA (\<lambda>s. if sd_detected s \<or> sd_communities s \<noteq> []
               then (Inr (), add_stats (\<lambda>t. t\<lparr>skipped := Suc (skipped t)\<rparr>) s)
               else detect_graph S ch s)
          (\<lambda>e s. (Inr (), mark_detection_failed S ch (exn_msg e) s))"

text \<open>The chunks of a run, one after the other; the result of \<open>handle_doc\<close> is always \<open>None\<close>.\<close>

definition handle_chunks :: "detection_setting \<Rightarrow> chunk_row list \<Rightarrow> detection_state \<Rightarrow> detection_state" where
  "handle_chunks S chs s = fold (\<lambda>ch s. snd (handle_detection S ch s)) chs s"

section \<open>Statistics and clean-up\<close>

definition is_failed :: "chunk_row \<Rightarrow> bool" where
  "is_failed c = (case ck_detection c of Some (Detection_Failed m t u) \<Rightarrow> True | _ \<Rightarrow> False)"

definition is_detected :: "chunk_row \<Rightarrow> bool" where
  "is_detected c = (case ck_detection c of Some (Detection_Completed p) \<Rightarrow> True | _ \<Rightarrow> False)"

record detection_stats =
  dx_constructed :: nat
  dx_detected :: nat
  dx_failed :: nat
  dx_pending :: int
  dx_communities :: nat
  dx_levels :: "(string \<times> nat) list"
  dx_completion :: real
  dx_failure :: real

definition get_detection_stats :: "detection_state \<Rightarrow> detection_stats" where
  "get_detection_stats s =
     (let n = length (filter ck_constructed (sd_chunks s)); d = length (filter is_detected (sd_chunks s));
          f = length (filter is_failed (sd_chunks s))
      in \<lparr> dx_constructed = n, dx_detected = d, dx_failed = f, dx_pending = int n - int d - int f,
           dx_communities = length (sd_communities s),
           dx_levels = fold (\<lambda>c. dd_add (str_of_int (cm_level c)) 1) (sd_communities s) [],
           dx_completion = (if 0 < n then real d / real n else 0), dx_failure = (if 0 < n then real f / real n else 0) \<rparr>)"

definition cleanup_failed_detections :: "detection_state \<Rightarrow> nat \<times> detection_state" where
  "cleanup_failed_detections s =
     (length (filter is_failed (sd_chunks s)),
      s\<lparr>sd_chunks := map (\<lambda>c. if is_failed c then c\<lparr>ck_detection := None\<rparr> else c) (sd_chunks s)\<rparr>)"

end
