(* ===== verification/Summary_Facts.thy ===== *)
theory Summary_Facts
  imports Community_Summaries
begin

text \<open>
  What is proved of theory \<open>Community_Summaries\<close>: the selection keeps the elements with the
  highest scores, a truncated community stays within the caps, every summary is a valid one of a
  community, and the concurrent mode returns what the sequential one does.
\<close>

section \<open>Selection\<close>

lemma length_top_by [simp]: "length (top_by f n xs) = min n (length xs)"
  by (simp add: top_by_def)

text \<open>The elements that are left out score at most as much as those that are kept.\<close>

lemma top_by_best:
  "\<exists>rest. mset xs = mset (top_by f n xs) + mset rest \<and> (\<forall>x\<in>set (top_by f n xs). \<forall>y\<in>set rest. f y \<le> f x)"
proof -
  let ?s = "sort_key (\<lambda>x. - f x) xs"
  have m: "mset xs = mset (top_by f n xs) + mset (drop n ?s)"
    unfolding top_by_def by (metis append_take_drop_id mset_append mset_sort)
  have "sorted (map (\<lambda>x. - f x) (take n ?s @ drop n ?s))" by simp
  then have "\<forall>x\<in>set (top_by f n xs). \<forall>y\<in>set (drop n ?s). f y \<le> f x"
    unfolding map_append sorted_append top_by_def by auto
  with m show ?thesis by blast
qed

text \<open>
  Of a community with more entities than asked for, the asked number is selected, and no entity
  that is left out has a higher score (centrality times confidence times sources) than one that
  is kept; a community with fewer is kept as it is.
\<close>

theorem important_entities_selected:
  assumes "select_important_entities S es rs n = Inr sel"
  shows "length sel = min n (length es) \<and>
    (\<exists>cs rest. mset es = mset sel + mset rest \<and> (n < length es \<longrightarrow> community_centrality S es rs = Inr cs)
      \<and> (\<forall>x\<in>set sel. \<forall>y\<in>set rest. entity_score cs y \<le> entity_score cs x))"
proof (cases "length es \<le> n")
  case True
  then have "sel = es" using assms by (simp add: select_important_entities_def)
  then show ?thesis using True by (auto intro!: exI [of _ "[]"])
next
  case False
  then obtain cs where cs: "community_centrality S es rs = Inr cs" "sel = top_by (entity_score cs) n es"
    using assms by (auto simp: select_important_entities_def bindR_eq_Inr)
  obtain rest where "mset es = mset sel + mset rest" "\<forall>x\<in>set sel. \<forall>y\<in>set rest. entity_score cs y \<le> entity_score cs x"
    using top_by_best [of es "entity_score cs" n] unfolding cs(2) by blast
  then show ?thesis using cs by (auto simp: top_by_def)
qed

lemma length_selected_relationships: "length (select_important_relationships rs es cs n) \<le> n"
  by (simp add: select_important_relationships_def)

section \<open>Truncation\<close>

lemma nat_cap: "nat (min a (min (int k) (int n))) \<le> min k n"
  by (metis min.cobounded2 nat_int nat_mono of_nat_min)

lemma nat_cap_min: "nat (min (min a (min (int k) (int n))) b) \<le> min k n"
  by (metis nat_cap min.assoc min.commute)

lemma cap_limits_caps:
  assumes "cap_limits huge ne nr (max 1 x) y = (max_es, max_rs)"
  shows "max_es \<le> min 30 ne \<and> max_rs \<le> min 50 nr \<and> (0 < ne \<longrightarrow> 0 < max_es)
    \<and> (huge \<longrightarrow> max_es \<le> 15 \<and> max_rs \<le> 25)"
proof -
  let ?e = "min (max 1 x) (min 30 (int ne))" and ?r = "min y (min 50 (int nr))"
  have m: "(max_es, max_rs) = (if huge then (nat (min ?e 15), nat (min ?r 25)) else (nat ?e, nat ?r))"
    using assms by (simp only: cap_limits_def Let_def)
  have e: "max_es = (if huge then nat (min ?e 15) else nat ?e)" and r: "max_rs = (if huge then nat (min ?r 25) else nat ?r)"
    using m by (cases huge; simp only: prod.inject if_True if_False simp_thms)+
  have "nat ?e \<le> min 30 ne" "nat (min ?e 15) \<le> min 30 ne" "nat (min ?e 15) \<le> 15"
    "nat ?r \<le> min 50 nr" "nat (min ?r 25) \<le> min 50 nr" "nat (min ?r 25) \<le> 25"
    "0 < ne \<longrightarrow> 0 < nat ?e" "0 < ne \<longrightarrow> 0 < nat (min ?e 15)"
    using nat_cap [of "max 1 x" 30 ne] nat_cap_min [of "max 1 x" 30 ne 15] nat_cap [of y 50 nr] nat_cap_min [of y 50 nr 25]
    by (simp_all only: of_nat_numeral) (simp_all add: nat_le_iff less_max_iff_disj)
  then show ?thesis unfolding e r by (cases huge) (simp_all only: if_True if_False simp_thms)
qed

lemma truncation_caps:
  assumes "truncation_limits context est ne nr = (max_es, max_rs)"
  shows "max_es \<le> min 30 ne \<and> max_rs \<le> min 50 nr \<and> (0 < ne \<longrightarrow> 0 < max_es)
    \<and> (context * 2 < est \<longrightarrow> max_es \<le> 15 \<and> max_rs \<le> 25)"
  by (rule cap_limits_caps [OF assms [unfolded truncation_limits_def Let_def]])

text \<open>
  A community estimated above the limit of the model is described from at most 30 of its
  entities and 50 of its relationships, at least one entity among them, and from 15 and 25 when
  the estimate is more than twice the context of the large model.
\<close>

theorem truncated_within_caps:
  assumes "known_items em (co_entities c) \<noteq> []"
    and "estimate_tokens_for_community S (known_items em (co_entities c)) (known_items rm (co_relationships c)) = Inr est"
    and "small_model_limit S < est"
  shows "\<exists>max_es max_rs. summarize_single_community S em rm c = summarize_large_community S em rm c max_es max_rs
    \<and> 0 < max_es \<and> max_es \<le> 30 \<and> max_rs \<le> 50 \<and> (max_context_tokens S * 2 < est \<longrightarrow> max_es \<le> 15 \<and> max_rs \<le> 25)"
proof -
  obtain max_es max_rs where t: "truncation_limits (max_context_tokens S) est
      (length (known_items em (co_entities c))) (length (known_items rm (co_relationships c))) = (max_es, max_rs)"
    by (metis surj_pair)
  show ?thesis
    using assms t truncation_caps [OF t]
    by (intro exI [of _ max_es] exI [of _ max_rs]) (simp add: summarize_single_community_def Let_def)
qed

section \<open>Summaries of communities\<close>

definition describes :: "community \<Rightarrow> community_summary \<Rightarrow> bool" where
  "describes c s =
     (summary_ok s \<and> sm_id s = co_id c \<and> sm_level s = co_level c \<and> sm_entities s = co_entities c
      \<and> sm_entity_count s = co_count c \<and> sm_relationship_count s = co_relationship_count c
      \<and> sm_coherence s = co_coherence c)"

lemma text_summary_describes: "text_summary c t = Inr s \<Longrightarrow> describes c s"
  by (auto simp: text_summary_def CommunitySummary_def describes_def split: if_splits)

lemma large_describes: "summarize_large_community S em rm c a b = Inr (Some s) \<Longrightarrow> describes c s"
  by (auto simp: summarize_large_community_def Let_def bindR_eq_Inr text_summary_describes
      split: if_splits option.splits dest: text_summary_describes)

lemma single_describes: "summarize_single_community S em rm c = Inr (Some s) \<Longrightarrow> describes c s"
  by (auto simp: summarize_single_community_def Let_def bindR_eq_Inr
      split: if_splits option.splits list.splits prod.splits dest: text_summary_describes large_describes)

definition summaries_ok :: "(string \<times> community) list \<Rightarrow> summaries \<Rightarrow> bool" where
  "summaries_ok items d =
     (wf_dict d \<and> list_all (\<lambda>(k, s). \<exists>c. (k, c) \<in> set items \<and> describes c s) d)"

lemma summaries_ok_put:
  assumes "summaries_ok items d" "(k, c) \<in> set items" "describes c s"
  shows "summaries_ok items (AList.update k s d)"
  using assms set_update_subset [of k s d] by (fastforce simp: summaries_ok_def list_all_iff)

lemma summarize_each_ok:
  "summarize_each S em rm cs acc = Inr d \<Longrightarrow> set cs \<subseteq> set items \<Longrightarrow> summaries_ok items acc \<Longrightarrow> summaries_ok items d"
proof (induction cs arbitrary: acc)
  case (Cons x cs)
  obtain k c where x: "x = (k, c)" by (cases x)
  obtain s where s: "tryR (summarize_single_community S em rm c) (\<lambda>e. Inr None) = Inr s"
    "summarize_each S em rm cs (put_summary k s acc) = Inr d"
    using Cons(2) by (auto simp: x bindR_eq_Inr)
  have "summaries_ok items (put_summary k s acc)"
  proof (cases s)
    case None
    then show ?thesis using Cons(4) by (simp add: put_summary_def)
  next
    case (Some y)
    then have "summarize_single_community S em rm c = Inr (Some y)"
      using s(1) by (auto simp: tryR_def split: sum.splits if_splits)
    then show ?thesis
      using summaries_ok_put [OF Cons(4), of k c y] single_describes Cons(3) Some by (auto simp: x put_summary_def)
  qed
  then show ?case using Cons(1) [OF s(2)] Cons(3) by simp
qed simp

section \<open>Concurrent and sequential\<close>

lemma collect_as_each:
  assumes "list_all (survives (summary_job S P em rm)) items"
  shows "collect_summaries (map (\<lambda>x. Some (x, outcome (summary_job S P em rm) x)) items) acc =
    summarize_each S em rm items acc"
  using assms
proof (induction items arbitrary: acc)
  case (Cons x items)
  obtain k c where x: "x = (k, c)" by (cases x)
  show ?case
    using Cons
    by (cases "summarize_single_community S em rm c")
      (simp_all add: x summary_job_def outcome_def survives_def tryR_def put_summary_def)
qed simp

lemma concurrent_summaries:
  assumes "list_all (survives (summary_job S P (dict_by entity_id es) (dict_by rr_id rs))) (community_items ls)"
    and "0 < pl_workers P"
    and "orders_ok (summary_job S P (dict_by entity_id es) (dict_by rr_id rs)) (nat (min (pl_workers P * 2) 1000)) 0
           (length (community_items ls))"
  shows "summarize_communities S P True ls es rs = summarize_communities S P False ls es rs"
  using run_tpm_outcomes [OF assms, of "[]"] collect_as_each [OF assms(1), of "[]"]
  by (simp add: summarize_communities_def summarize_concurrent_def)

text \<open>C22: 
  For whatever order of completion, the concurrent mode returns the summaries of the sequential
  one, in the same order, when no call is interrupted.
\<close>

theorem concurrent_as_sequential:
  assumes "list_all (survives (summary_job S P (dict_by entity_id es) (dict_by rr_id rs))) (community_items ls)"
    and "0 < pl_workers P"
    and "orders_ok (summary_job S P (dict_by entity_id es) (dict_by rr_id rs)) (nat (min (pl_workers P * 2) 1000)) 0
           (length (community_items ls))"
  shows "summarize_communities S P True ls es rs = summarize_communities S P False ls es rs"
  by (rule concurrent_summaries [OF assms])

lemma sequential_summaries_ok:
  assumes "summarize_communities S P False ls es rs = Inr d"
  shows "summaries_ok (community_items ls) d"
proof -
  have e: "summaries_ok (community_items ls) []" by (simp add: summaries_ok_def)
  then show ?thesis
    using assms summarize_each_ok [OF _ subset_refl e] e
    by (auto simp: summarize_communities_def with_fallback_def Let_def split: sum.splits if_splits)
qed

text \<open>
  Every summary is a valid one and describes the community under whose identifier it is
  returned: its level, entities, counts and coherence.
\<close>

theorem summaries_describe_communities:
  assumes "summarize_communities S P False ls es rs = Inr d"
  shows "wf_dict d \<and> list_all (\<lambda>(k, s). summary_ok s \<and> (\<exists>c. (k, c) \<in> set (community_items ls)
    \<and> sm_id s = co_id c \<and> sm_level s = co_level c \<and> sm_entities s = co_entities c)) d"
  using sequential_summaries_ok [OF assms] by (fastforce simp: summaries_ok_def describes_def list_all_iff)

section \<open>Titles that lose the community\<close>

lemma heading_alone: "extract_title (''Title:'' @ nl @ t) = []"
  by (simp add: extract_title_def nl_def Let_def str_strip_def is_space_def str_startswith_def)

text \<open>A description that begins with a line \<open>Title:\<close> gives an empty title, which is not valid.\<close>

lemma empty_title_rejected: "\<exists>e. text_summary c (''Title:'' @ nl @ t) = Inl e"
  by (simp add: text_summary_def CommunitySummary_def summary_ok_def heading_alone del: append.simps)

lemma deep_level_rejected: "10 < co_level c \<Longrightarrow> \<exists>e. text_summary c t = Inl e"
  by (simp add: text_summary_def CommunitySummary_def summary_ok_def)

text \<open>Concrete pools, communities and summarizers to which the theorems on summaries apply.\<close>

section \<open>The pool\<close>

definition demo_job :: "(nat, nat) tpm_job" where
  "demo_job =
     \<lparr> j_process = (\<lambda>n. if n = 2 then Inl (Exn ''ValueError'' ''two'') else Inr (n * n)), j_estimate = (\<lambda>n. Inr 100),
       j_start = of_nat, j_end = of_nat, j_order = (\<lambda>k. if k = 0 then [2, 0, 1] else []), j_target = 1000 \<rparr>"

lemma orders_ok_single:
  assumes "n \<le> b" "0 < b" "mset (j_order J 0) = mset [0..<n]" "\<And>k. 0 < k \<Longrightarrow> j_order J k = []"
  shows "orders_ok J b 0 n"
  unfolding orders_ok_def
proof
  fix j
  show "mset (j_order J (0 + j)) = mset [0..<min b (n - j * b)]"
  proof (cases j)
    case (Suc i)
    then have "n - j * b = 0" using assms(1) by simp
    then show ?thesis using assms(4) [of j] Suc by simp
  qed (use assms in simp)
qed

lemma results_in_item_order_witness:
  "fst (run_tpm demo_job 5 None [1, 2, 3] []) = Inr [Some (1, Some 1), Some (2, None), Some (3, Some 9)]"
proof -
  have "orders_ok demo_job 10 0 (length [1, 2, 3 :: nat])"
    by (rule orders_ok_single) (simp_all add: demo_job_def upt_rec add_mset_commute)
  then have "fst (run_tpm demo_job 5 None [1, 2, 3] []) = Inr (map (\<lambda>x. Some (x, outcome demo_job x)) [1, 2, 3])"
    by (intro results_in_item_order) (simp_all add: survives_def demo_job_def [THEN arg_cong [of _ _ j_process]]
        demo_job_def [THEN arg_cong [of _ _ j_estimate]] is_Exception_def)
  then show ?thesis by (simp add: outcome_def demo_job_def)
qed

section \<open>Communities\<close>

definition demo_id :: "char \<Rightarrow> string" where
  "demo_id c = replicate 32 c"

definition demo_entity :: "char \<Rightarrow> real \<Rightarrow> resolved_entity" where
  "demo_entity c conf =
     \<lparr> entity_id = demo_id c, canonical_name = [c], name = [c], etype = CONCEPT, description = ''A description'',
       confidence = conf, source_count = 1, resolution_methods = [], aliases = [] \<rparr>"

definition demo_ents :: "resolved_entity list" where
  "demo_ents = [demo_entity (CHR ''a'') (1 / 4), demo_entity (CHR ''b'') (3 / 4)]"

definition demo_com :: community where
  "demo_com =
     \<lparr> co_id = ''lvl1-a'', co_level = 1, co_entities = map entity_id demo_ents, co_count = 2, co_relationships = [],
       co_relationship_count = 0, co_coherence = 1 / 2, co_names = [''a'', ''b''], co_types = [''CONCEPT'', ''CONCEPT''],
       co_parent = None \<rparr>"

definition demo_ls :: levels where
  "demo_ls = [(1, [(''lvl1-a'', demo_com)])]"

definition demo_reply :: string where
  "demo_reply = ''A community of two concepts, which are described together.''"

definition demo_sz :: "int option \<Rightarrow> summarizer" where
  "demo_sz tokens =
     \<lparr> sz_model = ''gpt-4o-mini'', sz_large_model = ''gpt-4o-mini'', sz_temperature = 1 / 5, sz_max_tokens = tokens,
       sz_max_summary = 2000, sz_min_summary = 50, sz_max_context = None, sz_prompt = ''Summarize'',
       sz_encodings = (\<lambda>n. None), sz_llm = (\<lambda>c l r. Inr (Some demo_reply)),
       sz_pagerank = (\<lambda>G. Inr []), sz_degree = (\<lambda>G. Inr []) \<rparr>"

definition demo_pool :: pool where
  "demo_pool =
     \<lparr> pl_workers = 3, pl_target = 800000, pl_order = (\<lambda>k. if k = 0 then [0] else []), pl_start = (\<lambda>c. 0), pl_end = (\<lambda>c. 1) \<rparr>"

lemma important_entities_selected_witness:
  "length [demo_entity (CHR ''b'') (3 / 4)] = min 1 (length demo_ents) \<and>
    (\<exists>cs rest. mset demo_ents = mset [demo_entity (CHR ''b'') (3 / 4)] + mset rest
      \<and> community_centrality (demo_sz None) demo_ents [] = Inr cs
      \<and> list_all (\<lambda>y. entity_score cs y \<le> entity_score cs (demo_entity (CHR ''b'') (3 / 4))) rest)"
proof -
  have "select_important_entities (demo_sz None) demo_ents [] 1 = Inr [demo_entity (CHR ''b'') (3 / 4)]"
    by (simp add: select_important_entities_def demo_ents_def community_centrality_def top_by_def entity_score_def
        centrality_of_def demo_entity_def demo_id_def or_half_def or_one_def insort_key_def)
  from important_entities_selected [OF this] show ?thesis
    by (auto simp: list_all_iff) (simp add: demo_ents_def)
qed

lemma demo_known: "known_items (dict_by entity_id demo_ents) (co_entities demo_com) = demo_ents"
  by code_simp

lemma demo_limit: "small_model_limit (demo_sz (Some 100000)) = 60000"
  by code_simp

lemma truncated_within_caps_witness:
  "\<exists>max_es max_rs. summarize_single_community (demo_sz (Some 100000)) (dict_by entity_id demo_ents) [] demo_com =
      summarize_large_community (demo_sz (Some 100000)) (dict_by entity_id demo_ents) [] demo_com max_es max_rs
    \<and> 0 < max_es \<and> max_es \<le> 30 \<and> max_rs \<le> 50"
proof -
  obtain est where e: "estimate_tokens_for_community (demo_sz (Some 100000)) demo_ents [] = Inr est" "100000 \<le> est"
    by (simp add: estimate_tokens_for_community_def count_tokens_exact_def demo_sz_def output_tokens_def)
  have l: "small_model_limit (demo_sz (Some 100000)) < est" using e(2) by (simp add: demo_limit)
  have r: "known_items [] (co_relationships demo_com) = []" by (simp add: known_items_def demo_com_def map_filter_simps)
  have n: "known_items (dict_by entity_id demo_ents) (co_entities demo_com) \<noteq> []" by (simp add: demo_known) (simp add: demo_ents_def)
  show ?thesis using truncated_within_caps [OF n, of "demo_sz (Some 100000)" "[]" est] e(1) l by (auto simp: demo_known r)
qed

definition demo_summary :: community_summary where
  "demo_summary =
     \<lparr> sm_id = ''lvl1-a'', sm_level = 1, sm_title = demo_reply, sm_summary = demo_reply,
       sm_entities = map entity_id demo_ents, sm_entity_count = 2, sm_relationship_count = 0, sm_coherence = 1 / 2 \<rparr>"

lemma demo_single:
  "summarize_single_community (demo_sz None) (dict_by entity_id demo_ents) [] demo_com = Inr (Some demo_summary)"
  by code_simp

lemma demo_sequential:
  "summarize_communities (demo_sz None) demo_pool False demo_ls demo_ents [] = Inr [(''lvl1-a'', demo_summary)]"
  by (simp add: summarize_communities_def community_items_def demo_ls_def dict_by_def [of rr_id] demo_single tryR_def
      put_summary_def with_fallback_def)

lemma summaries_describe_communities_witness:
  "wf_dict [(''lvl1-a'', demo_summary)] \<and> summary_ok demo_summary"
  using summaries_describe_communities [OF demo_sequential] by simp

lemma concurrent_as_sequential_witness:
  "summarize_communities (demo_sz None) demo_pool True demo_ls demo_ents [] = Inr [(''lvl1-a'', demo_summary)]"
proof -
  have i: "community_items demo_ls = [(''lvl1-a'', demo_com)]" by (simp add: community_items_def demo_ls_def)
  let ?J = "summary_job (demo_sz None) demo_pool (dict_by entity_id demo_ents) (dict_by rr_id [])"
  have "list_all (survives ?J) (community_items demo_ls)"
    by (simp add: i survives_def summary_job_def dict_by_def [of rr_id] demo_single)
  moreover have "orders_ok ?J (nat (min (pl_workers demo_pool * 2) 1000)) 0 (length (community_items demo_ls))"
    by (rule orders_ok_single) (simp_all add: i demo_pool_def summary_job_def)
  moreover have "0 < pl_workers demo_pool" by (simp add: demo_pool_def)
  ultimately show ?thesis using concurrent_as_sequential demo_sequential by metis
qed

end
