(* ===== verification/Community_Stage_Facts.thy ===== *)
theory Community_Stage_Facts
  imports Community_Stage Summary_Facts
begin

text \<open>
  What is proved of theory \<open>Community_Stage\<close>: which parts of the state each path changes, that
  runs are never completed, that one chunk marks all and later ones are skipped, that a failing
  detection is repeated for every chunk, and what is stored.
\<close>

section \<open>Frames\<close>

lemma add_stats_frame [simp]:
  "sd_entities (add_stats f s) = sd_entities s" "sd_relations (add_stats f s) = sd_relations s"
  "sd_communities (add_stats f s) = sd_communities s" "sd_runs (add_stats f s) = sd_runs s"
  "sd_metrics (add_stats f s) = sd_metrics s" "sd_chunks (add_stats f s) = sd_chunks s"
  "sd_detected (add_stats f s) = sd_detected s" "sd_stats (add_stats f s) = f (sd_stats s)"
  by (simp_all add: add_stats_def)

lemma mark_failed_frame [simp]:
  "sd_entities (mark_detection_failed S ch m s) = sd_entities s"
  "sd_relations (mark_detection_failed S ch m s) = sd_relations s"
  "sd_communities (mark_detection_failed S ch m s) = sd_communities s"
  "sd_runs (mark_detection_failed S ch m s) = sd_runs s"
  "sd_metrics (mark_detection_failed S ch m s) = sd_metrics s"
  "sd_detected (mark_detection_failed S ch m s) = sd_detected s"
  by (simp_all add: mark_detection_failed_def)

lemma batch_update_frame [simp]:
  "sd_entities (batch_update_all_chunks p s) = sd_entities s"
  "sd_communities (batch_update_all_chunks p s) = sd_communities s"
  "sd_runs (batch_update_all_chunks p s) = sd_runs s"
  "sd_detected (batch_update_all_chunks p s) = sd_detected s"
  by (simp_all add: batch_update_all_chunks_def)

lemma all_of_frame [simp]:
  "all_entities (mark_detection_failed S ch m s) = all_entities s"
  "all_relationships (mark_detection_failed S ch m s) = all_relationships s"
  "all_entities (s\<lparr>sd_runs := x\<rparr>) = all_entities s" "all_relationships (s\<lparr>sd_runs := x\<rparr>) = all_relationships s"
  by (simp_all add: all_entities_def all_relationships_def)

lemma handle_chunks_Nil [simp]: "handle_chunks S [] s = s"
  by (simp add: handle_chunks_def)

lemma handle_chunks_Cons [simp]: "handle_chunks S (c # cs) s = handle_chunks S cs (snd (handle_detection S c s))"
  by (simp add: handle_chunks_def)

lemma handle_detection_skips:
  "sd_detected s \<or> sd_communities s \<noteq> [] \<Longrightarrow>
   handle_detection S ch s = (Inr (), add_stats (\<lambda>t. t\<lparr>skipped := Suc (skipped t)\<rparr>) s)"
  by (auto simp: handle_detection_def tryA_def)

section \<open>Runs\<close>

lemma finish_runs_open:
  "runs_open (sd_runs s) \<Longrightarrow> sd_runs (finish_detection S ch rid d ys s) = sd_runs s"
  by (simp add: finish_detection_def Let_def update_run_no_match split: prod.split)

lemma detect_and_store_runs:
  "runs_open (sd_runs s) \<Longrightarrow> sd_runs (snd (detect_and_store S ch es rs rid s)) = sd_runs s"
  by (simp add: detect_and_store_def finish_runs_open split: sum.split)

lemma detect_graph_runs_open: "runs_open (sd_runs s) \<Longrightarrow> runs_open (sd_runs (snd (detect_graph S ch s)))"
  using runs_open_create [of "sd_runs s"]
  by (auto simp: detect_graph_def Let_def no_existing_run detect_and_store_runs create_run_document_def)

lemma handle_runs_open: "runs_open (sd_runs s) \<Longrightarrow> runs_open (sd_runs (snd (handle_detection S ch s)))"
  using detect_graph_runs_open [of s S ch]
  by (auto simp: handle_detection_def tryA_def split: sum.split prod.split)

lemma chunks_runs_open: "runs_open (sd_runs s) \<Longrightarrow> runs_open (sd_runs (handle_chunks S chs s))"
  by (induction chs arbitrary: s) (auto simp: handle_runs_open)

text \<open>C26: 
  However many chunks are handled, every run keeps the status with which it was created: the
  update by the text of the identifier matches no document, and no later detection with the
  same parameters and graph finds a run to reuse.
\<close>

theorem runs_never_completed:
  assumes "runs_open (sd_runs s)"
  shows "list_all (\<lambda>r. rn_status r = ''started'') (sd_runs (handle_chunks S chs s))
    \<and> find_existing_run stage ph sig (sd_runs (handle_chunks S chs s)) = None"
  using chunks_runs_open [OF assms, of S chs] no_existing_run
  by (auto simp: runs_open_def list_all_iff)

section \<open>One detection\<close>

text \<open>
  Once communities are known, to this process or in the database, the chunks that are handled
  are only counted as skipped: none of them gets a status.
\<close>

theorem later_chunks_skipped:
  assumes "sd_detected s \<or> sd_communities s \<noteq> []"
  shows "handle_chunks S chs s = add_stats (\<lambda>t. t\<lparr>skipped := skipped t + length chs\<rparr>) s"
  using assms
proof (induction chs arbitrary: s)
  case Nil
  then show ?case by (simp add: add_stats_def)
next
  case (Cons c cs)
  then show ?case
    using Cons(1) [of "add_stats (\<lambda>t. t\<lparr>skipped := Suc (skipped t)\<rparr>) s"]
    by (simp add: handle_detection_skips add_stats_def)
qed

lemma detect_and_store_detected:
  assumes "\<not> sd_detected s" "sd_detected (snd (detect_and_store S ch es rs rid s))"
  shows "\<exists>d ys. detect_communities (se_networkx S) (se_detector S) es rs = Inr d \<and> dn_communities d \<noteq> []
    \<and> summarize_communities (se_summarizer S) (run_pool S) (se_tracking S) (dn_communities d) es rs = Inr ys \<and> ys \<noteq> []
    \<and> detect_and_store S ch es rs rid s = (Inr (), finish_detection S ch rid d ys s)"
  using assms by (auto simp: detect_and_store_def split: sum.splits if_splits)

lemma detect_graph_detected:
  assumes "\<not> sd_detected s" "sd_detected (snd (detect_graph S ch s))"
  shows "\<exists>d ys rid runs. detect_communities (se_networkx S) (se_detector S) (all_entities s) (all_relationships s) = Inr d
    \<and> dn_communities d \<noteq> []
    \<and> summarize_communities (se_summarizer S) (run_pool S) (se_tracking S) (dn_communities d)
        (all_entities s) (all_relationships s) = Inr ys \<and> ys \<noteq> []
    \<and> detect_graph S ch s = (Inr (), finish_detection S ch rid d ys (s\<lparr>sd_runs := runs\<rparr>))"
proof -
  obtain rid runs where r: "create_run_document (se_oid_text S) (se_new_oid S (sd_runs s)) (se_clock S (ck_id ch))
      ''community_detection'' (params_hash S) (graph_signature S s) (collect_detection_params S)
      (ontology_version S) (se_trace S) (sd_runs s) = (rid, runs)" by (metis surj_pair)
  have n: "all_entities s \<noteq> []" "find_existing_run ''community_detection'' (params_hash S) (graph_signature S s) (sd_runs s) = None"
    using assms by (auto simp: detect_graph_def Let_def reuse_run_def split: if_splits option.splits prod.splits)
  have e: "detect_graph S ch s = detect_and_store S ch (all_entities s) (all_relationships s) rid (s\<lparr>sd_runs := runs\<rparr>)"
    using n r by (simp add: detect_graph_def Let_def)
  have ds: "\<not> sd_detected (s\<lparr>sd_runs := runs\<rparr>)"
    "sd_detected (snd (detect_and_store S ch (all_entities s) (all_relationships s) rid (s\<lparr>sd_runs := runs\<rparr>)))"
    using assms unfolding e by simp_all
  show ?thesis using detect_and_store_detected [OF ds] unfolding e by blast
qed

lemma handle_detected:
  assumes "\<not> sd_detected s" "sd_detected (snd (handle_detection S ch s))"
  shows "sd_communities s = [] \<and> (\<exists>d ys rid runs. dn_communities d \<noteq> []
    \<and> detect_communities (se_networkx S) (se_detector S) (all_entities s) (all_relationships s) = Inr d
    \<and> summarize_communities (se_summarizer S) (run_pool S) (se_tracking S) (dn_communities d)
        (all_entities s) (all_relationships s) = Inr ys \<and> ys \<noteq> []
    \<and> snd (handle_detection S ch s) = finish_detection S ch rid d ys (s\<lparr>sd_runs := runs\<rparr>))"
proof -
  have c: "sd_communities s = []"
    by (rule ccontr) (use assms handle_detection_skips [of s S ch] in simp)
  have h: "handle_detection S ch s = tryA (detect_graph S ch) (\<lambda>e s. (Inr (), mark_detection_failed S ch (exn_msg e) s)) s"
    using assms(1) c by (simp add: handle_detection_def tryA_def)
  have "sd_detected (snd (detect_graph S ch s))"
    using assms(2) unfolding h by (auto simp: tryA_def split: prod.splits sum.splits if_splits)
  from detect_graph_detected [OF assms(1) this] obtain d ys rid runs where q:
    "detect_communities (se_networkx S) (se_detector S) (all_entities s) (all_relationships s) = Inr d" "dn_communities d \<noteq> []"
    "summarize_communities (se_summarizer S) (run_pool S) (se_tracking S) (dn_communities d)
       (all_entities s) (all_relationships s) = Inr ys" "ys \<noteq> []"
    "detect_graph S ch s = (Inr (), finish_detection S ch rid d ys (s\<lparr>sd_runs := runs\<rparr>))"
    by blast
  have "snd (handle_detection S ch s) = finish_detection S ch rid d ys (s\<lparr>sd_runs := runs\<rparr>)"
    unfolding h by (simp add: q(5) tryA_def)
  then show ?thesis using c q(1-4) by blast
qed

lemma finish_chunks:
  "\<exists>p. sd_chunks (finish_detection S ch rid d ys s) =
     map (\<lambda>c. if needs_detection c then c\<lparr>ck_detection := Some (Detection_Completed p)\<rparr> else c) (sd_chunks s)"
  by (auto simp: finish_detection_def Let_def batch_update_all_chunks_def split: prod.split)

lemma needs_detection_iff: "needs_detection c \<longleftrightarrow> ck_constructed c \<and> \<not> is_detected c"
  by (auto simp: needs_detection_def is_detected_def split: option.split detection_status.split)

text \<open>
  The chunk that detects the communities marks every chunk of the collection whose construction
  is complete, those of other videos and those excluded from the run included, and no other.
\<close>

theorem one_chunk_marks_all:
  assumes "\<not> sd_detected s" "sd_detected (snd (handle_detection S ch s))"
  shows "list_all2 (\<lambda>c c'. (is_detected c' \<longleftrightarrow> ck_constructed c \<or> is_detected c) \<and> (\<not> ck_constructed c \<longrightarrow> c' = c))
    (sd_chunks s) (sd_chunks (snd (handle_detection S ch s)))"
proof -
  obtain d ys rid runs where f: "snd (handle_detection S ch s) = finish_detection S ch rid d ys (s\<lparr>sd_runs := runs\<rparr>)"
    using handle_detected [OF assms] by blast
  obtain p where "sd_chunks (snd (handle_detection S ch s)) =
      map (\<lambda>c. if needs_detection c then c\<lparr>ck_detection := Some (Detection_Completed p)\<rparr> else c) (sd_chunks s)"
    using finish_chunks [of S ch rid d ys "s\<lparr>sd_runs := runs\<rparr>"] unfolding f by auto
  then show ?thesis
    by (auto simp: list_all2_map2 list_all2_same needs_detection_iff is_detected_def split: if_splits)
qed

section \<open>Failing detections\<close>

lemma handle_no_communities:
  assumes "\<not> sd_detected s" "sd_communities s = []" "runs_open (sd_runs s)" "all_entities s \<noteq> []"
    and "detect_communities (se_networkx S) (se_detector S) (all_entities s) (all_relationships s) = Inr d"
    and "dn_communities d = []"
  shows "\<exists>r. snd (handle_detection S ch s) =
      mark_detection_failed S ch ''no_communities_detected'' (s\<lparr>sd_runs := sd_runs s @ [r]\<rparr>) \<and> runs_open (sd_runs s @ [r])"
proof -
  obtain rid r where c: "create_run_document (se_oid_text S) (se_new_oid S (sd_runs s)) (se_clock S (ck_id ch))
      ''community_detection'' (params_hash S) (graph_signature S s) (collect_detection_params S)
      (ontology_version S) (se_trace S) (sd_runs s) = (rid, sd_runs s @ [r])" "runs_open (sd_runs s @ [r])"
    using runs_open_create [OF assms(3)] by (auto simp: create_run_document_def)
  show ?thesis
    using assms c
    by (auto simp: handle_detection_def tryA_def detect_graph_def Let_def no_existing_run detect_and_store_def)
qed

text \<open>
  As long as the detection finds no community, every chunk runs it again on the whole graph and
  leaves another run behind that stays open; the chunk is marked as failed.
\<close>

theorem failing_detection_repeated:
  assumes "\<not> sd_detected s" "sd_communities s = []" "runs_open (sd_runs s)" "all_entities s \<noteq> []"
    and "detect_communities (se_networkx S) (se_detector S) (all_entities s) (all_relationships s) = Inr d"
    and "dn_communities d = []"
  shows "length (sd_runs (handle_chunks S chs s)) = length (sd_runs s) + length chs
    \<and> failed (sd_stats (handle_chunks S chs s)) = failed (sd_stats s) + length chs"
  using assms
proof (induction chs arbitrary: s)
  case (Cons c cs)
  obtain r where h: "snd (handle_detection S c s) =
      mark_detection_failed S c ''no_communities_detected'' (s\<lparr>sd_runs := sd_runs s @ [r]\<rparr>)" "runs_open (sd_runs s @ [r])"
    using handle_no_communities [OF Cons(2-7), of c] by blast
  have "failed (sd_stats (snd (handle_detection S c s))) = Suc (failed (sd_stats s))"
    by (simp add: h mark_detection_failed_def)
  then show ?case using Cons(1) [of "snd (handle_detection S c s)"] Cons(2-7) h by simp
qed simp

section \<open>What is read\<close>

lemma parsed_append [simp]: "parsed f (xs @ ys) = parsed f xs @ parsed f ys"
  by (simp add: parsed_def map_filter_def)

lemma parsed_none: "list_all (\<lambda>d. \<exists>e. f d = Inl e) ds \<Longrightarrow> parsed f ds = []"
  by (induction ds) (auto simp: parsed_def map_filter_simps)

text \<open>
  Relationships that were predicted are stored without a source, which the model of a
  relationship does not admit: the detection does not see them.
\<close>

theorem predicted_relationships_ignored:
  "all_relationships (s\<lparr>sd_relations := rels @ map (predicted_doc md5hex show_real now) ps\<rparr>) =
   all_relationships (s\<lparr>sd_relations := rels\<rparr>)"
proof -
  have "list_all (\<lambda>d. \<exists>e. parse_relationship d = Inl e) (map (predicted_doc md5hex show_real now) ps)"
    by (auto simp: list_all_iff parse_relationship_def ResolvedRelationship_def relationship_fields_ok_def predicted_doc_def)
  then show ?thesis by (simp add: all_relationships_def parsed_none)
qed

section \<open>What is stored\<close>

lemma store_new:
  assumes "wf_dict ys" "list_all (\<lambda>(k, y). sm_id y = k) ys" "set (map cm_id coms) \<inter> set (keys ys) = {}"
  shows "store_communities works chunk video now rid ph ys coms =
    (filter works (keys ys),
     coms @ map (\<lambda>(k, y). insert_new_community y chunk video now rid ph) (filter (\<lambda>(k, y). works k) ys))"
  using assms
proof (induction ys arbitrary: coms)
  case (Cons x ys)
  obtain k y where x: "x = (k, y)" by (cases x)
  have n: "find (\<lambda>d. cm_id d = k) coms = None"
    using Cons(4) by (auto simp: find_None_iff x)
  have i: "cm_id (insert_new_community y chunk video now rid ph) = k"
    using Cons(3) by (simp add: x insert_new_community_def)
  have "k \<notin> set (keys ys)" "wf_dict ys" using Cons(2) by (auto simp: x wf_dict_def)
  then show ?case
    using Cons(1) [of "coms @ [insert_new_community y chunk video now rid ph]"] Cons(1) [of coms] Cons(3,4) i
    by (simp add: x n)
qed simp

lemma update_existing_never: "update_existing_community d y \<noteq> Inr d'"
  by (simp add: update_existing_community_def)

text \<open>A stored community is never updated: the call raises, and the community is left out.\<close>

lemma existing_left_out:
  assumes "find (\<lambda>d. cm_id d = k) coms = Some d"
  shows "store_communities works chunk video now rid ph [(k, y)] coms = ([], coms)"
  using assms by (simp add: update_existing_community_def)

lemma histogram_step:
  "\<exists>l. (case bin_of size_bins n of None \<Rightarrow> h | Some l \<Rightarrow> dd_add l 1 h) = dd_add l 1 h"
  by (auto simp: size_bins_def)

lemma sum_dd_add: "wf_dict h \<Longrightarrow> sum_list (map snd (dd_add l (1::nat) h)) = Suc (sum_list (map snd h))"
proof (induction h)
  case (Cons x h)
  obtain k v where x: "x = (k, v)" by (cases x)
  show ?case
  proof (cases "k = l")
    case True
    then show ?thesis by (simp add: x dd_add_def)
  next
    case False
    then show ?thesis using Cons by (auto simp: x dd_add_def wf_dict_def)
  qed
qed (simp add: dd_add_def)

text \<open>The bins of the histogram cover all sizes: every community is counted in one of them.\<close>

theorem histogram_counts_all: "sum_list (map snd (compute_size_histogram sizes)) = length sizes"
proof -
  define step where "step = (\<lambda>n (h :: (string \<times> nat) list). case bin_of size_bins n of None \<Rightarrow> h | Some l \<Rightarrow> dd_add l 1 h)"
  have "wf_dict h \<Longrightarrow> wf_dict (fold step sizes h)
      \<and> sum_list (map snd (fold step sizes h)) = sum_list (map snd h) + length sizes" for h
  proof (induction sizes arbitrary: h)
    case (Cons n sizes)
    obtain l where l: "step n h = dd_add l 1 h" using histogram_step unfolding step_def by blast
    show ?case using Cons(1) [of "dd_add l 1 h"] Cons(2) sum_dd_add [of h l] by (simp add: l)
  qed simp
  from this [of "[]"] show ?thesis by (simp add: compute_size_histogram_def step_def)
qed

end
