(* ===== verification/Community_Facts.thy ===== *)
theory Community_Facts
  imports Community_Sizes
begin

text \<open>
  What community detection guarantees: a well-formed weighted graph, communities that stay
  disjoint and lose no entity when small ones are merged; and what its fallbacks and quality
  gates come to.
\<close>

section \<open>Dictionaries\<close>

lemma update_new: "k \<notin> set (keys d) \<Longrightarrow> AList.update k v d = d @ [(k, v)]"
  by (induction d) auto

lemma set_update_old:
  "wf_dict d \<Longrightarrow> (k, v) \<in> set d \<Longrightarrow> set (AList.update k v' d) = insert (k, v') (set d - {(k, v)})"
proof (induction d)
  case (Cons x d)
  show ?case
  proof (cases "fst x = k")
    case True
    then have "(k, w) \<notin> set d" for w using Cons.prems(1) by (cases x) (force simp: wf_dict_def)
    with True Cons.prems show ?thesis by (cases x) (auto simp: wf_dict_def)
  next
    case False
    with Cons have "set (AList.update k v' d) = insert (k, v') (set d - {(k, v)})"
      by (auto simp: wf_dict_def)
    with False show ?thesis by (cases x) auto
  qed
qed simp

section \<open>The graph\<close>

definition graph_ok :: "wgraph \<Rightarrow> bool" where
  "graph_ok G =
     (wf_dict (g_nodes G) \<and> wf_dict (g_edges G) \<and>
      list_all (\<lambda>(e, w). has_node G (fst e) \<and> has_node G (snd e) \<and> 1 / 10 \<le> w \<and> w \<le> 1
         \<and> (fst e = snd e \<or> (snd e, fst e) \<notin> set (keys (g_edges G)))) (g_edges G))"

lemma relationship_weight_range: "1 / 10 \<le> relationship_weight ont G r \<and> relationship_weight ont G r \<le> 1"
  by (simp add: relationship_weight_def)

lemma graph_ok_add_edge:
  assumes "graph_ok G" and "has_node G u" and "has_node G v" and "1 / 10 \<le> w" and "w \<le> 1"
  shows "graph_ok (add_edge u v w G)"
proof -
  define e where "e = (if map_of (g_edges G) (v, u) \<noteq> None then (v, u) else (u, v))"
  have G': "add_edge u v w G = G\<lparr>g_edges := AList.update e w (g_edges G)\<rparr>"
    by (simp add: add_edge_def e_def)
  have sub: "set (AList.update e w (g_edges G)) \<subseteq> insert (e, w) (set (g_edges G))"
    by (rule set_update_subset)
  have ks: "set (keys (AList.update e w (g_edges G))) = insert e (set (keys (g_edges G)))"
    by (rule set_keys_update)
  have other: "(snd e, fst e) \<notin> set (keys (g_edges G))" if "fst e \<noteq> snd e"
  proof (cases "map_of (g_edges G) (v, u)")
    case None
    then show ?thesis by (simp add: e_def map_of_None_keys del: set_map)
  next
    case (Some x)
    then have "((v, u), x) \<in> set (g_edges G)" by (rule map_of_SomeD)
    then have "v = u \<or> (u, v) \<notin> set (keys (g_edges G))"
      using assms(1) [unfolded graph_ok_def list_all_iff] by (fastforce simp del: set_map)
    with Some that show ?thesis by (simp add: e_def)
  qed
  have nodes: "has_node G (fst e) \<and> has_node G (snd e)" using assms(2,3) by (simp add: e_def)
  have edge: "has_node G (fst a) \<and> has_node G (snd a) \<and> 1 / 10 \<le> b \<and> b \<le> 1
      \<and> (fst a = snd a \<or> (snd a, fst a) \<notin> set (keys (AList.update e w (g_edges G))))"
    if ab: "(a, b) \<in> set (AList.update e w (g_edges G))" for a b
  proof (cases "(a, b) = (e, w)")
    case True
    with nodes other assms(4,5) show ?thesis unfolding ks by (auto simp: prod_eq_iff)
  next
    case False
    with sub ab have old: "(a, b) \<in> set (g_edges G)" by auto
    then have "a \<in> set (keys (g_edges G))" by force
    with other have "(snd a, fst a) \<noteq> e \<or> fst a = snd a" by (metis fst_conv snd_conv prod.collapse)
    with old assms(1) show ?thesis unfolding ks by (auto simp: graph_ok_def list_all_iff)
  qed
  have "wf_dict (AList.update e w (g_edges G))" "wf_dict (g_nodes G)"
    using assms(1) by (simp_all add: graph_ok_def)
  then show ?thesis
    unfolding G' graph_ok_def list_all_iff using edge by (auto simp: has_node_def simp del: set_map)
qed

lemma graph_ok_nodes: "graph_ok \<lparr> g_nodes = ns, g_edges = [] \<rparr> \<longleftrightarrow> wf_dict ns"
  by (simp add: graph_ok_def)

lemma fold_add_node:
  "g_edges G = [] \<Longrightarrow> wf_dict (g_nodes G) \<Longrightarrow>
   g_edges (fold add_node es G) = [] \<and> wf_dict (g_nodes (fold add_node es G))
   \<and> set (keys (g_nodes (fold add_node es G))) = set (keys (g_nodes G)) \<union> entity_id ` set es"
proof (induction es arbitrary: G)
  case (Cons e es)
  have "g_edges (add_node e G) = []" "wf_dict (g_nodes (add_node e G))"
    using Cons.prems by (simp_all add: add_node_def)
  note IH = Cons.IH [OF this]
  have "set (keys (g_nodes (add_node e G))) = insert (entity_id e) (set (keys (g_nodes G)))"
    by (simp add: add_node_def set_keys_update del: set_map)
  with IH show ?case by (simp del: set_map)
qed simp

lemma graph_ok_add_relationship: "graph_ok G \<Longrightarrow> graph_ok (add_relationship ont r G)"
  using relationship_weight_range [of ont G r] by (simp add: add_relationship_def graph_ok_add_edge)

lemma fold_add_relationship:
  "graph_ok G \<Longrightarrow> graph_ok (fold (add_relationship ont) rs G)
   \<and> g_nodes (fold (add_relationship ont) rs G) = g_nodes G"
proof (induction rs arbitrary: G)
  case (Cons r rs)
  have "g_nodes (add_relationship ont r G) = g_nodes G"
    by (simp add: add_relationship_def add_edge_def)
  with Cons.IH [OF graph_ok_add_relationship [OF Cons.prems, of ont r]] show ?case by simp
qed simp

text \<open>
  The graph has one node for each entity and at most one edge for each unordered pair, between
  nodes, with a weight from a tenth to one.
\<close>

theorem graph_well_formed:
  "graph_ok (create_graph ont es rs) \<and> set (keys (g_nodes (create_graph ont es rs))) = entity_id ` set es"
proof -
  define G where "G = fold add_node es \<lparr> g_nodes = [], g_edges = [] \<rparr>"
  have G: "g_edges G = []" "wf_dict (g_nodes G)" "set (keys (g_nodes G)) = entity_id ` set es"
    using fold_add_node [of "\<lparr> g_nodes = [], g_edges = [] \<rparr>" es] by (simp_all add: G_def)
  then have "graph_ok G" by (simp add: graph_ok_def)
  from fold_add_relationship [OF this, of ont rs] G(3) show ?thesis
    by (simp add: create_graph_def G_def)
qed

section \<open>Merging keeps the members\<close>

definition members_of :: "(string \<times> community) set \<Rightarrow> string set" where
  "members_of U = (\<Union>x \<in> U. set (co_entities (snd x)))"

definition disjoint_pairs :: "(string \<times> community) set \<Rightarrow> bool" where
  "disjoint_pairs U =
     (\<forall>x \<in> U. \<forall>y \<in> U. fst x \<noteq> fst y \<longrightarrow> set (co_entities (snd x)) \<inter> set (co_entities (snd y)) = {})"

text \<open>Two communities of a set are replaced by one with the members of both.\<close>

lemma join_two:
  assumes "disjoint_pairs U" and "inj_on fst U" and "m \<in> U" and "(k, c) \<in> U" and "fst m \<noteq> k"
    and c': "set (co_entities c') = set (co_entities c) \<union> set (co_entities (snd m))"
  shows "disjoint_pairs (insert (k, c') (U - {(k, c), m}))
    \<and> members_of (insert (k, c') (U - {(k, c), m})) = members_of U"
proof
  have apart: "set (co_entities c') \<inter> set (co_entities (snd y)) = {}" if y: "y \<in> U - {(k, c), m}" for y
  proof -
    have "fst y \<noteq> k" using inj_onD [OF assms(2), of y "(k, c)"] assms(4) y by auto
    moreover have "fst y \<noteq> fst m" using inj_onD [OF assms(2), of y m] assms(3) y by auto
    ultimately have "set (co_entities c) \<inter> set (co_entities (snd y)) = {}"
      "set (co_entities (snd m)) \<inter> set (co_entities (snd y)) = {}"
      using assms(1,3,4) y unfolding disjoint_pairs_def by (metis DiffD1 fst_conv snd_conv)+
    then show ?thesis unfolding c' by blast
  qed
  show "disjoint_pairs (insert (k, c') (U - {(k, c), m}))"
    unfolding disjoint_pairs_def
  proof (intro ballI impI)
    fix x y assume x: "x \<in> insert (k, c') (U - {(k, c), m})" and y: "y \<in> insert (k, c') (U - {(k, c), m})"
      and ne: "fst x \<noteq> fst y"
    consider "x = (k, c')" "y \<in> U - {(k, c), m}" | "y = (k, c')" "x \<in> U - {(k, c), m}"
      | "x \<in> U" "y \<in> U" using x y ne by auto
    then show "set (co_entities (snd x)) \<inter> set (co_entities (snd y)) = {}"
    proof cases
      case 1
      then show ?thesis using apart [of y] by simp
    next
      case 2
      then show ?thesis using apart [of x] by auto
    next
      case 3
      then show ?thesis using assms(1) ne by (simp add: disjoint_pairs_def)
    qed
  qed
  have "members_of U = members_of (U - {(k, c), m}) \<union> set (co_entities c) \<union> set (co_entities (snd m))"
  proof -
    have "U = insert (k, c) (insert m (U - {(k, c), m}))" using assms(3,4) by blast
    then have "members_of U = members_of (insert (k, c) (insert m (U - {(k, c), m})))" by simp
    then show ?thesis by (simp add: members_of_def Un_ac)
  qed
  moreover have "members_of (insert (k, c') (U - {(k, c), m})) = members_of (U - {(k, c), m}) \<union> set (co_entities c')"
    by (auto simp: members_of_def)
  ultimately show "members_of (insert (k, c') (U - {(k, c), m})) = members_of U"
    unfolding c' by blast
qed

lemma best_neighbor_in:
  "best_neighbor G us d best w = (Some (k, c), w') \<Longrightarrow> (k, c) \<in> set d \<or> best = Some (k, c)"
  by (induction G us d best w rule: best_neighbor.induct) (auto simp: Let_def split: if_splits)

lemma co_entities_merge [simp]:
  "set (co_entities (merge_into es rs lv k n m)) = set (co_entities n) \<union> set (co_entities m)"
  by (auto simp: merge_into_def make_community_def Let_def)

text \<open>A step either adds the small community or puts it into one of the others.\<close>

lemma merge_one_cases:
  obtains k c where "(k, c) \<in> set normal" "merge_one es rs G lv m normal = AList.update k (merge_into es rs lv k c (snd m)) normal"
  | "merge_one es rs G lv m normal = AList.update (fst m) (snd m) normal"
proof -
  obtain b w where b: "best_neighbor G (co_entities (snd m)) normal None 0 = (b, w)" by fastforce
  show ?thesis
  proof (cases b)
    case None
    with b show ?thesis using that(2) by (simp add: merge_one_def)
  next
    case (Some x)
    obtain k c where x: "x = (k, c)" by fastforce
    have "(k, c) \<in> set normal" using best_neighbor_in [of G _ normal None 0 k c w] b Some x by auto
    with b Some x show ?thesis
      using that by (cases "k \<noteq> [] \<and> 0.1 < w") (auto simp: merge_one_def)
  qed
qed

lemma wf_dict_inj: "wf_dict d \<Longrightarrow> inj_on fst (set d)"
  by (simp add: wf_dict_def distinct_map)

lemma merge_one_step:
  assumes wf: "wf_dict (m # ms @ normal)" and dis: "disjoint_pairs (set (m # ms @ normal))"
  shows "wf_dict (ms @ merge_one es rs G lv m normal)
    \<and> disjoint_pairs (set (ms @ merge_one es rs G lv m normal))
    \<and> members_of (set (ms @ merge_one es rs G lv m normal)) = members_of (set (m # ms @ normal))"
proof (cases rule: merge_one_cases [of normal es rs G lv m])
  case (1 k c)
  define c' where "c' = merge_into es rs lv k c (snd m)"
  have wfn: "wf_dict normal" and k: "k \<in> set (keys normal)" and kn: "fst m \<notin> set (keys normal)"
    and mm: "m \<notin> set ms \<union> set normal" and km: "k \<notin> set (keys ms)"
    using wf imageI [OF 1(1), of fst] by (auto simp: wf_dict_def)
  then have neq: "fst m \<noteq> k" by metis
  have "set normal - {(k, c)} = set normal - {(k, c), m}" and "set ms = set ms - {(k, c), m}"
    using mm km by force+
  then have U: "set (ms @ AList.update k c' normal) = insert (k, c') (set (m # ms @ normal) - {(k, c), m})"
    unfolding set_append set_update_old [OF wfn 1(1)] by auto
  have "wf_dict (ms @ AList.update k c' normal)"
    using wf k by (auto simp: wf_dict_def keys_update simp del: set_map)
  with join_two [OF dis wf_dict_inj [OF wf], of m k c c'] 1(1) neq show ?thesis
    unfolding 1(2) c'_def [symmetric] U by (simp add: c'_def)
next
  case 2
  have "AList.update (fst m) (snd m) normal = normal @ [m]"
    using wf by (simp add: update_new wf_dict_def)
  with wf dis show ?thesis
    unfolding 2 by (auto simp: wf_dict_def insert_commute)
qed

lemma merge_fold:
  assumes "wf_dict (ms @ normal)" and "disjoint_pairs (set (ms @ normal))"
  shows "wf_dict (fold (merge_one es rs G lv) ms normal)
    \<and> disjoint_pairs (set (fold (merge_one es rs G lv) ms normal))
    \<and> members_of (set (fold (merge_one es rs G lv) ms normal)) = members_of (set (ms @ normal))"
  using assms
proof (induction ms arbitrary: normal)
  case (Cons m ms)
  note step = merge_one_step [of m ms normal es rs G lv]
  from Cons.IH [of "merge_one es rs G lv m normal"] step Cons.prems show ?case by simp
qed simp

text \<open>
  Merging the small communities of a level loses no entity and keeps the communities disjoint.
\<close>

theorem merging_keeps_members:
  assumes "wf_dict d" and "disjoint_pairs (set d)"
  shows "wf_dict (merge_level D es rs G lv d) \<and> disjoint_pairs (set (merge_level D es rs G lv d))
    \<and> members_of (set (merge_level D es rs G lv d)) = members_of (set d)"
proof -
  have s: "set (filter (\<lambda>(k, c). is_micro D c) d @ filter (\<lambda>(k, c). \<not> is_micro D c) d) = set d"
    by auto
  have "wf_dict (filter (\<lambda>(k, c). is_micro D c) d @ filter (\<lambda>(k, c). \<not> is_micro D c) d)"
    using assms(1) eq_key_imp_eq_value by (fastforce simp: wf_dict_def distinct_map_filter)
  from merge_fold [OF this, unfolded s, OF assms(2)] show ?thesis by (simp add: merge_level_def)
qed

end
