(* ===== verification/Community_Properties.thy ===== *)
theory Community_Properties
  imports Community_Facts
begin

text \<open>
  From a partition by the algorithm to the stored communities: what \<open>detect_communities\<close> returns,
  and where the fallbacks, the single-node clusters and the coverage gate lose or hide entities.
\<close>

section \<open>One level\<close>

definition level_one :: "level \<Rightarrow> levels" where
  "level_one d = (if d = [] then [] else [(1, d)])"

lemma put_at_level_one: "k \<notin> set (keys d) \<Longrightarrow> put_at 1 k c (level_one d) = level_one (d @ [(k, c)])"
  by (simp add: put_at_def level_one_def update_new del: set_map)

lemma put_community_level_one:
  "co_id c \<notin> set (keys d) \<Longrightarrow> put_community 1 c (level_one d) = level_one (d @ [(co_id c, c)])"
  using put_at_level_one [of "co_id c" d c] by (simp add: put_community_def put_at_def)

definition kept :: "detector \<Rightarrow> string list list \<Rightarrow> string list list" where
  "kept D cs = filter (\<lambda>ids. dt_min_size D \<le> int (length ids)) cs"

definition entry_of :: "detector \<Rightarrow> resolved_entity list \<Rightarrow> resolved_relationship list \<Rightarrow> string list \<Rightarrow> string \<times> community" where
  "entry_of D es rs ids = (stable_community_id (dt_sha1 D) 1 ids, node_community D es rs 1 ids)"

lemma organize_fold:
  assumes "distinct (keys acc @ map (stable_community_id (dt_sha1 D) 1) (kept D cs))"
  shows "fold (organize_nodes D es rs 1) cs (level_one acc) = level_one (acc @ map (entry_of D es rs) (kept D cs))"
  using assms
proof (induction cs arbitrary: acc)
  case (Cons ids cs)
  show ?case
  proof (cases "dt_min_size D \<le> int (length ids)")
    case True
    define e where "e = entry_of D es rs ids"
    have e: "fst e = stable_community_id (dt_sha1 D) 1 ids" "snd e = node_community D es rs 1 ids" "co_id (snd e) = fst e"
      by (simp_all add: e_def entry_of_def node_community_def make_community_def)
    have "fst e \<notin> set (keys acc)"
      using Cons.prems True by (auto simp: kept_def e simp del: set_map)
    then have "organize_nodes D es rs 1 ids (level_one acc) = level_one (acc @ [e])"
      using put_community_level_one [of "snd e" acc] True e(3) surjective_pairing [of e]
      unfolding organize_nodes_def e(2) by simp
    moreover have "distinct (keys (acc @ [e]) @ map (stable_community_id (dt_sha1 D) 1) (kept D cs))"
      using Cons.prems True by (auto simp: kept_def e)
    ultimately show ?thesis
      using Cons.IH [of "acc @ [e]"] True by (simp add: kept_def e_def)
  next
    case False
    then show ?thesis
      using Cons by (simp add: kept_def organize_nodes_def)
  qed
qed (simp add: kept_def)

lemma split_level_small:
  assumes "list_all (\<lambda>(k, c). int (co_count c) \<le> dt_split_threshold D) d" and "distinct (keys acc @ keys d)"
  shows "split_level N D es rs G 1 d (level_one acc) = Inr (level_one (acc @ d))"
  using assms
proof (induction d arbitrary: acc)
  case (Cons x d)
  obtain k c where x: "x = (k, c)" by fastforce
  have "put_at 1 k c (level_one acc) = level_one (acc @ [x])"
    using put_at_level_one [of k acc c] Cons.prems(2) by (simp add: x)
  moreover have "distinct (keys (acc @ [x]) @ keys d)" using Cons.prems(2) by (auto simp: x)
  ultimately show ?case
    using Cons.IH [of "acc @ [x]"] Cons.prems(1) by (simp add: x)
qed simp

lemma split_levels_small:
  assumes "list_all (\<lambda>(k, c). int (co_count c) \<le> dt_split_threshold D) d" and "wf_dict d"
  shows "split_levels N D es rs G (level_one d) [] = Inr (level_one d)"
  using split_level_small [OF assms(1), of "[]" N es rs G] assms(2)
  by (cases "d = []") (auto simp: level_one_def wf_dict_def)

section \<open>From the partition to the result\<close>

definition the_level :: "detection \<Rightarrow> level" where
  "the_level d = (case map_of (dn_communities d) 1 of None \<Rightarrow> [] | Some l \<Rightarrow> l)"

lemma quality_gates_total:
  assumes "\<And>G cs e. nx_modularity N G cs = Inl e \<Longrightarrow> is_Exception e"
  shows "\<exists>g. quality_gates N D G ls q = Inr g"
proof -
  have "\<exists>m. gate_modularity N G ls = Inr m"
    using assms by (auto simp: gate_modularity_def tryR_def bindR_def split: sum.split)
  then show ?thesis by (auto simp: quality_gates_def)
qed

lemma entry_members:
  assumes "set ids \<subseteq> entity_id ` set es"
  shows "set (co_entities (snd (entry_of D es rs ids))) = set ids"
  using assms by (auto simp: entry_of_def node_community_def make_community_def members_def)

lemma merge_levels_one: "merge_micro_communities D es rs G (level_one d) =
    (if d = [] then [] else [(1, merge_level D es rs G 1 d)])"
  by (simp add: merge_micro_communities_def level_one_def)

text \<open>C21: 
  When Louvain partitions the entities and no community is above the threshold for splitting,
  the communities of the result are disjoint and hold exactly the entities of the parts that
  are not below the minimal size.
\<close>

theorem detection_keeps_partition:
  assumes alg: "dt_algorithm D = ''louvain''" "length (dt_multires D) \<le> 1" and "es \<noteq> []"
    and G: "G = create_graph (dt_ontology D) es rs"
    and cs: "nx_louvain N G (dt_resolution D) (dt_seed D) = Inr cs" "nx_modularity N G cs = Inr m"
    and exc: "\<And>G cs e. nx_modularity N G cs = Inl e \<Longrightarrow> is_Exception e"
    and inside: "\<And>ids. ids \<in> set cs \<Longrightarrow> set ids \<subseteq> entity_id ` set es"
    and apart: "\<And>a b. a \<in> set cs \<Longrightarrow> b \<in> set cs \<Longrightarrow> a \<noteq> b \<Longrightarrow> set a \<inter> set b = {}"
    and names: "distinct (map (stable_community_id (dt_sha1 D) 1) (kept D cs))"
    and small: "\<And>ids. ids \<in> set cs \<Longrightarrow> int (length (members es ids)) \<le> dt_split_threshold D"
  shows "\<exists>d. detect_communities N D es rs = Inr d \<and> wf_dict (the_level d)
    \<and> disjoint_pairs (set (the_level d))
    \<and> members_of (set (the_level d)) = \<Union> (set ` set (kept D cs))"
proof -
  define d0 where "d0 = map (entry_of D es rs) (kept D cs)"
  have keys0: "keys d0 = map (stable_community_id (dt_sha1 D) 1) (kept D cs)"
    by (simp add: d0_def entry_of_def)
  have org: "organize N D G es rs = Inr (level_one d0)"
    using alg cs organize_fold [of "[]" D cs es rs] names
    by (simp add: organize_def run_algorithm_def detect_louvain_def tryR_def organize_by_level_def d0_def level_one_def)
  have wf0: "wf_dict d0" using names by (simp add: wf_dict_def keys0)
  have sub: "set ids \<subseteq> entity_id ` set es" "ids \<in> set cs" if "ids \<in> set (kept D cs)" for ids
    using that inside by (auto simp: kept_def)
  have dis0: "disjoint_pairs (set d0)"
    unfolding disjoint_pairs_def d0_def
  proof (intro ballI impI)
    fix x y assume x: "x \<in> set (map (entry_of D es rs) (kept D cs))" and y: "y \<in> set (map (entry_of D es rs) (kept D cs))"
      and ne: "fst x \<noteq> fst y"
    then obtain a b where ab: "x = entry_of D es rs a" "a \<in> set (kept D cs)" "y = entry_of D es rs b" "b \<in> set (kept D cs)"
      by auto
    with ne have "a \<noteq> b" by auto
    with ab sub apart show "set (co_entities (snd x)) \<inter> set (co_entities (snd y)) = {}"
      by (simp add: entry_members)
  qed
  have mem0: "members_of (set d0) = \<Union> (set ` set (kept D cs))"
    using sub(1) by (auto simp: members_of_def d0_def entry_members)
  have "list_all (\<lambda>(k, c). int (co_count c) \<le> dt_split_threshold D) d0"
    using small sub(2) by (auto simp: d0_def list_all_iff entry_of_def node_community_def make_community_def)
  then have sz: "apply_size_management N D es rs G (level_one d0) = Inr (merge_micro_communities D es rs G (level_one d0))"
    using split_levels_small wf0 by (simp add: apply_size_management_def)
  have nodes: "g_nodes G \<noteq> []"
    using graph_well_formed [of "dt_ontology D" es rs] \<open>es \<noteq> []\<close> by (auto simp: G)
  define ls where "ls = merge_micro_communities D es rs G (level_one d0)"
  obtain g where g: "quality_gates N D G ls (community_quality G ls) = Inr g"
    using quality_gates_total [of N D G ls] exc by blast
  define d where "d = \<lparr> dn_communities = ls, dn_levels = length ls, dn_total = length (all_communities ls),
     dn_quality = Some (community_quality G ls), dn_gates = Some g,
     dn_graph = Some (length (g_nodes G), length (g_edges G), nx_density N G) \<rparr>"
  have "detect_communities N D es rs = Inr d"
    using \<open>es \<noteq> []\<close> nodes org sz g
    by (simp add: detect_communities_def G [symmetric] with_fallback_def d_def ls_def [symmetric])
  moreover have "the_level d = merge_level D es rs G 1 d0"
    by (simp add: the_level_def d_def ls_def merge_levels_one merge_level_def)
  moreover note merging_keeps_members [OF wf0 dis0, of D es rs G 1]
  ultimately show ?thesis using mem0 by auto
qed

section \<open>Fallbacks\<close>

text \<open>Louvain takes the place of label propagation when every call with a seed raises.\<close>

theorem label_propagation_falls_back:
  assumes "\<And>s. \<exists>e. nx_label_propagation N G s = Inl e \<and> is_Exception e"
  shows "detect_label_propagation N D G = detect_louvain N D G"
proof -
  have "label_runs N G ss = Inr []" for ss
  proof (induction ss)
    case (Cons s ss)
    from assms [of s] obtain e where "nx_label_propagation N G s = Inl e" "is_Exception e" by blast
    with Cons show ?case by (simp add: tryR_def)
  qed simp
  then show ?thesis by (simp add: detect_label_propagation_def)
qed

text \<open>
  Clusters with one node each, as graspologic returns them, are all below a minimal size of two:
  no community is left, whatever their cluster numbers say.
\<close>

theorem single_node_clusters_dropped:
  assumes "list_all (\<lambda>c. cl_nodes c = None) cs" and "1 < dt_min_size D"
  shows "organize_by_level D es rs (Clusters cs) = []"
proof -
  have inner: "fold (\<lambda>c. organize_nodes D es rs lv (cluster_ids c)) grp ls = ls"
    if "list_all (\<lambda>c. cl_nodes c = None) grp" for lv grp ls
    using that assms(2) by (induction grp arbitrary: ls) (auto simp: organize_nodes_def cluster_ids_def)
  have groups: "list_all (\<lambda>(lv, grp). list_all (\<lambda>c. cl_nodes c = None) grp)
      (fold (\<lambda>c. dd_append (cluster_level c) c) cs acc)"
    if "list_all (\<lambda>(lv, grp). list_all (\<lambda>c. cl_nodes c = None) grp) acc" for acc
    using that assms(1)
  proof (induction cs arbitrary: acc)
    case (Cons c cs)
    define old where "old = (case map_of acc (cluster_level c) of None \<Rightarrow> [] | Some xs \<Rightarrow> xs)"
    have old: "list_all (\<lambda>c. cl_nodes c = None) old"
    proof (cases "map_of acc (cluster_level c)")
      case (Some xs)
      from map_of_SomeD [OF this] Cons.prems(1) have "list_all (\<lambda>c. cl_nodes c = None) xs"
        by (auto simp: list_all_iff)
      with Some show ?thesis by (simp add: old_def)
    qed (simp add: old_def)
    have "list_all (\<lambda>(lv, grp). list_all (\<lambda>c. cl_nodes c = None) grp) (dd_append (cluster_level c) c acc)"
      unfolding dd_append_def list_all_iff old_def [symmetric]
    proof (intro ballI)
      fix y assume "y \<in> set (AList.update (cluster_level c) (old @ [c]) acc)"
      then have "y = (cluster_level c, old @ [c]) \<or> y \<in> set acc"
        using set_update_subset by fastforce
      then show "case y of (lv, grp) \<Rightarrow> \<forall>c\<in>set grp. cl_nodes c = None"
        using old Cons.prems by (auto simp: list_all_iff)
    qed
    with Cons show ?case by simp
  qed simp
  have outer: "fold (\<lambda>(lv, grp). fold (\<lambda>c. organize_nodes D es rs lv (cluster_ids c)) grp) gs ls = ls"
    if "list_all (\<lambda>(lv, grp). list_all (\<lambda>c. cl_nodes c = None) grp) gs" for gs ls
    using that by (induction gs arbitrary: ls) (auto simp: inner)
  show ?thesis
    unfolding organize_by_level_def detected.case by (rule outer) (rule groups, simp)
qed

section \<open>The coverage gate\<close>

lemma all_communities_sizes:
  "list_all (\<lambda>(lv, d). sum_list (map (co_count \<circ> snd) d) = n) ls \<Longrightarrow>
   sum_list (map co_count (all_communities ls)) = length ls * n"
  by (induction ls) (auto simp: all_communities_def comp_def)

text \<open>
  The coverage adds up the levels: with several resolutions it counts every entity once for each,
  and levels that all miss the threshold pass the gate together.
\<close>

theorem coverage_adds_levels:
  assumes "list_all (\<lambda>(lv, d). sum_list (map (co_count \<circ> snd) d) = n) ls"
    and "g_nodes G \<noteq> []" and "all_communities ls \<noteq> []"
  shows "qu_coverage (community_quality G ls) = real (length ls) * (real n / real (length (g_nodes G)))"
  using assms(2,3) all_communities_sizes [OF assms(1)]
  by (simp add: community_quality_def Let_def)

lemma coherence_range: "0 \<le> coherence_score es rs \<and> coherence_score es rs \<le> 1"
  by (simp add: coherence_score_def Let_def)

section \<open>A concrete graph\<close>

text \<open>Two pairs of entities, each with one relationship, and an algorithm that finds the pairs.\<close>

definition ent :: "char \<Rightarrow> resolved_entity" where
  "ent c =
     \<lparr> entity_id = [c], canonical_name = [c], name = [c], etype = CONCEPT, description = ''A description'',
       confidence = 1 / 2, source_count = 1, resolution_methods = [], aliases = [] \<rparr>"

definition rel_of :: "char \<Rightarrow> char \<Rightarrow> resolved_relationship" where
  "rel_of a b =
     \<lparr> rr_id = [a, b], rr_subject = [a], rr_object = [b], rr_predicate = ''uses'', rr_description = ''A description'',
       rr_confidence = 1 / 2, rr_source_count = 1 \<rparr>"

definition demo_entities :: "resolved_entity list" where
  "demo_entities = map ent ''abcde''"

definition demo_rels :: "resolved_relationship list" where
  "demo_rels = [rel_of (CHR ''a'') (CHR ''b''), rel_of (CHR ''c'') (CHR ''d'')]"

definition demo_nx :: networkx where
  "demo_nx =
     \<lparr> nx_louvain = (\<lambda>G r s. Inr [[''a'', ''b''], [''c'', ''d''], [''e'']]), nx_leiden = None,
       graspologic = Some (\<lambda>G n. Inr [\<lparr> cl_level = Some 0, cl_nodes = None, cl_node = ''a'' \<rparr>]),
       nx_label_propagation = (\<lambda>G s. Inl (Exn ''TypeError'' ''unexpected keyword argument'')),
       nx_modularity = (\<lambda>G cs. Inr (1 / 2)), nx_components = (\<lambda>G. []), nx_density = (\<lambda>G. 0) \<rparr>"

definition demo_detector :: detector where
  "demo_detector =
     \<lparr> dt_algorithm = ''louvain'', dt_min_size = 2, dt_max_size = 50, dt_resolution = 1, dt_multires = [1],
       dt_ontology = empty_ontology, dt_sha1 = id, dt_seed = 42, dt_label_runs = 3, dt_split_threshold = 1000,
       dt_merge_threshold = 5, dt_split_resolution = 1.8, dt_min_modularity = 0.3, dt_min_coverage = 0.7,
       dt_max_community = 5000, dt_max_singletons = 0.3 \<rparr>"

lemma detection_keeps_partition_witness:
  "\<exists>d. detect_communities demo_nx demo_detector demo_entities demo_rels = Inr d \<and> disjoint_pairs (set (the_level d))
    \<and> members_of (set (the_level d)) = {''a'', ''b'', ''c'', ''d''}"
proof -
  define cs where "cs = [[''a'', ''b''], [''c'', ''d''], [''e'']]"
  have kept: "kept demo_detector cs = [[''a'', ''b''], [''c'', ''d'']]"
    by (simp add: kept_def demo_detector_def cs_def)
  have ids: "entity_id ` set demo_entities = {''a'', ''b'', ''c'', ''d'', ''e''}"
    by (auto simp: demo_entities_def ent_def)
  have "\<exists>d. detect_communities demo_nx demo_detector demo_entities demo_rels = Inr d \<and> wf_dict (the_level d)
    \<and> disjoint_pairs (set (the_level d))
    \<and> members_of (set (the_level d)) = \<Union> (set ` set (kept demo_detector cs))"
  proof (rule detection_keeps_partition [OF _ _ _ refl, where m = "1 / 2"])
    show "distinct (map (stable_community_id (dt_sha1 demo_detector) 1) (kept demo_detector cs))"
      unfolding kept by code_simp
    show "int (length (members demo_entities ids)) \<le> dt_split_threshold demo_detector" for ids
    proof -
      have "length (members demo_entities ids) \<le> length demo_entities" by (simp add: members_def)
      then show ?thesis by (simp add: demo_detector_def demo_entities_def)
    qed
    show "set ids \<subseteq> entity_id ` set demo_entities" if "ids \<in> set cs" for ids
      using that unfolding ids by (auto simp: cs_def)
  qed (auto simp: demo_detector_def demo_nx_def demo_entities_def cs_def)
  then show ?thesis by (auto simp: kept)
qed

lemma label_propagation_falls_back_witness:
  "detect_label_propagation demo_nx demo_detector G = detect_louvain demo_nx demo_detector G"
  by (rule label_propagation_falls_back) (simp add: demo_nx_def is_Exception_def)

lemma single_node_clusters_dropped_witness:
  "organize_by_level demo_detector demo_entities demo_rels
     (Clusters [\<lparr> cl_level = Some 0, cl_nodes = None, cl_node = ''a'' \<rparr>, \<lparr> cl_level = Some 0, cl_nodes = None, cl_node = ''b'' \<rparr>]) = []"
  by (rule single_node_clusters_dropped) (simp_all add: demo_detector_def)

lemma merging_keeps_members_witness:
  "members_of (set (merge_level demo_detector demo_entities demo_rels (create_graph empty_ontology demo_entities demo_rels) 1
      [(''x'', make_community ''x'' 1 [''a''] None [] [] []), (''y'', make_community ''y'' 1 [''b''] None [] [] [])])) =
    {''a'', ''b''}"
proof -
  define d where "d = [(''x'', make_community ''x'' 1 [''a''] None [] [] []), (''y'', make_community ''y'' 1 [''b''] None [] [] [])]"
  have "wf_dict d" "disjoint_pairs (set d)" "members_of (set d) = {''a'', ''b''}"
    by (auto simp: d_def wf_dict_def disjoint_pairs_def members_of_def make_community_def)
  with merging_keeps_members [of d] show ?thesis by (simp add: d_def)
qed

definition demo_level :: "string \<Rightarrow> level" where
  "demo_level k = [(k, make_community k 1 [''a'', ''b''] None [ent (CHR ''a''), ent (CHR ''b'')] [] [''a'', ''b''])]"

lemma coverage_adds_levels_witness:
  "qu_coverage (community_quality (create_graph empty_ontology demo_entities demo_rels)
      [(1, demo_level ''x''), (2, demo_level ''y''), (3, demo_level ''z'')]) =
    real 3 * (real 2 / real (length (g_nodes (create_graph empty_ontology demo_entities demo_rels))))"
proof -
  define ls :: levels where "ls = [(1, demo_level ''x''), (2, demo_level ''y''), (3, demo_level ''z'')]"
  define G where "G = create_graph empty_ontology demo_entities demo_rels"
  have "list_all (\<lambda>(lv, d). sum_list (map (co_count \<circ> snd) d) = 2) ls"
    by (simp add: ls_def demo_level_def make_community_def members_def ent_def)
  moreover have "g_nodes G \<noteq> []"
    using graph_well_formed [of empty_ontology demo_entities demo_rels] by (auto simp: G_def demo_entities_def)
  moreover have "all_communities ls \<noteq> []" "length ls = 3" by (simp_all add: ls_def all_communities_def demo_level_def)
  ultimately show ?thesis
    using coverage_adds_levels [of 2 ls G] by (simp add: ls_def [symmetric] G_def [symmetric])
qed

end
