(* ===== verification/Community_Stage_Properties.thy ===== *)
theory Community_Stage_Properties
  imports Community_Stage_Facts Community_Properties Summary_Facts
begin

text \<open>
  The detection, the summaries and the stage together: what is stored after a detection are
  valid communities under distinct identifiers, and their entities know them. The last section
  gives a graph and chunks to which the theorems on the stage apply.
\<close>

section \<open>Communities are stored under their identifiers\<close>

definition keyed_level :: "level \<Rightarrow> bool" where
  "keyed_level d = list_all (\<lambda>(k, c). co_id c = k) d"

definition keyed :: "levels \<Rightarrow> bool" where
  "keyed ls = list_all (\<lambda>(lv, d). keyed_level d) ls"

lemma keyed_level_update: "keyed_level d \<Longrightarrow> co_id c = k \<Longrightarrow> keyed_level (AList.update k c d)"
  using set_update_subset [of k c d] by (fastforce simp: keyed_level_def list_all_iff)

lemma keyed_Nil [simp]: "keyed []" "keyed_level []"
  by (simp_all add: keyed_def keyed_level_def)

lemma keyed_update: "keyed ls \<Longrightarrow> keyed_level d \<Longrightarrow> keyed (AList.update lv d ls)"
  using set_update_subset [of lv d ls] by (fastforce simp: keyed_def list_all_iff)

lemma keyed_lookup: "keyed ls \<Longrightarrow> keyed_level (case map_of ls lv of None \<Rightarrow> [] | Some d \<Rightarrow> d)"
  by (auto simp: keyed_def list_all_iff split: option.split dest!: map_of_SomeD)

lemma keyed_put_at: "keyed ls \<Longrightarrow> co_id c = k \<Longrightarrow> keyed (put_at lv k c ls)"
  by (simp add: put_at_def keyed_update keyed_level_update keyed_lookup)

lemma keyed_put_community: "keyed ls \<Longrightarrow> keyed (put_community lv c ls)"
  using keyed_put_at [of ls c "co_id c" lv] by (simp add: put_at_def put_community_def)

lemma keyed_fold: "(\<And>x ls. keyed ls \<Longrightarrow> keyed (f x ls)) \<Longrightarrow> keyed ls \<Longrightarrow> keyed (fold f xs ls)"
  by (induction xs arbitrary: ls) auto

lemma keyed_level_fold: "(\<And>x d. keyed_level d \<Longrightarrow> keyed_level (f x d)) \<Longrightarrow> keyed_level d \<Longrightarrow> keyed_level (fold f xs d)"
  by (induction xs arbitrary: d) auto

lemma keyed_organize_nodes: "keyed ls \<Longrightarrow> keyed (organize_nodes D es rs lv ids ls)"
  by (simp add: organize_nodes_def keyed_put_community)

lemma keyed_organize: "keyed (organize_by_level D es rs det)"
  by (cases det) (auto simp: organize_by_level_def intro!: keyed_fold keyed_organize_nodes)

lemma keyed_multires_level: "keyed_level (organize_multires_level D es rs lv cs)"
  unfolding organize_multires_level_def
  by (rule keyed_level_fold) (simp_all add: Let_def keyed_level_update)

lemma keyed_multires: "multires_louvain N D G es rs lv res = Inr ls \<Longrightarrow> keyed ls"
proof (induction res arbitrary: lv ls)
  case (Cons r res)
  then obtain here more where h: "ls = here @ more" "multires_louvain N D G es rs (lv + 1) res = Inr more"
    "tryR (bindR (nx_louvain N G r (dt_seed D)) (\<lambda>cs. bindR (nx_modularity N G cs) (\<lambda>m.
       Inr [(lv, organize_multires_level D es rs lv cs)]))) (\<lambda>e. Inr []) = Inr here"
    by (auto simp: bindR_eq_Inr)
  have "keyed here" using h(3) by (auto simp: tryR_def bindR_eq_Inr keyed_def keyed_multires_level split: sum.splits if_splits)
  then show ?case using Cons(1) [OF h(2)] by (simp add: h(1) keyed_def)
qed simp

lemma keyed_split_oversized: "split_oversized_community N D es rs G lv c = Inr d \<Longrightarrow> keyed_level d"
  by (auto simp: split_oversized_community_def Let_def tryR_def bindR_eq_Inr keyed_level_def [of "[_]"]
      split: if_splits sum.splits intro!: keyed_level_fold keyed_level_update)

lemma keyed_split_level:
  "split_level N D es rs G lv d ls = Inr ls' \<Longrightarrow> keyed_level d \<Longrightarrow> keyed ls \<Longrightarrow> keyed ls'"
proof (induction N D es rs G lv d ls rule: split_level.induct)
  case (2 N D es rs G lv k c cs ls)
  show ?case
  proof (cases "dt_split_threshold D < int (co_count c)")
    case True
    then obtain parts where p: "split_oversized_community N D es rs G lv c = Inr parts"
      "split_level N D es rs G lv cs (fold (\<lambda>(k', p). put_at lv k' p) parts ls) = Inr ls'"
      using 2(3) by (auto simp: bindR_eq_Inr)
    have "keyed_level xs \<Longrightarrow> keyed l \<Longrightarrow> keyed (fold (\<lambda>(k', p). put_at lv k' p) xs l)" for xs l
      by (induction xs arbitrary: l) (auto simp: keyed_level_def keyed_put_at)
    then show ?thesis using 2(1) [OF True p(2)] keyed_split_oversized [OF p(1)] 2(4,5)
      by (simp add: keyed_level_def)
  next
    case False
    then show ?thesis using 2 by (simp add: keyed_level_def keyed_put_at)
  qed
qed simp

lemma keyed_split_levels: "split_levels N D es rs G xs ls = Inr ls' \<Longrightarrow> keyed xs \<Longrightarrow> keyed ls \<Longrightarrow> keyed ls'"
proof (induction N D es rs G xs ls rule: split_levels.induct)
  case (2 N D es rs G lv d rest ls)
  then obtain l where "split_level N D es rs G lv d ls = Inr l" "split_levels N D es rs G rest l = Inr ls'"
    by (auto simp: bindR_eq_Inr)
  then show ?case using 2 keyed_split_level by (auto simp: keyed_def)
qed simp

lemma keyed_merge_one: "keyed_level d \<Longrightarrow> co_id (snd m) = fst m \<Longrightarrow> keyed_level (merge_one es rs G lv m d)"
  by (auto simp: merge_one_def merge_into_def make_community_def Let_def intro!: keyed_level_update
      split: prod.split option.split)

lemma keyed_merge_level: "keyed_level d \<Longrightarrow> keyed_level (merge_level D es rs G lv d)"
proof -
  assume d: "keyed_level d"
  have "keyed_level ms \<Longrightarrow> keyed_level l \<Longrightarrow> keyed_level (fold (merge_one es rs G lv) ms l)" for ms l
    by (induction ms arbitrary: l) (auto simp: keyed_level_def [of "_ # _"] keyed_merge_one simp flip: keyed_level_def)
  moreover have "keyed_level (filter p d)" for p using d by (auto simp: keyed_level_def list_all_iff)
  ultimately show ?thesis by (simp add: merge_level_def)
qed

lemma detected_keyed:
  assumes "detect_communities N D es rs = Inr d"
  shows "keyed (dn_communities d)"
proof -
  have m: "keyed ls \<Longrightarrow> keyed (merge_micro_communities D es rs G ls)" for G ls
    by (auto simp: merge_micro_communities_def keyed_def list_all_iff keyed_merge_level)
  have s: "apply_size_management N D es rs G org = Inr ls \<Longrightarrow> keyed org \<Longrightarrow> keyed ls" for G org ls
    using keyed_split_levels m by (fastforce simp: apply_size_management_def bindR_eq_Inr)
  have o1: "organize N D G es rs = Inr org \<Longrightarrow> keyed org" for G org
    by (auto simp: organize_def bindR_eq_Inr keyed_organize dest: keyed_multires split: if_splits)
  show ?thesis
    using assms s o1
    by (fastforce simp: detect_communities_def with_fallback_def Let_def no_detection_def bindR_eq_Inr
        split: sum.splits if_splits)
qed

section \<open>Assignments\<close>

definition assigned :: "clustered_entity \<Rightarrow> int \<Rightarrow> string list" where
  "assigned d lv = (case map_of (ce_assignments d) (level_key lv) of None \<Rightarrow> [] | Some xs \<Rightarrow> xs)"

definition assign_if :: "string \<times> community_summary \<Rightarrow> clustered_entity \<Rightarrow> clustered_entity" where
  "assign_if = (\<lambda>(k, y) d. if d_id d \<in> set (sm_entities y) then assign_community k (sm_level y) d else d)"

lemma update_entity_communities_map: "update_entity_communities ys ds = map (fold assign_if ys) ds"
proof -
  have f: "fold (\<lambda>x. map (g x)) ys ds = map (fold g ys) ds" for g :: "'x \<Rightarrow> 'y \<Rightarrow> 'y" and ys ds
    by (induction ys arbitrary: ds) auto
  have g: "(\<lambda>(k, y). map (\<lambda>d. if d_id d \<in> set (sm_entities y) then assign_community k (sm_level y) d else d)) =
      (\<lambda>x. map (assign_if x))"
    by (rule ext) (simp add: assign_if_def split: prod.split)
  show ?thesis by (simp only: update_entity_communities_def g f)
qed

lemma d_id_assign [simp]: "d_id (assign_if x d) = d_id d"
  by (auto simp: assign_if_def assign_community_def split: prod.split)

lemma d_id_fold_assign [simp]: "d_id (fold assign_if ys d) = d_id d"
  by (induction ys arbitrary: d) auto

lemma add_one: "set (add_to_set xs [y]) = insert y (set xs)"
  by auto

lemma assigned_mono: "set (assigned d lv) \<subseteq> set (assigned (assign_if x d) lv)"
proof (cases x)
  case (Pair k y)
  show ?thesis
    by (cases "level_key lv = level_key (sm_level y)")
      (auto simp: Pair assign_if_def assigned_def assign_community_def map_of_update split: option.split)
qed

lemma assigned_fold_mono: "set (assigned d lv) \<subseteq> set (assigned (fold assign_if ys d) lv)"
proof (induction ys arbitrary: d)
  case (Cons x ys)
  show ?case using assigned_mono [of d lv x] Cons [of "assign_if x d"] by auto
qed simp

lemma assigned_now: "d_id d \<in> set (sm_entities y) \<Longrightarrow> k \<in> set (assigned (assign_if (k, y) d) (sm_level y))"
  by (auto simp: assign_if_def assigned_def assign_community_def map_of_update split: option.split)

lemma assigned_fold:
  "(k, y) \<in> set ys \<Longrightarrow> d_id d \<in> set (sm_entities y) \<Longrightarrow> k \<in> set (assigned (fold assign_if ys d) (sm_level y))"
proof (induction ys arbitrary: d)
  case (Cons x ys)
  show ?case
  proof (cases "x = (k, y)")
    case True
    then show ?thesis
      using assigned_now [OF Cons(3), of k] assigned_fold_mono [of "assign_if (k, y) d" "sm_level y" ys] by auto
  next
    case False
    then show ?thesis using Cons(1) [of "assign_if x d"] Cons(2,3) by simp
  qed
qed simp

section \<open>What a detection leaves behind\<close>

text \<open>
  The sequential mode, or a pool whose batches complete in some order and whose calls are not
  interrupted.
\<close>

definition pool_ok :: "detection_setting \<Rightarrow> levels \<Rightarrow> resolved_entity list \<Rightarrow> resolved_relationship list \<Rightarrow> bool" where
  "pool_ok S ls es rs =
     (se_tracking S \<longrightarrow>
        list_all (survives (summary_job (se_summarizer S) (run_pool S) (dict_by entity_id es) (dict_by rr_id rs)))
          (community_items ls)
        \<and> 0 < concurrency_setting S
        \<and> orders_ok (summary_job (se_summarizer S) (run_pool S) (dict_by entity_id es) (dict_by rr_id rs))
            (nat (min (concurrency_setting S * 2) 1000)) 0 (length (community_items ls)))"

lemma summaries_of_detection:
  assumes "pool_ok S ls es rs" "keyed ls"
    and "summarize_communities (se_summarizer S) (run_pool S) (se_tracking S) ls es rs = Inr ys"
  shows "wf_dict ys \<and> list_all (\<lambda>(k, y). sm_id y = k \<and> summary_ok y) ys"
proof -
  have "pl_workers (run_pool S) = concurrency_setting S" by (simp add: run_pool_def)
  then have "summarize_communities (se_summarizer S) (run_pool S) False ls es rs = Inr ys"
    using assms(1,3) concurrent_summaries [of "se_summarizer S" "run_pool S" es rs ls]
    by (cases "se_tracking S") (auto simp: pool_ok_def)
  then have d: "summaries_ok (community_items ls) ys" by (rule sequential_summaries_ok)
  have "co_id c = k" if "(k, c) \<in> set (community_items ls)" for k c
    using that assms(2) by (fastforce simp: community_items_def keyed_def keyed_level_def list_all_iff)
  then show ?thesis using d by (fastforce simp: summaries_ok_def describes_def list_all_iff)
qed

text \<open>C25: 
  After the detection the collection holds exactly the communities whose insertion the database took,
  so that it is not empty when it took all; they are valid, under distinct identifiers, and every
  stored entity of a community is assigned to it at its level.
\<close>

theorem stored_communities_consistent:
  assumes "\<not> sd_detected s" "sd_detected (snd (handle_detection S ch s))"
    and "detect_communities (se_networkx S) (se_detector S) (all_entities s) (all_relationships s) = Inr d"
    and "pool_ok S (dn_communities d) (all_entities s) (all_relationships s)"
  shows "\<exists>s' ys. snd (handle_detection S ch s) = s'
    \<and> summarize_communities (se_summarizer S) (run_pool S) (se_tracking S) (dn_communities d) (all_entities s) (all_relationships s) = Inr ys
    \<and> map cm_id (sd_communities s') = filter (se_stores S) (keys ys)
    \<and> (sd_communities s' \<noteq> [] \<or> \<not> list_all (se_stores S) (keys ys)) \<and> distinct (map cm_id (sd_communities s'))
    \<and> list_all (\<lambda>m. 1 \<le> cm_level m \<and> cm_level m \<le> 10 \<and> list_all is_md5 (cm_entities m) \<and> cm_entities m \<noteq> []
        \<and> 0 \<le> cm_coherence m \<and> cm_coherence m \<le> 1
        \<and> list_all (\<lambda>e. d_id e \<notin> set (cm_entities m) \<or> cm_id m \<in> set (assigned e (cm_level m))) (sd_entities s'))
      (sd_communities s')"
proof -
  obtain ys rid runs where y: "sd_communities s = []" "ys \<noteq> []"
    "summarize_communities (se_summarizer S) (run_pool S) (se_tracking S) (dn_communities d) (all_entities s) (all_relationships s) = Inr ys"
    "snd (handle_detection S ch s) = finish_detection S ch rid d ys (s\<lparr>sd_runs := runs\<rparr>)"
    using handle_detected [OF assms(1,2)] assms(3) by auto
  have w: "wf_dict ys" "list_all (\<lambda>(k, y). sm_id y = k \<and> summary_ok y) ys"
    using summaries_of_detection [OF assms(4) detected_keyed [OF assms(3)] y(3)] by auto
  have ids: "list_all (\<lambda>(k, y). sm_id y = k) ys" using w(2) by (auto simp: list_all_iff)
  let ?f = "\<lambda>(k, y). insert_new_community y (ck_id ch) (ck_video ch) (se_clock S (ck_id ch)) rid (params_hash S)"
  let ?zs = "filter (\<lambda>(k, y). se_stores S k) ys"
  have st: "store_communities (se_stores S) (ck_id ch) (ck_video ch) (se_clock S (ck_id ch)) rid (params_hash S) ys []
      = (filter (se_stores S) (keys ys), map ?f ?zs)"
    using store_new [OF w(1) ids, of "[]"] by simp
  have c: "sd_communities (snd (handle_detection S ch s)) = map ?f ?zs"
    "sd_entities (snd (handle_detection S ch s)) = map (fold assign_if ys) (sd_entities s)"
    using st y(1) by (simp_all add: y(4) finish_detection_def Let_def update_entity_communities_map)
  have m: "map cm_id (map ?f ?zs) = filter (se_stores S) (keys ys)"
    using ids by (induction ys) (auto simp: insert_new_community_def)
  have dist: "distinct (map cm_id (map ?f ?zs))" unfolding m using w(1) by (simp only: wf_dict_def distinct_filter)
  have full: "map ?f ?zs \<noteq> [] \<or> \<not> list_all (se_stores S) (keys ys)"
    using y(2) by (cases ys) (auto split: prod.splits)
  have a: "list_all (\<lambda>e. d_id e \<notin> set (sm_entities z) \<or> k \<in> set (assigned e (sm_level z))) (map (fold assign_if ys) (sd_entities s))"
    if "(k, z) \<in> set ys" for k z
    using assigned_fold [OF that] by (auto simp: list_all_iff)
  have all: "list_all (\<lambda>m. 1 \<le> cm_level m \<and> cm_level m \<le> 10 \<and> list_all is_md5 (cm_entities m) \<and> cm_entities m \<noteq> []
        \<and> 0 \<le> cm_coherence m \<and> cm_coherence m \<le> 1
        \<and> list_all (\<lambda>e. d_id e \<notin> set (cm_entities m) \<or> cm_id m \<in> set (assigned e (cm_level m))) (map (fold assign_if ys) (sd_entities s)))
      (map ?f ?zs)"
    using w(2) a by (fastforce simp: insert_new_community_def summary_ok_def list_all_iff)
  show ?thesis
    by (intro exI [of _ "snd (handle_detection S ch s)"] exI [of _ ys] conjI; (rule refl)?; (unfold c)?; rule y(3) m full dist all)
qed

text \<open>
  The entities are assigned to every summarised community, also to one whose insertion failed: such
  an assignment names a community that does not exist.
\<close>

lemma failed_insert_leaves_assignment:
  assumes "wf_dict ys" "list_all (\<lambda>(k, y). sm_id y = k) ys" "(k, z) \<in> set ys" "\<not> works k"
    and "store_communities works chunk video now rid ph ys [] = (ids, coms)"
  shows "k \<notin> set (map cm_id coms)
    \<and> list_all (\<lambda>e. d_id e \<notin> set (sm_entities z) \<or> k \<in> set (assigned e (sm_level z))) (update_entity_communities ys ds)"
proof -
  have "coms = map (\<lambda>(k, y). insert_new_community y chunk video now rid ph) (filter (\<lambda>(k, y). works k) ys)"
    using store_new [OF assms(1,2), of "[]" works chunk video now rid ph] assms(5) by simp
  then have "k \<notin> set (map cm_id coms)"
    using assms(2,4) by (auto simp: insert_new_community_def list_all_iff)
  then show ?thesis
    using assigned_fold [OF assms(3)] by (auto simp: list_all_iff update_entity_communities_map)
qed

text \<open>A graph of two entities and two chunks to which the theorems on the stage apply.\<close>

definition demo_row :: "char \<Rightarrow> clustered_entity" where
  "demo_row c =
     \<lparr> d_id = demo_id c, d_canonical = [c], d_canonical_norm = Some [c], d_name = [c], d_type = ''CONCEPT'',
       d_description = ''A description'', d_confidence = 1 / 2, d_source_count = 1, d_aliases = [], d_aliases_norm = [],
       d_source_chunks = [''c1''], d_provenance = [], d_created_at = 0, d_first_seen = 0, d_updated_at = 0, d_last_seen = 0,
       ce_assignments = [] \<rparr>"

definition demo_chunk :: "string \<Rightarrow> bool \<Rightarrow> chunk_row" where
  "demo_chunk k excluded =
     \<lparr> ck_id = k, ck_video = ''v'', ck_constructed = True, ck_excluded = excluded, ck_detection = None \<rparr>"

definition demo_state :: detection_state where
  "demo_state =
     \<lparr> sd_entities = [demo_row (CHR ''a''), demo_row (CHR ''b'')], sd_relations = [], sd_communities = [], sd_runs = [],
       sd_metrics = [], sd_chunks = [demo_chunk ''c1'' False, demo_chunk ''c2'' True], sd_detected = False,
       sd_stats = \<lparr> processed = 0, skipped = 0, failed = 0, updated = 0 \<rparr> \<rparr>"

text \<open>\<open>found\<close> is what the algorithm finds.\<close>

definition demo_setting :: "string list list \<Rightarrow> detection_setting" where
  "demo_setting found =
     \<lparr> se_networkx = demo_nx\<lparr>nx_louvain := (\<lambda>G r s. Inr found)\<rparr>, se_detector = demo_detector,
       se_summarizer = demo_sz None, se_pool = demo_pool, se_tracking = False, se_concurrency = None,
       se_iterations = 100, se_levels = 3, se_seed = ''42'', se_dumps = (\<lambda>ps. concat (map fst ps)),
       se_oid_text = str_of_nat, se_new_oid = length, se_trace = None, se_clock = (\<lambda>c. 0), se_video = [],
       se_input_videos = [], se_max = 0, se_stores = (\<lambda>k. True) \<rparr>"

lemma runs_never_completed_witness:
  "find_existing_run ''community_detection'' ''p'' ''s'' (sd_runs (handle_chunks (demo_setting []) [demo_chunk ''c1'' False] demo_state)) = None"
  using runs_never_completed [of demo_state "demo_setting []" "[demo_chunk ''c1'' False]"]
  by (simp add: demo_state_def runs_open_def)

lemma later_chunks_skipped_witness:
  "handle_chunks (demo_setting []) [demo_chunk ''c1'' False, demo_chunk ''c2'' True] (demo_state\<lparr>sd_detected := True\<rparr>) =
   add_stats (\<lambda>t. t\<lparr>skipped := skipped t + 2\<rparr>) (demo_state\<lparr>sd_detected := True\<rparr>)"
  using later_chunks_skipped [of "demo_state\<lparr>sd_detected := True\<rparr>" "demo_setting []"
      "[demo_chunk ''c1'' False, demo_chunk ''c2'' True]"] by simp

lemma demo_all_entities: "map entity_id (all_entities demo_state) = [demo_id (CHR ''a''), demo_id (CHR ''b'')]"
  by code_simp

lemma demo_none: "(case detect_communities (se_networkx (demo_setting [])) (se_detector (demo_setting []))
    (all_entities demo_state) (all_relationships demo_state) of Inl e \<Rightarrow> False | Inr d \<Rightarrow> dn_communities d = [])"
  by code_simp

lemma demo_detects: "sd_detected (snd (handle_detection (demo_setting [[demo_id (CHR ''a''), demo_id (CHR ''b'')]])
    (demo_chunk ''c1'' False) demo_state))"
  by code_simp

abbreviation demo_found :: detection_setting where
  "demo_found \<equiv> demo_setting [[demo_id (CHR ''a''), demo_id (CHR ''b'')]]"

lemma demo_undetected: "\<not> sd_detected demo_state" "sd_communities demo_state = []" "runs_open (sd_runs demo_state)"
  by (simp_all add: demo_state_def runs_open_def)

lemma one_chunk_marks_all_witness:
  "list_all is_detected (sd_chunks (snd (handle_detection demo_found (demo_chunk ''c1'' False) demo_state)))"
  using one_chunk_marks_all [OF demo_undetected(1) demo_detects]
  by (simp add: demo_state_def [THEN arg_cong [of _ _ sd_chunks]] list_all2_Cons1) (auto simp: demo_chunk_def)

lemma failing_detection_repeated_witness:
  "length (sd_runs (handle_chunks (demo_setting []) [demo_chunk ''c1'' False, demo_chunk ''c2'' True] demo_state)) = 2"
proof -
  obtain d where d: "detect_communities (se_networkx (demo_setting [])) (se_detector (demo_setting []))
      (all_entities demo_state) (all_relationships demo_state) = Inr d" "dn_communities d = []"
    using demo_none by (auto split: sum.splits)
  have "all_entities demo_state \<noteq> []" using demo_all_entities by auto
  from failing_detection_repeated [OF demo_undetected this d, of "[demo_chunk ''c1'' False, demo_chunk ''c2'' True]"]
  show ?thesis by (simp add: demo_state_def [THEN arg_cong [of _ _ sd_runs]])
qed

lemma stored_communities_consistent_witness:
  "\<exists>s'. snd (handle_detection demo_found (demo_chunk ''c1'' False) demo_state) = s' \<and> sd_communities s' \<noteq> []
    \<and> distinct (map cm_id (sd_communities s'))"
proof -
  obtain d where d: "detect_communities (se_networkx demo_found) (se_detector demo_found)
      (all_entities demo_state) (all_relationships demo_state) = Inr d"
    using handle_detected [OF demo_undetected(1) demo_detects] by blast
  have "pool_ok demo_found (dn_communities d) (all_entities demo_state) (all_relationships demo_state)"
    by (simp add: pool_ok_def demo_setting_def)
  from stored_communities_consistent [OF demo_undetected(1) demo_detects d this] obtain s' and ys :: summaries where
    s': "snd (handle_detection demo_found (demo_chunk ''c1'' False) demo_state) = s'"
    "sd_communities s' \<noteq> [] \<or> \<not> list_all (se_stores demo_found) (keys ys)" "distinct (map cm_id (sd_communities s'))"
    by (elim exE conjE) (rule that, assumption+)
  moreover have "list_all (se_stores demo_found) (keys ys)" by (simp add: demo_setting_def list_all_iff)
  ultimately show ?thesis by (intro exI [of _ s'] conjI) simp_all
qed

end
