(* ===== verification/Extraction_Stage.thy ===== *)
theory Extraction_Stage
  imports Knowledge_Facts Stage_Run Relationship_Resolution
begin

text \<open>
  \<open>domain/graphrag/stages/extraction.py\<close>: chunks are sent to the extraction agent, one by one
  or in the batches of the stage runner, and what it returns is written into them.

  The state is the collection of chunks, the statistics and the state of the agent (theory
  \<open>Knowledge_Extraction\<close>). The collection is a list; the choice of the databases, the delays
  and the log records are left out.
\<close>

section \<open>State\<close>

record entity_data =
  ed_name :: string
  ed_type :: string
  ed_description :: string
  ed_confidence :: real

record relationship_data =
  ld_source :: entity_data
  ld_target :: entity_data
  ld_relation :: string
  ld_description :: string
  ld_confidence :: real

record extraction_data =
  xd_entities :: "entity_data list"
  xd_relationships :: "relationship_data list"
  xd_entity_count :: nat
  xd_relationship_count :: nat
  xd_at :: rat

datatype extraction_status =
    Extraction_Completed extraction_data rat string
  | Extraction_Failed string rat string
  | Extraction_Skipped string rat string

text \<open>\<open>tx_text\<close> is \<open>None\<close> where the document holds null.\<close>

record text_chunk =
  tx_id :: string
  tx_video :: string
  tx_text :: "string option"
  tx_excluded :: bool
  tx_status :: "extraction_status option"

record extraction_state =
  xs_chunks :: "text_chunk list"
  xs_stats :: stage_statistics
  xs_agent :: ext_state

record extraction_setting =
  xo_agent :: ext_agent
  xo_model :: string
  xo_clock :: "string \<Rightarrow> rat"
  xo_upsert_existing :: bool
  xo_video :: string
  xo_input_videos :: "string list"
  xo_max :: nat

section \<open>Selection\<close>

definition is_completed :: "text_chunk \<Rightarrow> bool" where
  "is_completed c = (case tx_status c of Some (Extraction_Completed d t m) \<Rightarrow> True | _ \<Rightarrow> False)"

definition is_skipped :: "text_chunk \<Rightarrow> bool" where
  "is_skipped c = (case tx_status c of Some (Extraction_Skipped r t m) \<Rightarrow> True | _ \<Rightarrow> False)"

definition extraction_failed :: "text_chunk \<Rightarrow> bool" where
  "extraction_failed c = (case tx_status c of Some (Extraction_Failed r t m) \<Rightarrow> True | _ \<Rightarrow> False)"

definition extraction_docs :: "extraction_setting \<Rightarrow> extraction_state \<Rightarrow> text_chunk list" where
  "extraction_docs X s =
     (let cs = filter (\<lambda>c. tx_text c \<noteq> Some [] \<and> \<not> is_completed c \<and> \<not> is_skipped c \<and> \<not> tx_excluded c \<and>
                 (if xo_video X \<noteq> [] then tx_video c = xo_video X
                  else xo_input_videos X = [] \<or> tx_video c \<in> set (xo_input_videos X))) (xs_chunks s)
      in if xo_max X = 0 then cs else take (xo_max X) cs)"

section \<open>Writing\<close>

definition same_chunk :: "text_chunk \<Rightarrow> text_chunk \<Rightarrow> bool" where
  "same_chunk ch c = (tx_video c = tx_video ch \<and> tx_id c = tx_id ch)"

definition set_status :: "text_chunk \<Rightarrow> extraction_status \<Rightarrow> extraction_state \<Rightarrow> extraction_state" where
  "set_status ch st s = s\<lparr>xs_chunks := update_first (same_chunk ch) (\<lambda>c. c\<lparr>tx_status := Some st\<rparr>) (xs_chunks s)\<rparr>"

definition count_extraction :: "(stage_statistics \<Rightarrow> stage_statistics) \<Rightarrow> extraction_state \<Rightarrow> extraction_state" where
  "count_extraction f s = s\<lparr>xs_stats := f (xs_stats s)\<rparr>"

definition mark_extraction_failed :: "extraction_setting \<Rightarrow> text_chunk \<Rightarrow> string \<Rightarrow> extraction_state \<Rightarrow> extraction_state" where
  "mark_extraction_failed X ch msg s =
     count_extraction (\<lambda>t. t\<lparr>failed := Suc (failed t)\<rparr>)
       (set_status ch (Extraction_Failed msg (xo_clock X (tx_id ch)) (xo_model X)) s)"

definition mark_extraction_skipped :: "extraction_setting \<Rightarrow> text_chunk \<Rightarrow> string \<Rightarrow> extraction_state \<Rightarrow> extraction_state" where
  "mark_extraction_skipped X ch why s =
     count_extraction (\<lambda>t. t\<lparr>skipped := Suc (skipped t)\<rparr>)
       (set_status ch (Extraction_Skipped why (xo_clock X (tx_id ch)) (xo_model X)) s)"

definition entity_data_of :: "entity_model \<Rightarrow> entity_data" where
  "entity_data_of e =
     \<lparr> ed_name = xe_name e, ed_type = type_value (xe_type e), ed_description = xe_description e,
       ed_confidence = xe_confidence e \<rparr>"

definition relationship_data_of :: "relationship_model \<Rightarrow> relationship_data" where
  "relationship_data_of r =
     \<lparr> ld_source = entity_data_of (xr_source r), ld_target = entity_data_of (xr_target r), ld_relation = xr_relation r,
       ld_description = xr_description r, ld_confidence = xr_confidence r \<rparr>"

definition extraction_data_of :: "rat \<Rightarrow> knowledge_model \<Rightarrow> extraction_data" where
  "extraction_data_of now k =
     \<lparr> xd_entities = map entity_data_of (km_entities k), xd_relationships = map relationship_data_of (km_relationships k),
       xd_entity_count = length (km_entities k), xd_relationship_count = length (km_relationships k), xd_at = now \<rparr>"

definition completed_status :: "extraction_setting \<Rightarrow> text_chunk \<Rightarrow> knowledge_model \<Rightarrow> extraction_status" where
  "completed_status X ch k =
     Extraction_Completed (extraction_data_of (xo_clock X (tx_id ch)) k) (xo_clock X (tx_id ch)) (xo_model X)"

section \<open>One chunk\<close>

text \<open>The characters of \<open>string.punctuation\<close> and \<open>string.whitespace\<close>.\<close>

definition is_noise :: "char \<Rightarrow> bool" where
  "is_noise c =
     (let n = (of_char c :: nat)
      in 33 \<le> n \<and> n \<le> 47 \<or> 58 \<le> n \<and> n \<le> 64 \<or> 91 \<le> n \<and> n \<le> 96 \<or> 123 \<le> n \<and> n \<le> 126 \<or> 9 \<le> n \<and> n \<le> 13 \<or> n = 32)"

definition MIN_CHUNK_LENGTH :: nat where
  "MIN_CHUNK_LENGTH = 50"

text \<open>Why a text is not worth a call, if it is not.\<close>

definition prefilter :: "string \<Rightarrow> string option" where
  "prefilter t =
     (if t = [] then Some ''chunk_empty''
      else if length t < MIN_CHUNK_LENGTH
      then (if list_all is_noise t then Some ''chunk_noise_only''
            else if length t < 20 then Some ''chunk_too_short'' else None)
      else None)"

definition call_agent :: "extraction_setting \<Rightarrow> text_chunk \<Rightarrow> (extraction_state, knowledge_model option) act" where
  "call_agent X ch = (\<lambda>s.
     case extract_from_chunk (xo_agent X) \<lparr> xc_chunk_id = tx_id ch, xc_text = tx_text ch \<rparr> (xs_agent s) of
       (r, a) \<Rightarrow> (r, s\<lparr>xs_agent := a\<rparr>))"

definition already_completed :: "text_chunk \<Rightarrow> extraction_state \<Rightarrow> bool" where
  "already_completed ch s =
     (case find (same_chunk ch) (xs_chunks s) of None \<Rightarrow> False | Some c \<Rightarrow> is_completed c)"

definition store_knowledge :: "extraction_setting \<Rightarrow> text_chunk \<Rightarrow> knowledge_model \<Rightarrow> extraction_state \<Rightarrow> extraction_state" where
  "store_knowledge X ch k s =
     (if \<not> xo_upsert_existing X \<and> already_completed ch s
      then count_extraction (\<lambda>t. t\<lparr>skipped := Suc (skipped t)\<rparr>) s
      else count_extraction (\<lambda>t. t\<lparr>updated := Suc (updated t)\<rparr>) (set_status ch (completed_status X ch k) s))"

definition extract_chunk :: "extraction_setting \<Rightarrow> text_chunk \<Rightarrow> string \<Rightarrow> (extraction_state, unit) act" where
  "extract_chunk X ch t =
     tryA (bindA (call_agent X ch) (\<lambda>k s.
             case k of
               None \<Rightarrow> (Inr (), if length t < 100 then mark_extraction_skipped X ch ''no_entities'' s
                                else mark_extraction_failed X ch ''extraction_failed'' s)
             | Some km \<Rightarrow> (Inr (), store_knowledge X ch km s)))
          (\<lambda>e s. (Inr (), mark_extraction_failed X ch (exn_msg e) s))"

text \<open>A text that is null raises outside of the inner \<open>try\<close>; the decorator returns \<open>None\<close>.\<close>

definition handle_extraction :: "extraction_setting \<Rightarrow> text_chunk \<Rightarrow> (extraction_state, unit) act" where
  "handle_extraction X ch =
     (case tx_text ch of
        None \<Rightarrow> ret ()
      | Some txt \<Rightarrow>
          (case prefilter (str_strip txt) of
             Some why \<Rightarrow> (\<lambda>s. (Inr (), mark_extraction_skipped X ch why s))
           | None \<Rightarrow> extract_chunk X ch (str_strip txt)))"

text \<open>The result of \<open>handle_doc\<close> is always \<open>None\<close>.\<close>

fun extraction_batch :: "extraction_setting \<Rightarrow> text_chunk list \<Rightarrow> (extraction_state, unit list) act" where
  "extraction_batch X [] = ret []"
| "extraction_batch X (ch # chs) =
     bindA (tryA (handle_extraction X ch) (\<lambda>e. ret ())) (\<lambda>u. bindA (extraction_batch X chs) (\<lambda>us. ret (u # us)))"

section \<open>The methods of the concurrent mode\<close>

definition estimate_extraction_tokens :: "text_chunk \<Rightarrow> int res" where
  "estimate_extraction_tokens ch =
     (case tx_text ch of
        None \<Rightarrow> Inl (Exn ''TypeError'' ''object of type NoneType has no len()'')
      | Some t \<Rightarrow> Inr (int (length t div 4 + 1000)))"

definition process_extraction :: "extraction_setting \<Rightarrow> text_chunk \<Rightarrow> (extraction_state, knowledge_model option) act" where
  "process_extraction X ch = call_agent X ch"

definition store_concurrent_result ::
  "extraction_setting \<Rightarrow> text_chunk \<times> knowledge_model option \<Rightarrow> extraction_state \<Rightarrow> extraction_state" where
  "store_concurrent_result X = (\<lambda>(ch, k) s.
     case k of
       None \<Rightarrow> mark_extraction_failed X ch ''extraction_failed'' s
     | Some km \<Rightarrow> count_extraction (\<lambda>t. t\<lparr>updated := Suc (updated t)\<rparr>) (set_status ch (completed_status X ch km) s))"

definition store_concurrent_results ::
  "extraction_setting \<Rightarrow> text_chunk list \<Rightarrow> knowledge_model option list \<Rightarrow> extraction_state \<Rightarrow> extraction_state" where
  "store_concurrent_results X docs results s = fold (store_concurrent_result X) (zip docs results) s"

section \<open>Statistics, clean-up and summary\<close>

record extraction_counts =
  xn_total :: nat
  xn_processed :: nat
  xn_failed :: nat
  xn_pending :: int
  xn_completion :: real
  xn_failure :: real

definition get_processing_stats :: "extraction_state \<Rightarrow> extraction_counts" where
  "get_processing_stats s =
     (let n = length (filter (\<lambda>c. tx_text c \<noteq> Some []) (xs_chunks s));
          p = length (filter is_completed (xs_chunks s)); f = length (filter extraction_failed (xs_chunks s))
      in \<lparr> xn_total = n, xn_processed = p, xn_failed = f, xn_pending = int n - int p - int f,
           xn_completion = (if 0 < n then real p / real n else 0), xn_failure = (if 0 < n then real f / real n else 0) \<rparr>)"

definition cleanup_failed_extractions :: "extraction_state \<Rightarrow> nat \<times> extraction_state" where
  "cleanup_failed_extractions s =
     (length (filter extraction_failed (xs_chunks s)),
      s\<lparr>xs_chunks := map (\<lambda>c. if extraction_failed c then c\<lparr>tx_status := None\<rparr> else c) (xs_chunks s)\<rparr>)"

record extraction_total =
  xt_chunks :: nat
  xt_entities :: nat
  xt_relationships :: nat
  xt_avg_entities :: real
  xt_avg_relationships :: real

definition total_of :: "text_chunk list \<Rightarrow> extraction_total" where
  "total_of cs =
     (let ds = List.map_filter (\<lambda>c. case tx_status c of Some (Extraction_Completed d t m) \<Rightarrow> Some d | _ \<Rightarrow> None) cs;
          n = length cs; e = sum_list (map (length \<circ> xd_entities) ds); r = sum_list (map (length \<circ> xd_relationships) ds)
      in \<lparr> xt_chunks = n, xt_entities = e, xt_relationships = r,
           xt_avg_entities = real e / real n, xt_avg_relationships = real r / real n \<rparr>)"

text \<open>The aggregation groups by video, here in the order of their first chunks.\<close>

definition extraction_summary :: "extraction_state \<Rightarrow> (string \<times> extraction_total) list" where
  "extraction_summary s =
     (let cs = filter is_completed (xs_chunks s)
      in map (\<lambda>(v, xs). (v, total_of xs)) (fold (\<lambda>c. dd_append (tx_video c) c) cs []))"

definition extraction_summary_of :: "string \<Rightarrow> extraction_state \<Rightarrow> extraction_total" where
  "extraction_summary_of v s =
     (let cs = filter (\<lambda>c. is_completed c \<and> tx_video c = v) (xs_chunks s)
      in if cs = []
         then \<lparr> xt_chunks = 0, xt_entities = 0, xt_relationships = 0, xt_avg_entities = 0, xt_avg_relationships = 0 \<rparr>
         else total_of cs)"

section \<open>What the next stages read\<close>

text \<open>The stored data as the entity and the relationship resolution read them.\<close>

definition entity_instance :: "entity_data \<Rightarrow> instance_data" where
  "entity_instance d =
     \<lparr> i_name = Some (ed_name d), i_type = Some (ed_type d), i_description = Some (ed_description d),
       i_confidence = Some (ed_confidence d), source_chunk = [] \<rparr>"

definition relationship_instance :: "relationship_data \<Rightarrow> rel_instance" where
  "relationship_instance d =
     \<lparr> ri_source = Some (Some (ed_name (ld_source d))), ri_target = Some (Some (ed_name (ld_target d))),
       ri_relation = Some (ld_relation d), ri_description = Some (ld_description d),
       ri_confidence = Some (ld_confidence d), ri_source_chunk = [] \<rparr>"

definition stored_extraction :: "extraction_data \<Rightarrow> extraction" where
  "stored_extraction d = \<lparr> ex_entities = Some (map entity_instance (xd_entities d)), ex_chunk_id = None \<rparr>"

definition stored_relationships :: "extraction_data \<Rightarrow> rel_extraction" where
  "stored_relationships d =
     \<lparr> rx_relationships = Some (map relationship_instance (xd_relationships d)), rx_chunk_id = None \<rparr>"

end
