(* ===== verification/Extraction_Facts.thy ===== *)
theory Extraction_Facts
  imports Extraction_Stage Entity_Facts
begin

text \<open>
  Facts of the extraction stage: the two modes of running it, what marks a chunk, and that what is
  stored can be read by the next stages.
\<close>

section \<open>Frames\<close>

lemma call_agent_chunks:
  "call_agent X ch s = (r, s') \<Longrightarrow> xs_chunks s' = xs_chunks s \<and> xs_stats s' = xs_stats s"
  by (auto simp: call_agent_def split: prod.splits)

lemma set_status_agent [simp]: "xs_agent (set_status ch st s) = xs_agent s"
  by (simp add: set_status_def)

lemma count_extraction_agent [simp]: "xs_agent (count_extraction f s) = xs_agent s"
  by (simp add: count_extraction_def)

lemma count_extraction_chunks [simp]: "xs_chunks (count_extraction f s) = xs_chunks s"
  by (simp add: count_extraction_def)

lemma store_concurrent_agent [simp]: "xs_agent (store_concurrent_result X p s) = xs_agent s"
  by (cases p) (simp add: store_concurrent_result_def mark_extraction_failed_def split: option.split)

lemma store_concurrent_frame:
  "(store_concurrent_result X p s)\<lparr>xs_agent := a\<rparr> = store_concurrent_result X p (s\<lparr>xs_agent := a\<rparr>)"
  by (cases p) (simp add: store_concurrent_result_def mark_extraction_failed_def set_status_def count_extraction_def
      split: option.split)

lemma store_concurrent_results_frame:
  "(store_concurrent_results X ds ks s)\<lparr>xs_agent := a\<rparr> = store_concurrent_results X ds ks (s\<lparr>xs_agent := a\<rparr>)"
proof -
  have "(fold (store_concurrent_result X) ps s)\<lparr>xs_agent := a\<rparr> = fold (store_concurrent_result X) ps (s\<lparr>xs_agent := a\<rparr>)" for ps
    by (induction ps arbitrary: s) (simp_all add: store_concurrent_frame)
  then show ?thesis by (simp add: store_concurrent_results_def)
qed

lemma already_completed_agent [simp]: "already_completed ch (s\<lparr>xs_agent := a\<rparr>) = already_completed ch s"
  by (simp add: already_completed_def)

text \<open>A write to another chunk leaves the answer about this one.\<close>

lemma find_update_other:
  "(\<And>x. q x \<Longrightarrow> \<not> p x) \<Longrightarrow> (\<And>x. p (f x) = p x) \<Longrightarrow> find p (update_first q f xs) = find p xs"
  by (induction xs) auto

lemma already_completed_other:
  assumes "\<not> same_chunk ch c"
  shows "already_completed ch (set_status c st s) = already_completed ch s"
proof -
  have "find (same_chunk ch) (update_first (same_chunk c) (\<lambda>c. c\<lparr>tx_status := Some st\<rparr>) (xs_chunks s))
      = find (same_chunk ch) (xs_chunks s)"
    using assms by (intro find_update_other) (auto simp: same_chunk_def)
  then show ?thesis by (simp add: already_completed_def set_status_def)
qed

lemma already_completed_count [simp]: "already_completed ch (count_extraction f s) = already_completed ch s"
  by (simp add: already_completed_def)

lemma already_completed_stored:
  assumes "\<not> same_chunk ch c"
  shows "already_completed ch (store_concurrent_result X (c, k) s) = already_completed ch s"
  using already_completed_other [OF assms]
  by (simp add: store_concurrent_result_def mark_extraction_failed_def split: option.split)

section \<open>The two modes\<close>

definition worth_extracting :: "extraction_setting \<Rightarrow> extraction_state \<Rightarrow> text_chunk \<Rightarrow> bool" where
  "worth_extracting X s ch =
     ((case tx_text ch of None \<Rightarrow> False | Some t \<Rightarrow> 100 \<le> length (str_strip t))
      \<and> (xo_upsert_existing X \<or> \<not> already_completed ch s))"

definition agent_chunk :: "text_chunk \<Rightarrow> ext_chunk" where
  "agent_chunk ch = \<lparr> xc_chunk_id = tx_id ch, xc_text = tx_text ch \<rparr>"

lemma long_not_prefiltered: "100 \<le> length t \<Longrightarrow> prefilter t = None"
  by (auto simp: prefilter_def MIN_CHUNK_LENGTH_def)

lemma handle_as_concurrent:
  assumes "worth_extracting X s ch" and "extract_from_chunk (xo_agent X) (agent_chunk ch) (xs_agent s) = (Inr k, a)"
  shows "handle_extraction X ch s = (Inr (), store_concurrent_result X (ch, k) (s\<lparr>xs_agent := a\<rparr>))"
proof -
  obtain t where t: "tx_text ch = Some t" "100 \<le> length (str_strip t)"
    using assms(1) by (auto simp: worth_extracting_def split: option.splits)
  have c: "call_agent X ch s = (Inr k, s\<lparr>xs_agent := a\<rparr>)"
    using assms(2) by (simp add: call_agent_def agent_chunk_def)
  have "extract_chunk X ch (str_strip t) s = (Inr (), store_concurrent_result X (ch, k) (s\<lparr>xs_agent := a\<rparr>))"
    using t(2) assms(1) c
    by (auto simp: extract_chunk_def tryA_def bindA_def store_concurrent_result_def store_knowledge_def
        worth_extracting_def split: option.split)
  then show ?thesis
    using t by (simp add: handle_extraction_def long_not_prefiltered)
qed

lemma worth_extracting_stored:
  assumes "worth_extracting X s d" and "\<not> same_chunk d ch"
  shows "worth_extracting X (store_concurrent_result X (ch, k) (s\<lparr>xs_agent := a\<rparr>)) d"
  using assms by (auto simp: worth_extracting_def already_completed_stored split: option.split)

lemma batch_as_concurrent:
  assumes "list_all (worth_extracting X s) docs" and "distinct (map (\<lambda>c. (tx_video c, tx_id c)) docs)"
    and "extract_all (xo_agent X) (map agent_chunk docs) (xs_agent s) = (Inr ks, a)"
  shows "extraction_batch X docs s =
    (Inr (map (\<lambda>_. ()) docs), store_concurrent_results X docs ks (s\<lparr>xs_agent := a\<rparr>))"
  using assms
proof (induction docs arbitrary: s ks)
  case Nil
  then show ?case by (auto simp: store_concurrent_results_def ret_def)
next
  case (Cons ch docs)
  obtain k ks' b where k: "extract_from_chunk (xo_agent X) (agent_chunk ch) (xs_agent s) = (Inr k, b)"
    and ks: "extract_all (xo_agent X) (map agent_chunk docs) b = (Inr ks', a)" "ks = k # ks'"
    using Cons.prems(3) by (auto simp: bindA_Inr)
  let ?s = "store_concurrent_result X (ch, k) (s\<lparr>xs_agent := b\<rparr>)"
  have w: "list_all (worth_extracting X ?s) docs"
    unfolding list_all_iff
  proof
    fix d assume d: "d \<in> set docs"
    then have "(tx_video d, tx_id d) \<noteq> (tx_video ch, tx_id ch)"
      using Cons.prems(2) by (auto simp: image_iff)
    then have "\<not> same_chunk d ch" by (auto simp: same_chunk_def)
    then show "worth_extracting X ?s d"
      using Cons.prems(1) d by (intro worth_extracting_stored) (auto simp: list_all_iff)
  qed
  have h: "handle_extraction X ch s = (Inr (), ?s)"
    using Cons.prems(1) k by (intro handle_as_concurrent) simp_all
  have "extraction_batch X docs ?s = (Inr (map (\<lambda>_. ()) docs), store_concurrent_results X docs ks' (?s\<lparr>xs_agent := a\<rparr>))"
    using Cons.prems(2) w ks(1) by (intro Cons.IH) simp_all
  then show ?case
    using h by (simp add: bindA_def tryA_def ret_def ks(2) store_concurrent_results_def store_concurrent_frame)
qed

text \<open>C23: 
  On distinct chunks whose stripped text has at least 100 characters and whose extraction is not
  completed (or may be replaced), the sequential handler leaves exactly the chunks, statistics and
  agent that the concurrent mode leaves when it asks the agent for the same chunks in the same
  order and then stores the answers.
\<close>

theorem extraction_modes_agree:
  assumes "list_all (worth_extracting X s) docs" and "distinct (map (\<lambda>c. (tx_video c, tx_id c)) docs)"
    and "extract_all (xo_agent X) (map agent_chunk docs) (xs_agent s) = (Inr ks, a)"
  shows "snd (extraction_batch X docs s) = store_concurrent_results X docs ks (s\<lparr>xs_agent := a\<rparr>)"
  using batch_as_concurrent [OF assms] by simp

section \<open>Every chunk is counted once\<close>

definition counted :: "extraction_state \<Rightarrow> nat" where
  "counted s = skipped (xs_stats s) + failed (xs_stats s) + updated (xs_stats s)"

lemma counted_marks [simp]:
  "counted (mark_extraction_failed X ch msg s) = Suc (counted s)"
  "counted (mark_extraction_skipped X ch msg s) = Suc (counted s)"
  "counted (store_knowledge X ch k s) = Suc (counted s)"
  by (simp_all add: counted_def mark_extraction_failed_def mark_extraction_skipped_def store_knowledge_def
      count_extraction_def set_status_def)

lemma extract_from_chunk_status: "fst (extract_from_chunk A c s) = Inl e \<Longrightarrow> \<not> is_Exception e"
  by (auto simp: extract_from_chunk_def tryA_def ret_def split: option.splits sum.splits prod.splits if_splits)

lemma handle_extraction_counts:
  assumes "tx_text ch = Some t" and "handle_extraction X ch s = (Inr u, s')"
  shows "counted s' = Suc (counted s)"
proof (cases "prefilter (str_strip t)")
  case (Some why)
  then show ?thesis using assms by (auto simp: handle_extraction_def)
next
  case None
  obtain r s1 where c: "call_agent X ch s = (r, s1)" by (cases "call_agent X ch s")
  have "counted s1 = counted s"
    using call_agent_chunks [OF c] by (simp add: counted_def)
  then show ?thesis
    using assms None c
    by (cases r) (auto simp: handle_extraction_def extract_chunk_def tryA_def bindA_def split: option.splits if_splits)
qed

text \<open>A chunk whose text is null is neither counted nor marked, and is selected again.\<close>

lemma null_text_untouched:
  assumes "tx_text ch = None"
  shows "handle_extraction X ch s = (Inr (), s)"
  using assms by (simp add: handle_extraction_def ret_def)

section \<open>Reading back\<close>

lemma group_one_total: "list_all (\<lambda>i. i_name i \<noteq> None) is \<Longrightarrow> \<exists>g'. group_one c is g = Inr g'"
  by (induction c "is" g rule: group_one.induct) (auto simp: need_def)

lemma group_relationships_total:
  "list_all (\<lambda>r. \<exists>s t p. ri_source r = Some (Some s) \<and> ri_target r = Some (Some t) \<and> ri_relation r = Some p) rs
    \<Longrightarrow> \<exists>g'. group_relationships_of c rs g = Inr g'"
  by (induction c rs g rule: group_relationships_of.induct) (auto simp: relationship_key_def need_def bindR_def)

lemma stored_extractions_groupable: "\<exists>g'. group_extractions (map stored_extraction ds) g = Inr g'"
proof (induction ds arbitrary: g)
  case (Cons d ds)
  obtain h where "group_one ''unknown'' (map entity_instance (xd_entities d)) g = Inr h"
    using group_one_total [of "map entity_instance (xd_entities d)"] by (auto simp: entity_instance_def list_all_iff)
  with Cons.IH [of h] show ?case by (simp add: stored_extraction_def)
qed simp

lemma stored_relationships_groupable:
  "\<exists>g'. group_relationships_by_tuple (map stored_relationships ds) g = Inr g'"
proof (induction ds arbitrary: g)
  case (Cons d ds)
  obtain h where "group_relationships_of ''unknown'' (map relationship_instance (xd_relationships d)) g = Inr h"
    using group_relationships_total [of "map relationship_instance (xd_relationships d)"]
    by (auto simp: relationship_instance_def list_all_iff)
  with Cons.IH [of h] show ?case by (simp add: stored_relationships_def bindR_def)
qed simp

section \<open>The names of a stored relationship\<close>

text \<open>
  A round trip between the components: the names and types the agent gave are those the next
  stages group by.
\<close>

theorem stored_extraction_readable:
  "(\<exists>g. group_entities_by_name (map stored_extraction ds) = Inr g)
    \<and> (\<exists>h. group_relationships_by_tuple (map stored_relationships ds) [] = Inr h)"
  using stored_extractions_groupable stored_relationships_groupable by (simp add: group_entities_by_name_def)

section \<open>Concrete chunks\<close>

definition some_chunk :: "string \<Rightarrow> string \<Rightarrow> text_chunk" where
  "some_chunk i t = \<lparr> tx_id = i, tx_video = ''v'', tx_text = Some t, tx_excluded = False, tx_status = None \<rparr>"

definition some_extraction :: "knowledge_model option \<Rightarrow> extraction_setting" where
  "some_extraction reply =
     \<lparr> xo_agent = (some_agent constrained no_answers)\<lparr> xa_extract := \<lambda>r. Inr reply \<rparr>,
       xo_model = ''gpt-4o-mini'', xo_clock = (\<lambda>i. 1), xo_upsert_existing = False, xo_video = [],
       xo_input_videos = [], xo_max = 0 \<rparr>"

definition extraction_start :: "text_chunk list \<Rightarrow> extraction_state" where
  "extraction_start cs =
     \<lparr> xs_chunks = cs, xs_stats = \<lparr> processed = 0, skipped = 0, failed = 0, updated = 0 \<rparr>, xs_agent = fresh_state \<rparr>"

definition long_chunks :: "text_chunk list" where
  "long_chunks = [some_chunk ''a'' (replicate 100 (CHR ''x'')), some_chunk ''b'' (replicate 120 (CHR ''y''))]"

lemma extraction_modes_agree_witness:
  "\<exists>ks a. map (\<lambda>k. k \<noteq> None) ks = [True, True]
    \<and> snd (extraction_batch (some_extraction (Some swapped_knowledge)) long_chunks (extraction_start long_chunks))
      = store_concurrent_results (some_extraction (Some swapped_knowledge)) long_chunks ks
          (extraction_start long_chunks\<lparr>xs_agent := a\<rparr>)"
proof -
  let ?X = "some_extraction (Some swapped_knowledge)" and ?s = "extraction_start long_chunks"
  have "case extract_all (xo_agent ?X) (map agent_chunk long_chunks) (xs_agent ?s) of
      (Inr ks, a) \<Rightarrow> map (\<lambda>k. k \<noteq> None) ks = [True, True] | _ \<Rightarrow> False"
    by code_simp
  then obtain ks a where r: "extract_all (xo_agent ?X) (map agent_chunk long_chunks) (xs_agent ?s) = (Inr ks, a)"
      "map (\<lambda>k. k \<noteq> None) ks = [True, True]"
    by (auto split: prod.splits sum.splits)
  have "list_all (worth_extracting ?X ?s) long_chunks" "distinct (map (\<lambda>c. (tx_video c, tx_id c)) long_chunks)"
    by code_simp+
  with r show ?thesis by (intro exI [of _ ks] exI [of _ a] conjI extraction_modes_agree)
qed

text \<open>
  On a short chunk the modes differ: the sequential handler skips it without a question, the
  concurrent one asks the agent, stores the answer, or marks it as failed, to be tried again.
\<close>

lemma short_chunk_modes_differ:
  "map tx_status (xs_chunks (snd (extraction_batch (some_extraction None) [some_chunk ''a'' ''Uh-huh.'']
      (extraction_start [some_chunk ''a'' ''Uh-huh.''])))) = [Some (Extraction_Skipped ''chunk_too_short'' 1 ''gpt-4o-mini'')]
    \<and> fst (process_extraction (some_extraction None) (some_chunk ''a'' ''Uh-huh.'')
         (extraction_start [some_chunk ''a'' ''Uh-huh.''])) = Inr None
    \<and> map tx_status (xs_chunks (store_concurrent_results (some_extraction None) [some_chunk ''a'' ''Uh-huh.''] [None]
         (extraction_start [some_chunk ''a'' ''Uh-huh.'']))) = [Some (Extraction_Failed ''extraction_failed'' 1 ''gpt-4o-mini'')]"
  by code_simp

lemma skipped_counts_as_pending:
  "xn_pending (get_processing_stats (extraction_start
     [(some_chunk ''a'' ''Uh-huh.'')\<lparr>tx_status := Some (Extraction_Skipped ''chunk_too_short'' 1 ''m'')\<rparr>])) = 1
   \<and> extraction_docs (some_extraction None) (extraction_start
     [(some_chunk ''a'' ''Uh-huh.'')\<lparr>tx_status := Some (Extraction_Skipped ''chunk_too_short'' 1 ''m'')\<rparr>]) = []"
  by (simp add: get_processing_stats_def extraction_start_def some_chunk_def extraction_docs_def is_skipped_def
      is_completed_def extraction_failed_def Let_def)

end
