(* ===== verification/Stage_Config.thy ===== *)
theory Stage_Config
  imports Text
begin

text \<open>
  \<open>core/models/config.py\<close> and the stage configurations of \<open>core/config/graphrag.py\<close>: how
  arguments, environment and defaults are combined. A subclass extends the record of its base.

  The arguments are a namespace (a dictionary of values), the environment a dictionary of
  texts. Of \<open>float\<close> the decimal literals are read, not the names of infinities and NaN.
\<close>

section \<open>Reading numbers\<close>

definition parse_fraction :: "string \<Rightarrow> rat option" where
  "parse_fraction s =
     (let a = takeWhile (\<lambda>c. c \<noteq> CHR ''.'') s; b = drop (Suc (length a)) s
      in if a = [] \<and> b = [] then None
         else (case (if a = [] then Some 0 else parse_digits False 0 a, if b = [] then Some 0 else parse_digits False 0 b) of
             (Some m, Some n) \<Rightarrow> Some (of_nat m + of_nat n / 10 ^ length (filter is_digit b))
           | _ \<Rightarrow> None))"

definition parse_decimal :: "string \<Rightarrow> rat option" where
  "parse_decimal s =
     (let m = takeWhile (\<lambda>c. c \<noteq> CHR ''e'' \<and> c \<noteq> CHR ''E'') s; e = drop (length m) s
      in case (parse_fraction m, if e = [] then Some 0 else parse_signed (tl e)) of
           (Some x, Some n) \<Rightarrow> Some (x * 10 powi n)
         | _ \<Rightarrow> None)"

definition float_of_str :: "string \<Rightarrow> rat option" where
  "float_of_str t =
     (case str_strip t of
        [] \<Rightarrow> None
      | c # cs \<Rightarrow> if c = CHR ''-'' then map_option uminus (parse_decimal cs)
                  else if c = CHR ''+'' then parse_decimal cs else parse_decimal (c # cs))"

definition value_error :: "string \<Rightarrow> exn" where
  "value_error m = Exn ''ValueError'' m"

fun py_int :: "pyval \<Rightarrow> int res" where
  "py_int (PBool b) = Inr (of_bool b)"
| "py_int (PInt i) = Inr i"
| "py_int (PFloat r) = Inr (if 0 \<le> r then \<lfloor>r\<rfloor> else \<lceil>r\<rceil>)"
| "py_int (PStr s) = (case int_of_str s of Some i \<Rightarrow> Inr i | None \<Rightarrow> Inl (value_error ''invalid literal for int()''))"
| "py_int (PBytes s) = (case int_of_str s of Some i \<Rightarrow> Inr i | None \<Rightarrow> Inl (value_error ''invalid literal for int()''))"
| "py_int v = Inl (Exn ''TypeError'' (''int() argument must be a string or a number, not '' @ type_name v))"

fun py_float :: "pyval \<Rightarrow> rat res" where
  "py_float (PBool b) = Inr (of_bool b)"
| "py_float (PInt i) = Inr (of_int i)"
| "py_float (PFloat r) = Inr r"
| "py_float (PStr s) = (case float_of_str s of Some r \<Rightarrow> Inr r | None \<Rightarrow> Inl (value_error ''could not convert string to float''))"
| "py_float (PBytes s) = (case float_of_str s of Some r \<Rightarrow> Inr r | None \<Rightarrow> Inl (value_error ''could not convert string to float''))"
| "py_float v = Inl (Exn ''TypeError'' (''float() argument must be a string or a real number, not '' @ type_name v))"

section \<open>Arguments before environment\<close>

type_synonym environ = "(string \<times> string) list"

definition env_get :: "environ \<Rightarrow> string \<Rightarrow> string \<Rightarrow> string" where
  "env_get env k d = (case map_of env k of None \<Rightarrow> d | Some s \<Rightarrow> s)"

definition env_val :: "environ \<Rightarrow> string \<Rightarrow> pyval" where
  "env_val env k = (case map_of env k of None \<Rightarrow> PNone | Some s \<Rightarrow> PStr s)"

definition env_flag :: "environ \<Rightarrow> string \<Rightarrow> string \<Rightarrow> bool" where
  "env_flag env k d = (str_lower (env_get env k d) = ''true'')"

text \<open>\<open>getattr(args, name, None) or env.get(var, default)\<close>, and the same as a number.\<close>

definition arg_or_env :: "dict \<Rightarrow> environ \<Rightarrow> string \<Rightarrow> string \<Rightarrow> string \<Rightarrow> pyval" where
  "arg_or_env args env name var d = py_or (dget args name) (PStr (env_get env var d))"

definition int_setting :: "dict \<Rightarrow> environ \<Rightarrow> string \<Rightarrow> string \<Rightarrow> string \<Rightarrow> int res" where
  "int_setting args env name var d = py_int (arg_or_env args env name var d)"

definition float_setting :: "dict \<Rightarrow> environ \<Rightarrow> string \<Rightarrow> string \<Rightarrow> string \<Rightarrow> rat res" where
  "float_setting args env name var d = py_float (arg_or_env args env name var d)"

definition flag_setting :: "dict \<Rightarrow> environ \<Rightarrow> string \<Rightarrow> string \<Rightarrow> pyval" where
  "flag_setting args env name var =
     (if dget args name \<noteq> PNone then dget args name else PBool (env_flag env var ''true''))"

definition max_tokens_setting :: "dict \<Rightarrow> environ \<Rightarrow> int option res" where
  "max_tokens_setting args env =
     (if truthy (dget args ''max_tokens'') then bindR (py_int (dget args ''max_tokens'')) (\<lambda>n. Inr (Some n))
      else if truthy (env_val env ''GRAPHRAG_MAX_TOKENS'')
      then bindR (py_int (env_val env ''GRAPHRAG_MAX_TOKENS'')) (\<lambda>n. Inr (Some n))
      else Inr None)"

definition model_setting :: "dict \<Rightarrow> environ \<Rightarrow> pyval" where
  "model_setting args env =
     py_or (py_or (py_or (dget args ''model_name'') (env_val env ''GRAPHRAG_MODEL'')) (env_val env ''OPENAI_MODEL''))
       (PStr ''gpt-4o-mini'')"

section \<open>The base configuration\<close>

record base_config =
  bc_max :: pyval
  bc_llm :: bool
  bc_verbose :: bool
  bc_dry_run :: bool
  bc_db_name :: pyval
  bc_read_db_name :: pyval
  bc_write_db_name :: pyval
  bc_read_coll :: pyval
  bc_write_coll :: pyval
  bc_upsert_existing :: bool
  bc_video_id :: pyval
  bc_input_video_ids :: pyval
  bc_concurrency :: "int option"
  bc_trace_id :: pyval

definition base_defaults :: base_config where
  "base_defaults =
     \<lparr> bc_max = PNone, bc_llm = False, bc_verbose = False, bc_dry_run = False, bc_db_name = PNone,
       bc_read_db_name = PNone, bc_write_db_name = PNone, bc_read_coll = PNone, bc_write_coll = PNone,
       bc_upsert_existing = False, bc_video_id = PNone, bc_input_video_ids = PNone, bc_concurrency = Some 15,
       bc_trace_id = PNone \<rparr>"

text \<open>\<open>paths_db\<close> is the constant \<open>DB_NAME\<close> of \<open>core/config/paths.py\<close>.\<close>

definition base_from_args :: "string \<Rightarrow> dict \<Rightarrow> environ \<Rightarrow> pyval \<Rightarrow> pyval \<Rightarrow> pyval \<Rightarrow> base_config res" where
  "base_from_args paths_db args env default_db read_coll write_coll =
     bindR (if dget args ''concurrency'' = PNone then Inr None
            else bindR (py_int (dget args ''concurrency'')) (\<lambda>n. Inr (Some n))) (\<lambda>c.
     Inr \<lparr> bc_max = dget args ''max'', bc_llm = truthy (dget args ''llm''), bc_verbose = truthy (dget args ''verbose''),
           bc_dry_run = truthy (dget args ''dry_run''),
           bc_db_name = py_or (py_or (py_or (dget args ''db_name'') (env_val env ''DB_NAME'')) default_db) (PStr paths_db),
           bc_read_db_name = py_or (dget args ''read_db_name'') (env_val env ''READ_DB_NAME''),
           bc_write_db_name = py_or (dget args ''write_db_name'') (env_val env ''WRITE_DB_NAME''),
           bc_read_coll = py_or (py_or (dget args ''read_coll'') (env_val env ''READ_COLL'')) read_coll,
           bc_write_coll = py_or (py_or (dget args ''write_coll'') (env_val env ''WRITE_COLL'')) write_coll,
           bc_upsert_existing = truthy (dget args ''upsert_existing''), bc_video_id = dget args ''video_id'',
           bc_input_video_ids = dget args ''input_video_ids'', bc_concurrency = c, bc_trace_id = PNone \<rparr>)"

definition COLL_CHUNKS :: pyval where
  "COLL_CHUNKS = PStr ''video_chunks''"

definition chunk_base :: "string \<Rightarrow> dict \<Rightarrow> environ \<Rightarrow> pyval \<Rightarrow> base_config res" where
  "chunk_base paths_db args env default_db = base_from_args paths_db args env default_db COLL_CHUNKS COLL_CHUNKS"

section \<open>Extraction\<close>

record extraction_config = base_config +
  xg_model_name :: pyval
  xg_temperature :: rat
  xg_max_tokens :: "int option"
  xg_llm_retries :: int
  xg_llm_backoff_s :: rat
  xg_max_entities :: int
  xg_max_relationships :: int
  xg_min_entity_confidence :: rat
  xg_min_relationship_confidence :: rat
  xg_batch_size :: int
  xg_timeout :: int
  xg_entity_types :: "string list"

definition default_entity_types :: "string list" where
  "default_entity_types =
     [''PERSON'', ''ORGANIZATION'', ''TECHNOLOGY'', ''CONCEPT'', ''LOCATION'', ''EVENT'', ''OTHER'']"

definition extraction_defaults :: extraction_config where
  "extraction_defaults = base_config.extend base_defaults
     (extraction_config.fields (PStr ''gpt-4o-mini'') (1/10) None 3 1 20 30 (3/10) (3/10) 50 30 default_entity_types)"

definition extraction_from_args :: "string \<Rightarrow> dict \<Rightarrow> environ \<Rightarrow> pyval \<Rightarrow> extraction_config res" where
  "extraction_from_args paths_db args env default_db =
     bindR (chunk_base paths_db args env default_db) (\<lambda>base.
     bindR (float_setting args env ''temperature'' ''GRAPHRAG_TEMPERATURE'' ''0.1'') (\<lambda>temperature.
     bindR (max_tokens_setting args env) (\<lambda>max_tokens.
     bindR (int_setting args env ''llm_retries'' ''GRAPHRAG_LLM_RETRIES'' ''3'') (\<lambda>retries.
     bindR (float_setting args env ''llm_backoff_s'' ''GRAPHRAG_LLM_BACKOFF_S'' ''1.0'') (\<lambda>backoff.
     bindR (int_setting args env ''max_entities_per_chunk'' ''GRAPHRAG_MAX_ENTITIES_PER_CHUNK'' ''20'') (\<lambda>max_es.
     bindR (int_setting args env ''max_relationships_per_chunk'' ''GRAPHRAG_MAX_RELATIONSHIPS_PER_CHUNK'' ''30'') (\<lambda>max_rs.
     bindR (float_setting args env ''min_entity_confidence'' ''GRAPHRAG_MIN_ENTITY_CONFIDENCE'' ''0.3'') (\<lambda>min_e.
     bindR (float_setting args env ''min_relationship_confidence'' ''GRAPHRAG_MIN_RELATIONSHIP_CONFIDENCE'' ''0.3'') (\<lambda>min_r.
     bindR (int_setting args env ''batch_size'' ''GRAPHRAG_BATCH_SIZE'' ''50'') (\<lambda>batch.
     bindR (int_setting args env ''extraction_timeout'' ''GRAPHRAG_EXTRACTION_TIMEOUT'' ''30'') (\<lambda>timeout.
     Inr (base_config.extend base
       (extraction_config.fields (model_setting args env) temperature max_tokens retries backoff max_es max_rs
          min_e min_r batch timeout default_entity_types)))))))))))))"

section \<open>Entity resolution\<close>

record resolution_config = base_config +
  rg_model_name :: pyval
  rg_temperature :: rat
  rg_max_tokens :: "int option"
  rg_llm_retries :: int
  rg_llm_backoff_s :: rat
  rg_similarity_threshold :: rat
  rg_max_aliases :: int
  rg_min_source_count :: int
  rg_max_input_tokens :: "int option"
  rg_batch_size :: int
  rg_timeout :: int
  rg_use_fuzzy :: pyval
  rg_use_embedding :: pyval
  rg_use_context :: pyval
  rg_use_clustering :: pyval

definition resolution_defaults :: resolution_config where
  "resolution_defaults = base_config.extend base_defaults
     (resolution_config.fields (PStr ''gpt-4o-mini'') (1/10) None 3 1 (85/100) 10 1 None 100 60
        (PBool True) (PBool True) (PBool True) (PBool True))"

definition resolution_from_args :: "string \<Rightarrow> dict \<Rightarrow> environ \<Rightarrow> pyval \<Rightarrow> resolution_config res" where
  "resolution_from_args paths_db args env default_db =
     bindR (chunk_base paths_db args env default_db) (\<lambda>base.
     bindR (float_setting args env ''temperature'' ''GRAPHRAG_TEMPERATURE'' ''0.1'') (\<lambda>temperature.
     bindR (max_tokens_setting args env) (\<lambda>max_tokens.
     bindR (int_setting args env ''llm_retries'' ''GRAPHRAG_LLM_RETRIES'' ''3'') (\<lambda>retries.
     bindR (float_setting args env ''llm_backoff_s'' ''GRAPHRAG_LLM_BACKOFF_S'' ''1.0'') (\<lambda>backoff.
     bindR (float_setting args env ''similarity_threshold'' ''GRAPHRAG_ENTITY_RESOLUTION_THRESHOLD'' ''0.85'') (\<lambda>threshold.
     bindR (int_setting args env ''max_aliases_per_entity'' ''GRAPHRAG_MAX_ALIASES_PER_ENTITY'' ''10'') (\<lambda>aliases.
     bindR (int_setting args env ''min_source_count'' ''GRAPHRAG_MIN_SOURCE_COUNT'' ''1'') (\<lambda>sources.
     bindR (int_setting args env ''batch_size'' ''GRAPHRAG_RESOLUTION_BATCH_SIZE'' ''100'') (\<lambda>batch.
     bindR (int_setting args env ''resolution_timeout'' ''GRAPHRAG_RESOLUTION_TIMEOUT'' ''60'') (\<lambda>timeout.
     Inr (base_config.extend base
       (resolution_config.fields (model_setting args env) temperature max_tokens retries backoff threshold aliases
          sources None batch timeout
          (flag_setting args env ''use_fuzzy_matching'' ''GRAPHRAG_USE_FUZZY_MATCHING'')
          (flag_setting args env ''use_embedding_similarity'' ''GRAPHRAG_USE_EMBEDDING_SIMILARITY'')
          (flag_setting args env ''use_context_similarity'' ''GRAPHRAG_USE_CONTEXT_SIMILARITY'')
          (flag_setting args env ''use_relationship_clustering'' ''GRAPHRAG_USE_RELATIONSHIP_CLUSTERING'')))))))))))))"

section \<open>Graph construction\<close>

record construction_config = base_config +
  gg_batch_size :: int
  gg_max_relationships :: int
  gg_centrality :: bool
  gg_degree :: bool
  gg_clustering :: bool
  gg_validate_existence :: bool
  gg_min_confidence :: rat
  gg_max_distance :: int

definition construction_defaults :: construction_config where
  "construction_defaults = base_config.extend base_defaults
     (construction_config.fields 200 100 True True False True (3/10) 3)"

definition env_int_setting :: "environ \<Rightarrow> string \<Rightarrow> string \<Rightarrow> int res" where
  "env_int_setting env var d = py_int (PStr (env_get env var d))"

definition env_float_setting :: "environ \<Rightarrow> string \<Rightarrow> string \<Rightarrow> rat res" where
  "env_float_setting env var d = py_float (PStr (env_get env var d))"

definition construction_from_args :: "string \<Rightarrow> dict \<Rightarrow> environ \<Rightarrow> pyval \<Rightarrow> construction_config res" where
  "construction_from_args paths_db args env default_db =
     bindR (chunk_base paths_db args env default_db) (\<lambda>base.
     bindR (env_int_setting env ''GRAPHRAG_CONSTRUCTION_BATCH_SIZE'' ''200'') (\<lambda>batch.
     bindR (env_int_setting env ''GRAPHRAG_MAX_RELATIONSHIPS_PER_ENTITY'' ''100'') (\<lambda>max_rs.
     bindR (env_float_setting env ''GRAPHRAG_MIN_RELATIONSHIP_CONFIDENCE'' ''0.3'') (\<lambda>min_c.
     bindR (env_int_setting env ''GRAPHRAG_MAX_RELATIONSHIP_DISTANCE'' ''3'') (\<lambda>dist.
     Inr (base_config.extend base
       (construction_config.fields batch max_rs (env_flag env ''GRAPHRAG_CALCULATE_CENTRALITY'' ''true'')
          (env_flag env ''GRAPHRAG_CALCULATE_DEGREE'' ''true'') (env_flag env ''GRAPHRAG_CALCULATE_CLUSTERING'' ''false'')
          (env_flag env ''GRAPHRAG_VALIDATE_ENTITY_EXISTENCE'' ''true'') min_c dist)))))))"

section \<open>Community detection\<close>

record detection_config = base_config +
  dg_model_name :: pyval
  dg_temperature :: rat
  dg_max_tokens :: "int option"
  dg_llm_retries :: int
  dg_llm_backoff_s :: rat
  dg_algorithm :: pyval
  dg_max_cluster_size :: int
  dg_min_cluster_size :: int
  dg_resolution :: rat
  dg_max_iterations :: int
  dg_max_levels :: int
  dg_level_size_threshold :: int
  dg_max_summary :: int
  dg_min_summary :: int
  dg_timeout :: int
  dg_min_coherence :: rat
  dg_min_entity_count :: int

definition detection_defaults :: detection_config where
  "detection_defaults = base_config.extend base_defaults
     (detection_config.fields (PStr ''gpt-4o-mini'') (2/10) None 3 1 (PStr ''louvain'') 50 2 1 100 3 5 2000 100 120 (6/10) 2)"

definition detection_from_args :: "string \<Rightarrow> dict \<Rightarrow> environ \<Rightarrow> pyval \<Rightarrow> detection_config res" where
  "detection_from_args paths_db args env default_db =
     bindR (chunk_base paths_db args env default_db) (\<lambda>base.
     bindR (float_setting args env ''temperature'' ''GRAPHRAG_COMMUNITY_TEMPERATURE'' ''0.2'') (\<lambda>temperature.
     bindR (max_tokens_setting args env) (\<lambda>max_tokens.
     bindR (int_setting args env ''llm_retries'' ''GRAPHRAG_LLM_RETRIES'' ''3'') (\<lambda>retries.
     bindR (float_setting args env ''llm_backoff_s'' ''GRAPHRAG_LLM_BACKOFF_S'' ''1.0'') (\<lambda>backoff.
     bindR (int_setting args env ''max_cluster_size'' ''GRAPHRAG_MAX_CLUSTER_SIZE'' ''50'') (\<lambda>max_c.
     bindR (int_setting args env ''min_cluster_size'' ''GRAPHRAG_MIN_CLUSTER_SIZE'' ''2'') (\<lambda>min_c.
     bindR (float_setting args env ''resolution_parameter'' ''GRAPHRAG_RESOLUTION_PARAMETER'' ''1.0'') (\<lambda>resolution.
     bindR (int_setting args env ''max_iterations'' ''GRAPHRAG_MAX_ITERATIONS'' ''100'') (\<lambda>iterations.
     bindR (int_setting args env ''max_levels'' ''GRAPHRAG_MAX_LEVELS'' ''3'') (\<lambda>levels.
     bindR (int_setting args env ''level_size_threshold'' ''GRAPHRAG_LEVEL_SIZE_THRESHOLD'' ''5'') (\<lambda>threshold.
     bindR (int_setting args env ''max_summary_length'' ''GRAPHRAG_MAX_SUMMARY_LENGTH'' ''2000'') (\<lambda>max_s.
     bindR (int_setting args env ''min_summary_length'' ''GRAPHRAG_MIN_SUMMARY_LENGTH'' ''100'') (\<lambda>min_s.
     bindR (int_setting args env ''summarization_timeout'' ''GRAPHRAG_SUMMARIZATION_TIMEOUT'' ''120'') (\<lambda>timeout.
     bindR (float_setting args env ''min_coherence_score'' ''GRAPHRAG_MIN_COHERENCE_SCORE'' ''0.6'') (\<lambda>coherence.
     bindR (int_setting args env ''min_entity_count'' ''GRAPHRAG_MIN_ENTITY_COUNT'' ''2'') (\<lambda>min_e.
     bindR (case bc_concurrency base of
              Some n \<Rightarrow> Inr (Some n)
            | None \<Rightarrow> bindR (env_int_setting env ''GRAPHRAG_COMMUNITY_CONCURRENCY'' ''300'') (\<lambda>n. Inr (Some n))) (\<lambda>conc.
     Inr (base_config.extend (base\<lparr>bc_concurrency := conc\<rparr>)
       (detection_config.fields (model_setting args env) temperature max_tokens retries backoff
          (arg_or_env args env ''algorithm'' ''GRAPHRAG_COMMUNITY_ALGORITHM'' ''louvain'') max_c min_c resolution
          iterations levels threshold max_s min_s timeout coherence min_e)))))))))))))))))))"

section \<open>The pipeline\<close>

record pipeline_config =
  pg_experiment_id :: pyval
  pg_incremental :: bool
  pg_max_time :: int
  pg_checkpoint :: int
  pg_selected_stages :: pyval
  pg_resume :: bool
  pg_extraction :: extraction_config
  pg_resolution :: resolution_config
  pg_construction :: construction_config
  pg_detection :: detection_config
  pg_max_retries :: int
  pg_retry_delay :: rat
  pg_continue :: bool
  pg_log_level :: string
  pg_log_file :: pyval

definition pipeline_defaults :: pipeline_config where
  "pipeline_defaults =
     \<lparr> pg_experiment_id = PNone, pg_incremental = True, pg_max_time = 7200, pg_checkpoint = 100,
       pg_selected_stages = PNone, pg_resume = False, pg_extraction = extraction_defaults,
       pg_resolution = resolution_defaults, pg_construction = construction_defaults, pg_detection = detection_defaults,
       pg_max_retries = 3, pg_retry_delay = 5, pg_continue = True, pg_log_level = ''INFO'', pg_log_file = PNone \<rparr>"

definition pipeline_from_args :: "string \<Rightarrow> dict \<Rightarrow> environ \<Rightarrow> pyval \<Rightarrow> pipeline_config res" where
  "pipeline_from_args paths_db args env default_db =
     bindR (extraction_from_args paths_db args env default_db) (\<lambda>x.
     bindR (resolution_from_args paths_db args env default_db) (\<lambda>r.
     bindR (construction_from_args paths_db args env default_db) (\<lambda>g.
     bindR (detection_from_args paths_db args env default_db) (\<lambda>d.
     bindR (env_int_setting env ''GRAPHRAG_MAX_PROCESSING_TIME'' ''7200'') (\<lambda>time.
     bindR (env_int_setting env ''GRAPHRAG_CHECKPOINT_INTERVAL'' ''100'') (\<lambda>check.
     bindR (env_int_setting env ''GRAPHRAG_MAX_RETRIES'' ''3'') (\<lambda>retries.
     bindR (env_float_setting env ''GRAPHRAG_RETRY_DELAY'' ''5.0'') (\<lambda>rdelay.
     Inr \<lparr> pg_experiment_id = env_val env ''EXPERIMENT_ID'',
           pg_incremental = env_flag env ''GRAPHRAG_ENABLE_INCREMENTAL'' ''true'', pg_max_time = time,
           pg_checkpoint = check, pg_selected_stages = PNone, pg_resume = False, pg_extraction = x,
           pg_resolution = r, pg_construction = g, pg_detection = d, pg_max_retries = retries,
           pg_retry_delay = rdelay, pg_continue = env_flag env ''GRAPHRAG_CONTINUE_ON_ERROR'' ''true'',
           pg_log_level = env_get env ''GRAPHRAG_LOG_LEVEL'' ''INFO'', pg_log_file = env_val env ''GRAPHRAG_LOG_FILE'' \<rparr>))))))))"

end
