(* ===== verification/Environment_Config.thy ===== *)
theory Environment_Config
  imports Stage_Config Knowledge_Extraction
begin

text \<open>
  \<open>GraphRAGEnvironmentConfig\<close> of \<open>core/config/graphrag.py\<close>: the settings of an environment, the
  presets applied after construction, and what is derived from them.

  \<open>env\<close> is the environment of the process; the connection to MongoDB that the validation tries
  is a parameter. Reading the settings from a file is left out.
\<close>

section \<open>Construction\<close>

record env_config =
  ev_environment :: string
  ev_mongodb_uri :: string
  ev_database_name :: string
  ev_openai_api_key :: string
  ev_openai_model :: string
  ev_openai_temperature :: rat
  ev_openai_max_tokens :: int
  ev_enable_graphrag :: bool
  ev_max_extractions :: int
  ev_max_resolutions :: int
  ev_max_cluster_size :: int
  ev_threshold :: rat
  ev_timeout_ms :: int
  ev_memory_mb :: int
  ev_cpu_percent :: int
  ev_monitoring :: bool
  ev_retention_days :: int
  ev_log_level :: string
  ev_caching :: bool
  ev_cache_ttl_hours :: int
  ev_max_cache_size :: int
  ev_retry_attempts :: int
  ev_retry_delay_ms :: int
  ev_circuit_breaker :: int

definition environment_fields :: "environ \<Rightarrow> string \<Rightarrow> env_config res" where
  "environment_fields env environment =
     bindR (env_int_setting env ''GRAPHRAG_EXTRACTION_CONCURRENCY'' ''300'') (\<lambda>ext.
     bindR (env_int_setting env ''GRAPHRAG_RESOLUTION_CONCURRENCY'' ''300'') (\<lambda>res.
     bindR (env_int_setting env ''GRAPHRAG_MAX_CLUSTER_SIZE'' ''10'') (\<lambda>cluster.
     bindR (env_float_setting env ''GRAPHRAG_ENTITY_RESOLUTION_THRESHOLD'' ''0.85'') (\<lambda>threshold.
     Inr \<lparr> ev_environment = environment,
           ev_mongodb_uri = env_get env ''MONGODB_URI'' ''mongodb://localhost:27017'',
           ev_database_name = env_get env ''DB_NAME'' ''mongo_hack'',
           ev_openai_api_key = env_get env ''OPENAI_API_KEY'' [],
           ev_openai_model = env_get env ''GRAPHRAG_MODEL'' ''gpt-4o-mini'',
           ev_openai_temperature = 1/10, ev_openai_max_tokens = 4000,
           ev_enable_graphrag = env_flag env ''GRAPHRAG_ENABLED'' ''true'',
           ev_max_extractions = ext, ev_max_resolutions = res, ev_max_cluster_size = cluster, ev_threshold = threshold,
           ev_timeout_ms = 30000, ev_memory_mb = 8192, ev_cpu_percent = 80,
           ev_monitoring = True, ev_retention_days = 30, ev_log_level = ''INFO'',
           ev_caching = True, ev_cache_ttl_hours = 2, ev_max_cache_size = 1000,
           ev_retry_attempts = 3, ev_retry_delay_ms = 1000, ev_circuit_breaker = 5 \<rparr>))))"

definition apply_production_settings :: "env_config \<Rightarrow> env_config" where
  "apply_production_settings c =
     c\<lparr> ev_log_level := ''WARNING'', ev_monitoring := True, ev_caching := True, ev_max_extractions := 20,
        ev_max_resolutions := 15, ev_timeout_ms := 60000, ev_memory_mb := 16384, ev_cpu_percent := 70,
        ev_retry_attempts := 5, ev_circuit_breaker := 3 \<rparr>"

definition apply_staging_settings :: "env_config \<Rightarrow> env_config" where
  "apply_staging_settings c =
     c\<lparr> ev_log_level := ''INFO'', ev_monitoring := True, ev_caching := True, ev_max_extractions := 10,
        ev_max_resolutions := 8, ev_timeout_ms := 45000, ev_memory_mb := 8192, ev_cpu_percent := 80,
        ev_retry_attempts := 3, ev_circuit_breaker := 5 \<rparr>"

definition apply_development_settings :: "env_config \<Rightarrow> env_config" where
  "apply_development_settings c =
     c\<lparr> ev_log_level := ''DEBUG'', ev_monitoring := False, ev_caching := False, ev_max_extractions := 5,
        ev_max_resolutions := 3, ev_timeout_ms := 30000, ev_memory_mb := 4096, ev_cpu_percent := 90,
        ev_retry_attempts := 2, ev_circuit_breaker := 10 \<rparr>"

definition post_init :: "env_config \<Rightarrow> env_config res" where
  "post_init c =
     (if ev_openai_api_key c = [] then Inl (value_error ''OpenAI API key is required'')
      else if ev_mongodb_uri c = [] then Inl (value_error ''MongoDB URI is required'')
      else Inr (if ev_environment c = ''production'' then apply_production_settings c
                else if ev_environment c = ''staging'' then apply_staging_settings c
                else apply_development_settings c))"

definition environment_config :: "environ \<Rightarrow> string \<Rightarrow> env_config res" where
  "environment_config env environment = bindR (environment_fields env environment) post_init"

definition load_config_from_env :: "environ \<Rightarrow> string option \<Rightarrow> env_config res" where
  "load_config_from_env env environment =
     environment_config env (case environment of None \<Rightarrow> env_get env ''GRAPHRAG_ENVIRONMENT'' ''development'' | Some e \<Rightarrow> e)"

definition create_production_config :: "environ \<Rightarrow> env_config res" where
  "create_production_config env = environment_config env ''production''"

definition create_staging_config :: "environ \<Rightarrow> env_config res" where
  "create_staging_config env = environment_config env ''staging''"

definition create_development_config :: "environ \<Rightarrow> env_config res" where
  "create_development_config env = environment_config env ''development''"

section \<open>Derived settings\<close>

definition cache_config :: "env_config \<Rightarrow> dict" where
  "cache_config c =
     [(''enable_entity_cache'', PBool (ev_caching c)), (''enable_community_cache'', PBool (ev_caching c)),
      (''enable_query_cache'', PBool (ev_caching c)), (''entity_cache_ttl'', PInt (ev_cache_ttl_hours c * 3600)),
      (''community_cache_ttl'', PInt (ev_cache_ttl_hours c * 3600)), (''query_cache_ttl'', PInt (ev_cache_ttl_hours c * 1800)),
      (''max_cache_size'', PInt (ev_max_cache_size c)), (''cache_cleanup_interval'', PInt 300)]"

definition to_production_config :: "env_config \<Rightarrow> dict" where
  "to_production_config c =
     [(''max_concurrent_operations'', PInt (ev_max_extractions c)), (''operation_timeout_ms'', PInt (ev_timeout_ms c)),
      (''memory_limit_mb'', PInt (ev_memory_mb c)), (''cpu_limit_percent'', PInt (ev_cpu_percent c)),
      (''enable_performance_monitoring'', PBool (ev_monitoring c)), (''metrics_retention_days'', PInt (ev_retention_days c)),
      (''cache_config'', PDict (cache_config c)), (''max_retry_attempts'', PInt (ev_retry_attempts c)),
      (''retry_delay_ms'', PInt (ev_retry_delay_ms c)), (''circuit_breaker_threshold'', PInt (ev_circuit_breaker c))]"

text \<open>The entries the four stages share, around what each has of its own.\<close>

definition stage_entry :: "env_config \<Rightarrow> int \<Rightarrow> dict \<Rightarrow> pyval" where
  "stage_entry c concurrency own =
     PDict ([(''max'', PNone), (''llm'', PBool True), (''verbose'', PBool (ev_log_level c = ''DEBUG'')),
             (''concurrency'', PInt concurrency), (''model_name'', PStr (ev_openai_model c)),
             (''temperature'', PFloat (ev_openai_temperature c)), (''max_tokens'', PInt (ev_openai_max_tokens c))]
            @ own @ [(''timeout_ms'', PInt (ev_timeout_ms c))])"

definition get_graphrag_stage_configs :: "env_config \<Rightarrow> dict" where
  "get_graphrag_stage_configs c =
     [(''graph_extraction'', stage_entry c (ev_max_extractions c) []),
      (''entity_resolution'', stage_entry c (ev_max_resolutions c) [(''similarity_threshold'', PFloat (ev_threshold c))]),
      (''graph_construction'', stage_entry c (ev_max_resolutions c) [(''min_relationship_confidence'', PFloat (6/10))]),
      (''community_detection'', stage_entry c 5
         [(''max_cluster_size'', PInt (ev_max_cluster_size c)), (''resolution_parameter'', PFloat 1)])]"

definition get_mongodb_settings :: "env_config \<Rightarrow> dict" where
  "get_mongodb_settings c =
     (let production = ev_environment c = ''production''
      in [(''uri'', PStr (ev_mongodb_uri c)), (''database'', PStr (ev_database_name c)),
          (''connection_timeout_ms'', PInt 10000), (''server_selection_timeout_ms'', PInt 5000),
          (''max_pool_size'', PInt (if production then 50 else 20)), (''min_pool_size'', PInt (if production then 5 else 2)),
          (''max_idle_time_ms'', PInt 300000), (''retry_writes'', PBool True), (''retry_reads'', PBool True)])"

definition get_openai_settings :: "env_config \<Rightarrow> dict" where
  "get_openai_settings c =
     (let production = ev_environment c = ''production''
      in [(''api_key'', PStr (ev_openai_api_key c)), (''model'', PStr (ev_openai_model c)),
          (''temperature'', PFloat (ev_openai_temperature c)), (''max_tokens'', PInt (ev_openai_max_tokens c)),
          (''timeout'', PFloat (of_int (ev_timeout_ms c) / 1000)), (''max_retries'', PInt (ev_retry_attempts c)),
          (''retry_delay'', PFloat (of_int (ev_retry_delay_ms c) / 1000)),
          (''rate_limit_requests_per_minute'', PInt (if production then 60 else 20)),
          (''rate_limit_tokens_per_minute'', PInt (if production then 150000 else 40000))])"

definition get_environment_summary :: "env_config \<Rightarrow> dict" where
  "get_environment_summary c =
     [(''environment'', PStr (ev_environment c)), (''graphrag_enabled'', PBool (ev_enable_graphrag c)),
      (''monitoring_enabled'', PBool (ev_monitoring c)), (''caching_enabled'', PBool (ev_caching c)),
      (''concurrent_extractions'', PInt (ev_max_extractions c)), (''concurrent_resolutions'', PInt (ev_max_resolutions c)),
      (''operation_timeout_ms'', PInt (ev_timeout_ms c)), (''memory_limit_mb'', PInt (ev_memory_mb c)),
      (''cpu_limit_percent'', PInt (ev_cpu_percent c)), (''log_level'', PStr (ev_log_level c)),
      (''openai_model'', PStr (ev_openai_model c)), (''database'', PStr (ev_database_name c)),
      (''mongodb_uri'', PStr (if 20 < length (ev_mongodb_uri c) then take 20 (ev_mongodb_uri c) @ ''...'' else ev_mongodb_uri c))]"

section \<open>Validation\<close>

record validation_results =
  vr_valid :: bool
  vr_errors :: "string list"
  vr_warnings :: "string list"
  vr_recommendations :: "string list"

definition missing_variables :: "environ \<Rightarrow> string list" where
  "missing_variables env = filter (\<lambda>v. env_get env v [] = []) [''MONGODB_URI'', ''OPENAI_API_KEY'']"

definition production_advice :: "env_config \<Rightarrow> string list" where
  "production_advice c =
     (if ev_environment c = ''production''
      then (if ev_max_extractions c < 15 then [''Consider increasing max_concurrent_extractions for production''] else [])
        @ (if ev_monitoring c then [] else [''Enable monitoring for production environment''])
        @ (if ev_caching c then [] else [''Enable caching for production environment''])
      else [])"

definition resource_advice :: "env_config \<Rightarrow> string list" where
  "resource_advice c =
     (if ev_memory_mb c < 4096 then [''Consider increasing memory limit for better performance''] else [])
     @ (if ev_timeout_ms c < 30000 then [''Consider increasing operation timeout for complex operations''] else [])"

text \<open>\<open>ping\<close> is what connecting to a URI raises, if anything.\<close>

definition validate_configuration :: "environ \<Rightarrow> (string \<Rightarrow> exn option) \<Rightarrow> env_config \<Rightarrow> validation_results" where
  "validate_configuration env ping c =
     (let errs = map (\<lambda>v. ''Missing required environment variable: '' @ v) (missing_variables env)
             @ (case ping (ev_mongodb_uri c) of None \<Rightarrow> [] | Some e \<Rightarrow> [''MongoDB connection failed: '' @ exn_msg e])
      in \<lparr> vr_valid = (errs = []), vr_errors = errs,
           vr_warnings = (if ev_openai_api_key c \<noteq> [] \<and> \<not> str_startswith (ev_openai_api_key c) ''sk-''
                          then [''OpenAI API key format may be incorrect''] else []),
           vr_recommendations = production_advice c @ resource_advice c \<rparr>)"

text \<open>
  Facts of the configuration: defaults of arguments and of classes, arguments that are zero, and
  the presets of an environment.
\<close>

section \<open>Numbers\<close>

lemma float_of_str_examples:
  "map float_of_str [''0.85'', '' -1.5e1 '', ''3'', ''.5'', ''5.'', ''.'', '''', ''1e'', ''x''] =
   [Some (85/100), Some (- 15), Some 3, Some (1/2), Some 5, None, None, None, None]"
  by code_simp

text \<open>An integer reads back as itself.\<close>

lemma py_int_str_of_int: "py_int (PStr (str_of_int i)) = Inr i"
  by simp

section \<open>Arguments that count as absent\<close>

text \<open>
  Two namespaces the stages cannot tell apart: the same value where the value itself is used, and
  otherwise the same value or two that are both false.
\<close>

definition raw_keys :: "string list" where
  "raw_keys = [''max'', ''video_id'', ''input_video_ids'', ''concurrency'']"

definition same_settings :: "dict \<Rightarrow> dict \<Rightarrow> bool" where
  "same_settings a b = (\<forall>k. dget a k = dget b k \<or> k \<notin> set raw_keys \<and> \<not> truthy (dget a k) \<and> \<not> truthy (dget b k))"

lemma same_settings_raw: "same_settings a b \<Longrightarrow> k \<in> set raw_keys \<Longrightarrow> dget a k = dget b k"
  by (auto simp: same_settings_def)

lemma same_settings_truthy: "same_settings a b \<Longrightarrow> truthy (dget a k) = truthy (dget b k)"
  unfolding same_settings_def by metis

lemma same_settings_or:
  assumes "same_settings a b"
  shows "py_or (dget a k) v = py_or (dget b k) v"
  using assms unfolding same_settings_def py_or_def by metis

lemma same_settings_base:
  assumes "same_settings a b"
  shows "chunk_base p a env db = chunk_base p b env db"
  using same_settings_raw [OF assms] assms
  by (simp add: chunk_base_def base_from_args_def same_settings_or [OF assms] same_settings_truthy [OF assms] raw_keys_def)

lemma same_settings_number:
  assumes "same_settings a b"
  shows "int_setting a env k v d = int_setting b env k v d" "float_setting a env k v d = float_setting b env k v d"
    "model_setting a env = model_setting b env" "arg_or_env a env k v d = arg_or_env b env k v d"
  by (simp_all add: int_setting_def float_setting_def model_setting_def arg_or_env_def same_settings_or [OF assms])

lemma same_settings_tokens:
  assumes "same_settings a b"
  shows "max_tokens_setting a env = max_tokens_setting b env"
proof (cases "truthy (dget a ''max_tokens'')")
  case True
  then have "dget a ''max_tokens'' = dget b ''max_tokens''"
    using assms unfolding same_settings_def by metis
  then show ?thesis by (simp add: max_tokens_setting_def)
next
  case False
  then show ?thesis using same_settings_truthy [OF assms, of "''max_tokens''"] by (simp add: max_tokens_setting_def)
qed

text \<open>
  An argument that is zero (or empty) is read as if it were absent, by the extraction and the
  detection stage: the environment or the default wins, and 0 cannot be asked for.
\<close>

theorem zero_arguments_ignored:
  assumes "same_settings a b"
  shows "extraction_from_args p a env db = extraction_from_args p b env db
    \<and> detection_from_args p a env db = detection_from_args p b env db"
  by (simp add: extraction_from_args_def detection_from_args_def same_settings_base [OF assms]
      same_settings_number [OF assms] same_settings_tokens [OF assms])

lemma zero_temperature: "same_settings ((''temperature'', PFloat 0) # a) ((''temperature'', PNone) # a)"
  by (simp add: same_settings_def dget_def raw_keys_def)

lemma zero_arguments_ignored_witness:
  "extraction_from_args ''db'' [(''temperature'', PFloat 0)] [(''GRAPHRAG_TEMPERATURE'', ''0.7'')] PNone =
   extraction_from_args ''db'' [(''temperature'', PNone)] [(''GRAPHRAG_TEMPERATURE'', ''0.7'')] PNone
   \<and> detection_from_args ''db'' [(''temperature'', PFloat 0)] [(''GRAPHRAG_TEMPERATURE'', ''0.7'')] PNone =
   detection_from_args ''db'' [(''temperature'', PNone)] [(''GRAPHRAG_TEMPERATURE'', ''0.7'')] PNone"
  by (rule zero_arguments_ignored [OF zero_temperature])

section \<open>Defaults\<close>

text \<open>
  Without arguments and environment the stages get the defaults of their classes, on the chunks
  collection of the given database, except for the concurrency: none, and 300 for the detection.
\<close>

definition on_chunks :: "string \<Rightarrow> 'a base_config_scheme \<Rightarrow> 'a base_config_scheme" where
  "on_chunks db c = c\<lparr>bc_db_name := PStr db, bc_read_coll := COLL_CHUNKS, bc_write_coll := COLL_CHUNKS, bc_concurrency := None\<rparr>"

theorem pipeline_default_settings:
  "pipeline_from_args ''db'' [] [] PNone = Inr (pipeline_defaults
     \<lparr> pg_extraction := on_chunks ''db'' extraction_defaults, pg_resolution := on_chunks ''db'' resolution_defaults,
       pg_construction := on_chunks ''db'' construction_defaults,
       pg_detection := (on_chunks ''db'' detection_defaults)\<lparr>bc_concurrency := Some 300\<rparr> \<rparr>)"
  by code_simp

lemma default_types_are_all:
  "default_entity_types = map type_value [PERSON, ORGANIZATION, TECHNOLOGY, CONCEPT, LOCATION, EVENT, OTHER]"
  by code_simp

section \<open>Environments\<close>

lemma environment_config_Inr:
  assumes "environment_config env e = Inr c"
  obtains f where "environment_fields env e = Inr f" "post_init f = Inr c" "ev_environment f = e"
  using assms by (auto simp: environment_config_def environment_fields_def bindR_eq_Inr)

definition preset :: "string \<Rightarrow> int \<times> int \<times> int \<times> int \<times> int \<times> string \<times> bool" where
  "preset e = (if e = ''production'' then (20, 15, 60000, 16384, 5, ''WARNING'', True)
               else if e = ''staging'' then (10, 8, 45000, 8192, 3, ''INFO'', True)
               else (5, 3, 30000, 4096, 2, ''DEBUG'', False))"

lemma post_init_preset:
  assumes "post_init f = Inr c"
  shows "(ev_max_extractions c, ev_max_resolutions c, ev_timeout_ms c, ev_memory_mb c, ev_retry_attempts c, ev_log_level c,
      ev_monitoring c) = preset (ev_environment f)
    \<and> ev_environment c = ev_environment f \<and> ev_caching c = ev_monitoring c \<and> ev_openai_api_key c \<noteq> []"
  using assms
  by (auto simp: post_init_def preset_def apply_production_settings_def apply_staging_settings_def
      apply_development_settings_def split: if_splits)

text \<open>
  The settings of a loaded configuration depend on the name of the environment alone: the
  variables for the concurrency are read (and must be numbers) but have no effect, and the
  validation of such a configuration never gives a recommendation.
\<close>

theorem presets_override_variables:
  assumes "environment_config env e = Inr c"
  shows "(ev_max_extractions c, ev_max_resolutions c, ev_timeout_ms c, ev_memory_mb c, ev_retry_attempts c, ev_log_level c,
      ev_monitoring c) = preset e
    \<and> vr_recommendations (validate_configuration env' ping c) = []"
proof -
  obtain f where f: "post_init f = Inr c" "ev_environment f = e"
    using environment_config_Inr [OF assms] by blast
  have p: "(ev_max_extractions c, ev_max_resolutions c, ev_timeout_ms c, ev_memory_mb c, ev_retry_attempts c, ev_log_level c,
      ev_monitoring c) = preset e" "ev_environment c = e" "ev_caching c = ev_monitoring c"
    using post_init_preset [OF f(1)] f(2) by auto
  then have "production_advice c = []" "resource_advice c = []"
    by (auto simp: preset_def production_advice_def resource_advice_def split: if_splits)
  with p show ?thesis by (simp add: validate_configuration_def Let_def)
qed

definition demo_environ :: environ where
  "demo_environ = [(''OPENAI_API_KEY'', ''sk-1''), (''GRAPHRAG_EXTRACTION_CONCURRENCY'', ''250'')]"

lemma presets_override_variables_witness:
  "\<exists>c. environment_config demo_environ ''production'' = Inr c \<and> ev_max_extractions c = 20
    \<and> vr_recommendations (validate_configuration demo_environ (\<lambda>u. None) c) = []"
proof -
  have "case environment_config demo_environ ''production'' of Inr c \<Rightarrow> True | _ \<Rightarrow> False" by code_simp
  then obtain c where c: "environment_config demo_environ ''production'' = Inr c" by (auto split: sum.splits)
  from presets_override_variables [OF c, of demo_environ "\<lambda>u. None"] c show ?thesis by (auto simp: preset_def)
qed

lemma empty_variable_rejected:
  "environment_config [(''OPENAI_API_KEY'', ''sk-1''), (''GRAPHRAG_MAX_CLUSTER_SIZE'', [])] ''staging'' =
    Inl (value_error ''invalid literal for int()'')"
  by code_simp

text \<open>A configuration is reported valid exactly when both variables are set and MongoDB answers.\<close>

lemma valid_configuration_iff:
  "vr_valid (validate_configuration env ping c) \<longleftrightarrow> missing_variables env = [] \<and> ping (ev_mongodb_uri c) = None"
  by (auto simp: validate_configuration_def Let_def split: option.split)

end
