(* ===== verification/Redundancy.thy ===== *)
theory Redundancy
  imports Stage_Config Stage_Run
begin

text \<open>
  \<open>domain/ingestion/stages/redundancy.py\<close>: the chunks of a video are compared by the cosine of
  their embeddings, and the redundant ones are marked with the chunk they duplicate.

  The collection is a list of chunks; embeddings are lists of reals. The module of the agent for
  borderline cases is a parameter: \<open>None\<close> when importing it raises, as it does in this
  repository, where there is no such module.
\<close>

section \<open>Configuration\<close>

record redundancy_config = base_config +
  dd_threshold :: rat
  dd_llm_margin :: rat
  dd_nonadj_fallback :: bool
  dd_adj_override :: rat
  dd_skip_adjacent :: bool
  dd_use_llm :: bool

text \<open>The first of some variables that is set to a number, or to a truth value.\<close>

definition first_float :: "environ \<Rightarrow> string list \<Rightarrow> rat \<Rightarrow> rat" where
  "first_float env ks d = (case List.map_filter (\<lambda>k. Option.bind (map_of env k) float_of_str) ks of [] \<Rightarrow> d | r # rs \<Rightarrow> r)"

definition truth_word :: "string \<Rightarrow> bool option" where
  "truth_word s =
     (let w = str_lower (str_strip s)
      in if w \<in> set [''1'', ''true'', ''yes'', ''on''] then Some True
         else if w \<in> set [''0'', ''false'', ''no'', ''off''] then Some False else None)"

definition first_bool :: "environ \<Rightarrow> string list \<Rightarrow> bool \<Rightarrow> bool" where
  "first_bool env ks d = (case List.map_filter (\<lambda>k. Option.bind (map_of env k) truth_word) ks of [] \<Rightarrow> d | b # bs \<Rightarrow> b)"

definition redundancy_from_args :: "string \<Rightarrow> dict \<Rightarrow> environ \<Rightarrow> pyval \<Rightarrow> redundancy_config res" where
  "redundancy_from_args paths_db args env default_db =
     bindR (base_from_args paths_db args env default_db PNone PNone) (\<lambda>base.
     Inr (base_config.extend base (redundancy_config.fields
       (first_float env [''REDUNDANCY_THRESHOLD'', ''DEDUP_THRESHOLD''] (92/100))
       (first_float env [''REDUNDANCY_LLM_MARGIN'', ''DEDUP_LLM_MARGIN''] (3/100))
       (first_bool env [''REDUNDANCY_NONADJ_FALLBACK'', ''DEDUP_NONADJ_FALLBACK''] True)
       (first_float env [''REDUNDANCY_ADJ_OVERRIDE'', ''DEDUP_ADJ_OVERRIDE''] (975/1000))
       (first_bool env [''REDUNDANCY_SKIP_ADJACENT'', ''DEDUP_SKIP_ADJACENT''] True)
       (truthy (dget args ''llm'') \<or> map_of env ''REDUNDANCY_WITH_LLM'' = Some ''1'' \<or> map_of env ''DEDUP_WITH_LLM'' = Some ''1''))))"

section \<open>State\<close>

record redundancy_mark =
  rm_redundant :: bool
  rm_duplicate_of :: "string option"
  rm_score :: real
  rm_method :: string
  rm_reason :: "string option"

text \<open>\<open>em_vector\<close> is empty where the document holds no embedding, or null.\<close>

record embedded_chunk =
  em_video :: string
  em_id :: string
  em_vector :: "real list"
  em_text :: string
  em_mark :: "redundancy_mark option"

record redundancy_state =
  ds_chunks :: "embedded_chunk list"
  ds_stats :: stage_statistics

record redundancy_setting =
  do_threshold :: real
  do_llm_margin :: real
  do_nonadj_fallback :: bool
  do_adj_override :: real
  do_skip_adjacent :: bool
  do_use_llm :: bool
  do_upsert_existing :: bool
  do_video :: string
  do_input_videos :: "string list"
  do_agent :: "(string \<Rightarrow> string \<Rightarrow> bool res) option"

section \<open>Similarity\<close>

definition dot :: "real list \<Rightarrow> real list \<Rightarrow> real" where
  "dot a b = sum_list (map2 (*) a b)"

definition vec_length :: "real list \<Rightarrow> real" where
  "vec_length a = sqrt (sum_list (map (\<lambda>x. x * x) a))"

definition cosine :: "real list \<Rightarrow> real list \<Rightarrow> real" where
  "cosine a b =
     (if a = [] \<or> b = [] \<or> length a \<noteq> length b then 0
      else if vec_length a = 0 \<or> vec_length b = 0 then 0
      else dot a b / (vec_length a * vec_length b))"

section \<open>Selection\<close>

definition redundancy_docs :: "redundancy_setting \<Rightarrow> embedded_chunk list \<Rightarrow> (string \<times> embedded_chunk list) list" where
  "redundancy_docs R cs =
     fold (\<lambda>c. dd_append (em_video c) c)
       (filter (\<lambda>c. if do_video R \<noteq> [] then em_video c = do_video R
                    else do_input_videos R = [] \<or> em_video c \<in> set (do_input_videos R)) cs) []"

section \<open>Neighbours\<close>

text \<open>The number after the last colon, if it is one.\<close>

definition suffix_num :: "string \<Rightarrow> int" where
  "suffix_num i =
     (let p = last (str_split_n (CHR '':'') (length i) [] i)
      in if p \<noteq> [] \<and> list_all is_digit p then (case int_of_str p of Some n \<Rightarrow> n | None \<Rightarrow> - (10 ^ 9)) else - (10 ^ 9))"

definition adjacent :: "embedded_chunk \<Rightarrow> embedded_chunk \<Rightarrow> bool" where
  "adjacent c d = (em_video c = em_video d \<and> \<bar>suffix_num (em_id c) - suffix_num (em_id d)\<bar> = 1)"

text \<open>The first of the best among the other items, and \<open>(-1, None)\<close> when there is none.\<close>

definition keep_best :: "embedded_chunk \<Rightarrow> embedded_chunk \<Rightarrow> real \<times> embedded_chunk option \<Rightarrow> real \<times> embedded_chunk option" where
  "keep_best c d = (\<lambda>(s, b). if s < cosine (em_vector c) (em_vector d) then (cosine (em_vector c) (em_vector d), Some d) else (s, b))"

definition best_of :: "embedded_chunk \<Rightarrow> embedded_chunk list \<Rightarrow> real \<times> embedded_chunk option" where
  "best_of c ds = fold (keep_best c) ds (- 1, None)"

definition nearest :: "redundancy_setting \<Rightarrow> embedded_chunk \<Rightarrow> embedded_chunk list \<Rightarrow> real \<times> embedded_chunk option" where
  "nearest R c others =
     (case best_of c others of
        (s, None) \<Rightarrow> (s, None)
      | (s, Some b) \<Rightarrow>
          if do_skip_adjacent R \<and> adjacent c b \<and> do_nonadj_fallback R
          then (case best_of c (filter (\<lambda>d. \<not> adjacent c d) others) of
                  (t, Some a) \<Rightarrow> (t, Some a)
                | (t, None) \<Rightarrow> (s, Some b))
          else (s, Some b))"

section \<open>The verdict on a chunk\<close>

definition text_of :: "embedded_chunk \<Rightarrow> embedded_chunk list \<Rightarrow> string" where
  "text_of c cs =
     (case find (\<lambda>x. em_video x = em_video c \<and> em_id x = em_id c) cs of None \<Rightarrow> [] | Some x \<Rightarrow> em_text x)"

text \<open>\<open>(duplicate, method, reason)\<close>, by the threshold and, for a borderline score, by the agent.\<close>

definition threshold_verdict :: "redundancy_setting \<Rightarrow> real \<Rightarrow> bool \<times> string \<times> string option" where
  "threshold_verdict R s =
     (do_threshold R \<le> s, ''cosine'', if do_threshold R \<le> s then Some ''high_sim'' else None)"

definition judge :: "redundancy_setting \<Rightarrow> embedded_chunk list \<Rightarrow> embedded_chunk \<Rightarrow> real \<times> embedded_chunk option
    \<Rightarrow> bool \<times> string \<times> string option" where
  "judge R cs c = (\<lambda>(s, best).
     case (best, do_agent R) of
       (Some b, Some f) \<Rightarrow>
         if do_use_llm R \<and> \<bar>s - do_threshold R\<bar> \<le> do_llm_margin R
         then (case f (text_of c cs) (text_of b cs) of
                 Inr v \<Rightarrow> (v \<or> do_threshold R \<le> s, ''llm'', Some ''borderline'')
               | Inl e \<Rightarrow> threshold_verdict R s)
         else threshold_verdict R s
     | _ \<Rightarrow> threshold_verdict R s)"

definition guard_adjacent ::
  "redundancy_setting \<Rightarrow> embedded_chunk \<Rightarrow> real \<times> embedded_chunk option \<Rightarrow> bool \<times> string option \<Rightarrow> bool \<times> string option" where
  "guard_adjacent R c = (\<lambda>(s, best) (dup, reason).
     case best of
       None \<Rightarrow> (dup, reason)
     | Some b \<Rightarrow> if dup \<and> do_skip_adjacent R \<and> adjacent c b \<and> s < do_adj_override R then (False, None) else (dup, reason))"

text \<open>The lexicographically smaller of the two identifiers is the primary one and is not redundant.\<close>

definition canonicalize :: "embedded_chunk \<Rightarrow> embedded_chunk option \<Rightarrow> bool \<times> string option \<Rightarrow> bool \<times> string option \<times> string option" where
  "canonicalize c best = (\<lambda>(dup, reason).
     case best of
       None \<Rightarrow> (dup, reason, None)
     | Some b \<Rightarrow>
         if \<not> dup then (False, reason, None)
         else if em_id c \<le> em_id b then (False, None, None) else (True, reason, Some (em_id b)))"

definition mark_of :: "redundancy_setting \<Rightarrow> embedded_chunk list \<Rightarrow> embedded_chunk \<Rightarrow> embedded_chunk list \<Rightarrow> redundancy_mark" where
  "mark_of R cs c others =
     (let near = nearest R c others; (dup, meth, why) = judge R cs c near;
          (redundant, reason, primary) = canonicalize c (snd near) (guard_adjacent R c near (dup, why))
      in \<lparr> rm_redundant = redundant,
           rm_duplicate_of = (case primary of Some p \<Rightarrow> if redundant \<and> p \<noteq> [] \<and> p \<noteq> em_id c then Some p else None | None \<Rightarrow> None),
           rm_score = fst near, rm_method = meth, rm_reason = reason \<rparr>)"

section \<open>One video\<close>

definition same_row :: "embedded_chunk \<Rightarrow> embedded_chunk \<Rightarrow> bool" where
  "same_row c x = (em_video x = em_video c \<and> em_id x = em_id c)"

definition already_marked :: "embedded_chunk \<Rightarrow> redundancy_state \<Rightarrow> bool" where
  "already_marked c s = (case find (same_row c) (ds_chunks s) of None \<Rightarrow> False | Some x \<Rightarrow> em_mark x \<noteq> None)"

definition mark_chunk :: "redundancy_setting \<Rightarrow> embedded_chunk \<Rightarrow> embedded_chunk list \<Rightarrow> redundancy_state \<Rightarrow> redundancy_state" where
  "mark_chunk R c others s =
     (if \<not> do_upsert_existing R \<and> already_marked c s
      then s\<lparr>ds_stats := (ds_stats s)\<lparr>skipped := Suc (skipped (ds_stats s))\<rparr>\<rparr>
      else let m = mark_of R (ds_chunks s) c others
           in s\<lparr>ds_chunks := update_first (same_row c) (\<lambda>x. x\<lparr>em_mark := Some m\<rparr>) (ds_chunks s),
                ds_stats := (ds_stats s)\<lparr>updated := Suc (updated (ds_stats s))\<rparr>\<rparr>)"

definition without :: "nat \<Rightarrow> 'a list \<Rightarrow> 'a list" where
  "without i xs = take i xs @ drop (Suc i) xs"

definition handle_redundancy :: "redundancy_setting \<Rightarrow> embedded_chunk list \<Rightarrow> redundancy_state \<Rightarrow> redundancy_state" where
  "handle_redundancy R items s = fold (\<lambda>i. mark_chunk R (items ! i) (without i items)) [0..<length items] s"

section \<open>Signals for the entity resolution\<close>

record cluster_entry =
  ce_chunk :: string
  ce_video :: string
  ce_score :: real
  ce_primary :: bool
  ce_duplicate_of :: "string option"

record grouping_hint =
  gh_chunks :: "string list"
  gh_score :: real
  gh_confidence :: real

record canonicalization_signals =
  cs_clusters :: "(string \<times> cluster_entry list) list"
  cs_hints :: "(string \<times> grouping_hint) list"
  cs_total :: nat
  cs_pairs :: nat
  cs_threshold :: real

definition marked_chunks :: "string option \<Rightarrow> redundancy_state \<Rightarrow> (embedded_chunk \<times> redundancy_mark) list" where
  "marked_chunks v s =
     List.map_filter (\<lambda>c. case em_mark c of
         None \<Rightarrow> None
       | Some m \<Rightarrow> if v = None \<or> v = Some [] \<or> v = Some (em_video c) then Some (c, m) else None) (ds_chunks s)"

definition add_signals ::
  "redundancy_setting \<Rightarrow> embedded_chunk \<times> redundancy_mark
    \<Rightarrow> (string \<times> cluster_entry list) list \<times> (string \<times> grouping_hint) list
    \<Rightarrow> (string \<times> cluster_entry list) list \<times> (string \<times> grouping_hint) list" where
  "add_signals R = (\<lambda>(c, m) (clusters, hints).
     (if do_threshold R \<le> rm_score m
      then dd_append (em_video c @ '':similar'')
             \<lparr> ce_chunk = em_id c, ce_video = em_video c, ce_score = rm_score m, ce_primary = (\<not> rm_redundant m),
               ce_duplicate_of = rm_duplicate_of m \<rparr> clusters
      else clusters,
      if 8/10 \<le> rm_score m
      then AList.update (em_id c)
             \<lparr> gh_chunks = (case rm_duplicate_of m of Some p \<Rightarrow> if p = [] then [] else [p] | None \<Rightarrow> []),
               gh_score = rm_score m, gh_confidence = min (rm_score m) 1 \<rparr> hints
      else hints))"

definition get_entity_canonicalization_signals ::
  "redundancy_setting \<Rightarrow> string option \<Rightarrow> redundancy_state \<Rightarrow> canonicalization_signals" where
  "get_entity_canonicalization_signals R v s =
     (let cs = marked_chunks v s; (clusters, hints) = fold (add_signals R) cs ([], [])
      in \<lparr> cs_clusters = clusters, cs_hints = hints, cs_total = length cs,
           cs_pairs = length (filter (\<lambda>(c, m). 8/10 \<le> rm_score m) cs), cs_threshold = do_threshold R \<rparr>)"

text \<open>The row of a chunk: the other chunks that are similar to it; a later chunk of the same
  identifier starts its row again.\<close>

definition similarity_row :: "embedded_chunk list \<Rightarrow> nat \<Rightarrow> (string \<times> real) list" where
  "similarity_row cs i =
     fold (\<lambda>d row. if em_vector d \<noteq> [] \<and> 7/10 \<le> cosine (em_vector (cs ! i)) (em_vector d)
                   then AList.update (em_id d) (cosine (em_vector (cs ! i)) (em_vector d)) row else row)
       (without i cs) []"

definition get_chunk_similarity_matrix ::
  "string option \<Rightarrow> embedded_chunk list \<Rightarrow> (string \<times> (string \<times> real) list) list \<times> nat" where
  "get_chunk_similarity_matrix v all =
     (let cs = filter (\<lambda>c. v = None \<or> v = Some [] \<or> v = Some (em_video c)) all
      in (fold (\<lambda>i m. if em_vector (cs ! i) = [] then m else AList.update (em_id (cs ! i)) (similarity_row cs i) m)
            [0..<length cs] [], length cs))"

end
