(* ===== verification/Redundancy_Facts.thy ===== *)
theory Redundancy_Facts
  imports Redundancy
begin

text \<open>
  Facts of the redundancy stage: the cosine, what a redundant chunk is a duplicate of, and when
  the guard for neighbours has an effect.
\<close>

section \<open>The cosine\<close>

lemma dot_commute: "dot a b = dot b a"
proof -
  have "map2 (*) a b = map2 (*) b a" for a b :: "real list"
    by (induction a b rule: list_induct2') (auto simp: mult.commute)
  then show ?thesis by (simp add: dot_def)
qed

lemma sum_squares_nonneg: "0 \<le> sum_list (map (\<lambda>x. x * x) (a :: real list))"
  by (induction a) auto

lemma cauchy_schwarz:
  "length a = length b \<Longrightarrow> (dot a b)\<^sup>2 \<le> sum_list (map (\<lambda>x. x * x) a) * sum_list (map (\<lambda>x. x * x) b)"
proof (induction a b rule: list_induct2)
  case (Cons x a y b)
  let ?A = "sum_list (map (\<lambda>x. x * x) a)" and ?B = "sum_list (map (\<lambda>x. x * x) b)" and ?d = "dot a b"
  have nn: "0 \<le> ?A" "0 \<le> ?B" by (rule sum_squares_nonneg)+
  have "\<bar>?d\<bar> \<le> sqrt (?A * ?B)" using Cons.IH by (rule real_le_rsqrt [of "\<bar>?d\<bar>", simplified])
  then have "2 * ?d * (x * y) \<le> 2 * sqrt (?A * ?B) * \<bar>x * y\<bar>"
    using mult_right_mono [of "\<bar>?d\<bar>" "sqrt (?A * ?B)" "\<bar>x * y\<bar>"] abs_ge_self [of "?d * (x * y)"] by (simp add: abs_mult)
  also have "\<dots> \<le> ?A * y\<^sup>2 + ?B * x\<^sup>2"
  proof -
    have "0 \<le> (sqrt ?A * \<bar>y\<bar> - sqrt ?B * \<bar>x\<bar>)\<^sup>2" by simp
    then show ?thesis using nn by (simp add: power2_diff power_mult_distrib real_sqrt_mult abs_mult algebra_simps)
  qed
  finally have "(x * y + ?d)\<^sup>2 \<le> (x * x + ?A) * (y * y + ?B)"
    using Cons.IH by (simp add: power2_eq_square algebra_simps)
  then show ?case by (simp add: dot_def)
qed (simp add: dot_def)

lemma cosine_commute: "cosine a b = cosine b a"
  by (auto simp: cosine_def dot_commute [of a b] mult.commute)

lemma cosine_range: "- 1 \<le> cosine a b \<and> cosine a b \<le> 1"
proof (cases "a = [] \<or> b = [] \<or> length a \<noteq> length b \<or> vec_length a = 0 \<or> vec_length b = 0")
  case True
  then show ?thesis by (auto simp: cosine_def)
next
  case False
  have nn: "0 \<le> vec_length a" "0 \<le> vec_length b" by (simp_all add: vec_length_def sum_squares_nonneg)
  with False have pos: "0 < vec_length a * vec_length b" by simp
  have "\<bar>dot a b\<bar> \<le> vec_length a * vec_length b"
    using real_sqrt_le_mono [OF cauchy_schwarz [of a b]] False by (simp add: vec_length_def real_sqrt_mult)
  then have "\<bar>cosine a b\<bar> \<le> 1"
    using False nn pos by (simp add: cosine_def abs_mult)
  then show ?thesis by linarith
qed

lemma cosine_self: "sum_list (map (\<lambda>x. x * x) a) \<noteq> 0 \<Longrightarrow> cosine a a = 1"
proof -
  assume nz: "sum_list (map (\<lambda>x. x * x) a) \<noteq> 0"
  have "dot a a = sum_list (map (\<lambda>x. x * x) a)" by (induction a) (simp_all add: dot_def)
  then show ?thesis using nz sum_squares_nonneg [of a] by (auto simp: cosine_def vec_length_def)
qed

section \<open>The nearest chunk\<close>

lemma keep_best_None: "snd (keep_best c d p) = None \<Longrightarrow> snd p = None \<and> fst p \<ge> cosine (em_vector c) (em_vector d)"
  by (cases p) (auto simp: keep_best_def split: if_splits)

lemma keep_best_step:
  "fst p \<le> fst (keep_best c d p) \<and> (keep_best c d p = p \<or> snd (keep_best c d p) = Some d)"
  by (cases p) (auto simp: keep_best_def)

lemma best_fold:
  "(fold (keep_best c) ds p = p \<or> (\<exists>d\<in>set ds. snd (fold (keep_best c) ds p) = Some d))
    \<and> fst p \<le> fst (fold (keep_best c) ds p)"
proof (induction ds arbitrary: p)
  case (Cons d ds)
  show ?case using Cons.IH [of "keep_best c d p"] keep_best_step [of p c d] by fastforce
qed simp

lemma best_of_cases: "best_of c ds = (- 1, None) \<or> (\<exists>d\<in>set ds. snd (best_of c ds) = Some d)"
  using best_fold [of c ds "(- 1, None)"] by (auto simp: best_of_def)

lemma best_of_None: "best_of c ds = (s, None) \<Longrightarrow> s = - 1"
  using best_of_cases [of c ds] by auto

lemma nearest_cases:
  "nearest R c others = (s, best) \<Longrightarrow> (best = None \<and> s = - 1) \<or> (\<exists>d\<in>set others. best = Some d)"
  using best_of_cases [of c others] best_of_cases [of c "filter (\<lambda>d. \<not> adjacent c d) others"]
  by (auto simp: nearest_def split: prod.splits option.splits if_splits)

section \<open>Duplicates\<close>

lemma canonicalize_redundant:
  assumes "canonicalize c best (dup, why) = (True, reason, primary)" and "best \<noteq> None"
  shows "\<exists>b. best = Some b \<and> primary = Some (em_id b) \<and> em_id b < em_id c"
  using assms by (cases best) (auto simp: canonicalize_def split: if_splits)

lemma mark_redundant:
  assumes "rm_redundant (mark_of R cs c others)" and "- 1 < do_threshold R" and "list_all (\<lambda>d. em_id d \<noteq> []) others"
  shows "\<exists>d\<in>set others. rm_duplicate_of (mark_of R cs c others) = Some (em_id d) \<and> em_id d < em_id c"
proof -
  obtain s best where n: "nearest R c others = (s, best)" by force
  obtain dup meth why where j: "judge R cs c (s, best) = (dup, meth, why)" by (cases "judge R cs c (s, best)")
  obtain g1 g2 where g: "guard_adjacent R c (s, best) (dup, why) = (g1, g2)" by force
  obtain redundant reason primary where k: "canonicalize c best (g1, g2) = (redundant, reason, primary)"
    by (cases "canonicalize c best (g1, g2)")
  have m: "rm_redundant (mark_of R cs c others) = redundant"
    "rm_duplicate_of (mark_of R cs c others) =
       (case primary of Some p \<Rightarrow> if redundant \<and> p \<noteq> [] \<and> p \<noteq> em_id c then Some p else None | None \<Rightarrow> None)"
    by (simp_all add: mark_of_def n j g k Let_def)
  have "best \<noteq> None"
  proof
    assume b: "best = None"
    with nearest_cases [OF n] have "s = - 1" by simp
    with b j have "\<not> dup" using assms(2) by (auto simp: judge_def threshold_verdict_def)
    with b g have "\<not> g1" by (simp add: guard_adjacent_def)
    with b k m assms(1) show False by (simp add: canonicalize_def)
  qed
  then obtain b where b: "best = Some b" "primary = Some (em_id b)" "em_id b < em_id c"
    using canonicalize_redundant [of c best g1 g2 reason primary] k m assms(1) by auto
  moreover have "b \<in> set others" using nearest_cases [OF n] b(1) by auto
  moreover have "em_id b \<noteq> []" using assms(3) calculation(4) by (auto simp: list_all_iff)
  ultimately show ?thesis using m assms(1) by auto
qed

text \<open>What a handled video becomes: each of its chunks with its mark.\<close>

definition marked_video :: "redundancy_setting \<Rightarrow> string \<Rightarrow> embedded_chunk list \<Rightarrow> embedded_chunk \<Rightarrow> embedded_chunk" where
  "marked_video R v cs c =
     (if em_video c = v
      then c\<lparr>em_mark := Some (mark_of R cs c (filter (\<lambda>d. em_video d = v \<and> em_id d \<noteq> em_id c) cs))\<rparr> else c)"

lemma update_first_map:
  "distinct (map k xs) \<Longrightarrow> (\<And>x. p x \<longleftrightarrow> k x = q) \<Longrightarrow> update_first p f xs = map (\<lambda>x. if p x then f x else x) xs"
proof (induction xs)
  case (Cons a xs)
  then have "k a = q \<Longrightarrow> map (\<lambda>x. if p x then f x else x) xs = xs" by (intro map_idI) (auto simp: image_iff)
  with Cons show ?case by simp
qed simp

lemma text_of_marked: "text_of c (map (\<lambda>x. if P x then x\<lparr>em_mark := g x\<rparr> else x) cs) = text_of c cs"
proof -
  have "find (\<lambda>x. em_video x = em_video c \<and> em_id x = em_id c) (map (\<lambda>x. if P x then x\<lparr>em_mark := g x\<rparr> else x) cs)
      = map_option (\<lambda>x. if P x then x\<lparr>em_mark := g x\<rparr> else x) (find (\<lambda>x. em_video x = em_video c \<and> em_id x = em_id c) cs)"
    by (induction cs) auto
  then show ?thesis by (simp add: text_of_def split: option.split)
qed

lemma mark_of_marked: "mark_of R (map (\<lambda>x. if P x then x\<lparr>em_mark := g x\<rparr> else x) cs) = mark_of R cs"
  unfolding mark_of_def judge_def text_of_marked by (rule refl)

lemma without_filter:
  assumes "distinct (map k xs)" and "i < length xs"
  shows "without i xs = filter (\<lambda>x. k x \<noteq> k (xs ! i)) xs"
  using assms
proof (induction xs arbitrary: i)
  case (Cons x xs)
  show ?case
  proof (cases i)
    case 0
    have "filter (\<lambda>y. k y \<noteq> k x) xs = xs" using Cons.prems by (auto simp: filter_id_conv image_iff)
    with 0 show ?thesis by (simp add: without_def)
  next
    case (Suc j)
    then have "k x \<noteq> k (xs ! j)" using Cons.prems by (auto simp: image_iff)
    then show ?thesis using Suc Cons.prems Cons.IH [of j] by (simp add: without_def)
  qed
qed simp

definition chunk_key :: "embedded_chunk \<Rightarrow> string \<times> string" where
  "chunk_key c = (em_video c, em_id c)"

lemma same_row_key: "same_row c x \<longleftrightarrow> chunk_key x = chunk_key c"
  by (auto simp: same_row_def chunk_key_def)

lemma chunk_key_mark [simp]: "chunk_key (c\<lparr>em_mark := m\<rparr>) = chunk_key c"
  by (simp add: chunk_key_def)

lemma mark_chunk_chunks:
  assumes "do_upsert_existing R \<or> \<not> already_marked c s" and "distinct (map chunk_key (ds_chunks s))"
  shows "ds_chunks (mark_chunk R c others s) =
    map (\<lambda>x. if same_row c x then x\<lparr>em_mark := Some (mark_of R (ds_chunks s) c others)\<rparr> else x) (ds_chunks s)"
  using assms update_first_map [OF assms(2), of "same_row c" "chunk_key c"]
  by (auto simp: mark_chunk_def Let_def same_row_key)

lemma distinct_map_take:
  assumes "distinct (map f xs)" and "Suc k \<le> length xs"
  shows "xs ! k \<notin> set (take k xs)"
  using assms by (auto simp: distinct_map in_set_conv_nth nth_eq_iff_index_eq)

lemma unmarked:
  assumes "\<And>x. x \<in> set (ds_chunks s) \<Longrightarrow> same_row c x \<Longrightarrow> em_mark x = None"
  shows "\<not> already_marked c s"
proof (cases "find (same_row c) (ds_chunks s)")
  case (Some x)
  then have "x \<in> set (ds_chunks s)" "same_row c x" by (auto simp: find_Some_iff)
  with assms Some show ?thesis by (simp add: already_marked_def)
qed (simp add: already_marked_def)

lemma handle_chunks_marked:
  assumes up: "do_upsert_existing R \<or> list_all (\<lambda>c. em_video c = v \<longrightarrow> em_mark c = None) (ds_chunks s)" and dist: "distinct (map chunk_key (ds_chunks s))"
    and items: "items = filter (\<lambda>c. em_video c = v) (ds_chunks s)"
  shows "ds_chunks (handle_redundancy R items s) = map (marked_video R v (ds_chunks s)) (ds_chunks s)"
proof -
  define M where "M x = mark_of R (ds_chunks s) x (filter (\<lambda>d. em_video d = v \<and> em_id d \<noteq> em_id x) (ds_chunks s))" for x
  have inj: "inj_on chunk_key (set (ds_chunks s))" using dist by (simp add: distinct_map)
  have ids: "distinct (map em_id items)"
    using dist by (auto simp: items distinct_map chunk_key_def inj_on_def intro: distinct_filter)
  have others: "without i items = filter (\<lambda>d. em_video d = v \<and> em_id d \<noteq> em_id (items ! i)) (ds_chunks s)"
    if "i < length items" for i
    using without_filter [OF ids that] by (simp add: items conj_commute)
  have step: "ds_chunks (fold (\<lambda>i. mark_chunk R (items ! i) (without i items)) [0..<k] s) =
      map (\<lambda>x. if x \<in> set (take k items) then x\<lparr>em_mark := Some (M x)\<rparr> else x) (ds_chunks s)"
    if "k \<le> length items" for k
    using that
  proof (induction k)
    case (Suc k)
    let ?g = "\<lambda>x. if x \<in> set (take k items) then x\<lparr>em_mark := Some (M x)\<rparr> else x" and ?c = "items ! k"
    let ?t = "fold (\<lambda>i. mark_chunk R (items ! i) (without i items)) [0..<k] s"
    have t: "ds_chunks ?t = map ?g (ds_chunks s)" using Suc by simp
    have c: "?c \<in> set (ds_chunks s)" using Suc.prems nth_mem [of k items] by (simp add: items)
    have "map chunk_key (ds_chunks ?t) = map chunk_key (ds_chunks s)" by (simp add: t)
    then have "distinct (map chunk_key (ds_chunks ?t))" using dist by simp
    moreover have "do_upsert_existing R \<or> \<not> already_marked ?c ?t"
    proof (cases "do_upsert_existing R")
      case False
      have "em_mark x = None" if x: "x \<in> set (ds_chunks ?t)" "same_row ?c x" for x
      proof -
        obtain y where y: "y \<in> set (ds_chunks s)" "x = ?g y" using x(1) t by auto
        then have "chunk_key y = chunk_key ?c" using x(2) by (simp add: same_row_key split: if_splits)
        then have "y = ?c" using inj y(1) c by (simp add: inj_on_eq_iff)
        moreover have "?c \<notin> set (take k items)"
          using distinct_map_take [OF ids Suc.prems] .
        moreover have "em_video ?c = v" using Suc.prems nth_mem [of k items] by (simp add: items)
        ultimately show ?thesis using y up False by (auto simp: list_all_iff)
      qed
      then show ?thesis using unmarked by blast
    qed simp
    ultimately have step: "ds_chunks (mark_chunk R ?c (without k items) ?t) =
        map (\<lambda>x. if same_row ?c x then x\<lparr>em_mark := Some (mark_of R (ds_chunks ?t) ?c (without k items))\<rparr> else x) (ds_chunks ?t)"
      using mark_chunk_chunks by blast
    have "ds_chunks (mark_chunk R ?c (without k items) ?t) =
        map (\<lambda>x. if same_row ?c x then x\<lparr>em_mark := Some (mark_of R (map ?g (ds_chunks s)) ?c (without k items))\<rparr> else x)
          (map ?g (ds_chunks s))"
      using step by (simp only: t)
    also have "mark_of R (map ?g (ds_chunks s)) ?c (without k items) = M ?c"
      using others [of k] Suc.prems by (simp add: mark_of_marked M_def)
    also have "map (\<lambda>x. if same_row ?c x then x\<lparr>em_mark := Some (M ?c)\<rparr> else x) (map ?g (ds_chunks s)) =
        map (\<lambda>x. if x \<in> set (take (Suc k) items) then x\<lparr>em_mark := Some (M x)\<rparr> else x) (ds_chunks s)"
      using c Suc.prems inj by (auto simp: same_row_key take_Suc_conv_app_nth inj_on_eq_iff)
    finally show ?case by simp
  qed simp
  have "set (take (length items) items) = {x \<in> set (ds_chunks s). em_video x = v}" by (simp add: items)
  then show ?thesis
    using step [of "length items"] by (simp add: handle_redundancy_def marked_video_def M_def)
qed

section \<open>Primary chunks\<close>

text \<open>One step from a redundant chunk to the chunk it is a duplicate of.\<close>

definition duplicates :: "embedded_chunk list \<Rightarrow> (string \<times> string) set" where
  "duplicates cs = {(em_id c, p) |c p m. c \<in> set cs \<and> em_mark c = Some m \<and> rm_redundant m \<and> rm_duplicate_of m = Some p}"

lemma duplicatesI:
  "c \<in> set cs \<Longrightarrow> em_mark c = Some m \<Longrightarrow> rm_redundant m \<Longrightarrow> rm_duplicate_of m = Some p \<Longrightarrow> (em_id c, p) \<in> duplicates cs"
  by (auto simp: duplicates_def)

lemma chain_ends:
  fixes ids :: "'a::linorder set"
  assumes "finite ids" and "i \<in> ids" and "\<And>a. a \<in> ids \<Longrightarrow> bad a \<Longrightarrow> \<exists>b\<in>ids. (a, b) \<in> r \<and> b < a"
  shows "\<exists>p\<in>ids. (i, p) \<in> r\<^sup>* \<and> p \<le> i \<and> \<not> bad p"
  using assms(2)
proof (induction "card {x\<in>ids. x < i}" arbitrary: i rule: less_induct)
  case less
  show ?case
  proof (cases "bad i")
    case True
    then obtain b where b: "b \<in> ids" "(i, b) \<in> r" "b < i" using assms(3) less.prems by blast
    have "{x\<in>ids. x < b} \<subset> {x\<in>ids. x < i}" using b by auto
    then have "card {x\<in>ids. x < b} < card {x\<in>ids. x < i}" using assms(1) by (intro psubset_card_mono) auto
    then obtain p where "p \<in> ids" "(b, p) \<in> r\<^sup>*" "p \<le> b" "\<not> bad p" using less.hyps b(1) by blast
    then show ?thesis using b by (meson converse_rtrancl_into_rtrancl less_imp_le order_trans)
  next
    case False
    then show ?thesis using less.prems by blast
  qed
qed

text \<open>The mark of a chunk that is not redundant names no other chunk.\<close>

lemma mark_primary: "\<not> rm_redundant (mark_of R cs c others) \<Longrightarrow> rm_duplicate_of (mark_of R cs c others) = None"
  by (auto simp: mark_of_def Let_def split: prod.splits option.splits)

lemma mark_in_video:
  assumes "- 1 < do_threshold R" and "list_all (\<lambda>c. em_id c \<noteq> []) cs"
    and "m = mark_of R cs c (filter (\<lambda>d. em_video d = v \<and> em_id d \<noteq> em_id c) cs)"
  shows "if rm_redundant m
    then \<exists>d\<in>set cs. em_video d = v \<and> rm_duplicate_of m = Some (em_id d) \<and> em_id d < em_id c
    else rm_duplicate_of m = None"
proof (cases "rm_redundant m")
  case True
  from mark_redundant [OF this [unfolded assms(3)] assms(1)] assms(2)
  show ?thesis using True by (auto simp: assms(3) list_all_iff)
next
  case False
  then show ?thesis using mark_primary by (simp add: assms(3))
qed

text \<open>C30: 
  A video is handled, all of whose chunks get a mark: existing marks are written anew, or there
  are none yet (by default the stage leaves a marked chunk alone, and the marks of an earlier run
  may name a chunk that is gone). Then a chunk of the video that is redundant is the duplicate of
  a chunk of the video with a smaller identifier, the mark of any other chunk names none, and
  from each chunk the duplicates lead to a chunk of the video that is not redundant: marking never
  loses all copies of a passage.
\<close>

theorem duplicates_reach_primary:
  assumes "do_upsert_existing R \<or> list_all (\<lambda>d. em_video d = v \<longrightarrow> em_mark d = None) (ds_chunks s)"
    and "- 1 < do_threshold R" and "distinct (map chunk_key (ds_chunks s))"
    and "list_all (\<lambda>c. em_id c \<noteq> []) (ds_chunks s)" and "c \<in> set (ds_chunks s)" and "em_video c = v"
    and "after = filter (\<lambda>d. em_video d = v) (ds_chunks (handle_redundancy R (filter (\<lambda>d. em_video d = v) (ds_chunks s)) s))"
  shows "(\<exists>m. c\<lparr>em_mark := Some m\<rparr> \<in> set after
      \<and> (if rm_redundant m
         then \<exists>d\<in>set after. rm_duplicate_of m = Some (em_id d) \<and> em_id d < em_id c
         else rm_duplicate_of m = None))
    \<and> (\<exists>p d m. (em_id c, p) \<in> (duplicates after)\<^sup>* \<and> p \<le> em_id c
        \<and> d \<in> set after \<and> em_id d = p \<and> em_mark d = Some m \<and> \<not> rm_redundant m)"
proof -
  let ?cs = "ds_chunks s" and ?f = "marked_video R v (ds_chunks s)"
  let ?vs = "filter (\<lambda>d. em_video d = v) ?cs"
  define M where "M x = mark_of R ?cs x (filter (\<lambda>d. em_video d = v \<and> em_id d \<noteq> em_id x) ?cs)" for x
  have "ds_chunks (handle_redundancy R ?vs s) = map ?f ?cs"
    using handle_chunks_marked [OF assms(1,3) refl] .
  then have after: "after = filter (\<lambda>d. em_video d = v) (map ?f ?cs)" by (simp add: assms(7))
  have f: "?f x = x\<lparr>em_mark := Some (M x)\<rparr>" if "em_video x = v" for x
    using that by (simp add: marked_video_def M_def)
  have mem: "x\<lparr>em_mark := Some (M x)\<rparr> \<in> set after" if "x \<in> set ?cs" "em_video x = v" for x
  proof -
    have "?f x \<in> set (map ?f ?cs)" using that(1) by simp
    then show ?thesis by (simp add: after f [OF that(2)] that(2))
  qed
  have direct: "if rm_redundant (M x) then \<exists>d\<in>set after. rm_duplicate_of (M x) = Some (em_id d) \<and> em_id d < em_id x
      else rm_duplicate_of (M x) = None" for x
  proof (cases "rm_redundant (M x)")
    case True
    with mark_in_video [OF assms(2,4) M_def [of x]] obtain d where
      d: "d \<in> set ?cs" "em_video d = v" "rm_duplicate_of (M x) = Some (em_id d)" "em_id d < em_id x" by auto
    have "em_id (d\<lparr>em_mark := Some (M d)\<rparr>) = em_id d" by simp
    with mem [OF d(1,2)] d(3,4) have "\<exists>d\<in>set after. rm_duplicate_of (M x) = Some (em_id d) \<and> em_id d < em_id x" by metis
    with True show ?thesis by (simp only: if_True)
  next
    case False
    with mark_in_video [OF assms(2,4) M_def [of x]] show ?thesis by simp
  qed
  let ?bad = "\<lambda>i. \<forall>x\<in>set ?vs. em_id x = i \<longrightarrow> rm_redundant (M x)"
  have "\<exists>p\<in>em_id ` set ?vs. (em_id c, p) \<in> (duplicates after)\<^sup>* \<and> p \<le> em_id c \<and> \<not> ?bad p"
  proof (rule chain_ends)
    show "finite (em_id ` set ?vs)" by simp
    show "em_id c \<in> em_id ` set ?vs" using assms(5,6) by auto
    fix a assume "a \<in> em_id ` set ?vs" and bad: "?bad a"
    then obtain x where x: "x \<in> set ?cs" "em_video x = v" "em_id x = a" "rm_redundant (M x)" by auto
    with mark_in_video [OF assms(2,4) M_def [of x]] obtain d where
      d: "d \<in> set ?cs" "em_video d = v" "rm_duplicate_of (M x) = Some (em_id d)" "em_id d < em_id x" by auto
    have "em_id (x\<lparr>em_mark := Some (M x)\<rparr>) = a" using x(3) by simp
    moreover have "em_mark (x\<lparr>em_mark := Some (M x)\<rparr>) = Some (M x)" by simp
    ultimately have "(a, em_id d) \<in> duplicates after"
      using duplicatesI [OF mem [OF x(1,2)]] x(4) d(3) by metis
    then show "\<exists>b\<in>em_id ` set ?vs. (a, b) \<in> duplicates after \<and> b < a" using d x(3) by auto
  qed
  then obtain p where p: "(em_id c, p) \<in> (duplicates after)\<^sup>*" "p \<le> em_id c" "\<not> ?bad p" by blast
  from p(3) obtain x where x: "x \<in> set ?cs" "em_video x = v" "em_id x = p" "\<not> rm_redundant (M x)" by auto
  have "x\<lparr>em_mark := Some (M x)\<rparr> \<in> set after \<and> em_id (x\<lparr>em_mark := Some (M x)\<rparr>) = p
      \<and> em_mark (x\<lparr>em_mark := Some (M x)\<rparr>) = Some (M x)"
    using mem [OF x(1,2)] x(3) by simp
  with p(1,2) x(4) mem [OF assms(5,6)] direct [of c] show ?thesis by blast
qed

text \<open>Why the marks must be new: a chunk that was marked before is skipped, and its mark may name
  a chunk that no longer exists.\<close>

lemma stale_mark_dangles:
  assumes "\<not> do_upsert_existing R" and "ds_chunks s = [c]" and "em_mark c = Some m" and "em_video c = v"
  shows "ds_chunks (handle_redundancy R (filter (\<lambda>d. em_video d = v) (ds_chunks s)) s) = [c]"
  using assms by (simp add: handle_redundancy_def mark_chunk_def already_marked_def same_row_def)

section \<open>The guard for neighbours\<close>

lemma suffix_num_cases: "0 \<le> suffix_num i \<or> suffix_num i = - (10 ^ 9)"
proof -
  have "0 \<le> n" if "int_of_str p = Some n" "p \<noteq> []" "list_all is_digit p" for p n
  proof -
    have "str_strip p = p" using that by (intro str_strip_id) (auto simp: list_all_iff is_digit_not_space)
    moreover have "hd p \<noteq> CHR ''-''" "hd p \<noteq> CHR ''+''" using that by (cases p; auto simp: is_digit_def)+
    ultimately show ?thesis using that by (cases p) (auto simp: int_of_str_def)
  qed
  then show ?thesis by (auto simp: suffix_num_def Let_def split: option.split)
qed

text \<open>An identifier without a colon that is not a number, as \<open>uuid4\<close> gives them.\<close>

definition uuid_like :: "string \<Rightarrow> bool" where
  "uuid_like i = (CHR '':'' \<notin> set i \<and> CHR ''-'' \<in> set i)"

lemma suffix_num_uuid: "uuid_like i \<Longrightarrow> suffix_num i = - (10 ^ 9)"
  by (auto simp: uuid_like_def suffix_num_def split_n_no_sep Let_def list_all_iff is_digit_def)

lemma uuid_never_adjacent: "uuid_like (em_id c) \<Longrightarrow> \<not> adjacent c d"
  using suffix_num_cases [of "em_id d"] suffix_num_uuid [of "em_id c"] by (auto simp: adjacent_def)

text \<open>
  On the identifiers that the chunk stage makes, the settings for neighbours have no effect:
  neither skipping them, nor the fallback, nor the override.
\<close>

theorem adjacency_settings_without_effect:
  assumes "uuid_like (em_id c)"
  shows "mark_of (R\<lparr>do_skip_adjacent := a, do_nonadj_fallback := f, do_adj_override := x\<rparr>) cs c others = mark_of R cs c others"
proof -
  have n: "nearest (R\<lparr>do_skip_adjacent := a, do_nonadj_fallback := f, do_adj_override := x\<rparr>) c others = nearest R c others"
    using uuid_never_adjacent [OF assms] by (simp add: nearest_def split: prod.split option.split)
  have j: "judge (R\<lparr>do_skip_adjacent := a, do_nonadj_fallback := f, do_adj_override := x\<rparr>) cs c p = judge R cs c p" for p
    by (simp add: judge_def threshold_verdict_def split: prod.split option.split sum.split)
  have g: "guard_adjacent (R\<lparr>do_skip_adjacent := a, do_nonadj_fallback := f, do_adj_override := x\<rparr>) c p q = guard_adjacent R c p q" for p q
    using uuid_never_adjacent [OF assms] by (simp add: guard_adjacent_def split: prod.split option.split)
  show ?thesis by (simp add: mark_of_def n j g)
qed

text \<open>The method of the agent is never used while its module cannot be imported.\<close>

lemma no_agent_method:
  assumes "do_agent R = None"
  shows "rm_method (mark_of R cs c others) = ''cosine''"
proof -
  obtain dup meth why where j: "judge R cs c (nearest R c others) = (dup, meth, why)"
    by (cases "judge R cs c (nearest R c others)")
  then have "meth = ''cosine''"
    using assms by (auto simp: judge_def threshold_verdict_def split: prod.splits option.splits)
  then show ?thesis by (simp add: mark_of_def Let_def j split: prod.split)
qed

section \<open>Concrete chunks\<close>

definition some_embedded :: "string \<Rightarrow> real list \<Rightarrow> embedded_chunk" where
  "some_embedded i v = \<lparr> em_video = ''v'', em_id = i, em_vector = v, em_text = ''text'', em_mark = None \<rparr>"

definition some_redundancy :: redundancy_setting where
  "some_redundancy =
     \<lparr> do_threshold = 92/100, do_llm_margin = 3/100, do_nonadj_fallback = True, do_adj_override = 975/1000,
       do_skip_adjacent = True, do_use_llm = False, do_upsert_existing = True, do_video = [], do_input_videos = [],
       do_agent = None \<rparr>"

definition redundancy_start :: redundancy_state where
  "redundancy_start =
     \<lparr> ds_chunks = [some_embedded ''a-1'' [1], some_embedded ''b-2'' [1]],
       ds_stats = \<lparr> processed = 0, skipped = 0, failed = 0, updated = 0 \<rparr> \<rparr>"

lemma demo_mark:
  "mark_of some_redundancy cs (some_embedded ''b-2'' [1]) [some_embedded ''a-1'' [1]] =
    \<lparr> rm_redundant = True, rm_duplicate_of = Some ''a-1'', rm_score = 1, rm_method = ''cosine'', rm_reason = Some ''high_sim'' \<rparr>"
proof -
  have "uuid_like ''b-2''" by code_simp
  then have n: "\<not> adjacent (some_embedded ''b-2'' [1]) d" for d
    using uuid_never_adjacent [of "some_embedded ''b-2'' [1]"] by (simp add: some_embedded_def)
  have c: "cosine [1] [1] = 1" by (rule cosine_self) simp
  show ?thesis
    using n c by (simp add: mark_of_def nearest_def best_of_def keep_best_def judge_def threshold_verdict_def
        guard_adjacent_def canonicalize_def some_redundancy_def some_embedded_def)
qed

definition fresh_redundancy :: redundancy_setting where
  "fresh_redundancy = some_redundancy\<lparr>do_upsert_existing := False\<rparr>"

definition demo_after :: "embedded_chunk list" where
  "demo_after = filter (\<lambda>d. em_video d = ''v'')
     (ds_chunks (handle_redundancy fresh_redundancy (filter (\<lambda>d. em_video d = ''v'') (ds_chunks redundancy_start)) redundancy_start))"

lemma duplicates_reach_primary_witness:
  "(\<exists>m. (some_embedded ''b-2'' [1])\<lparr>em_mark := Some m\<rparr> \<in> set demo_after)
    \<and> (\<exists>p d m. (''b-2'', p) \<in> (duplicates demo_after)\<^sup>* \<and> p \<le> ''b-2''
        \<and> d \<in> set demo_after \<and> em_id d = p \<and> em_mark d = Some m \<and> \<not> rm_redundant m)"
proof -
  have "list_all (\<lambda>d. em_video d = ''v'' \<longrightarrow> em_mark d = None) (ds_chunks redundancy_start)"
    "- 1 < do_threshold fresh_redundancy" "distinct (map chunk_key (ds_chunks redundancy_start))"
    "list_all (\<lambda>c. em_id c \<noteq> []) (ds_chunks redundancy_start)"
    "some_embedded ''b-2'' [1] \<in> set (ds_chunks redundancy_start)" "em_video (some_embedded ''b-2'' [1]) = ''v''"
    by (simp_all add: redundancy_start_def fresh_redundancy_def some_redundancy_def some_embedded_def chunk_key_def)
  from duplicates_reach_primary [OF disjI2 [OF this(1)] this(2-6) demo_after_def]
  show ?thesis by (auto simp: some_embedded_def)
qed

lemma adjacency_settings_without_effect_witness:
  "rm_duplicate_of (mark_of (some_redundancy\<lparr>do_skip_adjacent := False, do_nonadj_fallback := False, do_adj_override := 0\<rparr>)
     [] (some_embedded ''b-2'' [1]) [some_embedded ''a-1'' [1]]) = Some ''a-1''"
proof -
  have "uuid_like (em_id (some_embedded ''b-2'' [1]))" by (simp add: some_embedded_def uuid_like_def)
  from adjacency_settings_without_effect [OF this] demo_mark show ?thesis by simp
qed

text \<open>
  With numbered identifiers the fallback replaces a neighbour by any other chunk, however little
  it resembles: a copy right beside its original is not found, whatever the override.
\<close>

lemma fallback_hides_copy:
  "rm_redundant (mark_of some_redundancy [] (some_embedded ''v:2'' [1]) [some_embedded ''v:1'' [1], some_embedded ''v:9'' []]) = False"
proof -
  have c: "cosine [1] [1] = 1" by (rule cosine_self) simp
  have s: "suffix_num ''v:2'' = 2" "suffix_num ''v:1'' = 1" "suffix_num ''v:9'' = 9" by code_simp+
  show ?thesis
    using c s by (simp add: mark_of_def nearest_def best_of_def keep_best_def judge_def threshold_verdict_def
        guard_adjacent_def canonicalize_def some_redundancy_def some_embedded_def adjacent_def cosine_def)
qed

end
