(* ===== verification/Trust.thy ===== *)
theory Trust
  imports Redundancy Redundancy_Facts
begin

text \<open>
  \<open>domain/ingestion/stages/trust.py\<close> and \<open>domain/ingestion/agents/trust.py\<close>: the trust score of
  a chunk, by a formula or by the model, and what is made of the scores for the entities.

  The metadata of a chunk is a dictionary, its text a text. The call of the model and the JSON
  decoder are parameters of the agent; creating it raises without a key.
\<close>

section \<open>Configuration\<close>

record trust_config = base_config +
  tg_use_llm :: bool
  tg_auto_llm :: bool
  tg_band_low :: rat
  tg_band_high :: rat
  tg_neighbors :: int

definition env_float_or :: "environ \<Rightarrow> string \<Rightarrow> rat \<Rightarrow> rat" where
  "env_float_or env k d = (case map_of env k of None \<Rightarrow> d | Some s \<Rightarrow> (case float_of_str s of Some r \<Rightarrow> r | None \<Rightarrow> d))"

definition env_int_or :: "environ \<Rightarrow> string \<Rightarrow> int \<Rightarrow> int" where
  "env_int_or env k d = (case map_of env k of None \<Rightarrow> d | Some s \<Rightarrow> (case int_of_str s of Some i \<Rightarrow> i | None \<Rightarrow> d))"

definition trust_from_args :: "string \<Rightarrow> dict \<Rightarrow> environ \<Rightarrow> pyval \<Rightarrow> trust_config res" where
  "trust_from_args paths_db args env default_db =
     bindR (base_from_args paths_db args env default_db PNone PNone) (\<lambda>base.
     (let auto = env_get env ''TRUST_LLM_AUTO'' ''true''
      in Inr (base_config.extend base (trust_config.fields
           (truthy (dget args ''llm'') \<or> map_of env ''TRUST_WITH_LLM'' = Some ''1'')
           (str_lower (if auto = [] then ''true'' else auto) \<in> set [''1'', ''true'', ''yes'', ''on''])
           (env_float_or env ''TRUST_LLM_BAND_LOW'' (40/100))
           (env_float_or env ''TRUST_LLM_BAND_HIGH'' (70/100))
           (env_int_or env ''TRUST_LLM_NEIGHBORS'' 2)))))"

section \<open>The formula\<close>

text \<open>\<open>tc_age\<close> is \<open>None\<close> where the metadata holds no age, or null; \<open>tc_resolved\<close> where the
  resolution of the chunk is not completed.\<close>

record trust_chunk =
  tc_key :: string
  tc_video :: string
  tc_id :: string
  tc_redundancy :: real
  tc_redundant :: bool
  tc_engagement :: real
  tc_age :: "real option"
  tc_code :: bool
  tc_text :: string
  tc_vector :: "real list"
  tc_trust :: "(real \<times> string) option"
  tc_resolved :: "int option"

definition sigmoid :: "real \<Rightarrow> real" where
  "sigmoid x = 1 / (1 + exp (- x))"

text \<open>\<open>age or 365\<close>: an age of 0 counts as none.\<close>

definition age_of :: "trust_chunk \<Rightarrow> real" where
  "age_of c = (case tc_age c of None \<Rightarrow> 365 | Some a \<Rightarrow> if a = 0 then 365 else a)"

definition compute_trust_score :: "trust_chunk \<Rightarrow> real" where
  "compute_trust_score c =
     (let consensus = (if tc_redundant c then tc_redundancy c else 1/2 * tc_redundancy c);
          recency = sigmoid (max (- 6) (min 6 ((180 - age_of c) / 60)));
          engagement = max 0 (min 1 (tc_engagement c));
          code_valid = (if tc_code c then 1 else 6/10);
          score = 4/10 * consensus + 3/10 * recency + 2/10 * engagement + 1/10 * code_valid
      in max 0 (min 1 score))"

section \<open>The agent\<close>

record trust_payload =
  tp_text :: string
  tp_similar :: "(string \<times> string) list"
  tp_code_valid :: bool

definition agent_score :: "(trust_payload \<Rightarrow> string res) \<Rightarrow> (string \<Rightarrow> pyval res) \<Rightarrow> trust_payload \<Rightarrow> real option" where
  "agent_score call loads p =
     (case call p of
        Inl e \<Rightarrow> None
      | Inr out \<Rightarrow>
          if out = [] then None
          else (case bindR (loads out) (\<lambda>data. bindR (get_attr data ''trust_score'') py_float) of
                  Inl e \<Rightarrow> None
                | Inr s \<Rightarrow> Some (of_rat s)))"

section \<open>State\<close>

record trust_state =
  us_chunks :: "trust_chunk list"
  us_stats :: stage_statistics

record trust_setting =
  uo_use_llm :: bool
  uo_auto_llm :: bool
  uo_band_low :: real
  uo_band_high :: real
  uo_neighbors :: int
  uo_upsert_existing :: bool
  uo_video :: string
  uo_input_videos :: "string list"
  uo_agent :: "exn option"
  uo_call :: "trust_payload \<Rightarrow> string res"
  uo_loads :: "string \<Rightarrow> pyval res"

definition trust_docs :: "trust_setting \<Rightarrow> trust_state \<Rightarrow> trust_chunk list" where
  "trust_docs U s =
     filter (\<lambda>c. if uo_video U \<noteq> [] then tc_video c = uo_video U
                 else uo_input_videos U = [] \<or> tc_video c \<in> set (uo_input_videos U)) (us_chunks s)"

section \<open>One chunk\<close>

definition or_unit :: "real \<Rightarrow> real" where
  "or_unit x = (if x = 0 then 1 else x)"

definition trust_cos :: "real list \<Rightarrow> real list \<Rightarrow> real" where
  "trust_cos a b =
     (if a = [] \<or> b = [] \<or> length a \<noteq> length b then 0
      else dot a b / (or_unit (vec_length a) * or_unit (vec_length b)))"

text \<open>The closest of the first 50 chunks of the video, in descending order of similarity.\<close>

definition similar_chunks :: "trust_setting \<Rightarrow> trust_chunk \<Rightarrow> trust_chunk list \<Rightarrow> (string \<times> string) list" where
  "similar_chunks U c cs =
     map (\<lambda>d. (tc_id d, take 500 (tc_text d)))
       (take (nat (uo_neighbors U))
          (sort_key (\<lambda>d. - trust_cos (tc_vector c) (tc_vector d))
             (filter (\<lambda>d. tc_id d \<noteq> tc_id c) (take 50 (filter (\<lambda>d. tc_video d = tc_video c) cs)))))"

definition wants_llm :: "trust_setting \<Rightarrow> trust_chunk \<Rightarrow> bool" where
  "wants_llm U c =
     (uo_auto_llm U \<and> (uo_band_low U \<le> tc_redundancy c \<and> tc_redundancy c \<le> uo_band_high U \<or> tc_code c \<or> age_of c < 30))"

definition trust_of :: "trust_setting \<Rightarrow> trust_chunk list \<Rightarrow> trust_chunk \<Rightarrow> real \<times> string" where
  "trust_of U cs c =
     (if uo_use_llm U \<and> wants_llm U c \<and> uo_agent U = None
      then (case agent_score (uo_call U) (uo_loads U)
                   \<lparr> tp_text = tc_text c, tp_similar = similar_chunks U c cs, tp_code_valid = tc_code c \<rparr> of
              Some s \<Rightarrow> (s, ''llm'')
            | None \<Rightarrow> (compute_trust_score c, ''heuristic''))
      else (compute_trust_score c, ''heuristic''))"

definition already_trusted :: "trust_chunk \<Rightarrow> trust_state \<Rightarrow> bool" where
  "already_trusted c s = (case find (\<lambda>x. tc_key x = tc_key c) (us_chunks s) of None \<Rightarrow> False | Some x \<Rightarrow> tc_trust x \<noteq> None)"

definition handle_trust :: "trust_setting \<Rightarrow> trust_chunk \<Rightarrow> trust_state \<Rightarrow> trust_state" where
  "handle_trust U c s =
     (if \<not> uo_upsert_existing U \<and> already_trusted c s
      then s\<lparr>us_stats := (us_stats s)\<lparr>skipped := Suc (skipped (us_stats s))\<rparr>\<rparr>
      else s\<lparr>us_chunks := update_first (\<lambda>x. tc_key x = tc_key c) (\<lambda>x. x\<lparr>tc_trust := Some (trust_of U (us_chunks s) c)\<rparr>) (us_chunks s),
             us_stats := (us_stats s)\<lparr>updated := Suc (updated (us_stats s))\<rparr>\<rparr>)"

section \<open>Trust of the entities\<close>

record trust_info =
  ti_score :: real
  ti_sources :: nat
  ti_method :: string
  ti_video :: string

record entity_trust =
  et_scores :: "(string \<times> trust_info) list"
  et_total :: nat
  et_average :: real
  et_high :: nat

definition scored_chunks :: "string option \<Rightarrow> trust_chunk list \<Rightarrow> (trust_chunk \<times> real \<times> string) list" where
  "scored_chunks v cs =
     List.map_filter (\<lambda>c. case tc_trust c of
         None \<Rightarrow> None
       | Some (s, m) \<Rightarrow> if v = None \<or> v = Some [] \<or> v = Some (tc_video c) then Some (c, s, m) else None) cs"

definition add_trust ::
  "trust_chunk \<times> real \<times> string \<Rightarrow> (string \<times> real \<times> string \<times> string) list \<times> (string \<times> nat) list
    \<Rightarrow> (string \<times> real \<times> string \<times> string) list \<times> (string \<times> nat) list" where
  "add_trust = (\<lambda>(c, s, m) (infos, cnt).
     (case tc_resolved c of
        Some n \<Rightarrow> if 0 < n then (AList.update (tc_id c) (s, m, tc_video c) infos, dd_add (tc_id c) 1 cnt) else (infos, cnt)
      | None \<Rightarrow> (infos, cnt)))"

definition aggregate_trust :: "(string \<times> nat) list \<Rightarrow> string \<times> real \<times> string \<times> string \<Rightarrow> string \<times> trust_info" where
  "aggregate_trust cnt = (\<lambda>(i, s, m, v).
     (let n = (case map_of cnt i of None \<Rightarrow> 0 | Some k \<Rightarrow> k)
      in (i, \<lparr> ti_score = s * real (min n 5) / 5, ti_sources = n, ti_method = m, ti_video = v \<rparr>)))"

definition get_entity_trust_scores :: "string option \<Rightarrow> trust_state \<Rightarrow> entity_trust" where
  "get_entity_trust_scores v s =
     (let (infos, cnt) = fold add_trust
            (filter (\<lambda>(c, x). tc_resolved c \<noteq> None) (scored_chunks v (us_chunks s))) ([], []);
          agg = map (aggregate_trust cnt) infos
      in \<lparr> et_scores = agg, et_total = length agg,
           et_average = (if agg = [] then 0 else sum_list (map (ti_score \<circ> snd) agg) / real (length agg)),
           et_high = length (filter (\<lambda>(i, t). 7/10 \<le> ti_score t) agg) \<rparr>)"

record trusted_entity =
  te_id :: string
  te_chunks :: "string list"
  te_trust :: "(real \<times> nat) option"

definition entity_scores :: "(string \<times> trust_info) list \<Rightarrow> trusted_entity \<Rightarrow> real list" where
  "entity_scores scores e = List.map_filter (\<lambda>i. map_option ti_score (map_of scores i)) (te_chunks e)"

text \<open>The update goes to the first entity with the identifier.\<close>

definition propagate_one ::
  "(string \<times> trust_info) list \<Rightarrow> trusted_entity \<Rightarrow> trusted_entity list \<times> nat \<Rightarrow> trusted_entity list \<times> nat" where
  "propagate_one scores e = (\<lambda>(es, n).
     (let xs = entity_scores scores e
      in if xs = [] then (es, n)
         else (update_first (\<lambda>x. te_id x = te_id e)
                 (\<lambda>x. x\<lparr>te_trust := Some (sum_list xs / real (length xs), length xs)\<rparr>) es, Suc n)))"

definition propagate_trust_to_entities ::
  "string option \<Rightarrow> trust_state \<Rightarrow> trusted_entity list \<Rightarrow> trusted_entity list \<times> (nat \<times> nat \<times> real) option" where
  "propagate_trust_to_entities v s es =
     (let scores = et_scores (get_entity_trust_scores v s)
      in if scores = [] then (es, None)
         else (let (es', n) = fold (propagate_one scores) es (es, 0)
               in (es', Some (n, length scores, real n / real (length scores)))))"

section \<open>Statistics\<close>

record trust_statistics =
  tt_total :: nat
  tt_average :: real
  tt_range :: "(real \<times> real) option"
  tt_methods :: "(string \<times> nat) list"
  tt_high :: nat
  tt_low :: nat
  tt_high_percentage :: real
  tt_low_percentage :: real

definition get_trust_statistics :: "string option \<Rightarrow> trust_state \<Rightarrow> trust_statistics" where
  "get_trust_statistics v s =
     (let cs = scored_chunks v (us_chunks s); n = length cs; xs = map (\<lambda>(c, x, m). x) cs;
          high = length (filter (\<lambda>x. 7/10 \<le> x) xs); low = length (filter (\<lambda>x. x \<le> 3/10) xs)
      in if cs = []
         then \<lparr> tt_total = 0, tt_average = 0, tt_range = None, tt_methods = [], tt_high = 0, tt_low = 0,
                tt_high_percentage = 0, tt_low_percentage = 0 \<rparr>
         else \<lparr> tt_total = n, tt_average = sum_list xs / real n, tt_range = Some (Min (set xs), Max (set xs)),
                tt_methods = fold (\<lambda>(c, x, m). dd_add m 1) cs [], tt_high = high, tt_low = low,
                tt_high_percentage = real high / real n * 100, tt_low_percentage = real low / real n * 100 \<rparr>)"

text \<open>
  Facts of the trust stage: range and monotony of the formula, the age of 0, the similarity it
  shares with the redundancy stage, and the scores of the entities.
\<close>

section \<open>The formula\<close>

lemma sigmoid_range: "0 < sigmoid x \<and> sigmoid x < 1"
  using exp_gt_zero [of "- x"] by (simp add: sigmoid_def del: exp_gt_zero)

lemma sigmoid_mono: "x \<le> y \<Longrightarrow> sigmoid x \<le> sigmoid y"
  using exp_gt_zero [of "- x"] exp_gt_zero [of "- y"] unfolding sigmoid_def
  by (intro divide_left_mono) (auto simp: add_pos_pos)

lemma sigmoid_strict_mono: "x < y \<Longrightarrow> sigmoid x < sigmoid y"
  using exp_gt_zero [of "- x"] exp_gt_zero [of "- y"] unfolding sigmoid_def
  by (intro divide_strict_left_mono) (auto simp: add_pos_pos)

definition consensus_of :: "trust_chunk \<Rightarrow> real" where
  "consensus_of c = (if tc_redundant c then tc_redundancy c else tc_redundancy c / 2)"

text \<open>At least as redundant, as engaging, as young and as much code.\<close>

definition at_least_as_good :: "trust_chunk \<Rightarrow> trust_chunk \<Rightarrow> bool" where
  "at_least_as_good c d =
     (consensus_of d \<le> consensus_of c \<and> tc_engagement d \<le> tc_engagement c \<and> age_of c \<le> age_of d \<and> (tc_code d \<longrightarrow> tc_code c))"

lemma clamp_mono: "x \<le> y \<Longrightarrow> max a (min b x) \<le> max a (min b (y::real))"
  by (simp add: max_def min_def)

lemma trust_score_mono:
  assumes "at_least_as_good c d"
  shows "compute_trust_score d \<le> compute_trust_score c \<and> 0 \<le> compute_trust_score d \<and> compute_trust_score c \<le> 1"
proof -
  have r: "sigmoid (max (- 6) (min 6 ((180 - age_of d) / 60))) \<le> sigmoid (max (- 6) (min 6 ((180 - age_of c) / 60)))"
    using assms by (intro sigmoid_mono clamp_mono) (simp add: at_least_as_good_def)
  have e: "max 0 (min 1 (tc_engagement d)) \<le> max 0 (min 1 (tc_engagement c))"
    using assms by (intro clamp_mono) (simp add: at_least_as_good_def)
  have k: "(if tc_code d then 1 else 6/10 :: real) \<le> (if tc_code c then 1 else 6/10)"
    using assms by (auto simp: at_least_as_good_def)
  have s: "(if tc_redundant d then tc_redundancy d else 1/2 * tc_redundancy d) \<le> (if tc_redundant c then tc_redundancy c else 1/2 * tc_redundancy c)"
    using assms by (simp add: at_least_as_good_def consensus_of_def split: if_splits)
  have "4/10 * u1 + 3/10 * u2 + 2/10 * u3 + 1/10 * u4 \<le> 4/10 * v1 + 3/10 * v2 + 2/10 * v3 + 1/10 * (v4::real)"
    if "u1 \<le> v1" "u2 \<le> v2" "u3 \<le> v3" "u4 \<le> v4" for u1 u2 u3 u4 v1 v2 v3 v4
    using that by linarith
  from clamp_mono [OF this [OF s r e k], of 0 1]
  have "compute_trust_score d \<le> compute_trust_score c" unfolding compute_trust_score_def Let_def .
  moreover have "0 \<le> max 0 (min 1 x) \<and> max 0 (min 1 x) \<le> 1" for x :: real by simp
  ultimately show ?thesis unfolding compute_trust_score_def Let_def by blast
qed

text \<open>
  The score is between 0 and 1, and a chunk that is at least as good as another in every respect
  (consensus, engagement, age, code) has at least its score.
\<close>

theorem trust_score_monotone:
  assumes "at_least_as_good c d"
  shows "compute_trust_score d \<le> compute_trust_score c \<and> 0 \<le> compute_trust_score d \<and> compute_trust_score c \<le> 1"
  using assms by (rule trust_score_mono)

text \<open>
  A chunk of today, with an age of 0 days, is scored as if it were a year old, and never above
  the same chunk a day later.
\<close>

lemma age_zero_counts_as_a_year:
  "compute_trust_score (c\<lparr>tc_age := Some 0\<rparr>) = compute_trust_score (c\<lparr>tc_age := Some 365\<rparr>)
    \<and> compute_trust_score (c\<lparr>tc_age := Some 0\<rparr>) \<le> compute_trust_score (c\<lparr>tc_age := Some 1\<rparr>)"
proof -
  have g: "at_least_as_good (c\<lparr>tc_age := Some a\<rparr>) (c\<lparr>tc_age := Some b\<rparr>)"
    if "(if a = 0 then 365 else a) \<le> (if b = 0 then 365 else b)" for a b
    using that by (simp add: at_least_as_good_def consensus_of_def age_of_def)
  show ?thesis
    using trust_score_mono [OF g [of 0 365]] trust_score_mono [OF g [of 365 0]] trust_score_mono [OF g [of 1 0]] by simp
qed

section \<open>Similarity\<close>

lemma dot_zero_length:
  assumes "length a = length b" and "vec_length a = 0 \<or> vec_length b = 0"
  shows "dot a b = 0"
proof -
  have "sum_list (map (\<lambda>x. x * x) a) * sum_list (map (\<lambda>x. x * x) b) = 0"
    using assms(2) by (auto simp: vec_length_def)
  then have "(dot a b)\<^sup>2 \<le> 0" using cauchy_schwarz [OF assms(1)] by (simp only:)
  then show ?thesis by simp
qed

text \<open>The two stages compare embeddings alike, although they treat vectors of length 0 apart.\<close>

lemma trust_cos_cosine: "trust_cos a b = cosine a b"
  using dot_zero_length [of a b] by (auto simp: trust_cos_def cosine_def or_unit_def)

section \<open>Scores of the entities\<close>

definition count_at :: "(string \<times> nat) list \<Rightarrow> string \<Rightarrow> nat" where
  "count_at cnt i = (case map_of cnt i of None \<Rightarrow> 0 | Some k \<Rightarrow> k)"

lemma count_at_dd_add: "count_at (dd_add k 1 cnt) i = count_at cnt i + (if i = k then 1 else 0)"
  by (auto simp: count_at_def map_of_dd_add split: option.split)

text \<open>The chunks that count for an entity: scored, of the video, with their entities stored.\<close>

definition counts_for :: "string option \<Rightarrow> trust_chunk \<Rightarrow> bool" where
  "counts_for v c = (tc_trust c \<noteq> None \<and> (v = None \<or> v = Some [] \<or> v = Some (tc_video c))
     \<and> (case tc_resolved c of None \<Rightarrow> False | Some n \<Rightarrow> 0 < n))"

text \<open>What is expected of a chunk: a fifth of its own score, from one source.\<close>

definition fifth :: "trust_chunk \<Rightarrow> string \<times> trust_info" where
  "fifth c = (let x = the (tc_trust c) in
     (tc_id c, \<lparr> ti_score = fst x / 5, ti_sources = 1, ti_method = snd x, ti_video = tc_video c \<rparr>))"

definition info_of :: "trust_chunk \<Rightarrow> string \<times> real \<times> string \<times> string" where
  "info_of c = (let x = the (tc_trust c) in (tc_id c, fst x, snd x, tc_video c))"

definition with_score :: "trust_chunk \<Rightarrow> trust_chunk \<times> real \<times> string" where
  "with_score c = (c, the (tc_trust c))"

lemma scored_counts:
  "fold add_trust (filter (\<lambda>(c, x). tc_resolved c \<noteq> None) (scored_chunks v cs)) p
    = fold add_trust (map with_score (filter (counts_for v) cs)) p"
  by (induction cs arbitrary: p)
    (auto simp: scored_chunks_def List.map_filter_simps counts_for_def with_score_def add_trust_def split: option.splits)

lemma update_fresh: "k \<notin> fst ` set xs \<Longrightarrow> AList.update k x xs = xs @ [(k, x)]"
  by (induction xs) auto

lemma add_trust_counted:
  assumes "counts_for v c"
  shows "add_trust (with_score c) (infos, cnt)
    = (AList.update (tc_id c) (snd (info_of c)) infos, dd_add (tc_id c) 1 cnt)"
  using assms by (auto simp: counts_for_def add_trust_def with_score_def info_of_def Let_def split: option.splits)

lemma add_trust_counts:
  assumes "list_all (counts_for v) cs"
  shows "count_at (snd (fold add_trust (map with_score cs) p)) i = count_at (snd p) i + length (filter (\<lambda>c. tc_id c = i) cs)"
  using assms
proof (induction cs arbitrary: p)
  case (Cons c cs)
  obtain infos cnt where p: "p = (infos, cnt)" by force
  from Cons show ?case by (simp add: p add_trust_counted [of v c] count_at_dd_add [simplified])
qed simp

lemma add_trust_infos:
  assumes "list_all (counts_for v) cs" and "distinct (map tc_id cs)" and "tc_id ` set cs \<inter> fst ` set (fst p) = {}"
  shows "fst (fold add_trust (map with_score cs) p) = fst p @ map info_of cs"
  using assms
proof (induction cs arbitrary: p)
  case (Cons c cs)
  obtain infos cnt where p: "p = (infos, cnt)" by force
  have "add_trust (with_score c) p = (infos @ [info_of c], dd_add (tc_id c) 1 cnt)"
    using Cons.prems by (simp add: p add_trust_counted [of v c] update_fresh info_of_def Let_def)
  moreover have "tc_id ` set cs \<inter> fst ` set (infos @ [info_of c]) = {}"
    using Cons.prems by (auto simp: p info_of_def Let_def)
  ultimately show ?case using Cons by (simp add: p)
qed simp

lemma filter_one: "distinct (map f cs) \<Longrightarrow> c \<in> set cs \<Longrightarrow> length (filter (\<lambda>d. f d = f c) cs) = 1"
  by (induction cs) (auto simp: filter_empty_conv image_iff)

lemma distinct_map_filtered: "distinct (map f cs) \<Longrightarrow> distinct (map f (filter P cs))"
  by (simp add: distinct_map inj_on_def)

lemma entity_scores_are_fifths:
  assumes "distinct (map tc_id (us_chunks s))"
  shows "et_scores (get_entity_trust_scores v s) = map fifth (filter (counts_for v) (us_chunks s))"
proof -
  define cs where "cs = filter (counts_for v) (us_chunks s)"
  obtain infos cnt where f: "fold add_trust (map with_score cs) ([], []) = (infos, cnt)" by force
  have ok: "list_all (counts_for v) cs" by (simp add: cs_def list_all_iff)
  have d: "distinct (map tc_id cs)" unfolding cs_def by (rule distinct_map_filtered [OF assms])
  have infos: "infos = map info_of cs"
    using add_trust_infos [OF ok d, of "([], [])"] by (simp add: f)
  have "aggregate_trust cnt (info_of c) = fifth c" if "c \<in> set cs" for c
    using add_trust_counts [OF ok, of "([], [])" "tc_id c"] filter_one [OF d that]
    by (simp add: f aggregate_trust_def info_of_def fifth_def Let_def count_at_def)
  then have "map (aggregate_trust cnt) infos = map fifth cs" by (simp add: infos)
  moreover have "et_scores (get_entity_trust_scores v s) = map (aggregate_trust cnt) infos"
    unfolding get_entity_trust_scores_def Let_def scored_counts cs_def [symmetric] f by simp
  ultimately show ?thesis by (simp add: cs_def)
qed

definition trusted :: "trust_chunk \<Rightarrow> bool" where
  "trusted c = (case tc_trust c of None \<Rightarrow> True | Some (x, m) \<Rightarrow> 0 \<le> x \<and> x \<le> 1)"

lemma fifth_range: "trusted c \<Longrightarrow> tc_trust c \<noteq> None \<Longrightarrow> 0 \<le> ti_score (snd (fifth c)) \<and> ti_score (snd (fifth c)) \<le> 1/5"
  by (auto simp: trusted_def fifth_def Let_def)

text \<open>C24: 
  The scores handed to the entities are exactly a fifth of the stored scores of the chunks: one
  for each scored chunk of the video with a stored entity, in the order of the chunks, and under
  the identifier of the chunk. The weight is the number of times a chunk is seen, which is one,
  over five; the number of sources is one. With distinct chunks and scores between 0 and 1 none
  is above 1/5, and the number of entities of high trust is always 0.
\<close>

theorem entity_trust_capped:
  assumes "distinct (map tc_id (us_chunks s))" and "list_all trusted (us_chunks s)"
  shows "et_scores (get_entity_trust_scores v s) =
      map (\<lambda>c. (tc_id c, \<lparr> ti_score = fst (the (tc_trust c)) / 5, ti_sources = 1,
                           ti_method = snd (the (tc_trust c)), ti_video = tc_video c \<rparr>))
        (filter (\<lambda>c. tc_trust c \<noteq> None \<and> (v = None \<or> v = Some [] \<or> v = Some (tc_video c))
                   \<and> (\<exists>n. tc_resolved c = Some n \<and> 0 < n)) (us_chunks s))
    \<and> list_all (\<lambda>(i, t). 0 \<le> ti_score t \<and> ti_score t \<le> 1/5) (et_scores (get_entity_trust_scores v s))
    \<and> et_high (get_entity_trust_scores v s) = 0"
proof -
  let ?xs = "et_scores (get_entity_trust_scores v s)"
  have eq: "?xs = map fifth (filter (counts_for v) (us_chunks s))" by (rule entity_scores_are_fifths [OF assms(1)])
  have a: "0 \<le> ti_score t \<and> ti_score t \<le> 1/5" if i: "(i, t) \<in> set ?xs" for i t
  proof -
    obtain c where c: "c \<in> set (us_chunks s)" "counts_for v c" "(i, t) = fifth c" using i unfolding eq by auto
    then have "trusted c" "tc_trust c \<noteq> None" using assms(2) by (auto simp: list_all_iff counts_for_def)
    from fifth_range [OF this] show ?thesis by (simp add: c(3) [symmetric])
  qed
  have "et_high (get_entity_trust_scores v s) = length (filter (\<lambda>(i, t). 7/10 \<le> ti_score t) ?xs)"
    by (simp add: get_entity_trust_scores_def Let_def split: prod.split)
  also have "\<dots> = 0" using a by (fastforce simp: filter_empty_conv)
  finally have h: "et_high (get_entity_trust_scores v s) = 0" .
  have "counts_for v = (\<lambda>c. tc_trust c \<noteq> None \<and> (v = None \<or> v = Some [] \<or> v = Some (tc_video c))
      \<and> (\<exists>n. tc_resolved c = Some n \<and> 0 < n))"
    by (intro ext) (simp add: counts_for_def split: option.split)
  with eq have "?xs = map (\<lambda>c. (tc_id c, \<lparr> ti_score = fst (the (tc_trust c)) / 5, ti_sources = 1,
                           ti_method = snd (the (tc_trust c)), ti_video = tc_video c \<rparr>))
        (filter (\<lambda>c. tc_trust c \<noteq> None \<and> (v = None \<or> v = Some [] \<or> v = Some (tc_video c))
                   \<and> (\<exists>n. tc_resolved c = Some n \<and> 0 < n)) (us_chunks s))"
    by (simp only: fifth_def [abs_def] Let_def)
  moreover have "list_all (\<lambda>(i, t). 0 \<le> ti_score t \<and> ti_score t \<le> 1/5) ?xs" using a by (auto simp: list_all_iff)
  ultimately show ?thesis using h by (intro conjI)
qed

text \<open>Propagating keeps the entities, and counts those with a scored chunk.\<close>

lemma update_trust_ids: "map te_id (update_first (\<lambda>x. te_id x = i) (\<lambda>x. x\<lparr>te_trust := t\<rparr>) xs) = map te_id xs"
  by (induction xs) auto

lemma propagate_fold_ids: "map te_id (fst (fold (propagate_one sc) es p)) = map te_id (fst p)"
  by (induction es arbitrary: p) (auto simp: propagate_one_def Let_def update_trust_ids split: prod.split)

lemma propagate_count:
  "snd (fold (propagate_one sc) es p) = snd p + length (filter (\<lambda>e. entity_scores sc e \<noteq> []) es)"
  by (induction es arbitrary: p) (auto simp: propagate_one_def Let_def split: prod.split)

section \<open>Concrete chunks\<close>

definition some_trust_chunk :: "string \<Rightarrow> (real \<times> string) option \<Rightarrow> trust_chunk" where
  "some_trust_chunk i t =
     \<lparr> tc_key = i, tc_video = ''v'', tc_id = i, tc_redundancy = 1, tc_redundant = True, tc_engagement = 1, tc_age = Some 10,
       tc_code = True, tc_text = ''text'', tc_vector = [], tc_trust = t, tc_resolved = Some 3 \<rparr>"

definition trust_start :: trust_state where
  "trust_start =
     \<lparr> us_chunks = [some_trust_chunk ''a'' (Some (9/10, ''heuristic'')), some_trust_chunk ''b'' (Some (1, ''llm''))],
       us_stats = \<lparr> processed = 0, skipped = 0, failed = 0, updated = 0 \<rparr> \<rparr>"

lemma trust_score_monotone_witness:
  "compute_trust_score (some_trust_chunk ''a'' None) \<le> compute_trust_score (some_trust_chunk ''b'' None)"
proof -
  have "at_least_as_good (some_trust_chunk ''b'' None) (some_trust_chunk ''a'' None)"
    by (simp add: at_least_as_good_def some_trust_chunk_def consensus_of_def age_of_def)
  from trust_score_monotone [OF this] show ?thesis by blast
qed

lemma entity_trust_capped_witness:
  "et_high (get_entity_trust_scores None trust_start) = 0
    \<and> map (\<lambda>(i, t). (i, ti_score t)) (et_scores (get_entity_trust_scores None trust_start)) = [(''a'', 9/50), (''b'', 1/5)]"
proof -
  have "distinct (map tc_id (us_chunks trust_start))" "list_all trusted (us_chunks trust_start)"
    by (simp_all add: trust_start_def some_trust_chunk_def trusted_def)
  note scores = entity_trust_capped [OF this, of None]
  have "map (\<lambda>(i, t). (i, ti_score t)) (et_scores (get_entity_trust_scores None trust_start)) = [(''a'', 9/50), (''b'', 1/5)]"
    unfolding scores [THEN conjunct1] by (simp add: trust_start_def some_trust_chunk_def del: not_None_eq)
  with scores show ?thesis by blast
qed

text \<open>An answer of the model is stored as it is, also outside of the range.\<close>

lemma model_score_unchecked:
  "trust_of \<lparr> uo_use_llm = True, uo_auto_llm = True, uo_band_low = 4/10, uo_band_high = 7/10, uo_neighbors = 2,
      uo_upsert_existing = True, uo_video = [], uo_input_videos = [], uo_agent = None, uo_call = (\<lambda>p. Inr ''json''),
      uo_loads = (\<lambda>s. Inr (PDict [(''trust_score'', PInt 62)])) \<rparr> [] (some_trust_chunk ''a'' None) = (62, ''llm'')"
  by (simp add: trust_of_def wants_llm_def some_trust_chunk_def agent_score_def dget_def)

end
