(* ===== verification/Base_Agent.thy ===== *)
theory Base_Agent
  imports Retry_Policy Metrics Text
begin

text \<open>
  \<open>core/base/agent.py\<close>: the base of the agents that call a language model: the choice of the
  backend, the prompts, the call with its metrics and retries, and the loop with feedback.

  The clients of the backends are parameters: what they answer to the \<open>n\<close>-th request. The
  metrics are kept as the values for the labels of this agent. A model that is neither of the
  two backends, which the constructor never makes, is left out.
\<close>

section \<open>Configuration and backend\<close>

record agent_config =
  ac_model_name :: "string option"
  ac_temperature :: rat
  ac_max_tokens :: int

definition BaseAgentConfig :: "string option \<Rightarrow> rat \<Rightarrow> int \<Rightarrow> agent_config res" where
  "BaseAgentConfig name temperature max_tokens =
     (if temperature < 0 \<or> 1 < temperature \<or> max_tokens \<le> 0
      then Inl (Exn ''ValidationError'' ''invalid configuration'')
      else Inr \<lparr> ac_model_name = name, ac_temperature = temperature, ac_max_tokens = max_tokens \<rparr>)"

datatype llm_backend =
    Bedrock_Client string "(string \<times> string) list"
  | OpenAI_Client string

record base_agent =
  ag_name :: string
  ag_model :: string
  ag_temperature :: rat
  ag_max_tokens :: int
  ag_prompt_id :: "string option"
  ag_backend :: llm_backend

definition getenv :: "(string \<times> string) list \<Rightarrow> string \<Rightarrow> string" where
  "getenv env k = (case map_of env k of None \<Rightarrow> [] | Some v \<Rightarrow> v)"

definition str_or :: "string \<Rightarrow> string \<Rightarrow> string" where
  "str_or a b = (if a \<noteq> [] then a else b)"

text \<open>The credentials given to the session, when both are set.\<close>

definition session_kwargs :: "(string \<times> string) list \<Rightarrow> (string \<times> string) list" where
  "session_kwargs env =
     (if getenv env ''AWS_ACCESS_KEY_ID'' \<noteq> [] \<and> getenv env ''AWS_SECRET_ACCESS_KEY'' \<noteq> []
      then [(''aws_access_key_id'', getenv env ''AWS_ACCESS_KEY_ID''),
            (''aws_secret_access_key'', getenv env ''AWS_SECRET_ACCESS_KEY'')]
        @ (if getenv env ''AWS_SESSION_TOKEN'' \<noteq> [] then [(''aws_session_token'', getenv env ''AWS_SESSION_TOKEN'')] else [])
      else [])"

definition runtime_error :: "string \<Rightarrow> exn" where
  "runtime_error m = Exn ''RuntimeError'' m"

text \<open>The new agent and the environment, from which an empty profile is removed.\<close>

definition init_agent ::
  "bool \<Rightarrow> (string \<times> string) list \<Rightarrow> string \<Rightarrow> agent_config \<Rightarrow> string option \<Rightarrow> (base_agent \<times> (string \<times> string) list) res" where
  "init_agent has_boto3 env name cfg prompt_id =
     (let bedrock = getenv env ''BEDROCK_MODEL_ID'';
          agent = (\<lambda>model backend. \<lparr> ag_name = name, ag_model = model, ag_temperature = ac_temperature cfg,
                     ag_max_tokens = ac_max_tokens cfg, ag_prompt_id = prompt_id, ag_backend = backend \<rparr>)
      in if bedrock \<noteq> []
         then (if \<not> has_boto3
               then Inl (runtime_error ''boto3 is required for Bedrock. Install boto3 or unset BEDROCK_MODEL_ID.'')
               else (let env' = (case map_of env ''AWS_PROFILE'' of
                                   Some p \<Rightarrow> if str_strip p = [] then AList.delete ''AWS_PROFILE'' env else env
                                 | None \<Rightarrow> env);
                         region = str_or (getenv env ''AWS_REGION'') (getenv env ''AWS_DEFAULT_REGION'')
                     in if region = [] then Inl (runtime_error ''AWS_REGION is required for Bedrock.'')
                        else Inr (agent bedrock (Bedrock_Client region (session_kwargs env)), env')))
         else if getenv env ''OPENAI_API_KEY'' = []
         then Inl (runtime_error ''OPENAI_API_KEY is required for LLM agents. Set it or run without --llm.'')
         else Inr (agent (str_or (str_or (case ac_model_name cfg of None \<Rightarrow> [] | Some m \<Rightarrow> m) (getenv env ''OPENAI_DEFAULT_MODEL''))
                            ''gpt-5-nano'')
                     (OpenAI_Client (getenv env ''OPENAI_API_KEY'')), env))"

section \<open>Prompts\<close>

definition is_word_char :: "char \<Rightarrow> bool" where
  "is_word_char c = (is_alnum c \<or> c = CHR ''_'')"

text \<open>\<open>re.sub(r"\{(\w+)\}", ...)\<close>: one pass, a name that is not given stays as it is.\<close>

function render_template :: "(string \<times> string) list \<Rightarrow> string \<Rightarrow> string" where
  "render_template kw [] = []"
| "render_template kw (c # s) =
     (let w = takeWhile is_word_char s; rest = drop (length w) s
      in if c = CHR ''{'' \<and> w \<noteq> [] \<and> rest \<noteq> [] \<and> hd rest = CHR ''}''
         then (case map_of kw w of Some v \<Rightarrow> v | None \<Rightarrow> c # w @ ''}'') @ render_template kw (tl rest)
         else c # render_template kw s)"
  by pat_completeness auto
termination
  by (relation "measure (\<lambda>(kw, s). length s)") auto

definition build_prompts :: "(string \<times> string) list \<Rightarrow> string \<times> string" where
  "build_prompts kw = (''You are a helpful assistant.'', getenv kw ''input'')"

text \<open>
  \<open>registry\<close> is \<open>None\<close> where it cannot be loaded; otherwise it gives the prompts for the class of
  the agent and an identifier, if there are any.
\<close>

definition get_prompts ::
  "(string \<Rightarrow> string option \<Rightarrow> (string \<times> string) option) option \<Rightarrow> ((string \<times> string) list \<Rightarrow> string \<times> string)
    \<Rightarrow> string \<Rightarrow> string option \<Rightarrow> (string \<times> string) list \<Rightarrow> string \<times> string" where
  "get_prompts registry build cls prompt_id kw =
     (case registry of
        None \<Rightarrow> build kw
      | Some lookup \<Rightarrow>
          (case lookup cls prompt_id of
             None \<Rightarrow> build kw
           | Some (system, template) \<Rightarrow> (system, render_template kw template)))"

section \<open>The call of the model\<close>

record llm_request =
  lq_model :: string
  lq_system :: string
  lq_prompt :: string
  lq_max_tokens :: pyval
  lq_temperature :: "pyval option"
  lq_timeout :: "pyval option"
  lq_extra :: dict

text \<open>\<open>lr_content\<close> is \<open>None\<close> where the message has no content; the usage may be missing.\<close>

record llm_reply =
  lr_content :: "string option"
  lr_usage :: "(int \<times> int) option"

record llm_metrics =
  lm_requests :: nat
  lm_calls :: nat
  lm_errors :: nat
  lm_durations :: nat
  lm_prompt_tokens :: int
  lm_completion_tokens :: int
  lm_total_tokens :: int
  lm_cost :: rat

record llm_world =
  lw_openai :: "nat \<Rightarrow> llm_request \<Rightarrow> llm_reply res"
  lw_bedrock :: "nat \<Rightarrow> llm_request \<Rightarrow> string list res"
  lw_prices :: "(string \<times> rat \<times> rat) list"

definition kwarg :: "dict \<Rightarrow> string \<Rightarrow> pyval \<Rightarrow> pyval" where
  "kwarg kw k d = (case map_of kw k of None \<Rightarrow> d | Some v \<Rightarrow> v)"

definition note_error :: "llm_metrics \<Rightarrow> llm_metrics" where
  "note_error m = m\<lparr>lm_errors := Suc (lm_errors m), lm_durations := Suc (lm_durations m)\<rparr>"

definition note_reply :: "(string \<times> rat \<times> rat) list \<Rightarrow> string \<Rightarrow> (int \<times> int) option \<Rightarrow> llm_metrics \<Rightarrow> llm_metrics" where
  "note_reply prices model usage m =
     (let m' = m\<lparr>lm_durations := Suc (lm_durations m)\<rparr>
      in case usage of
           None \<Rightarrow> m'
         | Some (p, c) \<Rightarrow>
             m'\<lparr>lm_prompt_tokens := lm_prompt_tokens m + p, lm_completion_tokens := lm_completion_tokens m + c,
                lm_total_tokens := lm_total_tokens m + (p + c), lm_cost := lm_cost m + estimate_llm_cost prices model p c\<rparr>)"

text \<open>
  The keyword arguments are passed on beside those of the method: a name that is already there
  is an error of the call.
\<close>

definition own_keywords :: "string list" where
  "own_keywords = [''model'', ''messages'', ''max_completion_tokens'', ''timeout'']"

definition create_completion ::
  "llm_world \<Rightarrow> base_agent \<Rightarrow> dict \<Rightarrow> string \<Rightarrow> string \<Rightarrow> (llm_metrics, llm_reply) act" where
  "create_completion W A kw system prompt = (\<lambda>m.
     if list_ex (\<lambda>k. map_of kw k \<noteq> None) own_keywords
     then (Inl (Exn ''TypeError'' ''got multiple values for keyword argument''), m)
     else (lw_openai W (lm_requests m)
             \<lparr> lq_model = ag_model A, lq_system = system, lq_prompt = prompt,
               lq_max_tokens = kwarg kw ''max_tokens'' (PInt (ag_max_tokens A)), lq_temperature = map_of kw ''temperature'',
               lq_timeout = Some (kwarg kw ''timeout'' (PInt 60)), lq_extra = kw \<rparr>,
           m\<lparr>lm_requests := Suc (lm_requests m)\<rparr>))"

definition call_openai :: "llm_world \<Rightarrow> base_agent \<Rightarrow> dict \<Rightarrow> string \<Rightarrow> string \<Rightarrow> (llm_metrics, string) act" where
  "call_openai W A kw system prompt =
     tryA (bindA (create_completion W A kw system prompt) (\<lambda>reply.
             case lr_content reply of
               None \<Rightarrow> raise (Exn ''AttributeError'' ''strip'')
             | Some text \<Rightarrow> bindA (modifyA (note_reply (lw_prices W) (ag_model A) (lr_usage reply))) (\<lambda>u. ret (str_strip text))))
          (\<lambda>e m. (Inr [], note_error m))"

definition call_bedrock :: "llm_world \<Rightarrow> base_agent \<Rightarrow> dict \<Rightarrow> string \<Rightarrow> string \<Rightarrow> (llm_metrics, string) act" where
  "call_bedrock W A kw system prompt = (\<lambda>m.
     case lw_bedrock W (lm_requests m)
            \<lparr> lq_model = ag_model A, lq_system = system, lq_prompt = prompt,
              lq_max_tokens = kwarg kw ''max_tokens'' (PInt (ag_max_tokens A)),
              lq_temperature = Some (kwarg kw ''temperature'' (PFloat (ag_temperature A))), lq_timeout = None, lq_extra = [] \<rparr> of
       Inr parts \<Rightarrow> (Inr (str_strip (concat parts)),
                     m\<lparr>lm_requests := Suc (lm_requests m), lm_durations := Suc (lm_durations m)\<rparr>)
     | Inl e \<Rightarrow> (Inl e, (if is_Exception e then note_error else id) (m\<lparr>lm_requests := Suc (lm_requests m)\<rparr>)))"

definition call_once :: "llm_world \<Rightarrow> base_agent \<Rightarrow> dict \<Rightarrow> string \<Rightarrow> string \<Rightarrow> (llm_metrics, pyval) act" where
  "call_once W A kw system prompt =
     bindA (modifyA (\<lambda>m. m\<lparr>lm_calls := Suc (lm_calls m)\<rparr>)) (\<lambda>u.
     bindA (case ag_backend A of
              Bedrock_Client r c \<Rightarrow> call_bedrock W A kw system prompt
            | OpenAI_Client k \<Rightarrow> call_openai W A kw system prompt) (\<lambda>out.
     ret (PStr out)))"

definition call_model ::
  "(exn \<Rightarrow> bool) \<Rightarrow> (exn \<Rightarrow> string list) \<Rightarrow> llm_world \<Rightarrow> base_agent \<Rightarrow> dict \<Rightarrow> string \<Rightarrow> string \<Rightarrow> (llm_metrics rstate, pyval) act" where
  "call_model body_quota pydantic_msgs W A kw system prompt =
     retry_llm_call 3 body_quota pydantic_msgs (call_once W A kw system prompt)"

section \<open>Retries with feedback\<close>

record step_result =
  sr_status :: string
  sr_reasons :: "string list"
  sr_data :: pyval

definition feedback_text :: "string list \<Rightarrow> string" where
  "feedback_text reasons =
     ''Reviewer feedback:'' @ [CHR 10] @
     (case map (\<lambda>r. ''- '' @ r) reasons of [] \<Rightarrow> [] | l # ls \<Rightarrow> l @ concat (map (\<lambda>x. CHR 10 # x) ls))"

fun retry_steps :: "nat \<Rightarrow> (string option \<Rightarrow> ('s, step_result) act) \<Rightarrow> string option \<Rightarrow> step_result \<Rightarrow> ('s, step_result) act" where
  "retry_steps 0 step fb last_result = ret last_result"
| "retry_steps (Suc n) step fb last_result =
     bindA (step fb) (\<lambda>r.
       if sr_status r = ''APPROVE'' then ret r
       else retry_steps n step (Some (feedback_text (sr_reasons r))) r)"

definition execute_with_retries :: "int \<Rightarrow> (string option \<Rightarrow> ('s, step_result) act) \<Rightarrow> ('s, step_result) act" where
  "execute_with_retries max_retries step =
     retry_steps (nat max_retries) step None
       \<lparr> sr_status = ''RETURN_FOR_IMPROVEMENT'', sr_reasons = [''not started''], sr_data = PNone \<rparr>"

text \<open>
  Facts of the base agent: which failures of a model are retried, what the metrics count, the
  rendering of templates, and the loop with feedback.
\<close>

section \<open>Backends\<close>

lemma init_agent_backend:
  assumes "init_agent b env name cfg pid = Inr (A, env')"
  shows "(getenv env ''BEDROCK_MODEL_ID'' \<noteq> [] \<longrightarrow> ag_model A = getenv env ''BEDROCK_MODEL_ID'' \<and> (\<exists>r c. ag_backend A = Bedrock_Client r c \<and> r \<noteq> []))
    \<and> (getenv env ''BEDROCK_MODEL_ID'' = [] \<longrightarrow> ag_model A \<noteq> [] \<and> (\<exists>k. ag_backend A = OpenAI_Client k \<and> k \<noteq> []))"
  using assms by (auto simp: init_agent_def Let_def str_or_def split: if_splits)

section \<open>One call\<close>

lemma create_completion_cases:
  assumes "create_completion W A kw sys p m = (r, m')"
  shows "m' = m \<and> (\<exists>e. r = Inl e \<and> is_Exception e) \<or> m' = m\<lparr>lm_requests := Suc (lm_requests m)\<rparr>"
  using assms by (auto simp: create_completion_def is_Exception_def split: if_splits)

lemma call_openai_failure:
  assumes "create_completion W A kw sys p m = (Inl e, m')"
  shows "call_openai W A kw sys p m = (if is_Exception e then (Inr [], note_error m') else (Inl e, m'))"
  using assms by (simp add: call_openai_def tryA_def bindA_def)

lemma call_openai_raises:
  assumes "call_openai W A kw sys p m = (Inl e, m')"
  shows "\<not> is_Exception e"
  using assms by (auto simp: call_openai_def tryA_def split: prod.splits sum.splits if_splits)

lemma call_once_openai_raises:
  assumes "ag_backend A = OpenAI_Client k" and "call_once W A kw sys p m = (Inl e, m')"
  shows "\<not> is_Exception e"
  using assms call_openai_raises
  by (fastforce simp: call_once_def bindA_def modifyA_def ret_def split: prod.splits sum.splits)

lemma call_model_once:
  assumes "call_once W A kw sys p m = (r, m')" and "case r of Inl e \<Rightarrow> \<not> is_Exception e | Inr x \<Rightarrow> True"
  shows "call_model bq pm W A kw sys p (start_state m) = (r, \<lparr> inner = m', waits = [], retried = [], tries = 1 \<rparr>)"
  using assms
  by (cases r) (simp_all add: call_model_def retry_llm_call_def with_retry_def choose_policy_def policy_max_def
      retry_loop.simps call_inner_def)

lemma openai_once:
  assumes "ag_backend A = OpenAI_Client k" and "call_once W A kw sys p m = (r, m')"
  shows "call_model bq pm W A kw sys p (start_state m) = (r, \<lparr> inner = m', waits = [], retried = [], tries = 1 \<rparr>)"
  using assms call_once_openai_raises [OF assms(1)] by (intro call_model_once) (auto split: sum.split)

text \<open>C20: 
  With the OpenAI backend a failing call is never retried, although the method is decorated with
  three attempts: every exception of the client, a rate limit as well as a wrong argument, is
  caught inside of the method, which returns the empty text after the one attempt; it is counted
  as one call and one error.
\<close>

theorem openai_failures_not_retried:
  assumes "ag_backend A = OpenAI_Client k"
    and "create_completion W A kw sys p (m\<lparr>lm_calls := Suc (lm_calls m)\<rparr>) = (Inl e, m')" and "is_Exception e"
  shows "call_model bq pm W A kw sys p (start_state m) =
    (Inr (PStr []), \<lparr> inner = note_error m', waits = [], retried = [], tries = 1 \<rparr>)"
proof (rule openai_once [OF assms(1)])
  show "call_once W A kw sys p m = (Inr (PStr []), note_error m')"
    using assms call_openai_failure [OF assms(2)] by (simp add: call_once_def bindA_def modifyA_def ret_def)
qed

text \<open>A timeout given by the caller is such an error: no request is made at all.\<close>

lemma own_timeout_makes_no_request:
  assumes "ag_backend A = OpenAI_Client k" and "map_of kw ''timeout'' \<noteq> None"
  shows "call_model bq pm W A kw sys p (start_state m) =
    (Inr (PStr []), \<lparr> inner = note_error (m\<lparr>lm_calls := Suc (lm_calls m)\<rparr>), waits = [], retried = [], tries = 1 \<rparr>)"
proof (rule openai_once [OF assms(1)])
  have c: "create_completion W A kw sys p (m\<lparr>lm_calls := Suc (lm_calls m)\<rparr>) =
      (Inl (Exn ''TypeError'' ''got multiple values for keyword argument''), m\<lparr>lm_calls := Suc (lm_calls m)\<rparr>)"
    using assms(2) by (simp add: create_completion_def own_keywords_def)
  show "call_once W A kw sys p m = (Inr (PStr []), note_error (m\<lparr>lm_calls := Suc (lm_calls m)\<rparr>))"
    using assms(1) call_openai_failure [OF c] by (simp add: call_once_def bindA_def modifyA_def ret_def is_Exception_def)
qed

text \<open>The temperature of the configuration is never sent to OpenAI, only one given by the caller.\<close>

lemma configured_temperature_not_sent:
  "create_completion W (A\<lparr>ag_temperature := t\<rparr>) kw sys p = create_completion W A kw sys p"
  by (simp add: create_completion_def fun_eq_iff)

section \<open>Templates\<close>

lemma render_plain: "CHR ''{'' \<notin> set s \<Longrightarrow> render_template kw s = s"
  by (induction kw s rule: render_template.induct) (auto simp: Let_def)

lemma render_append: "CHR ''{'' \<notin> set s \<Longrightarrow> render_template kw (s @ t) = s @ render_template kw t"
  by (induction s) (auto simp: Let_def)

lemma takeWhile_word: "list_all is_word_char k \<Longrightarrow> takeWhile is_word_char (k @ CHR ''}'' # t) = k"
  by (induction k) (auto simp: is_word_char_def is_alnum_def)

lemma render_variable:
  assumes "k \<noteq> []" and "list_all is_word_char k"
  shows "render_template kw (CHR ''{'' # k @ CHR ''}'' # t) =
    (case map_of kw k of Some v \<Rightarrow> v | None \<Rightarrow> CHR ''{'' # k @ ''}'') @ render_template kw t"
  using assms by (simp add: takeWhile_word Let_def)

text \<open>
  A template made of plain texts and names in braces is rendered piece by piece: texts as they
  are, names by their values, in one pass (a value is not rendered again), unknown names stay.
\<close>

datatype piece = Plain string | Name string

fun piece_ok :: "piece \<Rightarrow> bool" where
  "piece_ok (Plain s) = (CHR ''{'' \<notin> set s)"
| "piece_ok (Name k) = (k \<noteq> [] \<and> list_all is_word_char k)"

fun piece_text :: "piece \<Rightarrow> string" where
  "piece_text (Plain s) = s"
| "piece_text (Name k) = CHR ''{'' # k @ ''}''"

fun piece_value :: "(string \<times> string) list \<Rightarrow> piece \<Rightarrow> string" where
  "piece_value kw (Plain s) = s"
| "piece_value kw (Name k) = (case map_of kw k of Some v \<Rightarrow> v | None \<Rightarrow> CHR ''{'' # k @ ''}'')"

theorem template_rendered:
  assumes "list_all piece_ok ps"
  shows "render_template kw (concat (map piece_text ps)) = concat (map (piece_value kw) ps)"
  using assms
proof (induction ps)
  case (Cons p ps)
  then show ?case
    using render_variable [of _ kw "concat (map piece_text ps)"]
    by (cases p) (simp_all add: render_append del: render_template.simps)
qed simp

section \<open>Feedback\<close>

text \<open>The results of the steps that were made, each with the feedback of the one before.\<close>

fun steps_made :: "(string option \<Rightarrow> ('s, step_result) act) \<Rightarrow> string option \<Rightarrow> step_result list \<Rightarrow> 's \<Rightarrow> 's \<Rightarrow> bool" where
  "steps_made step fb [] s s' = (s' = s)"
| "steps_made step fb (r # rs) s s' =
     (\<exists>t. step fb s = (Inr r, t) \<and> steps_made step (Some (feedback_text (sr_reasons r))) rs t s')"

lemma retry_steps_made:
  assumes "retry_steps n step fb r0 s = (Inr r, s')"
  shows "\<exists>rs. steps_made step fb rs s s' \<and> length rs \<le> n \<and> list_all (\<lambda>x. sr_status x \<noteq> ''APPROVE'') (butlast rs)
    \<and> r = last (r0 # rs) \<and> (sr_status r = ''APPROVE'' \<and> rs \<noteq> [] \<or> length rs = n)"
  using assms
proof (induction n arbitrary: fb r0 s)
  case 0
  then show ?case by (intro exI [of _ "[]"]) (simp add: ret_def)
next
  case (Suc n)
  obtain x t where x: "step fb s = (Inr x, t)"
    and k: "(if sr_status x = ''APPROVE'' then ret x else retry_steps n step (Some (feedback_text (sr_reasons x))) x) t = (Inr r, s')"
    using Suc.prems by (auto simp: bindA_def split: prod.splits sum.splits)
  show ?case
  proof (cases "sr_status x = ''APPROVE''")
    case True
    then show ?thesis using k x by (intro exI [of _ "[x]"]) (simp add: ret_def)
  next
    case False
    with k Suc.IH obtain rs where
      "steps_made step (Some (feedback_text (sr_reasons x))) rs t s'" "length rs \<le> n"
      "list_all (\<lambda>x. sr_status x \<noteq> ''APPROVE'') (butlast rs)" "r = last (x # rs)"
      "sr_status r = ''APPROVE'' \<and> rs \<noteq> [] \<or> length rs = n"
      by fastforce
    then show ?thesis using x False by (intro exI [of _ "x # rs"]) auto
  qed
qed

text \<open>
  The loop makes at most the given number of steps, each with the reasons of the step before; it
  stops at the first approval, and returns the last result whether it was approved or not.
\<close>

theorem feedback_loop:
  assumes "execute_with_retries n step s = (Inr r, s')" and "0 < n"
  shows "\<exists>rs. steps_made step None rs s s' \<and> rs \<noteq> [] \<and> int (length rs) \<le> n \<and> r = last rs
    \<and> list_all (\<lambda>x. sr_status x \<noteq> ''APPROVE'') (butlast rs) \<and> (sr_status r = ''APPROVE'' \<or> int (length rs) = n)"
proof -
  obtain rs where rs: "steps_made step None rs s s'" "length rs \<le> nat n"
      "list_all (\<lambda>x. sr_status x \<noteq> ''APPROVE'') (butlast rs)"
      "r = last (\<lparr> sr_status = ''RETURN_FOR_IMPROVEMENT'', sr_reasons = [''not started''], sr_data = PNone \<rparr> # rs)"
      "sr_status r = ''APPROVE'' \<and> rs \<noteq> [] \<or> length rs = nat n"
    using retry_steps_made [OF assms(1) [unfolded execute_with_retries_def]] by blast
  then have "rs \<noteq> []" using assms(2) by auto
  with rs assms(2) show ?thesis by (intro exI [of _ rs]) auto
qed

section \<open>Concrete runs\<close>

definition some_base_agent :: "llm_backend \<Rightarrow> base_agent" where
  "some_base_agent b =
     \<lparr> ag_name = ''Agent'', ag_model = ''gpt-5-nano'', ag_temperature = 0, ag_max_tokens = 8000, ag_prompt_id = None, ag_backend = b \<rparr>"

definition no_metrics :: llm_metrics where
  "no_metrics = \<lparr> lm_requests = 0, lm_calls = 0, lm_errors = 0, lm_durations = 0, lm_prompt_tokens = 0,
     lm_completion_tokens = 0, lm_total_tokens = 0, lm_cost = 0 \<rparr>"

text \<open>A client that fails twice with a timeout.\<close>

definition slow_client :: llm_world where
  "slow_client = \<lparr> lw_openai = (\<lambda>n q. Inl (Exn ''APITimeoutError'' ''timed out'')),
     lw_bedrock = (\<lambda>n q. if n < 2 then Inl (Exn ''ReadTimeoutError'' ''timed out'') else Inr [''Hello'', '' '']), lw_prices = [] \<rparr>"

lemma openai_failures_not_retried_witness:
  "call_model (\<lambda>e. False) (\<lambda>e. []) slow_client (some_base_agent (OpenAI_Client ''sk'')) [] ''s'' ''p'' (start_state no_metrics) =
    (Inr (PStr []), \<lparr> inner = note_error (no_metrics\<lparr>lm_calls := 1, lm_requests := 1\<rparr>), waits = [], retried = [], tries = 1 \<rparr>)"
  by (rule openai_failures_not_retried [where e = "Exn ''APITimeoutError'' ''timed out''" and k = "''sk''"])
    (simp_all add: some_base_agent_def create_completion_def slow_client_def no_metrics_def is_Exception_def own_keywords_def)

text \<open>The same failures of Bedrock are retried, after waits of one and two seconds.\<close>

lemma bedrock_failures_retried:
  "case call_model (\<lambda>e. False) (\<lambda>e. []) slow_client (some_base_agent (Bedrock_Client ''eu'' [])) [] ''s'' ''p'' (start_state no_metrics) of
     (r, s) \<Rightarrow> r = Inr (PStr ''Hello'') \<and> tries s = 3 \<and> waits s = [1, 2] \<and> lm_errors (inner s) = 2 \<and> lm_calls (inner s) = 3"
  by code_simp

definition grumpy :: "string option \<Rightarrow> (nat, step_result) act" where
  "grumpy fb n = (Inr \<lparr> sr_status = (if n = 1 then ''APPROVE'' else ''RETURN_FOR_IMPROVEMENT''), sr_reasons = [''too long''],
     sr_data = (case fb of None \<Rightarrow> PNone | Some t \<Rightarrow> PStr t) \<rparr>, Suc n)"

lemma feedback_loop_witness:
  "\<exists>rs. steps_made grumpy None rs 0 2 \<and> rs \<noteq> [] \<and> int (length rs) \<le> 5 \<and> sr_status (last rs) = ''APPROVE''"
proof -
  have "execute_with_retries 5 grumpy 0 = (Inr \<lparr> sr_status = ''APPROVE'', sr_reasons = [''too long''],
      sr_data = PStr (feedback_text [''too long'']) \<rparr>, 2)"
    by code_simp
  from feedback_loop [OF this] obtain rs where rs: "steps_made grumpy None rs 0 2" "rs \<noteq> []" "int (length rs) \<le> 5"
      "last rs = \<lparr> sr_status = ''APPROVE'', sr_reasons = [''too long''], sr_data = PStr (feedback_text [''too long'']) \<rparr>"
    by force
  then show ?thesis by (intro exI [of _ rs]) simp
qed

lemma template_rendered_witness:
  "render_template [(''name'', ''{x}''), (''x'', ''no'')] ''Dear {name}, {y}!'' = ''Dear {x}, {y}!''"
  using template_rendered [of "[Plain ''Dear '', Name ''name'', Plain '', '', Name ''y'', Plain ''!'']"
      "[(''name'', ''{x}''), (''x'', ''no'')]"]
  by (simp add: is_word_char_def is_alnum_def)

end
