(* ===== verification/Chunk_Stage.thy ===== *)
theory Chunk_Stage
  imports Stage_Config Stage_Run
begin

text \<open>
  \<open>domain/ingestion/stages/chunk.py\<close> and the text helpers of \<open>core/types/text.py\<close> it uses: a
  cleaned transcript is split into chunks, which get an identifier, their place in the video and
  the metadata of the video, and replace the chunks that are stored for it.

  The splitters of langchain, SHA-256, \<open>uuid4\<close> (its \<open>n\<close>-th value) and the reading of dates are
  parameters; the fields that are always empty are left out, dates are texts, and the arrows in the
  name of the separators are hyphens. What the database does with a call
  is given by the record \<open>chunk_faults\<close>.
\<close>

section \<open>Configuration\<close>

record chunk_config = base_config +
  kg_strategy :: string
  kg_token_size :: int
  kg_overlap :: rat
  kg_split_chars :: "string list"
  kg_semantic_model :: pyval

definition chunk_defaults :: chunk_config where
  "chunk_defaults = base_config.extend base_defaults
     (chunk_config.fields ''recursive'' 1200 (20/100) [''.'', ''?'', ''!''] PNone)"

text \<open>\<open>getattr(args, name, env.get(var, default))\<close>: an argument that is there wins, even \<open>None\<close>.\<close>

definition attr_or_env :: "dict \<Rightarrow> environ \<Rightarrow> string \<Rightarrow> string \<Rightarrow> pyval \<Rightarrow> pyval" where
  "attr_or_env args env name var d =
     (case map_of args name of Some v \<Rightarrow> v | None \<Rightarrow> (case map_of env var of Some s \<Rightarrow> PStr s | None \<Rightarrow> d))"

definition str_arg :: "pyval \<Rightarrow> string res" where
  "str_arg v = (case v of PStr s \<Rightarrow> Inr s
     | _ \<Rightarrow> Inl (Exn ''AttributeError'' ([quote] @ type_name v @ [quote] @ '' object has no attribute '' @ [quote] @ ''strip'' @ [quote])))"

definition chunk_from_args :: "string \<Rightarrow> dict \<Rightarrow> environ \<Rightarrow> pyval \<Rightarrow> chunk_config res" where
  "chunk_from_args paths_db args env default_db =
     bindR (base_from_args paths_db args env default_db PNone PNone) (\<lambda>base.
     bindR (str_arg (py_or (dget args ''chunk_strategy'') (PStr (env_get env ''CHUNK_STRATEGY'' ''fixed'')))) (\<lambda>strategy.
     bindR (py_int (attr_or_env args env ''token_size'' ''TOKEN_SIZE'' (PInt 500))) (\<lambda>size.
     bindR (py_float (attr_or_env args env ''overlap_pct'' ''OVERLAP_PCT'' (PFloat (15/100)))) (\<lambda>overlap.
     bindR (str_arg (py_or (dget args ''split_chars'') (PStr (env_get env ''SPLIT_CHARS'' ''.'')))) (\<lambda>chars.
     Inr (base_config.extend base
       (chunk_config.fields (str_lower (str_strip strategy)) size overlap
          (filter (\<lambda>s. s \<noteq> []) (map str_strip (str_split_n (CHR '','') (length chars) [] chars)))
          (py_or (dget args ''semantic_model'') (env_val env ''SEMANTIC_MODEL'')))))))))"

section \<open>Text\<close>

abbreviation newline :: char where
  "newline \<equiv> CHR 10"

abbreviation carriage :: char where
  "carriage \<equiv> CHR 13"

text \<open>\<open>re.sub(r"\n{3,}", "\n\n", t)\<close>: no third newline in a row.\<close>

fun cap_newlines :: "nat \<Rightarrow> string \<Rightarrow> string" where
  "cap_newlines k [] = []"
| "cap_newlines k (c # s) =
     (if c = newline then (if k < 2 then c # cap_newlines (Suc k) s else cap_newlines k s)
      else c # cap_newlines 0 s)"

definition normalize_newlines :: "string \<Rightarrow> string" where
  "normalize_newlines t =
     (let u = replace_all [carriage] [newline] (replace_all [carriage, newline] [newline] t)
      in str_strip (cap_newlines 0 (replace_all [CHR 92, CHR ''n''] [newline] u)))"

definition two_digits :: "int \<Rightarrow> string" where
  "two_digits n = (if n < 10 then CHR ''0'' # str_of_int n else str_of_int n)"

definition seconds_to_hhmmss :: "rat \<Rightarrow> string" where
  "seconds_to_hhmmss x =
     (let s = max 0 (if 0 \<le> x then \<lfloor>x\<rfloor> else \<lceil>x\<rceil>)
      in two_digits (s div 3600) @ '':'' @ two_digits (s mod 3600 div 60) @ '':'' @ two_digits (s mod 60))"

section \<open>State\<close>

record raw_video =
  rv_published :: "string option"
  rv_channel_id :: "string option"
  rv_title :: "string option"
  rv_channel_title :: "string option"
  rv_duration :: rat

record video_info =
  vi_age_days :: int
  vi_channel_id :: "string option"
  vi_title :: "string option"
  vi_channel_name :: "string option"
  vi_published_at :: "string option"
  vi_duration :: rat

record chunking_info =
  ci_strategy :: string
  ci_token_size :: int
  ci_overlap :: rat
  ci_separators :: "string option"
  ci_split_chars :: "string list option"
  ci_semantic_model :: "string option"

record chunk_record =
  kd_id :: string
  kd_video :: string
  kd_info :: video_info
  kd_start :: string
  kd_end :: string
  kd_text :: string
  kd_hash :: string
  kd_code :: bool
  kd_chunking :: chunking_info
  kd_index :: nat
  kd_count :: nat

record chunk_state =
  kt_chunks :: "chunk_record list"
  kt_uuids :: nat
  kt_stats :: stage_statistics

record cleaned_doc =
  cl_video :: string
  cl_compressed :: "string option"
  cl_cleaned :: "string option"

text \<open>Whether the deletion and the bulk writes of this call raise.\<close>

record chunk_faults =
  cf_delete :: bool
  cf_bulk :: bool

record chunk_setting =
  ko_config :: chunk_config
  ko_splitter :: "string \<Rightarrow> int \<Rightarrow> int \<Rightarrow> string \<Rightarrow> string list res"
  ko_uuid :: "nat \<Rightarrow> string"
  ko_sha256 :: "string \<Rightarrow> string"
  ko_embedding_model :: "string option"
  ko_raw_video :: "string \<Rightarrow> raw_video option res"
  ko_days_since :: "string \<Rightarrow> int option res"

section \<open>Preparation\<close>

definition source_text :: "cleaned_doc \<Rightarrow> string" where
  "source_text d =
     str_strip (case cl_compressed d of
         Some t \<Rightarrow> if t \<noteq> [] then t else (case cl_cleaned d of None \<Rightarrow> [] | Some u \<Rightarrow> u)
       | None \<Rightarrow> (case cl_cleaned d of None \<Rightarrow> [] | Some u \<Rightarrow> u))"

definition chunk_docs_of :: "chunk_setting \<Rightarrow> cleaned_doc list \<Rightarrow> cleaned_doc list" where
  "chunk_docs_of K ds =
     (let c = ko_config K
      in filter (\<lambda>d. (cl_compressed d \<noteq> None \<or> cl_cleaned d \<noteq> None) \<and>
           (case bc_video_id c of
              PStr v \<Rightarrow> if v \<noteq> [] then cl_video d = v else
                (case bc_input_video_ids c of PList vs \<Rightarrow> vs = [] \<or> PStr (cl_video d) \<in> set vs | _ \<Rightarrow> True)
            | _ \<Rightarrow> (case bc_input_video_ids c of PList vs \<Rightarrow> vs = [] \<or> PStr (cl_video d) \<in> set vs | _ \<Rightarrow> True))) ds)"

text \<open>The strategies; another name gives no chunks, and a splitter that raises a single one.\<close>

definition known_strategy :: "string \<Rightarrow> bool" where
  "known_strategy s = (s \<in> set [''fixed'', ''recursive'', ''semantic''])"

definition overlap_size :: "chunk_config \<Rightarrow> int" where
  "overlap_size c = (let x = of_int (kg_token_size c) * kg_overlap c in if 0 \<le> x then \<lfloor>x\<rfloor> else \<lceil>x\<rceil>)"

definition split_source :: "chunk_setting \<Rightarrow> string \<Rightarrow> string list res" where
  "split_source K t =
     (let c = ko_config K
      in if \<not> known_strategy (kg_strategy c) then Inr []
         else (case ko_splitter K (kg_strategy c) (kg_token_size c) (overlap_size c) t of
                 Inr cs \<Rightarrow> Inr cs
               | Inl e \<Rightarrow> if is_Exception e then Inr [t] else Inl e))"

definition no_video_info :: video_info where
  "no_video_info =
     \<lparr> vi_age_days = 180, vi_channel_id = None, vi_title = None, vi_channel_name = None, vi_published_at = None, vi_duration = 0 \<rparr>"

text \<open>\<open>channel_name\<close> is not among the fields fetched. A date that cannot be read keeps the age; one whose difference raises loses everything.\<close>

definition video_info_of :: "chunk_setting \<Rightarrow> string \<Rightarrow> video_info" where
  "video_info_of K v =
     (case ko_raw_video K v of
        Inl e \<Rightarrow> no_video_info
      | Inr None \<Rightarrow> no_video_info
      | Inr (Some rv) \<Rightarrow>
          (case (case rv_published rv of
                   None \<Rightarrow> Inr 180
                 | Some p \<Rightarrow> if p = [] then Inr 180
                             else bindR (ko_days_since K p) (\<lambda>d. Inr (case d of None \<Rightarrow> 180 | Some n \<Rightarrow> max 0 n))) of
             Inl e \<Rightarrow> no_video_info
           | Inr age \<Rightarrow>
               \<lparr> vi_age_days = age, vi_channel_id = (if rv_channel_id rv = Some [] then None else rv_channel_id rv),
                 vi_title = rv_title rv, vi_channel_name = (if rv_channel_title rv = Some [] then None else rv_channel_title rv), vi_published_at = rv_published rv,
                 vi_duration = rv_duration rv \<rparr>))"

definition chunking_info_of :: "chunk_setting \<Rightarrow> chunking_info" where
  "chunking_info_of K =
     (let c = ko_config K; s = kg_strategy c
      in \<lparr> ci_strategy = s, ci_token_size = kg_token_size c, ci_overlap = kg_overlap c,
           ci_separators = (if s = ''recursive'' then Some ''paragraph-line-sentence-word-char'' else None),
           ci_split_chars = (if s = ''semantic'' then Some (if kg_split_chars c = [] then [''.''] else kg_split_chars c) else None),
           ci_semantic_model = (if s = ''semantic''
             then (case kg_semantic_model c of PStr m \<Rightarrow> if m \<noteq> [] then Some m else ko_embedding_model K | _ \<Rightarrow> ko_embedding_model K)
             else None) \<rparr>)"

text \<open>The documents: the times are proportional to the characters before and after the text.\<close>

fun number_chunks ::
  "chunk_setting \<Rightarrow> string \<Rightarrow> video_info \<Rightarrow> nat \<Rightarrow> nat \<Rightarrow> nat \<Rightarrow> nat \<Rightarrow> nat \<Rightarrow> string list \<Rightarrow> chunk_record list" where
  "number_chunks K v info uuids n chars i before [] = []"
| "number_chunks K v info uuids n chars i before (t # ts) =
     \<lparr> kd_id = ko_uuid K (uuids + i), kd_video = v, kd_info = info,
       kd_start = seconds_to_hhmmss (of_nat before / of_nat chars * vi_duration info),
       kd_end = seconds_to_hhmmss (of_nat (before + length t) / of_nat chars * vi_duration info),
       kd_text = t, kd_hash = (if t = [] then [] else ko_sha256 K t), kd_code = str_contains ''```'' t,
       kd_chunking = chunking_info_of K, kd_index = i, kd_count = n \<rparr>
     # number_chunks K v info uuids n chars (Suc i) (before + length t) ts"

definition chunk_documents :: "chunk_setting \<Rightarrow> string \<Rightarrow> string list \<Rightarrow> nat \<Rightarrow> chunk_record list" where
  "chunk_documents K v plain uuids =
     (let texts = map normalize_newlines plain; chars = sum_list (map length texts)
      in number_chunks K v (video_info_of K v) uuids (length texts) (if chars = 0 then 1 else chars) 0 0 texts)"

section \<open>Writing\<close>

definition same_doc :: "chunk_record \<Rightarrow> chunk_record \<Rightarrow> bool" where
  "same_doc d x = (kd_video x = kd_video d \<and> kd_id x = kd_id d)"

definition upsert_chunk :: "chunk_record \<Rightarrow> chunk_record list \<Rightarrow> chunk_record list" where
  "upsert_chunk d xs = (if list_ex (same_doc d) xs then update_first (same_doc d) (\<lambda>x. d) xs else xs @ [d])"

text \<open>Batches of 500; a bulk write that raises is followed by single writes of all documents.\<close>

definition BATCH :: nat where
  "BATCH = 500"

function write_batches :: "chunk_record list \<Rightarrow> chunk_record list \<Rightarrow> chunk_record list" where
  "write_batches ds xs = (if ds = [] then xs else write_batches (drop BATCH ds) (fold upsert_chunk (take BATCH ds) xs))"
  by pat_completeness auto
termination
  by (relation "measure (\<lambda>(ds, xs). length ds)") (auto simp: BATCH_def)

declare write_batches.simps [simp del]

definition write_chunks :: "chunk_faults \<Rightarrow> chunk_record list \<Rightarrow> chunk_record list \<Rightarrow> chunk_record list" where
  "write_chunks f ds xs = (if cf_bulk f then fold upsert_chunk ds xs else write_batches ds xs)"

definition handle_chunking :: "chunk_setting \<Rightarrow> chunk_faults \<Rightarrow> cleaned_doc \<Rightarrow> (chunk_state, unit) act" where
  "handle_chunking K f d = (\<lambda>s.
     let v = cl_video d; t = source_text d; up = bc_upsert_existing (ko_config K)
     in if v = [] \<or> t = [] then (Inr (), s)
        else if \<not> up \<and> list_ex (\<lambda>x. kd_video x = v) (kt_chunks s)
        then (Inr (), s\<lparr>kt_stats := (kt_stats s)\<lparr>skipped := Suc (skipped (kt_stats s))\<rparr>\<rparr>)
        else (case split_source K t of
                Inl e \<Rightarrow> (Inl e, s)
              | Inr plain \<Rightarrow>
                  (let ds = chunk_documents K v plain (kt_uuids s);
                       old = (if up \<and> \<not> cf_delete f then filter (\<lambda>x. kd_video x \<noteq> v) (kt_chunks s) else kt_chunks s)
                   in if ds = [] then (Inr (), s)
                      else (Inr (), s\<lparr>kt_chunks := write_chunks f ds old, kt_uuids := kt_uuids s + length ds\<rparr>))))"

end
