(* ===== verification/Chunk_Facts.thy ===== *)
theory Chunk_Facts
  imports Chunk_Stage Redundancy_Facts
begin

text \<open>
  Facts of the chunk stage: the times of the chunks, what is stored for a video, and that the
  identifiers are none the redundancy stage can compare.
\<close>

section \<open>Times\<close>

lemma length_number_chunks [simp]: "length (number_chunks K v info u n chars i b ts) = length ts"
  by (induction ts arbitrary: i b) auto

lemma number_chunks_nth:
  assumes "j < length ts"
  shows "number_chunks K v info u n chars i b ts ! j =
    \<lparr> kd_id = ko_uuid K (u + (i + j)), kd_video = v, kd_info = info,
      kd_start = seconds_to_hhmmss (of_nat (b + sum_list (map length (take j ts))) / of_nat chars * vi_duration info),
      kd_end = seconds_to_hhmmss (of_nat (b + sum_list (map length (take (Suc j) ts))) / of_nat chars * vi_duration info),
      kd_text = ts ! j, kd_hash = (if ts ! j = [] then [] else ko_sha256 K (ts ! j)), kd_code = str_contains ''```'' (ts ! j),
      kd_chunking = chunking_info_of K, kd_index = i + j, kd_count = n \<rparr>"
  using assms
proof (induction ts arbitrary: i j b)
  case (Cons t ts)
  then show ?case by (cases j) (simp_all add: add.assoc)
qed simp

lemma hhmmss_zero: "seconds_to_hhmmss 0 = ''00:00:00''"
  by code_simp

text \<open>
  The chunks cover the video without gaps: the first starts at 0, each starts when the one before
  ends, and the last ends with the video (unless all are empty); they are numbered in order and
  all carry their number.
\<close>

theorem chunk_times_connected:
  assumes "ds = chunk_documents K v plain u" and "ds \<noteq> []"
  shows "kd_start (hd ds) = ''00:00:00'' \<and> (\<forall>j<length ds - 1. kd_start (ds ! Suc j) = kd_end (ds ! j))
    \<and> (list_ex (\<lambda>t. normalize_newlines t \<noteq> []) plain \<longrightarrow> kd_end (last ds) = seconds_to_hhmmss (vi_duration (video_info_of K v)))
    \<and> map kd_index ds = [0..<length plain] \<and> list_all (\<lambda>d. kd_count d = length plain) ds
    \<and> map kd_text ds = map normalize_newlines plain"
proof -
  define ts where "ts = map normalize_newlines plain"
  define C where "C = (if sum_list (map length ts) = 0 then 1 else sum_list (map length ts))"
  define info where "info = video_info_of K v"
  define before where "before j = sum_list (map length (take j ts))" for j
  have n: "length ts = length plain" by (simp add: ts_def)
  have ds: "ds = number_chunks K v info u (length ts) C 0 0 ts"
    using assms(1) by (simp add: chunk_documents_def Let_def ts_def C_def info_def)
  have len: "length ds = length ts" by (simp add: ds)
  have at: "kd_start (ds ! j) = seconds_to_hhmmss (of_nat (before j) / of_nat C * vi_duration info)"
    "kd_end (ds ! j) = seconds_to_hhmmss (of_nat (before (Suc j)) / of_nat C * vi_duration info)"
    "kd_index (ds ! j) = j" "kd_count (ds ! j) = length ts" "kd_text (ds ! j) = ts ! j" if "j < length ts" for j
    using number_chunks_nth [OF that, of K v info u "length ts" C 0 0] by (simp_all add: ds before_def)
  have ne: "0 < length ts" using assms(2) len by (metis length_greater_0_conv)
  have "kd_start (hd ds) = ''00:00:00''"
    using assms(2) at(1) [OF ne] by (simp add: hd_conv_nth before_def hhmmss_zero)
  moreover have "kd_start (ds ! Suc j) = kd_end (ds ! j)" if "j < length ds - 1" for j
    using that len at(1) [of "Suc j"] at(2) [of j] by simp
  moreover have "kd_end (last ds) = seconds_to_hhmmss (vi_duration info)" if "list_ex (\<lambda>t. normalize_newlines t \<noteq> []) plain"
  proof -
    have "sum_list (map length ts) \<noteq> 0" using that by (auto simp: list_ex_iff ts_def)
    then have "C = sum_list (map length ts)" "C \<noteq> 0" by (simp_all only: C_def if_False not_False_eq_True)
    moreover have "before (Suc (length ts - 1)) = sum_list (map length ts)" using ne by (simp add: before_def)
    ultimately show ?thesis
      using assms(2) ne len at(2) [of "length ts - 1"] by (simp add: last_conv_nth del: sum_list_eq_0_iff)
  qed
  moreover have "map kd_index ds = [0..<length plain]" "list_all (\<lambda>d. kd_count d = length plain) ds"
    using at(3,4) n len by (auto simp: list_all_length intro!: nth_equalityI)
  moreover have "map kd_text ds = ts" using at(5) len by (intro nth_equalityI) simp_all
  ultimately show ?thesis unfolding info_def ts_def by blast
qed

section \<open>Storing\<close>

lemma write_batches_fold: "write_batches ds xs = fold upsert_chunk ds xs"
proof (induction ds xs rule: write_batches.induct)
  case (1 ds xs)
  have "fold upsert_chunk ds xs = fold upsert_chunk (drop BATCH ds) (fold upsert_chunk (take BATCH ds) xs)"
    by (metis append_take_drop_id comp_apply fold_append)
  then show ?case using 1 by (cases "ds = []") (simp_all add: write_batches.simps [of ds xs] write_batches.simps [of "[]"])
qed

lemma write_chunks_fold: "write_chunks f ds xs = fold upsert_chunk ds xs"
  by (simp add: write_chunks_def write_batches_fold)

lemma upsert_fresh:
  assumes "distinct (map kd_id ds)" and "\<And>d x. d \<in> set ds \<Longrightarrow> x \<in> set xs \<Longrightarrow> \<not> same_doc d x"
  shows "fold upsert_chunk ds xs = xs @ ds"
  using assms
proof (induction ds arbitrary: xs)
  case (Cons d ds)
  have u: "upsert_chunk d xs = xs @ [d]" using Cons.prems(2) by (auto simp: upsert_chunk_def list_ex_iff)
  have "fold upsert_chunk ds (xs @ [d]) = (xs @ [d]) @ ds"
    using Cons.prems by (intro Cons.IH) (auto simp: same_doc_def image_iff)
  with u show ?case by simp
qed simp

lemma number_chunks_keys:
  "d \<in> set (number_chunks K v info u n chars i b ts) \<Longrightarrow> kd_video d = v \<and> (\<exists>j. kd_id d = ko_uuid K (u + j))"
  by (induction ts arbitrary: i b) auto

lemma number_chunks_distinct:
  assumes "inj (ko_uuid K)"
  shows "distinct (map kd_id (number_chunks K v info u n chars i b ts))"
proof -
  have "map kd_id (number_chunks K v info u n chars i b ts) = map (\<lambda>j. ko_uuid K (u + j)) [i..<i + length ts]"
    by (induction ts arbitrary: i b) (simp_all add: upt_conv_Cons del: upt_Suc)
  moreover have "distinct (map (\<lambda>j. ko_uuid K (u + j)) js)" if "distinct js" for js
    using that by (auto simp: distinct_map intro!: inj_onI dest: injD [OF assms])
  ultimately show ?thesis by (simp only: distinct_upt)
qed

text \<open>
  What a video is stored as afterwards, whether the bulk write works or the documents are written
  one by one: the chunks of the other videos as before, then the new chunks in order. Where the
  deletion of the old chunks fails it is ignored, and they stay beside the new ones.
\<close>

theorem video_replaced:
  assumes "inj (ko_uuid K)" and "list_all (\<lambda>x. \<forall>j. kd_id x \<noteq> ko_uuid K (kt_uuids s + j)) (kt_chunks s)"
    and "bc_upsert_existing (ko_config K)" and "cl_video d \<noteq> []" and "source_text d \<noteq> []"
    and "split_source K (source_text d) = Inr plain" and "plain \<noteq> []"
  shows "kt_chunks (snd (handle_chunking K f d s)) =
    (if cf_delete f then kt_chunks s else filter (\<lambda>x. kd_video x \<noteq> cl_video d) (kt_chunks s))
    @ chunk_documents K (cl_video d) plain (kt_uuids s)"
proof -
  let ?ds = "chunk_documents K (cl_video d) plain (kt_uuids s)"
  have ne: "?ds \<noteq> []" using assms(7) by (cases plain) (simp_all add: chunk_documents_def Let_def)
  have keys: "\<exists>j. kd_id x = ko_uuid K (kt_uuids s + j)" if "x \<in> set ?ds" for x
    using that number_chunks_keys by (fastforce simp: chunk_documents_def Let_def)
  have dist: "distinct (map kd_id ?ds)" by (simp add: chunk_documents_def Let_def number_chunks_distinct [OF assms(1)])
  have "fold upsert_chunk ?ds xs = xs @ ?ds" if "set xs \<subseteq> set (kt_chunks s)" for xs
    using that assms(2) keys by (intro upsert_fresh [OF dist]) (force simp: same_doc_def list_all_iff)
  then show ?thesis
    using assms(3-6) ne by (simp add: handle_chunking_def Let_def write_chunks_fold)
qed

section \<open>Together with the redundancy stage\<close>

text \<open>
  The chunks as the redundancy stage reads them (with any embeddings): none is ever adjacent to
  another, so the options for neighbours never apply to them.
\<close>

definition embedded :: "(string \<Rightarrow> real list) \<Rightarrow> chunk_record \<Rightarrow> embedded_chunk" where
  "embedded E d = \<lparr> em_video = kd_video d, em_id = kd_id d, em_vector = E (kd_text d), em_text = [], em_mark = None \<rparr>"

lemma stored_chunks_never_adjacent:
  assumes "\<And>j. uuid_like (ko_uuid K j)" and "d \<in> set (chunk_documents K v plain u)"
  shows "\<not> adjacent (embedded E d) x"
proof -
  obtain j where "kd_id d = ko_uuid K (u + j)"
    using assms(2) number_chunks_keys by (fastforce simp: chunk_documents_def Let_def)
  then show ?thesis using assms(1) by (intro uuid_never_adjacent) (simp add: embedded_def)
qed

section \<open>Concrete transcripts\<close>

definition some_chunking :: "string \<Rightarrow> chunk_setting" where
  "some_chunking strategy =
     \<lparr> ko_config = chunk_defaults\<lparr>bc_upsert_existing := True, kg_strategy := strategy\<rparr>,
       ko_splitter = (\<lambda>s size overlap t. Inr (str_split_n (CHR ''.'') (length t) [] t)),
       ko_uuid = (\<lambda>n. ''u-'' @ replicate n (CHR ''a'')), ko_sha256 = id, ko_embedding_model = None,
       ko_raw_video = (\<lambda>v. Inr (Some \<lparr> rv_published = None, rv_channel_id = None, rv_title = None, rv_channel_title = None, rv_duration = 7200 \<rparr>)),
       ko_days_since = (\<lambda>p. Inr None) \<rparr>"

definition some_transcript :: cleaned_doc where
  "some_transcript = \<lparr> cl_video = ''v'', cl_compressed = None, cl_cleaned = Some ''one.two!.four'' \<rparr>"

definition chunk_start :: chunk_state where
  "chunk_start = \<lparr> kt_chunks = [], kt_uuids = 0, kt_stats = \<lparr> processed = 0, skipped = 0, failed = 0, updated = 0 \<rparr> \<rparr>"

lemma some_uuid_inj: "inj (ko_uuid (some_chunking s))"
proof (rule injI)
  fix x y assume "ko_uuid (some_chunking s) x = ko_uuid (some_chunking s) y"
  then have "length (ko_uuid (some_chunking s) x) = length (ko_uuid (some_chunking s) y)" by simp
  then show "x = y" by (simp add: some_chunking_def)
qed

lemma video_replaced_witness:
  "map kd_text (kt_chunks (snd (handle_chunking (some_chunking ''recursive'') \<lparr> cf_delete = False, cf_bulk = False \<rparr>
     some_transcript chunk_start))) = [''one'', ''two!'', ''four'']"
proof -
  let ?K = "some_chunking ''recursive''"
  have f: "list_all (\<lambda>x. \<forall>j. kd_id x \<noteq> ko_uuid ?K (kt_uuids chunk_start + j)) (kt_chunks chunk_start)"
    by (simp add: chunk_start_def)
  have u: "bc_upsert_existing (ko_config ?K)" "cl_video some_transcript \<noteq> []" "source_text some_transcript \<noteq> []"
    "split_source ?K (source_text some_transcript) = Inr [''one'', ''two!'', ''four'']"
    by code_simp+
  have t: "map kd_text (chunk_documents ?K (cl_video some_transcript) [''one'', ''two!'', ''four''] 0) = [''one'', ''two!'', ''four'']"
    by code_simp
  from video_replaced [OF some_uuid_inj f u, of "\<lparr> cf_delete = False, cf_bulk = False \<rparr>"] t show ?thesis
    by (simp add: chunk_start_def)
qed

lemma chunk_times_connected_witness:
  "map (\<lambda>d. (kd_start d, kd_end d)) (chunk_documents (some_chunking ''recursive'') ''v'' [''one'', ''two!'', ''four''] 0) =
     [(''00:00:00'', ''00:32:43''), (''00:32:43'', ''01:16:21''), (''01:16:21'', ''02:00:00'')]
   \<and> kd_start (hd (chunk_documents (some_chunking ''recursive'') ''v'' [''one'', ''two!'', ''four''] 0)) = ''00:00:00''"
proof -
  have t: "map (\<lambda>d. (kd_start d, kd_end d)) (chunk_documents (some_chunking ''recursive'') ''v'' [''one'', ''two!'', ''four''] 0) =
     [(''00:00:00'', ''00:32:43''), (''00:32:43'', ''01:16:21''), (''01:16:21'', ''02:00:00'')]"
    by code_simp
  then have "chunk_documents (some_chunking ''recursive'') ''v'' [''one'', ''two!'', ''four''] 0 \<noteq> []" by auto
  from chunk_times_connected [OF refl this] t show ?thesis by blast
qed

text \<open>A strategy of another name, which the environment can give, stores nothing and reports nothing.\<close>

lemma unknown_strategy_stores_nothing:
  "handle_chunking (some_chunking ''sentences'') f some_transcript chunk_start = (Inr (), chunk_start)"
  by (simp add: handle_chunking_def Let_def split_source_def known_strategy_def some_chunking_def some_transcript_def
      source_text_def chunk_documents_def)

text \<open>The defaults of the class are not those of a run without arguments.\<close>

lemma chunk_defaults_differ:
  "case chunk_from_args ''db'' [] [] PNone of
     Inr c \<Rightarrow> (kg_strategy c, kg_token_size c, kg_overlap c) = (''fixed'', 500, 15/100)
       \<and> (kg_strategy chunk_defaults, kg_token_size chunk_defaults, kg_overlap chunk_defaults) = (''recursive'', 1200, 20/100)
   | _ \<Rightarrow> False"
  by code_simp

end
