(* ===== verification/Batch_Operations.thy ===== *)
theory Batch_Operations
  imports Text
begin

text \<open>
  \<open>lib/database/operations.py\<close>: inserts, updates and deletions in batches, with their counts.

  What the database does with a batch is a parameter, a computation over its state: the counts of
  a write that succeeds, those of a \<open>BulkWriteError\<close>, or another exception. The messages keep the
  number of the batch. The two functions that only look up a handle are left out.
\<close>

section \<open>Batches\<close>

text \<open>\<open>for i in range(0, len(xs), bsize)\<close>: a size of 0 raises, a negative one gives no batch.\<close>

function batches_of :: "nat \<Rightarrow> 'a list \<Rightarrow> 'a list list" where
  "batches_of n xs = (if n = 0 \<or> xs = [] then [] else take n xs # batches_of n (drop n xs))"
  by pat_completeness auto
termination
  by (relation "measure (\<lambda>(n, xs). length xs)") auto

declare batches_of.simps [simp del]

definition in_batches :: "int \<Rightarrow> 'a list \<Rightarrow> 'a list list res" where
  "in_batches bsize xs =
     (if bsize = 0 then Inl (Exn ''ValueError'' ''range() arg 3 must not be zero'')
      else Inr (batches_of (nat bsize) xs))"

text \<open>What a call on a batch gives: its counts, or those of the error in bulk.\<close>

datatype 'c bulk_reply = Written 'c | Bulk_Error 'c

datatype batch_message = Bulk_Errors nat | Failed_Completely nat string

text \<open>
  The loop all three operations share: \<open>count\<close> adds the counts of a write, \<open>partial\<close> those of an
  error in bulk, \<open>lost\<close> a batch that failed completely.
\<close>

fun each_batch ::
  "('a list \<Rightarrow> ('s, 'c bulk_reply) act) \<Rightarrow> ('c \<Rightarrow> 't \<Rightarrow> 't) \<Rightarrow> ('a list \<Rightarrow> 'c \<Rightarrow> 't \<Rightarrow> 't) \<Rightarrow> ('a list \<Rightarrow> 't \<Rightarrow> 't)
    \<Rightarrow> nat \<Rightarrow> 'a list list \<Rightarrow> 't \<times> batch_message list \<Rightarrow> ('s, 't \<times> batch_message list) act" where
  "each_batch call count partial lost k [] (t, ms) s = (Inr (t, ms), s)"
| "each_batch call count partial lost k (b # bs) (t, ms) s =
     (case call b s of
        (Inr (Written c), s') \<Rightarrow> each_batch call count partial lost (Suc k) bs (count c t, ms) s'
      | (Inr (Bulk_Error c), s') \<Rightarrow> each_batch call count partial lost (Suc k) bs (partial b c t, ms @ [Bulk_Errors k]) s'
      | (Inl e, s') \<Rightarrow>
          if is_Exception e
          then each_batch call count partial lost (Suc k) bs (lost b t, ms @ [Failed_Completely k (exn_msg e)]) s'
          else (Inl e, s'))"

section \<open>Inserting\<close>

record insert_counts =
  nc_inserted :: int
  nc_failed :: int

record insert_report =
  ip_total :: nat
  ip_inserted :: int
  ip_failed :: int
  ip_errors :: "batch_message list"
  ip_success_rate :: rat

definition batch_insert :: "('d list \<Rightarrow> ('s, int bulk_reply) act) \<Rightarrow> int \<Rightarrow> 'd list \<Rightarrow> ('s, insert_report) act" where
  "batch_insert insert_many bsize docs =
     bindA (liftR (in_batches bsize docs)) (\<lambda>bs.
     bindA (each_batch insert_many (\<lambda>n t. t\<lparr>nc_inserted := nc_inserted t + n\<rparr>)
              (\<lambda>b n t. t\<lparr>nc_inserted := nc_inserted t + n, nc_failed := nc_failed t + (int (length b) - n)\<rparr>)
              (\<lambda>b t. t\<lparr>nc_failed := nc_failed t + int (length b)\<rparr>)
              1 bs (\<lparr> nc_inserted = 0, nc_failed = 0 \<rparr>, [])) (\<lambda>(t, ms).
     ret \<lparr> ip_total = length docs, ip_inserted = nc_inserted t, ip_failed = nc_failed t, ip_errors = ms,
           ip_success_rate = (if docs = [] then 0 else of_int (nc_inserted t) / of_nat (length docs) * 100) \<rparr>))"

section \<open>Updating\<close>

record update_counts =
  wc_matched :: int
  wc_modified :: int
  wc_upserted :: int
  wc_failed :: int

record ('f, 'u) update_op =
  op_filter :: "'f option"
  op_update :: "'u option"
  op_upsert :: "bool option"

record update_report =
  uw_total :: nat
  uw_counts :: update_counts
  uw_errors :: "batch_message list"

text \<open>The operations of a batch; a missing key fails the batch before anything is written.\<close>

fun build_operations :: "bool \<Rightarrow> ('f, 'u) update_op list \<Rightarrow> ('f \<times> 'u \<times> bool) list res" where
  "build_operations upsert [] = Inr []"
| "build_operations upsert (w # ws) =
     bindR (need ''filter'' (op_filter w)) (\<lambda>f.
     bindR (need ''update'' (op_update w)) (\<lambda>u.
     bindR (build_operations upsert ws) (\<lambda>vs.
       Inr ((f, u, case op_upsert w of None \<Rightarrow> upsert | Some b \<Rightarrow> b) # vs))))"

definition add_update_counts :: "update_counts \<Rightarrow> update_counts \<Rightarrow> update_counts" where
  "add_update_counts c t =
     t\<lparr>wc_matched := wc_matched t + wc_matched c, wc_modified := wc_modified t + wc_modified c,
       wc_upserted := wc_upserted t + wc_upserted c\<rparr>"

definition batch_update ::
  "(('f \<times> 'u \<times> bool) list \<Rightarrow> ('s, update_counts bulk_reply) act) \<Rightarrow> int \<Rightarrow> bool \<Rightarrow> ('f, 'u) update_op list
    \<Rightarrow> ('s, update_report) act" where
  "batch_update bulk_write bsize upsert ops =
     bindA (liftR (in_batches bsize ops)) (\<lambda>bs.
     bindA (each_batch (\<lambda>b. bindA (liftR (build_operations upsert b)) bulk_write) add_update_counts
              (\<lambda>b c t. (add_update_counts c t)\<lparr>wc_failed := wc_failed t + (int (length b) - wc_matched c - wc_upserted c)\<rparr>)
              (\<lambda>b t. t\<lparr>wc_failed := wc_failed t + int (length b)\<rparr>)
              1 bs (\<lparr> wc_matched = 0, wc_modified = 0, wc_upserted = 0, wc_failed = 0 \<rparr>, [])) (\<lambda>(t, ms).
     ret \<lparr> uw_total = length ops, uw_counts = t, uw_errors = ms \<rparr>))"

section \<open>Deleting\<close>

record delete_report =
  dw_total :: nat
  dw_deleted :: int
  dw_failed :: int
  dw_errors :: "batch_message list"

definition batch_delete :: "('f list \<Rightarrow> ('s, int bulk_reply) act) \<Rightarrow> int \<Rightarrow> 'f list \<Rightarrow> ('s, delete_report) act" where
  "batch_delete bulk_write bsize filters =
     bindA (liftR (in_batches bsize filters)) (\<lambda>bs.
     bindA (each_batch bulk_write (\<lambda>n t. t\<lparr>nc_inserted := nc_inserted t + n\<rparr>)
              (\<lambda>b n t. t\<lparr>nc_inserted := nc_inserted t + n, nc_failed := nc_failed t + (int (length b) - n)\<rparr>)
              (\<lambda>b t. t\<lparr>nc_failed := nc_failed t + int (length b)\<rparr>)
              1 bs (\<lparr> nc_inserted = 0, nc_failed = 0 \<rparr>, [])) (\<lambda>(t, ms).
     ret \<lparr> dw_total = length filters, dw_deleted = nc_inserted t, dw_failed = nc_failed t, dw_errors = ms \<rparr>))"

section \<open>All of them are tried\<close>

lemma batches_of_Nil [simp]: "batches_of n [] = []"
  by (simp add: batches_of.simps)

lemma concat_batches: "n \<noteq> 0 \<Longrightarrow> concat (batches_of n xs) = xs"
proof (induction n xs rule: batches_of.induct)
  case (1 n xs)
  then show ?case by (cases "xs = []") (simp_all add: batches_of.simps [of n xs])
qed

lemma batches_small: "b \<in> set (batches_of n xs) \<Longrightarrow> length b \<le> n \<and> b \<noteq> []"
proof (induction n xs rule: batches_of.induct)
  case (1 n xs)
  then show ?case by (cases "n = 0 \<or> xs = []") (auto simp: batches_of.simps [of n xs])
qed

text \<open>A database whose \<open>insert_many\<close> reports what it inserted: all of a batch, or a part of it.\<close>

definition honest :: "('d list \<Rightarrow> ('s, int bulk_reply) act) \<Rightarrow> bool" where
  "honest f = (\<forall>b s. case f b s of
      (Inr (Written n), t) \<Rightarrow> n = int (length b)
    | (Inr (Bulk_Error n), t) \<Rightarrow> 0 \<le> n \<and> n \<le> int (length b)
    | (Inl e, t) \<Rightarrow> True)"

lemma run_inserts:
  assumes "honest f"
    and "each_batch f (\<lambda>n t. t\<lparr>nc_inserted := nc_inserted t + n\<rparr>)
      (\<lambda>b n t. t\<lparr>nc_inserted := nc_inserted t + n, nc_failed := nc_failed t + (int (length b) - n)\<rparr>)
      (\<lambda>b t. t\<lparr>nc_failed := nc_failed t + int (length b)\<rparr>) k bs (t, ms) s = (Inr (t', ms'), s')"
  shows "nc_inserted t' + nc_failed t' = nc_inserted t + nc_failed t + int (length (concat bs))
    \<and> nc_inserted t \<le> nc_inserted t' \<and> nc_failed t \<le> nc_failed t'
    \<and> length ms' - length ms \<le> length bs \<and> (ms' = ms \<longrightarrow> nc_failed t' = nc_failed t) \<and> length ms \<le> length ms'"
  using assms(2)
proof (induction bs arbitrary: k t ms s)
  case (Cons b bs)
  obtain r s1 where c: "f b s = (r, s1)" by force
  have h: "case r of Inr (Written n) \<Rightarrow> n = int (length b) | Inr (Bulk_Error n) \<Rightarrow> 0 \<le> n \<and> n \<le> int (length b) | Inl e \<Rightarrow> True"
    using assms(1) c unfolding honest_def by (metis (no_types, lifting) case_prod_conv)
  show ?case
  proof (cases r)
    case (Inl e)
    then show ?thesis using Cons.prems c by (auto split: if_splits dest!: Cons.IH)
  next
    case (Inr y)
    then show ?thesis using Cons.prems c h by (cases y) (auto dest!: Cons.IH)
  qed
qed simp

text \<open>
  Every document is counted once, as inserted or as failed, whatever batches fail; without an
  error message nothing failed.
\<close>

theorem every_document_counted:
  assumes "honest f" and "0 < bsize" and "batch_insert f bsize docs s = (Inr r, s')"
  shows "ip_inserted r + ip_failed r = int (ip_total r) \<and> ip_total r = length docs \<and> 0 \<le> ip_inserted r \<and> 0 \<le> ip_failed r
    \<and> (ip_errors r = [] \<longrightarrow> ip_failed r = 0)"
proof -
  obtain t ms where run: "each_batch f (\<lambda>n t. t\<lparr>nc_inserted := nc_inserted t + n\<rparr>)
      (\<lambda>b n t. t\<lparr>nc_inserted := nc_inserted t + n, nc_failed := nc_failed t + (int (length b) - n)\<rparr>)
      (\<lambda>b t. t\<lparr>nc_failed := nc_failed t + int (length b)\<rparr>) 1 (batches_of (nat bsize) docs)
      (\<lparr> nc_inserted = 0, nc_failed = 0 \<rparr>, []) s = (Inr (t, ms), s')"
    and r: "ip_total r = length docs" "ip_inserted r = nc_inserted t" "ip_failed r = nc_failed t" "ip_errors r = ms"
    using assms(2,3)
    by (auto simp: batch_insert_def in_batches_def liftR_def bindA_def ret_def split: prod.splits sum.splits)
  show ?thesis
    using run_inserts [OF assms(1) run] assms(2) r concat_batches [of "nat bsize" docs] by auto
qed

section \<open>Concrete batches\<close>

text \<open>A collection of numbers with room for three documents; a batch with a 0 is refused.\<close>

definition small_insert :: "nat list \<Rightarrow> (nat list, int bulk_reply) act" where
  "small_insert b s =
     (if 0 \<in> set b then (Inl (Exn ''OperationFailure'' ''zero''), s)
      else (let room = 3 - length s in
            if length b \<le> room then (Inr (Written (int (length b))), s @ b)
            else (Inr (Bulk_Error (int room)), s @ take room b)))"

lemma small_insert_honest: "honest small_insert"
  by (auto simp: honest_def small_insert_def Let_def)

lemma every_document_counted_witness:
  "\<exists>r s'. batch_insert small_insert 2 [1, 2, 3, 4, 0] [] = (Inr r, s') \<and> ip_inserted r = 3 \<and> ip_failed r = 2
    \<and> ip_errors r = [Bulk_Errors 2, Failed_Completely 3 ''zero''] \<and> ip_inserted r + ip_failed r = int (ip_total r)"
proof -
  have "case batch_insert small_insert 2 [1, 2, 3, 4, 0] [] of (Inr r, s') \<Rightarrow> ip_inserted r = 3 \<and> ip_failed r = 2
      \<and> ip_errors r = [Bulk_Errors 2, Failed_Completely 3 ''zero''] | _ \<Rightarrow> False"
    by code_simp
  then obtain r s' where r: "batch_insert small_insert 2 [1, 2, 3, 4, 0] [] = (Inr r, s')" "ip_inserted r = 3" "ip_failed r = 2"
      "ip_errors r = [Bulk_Errors 2, Failed_Completely 3 ''zero'']"
    by (auto split: prod.splits sum.splits)
  with every_document_counted [OF small_insert_honest _ r(1)] show ?thesis by auto
qed

text \<open>A negative size writes nothing and reports neither an error nor a failure.\<close>

lemma negative_size_does_nothing:
  "bsize < 0 \<Longrightarrow> batch_insert f bsize docs s =
    (Inr \<lparr> ip_total = length docs, ip_inserted = 0, ip_failed = 0, ip_errors = [], ip_success_rate = 0 \<rparr>, s)"
  by (simp add: batch_insert_def in_batches_def liftR_def bindA_def ret_def batches_of.simps)

text \<open>An update that matches nothing is neither matched, upserted nor failed.\<close>

lemma unmatched_update_not_counted:
  "fst (batch_update (\<lambda>b. ret (Written \<lparr> wc_matched = 0, wc_modified = 0, wc_upserted = 0, wc_failed = 0 \<rparr>)) 500 False
     [\<lparr> op_filter = Some (1::nat), op_update = Some (2::nat), op_upsert = None \<rparr>] ()) =
   Inr \<lparr> uw_total = 1, uw_counts = \<lparr> wc_matched = 0, wc_modified = 0, wc_upserted = 0, wc_failed = 0 \<rparr>, uw_errors = [] \<rparr>"
  by code_simp

end
