(* ===== verification/Validation_Rules.thy ===== *)
theory Validation_Rules
  imports Stage_Config
begin

text \<open>
  \<open>lib/validation/rules.py\<close>: rules on values and the validation of a value and of a dictionary.

  A regular expression is the predicate it stands for, beside its text; a custom validator may
  raise. An error keeps the field, the value and what is wrong with it, from which the message is
  made.
\<close>

section \<open>Rules\<close>

datatype problem =
    No_Length | Too_Short nat nat | Too_Long nat nat | Not_A_String | No_Match string | Not_Numeric
  | Below rat rat | Above rat rat | Validator_Raised string | Check_Failed string | Is_None | Is_Empty | Is_Missing

record validation_error =
  ve_field :: string
  ve_problem :: problem
  ve_value :: pyval

datatype rule =
    MinLength nat
  | MaxLength nat
  | Pattern string "string \<Rightarrow> bool"
  | Range "rat option" "rat option"
  | Custom "pyval \<Rightarrow> bool res" string
  | NotEmpty

text \<open>\<open>Range(min_val, max_val)\<close> needs one of the bounds.\<close>

definition new_range :: "rat option \<Rightarrow> rat option \<Rightarrow> rule res" where
  "new_range lo hi =
     (if lo = None \<and> hi = None then Inl (value_error ''At least one of min_val or max_val must be specified'')
      else Inr (Range lo hi))"

fun py_len :: "pyval \<Rightarrow> nat option" where
  "py_len (PStr s) = Some (length s)"
| "py_len (PBytes s) = Some (length s)"
| "py_len (PList xs) = Some (length xs)"
| "py_len (PTuple xs) = Some (length xs)"
| "py_len (PDict d) = Some (length d)"
| "py_len v = None"

text \<open>\<open>isinstance(value, (int, float))\<close>: a \<open>bool\<close> is an \<open>int\<close>.\<close>

fun number_of :: "pyval \<Rightarrow> rat option" where
  "number_of (PBool b) = Some (of_bool b)"
| "number_of (PInt i) = Some (of_int i)"
| "number_of (PFloat r) = Some r"
| "number_of v = None"

fun range_problem :: "rat option \<Rightarrow> rat option \<Rightarrow> rat \<Rightarrow> problem option" where
  "range_problem lo hi x =
     (case lo of
        Some a \<Rightarrow> if x < a then Some (Below a x) else (case hi of Some b \<Rightarrow> if b < x then Some (Above b x) else None | None \<Rightarrow> None)
      | None \<Rightarrow> (case hi of Some b \<Rightarrow> if b < x then Some (Above b x) else None | None \<Rightarrow> None))"

text \<open>
  The first thing a rule finds wrong; a validator raising anything but an \<open>Exception\<close> is not
  caught.
\<close>

fun rule_problem :: "rule \<Rightarrow> pyval \<Rightarrow> problem option res" where
  "rule_problem (MinLength n) v =
     Inr (case py_len v of None \<Rightarrow> Some No_Length | Some k \<Rightarrow> if k < n then Some (Too_Short n k) else None)"
| "rule_problem (MaxLength n) v =
     Inr (case py_len v of None \<Rightarrow> Some No_Length | Some k \<Rightarrow> if n < k then Some (Too_Long n k) else None)"
| "rule_problem (Pattern p m) v =
     Inr (case v of PStr s \<Rightarrow> if m s then None else Some (No_Match p) | _ \<Rightarrow> Some Not_A_String)"
| "rule_problem (Range lo hi) v =
     Inr (case number_of v of None \<Rightarrow> Some Not_Numeric | Some x \<Rightarrow> range_problem lo hi x)"
| "rule_problem (Custom f d) v =
     (case f v of
        Inr ok \<Rightarrow> Inr (if ok then None else Some (Check_Failed d))
      | Inl e \<Rightarrow> if is_Exception e then Inr (Some (Validator_Raised (exn_msg e))) else Inl e)"
| "rule_problem NotEmpty v =
     Inr (if v = PNone then Some Is_None else if py_len v = Some 0 then Some Is_Empty else None)"

fun get_description :: "(rat \<Rightarrow> string) \<Rightarrow> rule \<Rightarrow> string" where
  "get_description show_num (MinLength n) = ''minimum length: '' @ str_of_nat n"
| "get_description show_num (MaxLength n) = ''maximum length: '' @ str_of_nat n"
| "get_description show_num (Pattern p m) = ''pattern: '' @ p"
| "get_description show_num (Range lo hi) =
     (case (lo, hi) of
        (Some a, Some b) \<Rightarrow> ''range: ['' @ show_num a @ '', '' @ show_num b @ '']''
      | (Some a, None) \<Rightarrow> ''minimum: '' @ show_num a
      | (None, Some b) \<Rightarrow> ''maximum: '' @ show_num b
      | (None, None) \<Rightarrow> ''maximum: None'')"
| "get_description show_num (Custom f d) = d"
| "get_description show_num NotEmpty = ''not empty''"

section \<open>Validation\<close>

text \<open>The first error, if any.\<close>

fun validate_value :: "pyval \<Rightarrow> rule list \<Rightarrow> string \<Rightarrow> validation_error option res" where
  "validate_value v [] name = Inr None"
| "validate_value v (r # rs) name =
     bindR (rule_problem r v) (\<lambda>p. case p of
       Some q \<Rightarrow> Inr (Some \<lparr> ve_field = name, ve_problem = q, ve_value = v \<rparr>)
     | None \<Rightarrow> validate_value v rs name)"

fun field_errors :: "pyval \<Rightarrow> rule list \<Rightarrow> string \<Rightarrow> validation_error list res" where
  "field_errors v [] name = Inr []"
| "field_errors v (r # rs) name =
     bindR (rule_problem r v) (\<lambda>p.
     bindR (field_errors v rs name) (\<lambda>es.
       Inr ((case p of None \<Rightarrow> [] | Some q \<Rightarrow> [\<lparr> ve_field = name, ve_problem = q, ve_value = v \<rparr>]) @ es)))"

fun validate_dict :: "dict \<Rightarrow> (string \<times> rule list) list \<Rightarrow> validation_error list res" where
  "validate_dict data [] = Inr []"
| "validate_dict data ((name, rs) # fs) =
     bindR (case map_of data name of
              None \<Rightarrow> Inr [\<lparr> ve_field = name, ve_problem = Is_Missing, ve_value = PNone \<rparr>]
            | Some v \<Rightarrow> field_errors v rs name) (\<lambda>es.
     bindR (validate_dict data fs) (\<lambda>fs'. Inr (es @ fs')))"

section \<open>Facts\<close>

text \<open>Both validations look at the same errors: one stops at the first, the other collects all.\<close>

lemma validate_value_first:
  assumes "field_errors v rs name = Inr es"
  shows "validate_value v rs name = Inr (case es of [] \<Rightarrow> None | e # es' \<Rightarrow> Some e)"
  using assms by (induction rs arbitrary: es) (auto simp: bindR_eq_Inr split: option.split)

lemma field_errors_empty:
  "field_errors v rs name = Inr [] \<longleftrightarrow> list_all (\<lambda>r. rule_problem r v = Inr None) rs"
  by (induction rs) (auto simp: bindR_eq_Inr split: option.splits)

lemma field_errors_named: "field_errors v rs name = Inr es \<Longrightarrow> list_all (\<lambda>e. ve_field e = name \<and> ve_value e = v) es \<and> length es \<le> length rs"
  by (induction rs arbitrary: es) (fastforce simp: bindR_eq_Inr split: option.splits)+

text \<open>
  A dictionary is valid exactly when every field that has rules is there and its value passes all
  of them; fields without rules are not looked at.
\<close>

theorem dictionary_valid_iff:
  "validate_dict data fs = Inr [] \<longleftrightarrow>
     list_all (\<lambda>(name, rs). \<exists>v. map_of data name = Some v \<and> list_all (\<lambda>r. rule_problem r v = Inr None) rs) fs"
proof (induction fs)
  case (Cons f fs)
  obtain name rs where f: "f = (name, rs)" by force
  show ?case
    using Cons.IH by (cases "map_of data name") (auto simp: f bindR_eq_Inr field_errors_empty)
qed simp

text \<open>What a range accepts.\<close>

lemma range_accepts_iff:
  "rule_problem (Range lo hi) v = Inr None \<longleftrightarrow>
     (\<exists>x. number_of v = Some x \<and> (\<forall>a. lo = Some a \<longrightarrow> a \<le> x) \<and> (\<forall>b. hi = Some b \<longrightarrow> x \<le> b))"
  by (cases "number_of v") (auto split: option.splits simp: not_less)

lemma bool_is_in_range: "rule_problem (Range (Some 0) (Some 150)) (PBool True) = Inr None"
  by simp

lemma length_rules_exclude:
  "rule_problem (MinLength n) v = Inr None \<Longrightarrow> rule_problem (MaxLength m) v = Inr None \<Longrightarrow>
    \<exists>k. py_len v = Some k \<and> n \<le> k \<and> k \<le> m"
  by (auto split: option.splits if_splits)

end
