(* ===== verification/Source_Filters.thy ===== *)
theory Source_Filters
  imports Validation_Rules
begin

text \<open>
  \<open>app/api/stages/source_selection.py\<close>, the definition of a filter over the raw videos: its
  validation, the query it is turned into, and the order of the videos.

  A definition is the JSON object of the request: its floats are the numbers as they are written,
  of which those beyond the range of a double are an infinity (\<open>NaN\<close> is not JSON). Whether a text
  is an ISO date is a parameter.
  A query keeps the conditions of its fields, of \<open>$or\<close> and of \<open>$and\<close>; \<open>selects\<close> is the documented
  meaning of the operators that occur, with the pattern of escaped keywords read as the
  keywords it was made of. Texts compare by their characters, and a number is never a Boolean there.
\<close>

section \<open>Validation\<close>

definition MAX_RESOLVE_LIMIT :: int where
  "MAX_RESOLVE_LIMIT = 10000"

definition supported_sort_fields :: "string list" where
  "supported_sort_fields =
     [''created_at'', ''duration_seconds'', ''engagement_score'', ''published_at'', ''stats.likeCount'', ''stats.viewCount'']"

definition quoted :: "string \<Rightarrow> string" where
  "quoted s = [quote] @ s @ [quote]"

fun is_str :: "pyval \<Rightarrow> bool" where
  "is_str (PStr s) = True"
| "is_str v = False"

definition channel_errors :: "dict \<Rightarrow> string list" where
  "channel_errors d =
     (case map_of d ''channels'' of
        None \<Rightarrow> []
      | Some (PList cs) \<Rightarrow> if list_all is_str cs then [] else [''All channel IDs must be strings'']
      | Some v \<Rightarrow> [quoted ''channels'' @ '' must be an array of channel IDs''])"

text \<open>A section that must be an object, and what is wrong with its fields.\<close>

definition section_errors :: "dict \<Rightarrow> string \<Rightarrow> string \<Rightarrow> (dict \<Rightarrow> string list) \<Rightarrow> string list" where
  "section_errors d name suffix check =
     (case map_of d name of
        None \<Rightarrow> []
      | Some (PDict x) \<Rightarrow> check x
      | Some v \<Rightarrow> [quoted name @ '' must be an object'' @ suffix])"

definition date_error :: "(string \<Rightarrow> bool) \<Rightarrow> dict \<Rightarrow> string \<Rightarrow> string list" where
  "date_error iso_ok x field =
     (case map_of x field of
        Some (PStr s) \<Rightarrow> if s \<noteq> [] \<and> \<not> iso_ok (replace_all ''Z'' ''+00:00'' s)
          then [quoted (''date_range.'' @ field) @ '' must be a valid ISO date string''] else []
      | _ \<Rightarrow> [])"

definition non_negative :: "pyval \<Rightarrow> bool" where
  "non_negative v = (case number_of v of None \<Rightarrow> False | Some x \<Rightarrow> 0 \<le> x)"

definition number_error :: "string \<Rightarrow> dict \<Rightarrow> string \<Rightarrow> string list" where
  "number_error part x field =
     (case map_of x field of
        None \<Rightarrow> []
      | Some v \<Rightarrow> if v = PNone \<or> non_negative v then []
                  else [quoted (part @ ''.'' @ field) @ '' must be a non-negative number''])"

definition score_error :: "dict \<Rightarrow> string list" where
  "score_error x =
     (case map_of x ''min_engagement_score'' of
        None \<Rightarrow> []
      | Some v \<Rightarrow> if v = PNone \<or> (case number_of v of None \<Rightarrow> False | Some r \<Rightarrow> 0 \<le> r \<and> r \<le> 1) then []
                  else [quoted ''engagement.min_engagement_score'' @ '' must be between 0 and 1''])"

definition keyword_error :: "dict \<Rightarrow> string \<Rightarrow> string list" where
  "keyword_error x field =
     (case map_of x field of
        None \<Rightarrow> []
      | Some v \<Rightarrow> if \<not> truthy v then []
                  else (case v of
                      PList ks \<Rightarrow> if list_all is_str ks then [] else [''All items in '' @ quoted (''content.'' @ field) @ '' must be strings'']
                    | _ \<Rightarrow> [quoted (''content.'' @ field) @ '' must be an array of strings'']))"

definition transcript_error :: "dict \<Rightarrow> string list" where
  "transcript_error x =
     (case map_of x ''has_transcript'' of
        None \<Rightarrow> []
      | Some (PBool b) \<Rightarrow> []
      | Some v \<Rightarrow> [quoted ''content.has_transcript'' @ '' must be a boolean''])"

text \<open>\<open>v in S\<close> for a set of texts: the value must be hashable.\<close>

definition in_supported :: "pyval \<Rightarrow> bool res" where
  "in_supported v =
     (if hashable v then Inr (v \<in> PStr ` set supported_sort_fields)
      else Inl (Exn ''TypeError'' (''unhashable type: '' @ quoted (type_name v))))"

definition order_error :: "dict \<Rightarrow> string list" where
  "order_error x =
     (case map_of x ''order'' of
        None \<Rightarrow> []
      | Some v \<Rightarrow> if v \<in> {PStr ''asc'', PStr ''desc''} then [] else [quoted ''sort.order'' @ '' must be '' @ quoted ''asc'' @ '' or '' @ quoted ''desc''])"

definition sort_errors :: "dict \<Rightarrow> string list res" where
  "sort_errors d =
     (case map_of d ''sort'' of
        None \<Rightarrow> Inr []
      | Some (PDict x) \<Rightarrow>
          bindR (case map_of x ''field'' of None \<Rightarrow> Inr True | Some v \<Rightarrow> in_supported v) (\<lambda>ok.
            Inr ((if ok then [] else [quoted ''sort.field'' @ '' must be one of: '' @ str_join '', '' supported_sort_fields])
                 @ order_error x))
      | Some v \<Rightarrow> Inr [quoted ''sort'' @ '' must be an object with '' @ quoted ''field'' @ '' and '' @ quoted ''order''])"

text \<open>\<open>isinstance(limit, int)\<close> holds for \<open>True\<close>, which is 1.\<close>

definition limit_errors :: "dict \<Rightarrow> string list" where
  "limit_errors d =
     (case map_of d ''limit'' of
        None \<Rightarrow> []
      | Some v \<Rightarrow>
          (case (case v of PInt i \<Rightarrow> Some i | PBool b \<Rightarrow> Some (of_bool b) | _ \<Rightarrow> None) of
             None \<Rightarrow> [quoted ''limit'' @ '' must be a positive integer'']
           | Some i \<Rightarrow> if i < 1 then [quoted ''limit'' @ '' must be a positive integer'']
                       else if MAX_RESOLVE_LIMIT < i then [quoted ''limit'' @ '' cannot exceed '' @ str_of_int MAX_RESOLVE_LIMIT]
                       else []))"

definition validate_filter_definition :: "(string \<Rightarrow> bool) \<Rightarrow> pyval \<Rightarrow> string list res" where
  "validate_filter_definition iso_ok v =
     (case v of
        PDict d \<Rightarrow>
          bindR (sort_errors d) (\<lambda>es. Inr
            (channel_errors d
             @ section_errors d ''date_range'' ('' with '' @ quoted ''start'' @ '' and/or '' @ quoted ''end'')
                 (\<lambda>x. date_error iso_ok x ''start'' @ date_error iso_ok x ''end'')
             @ section_errors d ''engagement'' []
                 (\<lambda>x. number_error ''engagement'' x ''min_views'' @ number_error ''engagement'' x ''max_views'' @ score_error x)
             @ section_errors d ''content'' []
                 (\<lambda>x. keyword_error x ''keywords_any'' @ keyword_error x ''keywords_all'' @ transcript_error x)
             @ section_errors d ''duration'' []
                 (\<lambda>x. number_error ''duration'' x ''min_seconds'' @ number_error ''duration'' x ''max_seconds'')
             @ es @ limit_errors d))
      | _ \<Rightarrow> Inr [''Filter definition must be an object''])"

text \<open>The pattern \<open>^[\w\s\-_.]+$\<close> on a text without blanks at its ends.\<close>

definition name_char :: "char \<Rightarrow> bool" where
  "name_char c = (is_alnum c \<or> is_space c \<or> c \<in> {CHR ''_'', CHR ''-'', CHR ''.''})"

definition validate_filter_name :: "string \<Rightarrow> string list" where
  "validate_filter_name s =
     (let n = str_strip s
      in if n = [] then [''Filter name is required'']
         else if 100 < length n then [''Filter name cannot exceed 100 characters'']
         else if \<not> list_all name_char n
         then [''Filter name can only contain letters, numbers, spaces, hyphens, underscores, and periods'']
         else [])"

section \<open>Queries\<close>

datatype condition =
    One_of "pyval list"
  | Between "pyval option" "pyval option"
  | Has_all "string list"
  | Mentions "string list"
  | Present bool
  | Equal pyval
  | Not_equal pyval

type_synonym clause = "string \<times> condition"

record video_query =
  vq_fields :: "clause list"
  vq_or :: "clause list"
  vq_and :: "clause list"

text \<open>\<open>if v := d.get(name): ...\<close>.\<close>

definition when_set :: "dict \<Rightarrow> string \<Rightarrow> (pyval \<Rightarrow> clause list res) \<Rightarrow> clause list res" where
  "when_set d name f = (let v = dget d name in if truthy v then f v else Inr [])"

text \<open>A value that is not a list is ignored.\<close>

definition in_clause :: "string \<Rightarrow> pyval \<Rightarrow> clause list res" where
  "in_clause name v = Inr (case v of PList xs \<Rightarrow> [(name, One_of xs)] | _ \<Rightarrow> [])"

definition between :: "string \<Rightarrow> pyval option \<Rightarrow> pyval option \<Rightarrow> clause list" where
  "between name lo hi = (if lo = None \<and> hi = None then [] else [(name, Between lo hi)])"

definition date_clauses :: "pyval \<Rightarrow> clause list res" where
  "date_clauses v =
     bindR (get_attr v ''start'') (\<lambda>s. bindR (get_attr v ''end'') (\<lambda>e.
       Inr (between ''published_at'' (if truthy s then Some s else None) (if truthy e then Some e else None))))"

text \<open>
  \<open>int(x)\<close> and \<open>float(x)\<close>: from half a unit beyond the largest double on, a float is infinite and
  an integer cannot become a float.
\<close>

definition beyond_double :: "rat \<Rightarrow> bool" where
  "beyond_double r = (2 ^ 1024 - 2 ^ 970 \<le> \<bar>r\<bar>)"

definition infinity_error :: exn where
  "infinity_error = Exn ''OverflowError'' ''cannot convert float infinity to integer''"

fun double_int :: "pyval \<Rightarrow> int res" where
  "double_int (PFloat r) = (if beyond_double r then Inl infinity_error else py_int (PFloat r))"
| "double_int v = py_int v"

fun double_float :: "pyval \<Rightarrow> rat res" where
  "double_float (PInt i) =
     (if beyond_double (of_int i) then Inl (Exn ''OverflowError'' ''int too large to convert to float'') else py_float (PInt i))"
| "double_float v = py_float v"

text \<open>\<open>if x := v.get(k): int(x)\<close>: a bound of 0 is none.\<close>

definition int_bound :: "pyval \<Rightarrow> string \<Rightarrow> pyval option res" where
  "int_bound v k =
     bindR (get_attr v k) (\<lambda>x. if truthy x then bindR (double_int x) (\<lambda>i. Inr (Some (PInt i))) else Inr None)"

definition engagement_clauses :: "pyval \<Rightarrow> clause list res" where
  "engagement_clauses v =
     bindR (int_bound v ''min_views'') (\<lambda>lo. bindR (int_bound v ''max_views'') (\<lambda>hi.
     bindR (get_attr v ''min_engagement_score'') (\<lambda>s.
     bindR (if truthy s then bindR (double_float s) (\<lambda>r. Inr [(''engagement_score'', Between (Some (PFloat r)) None)]) else Inr []) (\<lambda>cs.
       Inr (between ''stats.viewCount'' lo hi @ cs)))))"

definition duration_clauses :: "pyval \<Rightarrow> clause list res" where
  "duration_clauses v =
     bindR (int_bound v ''min_seconds'') (\<lambda>lo. bindR (int_bound v ''max_seconds'') (\<lambda>hi.
       Inr (between ''duration_seconds'' lo hi)))"

fun keyword_texts :: "pyval list \<Rightarrow> string list res" where
  "keyword_texts [] = Inr []"
| "keyword_texts (PStr s # ks) = bindR (keyword_texts ks) (\<lambda>ss. Inr (s # ss))"
| "keyword_texts (v # ks) =
     Inl (Exn ''AttributeError'' (quoted (type_name v) @ '' object has no attribute '' @ quoted ''lower''))"

definition keyword_list :: "pyval \<Rightarrow> string \<Rightarrow> string list res" where
  "keyword_list v k = bindR (get_attr v k) (\<lambda>x. case x of PList ks \<Rightarrow> keyword_texts ks | _ \<Rightarrow> Inr [])"

text \<open>
  The content: both \<open>keywords_any\<close> and \<open>has_transcript = False\<close> put their alternatives into the
  same \<open>$or\<close>. The result has the conditions of the fields, of \<open>$or\<close> and of \<open>$and\<close>.
\<close>

definition content_clauses :: "pyval \<Rightarrow> video_query res" where
  "content_clauses v =
     bindR (keyword_list v ''keywords_any'') (\<lambda>any.
     bindR (keyword_list v ''keywords_all'') (\<lambda>all.
     bindR (get_attr v ''has_transcript'') (\<lambda>t.
       Inr \<lparr> vq_fields = (if all = [] then [] else [(''keywords'', Has_all (map str_lower all))]),
             vq_or = (if any = [] then [] else
                 [(''keywords'', One_of (map (\<lambda>k. PStr (str_lower k)) any)), (''title'', Mentions any)])
               @ (if t = PBool False then
                 [(''transcript_raw'', Present False), (''transcript_raw'', Equal PNone), (''transcript_raw'', Equal (PStr []))] else []),
             vq_and = (if t = PBool True then
                 [(''transcript_raw'', Present True), (''transcript_raw'', Not_equal PNone), (''transcript_raw'', Not_equal (PStr []))] else []) \<rparr>)))"

definition filter_to_mongo_query :: "dict \<Rightarrow> video_query res" where
  "filter_to_mongo_query d =
     bindR (when_set d ''channels'' (in_clause ''channel_id'')) (\<lambda>channels.
     bindR (when_set d ''date_range'' date_clauses) (\<lambda>dates.
     bindR (when_set d ''engagement'' engagement_clauses) (\<lambda>engagement.
     bindR (if truthy (dget d ''content'') then content_clauses (dget d ''content'')
            else Inr \<lparr> vq_fields = [], vq_or = [], vq_and = [] \<rparr>) (\<lambda>q.
     bindR (when_set d ''duration'' duration_clauses) (\<lambda>duration.
     bindR (when_set d ''playlist_ids'' (in_clause ''playlist_id'')) (\<lambda>playlists.
       Inr (q\<lparr>vq_fields := channels @ dates @ engagement @ vq_fields q @ duration @ playlists\<rparr>)))))))"

text \<open>The field and the direction to sort by; \<open>d.get(k, default)\<close> keeps a stored \<open>None\<close>.\<close>

definition get_or :: "pyval \<Rightarrow> string \<Rightarrow> pyval \<Rightarrow> pyval res" where
  "get_or v k x = (case v of PDict d \<Rightarrow> Inr (case map_of d k of None \<Rightarrow> x | Some y \<Rightarrow> y) | _ \<Rightarrow> get_attr v k)"

definition get_sort_spec :: "dict \<Rightarrow> (string \<times> int) res" where
  "get_sort_spec d =
     (let config = (case map_of d ''sort'' of
            None \<Rightarrow> PDict [(''field'', PStr ''published_at''), (''order'', PStr ''desc'')] | Some v \<Rightarrow> v)
      in bindR (get_or config ''field'' (PStr ''published_at'')) (\<lambda>field.
         bindR (get_or config ''order'' (PStr ''desc'')) (\<lambda>order.
         bindR (in_supported field) (\<lambda>ok.
           Inr (if ok then (case field of PStr f \<Rightarrow> f | _ \<Rightarrow> ''published_at'') else ''published_at'',
                if order = PStr ''desc'' then -1 else 1)))))"

section \<open>The meaning of a query\<close>

fun path_at :: "string list \<Rightarrow> pyval \<Rightarrow> pyval option" where
  "path_at [] v = Some v"
| "path_at (k # ks) (PDict d) = (case map_of d k of None \<Rightarrow> None | Some v \<Rightarrow> path_at ks v)"
| "path_at (k # ks) v = None"

definition field_at :: "dict \<Rightarrow> string \<Rightarrow> pyval option" where
  "field_at doc name = path_at (str_split_n (CHR ''.'') (length name) [] name) (PDict doc)"

text \<open>A condition on a field with an array holds if it holds for an element.\<close>

definition values_at :: "dict \<Rightarrow> string \<Rightarrow> pyval list" where
  "values_at doc name =
     (case field_at doc name of None \<Rightarrow> [] | Some v \<Rightarrow> v # (case v of PList xs \<Rightarrow> xs | _ \<Rightarrow> []))"

fun at_most :: "pyval \<Rightarrow> pyval \<Rightarrow> bool" where
  "at_most (PStr a) (PStr b) = (a \<le> b)"
| "at_most (PInt a) (PInt b) = (a \<le> b)"
| "at_most (PInt a) (PFloat b) = (of_int a \<le> b)"
| "at_most (PFloat a) (PInt b) = (a \<le> of_int b)"
| "at_most (PFloat a) (PFloat b) = (a \<le> b)"
| "at_most a b = False"

definition equals :: "dict \<Rightarrow> string \<Rightarrow> pyval \<Rightarrow> bool" where
  "equals doc name x = (x \<in> set (values_at doc name) \<or> field_at doc name = None \<and> x = PNone)"

definition mentions :: "string list \<Rightarrow> pyval \<Rightarrow> bool" where
  "mentions ks v = (case v of PStr s \<Rightarrow> list_ex (\<lambda>k. str_contains (str_lower k) (str_lower s)) ks | _ \<Rightarrow> False)"

fun meets :: "dict \<Rightarrow> clause \<Rightarrow> bool" where
  "meets doc (name, One_of xs) = list_ex (equals doc name) xs"
| "meets doc (name, Between lo hi) =
     ((case lo of None \<Rightarrow> True | Some a \<Rightarrow> list_ex (at_most a) (values_at doc name)) \<and>
      (case hi of None \<Rightarrow> True | Some b \<Rightarrow> list_ex (\<lambda>x. at_most x b) (values_at doc name)))"
| "meets doc (name, Has_all ks) = list_all (\<lambda>k. equals doc name (PStr k)) ks"
| "meets doc (name, Mentions ks) = list_ex (mentions ks) (values_at doc name)"
| "meets doc (name, Present b) = ((field_at doc name \<noteq> None) = b)"
| "meets doc (name, Equal x) = equals doc name x"
| "meets doc (name, Not_equal x) = (\<not> equals doc name x)"

definition selects :: "video_query \<Rightarrow> dict \<Rightarrow> bool" where
  "selects q doc =
     (list_all (meets doc) (vq_fields q) \<and> (vq_or q = [] \<or> list_ex (meets doc) (vq_or q)) \<and> list_all (meets doc) (vq_and q))"

text \<open>The driver writes no integer that needs more than eight bytes.\<close>

fun wide :: "pyval \<Rightarrow> bool" where
  "wide (PInt i) = (i < - (2 ^ 63) \<or> 2 ^ 63 \<le> i)"
| "wide (PList vs) = list_ex wide vs"
| "wide (PTuple vs) = list_ex wide vs"
| "wide (PDict d) = list_ex (\<lambda>kv. wide (snd kv)) d"
| "wide v = False"

definition wide_option :: "pyval option \<Rightarrow> bool" where
  "wide_option v = (case v of None \<Rightarrow> False | Some x \<Rightarrow> wide x)"

definition wide_error :: exn where
  "wide_error = Exn ''OverflowError'' ''MongoDB can only handle up to 8-byte ints''"

fun wide_condition :: "condition \<Rightarrow> bool" where
  "wide_condition (One_of vs) = list_ex wide vs"
| "wide_condition (Between lo hi) = (wide_option lo \<or> wide_option hi)"
| "wide_condition (Equal v) = wide v"
| "wide_condition (Not_equal v) = wide v"
| "wide_condition c = False"

definition wide_query :: "video_query \<Rightarrow> bool" where
  "wide_query q = list_ex (\<lambda>c. wide_condition (snd c)) (vq_fields q @ vq_or q @ vq_and q)"

text \<open>
  Running a query. \<open>refuses\<close> is what the server answers a query it does not accept: a value that
  begins with a dollar sign, a pattern that is too long.
\<close>

definition run_query :: "(video_query \<Rightarrow> exn option) \<Rightarrow> video_query \<Rightarrow> dict list \<Rightarrow> dict list res" where
  "run_query refuses q videos =
     (if wide_query q then Inl wide_error
      else (case refuses q of Some e \<Rightarrow> Inl e | None \<Rightarrow> Inr (filter (selects q) videos)))"

text \<open>
  A filter definition that passes the validation is turned into a query, or a bound is infinite; and
  the query selects the videos that meet every criterion, unless keywords are combined with a
  missing transcript: then the two share one disjunction.
\<close>

section \<open>The criteria\<close>

definition valid_definition :: "(string \<Rightarrow> bool) \<Rightarrow> pyval \<Rightarrow> bool" where
  "valid_definition iso_ok v = (validate_filter_definition iso_ok v = Inr [])"

definition criterion :: "dict \<Rightarrow> string \<Rightarrow> string \<Rightarrow> pyval" where
  "criterion d part name = (case dget d part of PDict x \<Rightarrow> dget x name | _ \<Rightarrow> PNone)"

definition listed :: "dict \<Rightarrow> string \<Rightarrow> dict \<Rightarrow> string \<Rightarrow> bool" where
  "listed d part doc name = (case dget d part of PList xs \<Rightarrow> xs = [] \<or> list_ex (equals doc name) xs | _ \<Rightarrow> True)"

definition reaches :: "pyval option \<Rightarrow> dict \<Rightarrow> string \<Rightarrow> bool" where
  "reaches b doc name = (case b of None \<Rightarrow> True | Some v \<Rightarrow> list_ex (at_most v) (values_at doc name))"

definition stays_below :: "pyval option \<Rightarrow> dict \<Rightarrow> string \<Rightarrow> bool" where
  "stays_below b doc name = (case b of None \<Rightarrow> True | Some v \<Rightarrow> list_ex (\<lambda>x. at_most x v) (values_at doc name))"

text \<open>A criterion that is set; as a number without its fraction, and with it.\<close>

definition given :: "pyval \<Rightarrow> pyval option" where
  "given v = (if truthy v then Some v else None)"

definition whole :: "pyval \<Rightarrow> pyval option" where
  "whole v = (if truthy v then (case py_int v of Inr i \<Rightarrow> Some (PInt i) | Inl e \<Rightarrow> None) else None)"

definition score :: "pyval \<Rightarrow> pyval option" where
  "score v = (if truthy v then map_option PFloat (number_of v) else None)"

definition keywords_of :: "dict \<Rightarrow> string \<Rightarrow> string list" where
  "keywords_of d name =
     (case criterion d ''content'' name of PList ks \<Rightarrow> concat (map (\<lambda>k. case k of PStr s \<Rightarrow> [s] | _ \<Rightarrow> []) ks) | _ \<Rightarrow> [])"

definition has_keyword :: "dict \<Rightarrow> string \<Rightarrow> bool" where
  "has_keyword doc k = (equals doc ''keywords'' (PStr (str_lower k)) \<or> list_ex (mentions [k]) (values_at doc ''title''))"

definition no_transcript :: "dict \<Rightarrow> bool" where
  "no_transcript doc =
     (field_at doc ''transcript_raw'' = None \<or> equals doc ''transcript_raw'' PNone \<or> equals doc ''transcript_raw'' (PStr []))"

definition transcript_wanted :: "dict \<Rightarrow> dict \<Rightarrow> bool" where
  "transcript_wanted d doc =
     (case criterion d ''content'' ''has_transcript'' of PBool b \<Rightarrow> no_transcript doc = (\<not> b) | _ \<Rightarrow> True)"

definition wanted :: "dict \<Rightarrow> dict \<Rightarrow> bool" where
  "wanted d doc =
     (listed d ''channels'' doc ''channel_id'' \<and> listed d ''playlist_ids'' doc ''playlist_id''
      \<and> reaches (given (criterion d ''date_range'' ''start'')) doc ''published_at''
      \<and> stays_below (given (criterion d ''date_range'' ''end'')) doc ''published_at''
      \<and> reaches (whole (criterion d ''engagement'' ''min_views'')) doc ''stats.viewCount''
      \<and> stays_below (whole (criterion d ''engagement'' ''max_views'')) doc ''stats.viewCount''
      \<and> reaches (score (criterion d ''engagement'' ''min_engagement_score'')) doc ''engagement_score''
      \<and> (keywords_of d ''keywords_any'' = [] \<or> list_ex (has_keyword doc) (keywords_of d ''keywords_any''))
      \<and> list_all (\<lambda>k. equals doc ''keywords'' (PStr (str_lower k))) (keywords_of d ''keywords_all'')
      \<and> transcript_wanted d doc
      \<and> reaches (whole (criterion d ''duration'' ''min_seconds'')) doc ''duration_seconds''
      \<and> stays_below (whole (criterion d ''duration'' ''max_seconds'')) doc ''duration_seconds'')"

definition shared_disjunction :: "dict \<Rightarrow> bool" where
  "shared_disjunction d = (keywords_of d ''keywords_any'' \<noteq> [] \<and> criterion d ''content'' ''has_transcript'' = PBool False)"

text \<open>A bound that is read as an infinity.\<close>

definition unbounded :: "pyval \<Rightarrow> bool" where
  "unbounded v = (case v of PFloat r \<Rightarrow> beyond_double r | _ \<Rightarrow> False)"

definition infinite_bound :: "dict \<Rightarrow> bool" where
  "infinite_bound d =
     (unbounded (criterion d ''engagement'' ''min_views'') \<or> unbounded (criterion d ''engagement'' ''max_views'')
      \<or> unbounded (criterion d ''duration'' ''min_seconds'') \<or> unbounded (criterion d ''duration'' ''max_seconds''))"

text \<open>All numbers of a value fit in eight bytes.\<close>

fun moderate :: "pyval \<Rightarrow> bool" where
  "moderate (PInt i) = (- (2 ^ 63) \<le> i \<and> i < 2 ^ 63)"
| "moderate (PFloat r) = (- (2 ^ 63) \<le> r \<and> r < 2 ^ 63)"
| "moderate (PList vs) = list_all moderate vs"
| "moderate (PTuple vs) = list_all moderate vs"
| "moderate (PDict d) = list_all (\<lambda>kv. moderate (snd kv)) d"
| "moderate v = True"

lemma moderate_narrow: "moderate v \<Longrightarrow> \<not> wide v"
proof (induction v)
  case (PDict d)
  then show ?case by (fastforce simp: list_all_iff list_ex_iff snds.simps)
qed (auto simp: list_all_iff list_ex_iff)

lemma moderate_dget: "moderate (PDict d) \<Longrightarrow> moderate (dget d k)"
  by (auto simp: dget_def list_all_iff split: option.split dest!: map_of_SomeD bspec)

lemma moderate_criterion: "moderate (PDict d) \<Longrightarrow> moderate (criterion d part k)"
  using moderate_dget [of d part] moderate_dget [of _ k]
  by (auto simp: criterion_def simp del: moderate.simps(5) split: pyval.split)

lemma moderate_bounded: "moderate v \<Longrightarrow> \<not> unbounded v"
proof -
  have "(2::rat) ^ 63 < 2 ^ 1024 - 2 ^ 970" by simp
  then have "\<not> beyond_double r" if "- (2 ^ 63) \<le> r" "r < 2 ^ 63" for r
    using that unfolding beyond_double_def by linarith
  then show "moderate v \<Longrightarrow> \<not> unbounded v" by (cases v) (simp_all add: unbounded_def)
qed

lemma moderate_no_infinity: "moderate (PDict d) \<Longrightarrow> \<not> infinite_bound d"
  by (simp add: infinite_bound_def moderate_bounded moderate_criterion)

definition narrow :: "clause list \<Rightarrow> bool" where
  "narrow cs = (\<not> list_ex (\<lambda>c. wide_condition (snd c)) cs)"

lemma narrow_simps [simp]:
  "narrow []" "narrow (c # cs) \<longleftrightarrow> \<not> wide_condition (snd c) \<and> narrow cs" "narrow (xs @ ys) \<longleftrightarrow> narrow xs \<and> narrow ys"
  by (simp_all add: narrow_def)

lemma wide_query_narrow: "wide_query q \<longleftrightarrow> \<not> (narrow (vq_fields q) \<and> narrow (vq_or q) \<and> narrow (vq_and q))"
  by (simp add: wide_query_def narrow_def)

lemma narrow_between: "narrow (between name lo hi) \<longleftrightarrow> \<not> wide_option lo \<and> \<not> wide_option hi"
  by (auto simp: between_def wide_option_def)

section \<open>What validity gives\<close>

definition object_or_none :: "dict \<Rightarrow> string \<Rightarrow> bool" where
  "object_or_none d part = (case map_of d part of None \<Rightarrow> True | Some v \<Rightarrow> is_dict v)"

lemma section_errors_empty:
  "section_errors d part suffix check = [] \<longleftrightarrow> object_or_none d part \<and> (case map_of d part of Some (PDict x) \<Rightarrow> check x = [] | _ \<Rightarrow> True)"
  by (auto simp: section_errors_def object_or_none_def split: option.splits pyval.splits)

lemma valid_parts:
  assumes "valid_definition iso_ok (PDict d)"
  shows "channel_errors d = []" and "object_or_none d ''date_range''" and "object_or_none d ''engagement''"
    and "object_or_none d ''content''" and "object_or_none d ''duration''"
    and "map_of d ''engagement'' = Some (PDict x) \<Longrightarrow>
      number_error ''engagement'' x ''min_views'' = [] \<and> number_error ''engagement'' x ''max_views'' = [] \<and> score_error x = []"
    and "map_of d ''content'' = Some (PDict x) \<Longrightarrow>
      keyword_error x ''keywords_any'' = [] \<and> keyword_error x ''keywords_all'' = [] \<and> transcript_error x = []"
    and "map_of d ''duration'' = Some (PDict x) \<Longrightarrow>
      number_error ''duration'' x ''min_seconds'' = [] \<and> number_error ''duration'' x ''max_seconds'' = []"
    and "sort_errors d = Inr []" and "limit_errors d = []"
  using assms by (auto simp: valid_definition_def validate_filter_definition_def bindR_eq_Inr section_errors_empty)

lemma number_error_empty:
  "number_error part x k = [] \<Longrightarrow> truthy (dget x k) \<Longrightarrow> \<exists>r. number_of (dget x k) = Some r \<and> 0 \<le> r"
  by (auto simp: number_error_def dget_def non_negative_def split: option.splits if_splits)

lemma number_int: "number_of v = Some r \<Longrightarrow> \<exists>i. py_int v = Inr i"
  by (cases v) auto

lemma number_float:
  assumes "number_of v = Some r" and "0 \<le> r" and "r \<le> 1"
  shows "double_float v = Inr r"
proof -
  have "(1::rat) < 2 ^ 1024 - 2 ^ 970" by simp
  then have "\<not> beyond_double r" using assms(2,3) unfolding beyond_double_def by linarith
  with assms(1) show ?thesis by (cases v) auto
qed

lemma double_int_bounded: "\<not> unbounded v \<Longrightarrow> double_int v = py_int v"
  by (cases v) (auto simp: unbounded_def)

lemma double_int_unbounded: "unbounded v \<Longrightarrow> double_int v = Inl infinity_error"
  by (cases v) (auto simp: unbounded_def)

lemma unbounded_truthy: "unbounded v \<Longrightarrow> truthy v"
  by (cases v) (auto simp: unbounded_def beyond_double_def)

lemma int_bound_valid:
  "number_error part x k = [] \<Longrightarrow>
    int_bound (PDict x) k = (if unbounded (dget x k) then Inl infinity_error else Inr (whole (dget x k)))"
  using number_error_empty [of part x k] number_int [of "dget x k"] double_int_bounded [of "dget x k"]
    double_int_unbounded [of "dget x k"] unbounded_truthy [of "dget x k"]
  by (auto simp: int_bound_def whole_def)

lemma trunc_moderate: "moderate (PFloat r) \<Longrightarrow> \<not> wide (PInt (if 0 \<le> r then \<lfloor>r\<rfloor> else \<lceil>r\<rceil>))"
proof -
  assume m: "moderate (PFloat r)"
  have "\<lfloor>r\<rfloor> < 2 ^ 63" using m by (simp add: floor_less_iff)
  moreover have "- (2 ^ 63) \<le> \<lceil>r\<rceil>" using m by (simp add: le_ceiling_iff)
  moreover have "0 \<le> r \<Longrightarrow> 0 \<le> \<lfloor>r\<rfloor>" "\<not> 0 \<le> r \<Longrightarrow> \<lceil>r\<rceil> \<le> 0" by (simp_all add: ceiling_le_iff)
  ultimately show ?thesis by auto
qed

lemma whole_narrow: "moderate v \<Longrightarrow> truthy v \<Longrightarrow> number_of v = Some r \<Longrightarrow> \<not> wide_option (whole v)"
  using trunc_moderate
  by (cases v) (simp_all add: wide_option_def whole_def del: moderate.simps(2))

lemma whole_valid_narrow: "number_error part x k = [] \<Longrightarrow> moderate (dget x k) \<Longrightarrow> \<not> wide_option (whole (dget x k))"
  using number_error_empty [of part x k] whole_narrow [of "dget x k"] by (cases "truthy (dget x k)") (auto simp: whole_def wide_option_def)

lemma meets_between:
  "list_all (meets doc) (between name lo hi) \<longleftrightarrow> reaches lo doc name \<and> stays_below hi doc name"
  by (auto simp: between_def reaches_def stays_below_def split: option.splits)

section \<open>The parts of the query\<close>

lemma listed_clauses:
  "\<exists>cs. when_set d part (in_clause name) = Inr cs \<and> (\<forall>doc. list_all (meets doc) cs = listed d part doc name)
    \<and> (moderate (PDict d) \<longrightarrow> narrow cs)"
proof -
  have "moderate (PDict d) \<Longrightarrow> \<not> wide (dget d part)" by (rule moderate_narrow [OF moderate_dget])
  then show ?thesis by (cases "dget d part") (auto simp: when_set_def in_clause_def listed_def Let_def)
qed

lemma object_cases:
  assumes "object_or_none d part"
  obtains (Object) x where "map_of d part = Some (PDict x)" and "\<And>name. criterion d part name = dget x name"
  | (Missing) "map_of d part = None" and "\<And>name. criterion d part name = PNone"
proof (cases "map_of d part")
  case None
  then show ?thesis by (intro Missing) (simp_all add: criterion_def dget_def)
next
  case (Some v)
  with assms obtain x where x: "v = PDict x" by (cases v) (auto simp: object_or_none_def)
  with Some show ?thesis by (intro Object) (simp_all add: criterion_def dget_def [of d])
qed

lemma when_set_object:
  "f (PDict []) = Inr [] \<Longrightarrow> map_of d part = Some (PDict x) \<Longrightarrow> when_set d part f = f (PDict x)"
  by (auto simp: when_set_def dget_def)

lemma when_set_missing: "map_of d part = None \<Longrightarrow> when_set d part f = Inr []"
  by (simp add: when_set_def dget_def)

lemmas bound_simps = reaches_def stays_below_def given_def whole_def score_def

lemma given_narrow: "moderate (PDict d) \<Longrightarrow> \<not> wide_option (given (criterion d part k))"
  using moderate_narrow [OF moderate_criterion] by (simp add: given_def wide_option_def del: moderate.simps)

lemma date_range_clauses:
  assumes "object_or_none d ''date_range''"
  shows "\<exists>cs. when_set d ''date_range'' date_clauses = Inr cs \<and> (\<forall>doc. list_all (meets doc) cs =
    (reaches (given (criterion d ''date_range'' ''start'')) doc ''published_at''
     \<and> stays_below (given (criterion d ''date_range'' ''end'')) doc ''published_at''))
    \<and> (moderate (PDict d) \<longrightarrow> narrow cs)"
  using assms
proof (cases rule: object_cases)
  case (Object x)
  have "date_clauses (PDict y) = Inr (between ''published_at'' (given (dget y ''start'')) (given (dget y ''end'')))" for y
    by (simp add: date_clauses_def given_def)
  moreover from this [of "[]"] have "date_clauses (PDict []) = Inr []"
    by (simp add: between_def given_def dget_def)
  ultimately show ?thesis
    using Object when_set_object [of date_clauses d "''date_range''" x] given_narrow [of d "''date_range''"]
    by (simp add: meets_between narrow_between del: moderate.simps)
qed (simp add: when_set_missing bound_simps)

lemma views_and_score_clauses:
  assumes "object_or_none d ''engagement''"
    and "\<And>x. map_of d ''engagement'' = Some (PDict x) \<Longrightarrow>
      number_error ''engagement'' x ''min_views'' = [] \<and> number_error ''engagement'' x ''max_views'' = [] \<and> score_error x = []"
  shows "if unbounded (criterion d ''engagement'' ''min_views'') \<or> unbounded (criterion d ''engagement'' ''max_views'')
    then when_set d ''engagement'' engagement_clauses = Inl infinity_error
    else \<exists>cs. when_set d ''engagement'' engagement_clauses = Inr cs \<and> (\<forall>doc. list_all (meets doc) cs =
        (reaches (whole (criterion d ''engagement'' ''min_views'')) doc ''stats.viewCount''
         \<and> stays_below (whole (criterion d ''engagement'' ''max_views'')) doc ''stats.viewCount''
         \<and> reaches (score (criterion d ''engagement'' ''min_engagement_score'')) doc ''engagement_score''))
      \<and> (moderate (PDict d) \<longrightarrow> narrow cs)"
  using assms(1)
proof (cases rule: object_cases)
  case (Object x)
  note v = assms(2) [OF Object(1)]
  have e: "engagement_clauses (PDict []) = Inr []"
    by (simp add: engagement_clauses_def int_bound_def between_def dget_def)
  let ?s = "dget x ''min_engagement_score''" and ?lo = "dget x ''min_views''" and ?hi = "dget x ''max_views''"
  from v have s: "truthy ?s \<Longrightarrow> \<exists>r. number_of ?s = Some r \<and> 0 \<le> r \<and> r \<le> 1"
    by (auto simp: score_error_def dget_def split: option.splits if_splits)
  have sc: "(if truthy ?s then bindR (double_float ?s) (\<lambda>r. Inr [(''engagement_score'', Between (Some (PFloat r)) None)]) else Inr [])
      = Inr (between ''engagement_score'' (score ?s) None)"
    using s number_float by (cases "truthy ?s") (auto simp: score_def between_def)
  have w: "engagement_clauses (PDict x) =
      (if unbounded ?lo \<or> unbounded ?hi then Inl infinity_error
       else Inr (between ''stats.viewCount'' (whole ?lo) (whole ?hi) @ between ''engagement_score'' (score ?s) None))"
    using v unfolding engagement_clauses_def get_attr.simps sc
    by (simp add: int_bound_valid [of "''engagement''"] engagement_clauses_def sc)
  have n: "moderate (PDict d) \<Longrightarrow> narrow (between ''stats.viewCount'' (whole ?lo) (whole ?hi) @ between ''engagement_score'' (score ?s) None)"
    using v whole_valid_narrow [of "''engagement''" x] moderate_criterion [of d "''engagement''"] Object(2)
    by (simp add: narrow_between wide_option_def [of None] del: moderate.simps) (simp add: wide_option_def score_def split: option.split)
  show ?thesis
    using Object when_set_object [of engagement_clauses d "''engagement''" x] e w n by (auto simp: meets_between stays_below_def [of None] simp del: moderate.simps)
qed (simp add: when_set_missing bound_simps unbounded_def)

lemma seconds_clauses:
  assumes "object_or_none d ''duration''"
    and "\<And>x. map_of d ''duration'' = Some (PDict x) \<Longrightarrow>
      number_error ''duration'' x ''min_seconds'' = [] \<and> number_error ''duration'' x ''max_seconds'' = []"
  shows "if unbounded (criterion d ''duration'' ''min_seconds'') \<or> unbounded (criterion d ''duration'' ''max_seconds'')
    then when_set d ''duration'' duration_clauses = Inl infinity_error
    else \<exists>cs. when_set d ''duration'' duration_clauses = Inr cs \<and> (\<forall>doc. list_all (meets doc) cs =
        (reaches (whole (criterion d ''duration'' ''min_seconds'')) doc ''duration_seconds''
         \<and> stays_below (whole (criterion d ''duration'' ''max_seconds'')) doc ''duration_seconds''))
      \<and> (moderate (PDict d) \<longrightarrow> narrow cs)"
  using assms(1)
proof (cases rule: object_cases)
  case (Object x)
  note v = assms(2) [OF Object(1)]
  let ?lo = "dget x ''min_seconds''" and ?hi = "dget x ''max_seconds''"
  have e: "duration_clauses (PDict []) = Inr []"
    by (simp add: duration_clauses_def int_bound_def between_def dget_def)
  have w: "duration_clauses (PDict x) =
      (if unbounded ?lo \<or> unbounded ?hi then Inl infinity_error else Inr (between ''duration_seconds'' (whole ?lo) (whole ?hi)))"
    using v by (simp add: duration_clauses_def int_bound_valid [of "''duration''"])
  have n: "moderate (PDict d) \<Longrightarrow> narrow (between ''duration_seconds'' (whole ?lo) (whole ?hi))"
    using v whole_valid_narrow [of "''duration''" x] moderate_criterion [of d "''duration''"] Object(2)
    by (simp add: narrow_between del: moderate.simps)
  show ?thesis
    using Object when_set_object [of duration_clauses d "''duration''" x] e w n by (auto simp: meets_between simp del: moderate.simps)
qed (simp add: when_set_missing bound_simps unbounded_def)

text \<open>Keywords, once they are texts.\<close>

lemma keyword_texts_valid:
  "list_all is_str ks \<Longrightarrow> keyword_texts ks = Inr (concat (map (\<lambda>k. case k of PStr s \<Rightarrow> [s] | _ \<Rightarrow> []) ks))"
  by (induction ks rule: keyword_texts.induct) auto

lemma keyword_list_valid:
  assumes "map_of d ''content'' = Some (PDict x)" and "keyword_error x name = []"
  shows "keyword_list (PDict x) name = Inr (keywords_of d name)"
proof -
  have c: "criterion d ''content'' name = dget x name" using assms(1) by (simp add: criterion_def dget_def [of d])
  show ?thesis
  proof (cases "dget x name")
    case (PList ks)
    with assms(2) have "list_all is_str ks"
      by (auto simp: keyword_error_def dget_def split: option.splits if_splits)
    with PList c show ?thesis by (simp add: keyword_list_def keywords_of_def keyword_texts_valid)
  qed (simp_all add: c keyword_list_def keywords_of_def)
qed

lemma mentions_any: "list_ex (mentions ks) vs \<longleftrightarrow> list_ex (\<lambda>k. list_ex (mentions [k]) vs) ks"
proof -
  have "mentions ks v = list_ex (\<lambda>k. mentions [k] v) ks" for v
    by (cases v) (simp_all add: mentions_def list_ex_iff)
  then show ?thesis by (auto simp: list_ex_iff)
qed

lemma any_keyword:
  "meets doc (''keywords'', One_of (map (\<lambda>k. PStr (str_lower k)) ks)) \<or> meets doc (''title'', Mentions ks)
    \<longleftrightarrow> list_ex (has_keyword doc) ks"
  unfolding meets.simps mentions_any [of ks] has_keyword_def by (auto simp: list_ex_iff)

lemma transcript_clauses:
  "list_ex (meets doc) [(''transcript_raw'', Present False), (''transcript_raw'', Equal PNone), (''transcript_raw'', Equal (PStr []))]
     = no_transcript doc"
  "list_all (meets doc) [(''transcript_raw'', Present True), (''transcript_raw'', Not_equal PNone), (''transcript_raw'', Not_equal (PStr []))]
     = (\<not> no_transcript doc)"
  by (auto simp: no_transcript_def)

definition content_query :: "dict \<Rightarrow> video_query res" where
  "content_query d =
     (if truthy (dget d ''content'') then content_clauses (dget d ''content'')
      else Inr \<lparr> vq_fields = [], vq_or = [], vq_and = [] \<rparr>)"

lemma content_query_valid:
  assumes "object_or_none d ''content''"
    and "\<And>x. map_of d ''content'' = Some (PDict x) \<Longrightarrow>
      keyword_error x ''keywords_any'' = [] \<and> keyword_error x ''keywords_all'' = [] \<and> transcript_error x = []"
  shows "\<exists>q. content_query d = Inr q \<and> \<not> wide_query q \<and> (\<not> shared_disjunction d \<longrightarrow> (\<forall>doc. selects q doc =
    ((keywords_of d ''keywords_any'' = [] \<or> list_ex (has_keyword doc) (keywords_of d ''keywords_any''))
     \<and> list_all (\<lambda>k. equals doc ''keywords'' (PStr (str_lower k))) (keywords_of d ''keywords_all'')
     \<and> transcript_wanted d doc)))"
  using assms(1)
proof (cases rule: object_cases)
  case (Object x)
  let ?any = "keywords_of d ''keywords_any''" and ?all = "keywords_of d ''keywords_all''" and ?t = "dget x ''has_transcript''"
  define q where "q = \<lparr> vq_fields = (if ?all = [] then [] else [(''keywords'', Has_all (map str_lower ?all))]),
      vq_or = (if ?any = [] then [] else
          [(''keywords'', One_of (map (\<lambda>k. PStr (str_lower k)) ?any)), (''title'', Mentions ?any)])
        @ (if ?t = PBool False then
          [(''transcript_raw'', Present False), (''transcript_raw'', Equal PNone), (''transcript_raw'', Equal (PStr []))] else []),
      vq_and = (if ?t = PBool True then
          [(''transcript_raw'', Present True), (''transcript_raw'', Not_equal PNone), (''transcript_raw'', Not_equal (PStr []))] else []) \<rparr>"
  have q: "content_query d = Inr q"
  proof (cases "x = []")
    case True
    with Object show ?thesis
      by (simp add: content_query_def dget_def q_def keywords_of_def criterion_def)
  next
    case False
    with Object assms(2) [OF Object(1)] show ?thesis
      by (simp add: content_query_def dget_def [of d] content_clauses_def keyword_list_valid q_def)
  qed
  have "selects q doc = ((?any = [] \<or> list_ex (has_keyword doc) ?any)
      \<and> list_all (\<lambda>k. equals doc ''keywords'' (PStr (str_lower k))) ?all \<and> transcript_wanted d doc)" if apart: "\<not> shared_disjunction d" for doc
  proof -
    have all: "list_all (meets doc) (vq_fields q) = list_all (\<lambda>k. equals doc ''keywords'' (PStr (str_lower k))) ?all"
      by (simp add: q_def list_all_length)
    have t: "transcript_wanted d doc = (case ?t of PBool b \<Rightarrow> no_transcript doc = (\<not> b) | _ \<Rightarrow> True)"
      by (simp add: transcript_wanted_def Object(2))
    consider "?t = PBool True" | "?t = PBool False" "?any = []" | "?t \<noteq> PBool True" "?t \<noteq> PBool False"
      using apart Object(2) by (auto simp: shared_disjunction_def)
    then show ?thesis
    proof cases
      case 1
      then show ?thesis
        unfolding selects_def all t using transcript_clauses(2) [of doc] any_keyword [of doc ?any]
        by (auto simp: q_def)
    next
      case 2
      then show ?thesis
        unfolding selects_def all t using transcript_clauses(1) [of doc] by (auto simp: q_def)
    next
      case 3
      then show ?thesis
        unfolding selects_def all t using any_keyword [of doc ?any] by (cases ?t) (auto simp: q_def)
    qed
  qed
  moreover have "\<not> wide_query q" by (auto simp: wide_query_narrow q_def narrow_def list_ex_iff)
  ultimately show ?thesis using q by blast
qed (simp_all add: content_query_def dget_def selects_def keywords_of_def transcript_wanted_def wide_query_def)

lemma selects_more_fields:
  "selects (q\<lparr>vq_fields := xs @ vq_fields q @ ys\<rparr>) doc \<longleftrightarrow> list_all (meets doc) xs \<and> selects q doc \<and> list_all (meets doc) ys"
  by (auto simp: selects_def)

lemma query_of_valid:
  assumes "valid_definition iso_ok (PDict d)"
  shows "if infinite_bound d then filter_to_mongo_query d = Inl infinity_error
    else \<exists>q. filter_to_mongo_query d = Inr q \<and> (\<not> shared_disjunction d \<longrightarrow> (\<forall>doc. selects q doc = wanted d doc))
      \<and> (moderate (PDict d) \<longrightarrow> \<not> wide_query q)"
proof -
  note v = valid_parts [OF assms(1)]
  obtain cs where cs: "when_set d ''channels'' (in_clause ''channel_id'') = Inr cs"
    "\<And>doc. list_all (meets doc) cs = listed d ''channels'' doc ''channel_id''" "moderate (PDict d) \<Longrightarrow> narrow cs"
    using listed_clauses by blast
  obtain ps where ps: "when_set d ''playlist_ids'' (in_clause ''playlist_id'') = Inr ps"
    "\<And>doc. list_all (meets doc) ps = listed d ''playlist_ids'' doc ''playlist_id''" "moderate (PDict d) \<Longrightarrow> narrow ps"
    using listed_clauses by blast
  obtain ds where ds: "when_set d ''date_range'' date_clauses = Inr ds"
    "\<And>doc. list_all (meets doc) ds = (reaches (given (criterion d ''date_range'' ''start'')) doc ''published_at''
       \<and> stays_below (given (criterion d ''date_range'' ''end'')) doc ''published_at'')" "moderate (PDict d) \<Longrightarrow> narrow ds"
    using date_range_clauses [OF v(2)] by blast
  obtain q where q: "content_query d = Inr q" "\<not> wide_query q" "\<And>doc. \<not> shared_disjunction d \<Longrightarrow> selects q doc =
    ((keywords_of d ''keywords_any'' = [] \<or> list_ex (has_keyword doc) (keywords_of d ''keywords_any''))
     \<and> list_all (\<lambda>k. equals doc ''keywords'' (PStr (str_lower k))) (keywords_of d ''keywords_all'')
     \<and> transcript_wanted d doc)"
    using content_query_valid [OF v(4) v(7)] by blast
  note parts = cs(1) ps(1) ds(1) q(1)
  note views = views_and_score_clauses [OF v(3) v(6)] and seconds = seconds_clauses [OF v(5) v(8)]
  show ?thesis
  proof (cases "infinite_bound d")
    case True
    have "filter_to_mongo_query d = Inl infinity_error"
    proof (cases "unbounded (criterion d ''engagement'' ''min_views'') \<or> unbounded (criterion d ''engagement'' ''max_views'')")
      case True
      with views have "when_set d ''engagement'' engagement_clauses = Inl infinity_error" by (simp only: if_True)
      then show ?thesis by (simp add: filter_to_mongo_query_def parts)
    next
      case False
      with views obtain es where "when_set d ''engagement'' engagement_clauses = Inr es" by (simp only: if_False) blast
      moreover from False True have "unbounded (criterion d ''duration'' ''min_seconds'') \<or> unbounded (criterion d ''duration'' ''max_seconds'')"
        by (simp add: infinite_bound_def)
      with seconds have "when_set d ''duration'' duration_clauses = Inl infinity_error" by (simp only: if_True)
      ultimately show ?thesis unfolding filter_to_mongo_query_def content_query_def [symmetric] parts by simp
    qed
    with True show ?thesis by (simp only: if_True)
  next
    case False
    then have fine: "\<not> (unbounded (criterion d ''engagement'' ''min_views'') \<or> unbounded (criterion d ''engagement'' ''max_views''))"
      "\<not> (unbounded (criterion d ''duration'' ''min_seconds'') \<or> unbounded (criterion d ''duration'' ''max_seconds''))"
      by (simp_all add: infinite_bound_def)
    obtain es where es: "when_set d ''engagement'' engagement_clauses = Inr es"
      "\<And>doc. list_all (meets doc) es = (reaches (whole (criterion d ''engagement'' ''min_views'')) doc ''stats.viewCount''
         \<and> stays_below (whole (criterion d ''engagement'' ''max_views'')) doc ''stats.viewCount''
         \<and> reaches (score (criterion d ''engagement'' ''min_engagement_score'')) doc ''engagement_score'')"
      "moderate (PDict d) \<Longrightarrow> narrow es"
      using views [unfolded if_not_P [OF fine(1)]] by blast
    obtain ss where ss: "when_set d ''duration'' duration_clauses = Inr ss"
      "\<And>doc. list_all (meets doc) ss = (reaches (whole (criterion d ''duration'' ''min_seconds'')) doc ''duration_seconds''
         \<and> stays_below (whole (criterion d ''duration'' ''max_seconds'')) doc ''duration_seconds'')"
      "moderate (PDict d) \<Longrightarrow> narrow ss"
      using seconds [unfolded if_not_P [OF fine(2)]] by blast
    let ?q = "q\<lparr>vq_fields := (cs @ ds @ es) @ vq_fields q @ (ss @ ps)\<rparr>"
    have f: "filter_to_mongo_query d = Inr ?q"
      unfolding filter_to_mongo_query_def content_query_def [symmetric] parts es(1) ss(1) by simp
    have "selects ?q doc = wanted d doc" if "\<not> shared_disjunction d" for doc
      unfolding selects_more_fields list_all_append cs(2) ps(2) ds(2) es(2) ss(2) q(3) [OF that] wanted_def by blast
    moreover have "moderate (PDict d) \<Longrightarrow> \<not> wide_query ?q"
      using cs(3) ps(3) ds(3) es(3) ss(3) q(2) by (simp add: wide_query_narrow del: moderate.simps)
    ultimately show ?thesis using f False by (simp only: if_False) blast
  qed
qed


text \<open>The validation accepts an infinite bound.\<close>

definition infinite_filter :: dict where
  "infinite_filter = [(''engagement'', PDict [(''min_views'', PFloat (10 ^ 999))])]"

lemma infinite_filter_valid: "valid_definition iso_ok (PDict infinite_filter)"
  by (simp add: infinite_filter_def valid_definition_def validate_filter_definition_def sort_errors_def channel_errors_def
      section_errors_def number_error_def non_negative_def score_error_def limit_errors_def)

lemma infinite_filter_unbounded: "infinite_bound infinite_filter"
proof -
  have "beyond_double (10 ^ 999)" by (simp add: beyond_double_def)
  then show ?thesis
    by (simp add: infinite_bound_def infinite_filter_def criterion_def dget_def unbounded_def del: power_numeral numeral_power_eq_of_int_cancel_iff)
qed

section \<open>Concrete filters\<close>

definition demo_filter :: dict where
  "demo_filter =
     [(''channels'', PList [PStr ''UC1'', PStr ''UC2'']), (''engagement'', PDict [(''min_views'', PInt 100)]),
      (''content'', PDict [(''keywords_any'', PList [PStr ''Graph'']), (''has_transcript'', PBool True)])]"

definition demo_video :: dict where
  "demo_video =
     [(''video_id'', PStr ''v1''), (''channel_id'', PStr ''UC2''), (''title'', PStr ''A GRAPH database''),
      (''stats'', PDict [(''viewCount'', PInt 500)]), (''transcript_raw'', PStr ''hello'')]"


text \<open>Keywords with a missing transcript: a video without the keyword is selected for its missing transcript, and one with it for the keyword.\<close>

lemma keywords_or_missing_transcript:
  "(case filter_to_mongo_query [(''content'', PDict [(''keywords_any'', PList [PStr ''graph'']), (''has_transcript'', PBool False)])] of
      Inr q \<Rightarrow> selects q [(''title'', PStr ''cooking'')] \<and> selects q demo_video | Inl e \<Rightarrow> False)"
  by code_simp

text \<open>An upper bound of 0 is ignored, though the validation accepts it.\<close>

lemma zero_maximum_ignored:
  "(case filter_to_mongo_query [(''engagement'', PDict [(''max_views'', PInt 0)])] of
      Inr q \<Rightarrow> selects q demo_video | Inl e \<Rightarrow> False)"
  by code_simp

text \<open>A sort field that is an array makes the validation itself raise.\<close>

lemma sort_field_raises:
  "validate_filter_definition iso_ok (PDict [(''sort'', PDict [(''field'', PList [])])])
     = Inl (Exn ''TypeError'' (''unhashable type: '' @ quoted ''list''))"
  by (simp add: validate_filter_definition_def sort_errors_def in_supported_def bindR_def)

text \<open>\<open>True\<close> is accepted as a limit, and playlists are not validated at all.\<close>

lemma lenient_definitions:
  "valid_definition iso_ok (PDict [(''limit'', PBool True)])" "valid_definition iso_ok (PDict [(''playlist_ids'', PInt 3)])"
  by (simp_all add: valid_definition_def validate_filter_definition_def sort_errors_def channel_errors_def section_errors_def limit_errors_def
      MAX_RESOLVE_LIMIT_def)

end
