(* ===== verification/Saved_Filters.thy ===== *)
theory Saved_Filters
  imports Source_Filters
begin

text \<open>
  \<open>app/api/stages/source_selection.py\<close>, the saved filters: listing, reading, saving, changing,
  deleting and copying them, and the resolution of a filter to the identifiers of the videos a
  pipeline will process.

  The collection of filters is a list of records; values come from JSON. \<open>ObjectId\<close>, the
  identifiers the database gives, the order of a sorted cursor and the queries the server refuses are
  parameters, the time is an argument. What the driver cannot write, an integer beyond eight bytes,
  raises before anything is stored or found. An answer is a status and a reply.
\<close>

section \<open>State and answers\<close>

record saved_filter =
  sf_id :: string
  sf_name :: string
  sf_description :: pyval
  sf_definition :: pyval
  sf_created_at :: string
  sf_updated_at :: string
  sf_last_used_at :: "string option"
  sf_use_count :: nat

record filter_store =
  fs_filters :: "saved_filter list"
  fs_ids :: nat

record filter_env =
  fe_iso_date :: "string \<Rightarrow> bool"
  fe_object_id :: "string \<Rightarrow> string option"
  fe_new_id :: "nat \<Rightarrow> string"
  fe_str :: "pyval \<Rightarrow> string"
  fe_sort :: "string \<Rightarrow> int \<Rightarrow> dict list \<Rightarrow> dict list"
  fe_refuses :: "video_query \<Rightarrow> exn option"

record resolution =
  rn_video_ids :: "pyval list"
  rn_count :: nat
  rn_filter_applied :: bool
  rn_limit_applied :: pyval

datatype filter_reply =
    Refused string
  | Invalid string "string list"
  | One_Filter saved_filter
  | Filter_List "saved_filter list"
  | Removed string
  | Resolved resolution

type_synonym answer = "nat \<times> filter_reply"

text \<open>The \<open>except Exception\<close> around every handler.\<close>

definition served :: "('s, answer) act \<Rightarrow> ('s, answer) act" where
  "served m = tryA m (\<lambda>e. ret (500, Refused (exn_msg e)))"

text \<open>\<open>v.strip()\<close>, and what \<open>_validate_filter_name\<close> is given for a name.\<close>

definition strip_of :: "pyval \<Rightarrow> string res" where
  "strip_of v = (case v of PStr s \<Rightarrow> Inr (str_strip s)
     | _ \<Rightarrow> Inl (Exn ''AttributeError'' (quoted (type_name v) @ '' object has no attribute '' @ quoted ''strip'')))"

definition stripped_name :: "pyval \<Rightarrow> string res" where
  "stripped_name v = (if truthy v then strip_of v else Inr [])"

definition find_filter :: "string \<Rightarrow> filter_store \<Rightarrow> saved_filter option" where
  "find_filter i s = find (\<lambda>f. sf_id f = i) (fs_filters s)"

section \<open>Operations\<close>

text \<open>The newest change first, without the definitions.\<close>

definition list_saved_filters :: "filter_env \<Rightarrow> (filter_store, answer) act" where
  "list_saved_filters E = served (\<lambda>s.
     ret (200, Filter_List (map (\<lambda>f. f\<lparr>sf_definition := PNone\<rparr>) (rev (sort_key sf_updated_at (fs_filters s))))) s)"

definition get_saved_filter :: "filter_env \<Rightarrow> string \<Rightarrow> (filter_store, answer) act" where
  "get_saved_filter E i = served (\<lambda>s.
     (case fe_object_id E i of
        None \<Rightarrow> ret (400, Refused ''Invalid filter ID format'') s
      | Some j \<Rightarrow> (case find_filter j s of
            None \<Rightarrow> ret (404, Refused ''Filter not found'') s
          | Some f \<Rightarrow> ret (200, One_Filter f) s)))"

definition name_taken :: "string \<Rightarrow> answer" where
  "name_taken n = (409, Refused (''Filter with name '' @ quoted n @ '' already exists''))"

text \<open>\<open>description.strip() if description else None\<close>.\<close>

definition clean_description :: "pyval \<Rightarrow> pyval res" where
  "clean_description v = (if truthy v then bindR (strip_of v) (\<lambda>t. Inr (PStr t)) else Inr PNone)"

definition insert_filter :: "filter_env \<Rightarrow> string \<Rightarrow> string \<Rightarrow> pyval \<Rightarrow> pyval \<Rightarrow> (filter_store, answer) act" where
  "insert_filter E now n d t = (\<lambda>s.
     let f = \<lparr> sf_id = fe_new_id E (fs_ids s), sf_name = n, sf_description = t, sf_definition = d, sf_created_at = now,
               sf_updated_at = now, sf_last_used_at = None, sf_use_count = 0 \<rparr>
     in if wide d then (Inl wide_error, s)
        else (Inr (201, One_Filter f), s\<lparr>fs_filters := fs_filters s @ [f], fs_ids := Suc (fs_ids s)\<rparr>))"

definition save_filter :: "filter_env \<Rightarrow> string \<Rightarrow> pyval \<Rightarrow> pyval \<Rightarrow> pyval \<Rightarrow> (filter_store, answer) act" where
  "save_filter E now name d description = served
     (bindA (liftR (stripped_name name)) (\<lambda>n.
      let es = validate_filter_name n
      in if es \<noteq> [] then ret (400, Invalid (hd es) es)
         else if \<not> truthy d then ret (400, Refused ''Filter definition is required'')
         else bindA (liftR (validate_filter_definition (fe_iso_date E) d)) (\<lambda>fs.
              if fs \<noteq> [] then ret (400, Invalid ''Invalid filter definition'' fs)
              else (\<lambda>s. if list_ex (\<lambda>f. sf_name f = n) (fs_filters s) then ret (name_taken n) s
                        else bindA (liftR (clean_description description)) (insert_filter E now n d) s))))"

text \<open>
  A change: the name, the description and the definition that are given. The name is checked
  before the definition, and a description that is set must be a text.
\<close>

definition allowed_updates :: "dict \<Rightarrow> dict" where
  "allowed_updates u = filter (\<lambda>(k, v). k \<in> {''name'', ''description'', ''filter_definition''}) u"

definition set_filter_fields :: "string option \<Rightarrow> pyval option \<Rightarrow> pyval option \<Rightarrow> string \<Rightarrow> saved_filter \<Rightarrow> saved_filter" where
  "set_filter_fields n d t now f =
     f\<lparr>sf_name := (case n of None \<Rightarrow> sf_name f | Some x \<Rightarrow> x), sf_definition := (case d of None \<Rightarrow> sf_definition f | Some x \<Rightarrow> x),
       sf_description := (case t of None \<Rightarrow> sf_description f | Some x \<Rightarrow> x), sf_updated_at := now\<rparr>"

definition write_update :: "string \<Rightarrow> (saved_filter \<Rightarrow> saved_filter) \<Rightarrow> (filter_store, answer) act" where
  "write_update j change = (\<lambda>s.
     case find_filter j s of
       None \<Rightarrow> ret (404, Refused ''Filter not found'') s
     | Some f \<Rightarrow> (Inr (200, One_Filter (change f)), s\<lparr>fs_filters := update_first (\<lambda>f. sf_id f = j) change (fs_filters s)\<rparr>))"

definition checked_definition :: "filter_env \<Rightarrow> pyval option \<Rightarrow> string list res" where
  "checked_definition E d = (case d of None \<Rightarrow> Inr [] | Some v \<Rightarrow> validate_filter_definition (fe_iso_date E) v)"

definition changed_description :: "pyval option \<Rightarrow> pyval option res" where
  "changed_description t =
     (case t of None \<Rightarrow> Inr None
      | Some v \<Rightarrow> if truthy v then bindR (strip_of v) (\<lambda>x. Inr (Some (PStr x))) else Inr (Some v))"

definition apply_filter_update :: "filter_env \<Rightarrow> string \<Rightarrow> string \<Rightarrow> string option \<Rightarrow> dict \<Rightarrow> (filter_store, answer) act" where
  "apply_filter_update E now j n u =
     bindA (liftR (checked_definition E (map_of u ''filter_definition''))) (\<lambda>fs.
     if fs \<noteq> [] then ret (400, Invalid ''Invalid filter definition'' fs)
     else bindA (liftR (changed_description (map_of u ''description''))) (\<lambda>t.
       if wide_option (map_of u ''filter_definition'') then liftR (Inl wide_error)
       else write_update j (set_filter_fields n (map_of u ''filter_definition'') t now)))"

definition update_filter :: "filter_env \<Rightarrow> string \<Rightarrow> string \<Rightarrow> dict \<Rightarrow> (filter_store, answer) act" where
  "update_filter E now i updates = served
     (case fe_object_id E i of
        None \<Rightarrow> ret (400, Refused ''Invalid filter ID format'')
      | Some j \<Rightarrow>
          (let u = allowed_updates updates
           in if u = [] then ret (400, Refused ''No valid fields to update'')
              else (case map_of u ''name'' of
                  None \<Rightarrow> apply_filter_update E now j None u
                | Some v \<Rightarrow>
                    bindA (liftR (stripped_name v)) (\<lambda>n.
                    let es = validate_filter_name n
                    in if es \<noteq> [] then ret (400, Invalid (hd es) es)
                       else (\<lambda>s. if list_ex (\<lambda>f. sf_name f = n \<and> sf_id f \<noteq> j) (fs_filters s) then ret (name_taken n) s
                                 else apply_filter_update E now j (Some n) u s)))))"

definition delete_filter :: "filter_env \<Rightarrow> string \<Rightarrow> (filter_store, answer) act" where
  "delete_filter E i = served (\<lambda>s.
     (case fe_object_id E i of
        None \<Rightarrow> ret (400, Refused ''Invalid filter ID format'') s
      | Some j \<Rightarrow>
          (case find_filter j s of
             None \<Rightarrow> ret (404, Refused ''Filter not found'') s
           | Some f \<Rightarrow> (Inr (200, Removed i), s\<lparr>fs_filters := remove1 f (fs_filters s)\<rparr>))))"

definition copy_description :: "filter_env \<Rightarrow> saved_filter \<Rightarrow> pyval" where
  "copy_description E f =
     PStr (''Copy of: '' @ (if truthy (sf_description f) then fe_str E (sf_description f) else sf_name f))"

definition duplicate_filter :: "filter_env \<Rightarrow> string \<Rightarrow> string \<Rightarrow> pyval \<Rightarrow> (filter_store, answer) act" where
  "duplicate_filter E now i new_name = served
     (bindA (liftR (stripped_name new_name)) (\<lambda>n.
      let es = validate_filter_name n
      in if es \<noteq> [] then ret (400, Invalid (hd es) es)
         else bindA (get_saved_filter E i) (\<lambda>a.
              (case a of
                 (c, One_Filter f) \<Rightarrow> if c \<noteq> 200 then ret a else save_filter E now (PStr n) (sf_definition f) (copy_description E f)
               | _ \<Rightarrow> ret a))))"

section \<open>Resolution\<close>

text \<open>\<open>cursor.limit(n)\<close>: 0 is no limit.\<close>

definition cursor_limit :: "int \<Rightarrow> 'a list \<Rightarrow> 'a list" where
  "cursor_limit n xs = (if n = 0 then xs else take (nat \<bar>n\<bar>) xs)"

definition as_dict :: "pyval \<Rightarrow> dict res" where
  "as_dict v = (case v of PDict d \<Rightarrow> Inr d
     | _ \<Rightarrow> Inl (Exn ''AttributeError'' (quoted (type_name v) @ '' object has no attribute '' @ quoted ''get'')))"

definition resolve_limit :: "dict \<Rightarrow> int res" where
  "resolve_limit d =
     (let l = dget d ''limit''
      in if truthy l then bindR (double_int l) (\<lambda>i. Inr (min i MAX_RESOLVE_LIMIT)) else Inr MAX_RESOLVE_LIMIT)"

text \<open>
  The videos of a definition: the query, the order, the limit with its cap, and the identifiers
  of those that have one.
\<close>

definition resolve_videos :: "filter_env \<Rightarrow> dict list \<Rightarrow> pyval \<Rightarrow> resolution res" where
  "resolve_videos E videos v =
     bindR (as_dict v) (\<lambda>d.
     bindR (filter_to_mongo_query d) (\<lambda>q.
     bindR (get_sort_spec d) (\<lambda>(field, direction).
     bindR (resolve_limit d) (\<lambda>n.
     bindR (run_query (fe_refuses E) q videos) (\<lambda>matching.
     let found = cursor_limit n (fe_sort E field direction matching);
         ids = filter truthy (map (\<lambda>doc. dget doc ''video_id'') found)
     in Inr \<lparr> rn_video_ids = ids, rn_count = length ids,
              rn_filter_applied = (vq_fields q \<noteq> [] \<or> vq_or q \<noteq> [] \<or> vq_and q \<noteq> []),
              rn_limit_applied = py_or (dget d ''limit'') (PInt MAX_RESOLVE_LIMIT) \<rparr>)))))"

text \<open>A saved filter that is used counts this, if the write works.\<close>

definition count_use :: "string \<Rightarrow> saved_filter \<Rightarrow> saved_filter" where
  "count_use now f = f\<lparr>sf_last_used_at := Some now, sf_use_count := Suc (sf_use_count f)\<rparr>"

definition note_use :: "filter_env \<Rightarrow> bool \<Rightarrow> string \<Rightarrow> string \<Rightarrow> (filter_store, unit) act" where
  "note_use E works now i = modifyA (\<lambda>s.
     case fe_object_id E i of
       None \<Rightarrow> s
     | Some j \<Rightarrow> if works then s\<lparr>fs_filters := update_first (\<lambda>f. sf_id f = j) (count_use now) (fs_filters s)\<rparr> else s)"

definition resolve_filter_to_video_ids ::
  "filter_env \<Rightarrow> bool \<Rightarrow> string \<Rightarrow> dict list \<Rightarrow> string \<Rightarrow> string \<Rightarrow> pyval \<Rightarrow> (filter_store, answer) act" where
  "resolve_filter_to_video_ids E works now videos db i d = served
     (if db = [] then ret (400, Refused ''db_name is required'')
      else if i \<noteq> [] then
        bindA (get_saved_filter E i) (\<lambda>a.
          (case a of
             (c, One_Filter f) \<Rightarrow>
               if c \<noteq> 200 then ret a
               else seqA (note_use E works now i)
                      (bindA (liftR (resolve_videos E videos (sf_definition f))) (\<lambda>r. ret (200, Resolved r)))
           | _ \<Rightarrow> ret a))
      else if truthy d then
        bindA (liftR (validate_filter_definition (fe_iso_date E) d)) (\<lambda>fs.
          if fs \<noteq> [] then ret (400, Invalid ''Invalid filter definition'' fs)
          else bindA (liftR (resolve_videos E videos d)) (\<lambda>r. ret (200, Resolved r)))
      else ret (400, Refused ''Either filter_id or filter_definition is required''))"

end
