(* ===== verification/Source_Views.thy ===== *)
theory Source_Views
  imports Saved_Filters
begin

text \<open>
  \<open>app/api/stages/source_selection.py\<close>, what is shown of the raw videos: the statistics of the
  channels and of the playlists, the pages of the videos of a channel, and the preview of a filter.

  A video is the dictionary of its document. Whether the database and the collection exist is an
  argument; an aggregation is the documented meaning of its stages, and groups of equal size stay in
  the order of their first video. Texts of warnings keep their numbers, the time is left out.
\<close>

section \<open>Aggregation\<close>

text \<open>\<open>{"$ifNull": [field, 0]}\<close> in a sum or an average.\<close>

definition amount :: "string \<Rightarrow> dict \<Rightarrow> rat" where
  "amount name doc = (case field_at doc name of Some (PInt i) \<Rightarrow> of_int i | Some (PFloat r) \<Rightarrow> r | _ \<Rightarrow> 0)"

definition sum_of :: "string \<Rightarrow> dict list \<Rightarrow> rat" where
  "sum_of name docs = sum_list (map (amount name) docs)"

definition average_of :: "string \<Rightarrow> dict list \<Rightarrow> rat" where
  "average_of name docs = (if docs = [] then 0 else sum_of name docs / of_nat (length docs))"

definition value_of :: "string \<Rightarrow> dict \<Rightarrow> pyval" where
  "value_of name doc = (case field_at doc name of None \<Rightarrow> PNone | Some v \<Rightarrow> v)"

text \<open>\<open>$first\<close>, \<open>$min\<close> and \<open>$max\<close>; the last two ignore what is missing or null.\<close>

definition first_of :: "string \<Rightarrow> dict list \<Rightarrow> pyval" where
  "first_of name docs = (case docs of [] \<Rightarrow> PNone | d # ds \<Rightarrow> value_of name d)"

definition extreme_of :: "(pyval \<Rightarrow> pyval \<Rightarrow> bool) \<Rightarrow> string \<Rightarrow> dict list \<Rightarrow> pyval" where
  "extreme_of better name docs =
     (case filter (\<lambda>v. v \<noteq> PNone) (map (value_of name) docs) of
        [] \<Rightarrow> PNone | v # vs \<Rightarrow> fold (\<lambda>x b. if better x b then x else b) vs v)"

definition or_text :: "pyval \<Rightarrow> string \<Rightarrow> pyval" where
  "or_text v t = (if v = PNone then PStr t else v)"

text \<open>Groups by a field, in the order of their first videos; those without the field are dropped.\<close>

definition groups_by :: "string \<Rightarrow> dict list \<Rightarrow> (pyval \<times> dict list) list" where
  "groups_by name docs =
     filter (\<lambda>(k, ds). k \<noteq> PNone) (fold (\<lambda>doc. dd_append (value_of name doc) doc) docs [])"

definition biggest_first :: "(pyval \<times> dict list) list \<Rightarrow> (pyval \<times> dict list) list" where
  "biggest_first gs = sort_key (\<lambda>(k, ds). - int (length ds)) gs"

text \<open>
  \<open>{"$ne": ["$transcript_raw", None]}\<close> in an aggregation also holds when the field is missing, which
  differs from a null; the conditions of a query treat the two alike.
\<close>

definition counted_transcript :: "dict \<Rightarrow> bool" where
  "counted_transcript doc = (field_at doc ''transcript_raw'' \<notin> {Some PNone, Some (PStr [])})"

definition coverage :: "dict list \<Rightarrow> rat" where
  "coverage docs =
     (if docs = [] then 0
      else rounded 1 (of_nat (length (filter counted_transcript docs)) / of_nat (length docs) * 100))"

section \<open>Answers\<close>

record channel_row =
  cw_id :: pyval
  cw_title :: pyval
  cw_videos :: nat
  cw_views :: rat
  cw_likes :: rat
  cw_engagement :: rat
  cw_minutes :: rat
  cw_earliest :: pyval
  cw_latest :: pyval
  cw_coverage :: rat

record playlist_row =
  pw_id :: pyval
  pw_title :: pyval
  pw_channel :: pyval
  pw_channel_title :: pyval
  pw_videos :: nat
  pw_engagement :: rat
  pw_earliest :: pyval
  pw_latest :: pyval

record video_row =
  vw_video_id :: pyval
  vw_title :: pyval
  vw_published_at :: pyval
  vw_seconds :: pyval
  vw_views :: pyval
  vw_engagement :: rat
  vw_thumbnail :: pyval
  vw_has_transcript :: bool

record video_page =
  vp_title :: pyval
  vp_videos :: "video_row list"
  vp_total :: nat
  vp_has_more :: bool

datatype warning = No_Videos | Few_Videos nat | Many_Videos nat | Low_Coverage rat | Over_Limit pyval nat

record preview =
  pv_matching :: nat
  pv_channels :: "(pyval \<times> pyval \<times> nat) list"
  pv_date_range :: "(pyval \<times> pyval) option"
  pv_minutes :: rat
  pv_engagement :: rat
  pv_views :: rat
  pv_coverage :: rat
  pv_sample :: "dict list"
  pv_warnings :: "warning list"
  pv_query :: video_query

datatype view_reply =
    No_View string
  | Bad_Filter "string list"
  | Channel_View "channel_row list" nat nat
  | Playlist_View "playlist_row list" nat
  | Page_View video_page
  | Preview_View preview

definition shown :: "(nat \<times> view_reply) res \<Rightarrow> (nat \<times> view_reply) res" where
  "shown r = (case r of Inl e \<Rightarrow> if is_Exception e then Inr (500, No_View (exn_msg e)) else Inl e | Inr a \<Rightarrow> Inr a)"

record source_env =
  so_filters :: filter_env
  so_db :: string
  so_has_db :: bool
  so_has_collection :: bool
  so_videos :: "dict list"

text \<open>The two checks before every view.\<close>

definition no_database :: "source_env \<Rightarrow> nat \<times> view_reply" where
  "no_database V = (404, No_View (''Database '' @ quoted (so_db V) @ '' not found''))"

definition when_available :: "source_env \<Rightarrow> (nat \<times> view_reply) res \<Rightarrow> (nat \<times> view_reply) res" where
  "when_available V r =
     shown (if \<not> so_has_db V then Inr (no_database V)
            else if \<not> so_has_collection V
            then Inr (404, No_View (''Collection '' @ quoted ''raw_videos'' @ '' not found in database '' @ quoted (so_db V)))
            else r)"

section \<open>Channels and playlists\<close>

definition channel_row_of :: "pyval \<times> dict list \<Rightarrow> channel_row" where
  "channel_row_of g = (case g of (k, ds) \<Rightarrow>
     \<lparr> cw_id = k, cw_title = or_text (first_of ''channel_title'' ds) ''Unknown Channel'', cw_videos = length ds,
       cw_views = sum_of ''stats.viewCount'' ds, cw_likes = sum_of ''stats.likeCount'' ds,
       cw_engagement = rounded 4 (average_of ''engagement_score'' ds),
       cw_minutes = rounded 1 (average_of ''duration_seconds'' ds / 60),
       cw_earliest = extreme_of at_most ''published_at'' ds, cw_latest = extreme_of (\<lambda>x b. at_most b x) ''published_at'' ds,
       cw_coverage = coverage ds \<rparr>)"

definition get_channels :: "source_env \<Rightarrow> (nat \<times> view_reply) res" where
  "get_channels V = when_available V
     (let rows = map channel_row_of (biggest_first (groups_by ''channel_id'' (so_videos V)))
      in Inr (200, Channel_View rows (sum_list (map cw_videos rows)) (length rows)))"

text \<open>
  The match of the playlists names \<open>$ne\<close> twice, so that only the empty text is excluded before the
  grouping; a null goes with the second match.
\<close>

definition playlist_row_of :: "pyval \<times> dict list \<Rightarrow> playlist_row" where
  "playlist_row_of g = (case g of (k, ds) \<Rightarrow>
     \<lparr> pw_id = k, pw_title = or_text (first_of ''playlist_title'' ds) ''Unknown Playlist'', pw_channel = first_of ''channel_id'' ds,
       pw_channel_title = or_text (first_of ''channel_title'' ds) ''Unknown Channel'', pw_videos = length ds,
       pw_engagement = rounded 4 (average_of ''engagement_score'' ds),
       pw_earliest = extreme_of at_most ''published_at'' ds, pw_latest = extreme_of (\<lambda>x b. at_most b x) ''published_at'' ds \<rparr>)"

definition get_playlists :: "source_env \<Rightarrow> (nat \<times> view_reply) res" where
  "get_playlists V = when_available V
     (let ds = filter (\<lambda>doc. meets doc (''playlist_id'', Present True) \<and> meets doc (''playlist_id'', Not_equal (PStr []))) (so_videos V);
          rows = map playlist_row_of (biggest_first (groups_by ''playlist_id'' ds))
      in Inr (200, Playlist_View rows (length rows)))"

section \<open>The videos of a channel\<close>

definition views_of :: "dict \<Rightarrow> pyval res" where
  "views_of doc = (if truthy (dget doc ''stats'') then get_or (dget doc ''stats'') ''viewCount'' (PInt 0) else Inr (PInt 0))"

definition rounded_score :: "dict \<Rightarrow> rat res" where
  "rounded_score doc =
     (let v = dget doc ''engagement_score''
      in if \<not> truthy v then Inr 0
         else (case number_of v of
                 Some r \<Rightarrow> Inr (rounded 4 r)
               | None \<Rightarrow> Inl (Exn ''TypeError'' (''type '' @ type_name v @ '' doesn't define __round__ method''))))"

definition has_transcript :: "dict \<Rightarrow> bool res" where
  "has_transcript doc =
     (let v = dget doc ''transcript_raw'' in if truthy v then bindR (strip_of v) (\<lambda>s. Inr (s \<noteq> [])) else Inr False)"

definition video_row_of :: "dict \<Rightarrow> video_row res" where
  "video_row_of doc =
     bindR (views_of doc) (\<lambda>views. bindR (rounded_score doc) (\<lambda>r. bindR (has_transcript doc) (\<lambda>t.
       Inr \<lparr> vw_video_id = dget doc ''video_id'', vw_title = doc_or doc ''title'' (PStr ''Untitled''),
             vw_published_at = dget doc ''published_at'', vw_seconds = doc_or doc ''duration_seconds'' (PInt 0),
             vw_views = views, vw_engagement = r, vw_thumbnail = dget doc ''thumbnail_url'', vw_has_transcript = t \<rparr>)))"

fun video_rows :: "dict list \<Rightarrow> video_row list res" where
  "video_rows [] = Inr []"
| "video_rows (d # ds) = bindR (video_row_of d) (\<lambda>r. bindR (video_rows ds) (\<lambda>rs. Inr (r # rs)))"

definition page_sort_field :: "string \<Rightarrow> string" where
  "page_sort_field s =
     (if s \<in> {''published_at'', ''title'', ''duration_seconds'', ''stats.viewCount'', ''engagement_score''} then s else ''published_at'')"

text \<open>\<open>cursor.skip(n)\<close> refuses a negative number.\<close>

definition cursor_skip :: "int \<Rightarrow> 'a list \<Rightarrow> 'a list res" where
  "cursor_skip n xs = (if n < 0 then Inl (Exn ''ValueError'' ''skip must be >= 0'') else Inr (drop (nat n) xs))"

definition get_videos_for_channel :: "source_env \<Rightarrow> string \<Rightarrow> int \<Rightarrow> int \<Rightarrow> string \<Rightarrow> string \<Rightarrow> (nat \<times> view_reply) res" where
  "get_videos_for_channel V channel n offset sort_by order = when_available V
     (let found = filter (\<lambda>doc. equals doc ''channel_id'' (PStr channel)) (so_videos V)
      in case found of
           [] \<Rightarrow> Inr (200, Page_View \<lparr> vp_title = PNone, vp_videos = [], vp_total = 0, vp_has_more = False \<rparr>)
         | doc # docs \<Rightarrow>
             bindR (cursor_skip offset (fe_sort (so_filters V) (page_sort_field sort_by) (if order = ''desc'' then -1 else 1) found)) (\<lambda>ds.
             bindR (video_rows (cursor_limit n ds)) (\<lambda>rows.
               Inr (200, Page_View \<lparr> vp_title = doc_or doc ''channel_title'' (PStr ''Unknown Channel''), vp_videos = rows,
                 vp_total = length found, vp_has_more = (offset + n < int (length found)) \<rparr>))))"

section \<open>Preview\<close>

definition sample_size :: "int \<Rightarrow> int" where
  "sample_size n = min (max 1 n) 20"

text \<open>\<open>if limit and total > limit\<close>: a comparison with a text would raise, but the limit was validated.\<close>

definition over_limit :: "pyval \<Rightarrow> nat \<Rightarrow> bool res" where
  "over_limit l n =
     (if truthy l then (case number_of l of
          Some r \<Rightarrow> Inr (r < of_nat n)
        | None \<Rightarrow> Inl (Exn ''TypeError'' (quoted ''>'' @ '' not supported between instances of '' @ quoted ''int'' @ '' and '' @ quoted (type_name l))))
      else Inr False)"

definition preview_warnings :: "nat \<Rightarrow> rat \<Rightarrow> pyval \<Rightarrow> warning list res" where
  "preview_warnings n c l = bindR (over_limit l n) (\<lambda>over. Inr
     ((if n < 5 then [Few_Videos n] else []) @ (if 500 < n then [Many_Videos n] else [])
      @ (if c < 80 then [Low_Coverage c] else []) @ (if over then [Over_Limit l n] else [])))"

definition empty_preview :: "video_query \<Rightarrow> preview" where
  "empty_preview q =
     \<lparr> pv_matching = 0, pv_channels = [], pv_date_range = None, pv_minutes = 0, pv_engagement = 0, pv_views = 0, pv_coverage = 0,
       pv_sample = [], pv_warnings = [No_Videos], pv_query = q \<rparr>"

definition channel_share :: "pyval \<times> dict list \<Rightarrow> pyval \<times> pyval \<times> nat" where
  "channel_share g = (case g of (k, ds) \<Rightarrow> (k, py_or (first_of ''channel_title'' ds) (PStr ''Unknown''), length ds))"

definition preview_of :: "source_env \<Rightarrow> dict \<Rightarrow> int \<Rightarrow> preview res" where
  "preview_of V d n =
     bindR (filter_to_mongo_query d) (\<lambda>q.
     bindR (run_query (fe_refuses (so_filters V)) q (so_videos V)) (\<lambda>found.
     let k = length found
     in if k = 0 then Inr (empty_preview q)
        else bindR (get_sort_spec d) (\<lambda>(field, direction).
             let c = rounded 1 (of_nat (length (filter counted_transcript found)) / of_nat k * 100)
             in bindR (preview_warnings k c (dget d ''limit'')) (\<lambda>ws.
                Inr \<lparr> pv_matching = k, pv_channels = map channel_share (biggest_first (groups_by ''channel_id'' found)),
                      pv_date_range = Some (extreme_of at_most ''published_at'' found, extreme_of (\<lambda>x b. at_most b x) ''published_at'' found),
                      pv_minutes = rounded 1 (sum_of ''duration_seconds'' found / 60),
                      pv_engagement = rounded 4 (average_of ''engagement_score'' found),
                      pv_views = rounded 0 (average_of ''stats.viewCount'' found), pv_coverage = c,
                      pv_sample = cursor_limit n (fe_sort (so_filters V) field direction found),
                      pv_warnings = ws, pv_query = q \<rparr>))))"

definition preview_filter :: "source_env \<Rightarrow> pyval \<Rightarrow> int \<Rightarrow> (nat \<times> view_reply) res" where
  "preview_filter V v n = shown
     (bindR (if truthy v then validate_filter_definition (fe_iso_date (so_filters V)) v else Inr []) (\<lambda>es.
      if es \<noteq> [] then Inr (400, Bad_Filter es)
      else if \<not> so_has_db V then Inr (no_database V)
      else bindR (as_dict (if truthy v then v else PDict [])) (\<lambda>d.
           bindR (preview_of V d (sample_size n)) (\<lambda>p. Inr (200, Preview_View p)))))"

end
