(* ===== verification/Saved_Filter_Facts.thy ===== *)
theory Saved_Filter_Facts
  imports Saved_Filters "HOL-Library.Multiset"
begin

text \<open>
  Whatever is done to the saved filters, their names stay distinct, clean and short and their
  definitions valid; so a saved filter whose numbers are moderate resolves, to videos that meet its
  criteria, and one with an infinite bound never does.
\<close>

section \<open>Stripping\<close>

lemma dropWhile_rev_dropWhile:
  "dropWhile p (rev (dropWhile p (rev (dropWhile p xs)))) = rev (dropWhile p (rev (dropWhile p xs)))"
proof (cases "dropWhile p xs")
  case (Cons y ys)
  then have "\<not> p y" by (metis hd_dropWhile list.distinct(1) list.sel(1))
  with Cons show ?thesis by (simp add: dropWhile_append)
next
  case Nil
  show ?thesis unfolding Nil by simp
qed

lemma str_strip_strip [simp]: "str_strip (str_strip s) = str_strip s"
  unfolding str_strip_def dropWhile_rev_dropWhile by simp

lemma strip_of_stripped: "strip_of v = Inr n \<Longrightarrow> str_strip n = n"
  by (auto simp: strip_of_def split: pyval.splits)

lemma stripped_name_stripped: "stripped_name v = Inr n \<Longrightarrow> str_strip n = n"
  by (auto simp: stripped_name_def str_strip_def dest: strip_of_stripped split: if_splits)

section \<open>The invariant\<close>

definition sound_filter :: "filter_env \<Rightarrow> saved_filter \<Rightarrow> bool" where
  "sound_filter E f =
     (validate_filter_name (sf_name f) = [] \<and> str_strip (sf_name f) = sf_name f \<and> valid_definition (fe_iso_date E) (sf_definition f))"

definition filters_ok :: "filter_env \<Rightarrow> filter_store \<Rightarrow> bool" where
  "filters_ok E s =
     (list_all (sound_filter E) (fs_filters s) \<and> distinct (map sf_name (fs_filters s)) \<and> distinct (map sf_id (fs_filters s))
      \<and> list_all (\<lambda>f. sf_id f \<in> fe_new_id E ` {..<fs_ids s}) (fs_filters s))"

definition preserves :: "filter_env \<Rightarrow> (filter_store, 'a) act \<Rightarrow> bool" where
  "preserves E m = (\<forall>s. filters_ok E s \<longrightarrow> filters_ok E (snd (m s)))"

lemma preserves_ret [simp, intro]: "preserves E (ret x)" "preserves E (raise e)" "preserves E (liftR r)"
  by (simp_all add: preserves_def ret_def raise_def liftR_def)

lemma preserves_bind: "preserves E m \<Longrightarrow> (\<And>x. preserves E (f x)) \<Longrightarrow> preserves E (bindA m f)"
  by (fastforce simp: preserves_def bindA_def split: prod.splits sum.splits)

lemma preserves_seq: "preserves E m \<Longrightarrow> preserves E n \<Longrightarrow> preserves E (seqA m n)"
  by (fastforce simp: preserves_def seqA_def split: prod.splits sum.splits)

lemma preserves_lift: "(\<And>x. r = Inr x \<Longrightarrow> preserves E (f x)) \<Longrightarrow> preserves E (bindA (liftR r) f)"
  by (cases r) (simp_all add: preserves_def bindA_def liftR_def)

lemma preserves_served: "preserves E m \<Longrightarrow> preserves E (served m)"
  by (fastforce simp: preserves_def served_def tryA_def ret_def split: prod.splits sum.splits)

lemma preservesI: "(\<And>s. filters_ok E s \<Longrightarrow> filters_ok E (snd (m s))) \<Longrightarrow> preserves E m"
  by (simp add: preserves_def)

lemma preserves_unchanged: "(\<And>s. snd (m s) = s) \<Longrightarrow> preserves E m"
  by (simp add: preserves_def)

lemma get_unchanged: "snd (get_saved_filter E i s) = s"
  by (simp add: get_saved_filter_def served_def tryA_def ret_def split: option.splits)

lemma preserves_get [intro]: "preserves E (get_saved_filter E i)"
  by (rule preserves_unchanged) (rule get_unchanged)

subsection \<open>Inserting\<close>

lemma preserves_insert:
  assumes "inj (fe_new_id E)" and "validate_filter_name n = []" and "str_strip n = n" and "valid_definition (fe_iso_date E) d"
    and "filters_ok E s" and "\<not> list_ex (\<lambda>f. sf_name f = n) (fs_filters s)"
  shows "filters_ok E (snd (insert_filter E now n d t s))"
proof -
  have "fe_new_id E (fs_ids s) \<notin> sf_id ` set (fs_filters s)"
    using assms(1,5) by (fastforce simp: filters_ok_def list_all_iff inj_def)
  then show ?thesis
    using assms by (fastforce simp: insert_filter_def Let_def filters_ok_def list_all_iff list_ex_iff sound_filter_def lessThan_Suc)
qed

lemma preserves_save [intro]: "inj (fe_new_id E) \<Longrightarrow> preserves E (save_filter E now name d t)"
  unfolding save_filter_def Let_def
  by (intro preserves_served preserves_lift preservesI)
    (auto simp: bindA_def liftR_def ret_def valid_definition_def split: sum.splits
      intro!: preserves_insert stripped_name_stripped)

subsection \<open>Changing\<close>

lemma find_split:
  assumes "find p xs = Some x"
  obtains ys zs where "xs = ys @ x # zs" and "p x" and "\<And>f. update_first p f xs = ys @ f x # zs"
proof -
  have "\<exists>ys zs. xs = ys @ x # zs \<and> p x \<and> (\<forall>f. update_first p f xs = ys @ f x # zs)"
    using assms
  proof (induction xs)
    case (Cons a xs)
    show ?case
    proof (cases "p a")
      case True
      with Cons.prems show ?thesis by (intro exI [of _ "[]"] exI [of _ xs]) simp
    next
      case False
      with Cons.prems have "find p xs = Some x" by simp
      from Cons.IH [OF this] obtain ys zs
        where "xs = ys @ x # zs" "p x" "\<forall>f. update_first p f xs = ys @ f x # zs" by blast
      with False show ?thesis by (intro exI [of _ "a # ys"] exI [of _ zs]) simp
    qed
  qed simp
  with that show ?thesis by blast
qed

lemma change_ok:
  assumes "filters_ok E s" and "find_filter j s = Some f"
    and "sf_id (change f) = sf_id f" and "sound_filter E f \<Longrightarrow> sound_filter E (change f)"
    and "sf_name (change f) = sf_name f \<or> \<not> list_ex (\<lambda>g. sf_name g = sf_name (change f) \<and> sf_id g \<noteq> j) (fs_filters s)"
  shows "filters_ok E (s\<lparr>fs_filters := update_first (\<lambda>f. sf_id f = j) change (fs_filters s)\<rparr>)"
proof -
  from assms(2) obtain ys zs where s: "fs_filters s = ys @ f # zs" "sf_id f = j"
    "update_first (\<lambda>f. sf_id f = j) change (fs_filters s) = ys @ change f # zs"
    unfolding find_filter_def by (rule find_split) blast
  have d: "distinct (map sf_id (ys @ f # zs))" "distinct (map sf_name (ys @ f # zs))"
    using assms(1) unfolding filters_ok_def s(1) by blast+
  have ids: "\<And>g. g \<in> set ys \<union> set zs \<Longrightarrow> sf_id g \<noteq> j"
  proof
    fix g assume "g \<in> set ys \<union> set zs" and "sf_id g = j"
    then have "j \<in> sf_id ` (set ys \<union> set zs)" by blast
    with d(1) s(2) show False by auto
  qed
  have names: "sf_name (change f) \<notin> sf_name ` (set ys \<union> set zs)"
  proof (cases "sf_name (change f) = sf_name f")
    case True
    then show ?thesis using d(2) by auto
  next
    case False
    with assms(5) ids show ?thesis by (auto simp: s(1) list_ex_iff)
  qed
  show ?thesis
    using assms(1,3,4) names unfolding s(3) filters_ok_def image_Un by (simp add: s(1,2))
qed

lemma write_update_ok:
  assumes "filters_ok E s"
    and "\<And>f. sf_id (change f) = sf_id f" and "\<And>f. sound_filter E f \<Longrightarrow> sound_filter E (change f)"
    and "\<And>f. sf_name (change f) = sf_name f \<or> \<not> list_ex (\<lambda>g. sf_name g = sf_name (change f) \<and> sf_id g \<noteq> j) (fs_filters s)"
  shows "filters_ok E (snd (write_update j change s))"
proof (cases "find_filter j s")
  case (Some f)
  then show ?thesis
    using change_ok [OF assms(1) Some, of change] assms(2-4) by (simp add: write_update_def)
qed (use assms(1) in \<open>simp add: write_update_def ret_def\<close>)

lemma apply_filter_update_ok:
  assumes "filters_ok E s"
    and "\<And>x. n = Some x \<Longrightarrow> validate_filter_name x = [] \<and> str_strip x = x
      \<and> \<not> list_ex (\<lambda>g. sf_name g = x \<and> sf_id g \<noteq> j) (fs_filters s)"
  shows "filters_ok E (snd (apply_filter_update E now j n u s))"
proof -
  have "filters_ok E (snd (write_update j (set_filter_fields n (map_of u ''filter_definition'') t now) s))"
    if "checked_definition E (map_of u ''filter_definition'') = Inr []" for t
    using that assms
    by (intro write_update_ok)
      (auto simp: set_filter_fields_def sound_filter_def checked_definition_def valid_definition_def split: option.splits)
  with assms(1) show ?thesis
    by (auto simp: apply_filter_update_def bindA_def liftR_def ret_def split: sum.splits)
qed

lemma preserves_update [intro]: "preserves E (update_filter E now i updates)"
proof -
  have "filters_ok E (snd (apply_filter_update E now j (Some n) u s))"
    if "filters_ok E s" "stripped_name v = Inr n" "validate_filter_name n = []"
      "\<not> list_ex (\<lambda>f. sf_name f = n \<and> sf_id f \<noteq> j) (fs_filters s)" for j n u s v
    using that by (intro apply_filter_update_ok) (auto dest: stripped_name_stripped)
  moreover have "filters_ok E (snd (apply_filter_update E now j None u s))" if "filters_ok E s" for j u s
    using that by (intro apply_filter_update_ok) auto
  ultimately show ?thesis
    unfolding update_filter_def Let_def
    by (intro preserves_served preservesI) (auto simp: bindA_def liftR_def ret_def split: option.splits sum.splits)
qed

lemma preserves_note_use: "preserves E (note_use E works now i)"
proof (rule preservesI)
  fix s assume ok: "filters_ok E s"
  have "filters_ok E (s\<lparr>fs_filters := update_first (\<lambda>f. sf_id f = j) (count_use now) (fs_filters s)\<rparr>)" for j
  proof (cases "find_filter j s")
    case None
    then have "update_first (\<lambda>f. sf_id f = j) (count_use now) (fs_filters s) = fs_filters s"
      by (auto simp: find_filter_def find_None_iff list_all_iff intro: update_first_none)
    with ok show ?thesis by simp
  next
    case (Some f)
    show ?thesis by (rule change_ok [OF ok Some]) (simp_all add: count_use_def sound_filter_def)
  qed
  with ok show "filters_ok E (snd (note_use E works now i s))"
    by (simp add: note_use_def modifyA_def split: option.split)
qed

subsection \<open>The other operations\<close>

lemma preserves_delete [intro]: "preserves E (delete_filter E i)"
proof -
  have "filters_ok E (s\<lparr>fs_filters := remove1 f (fs_filters s)\<rparr>)" if "filters_ok E s" for f s
    using that by (auto simp: filters_ok_def list_all_iff distinct_map inj_on_def dest: notin_set_remove1 in_set_remove1 [THEN iffD1])
  then show ?thesis
    unfolding delete_filter_def by (intro preserves_served preservesI) (auto simp: ret_def split: option.splits)
qed

lemma preserves_duplicate [intro]: "inj (fe_new_id E) \<Longrightarrow> preserves E (duplicate_filter E now i new_name)"
  unfolding duplicate_filter_def Let_def
  by (intro preserves_served preserves_lift) (auto intro!: preserves_bind split: prod.split filter_reply.split)

lemma preserves_resolve [intro]: "preserves E (resolve_filter_to_video_ids E works now videos db i d)"
  unfolding resolve_filter_to_video_ids_def
  by (intro preserves_served) (auto intro!: preserves_bind preserves_seq preserves_note_use split: prod.split filter_reply.split)

lemma preserves_list [intro]: "preserves E (list_saved_filters E)"
  by (rule preserves_unchanged) (simp add: list_saved_filters_def served_def tryA_def ret_def)

text \<open>The requests.\<close>

datatype filter_request =
    List_Filters
  | Get string
  | Save string pyval pyval pyval
  | Update string string dict
  | Delete string
  | Duplicate string string pyval
  | Resolve bool string "dict list" string string pyval

fun answer_to :: "filter_env \<Rightarrow> filter_request \<Rightarrow> (filter_store, answer) act" where
  "answer_to E List_Filters = list_saved_filters E"
| "answer_to E (Get i) = get_saved_filter E i"
| "answer_to E (Save now n d t) = save_filter E now n d t"
| "answer_to E (Update now i u) = update_filter E now i u"
| "answer_to E (Delete i) = delete_filter E i"
| "answer_to E (Duplicate now i n) = duplicate_filter E now i n"
| "answer_to E (Resolve works now videos db i d) = resolve_filter_to_video_ids E works now videos db i d"

definition after_requests :: "filter_env \<Rightarrow> filter_request list \<Rightarrow> filter_store \<Rightarrow> filter_store" where
  "after_requests E rs s = fold (\<lambda>r s. snd (answer_to E r s)) rs s"

lemma requests_keep:
  assumes "inj (fe_new_id E)"
  shows "filters_ok E s \<Longrightarrow> filters_ok E (after_requests E rs s)"
proof (induction rs arbitrary: s)
  case (Cons r rs)
  have "preserves E (answer_to E r)" using assms by (cases r) auto
  with Cons.prems have "filters_ok E (snd (answer_to E r s))" by (simp add: preserves_def)
  from Cons.IH [OF this] show ?case by (simp add: after_requests_def)
qed (simp add: after_requests_def)

text \<open>C38: 
  Whatever requests come, in whatever order and with whatever values, the saved filters keep
  distinct identifiers and distinct, clean names, and every stored definition is valid.
\<close>

theorem saved_filters_sound:
  assumes "inj (fe_new_id E)" and "filters_ok E s"
  shows "filters_ok E (after_requests E rs s)"
  using assms by (rule requests_keep)

section \<open>Resolution\<close>

lemma sort_spec_valid:
  assumes "sort_errors d = Inr []"
  shows "\<exists>f direction. get_sort_spec d = Inr (f, direction) \<and> f \<in> set supported_sort_fields"
proof (cases "map_of d ''sort''")
  case None
  then show ?thesis by (simp add: get_sort_spec_def get_or_def in_supported_def supported_sort_fields_def)
next
  case (Some v)
  with assms obtain x where x: "v = PDict x" by (cases v) (auto simp: sort_errors_def)
  show ?thesis
  proof (cases "map_of x ''field''")
    case None
    with Some x show ?thesis by (simp add: get_sort_spec_def get_or_def in_supported_def supported_sort_fields_def)
  next
    case (Some y)
    with assms \<open>map_of d ''sort'' = _\<close> x have "in_supported y = Inr True"
      by (auto simp: sort_errors_def bindR_eq_Inr split: if_splits)
    moreover from this obtain f where "y = PStr f" "f \<in> set supported_sort_fields"
      by (auto simp: in_supported_def split: if_splits)
    ultimately show ?thesis
      using \<open>map_of d ''sort'' = _\<close> x Some by (simp add: get_sort_spec_def get_or_def)
  qed
qed

lemma limit_valid:
  assumes "limit_errors d = []" and "truthy (dget d ''limit'')"
  shows "\<exists>i. double_int (dget d ''limit'') = Inr i \<and> 1 \<le> i \<and> i \<le> MAX_RESOLVE_LIMIT"
  using assms by (auto simp: limit_errors_def dget_def split: option.splits pyval.splits if_splits)

definition limit_of :: "dict \<Rightarrow> nat" where
  "limit_of d = (case double_int (dget d ''limit'') of Inr i \<Rightarrow> nat i | Inl e \<Rightarrow> nat MAX_RESOLVE_LIMIT)"

lemma limit_of_le: "limit_errors d = [] \<Longrightarrow> limit_of d \<le> nat MAX_RESOLVE_LIMIT"
  by (auto simp: limit_of_def limit_errors_def dget_def MAX_RESOLVE_LIMIT_def split: option.splits pyval.splits if_splits sum.splits)

lemma resolve_valid:
  assumes "valid_definition (fe_iso_date E) v"
  obtains d field direction where "v = PDict d" and "field \<in> set supported_sort_fields"
    and "limit_of d \<le> nat MAX_RESOLVE_LIMIT"
    and "resolve_videos E videos v = bindR (filter_to_mongo_query d) (\<lambda>q. bindR (run_query (fe_refuses E) q videos) (\<lambda>matching.
       let ids = filter truthy (map (\<lambda>doc. dget doc ''video_id'') (take (limit_of d) (fe_sort E field direction matching)))
       in Inr \<lparr> rn_video_ids = ids, rn_count = length ids,
                rn_filter_applied = (vq_fields q \<noteq> [] \<or> vq_or q \<noteq> [] \<or> vq_and q \<noteq> []),
                rn_limit_applied = py_or (dget d ''limit'') (PInt MAX_RESOLVE_LIMIT) \<rparr>))"
proof -
  from assms obtain d where d: "v = PDict d"
    by (cases v) (auto simp: valid_definition_def validate_filter_definition_def)
  note parts = valid_parts [OF assms [unfolded d]]
  obtain field direction where s: "get_sort_spec d = Inr (field, direction)" "field \<in> set supported_sort_fields"
    using sort_spec_valid [OF parts(9)] by blast
  have n: "resolve_limit d = Inr (int (limit_of d))" and pos: "limit_of d \<noteq> 0"
  proof -
    consider i where "truthy (dget d ''limit'')" "double_int (dget d ''limit'') = Inr i" "1 \<le> i" "i \<le> MAX_RESOLVE_LIMIT"
      | "map_of d ''limit'' = None"
      using limit_valid [OF parts(10)] parts(10)
      by (cases "map_of d ''limit''") (auto simp: limit_errors_def dget_def split: pyval.splits if_splits)
    then show "resolve_limit d = Inr (int (limit_of d))" "limit_of d \<noteq> 0"
      by (cases; simp add: resolve_limit_def limit_of_def dget_def MAX_RESOLVE_LIMIT_def)+
  qed
  show ?thesis
    using that [OF d s(2) limit_of_le [OF parts(10)], of direction] pos
    unfolding resolve_videos_def d as_dict_def by (simp add: s(1) n cursor_limit_def Let_def)
qed

lemma find_count_use: "find (\<lambda>f. sf_id f = j) xs = Some f \<Longrightarrow>
    find (\<lambda>f. sf_id f = j) (update_first (\<lambda>f. sf_id f = j) (count_use now) xs) = Some (count_use now f)"
  by (induction xs) (auto simp: count_use_def)

text \<open>What a request for a saved filter answers, by what the resolution of its definition gives.\<close>

lemma resolve_saved:
  assumes "find_filter j s = Some f" and "fe_object_id E i = Some j" and "i \<noteq> []" and "db \<noteq> []"
  shows "resolve_filter_to_video_ids E works now videos db i x s =
    ((case resolve_videos E videos (sf_definition f) of
        Inr a \<Rightarrow> Inr (200, Resolved a)
      | Inl e \<Rightarrow> if is_Exception e then Inr (500, Refused (exn_msg e)) else Inl e),
     snd (note_use E works now i s))"
proof -
  have g: "get_saved_filter E i s = (Inr (200, One_Filter f), s)"
    using assms(1,2) by (simp add: get_saved_filter_def served_def tryA_def ret_def)
  define u where "u = snd (note_use E works now i s)"
  have n: "note_use E works now i s = (Inr (), u)"
    by (simp add: u_def note_use_def modifyA_def)
  show ?thesis
    using assms(3,4) unfolding u_def [symmetric]
    by (cases "resolve_videos E videos (sf_definition f)")
      (simp_all add: resolve_filter_to_video_ids_def served_def tryA_def bindA_def seqA_def g n liftR_def ret_def)
qed

lemma noted_use:
  assumes "find_filter j s = Some f" and "fe_object_id E i = Some j"
  shows "find_filter j (snd (note_use E True now i s)) = Some (count_use now f)"
  using assms find_count_use by (simp add: note_use_def modifyA_def find_filter_def)

lemma resolved_ids:
  assumes "valid_definition (fe_iso_date E) (PDict d)" and "filter_to_mongo_query d = Inr q" and "selects q = wanted d"
    and "run_query (fe_refuses E) q videos = Inr (filter (selects q) videos)"
    and "\<And>field direction xs. mset (fe_sort E field direction xs) = mset xs"
  shows "\<exists>a. resolve_videos E videos (PDict d) = Inr a \<and> rn_count a = length (rn_video_ids a) \<and> length (rn_video_ids a) \<le> 10000
    \<and> list_all (\<lambda>v. list_ex (\<lambda>doc. dget doc ''video_id'' = v \<and> wanted d doc) videos) (rn_video_ids a)
    \<and> (length (filter (wanted d) videos) \<le> limit_of d \<longrightarrow>
         mset (rn_video_ids a) = mset (filter truthy (map (\<lambda>doc. dget doc ''video_id'') (filter (wanted d) videos))))"
proof -
  obtain d' field direction where v: "PDict d = PDict d'" "limit_of d' \<le> nat MAX_RESOLVE_LIMIT"
    and res: "resolve_videos E videos (PDict d) = bindR (filter_to_mongo_query d') (\<lambda>q. bindR (run_query (fe_refuses E) q videos) (\<lambda>matching.
       let ids = filter truthy (map (\<lambda>doc. dget doc ''video_id'') (take (limit_of d') (fe_sort E field direction matching)))
       in Inr \<lparr> rn_video_ids = ids, rn_count = length ids,
                rn_filter_applied = (vq_fields q \<noteq> [] \<or> vq_or q \<noteq> [] \<or> vq_and q \<noteq> []),
                rn_limit_applied = py_or (dget d' ''limit'') (PInt MAX_RESOLVE_LIMIT) \<rparr>))"
    by (rule resolve_valid [OF assms(1), of videos]) (rule that)
  have d: "d' = d" using v(1) by simp
  define sorted where "sorted = fe_sort E field direction (filter (wanted d) videos)"
  have m: "mset sorted = mset (filter (wanted d) videos)" by (simp add: sorted_def assms(5))
  then have ms: "set sorted = set (filter (wanted d) videos)" "length sorted = length (filter (wanted d) videos)"
    using mset_eq_setD mset_eq_length by blast+
  define ids where "ids = filter truthy (map (\<lambda>doc. dget doc ''video_id'') (take (limit_of d) sorted))"
  obtain a where a: "resolve_videos E videos (PDict d) = Inr a" "rn_video_ids a = ids" "rn_count a = length ids"
    using res assms(2-4) by (simp add: d ids_def sorted_def Let_def)
  have "length ids \<le> limit_of d"
    unfolding ids_def by (rule order_trans [OF length_filter_le]) simp
  also have "limit_of d \<le> 10000" using v(2) by (simp add: d MAX_RESOLVE_LIMIT_def)
  finally have len: "length ids \<le> 10000" .
  have sub: "list_all (\<lambda>v. list_ex (\<lambda>doc. dget doc ''video_id'' = v \<and> wanted d doc) videos) ids"
    using ms(1) by (fastforce simp: ids_def list_all_iff list_ex_iff dest: in_set_takeD)
  have "mset ids = mset (filter truthy (map (\<lambda>doc. dget doc ''video_id'') (filter (wanted d) videos)))"
    if "length (filter (wanted d) videos) \<le> limit_of d"
    using that ms(2) by (simp add: ids_def mset_filter m)
  with a len sub show ?thesis by auto
qed

text \<open>C28: 
  A saved filter whose numbers all fit in eight bytes, which combines no keywords with a missing
  transcript and whose query the server does not refuse, resolves: the answer is not an error, it has
  at most 10,000 identifiers, each of a video that meets every criterion of the definition, and none
  is left out while the limit allows it. Larger numbers pass the validation too: a bound beyond the
  range of a double always gives the error 500. In each case the use of the filter is counted.
\<close>

theorem saved_filter_resolves:
  assumes "filters_ok E s" and "find_filter j s = Some f" and "fe_object_id E i = Some j" and "i \<noteq> []" and "db \<noteq> []"
    and "sf_definition f = PDict d" and "\<not> shared_disjunction d"
    and "\<And>q. filter_to_mongo_query d = Inr q \<Longrightarrow> fe_refuses E q = None"
    and "\<And>field direction xs. mset (fe_sort E field direction xs) = mset xs"
    and "resolve_filter_to_video_ids E True now videos db i x s = (r, s')"
  shows "(moderate (PDict d) \<longrightarrow> (\<exists>a. r = Inr (200, Resolved a)
        \<and> rn_count a = length (rn_video_ids a) \<and> length (rn_video_ids a) \<le> 10000
        \<and> list_all (\<lambda>v. list_ex (\<lambda>doc. dget doc ''video_id'' = v \<and> wanted d doc) videos) (rn_video_ids a)
        \<and> (length (filter (wanted d) videos) \<le> limit_of d \<longrightarrow>
             mset (rn_video_ids a) = mset (filter truthy (map (\<lambda>doc. dget doc ''video_id'') (filter (wanted d) videos))))))
    \<and> (infinite_bound d \<longrightarrow> r = Inr (500, Refused ''cannot convert float infinity to integer''))
    \<and> find_filter j s' = Some (count_use now f)"
proof -
  have sound: "valid_definition (fe_iso_date E) (PDict d)"
    using assms(1,2,6) by (auto simp: filters_ok_def find_filter_def find_Some_iff list_all_length sound_filter_def)
  note run = resolve_saved [OF assms(2-5), of True now videos x, unfolded assms(6,10)]
  note query = query_of_valid [OF sound]
  have "r = Inr (500, Refused ''cannot convert float infinity to integer'')" if "infinite_bound d"
  proof -
    have "resolve_videos E videos (PDict d) = Inl infinity_error"
      using query [unfolded if_P [OF that]] by (simp add: resolve_videos_def as_dict_def)
    with run show ?thesis by (simp add: infinity_error_def is_Exception_def)
  qed
  moreover have "\<exists>a. r = Inr (200, Resolved a) \<and> rn_count a = length (rn_video_ids a) \<and> length (rn_video_ids a) \<le> 10000
      \<and> list_all (\<lambda>v. list_ex (\<lambda>doc. dget doc ''video_id'' = v \<and> wanted d doc) videos) (rn_video_ids a)
      \<and> (length (filter (wanted d) videos) \<le> limit_of d \<longrightarrow>
           mset (rn_video_ids a) = mset (filter truthy (map (\<lambda>doc. dget doc ''video_id'') (filter (wanted d) videos))))"
    if m: "moderate (PDict d)"
  proof -
    obtain q where q: "filter_to_mongo_query d = Inr q" "\<And>doc. selects q doc = wanted d doc" "\<not> wide_query q"
      using query [unfolded if_not_P [OF moderate_no_infinity [OF m]]] assms(7) m by blast
    have "run_query (fe_refuses E) q videos = Inr (filter (selects q) videos)"
      using q(3) assms(8) [OF q(1)] by (simp add: run_query_def)
    from resolved_ids [OF sound q(1) ext [of "selects q" "wanted d", OF q(2)] this assms(9)] show ?thesis using run by auto
  qed
  moreover have "find_filter j s' = Some (count_use now f)"
    using run noted_use [OF assms(2,3), of now] by simp
  ultimately show ?thesis by blast
qed

section \<open>Concrete filters\<close>

definition demo_filter_env :: filter_env where
  "demo_filter_env =
     \<lparr> fe_iso_date = (\<lambda>s. True), fe_object_id = (\<lambda>s. if s = [] then None else Some s), fe_new_id = str_of_nat, fe_str = (\<lambda>v. []),
       fe_sort = (\<lambda>field direction xs. if direction = -1 then rev xs else xs), fe_refuses = (\<lambda>q. None) \<rparr>"

definition no_filters :: filter_store where
  "no_filters = \<lparr> fs_filters = [], fs_ids = 0 \<rparr>"

lemma str_of_nat_inj: "inj str_of_nat"
  by (rule injI) (metis option.inject parse_digits_str_of_nat)

lemma no_filters_ok: "filters_ok E no_filters"
  by (simp add: filters_ok_def no_filters_def)

definition demo_requests :: "filter_request list" where
  "demo_requests =
     [Save ''t1'' (PStr '' graphs '') (PDict demo_filter) PNone, Save ''t2'' (PStr ''graphs'') (PDict demo_filter) PNone,
      Duplicate ''t3'' ''0'' (PStr ''copy''), Update ''t4'' ''1'' [(''name'', PStr ''graphs'')], Update ''t5'' ''1'' [(''filter_definition'', PDict [])]]"

lemma saved_filters_sound_witness:
  "filters_ok demo_filter_env (after_requests demo_filter_env demo_requests no_filters)
    \<and> map sf_name (fs_filters (after_requests demo_filter_env demo_requests no_filters)) = [''graphs'', ''copy'']"
proof -
  have i: "inj (fe_new_id demo_filter_env)" using str_of_nat_inj by (simp add: demo_filter_env_def)
  have n: "map sf_name (fs_filters (after_requests demo_filter_env demo_requests no_filters)) = [''graphs'', ''copy'']"
    by code_simp
  from saved_filters_sound [OF i no_filters_ok, of demo_requests] n show ?thesis by blast
qed

lemma saved_filter_resolves_witness:
  "\<exists>f a s'. find_filter ''0'' (after_requests demo_filter_env demo_requests no_filters) = Some f
    \<and> resolve_filter_to_video_ids demo_filter_env True ''t6'' [demo_video, []] ''db'' ''0'' PNone
        (after_requests demo_filter_env demo_requests no_filters) = (Inr (200, Resolved a), s')
    \<and> mset (rn_video_ids a) = mset [PStr ''v1''] \<and> find_filter ''0'' s' = Some (count_use ''t6'' f)"
proof -
  define s where "s = after_requests demo_filter_env demo_requests no_filters"
  have ok: "filters_ok demo_filter_env s"
    unfolding s_def using str_of_nat_inj no_filters_ok by (intro requests_keep) (simp_all add: demo_filter_env_def)
  have "map_option sf_definition (find_filter ''0'' s) = Some (PDict demo_filter)"
    unfolding s_def by code_simp
  then obtain f where f: "find_filter ''0'' s = Some f" "sf_definition f = PDict demo_filter" by auto
  obtain r s' where run: "resolve_filter_to_video_ids demo_filter_env True ''t6'' [demo_video, []] ''db'' ''0'' PNone s = (r, s')" by force
  have perm: "mset (fe_sort demo_filter_env field direction xs) = mset xs" for field direction xs
    by (simp add: demo_filter_env_def)
  have apart: "\<not> shared_disjunction demo_filter" by code_simp
  have id: "fe_object_id demo_filter_env ''0'' = Some ''0''" by (simp add: demo_filter_env_def)
  have small: "length (filter (wanted demo_filter) [demo_video, []]) \<le> limit_of demo_filter" by code_simp
  have ids: "filter truthy (map (\<lambda>doc. dget doc ''video_id'') (filter (wanted demo_filter) [demo_video, []])) = [PStr ''v1'']"
    by code_simp
  have refuses: "fe_refuses demo_filter_env q = None" for q by (simp add: demo_filter_env_def)
  have m: "moderate (PDict demo_filter)" by code_simp
  obtain a where "r = Inr (200, Resolved a)" "mset (rn_video_ids a) = mset [PStr ''v1'']" "find_filter ''0'' s' = Some (count_use ''t6'' f)"
    using saved_filter_resolves [OF ok f(1) id _ _ f(2) apart refuses perm run] small m unfolding ids by auto
  with f run show ?thesis unfolding s_def by blast
qed

text \<open>A bound that is a double but not an integer of eight bytes passes the validation; the query
  cannot be sent.\<close>

definition wide_filter :: dict where
  "wide_filter = [(''engagement'', PDict [(''min_views'', PFloat (10 ^ 20))])]"

lemma wide_filter_fails:
  "valid_definition (\<lambda>s. True) (PDict wide_filter) \<and> resolve_videos demo_filter_env [demo_video] (PDict wide_filter) = Inl wide_error"
proof -
  have "valid_definition (\<lambda>s. True) (PDict wide_filter)"
    by (simp add: wide_filter_def valid_definition_def validate_filter_definition_def sort_errors_def channel_errors_def
        section_errors_def number_error_def non_negative_def score_error_def limit_errors_def)
  moreover have "resolve_videos demo_filter_env [demo_video] (PDict wide_filter) = Inl wide_error" by code_simp
  ultimately show ?thesis by (rule conjI)
qed

text \<open>A filter changed to an empty definition selects every video but can no longer be copied.\<close>

lemma empty_definition_not_copied:
  "fst (duplicate_filter demo_filter_env ''t6'' ''1'' (PStr ''again'') (after_requests demo_filter_env demo_requests no_filters))
    = Inr (400, Refused ''Filter definition is required'')"
  by code_simp

end
