(* ===== verification/Source_View_Facts.thy ===== *)
theory Source_View_Facts
  imports Source_Views Saved_Filter_Facts
begin

text \<open>
  The statistics count every video of every channel once, and the pages of a channel show every
  video once.
\<close>

section \<open>Groups\<close>

definition grouped :: "('k \<Rightarrow> bool) \<Rightarrow> ('k \<times> 'v list) list \<Rightarrow> nat" where
  "grouped P d = sum_list (map (\<lambda>g. length (snd g)) (filter (\<lambda>g. P (fst g)) d))"

lemma grouped_append: "grouped P (dd_append k x d) = grouped P d + (if P k then 1 else 0)"
  unfolding grouped_def dd_append_def by (induction d) auto

lemma grouped_fold:
  "grouped P (fold (\<lambda>doc. dd_append (f doc) doc) docs d) = grouped P d + length (filter (\<lambda>doc. P (f doc)) docs)"
  by (induction docs arbitrary: d) (simp_all add: grouped_append)

lemma groups_total:
  "sum_list (map (\<lambda>(k, xs). length xs) (groups_by name docs)) = length (filter (\<lambda>doc. value_of name doc \<noteq> PNone) docs)"
proof -
  have "sum_list (map (\<lambda>(k, xs). length xs) (groups_by name docs))
      = grouped (\<lambda>k. k \<noteq> PNone) (fold (\<lambda>doc. dd_append (value_of name doc) doc) docs [])"
    unfolding groups_by_def grouped_def case_prod_unfold by (rule refl)
  also have "\<dots> = length (filter (\<lambda>doc. value_of name doc \<noteq> PNone) docs)"
    unfolding grouped_fold by (simp add: grouped_def)
  finally show ?thesis .
qed

lemma sum_biggest_first: "sum_list (map h (biggest_first gs)) = sum_list (map (h :: _ \<Rightarrow> nat) gs)"
proof -
  have "sum_mset (mset (map h (biggest_first gs))) = sum_mset (mset (map h gs))"
    by (simp only: mset_map biggest_first_def mset_sort)
  then show ?thesis by (simp only: sum_mset_sum_list)
qed

lemma distinct_biggest_first: "distinct (map h (biggest_first gs)) = distinct (map h gs)"
proof -
  have "mset (map h (biggest_first gs)) = mset (map h gs)"
    by (simp only: mset_map biggest_first_def mset_sort)
  then show ?thesis by (rule mset_eq_imp_distinct_iff)
qed

lemma wf_groups: "wf_dict d \<Longrightarrow> wf_dict (fold (\<lambda>doc. dd_append (f doc) doc) docs d)"
  by (induction docs arbitrary: d) auto

lemma group_members:
  assumes "(k, ds) \<in> set (groups_by name docs)"
  shows "ds = filter (\<lambda>doc. value_of name doc = k) docs"
proof -
  have "(k, ds) \<in> set (fold (\<lambda>doc. dd_append (value_of name doc) doc) docs [])"
    using assms by (simp add: groups_by_def)
  then have "map_of (fold (\<lambda>doc. dd_append (value_of name doc) doc) docs []) k = Some ds"
    using wf_groups [of "[]" "value_of name" docs] by (intro map_of_is_SomeI) (simp_all add: wf_dict_def)
  then show ?thesis
    using map_of_fold_dd_append [of "value_of name" "\<lambda>d. d" docs "[]" k] by (simp split: if_splits)
qed

lemma groups_distinct: "distinct (map fst (groups_by name docs))"
proof -
  have "distinct (map fst (fold (\<lambda>doc. dd_append (value_of name doc) doc) docs []))"
    using wf_groups [of "[]" "value_of name" docs] by (simp add: wf_dict_def)
  then show ?thesis unfolding groups_by_def by (rule distinct_map_filter)
qed

text \<open>
  The statistics of the channels: every channel has one row, the row counts and sums the videos of
  that channel, and the total is the number of videos that have a channel.
\<close>

theorem channels_account_for_videos:
  assumes "get_channels V = Inr (200, Channel_View rows n k)"
  shows "n = length (filter (\<lambda>doc. value_of ''channel_id'' doc \<noteq> PNone) (so_videos V)) \<and> k = length rows
    \<and> distinct (map cw_id rows)
    \<and> list_all (\<lambda>r. let ds = filter (\<lambda>doc. value_of ''channel_id'' doc = cw_id r) (so_videos V)
        in cw_videos r = length ds \<and> cw_views r = sum_of ''stats.viewCount'' ds \<and> cw_likes r = sum_of ''stats.likeCount'' ds) rows"
proof -
  let ?g = "biggest_first (groups_by ''channel_id'' (so_videos V))"
  from assms have r: "rows = map channel_row_of ?g" "n = sum_list (map cw_videos rows)" "k = length rows"
    by (auto simp: get_channels_def when_available_def shown_def no_database_def Let_def split: if_splits sum.splits)
  have "cw_videos (channel_row_of g) = (case g of (k, ds) \<Rightarrow> length ds)" "cw_id (channel_row_of g) = fst g" for g
    by (simp_all add: channel_row_of_def split: prod.split)
  then have rows: "map cw_videos rows = map (\<lambda>(k, ds). length ds) ?g" "map cw_id rows = map fst ?g"
    unfolding r(1) map_map by (auto intro: map_cong)
  then have "n = length (filter (\<lambda>doc. value_of ''channel_id'' doc \<noteq> PNone) (so_videos V))"
    by (simp add: r(2) sum_biggest_first groups_total)
  moreover from rows(2) have "distinct (map cw_id rows)"
    by (simp only: distinct_biggest_first groups_distinct)
  moreover have "list_all (\<lambda>r. let ds = filter (\<lambda>doc. value_of ''channel_id'' doc = cw_id r) (so_videos V)
        in cw_videos r = length ds \<and> cw_views r = sum_of ''stats.viewCount'' ds \<and> cw_likes r = sum_of ''stats.likeCount'' ds) rows"
    unfolding list_all_iff r(1)
    by (auto simp: channel_row_of_def biggest_first_def Let_def dest!: group_members)
  ultimately show ?thesis using r(3) by blast
qed

section \<open>Pages\<close>

lemma video_rows_append:
  "video_rows (xs @ ys) = bindR (video_rows xs) (\<lambda>a. bindR (video_rows ys) (\<lambda>b. Inr (a @ b)))"
proof (induction xs)
  case Nil
  then show ?case by (cases "video_rows ys") simp_all
next
  case (Cons x xs)
  then show ?case by (cases "video_row_of x"; cases "video_rows xs"; cases "video_rows ys") simp_all
qed

definition sorted_videos :: "source_env \<Rightarrow> string \<Rightarrow> string \<Rightarrow> string \<Rightarrow> dict list" where
  "sorted_videos V channel sort_by order =
     fe_sort (so_filters V) (page_sort_field sort_by) (if order = ''desc'' then -1 else 1)
       (filter (\<lambda>doc. equals doc ''channel_id'' (PStr channel)) (so_videos V))"

lemma page_rows:
  assumes "\<And>field direction xs. mset (fe_sort (so_filters V) field direction xs) = mset xs" and "0 < n"
    and "get_videos_for_channel V channel (int n) (int i) sort_by order = Inr (200, Page_View p)"
  shows "video_rows (take n (drop i (sorted_videos V channel sort_by order))) = Inr (vp_videos p)
    \<and> vp_has_more p = (i + n < length (sorted_videos V channel sort_by order))"
proof -
  define found where "found = filter (\<lambda>doc. equals doc ''channel_id'' (PStr channel)) (so_videos V)"
  define all where "all = sorted_videos V channel sort_by order"
  have "mset all = mset found" by (simp add: all_def sorted_videos_def found_def assms(1))
  then have l: "length all = length found" by (rule mset_eq_length)
  show ?thesis
  proof (cases found)
    case Nil
    with l assms(3) show ?thesis
      unfolding get_videos_for_channel_def found_def [symmetric] all_def [symmetric]
      by (auto simp: when_available_def shown_def no_database_def split: if_splits)
  next
    case (Cons d ds)
    with assms(2,3) l show ?thesis
      unfolding get_videos_for_channel_def found_def [symmetric] all_def [symmetric]
      by (auto simp: when_available_def shown_def no_database_def cursor_skip_def cursor_limit_def bindR_def
          sorted_videos_def all_def found_def [symmetric] split: if_splits sum.splits)
  qed
qed

text \<open>
  Reading the pages of a channel one after the other until there are no more shows every video of
  the channel exactly once, in the order that was asked for.
\<close>

theorem pages_cover_channel:
  assumes "\<And>field direction xs. mset (fe_sort (so_filters V) field direction xs) = mset xs" and "0 < n"
    and "\<And>i. i \<le> m \<Longrightarrow> get_videos_for_channel V channel (int n) (int (i * n)) sort_by order = Inr (200, Page_View (p i))"
    and "\<not> vp_has_more (p m)"
  shows "video_rows (sorted_videos V channel sort_by order) = Inr (concat (map (\<lambda>i. vp_videos (p i)) [0..<Suc m]))
    \<and> mset (sorted_videos V channel sort_by order) = mset (filter (\<lambda>doc. equals doc ''channel_id'' (PStr channel)) (so_videos V))"
proof -
  let ?all = "sorted_videos V channel sort_by order"
  have "k \<le> Suc m \<Longrightarrow> video_rows (take (k * n) ?all) = Inr (concat (map (\<lambda>i. vp_videos (p i)) [0..<k]))" for k
  proof (induction k)
    case (Suc k)
    then have "video_rows (take n (drop (k * n) ?all)) = Inr (vp_videos (p k))"
      using page_rows [OF assms(1,2) assms(3)] by simp
    moreover have "take (Suc k * n) ?all = take (k * n) ?all @ take n (drop (k * n) ?all)"
      using take_add [of "k * n" n ?all] by (simp add: add.commute)
    ultimately show ?case using Suc by (simp add: video_rows_append)
  qed simp
  moreover have "length ?all \<le> Suc m * n"
    using page_rows [OF assms(1,2) assms(3) [of m]] assms(4) by (simp add: not_less add.commute)
  ultimately show ?thesis
    using assms(1) by (metis order_refl sorted_videos_def take_all)
qed

section \<open>Concrete videos\<close>

definition demo_sources :: source_env where
  "demo_sources =
     \<lparr> so_filters = demo_filter_env, so_db = ''system_data'', so_has_db = True, so_has_collection = True,
       so_videos = [demo_video, [(''video_id'', PStr ''v2''), (''channel_id'', PStr ''UC1'')],
         [(''video_id'', PStr ''v3''), (''channel_id'', PStr ''UC2'')], [(''video_id'', PStr ''v4'')]] \<rparr>"

definition page_at :: "nat \<Rightarrow> video_page" where
  "page_at i =
     (case get_videos_for_channel demo_sources ''UC2'' 1 (int i) ''title'' ''asc'' of
        Inr (c, Page_View p) \<Rightarrow> p | _ \<Rightarrow> \<lparr> vp_title = PNone, vp_videos = [], vp_total = 0, vp_has_more = True \<rparr>)"

lemma channels_account_for_videos_witness:
  "\<exists>rows. get_channels demo_sources = Inr (200, Channel_View rows 3 2) \<and> map cw_videos rows = [2, 1] \<and> distinct (map cw_id rows)"
proof -
  have "case get_channels demo_sources of Inr (c, Channel_View rows n k) \<Rightarrow> c = 200 \<and> n = 3 \<and> k = 2 \<and> map cw_videos rows = [2, 1] | _ \<Rightarrow> False"
    by code_simp
  then obtain rows where r: "get_channels demo_sources = Inr (200, Channel_View rows 3 2)" "map cw_videos rows = [2, 1]"
    by (auto split: sum.splits prod.splits view_reply.splits)
  from channels_account_for_videos [OF r(1)] have "distinct (map cw_id rows)" by (elim conjE)
  with r show ?thesis by (intro exI [of _ rows] conjI)
qed

lemma pages_cover_channel_witness:
  "video_rows (sorted_videos demo_sources ''UC2'' ''title'' ''asc'') = Inr (vp_videos (page_at 0) @ vp_videos (page_at 1))
    \<and> map vw_video_id (vp_videos (page_at 0) @ vp_videos (page_at 1)) = [PStr ''v1'', PStr ''v3'']"
proof -
  have perm: "mset (fe_sort (so_filters demo_sources) field direction xs) = mset xs" for field direction xs
    by (simp add: demo_sources_def demo_filter_env_def)
  have "get_videos_for_channel demo_sources ''UC2'' 1 0 ''title'' ''asc'' = Inr (200, Page_View (page_at 0))"
    "get_videos_for_channel demo_sources ''UC2'' 1 1 ''title'' ''asc'' = Inr (200, Page_View (page_at 1))"
    by code_simp+
  then have pages: "get_videos_for_channel demo_sources ''UC2'' (int 1) (int (i * 1)) ''title'' ''asc'' = Inr (200, Page_View (page_at i))"
    if "i \<le> 1" for i
    using that by (cases "i = 0") (auto simp: le_Suc_eq)
  have last_page: "\<not> vp_has_more (page_at 1)" by code_simp
  have ids: "map vw_video_id (vp_videos (page_at 0) @ vp_videos (page_at 1)) = [PStr ''v1'', PStr ''v3'']" by code_simp
  from pages_cover_channel [OF perm _ pages last_page] ids show ?thesis by simp
qed

text \<open>A limit of 0 is no limit for the cursor, and still announces more.\<close>

lemma zero_limit_returns_all:
  "(case get_videos_for_channel demo_sources ''UC2'' 0 0 ''title'' ''asc'' of
      Inr (c, Page_View p) \<Rightarrow> length (vp_videos p) = vp_total p \<and> vp_has_more p | _ \<Rightarrow> False)"
  by code_simp

text \<open>The statistics count a video without the field \<open>transcript_raw\<close> as one with a transcript; the filter does not.\<close>

lemma missing_transcript_counted:
  "coverage [[]] = 100" "no_transcript []"
  by code_simp+

end
