(* ===== verification/Transformation_Log.thy ===== *)
theory Transformation_Log
  imports Validation_Rules
begin

text \<open>
  \<open>domain/graphrag/services/transformation_logger.py\<close>: the log of merges, skips, relationships and
  communities, whose entries are collected and written in batches.

  Entries are dictionaries. What an \<open>insert_many(ordered=False)\<close> does is a choice of the database,
  by the number of the attempt and the batch: it writes all entries, or it raises and has written any
  of them. Calls come one after the other: two threads in the logger at once are left out. The times, \<open>str\<close> and the two digits of a format are parameters, and
  arrows in the readable text are \<open>->\<close>. The creation of indexes is left out.
\<close>

section \<open>State\<close>

record log_state =
  tl_enabled :: bool
  tl_batch_size :: int
  tl_buffer :: "dict list"
  tl_stored :: "dict list"
  tl_attempts :: nat

record log_env =
  le_now :: "pyval \<times> pyval"
  le_insert :: "nat \<Rightarrow> dict list \<Rightarrow> bool list option"
  le_str :: "pyval \<Rightarrow> string"
  le_fixed :: "rat \<Rightarrow> string"

definition new_logger :: "bool \<Rightarrow> int \<Rightarrow> dict list \<Rightarrow> log_state" where
  "new_logger enabled n stored = \<lparr> tl_enabled = enabled, tl_batch_size = n, tl_buffer = [], tl_stored = stored, tl_attempts = 0 \<rparr>"

text \<open>\<open>get_transformation_logger\<close>: the variable can only switch the log off.\<close>

definition get_transformation_logger :: "(string \<times> string) list \<Rightarrow> bool \<Rightarrow> dict list \<Rightarrow> log_state" where
  "get_transformation_logger env enabled stored =
     new_logger (enabled \<and> str_lower (env_get env ''GRAPHRAG_TRANSFORMATION_LOGGING'' ''true'') = ''true'') 100 stored"

section \<open>Writing\<close>

text \<open>
  The buffer is emptied first; when the write fails, all its entries come back, and the exception
  goes on. \<open>written\<close> are the entries that are stored nevertheless.
\<close>

definition written :: "bool list \<Rightarrow> dict list \<Rightarrow> dict list" where
  "written ws ds = map fst (filter snd (zip ds ws))"

definition flush_buffer :: "log_env \<Rightarrow> (log_state, nat) act" where
  "flush_buffer L = (\<lambda>s.
     if \<not> tl_enabled s \<or> tl_buffer s = [] then (Inr 0, s)
     else (let t = s\<lparr>tl_attempts := Suc (tl_attempts s)\<rparr>
           in case le_insert L (tl_attempts s) (tl_buffer s) of
                None \<Rightarrow> (Inr (length (tl_buffer s)), t\<lparr>tl_buffer := [], tl_stored := tl_stored s @ tl_buffer s\<rparr>)
              | Some ws \<Rightarrow> (Inl (Exn ''BulkWriteError'' ''batch op errors occurred''),
                            t\<lparr>tl_stored := tl_stored s @ written ws (tl_buffer s)\<rparr>)))"

text \<open>The readable text: parts of the data that are not what they should be raise.\<close>

definition part_name :: "dict \<Rightarrow> string \<Rightarrow> pyval res" where
  "part_name data k = (case doc_or data k (PDict []) of
       PDict d \<Rightarrow> Inr (doc_or d ''name'' (PStr ''unknown'')) | v \<Rightarrow> get_attr v ''name'')"

text \<open>\<open>data.get(k, {}).get("id", "unknown")[:8]\<close>.\<close>

definition short :: "(pyval \<Rightarrow> string) \<Rightarrow> pyval \<Rightarrow> string res" where
  "short str v =
     (case v of
        PStr s \<Rightarrow> Inr (take 8 s)
      | PBytes s \<Rightarrow> Inr (str (PBytes (take 8 s)))
      | PList xs \<Rightarrow> Inr (str (PList (take 8 xs)))
      | PTuple xs \<Rightarrow> Inr (str (PTuple (take 8 xs)))
      | _ \<Rightarrow> Inl (Exn ''TypeError'' ([quote] @ type_name v @ [quote] @ '' object is not subscriptable'')))"

definition part_id :: "(pyval \<Rightarrow> string) \<Rightarrow> dict \<Rightarrow> string \<Rightarrow> string res" where
  "part_id str data k = (case doc_or data k (PDict []) of
       PDict d \<Rightarrow> short str (doc_or d ''id'' (PStr ''unknown''))
     | v \<Rightarrow> bindR (get_attr v ''id'') (short str))"

text \<open>\<open>{v:.2f}\<close>.\<close>

definition fixed :: "(rat \<Rightarrow> string) \<Rightarrow> pyval \<Rightarrow> string res" where
  "fixed show_num v =
     (case number_of v of
        Some r \<Rightarrow> Inr (show_num r)
      | None \<Rightarrow> (case v of PStr s \<Rightarrow> Inl (value_error ''Unknown format code for object of type str'')
                | _ \<Rightarrow> Inl (Exn ''TypeError'' ''unsupported format string passed to __format__'')))"

definition relation_text :: "log_env \<Rightarrow> dict \<Rightarrow> string res" where
  "relation_text L data =
     bindR (part_name data ''subject'') (\<lambda>a. bindR (part_name data ''object'') (\<lambda>b.
       Inr (le_str L a @ '' -> '' @ le_str L (doc_or data ''predicate'' (PStr ''unknown'')) @ '' -> '' @ le_str L b)))"

definition details :: "log_env \<Rightarrow> string \<Rightarrow> dict \<Rightarrow> string list res" where
  "details L operation data =
     (let str = le_str L; num = (\<lambda>k. fixed (le_fixed L) (doc_or data k (PFloat 0))); get = (\<lambda>k x. str (doc_or data k x));
          reason = str (doc_or data ''reason'' (PStr ''unknown''))
      in if operation = ''MERGE'' then
           bindR (part_name data ''entity_a'') (\<lambda>a. bindR (part_name data ''entity_b'') (\<lambda>b.
           bindR (part_id str data ''entity_a'') (\<lambda>i. bindR (part_id str data ''entity_b'') (\<lambda>j.
           bindR (num ''similarity'') (\<lambda>x. bindR (num ''confidence'') (\<lambda>y.
             Inr [str a @ '' ('' @ i @ '') -> '' @ str b @ '' ('' @ j @ '') | reason: '' @ reason @ '' | similarity: '' @ x
                  @ '' | confidence: '' @ y]))))))
         else if operation = ''CREATE'' then
           bindR (part_name data ''entity'') (\<lambda>a. bindR (part_id str data ''entity'') (\<lambda>i. bindR (num ''confidence'') (\<lambda>y.
             Inr [''entity '' @ [quote] @ str a @ [quote] @ '' ('' @ i @ '') | type: '' @ get ''entity_type'' (PStr ''unknown'')
                  @ '' | sources: '' @ get ''sources'' (PInt 0) @ '' chunks | confidence: '' @ y])))
         else if operation = ''SKIP'' then
           bindR (part_name data ''entity'') (\<lambda>a. bindR (num ''confidence'') (\<lambda>y.
             Inr [''entity '' @ [quote] @ str a @ [quote] @ '' | reason: '' @ reason @ '' | confidence: '' @ y]))
         else if operation = ''RELATIONSHIP'' then
           bindR (relation_text L data) (\<lambda>t. bindR (num ''confidence'') (\<lambda>y.
             Inr [t @ '' | type: '' @ get ''relationship_type'' (PStr ''unknown'') @ '' | confidence: '' @ y]))
         else if operation = ''FILTER'' then
           bindR (relation_text L data) (\<lambda>t. bindR (num ''confidence'') (\<lambda>y. bindR (num ''threshold'') (\<lambda>z.
             Inr [''relationship dropped | '' @ t @ '' | reason: '' @ reason @ '' | confidence: '' @ y @ '' | threshold: '' @ z])))
         else if operation = ''AUGMENT'' then
           bindR (part_name data ''subject'') (\<lambda>a. bindR (part_name data ''object'') (\<lambda>b.
           bindR (let c = dget data ''chunk_id'' in if truthy c then short str c else Inr ''N/A'') (\<lambda>c.
           bindR (num ''confidence'') (\<lambda>y.
             Inr [''added '' @ get ''method'' (PStr ''unknown'') @ '' link | entities: ('' @ str a @ '', '' @ str b @ '') | chunk: '' @ c
                  @ '' | confidence: '' @ y]))))
         else if operation = ''COMMUNITY'' then
           bindR (num ''modularity'') (\<lambda>x. bindR (num ''coherence'') (\<lambda>y.
             Inr [''formed '' @ get ''community_id'' (PStr ''unknown'') @ '' | entities: '' @ get ''entity_count'' (PInt 0)
                  @ '' | modularity: '' @ x @ '' | coherence: '' @ y]))
         else if operation = ''CLUSTER'' then
           bindR (part_name data ''entity'') (\<lambda>a. bindR (part_id str data ''entity'') (\<lambda>i.
             Inr [str a @ '' ('' @ i @ '') assigned to '' @ get ''community_id'' (PStr ''unknown'') @ '' | reason: '' @ reason
                  @ '' | neighbors: '' @ get ''neighbors'' (PInt 0)]))
         else Inr [])"

definition format_human_readable :: "log_env \<Rightarrow> string \<Rightarrow> dict \<Rightarrow> string \<Rightarrow> string res" where
  "format_human_readable L operation data trace =
     bindR (details L operation data) (\<lambda>ps. Inr (str_join '' '' ([operation @ '':''] @ ps @ [''| trace_id: '' @ trace])))"

text \<open>\<open>{..., **data}\<close>: the data may overwrite the base fields.\<close>

definition log_entry :: "log_env \<Rightarrow> string \<Rightarrow> string \<Rightarrow> dict \<Rightarrow> string \<Rightarrow> dict" where
  "log_entry L operation stage data trace =
     fold (\<lambda>(k, v). AList.update k v) data
       [(''trace_id'', PStr trace), (''stage'', PStr stage), (''operation'', PStr operation), (''timestamp'', fst (le_now L)),
        (''datetime'', snd (le_now L))]"

text \<open>The entry is in the buffer before its text is made; the result says only whether all went well.\<close>

definition log_transformation :: "log_env \<Rightarrow> string \<Rightarrow> string \<Rightarrow> dict \<Rightarrow> string \<Rightarrow> (log_state, string option) act" where
  "log_transformation L operation stage data trace = (\<lambda>s.
     if \<not> tl_enabled s then (Inr None, s)
     else tryA
       (seqA (modifyA (\<lambda>s. s\<lparr>tl_buffer := tl_buffer s @ [log_entry L operation stage data trace]\<rparr>))
       (seqA (liftR (format_human_readable L operation data trace))
       (seqA (\<lambda>s. if tl_batch_size s \<le> int (length (tl_buffer s)) then flush_buffer L s else (Inr 0, s))
             (ret (Some ''buffered'')))))
       (\<lambda>e. ret None) s)"

section \<open>The transformations\<close>

text \<open>\<open>if x: data[k] = x\<close>.\<close>

definition with_set :: "string \<Rightarrow> string option \<Rightarrow> dict \<Rightarrow> dict" where
  "with_set k v d = (case v of None \<Rightarrow> d | Some s \<Rightarrow> if s = [] then d else d @ [(k, PStr s)])"

definition log_entity_merge ::
  "log_env \<Rightarrow> dict \<Rightarrow> dict \<Rightarrow> dict \<Rightarrow> string \<Rightarrow> pyval \<Rightarrow> pyval \<Rightarrow> string option \<Rightarrow> string \<Rightarrow> (log_state, string option) act" where
  "log_entity_merge L a b r reason similarity confidence method_used trace =
     log_transformation L ''MERGE'' ''entity_resolution''
       (with_set ''method'' method_used
          [(''entity_a'', PDict a), (''entity_b'', PDict b), (''result_entity'', PDict r), (''reason'', PStr reason),
           (''similarity'', similarity), (''confidence'', confidence)]) trace"

definition log_entity_create :: "log_env \<Rightarrow> dict \<Rightarrow> string \<Rightarrow> int \<Rightarrow> pyval \<Rightarrow> string \<Rightarrow> (log_state, string option) act" where
  "log_entity_create L e kind sources confidence trace =
     log_transformation L ''CREATE'' ''entity_resolution''
       [(''entity'', PDict e), (''entity_type'', PStr kind), (''sources'', PInt sources), (''confidence'', confidence)] trace"

definition log_entity_skip :: "log_env \<Rightarrow> dict \<Rightarrow> string \<Rightarrow> pyval \<Rightarrow> string \<Rightarrow> (log_state, string option) act" where
  "log_entity_skip L e reason confidence trace =
     log_transformation L ''SKIP'' ''entity_resolution'' [(''entity'', PDict e), (''reason'', PStr reason), (''confidence'', confidence)] trace"

definition relationship_parts :: "dict \<Rightarrow> dict" where
  "relationship_parts r =
     [(''subject'', doc_or r ''subject'' (PDict [])), (''predicate'', doc_or r ''predicate'' (PStr [])), (''object'', doc_or r ''object'' (PDict []))]"

definition log_relationship_create :: "log_env \<Rightarrow> dict \<Rightarrow> string \<Rightarrow> pyval \<Rightarrow> string \<Rightarrow> (log_state, string option) act" where
  "log_relationship_create L r kind confidence trace =
     log_transformation L ''RELATIONSHIP'' ''graph_construction''
       (relationship_parts r @ [(''relationship_type'', PStr kind), (''confidence'', confidence)]) trace"

definition log_relationship_filter :: "log_env \<Rightarrow> dict \<Rightarrow> string \<Rightarrow> pyval \<Rightarrow> pyval \<Rightarrow> string \<Rightarrow> (log_state, string option) act" where
  "log_relationship_filter L r reason confidence threshold trace =
     log_transformation L ''FILTER'' ''graph_construction''
       (relationship_parts r @ [(''reason'', PStr reason), (''confidence'', confidence), (''threshold'', threshold)]) trace"

definition log_relationship_augment :: "log_env \<Rightarrow> dict \<Rightarrow> string \<Rightarrow> pyval \<Rightarrow> string option \<Rightarrow> string \<Rightarrow> (log_state, string option) act" where
  "log_relationship_augment L r method_used confidence chunk trace =
     log_transformation L ''AUGMENT'' ''graph_construction''
       (with_set ''chunk_id'' chunk (relationship_parts r @ [(''method'', PStr method_used), (''confidence'', confidence)])) trace"

definition log_community_form ::
  "log_env \<Rightarrow> string \<Rightarrow> dict list \<Rightarrow> pyval \<Rightarrow> pyval \<Rightarrow> string option \<Rightarrow> pyval \<Rightarrow> string \<Rightarrow> (log_state, string option) act" where
  "log_community_form L i es modularity coherence algorithm resolution trace =
     log_transformation L ''COMMUNITY'' ''community_detection''
       (with_set ''algorithm'' algorithm
          [(''community_id'', PStr i), (''entity_count'', PInt (int (length es))),
           (''entity_ids'', PList (map (\<lambda>e. doc_or e ''id'' (PStr [])) es)), (''modularity'', modularity), (''coherence'', coherence)]
        @ (if resolution = PNone then [] else [(''resolution_parameter'', resolution)])) trace"

definition log_entity_cluster :: "log_env \<Rightarrow> dict \<Rightarrow> string \<Rightarrow> string \<Rightarrow> int \<Rightarrow> string \<Rightarrow> (log_state, string option) act" where
  "log_entity_cluster L e i reason neighbors trace =
     log_transformation L ''CLUSTER'' ''community_detection''
       [(''entity'', PDict e), (''community_id'', PStr i), (''reason'', PStr reason), (''neighbors'', PInt neighbors)] trace"

section \<open>Queries\<close>

text \<open>The entries in the order of their times; \<open>ordered\<close> is the sort of the cursor.\<close>

definition has_value :: "string \<Rightarrow> string \<Rightarrow> dict \<Rightarrow> bool" where
  "has_value k s e = (dget e k = PStr s)"

definition part_has_id :: "string \<Rightarrow> string \<Rightarrow> dict \<Rightarrow> bool" where
  "part_has_id i k e = (case dget e k of PDict d \<Rightarrow> dget d ''id'' = PStr i | _ \<Rightarrow> False)"

definition by_trace_id ::
  "(dict list \<Rightarrow> dict list) \<Rightarrow> log_state \<Rightarrow> string \<Rightarrow> string option \<Rightarrow> string option \<Rightarrow> dict list" where
  "by_trace_id ordered s trace stage operation =
     (if \<not> tl_enabled s then []
      else ordered (filter (\<lambda>e. has_value ''trace_id'' trace e
             \<and> (case stage of None \<Rightarrow> True | Some x \<Rightarrow> x = [] \<or> has_value ''stage'' x e)
             \<and> (case operation of None \<Rightarrow> True | Some x \<Rightarrow> x = [] \<or> has_value ''operation'' x e)) (tl_stored s)))"

definition by_entity_id :: "(dict list \<Rightarrow> dict list) \<Rightarrow> log_state \<Rightarrow> string \<Rightarrow> string option \<Rightarrow> dict list" where
  "by_entity_id ordered s i trace =
     (if \<not> tl_enabled s then []
      else ordered (filter (\<lambda>e. list_ex (\<lambda>k. part_has_id i k e)
               [''entity_a'', ''entity_b'', ''entity'', ''result_entity'', ''subject'', ''object'']
             \<and> (case trace of None \<Rightarrow> True | Some t \<Rightarrow> t = [] \<or> has_value ''trace_id'' t e)) (tl_stored s)))"

definition by_stage :: "(dict list \<Rightarrow> dict list) \<Rightarrow> log_state \<Rightarrow> string \<Rightarrow> string option \<Rightarrow> dict list" where
  "by_stage ordered s stage trace =
     (if \<not> tl_enabled s then []
      else ordered (filter (\<lambda>e. has_value ''stage'' stage e
             \<and> (case trace of None \<Rightarrow> True | Some t \<Rightarrow> t = [] \<or> has_value ''trace_id'' t e)) (tl_stored s)))"

text \<open>
  The batched log refines a log that appends every entry at once: what is stored followed by what is
  buffered is the log. The refinement breaks when a write fails in part.
\<close>

section \<open>The log as a list\<close>

definition whole_log :: "log_state \<Rightarrow> dict list" where
  "whole_log s = tl_stored s @ tl_buffer s"

text \<open>Writes either work or write nothing.\<close>

definition atomic_writes :: "log_env \<Rightarrow> bool" where
  "atomic_writes L = (\<forall>n ds. le_insert L n ds = None \<or> le_insert L n ds = Some [])"

lemma flush_keeps_log:
  assumes "atomic_writes L"
  shows "whole_log (snd (flush_buffer L s)) = whole_log s \<and> tl_enabled (snd (flush_buffer L s)) = tl_enabled s
    \<and> tl_batch_size (snd (flush_buffer L s)) = tl_batch_size s"
proof -
  have "le_insert L (tl_attempts s) (tl_buffer s) = None \<or> le_insert L (tl_attempts s) (tl_buffer s) = Some []"
    using assms by (simp add: atomic_writes_def)
  then show ?thesis by (auto simp: flush_buffer_def whole_log_def written_def Let_def)
qed

lemma flush_error: "fst (flush_buffer L s) = Inl e \<Longrightarrow> is_Exception e"
  by (auto simp: flush_buffer_def is_Exception_def Let_def split: if_splits option.splits)

lemma short_error: "short str v = Inl e \<Longrightarrow> is_Exception e"
  by (cases v) (auto simp: short_def is_Exception_def)

lemma get_attr_error: "get_attr v k = Inl e \<Longrightarrow> is_Exception e"
  by (cases v) (auto simp: is_Exception_def)

lemma bindR_error: "bindR r f = Inl e \<Longrightarrow> (\<And>e. r = Inl e \<Longrightarrow> P e) \<Longrightarrow> (\<And>x e. f x = Inl e \<Longrightarrow> P e) \<Longrightarrow> P e"
  by (cases r) auto

lemma part_errors:
  "part_name data k = Inl e \<Longrightarrow> is_Exception e" "part_id str data k = Inl e \<Longrightarrow> is_Exception e"
  "fixed show_num v = Inl e \<Longrightarrow> is_Exception e" "relation_text L data = Inl e \<Longrightarrow> is_Exception e"
proof -
  show name: "part_name data k = Inl e \<Longrightarrow> is_Exception e" for k e
    using get_attr_error by (auto simp: part_name_def simp del: get_attr.simps split: pyval.splits)
  show "part_id str data k = Inl e \<Longrightarrow> is_Exception e"
    by (auto simp: part_id_def simp del: get_attr.simps split: pyval.splits
        elim!: bindR_error [where P = is_Exception] dest: short_error get_attr_error)
  show "fixed show_num v = Inl e \<Longrightarrow> is_Exception e"
    by (auto simp: fixed_def is_Exception_def value_error_def split: option.splits pyval.splits)
  show "relation_text L data = Inl e \<Longrightarrow> is_Exception e"
    unfolding relation_text_def by (elim bindR_error [where P = is_Exception]) (auto dest: name)
qed

lemma format_error: "format_human_readable L operation data trace = Inl e \<Longrightarrow> is_Exception e"
proof -
  have "details L operation data = Inl e \<Longrightarrow> is_Exception e" for e
    unfolding details_def Let_def
    by (auto split: if_splits elim!: bindR_error [where P = is_Exception] dest: part_errors short_error)
  then show "format_human_readable L operation data trace = Inl e \<Longrightarrow> is_Exception e"
    unfolding format_human_readable_def by (elim bindR_error [where P = is_Exception]) auto
qed

section \<open>Refinement\<close>

record log_call =
  lc_operation :: string
  lc_stage :: string
  lc_data :: dict
  lc_trace :: string

definition entry_of :: "log_env \<Rightarrow> log_call \<Rightarrow> dict" where
  "entry_of L c = log_entry L (lc_operation c) (lc_stage c) (lc_data c) (lc_trace c)"

definition log_one :: "log_env \<Rightarrow> log_call \<Rightarrow> (log_state, string option) act" where
  "log_one L c = log_transformation L (lc_operation c) (lc_stage c) (lc_data c) (lc_trace c)"

definition buffered :: "log_env \<Rightarrow> log_call \<Rightarrow> log_state \<Rightarrow> log_state" where
  "buffered L c s = s\<lparr>tl_buffer := tl_buffer s @ [entry_of L c]\<rparr>"

lemma buffered_simps [simp]:
  "tl_enabled (buffered L c s) = tl_enabled s" "tl_batch_size (buffered L c s) = tl_batch_size s"
  "tl_stored (buffered L c s) = tl_stored s" "tl_buffer (buffered L c s) = tl_buffer s @ [entry_of L c]"
  by (simp_all add: buffered_def)

text \<open>What one call does to the state: the entry is buffered, then the buffer may be flushed.\<close>

lemma log_step:
  assumes "tl_enabled s"
  shows "\<exists>r. log_one L c s = (Inr r, buffered L c s) \<and> (r \<noteq> None \<longrightarrow> int (length (tl_buffer (buffered L c s))) < tl_batch_size s)
      \<or> log_one L c s = (Inr r, snd (flush_buffer L (buffered L c s))) \<and> (r \<noteq> None \<longrightarrow> (\<exists>n. fst (flush_buffer L (buffered L c s)) = Inr n))
        \<and> tl_batch_size s \<le> int (length (tl_buffer (buffered L c s)))"
proof (cases "format_human_readable L (lc_operation c) (lc_data c) (lc_trace c)")
  case (Inl e)
  with assms format_error [OF Inl] show ?thesis
    by (intro exI [of _ None]) (simp add: log_one_def buffered_def entry_of_def log_transformation_def tryA_def seqA_def modifyA_def liftR_def ret_def)
next
  case (Inr x)
  obtain r s2 where f: "flush_buffer L (buffered L c s) = (r, s2)" by force
  show ?thesis
  proof (cases r)
    case (Inl e)
    with f flush_error [of L "buffered L c s" e] have "is_Exception e" by simp
    with \<open>format_human_readable _ _ _ _ = _\<close> f Inl assms show ?thesis
      by (auto simp: log_one_def buffered_def entry_of_def log_transformation_def tryA_def seqA_def modifyA_def liftR_def ret_def)
  next
    case (Inr y)
    with \<open>format_human_readable _ _ _ _ = _\<close> f assms show ?thesis
      by (auto simp: log_one_def buffered_def entry_of_def log_transformation_def tryA_def seqA_def modifyA_def liftR_def ret_def)
  qed
qed

text \<open>A call that reports success leaves fewer entries than a batch in the buffer.\<close>

lemma success_bounds_buffer:
  assumes "tl_enabled s" and "0 < tl_batch_size s" and "log_one L c s = (Inr (Some x), s')"
  shows "int (length (tl_buffer s')) < tl_batch_size s"
  using log_step [OF assms(1), of L c] assms by (auto simp: flush_buffer_def Let_def split: if_splits option.splits)

lemma log_one_appends:
  assumes "atomic_writes L" and "tl_enabled s"
  shows "whole_log (snd (log_one L c s)) = whole_log s @ [entry_of L c] \<and> tl_enabled (snd (log_one L c s))
    \<and> (\<exists>r. fst (log_one L c s) = Inr r)"
  using log_step [OF assms(2), of L c] flush_keeps_log [OF assms(1), of "buffered L c s"] assms(2)
  by (auto simp: whole_log_def)

definition log_all :: "log_env \<Rightarrow> log_call list \<Rightarrow> log_state \<Rightarrow> log_state" where
  "log_all L cs s = fold (\<lambda>c s. snd (log_one L c s)) cs s"

lemma log_all_appends:
  "atomic_writes L \<Longrightarrow> tl_enabled s \<Longrightarrow> whole_log (log_all L cs s) = whole_log s @ map (entry_of L) cs \<and> tl_enabled (log_all L cs s)"
proof (induction cs arbitrary: s)
  case (Cons c cs)
  with log_one_appends [OF Cons.prems, of c] Cons.IH [of "snd (log_one L c s)"] show ?case by (simp add: log_all_def)
qed (simp add: log_all_def)

text \<open>C37: 
  The batched log refines one that appends: whatever is logged, and whatever writes fail as a
  whole, what is stored followed by what is buffered is what was there followed by the entries in
  their order; a flush that works then stores all of it.
\<close>

theorem batched_log_refines_append:
  assumes "atomic_writes L" and "tl_enabled s"
  shows "whole_log (log_all L cs s) = whole_log s @ map (entry_of L) cs
    \<and> (le_insert L (tl_attempts (log_all L cs s)) (tl_buffer (log_all L cs s)) = None \<longrightarrow>
         tl_stored (snd (flush_buffer L (log_all L cs s))) = whole_log s @ map (entry_of L) cs)"
  using log_all_appends [OF assms, of cs] by (auto simp: flush_buffer_def whole_log_def Let_def)

section \<open>Concrete logs\<close>

text \<open>A database that refuses the first write.\<close>

definition demo_log_env :: log_env where
  "demo_log_env = \<lparr> le_now = (PInt 1, PStr ''t''), le_insert = (\<lambda>n ds. if n = 0 then Some [] else None), le_str = (\<lambda>v. ''?''), le_fixed = (\<lambda>r. ''0.00'') \<rparr>"

definition demo_call :: "string \<Rightarrow> log_call" where
  "demo_call name =
     \<lparr> lc_operation = ''SKIP'', lc_stage = ''entity_resolution'',
       lc_data = [(''entity'', PDict [(''name'', PStr name)]), (''reason'', PStr ''stopword''), (''confidence'', PFloat (1/2))], lc_trace = ''T'' \<rparr>"

lemma batched_log_refines_append_witness:
  "whole_log (log_all demo_log_env [demo_call ''a'', demo_call ''b''] (new_logger True 1 []))
      = [entry_of demo_log_env (demo_call ''a''), entry_of demo_log_env (demo_call ''b'')]
    \<and> length (tl_stored (log_all demo_log_env [demo_call ''a'', demo_call ''b''] (new_logger True 1 []))) = 2"
proof -
  have a: "atomic_writes demo_log_env" by (simp add: atomic_writes_def demo_log_env_def)
  have e: "tl_enabled (new_logger True 1 [])" by (simp add: new_logger_def)
  have n: "length (tl_stored (log_all demo_log_env [demo_call ''a'', demo_call ''b''] (new_logger True 1 []))) = 2" by code_simp
  have w: "whole_log (new_logger True 1 []) = []" by (simp add: whole_log_def new_logger_def)
  from batched_log_refines_append [OF a e, of "[demo_call ''a'', demo_call ''b'']"] n w show ?thesis by simp
qed

text \<open>Nothing is written below the size of a batch.\<close>

lemma below_batch_unwritten:
  "tl_enabled s \<Longrightarrow> int (length (tl_buffer s) + length cs) < tl_batch_size s \<Longrightarrow> tl_stored (log_all L cs s) = tl_stored s"
proof (induction cs arbitrary: s)
  case (Cons c cs)
  have "snd (log_one L c s) = buffered L c s"
    using log_step [OF Cons.prems(1), of L c] Cons.prems(2) by auto
  with Cons.IH [of "buffered L c s"] Cons.prems show ?case by (simp add: log_all_def)
qed (simp add: log_all_def)

text \<open>A write that fails in part keeps what it has written in the buffer: it is sent again, with the identifiers it got.\<close>

lemma partial_write_kept:
  "(let L = demo_log_env\<lparr>le_insert := (\<lambda>n ds. Some [False, True])\<rparr>;
        s = log_all L [demo_call ''a'', demo_call ''b''] (new_logger True 2 [])
    in tl_stored s = [entry_of L (demo_call ''b'')] \<and> tl_buffer s = [entry_of L (demo_call ''a''), entry_of L (demo_call ''b'')])"
  by code_simp

text \<open>An entry whose text cannot be made is reported as not logged, but it is in the log.\<close>

lemma unreported_entry_logged:
  "(case log_entity_skip demo_log_env [(''name'', PStr ''x'')] ''stopword'' PNone ''T'' (new_logger True 2 []) of
      (r, s) \<Rightarrow> r = Inr None \<and> length (tl_buffer s) = 1)"
  by code_simp

end
