(* ===== verification/Intermediate_Data.thy ===== *)
theory Intermediate_Data
  imports Stage_Config
begin

text \<open>
  \<open>domain/graphrag/services/intermediate_data.py\<close>: the entities, relationships and graphs saved at
  the boundaries of the stages.

  Documents are dictionaries, the five collections the fields of a record. What a write does is an
  argument: all is written, or some of it and then it raises. The creation of the collections and of
  their indexes is left out.
\<close>

record boundary_data =
  bo_enabled :: bool
  bo_entities_raw :: "dict list"
  bo_entities_resolved :: "dict list"
  bo_relations_raw :: "dict list"
  bo_relations_final :: "dict list"
  bo_graphs :: "dict list"

text \<open>The fields every document starts with.\<close>

record save_context =
  sx_chunk :: string
  sx_video :: string
  sx_trace :: string
  sx_method :: string
  sx_now :: "pyval \<times> pyval"

definition base_fields :: "save_context \<Rightarrow> string \<Rightarrow> string \<Rightarrow> dict" where
  "base_fields X stage method_key =
     [(''trace_id'', PStr (sx_trace X)), (''chunk_id'', PStr (sx_chunk X)), (''video_id'', PStr (sx_video X)),
      (''timestamp'', fst (sx_now X)), (''datetime'', snd (sx_now X)), (''stage'', PStr stage), (method_key, PStr (sx_method X))]"

definition raw_entity :: "save_context \<Rightarrow> dict \<Rightarrow> dict" where
  "raw_entity X e = base_fields X ''extraction'' ''extraction_method''
     @ [(''entity_name'', doc_or e ''name'' (PStr [])), (''entity_type'', doc_or e ''type'' (PStr ''OTHER'')),
        (''description'', doc_or e ''description'' (PStr [])), (''confidence'', doc_or e ''confidence'' (PFloat 0))]"

definition resolved_document :: "save_context \<Rightarrow> dict \<Rightarrow> dict" where
  "resolved_document X e = base_fields X ''resolution'' ''resolution_method''
     @ [(''entity_id'', doc_or e ''entity_id'' (PStr [])), (''canonical_name'', doc_or e ''canonical_name'' (PStr [])),
        (''entity_type'', doc_or e ''type'' (PStr ''OTHER'')), (''aliases'', doc_or e ''aliases'' (PList [])),
        (''confidence'', doc_or e ''confidence'' (PFloat 0)), (''source_count'', doc_or e ''source_count'' (PInt 1))]"

definition raw_relation :: "save_context \<Rightarrow> dict \<Rightarrow> dict" where
  "raw_relation X r = base_fields X ''extraction'' ''extraction_method''
     @ [(''source_entity'', doc_or r ''source_entity'' (PDict [])), (''target_entity'', doc_or r ''target_entity'' (PDict [])),
        (''relation'', doc_or r ''relation'' (PStr [])), (''description'', doc_or r ''description'' (PStr [])),
        (''confidence'', doc_or r ''confidence'' (PFloat 0))]"

definition final_relation :: "save_context \<Rightarrow> dict \<Rightarrow> dict" where
  "final_relation X r = base_fields X ''post_processing'' ''processing_method''
     @ [(''source_entity_id'', doc_or r ''source_entity_id'' (PStr [])), (''target_entity_id'', doc_or r ''target_entity_id'' (PStr [])),
        (''relation_type'', doc_or r ''relation_type'' (PStr [])), (''weight'', doc_or r ''weight'' (PFloat 1)),
        (''confidence'', doc_or r ''confidence'' (PFloat 0)), (''co_occurrences'', doc_or r ''co_occurrences'' (PInt 1))]"

definition graph_document :: "save_context \<Rightarrow> dict \<Rightarrow> dict" where
  "graph_document X g =
     [(''trace_id'', PStr (sx_trace X)), (''video_id'', PStr (sx_video X)), (''timestamp'', fst (sx_now X)), (''datetime'', snd (sx_now X)),
      (''stage'', PStr ''pre_detection''), (''node_count'', doc_or g ''node_count'' (PInt 0)), (''edge_count'', doc_or g ''edge_count'' (PInt 0)),
      (''density'', doc_or g ''density'' (PFloat 0)), (''avg_degree'', doc_or g ''avg_degree'' (PFloat 0)),
      (''connected_components'', doc_or g ''connected_components'' (PInt 0)), (''nodes'', doc_or g ''nodes'' (PList [])),
      (''edges'', doc_or g ''edges'' (PList []))]"

text \<open>
  \<open>insert_many\<close> and the count that is returned: a write that raises after \<open>k\<close> documents is
  reported as 0.
\<close>

definition save_documents ::
  "nat option \<Rightarrow> (boundary_data \<Rightarrow> dict list) \<Rightarrow> (dict list \<Rightarrow> boundary_data \<Rightarrow> boundary_data) \<Rightarrow> (dict \<Rightarrow> dict)
    \<Rightarrow> dict list \<Rightarrow> boundary_data \<Rightarrow> nat \<times> boundary_data" where
  "save_documents fault get put build xs s =
     (if \<not> bo_enabled s \<or> xs = [] then (0, s)
      else (case fault of
              None \<Rightarrow> (length xs, put (get s @ map build xs) s)
            | Some k \<Rightarrow> (0, put (get s @ take k (map build xs)) s)))"

definition save_entities_raw :: "nat option \<Rightarrow> save_context \<Rightarrow> dict list \<Rightarrow> boundary_data \<Rightarrow> nat \<times> boundary_data" where
  "save_entities_raw fault X = save_documents fault bo_entities_raw (\<lambda>ds s. s\<lparr>bo_entities_raw := ds\<rparr>) (raw_entity X)"

definition save_entities_resolved :: "nat option \<Rightarrow> save_context \<Rightarrow> dict list \<Rightarrow> boundary_data \<Rightarrow> nat \<times> boundary_data" where
  "save_entities_resolved fault X = save_documents fault bo_entities_resolved (\<lambda>ds s. s\<lparr>bo_entities_resolved := ds\<rparr>) (resolved_document X)"

definition save_relations_raw :: "nat option \<Rightarrow> save_context \<Rightarrow> dict list \<Rightarrow> boundary_data \<Rightarrow> nat \<times> boundary_data" where
  "save_relations_raw fault X = save_documents fault bo_relations_raw (\<lambda>ds s. s\<lparr>bo_relations_raw := ds\<rparr>) (raw_relation X)"

definition save_relations_final :: "nat option \<Rightarrow> save_context \<Rightarrow> dict list \<Rightarrow> boundary_data \<Rightarrow> nat \<times> boundary_data" where
  "save_relations_final fault X = save_documents fault bo_relations_final (\<lambda>ds s. s\<lparr>bo_relations_final := ds\<rparr>) (final_relation X)"

definition save_graph_pre_detection :: "bool \<Rightarrow> save_context \<Rightarrow> dict \<Rightarrow> boundary_data \<Rightarrow> bool \<times> boundary_data" where
  "save_graph_pre_detection fails X g s =
     (if \<not> bo_enabled s \<or> fails then (False, s) else (True, s\<lparr>bo_graphs := bo_graphs s @ [graph_document X g]\<rparr>))"

section \<open>Reading\<close>

definition of_trace :: "string \<Rightarrow> dict list \<Rightarrow> dict list" where
  "of_trace t ds = filter (\<lambda>d. dget d ''trace_id'' = PStr t) ds"

definition get_entities_raw :: "string \<Rightarrow> boundary_data \<Rightarrow> dict list" where
  "get_entities_raw t s = (if bo_enabled s then of_trace t (bo_entities_raw s) else [])"

definition get_entities_resolved :: "string \<Rightarrow> boundary_data \<Rightarrow> dict list" where
  "get_entities_resolved t s = (if bo_enabled s then of_trace t (bo_entities_resolved s) else [])"

definition get_relations_raw :: "string \<Rightarrow> boundary_data \<Rightarrow> dict list" where
  "get_relations_raw t s = (if bo_enabled s then of_trace t (bo_relations_raw s) else [])"

definition get_relations_final :: "string \<Rightarrow> boundary_data \<Rightarrow> dict list" where
  "get_relations_final t s = (if bo_enabled s then of_trace t (bo_relations_final s) else [])"

definition get_graph_pre_detection :: "string \<Rightarrow> boundary_data \<Rightarrow> dict option" where
  "get_graph_pre_detection t s = (if bo_enabled s then find (\<lambda>d. dget d ''trace_id'' = PStr t) (bo_graphs s) else None)"

record comparison =
  cm_before :: "dict list"
  cm_after :: "dict list"
  cm_rate :: rat

text \<open>How much smaller the resolved list is, and how much longer the final one.\<close>

definition compare_entities :: "string \<Rightarrow> boundary_data \<Rightarrow> comparison" where
  "compare_entities t s =
     (let raw = get_entities_raw t s; out = get_entities_resolved t s
      in \<lparr> cm_before = raw, cm_after = out, cm_rate = (if raw = [] then 0 else 1 - of_nat (length out) / of_nat (length raw)) \<rparr>)"

definition compare_relations :: "string \<Rightarrow> boundary_data \<Rightarrow> comparison" where
  "compare_relations t s =
     (let raw = get_relations_raw t s; out = get_relations_final t s
      in \<lparr> cm_before = raw, cm_after = out, cm_rate = (if raw = [] then 0 else of_nat (length out) / of_nat (length raw) - 1) \<rparr>)"

end
