(* ===== verification/Quality_Metrics.thy ===== *)
theory Quality_Metrics
  imports Intermediate_Data Transformation_Log
begin

text \<open>
  \<open>domain/graphrag/services/quality_metrics.py\<close>: the metrics of the four stages of a run, computed from
  what the services for the intermediate data and for the log have stored, their storage, and the check
  of the healthy ranges.

  Metrics are dictionaries; a quotient is a \<open>float\<close>. An exception in a calculation gives no metrics.
  Identifiers of entities and videos are hashable, failures of the database during the storage are arguments; the \<open>m\<close>-th percentile of \<open>n\<close> sizes takes the
  exact product. The creation of indexes is left out.
\<close>

section \<open>Counting\<close>

text \<open>\<open>counts[key] = counts.get(key, 0) + 1\<close>; a key must be hashable.\<close>

definition unhashable :: "pyval \<Rightarrow> exn" where
  "unhashable v = Exn ''TypeError'' (''unhashable type: '' @ [quote] @ type_name v @ [quote])"

fun count_values :: "pyval list \<Rightarrow> (pyval \<times> nat) list \<Rightarrow> (pyval \<times> nat) list res" where
  "count_values [] d = Inr d"
| "count_values (v # vs) d = (if hashable v then count_values vs (dd_add v 1 d) else Inl (unhashable v))"

definition mean_value :: "rat list \<Rightarrow> rat" where
  "mean_value xs = (if xs = [] then 0 else sum_list xs / of_nat (length xs))"

definition mean_count :: "(pyval \<times> nat) list \<Rightarrow> rat" where
  "mean_count d = mean_value (map (\<lambda>(k, n). of_nat n) d)"

definition share :: "nat \<Rightarrow> nat \<Rightarrow> rat" where
  "share a b = (if b = 0 then 0 else of_nat a / of_nat b)"

text \<open>The number of different values of a field that are set.\<close>

definition different :: "string \<Rightarrow> dict list \<Rightarrow> nat res" where
  "different k ds =
     bindR (count_values (filter truthy (map (\<lambda>d. doc_or d k (PStr [])) ds)) []) (\<lambda>c. Inr (length c))"

text \<open>The mean of a number that not every document has; \<open>sum\<close> raises for what is no number.\<close>

fun numbers :: "pyval list \<Rightarrow> rat list res" where
  "numbers [] = Inr []"
| "numbers (v # vs) =
     (case number_of v of
        None \<Rightarrow> Inl (Exn ''TypeError'' (''unsupported operand type(s) for +: '' @ type_name v))
      | Some r \<Rightarrow> bindR (numbers vs) (\<lambda>rs. Inr (r # rs)))"

definition mean_of :: "string \<Rightarrow> dict list \<Rightarrow> rat res" where
  "mean_of k ds = bindR (numbers (concat (map (\<lambda>d. case map_of d k of None \<Rightarrow> [] | Some v \<Rightarrow> [v]) ds))) (\<lambda>rs. Inr (mean_value rs))"

definition rounded_value :: "nat \<Rightarrow> rat \<Rightarrow> pyval" where
  "rounded_value n r = PFloat (rounded n r)"

section \<open>Extraction\<close>

text \<open>\<open>s.islower()\<close> on ASCII text.\<close>

definition is_lower_text :: "string \<Rightarrow> bool" where
  "is_lower_text s =
     (list_ex (\<lambda>c. 97 \<le> (of_char c :: nat) \<and> (of_char c :: nat) \<le> 122) s
      \<and> list_all (\<lambda>c. \<not> (65 \<le> (of_char c :: nat) \<and> (of_char c :: nat) \<le> 90)) s)"

fun canonical_count :: "pyval list \<Rightarrow> nat res" where
  "canonical_count [] = Inr 0"
| "canonical_count (PStr s # vs) =
     bindR (canonical_count vs) (\<lambda>n. Inr ((if is_lower_text s \<and> CHR ''_'' \<in> set s then 1 else 0) + n))"
| "canonical_count (v # vs) =
     Inl (Exn ''AttributeError'' ([quote] @ type_name v @ [quote] @ '' object has no attribute '' @ [quote] @ ''islower'' @ [quote]))"

definition extraction_metrics :: "dict list \<Rightarrow> dict list \<Rightarrow> dict res" where
  "extraction_metrics es rs =
     bindR (count_values (map (\<lambda>d. doc_or d ''chunk_id'' (PStr ''unknown'')) es) []) (\<lambda>ce.
     bindR (count_values (map (\<lambda>d. doc_or d ''chunk_id'' (PStr ''unknown'')) rs) []) (\<lambda>cr.
     bindR (different ''predicate'' rs) (\<lambda>predicates.
     bindR (different ''type'' es) (\<lambda>types.
     bindR (mean_of ''confidence'' es) (\<lambda>confidence.
     bindR (canonical_count (map (\<lambda>d. doc_or d ''predicate'' (PStr [])) rs)) (\<lambda>canonical.
       Inr [(''entity_count_avg'', rounded_value 2 (mean_count ce)), (''relationship_count_avg'', rounded_value 2 (mean_count cr)),
            (''predicate_diversity'', rounded_value 3 (share predicates (length rs))),
            (''type_coverage'', rounded_value 3 (min (of_nat types / 5) 1)), (''confidence_avg'', rounded_value 3 confidence),
            (''canonical_predicate_coverage'', rounded_value 3 (share canonical (length rs))),
            (''total_entities'', PInt (int (length es))), (''total_relationships'', PInt (int (length rs))),
            (''unique_chunks'', PInt (int (length ce)))]))))))"

section \<open>Resolution\<close>

text \<open>The videos of every entity that has an identifier and a video.\<close>

definition entity_videos :: "dict list \<Rightarrow> (pyval \<times> pyval list) list" where
  "entity_videos es =
     fold (\<lambda>e d. let i = doc_or e ''entity_id'' (PStr []); v = doc_or e ''video_id'' (PStr [])
                 in if truthy i \<and> truthy v then AList.update i (List.insert v (case map_of d i of None \<Rightarrow> [] | Some vs \<Rightarrow> vs)) d else d) es []"

definition cross_video_rate :: "dict list \<Rightarrow> rat" where
  "cross_video_rate es =
     (let d = entity_videos es in share (length (filter (\<lambda>(i, vs). 1 < length vs) d)) (length d))"

text \<open>\<open>d.get(k, "").lower()\<close>.\<close>

definition lower_field :: "dict \<Rightarrow> string \<Rightarrow> string res" where
  "lower_field d k =
     (case doc_or d k (PStr []) of
        PStr s \<Rightarrow> Inr (str_lower s)
      | v \<Rightarrow> Inl (Exn ''AttributeError'' ([quote] @ type_name v @ [quote] @ '' object has no attribute '' @ [quote] @ ''lower'' @ [quote])))"

definition part_lower :: "dict \<Rightarrow> string \<Rightarrow> string res" where
  "part_lower l k = (case doc_or l k (PDict []) of
     PDict d \<Rightarrow> lower_field d ''name'' | v \<Rightarrow> bindR (get_attr v ''name'') (\<lambda>x. Inr []))"

text \<open>Merges whose names share no word.\<close>

fun count_strange_merges :: "dict list \<Rightarrow> nat res" where
  "count_strange_merges [] = Inr 0"
| "count_strange_merges (l # ls) =
     bindR (part_lower l ''before'') (\<lambda>a. bindR (part_lower l ''after'') (\<lambda>b.
     bindR (count_strange_merges ls) (\<lambda>n.
       Inr ((if set (str_words a) \<inter> set (str_words b) = {} \<and> a \<noteq> [] \<and> b \<noteq> [] then 1 else 0) + n))))"

definition confident_merges :: "string \<Rightarrow> dict list \<Rightarrow> dict list" where
  "confident_merges t ls =
     filter (\<lambda>l. dget l ''trace_id'' = PStr t \<and> dget l ''operation'' = PStr ''entity_merge''
       \<and> (case dget l ''confidence'' of PInt i \<Rightarrow> 9/10 < (of_int i :: rat) | PFloat r \<Rightarrow> 9/10 < r | _ \<Rightarrow> False)) ls"

text \<open>Pairs of one type, the name of one in that of the other; the search ends at ten.\<close>

fun missed_with :: "dict \<Rightarrow> dict list \<Rightarrow> nat \<Rightarrow> nat res" where
  "missed_with e [] n = Inr n"
| "missed_with e (x # xs) n =
     (if dget e ''type'' = dget x ''type''
      then bindR (lower_field e ''name'') (\<lambda>a. bindR (lower_field x ''name'') (\<lambda>b.
           if a \<noteq> [] \<and> b \<noteq> [] \<and> (str_contains a b \<or> str_contains b a)
           then (if 10 \<le> Suc n then Inr (Suc n) else missed_with e xs (Suc n))
           else missed_with e xs n))
      else missed_with e xs n)"

fun missed_merges :: "dict list \<Rightarrow> nat \<Rightarrow> nat res" where
  "missed_merges [] n = Inr n"
| "missed_merges (e # es) n = bindR (missed_with e es n) (\<lambda>m. if 10 \<le> m then Inr m else missed_merges es m)"

definition resolution_metrics :: "dict list \<Rightarrow> dict list \<Rightarrow> dict list \<Rightarrow> dict res" where
  "resolution_metrics raw out merges =
     bindR (mean_of ''confidence'' raw) (\<lambda>before.
     bindR (mean_of ''confidence'' out) (\<lambda>after.
     bindR (count_strange_merges merges) (\<lambda>strange.
     bindR (missed_merges out 0) (\<lambda>missed.
       Inr [(''merge_rate'', rounded_value 3 ((of_nat (length raw) - of_nat (length out)) / of_nat (length raw))),
            (''duplicate_reduction'', PInt (int (length raw) - int (length out))),
            (''confidence_preservation'', rounded_value 3 (if 0 < before then after / before else 1)),
            (''cross_video_linking_rate'', rounded_value 3 (cross_video_rate out)),
            (''false_positive_estimate'', rounded_value 3 (share strange (length merges))),
            (''false_negative_estimate'', rounded_value 3 (min (share missed (length out)) 1)),
            (''raw_entity_count'', PInt (int (length raw))), (''resolved_entity_count'', PInt (int (length out)))]))))"

section \<open>Construction\<close>

definition degree_counts :: "dict list \<Rightarrow> (pyval \<times> nat) list res" where
  "degree_counts rs =
     count_values (concat (map (\<lambda>r. [doc_or r ''source_id'' (PStr []), doc_or r ''target_id'' (PStr [])]) rs)) []"

definition distribution_type :: "nat list \<Rightarrow> rat \<Rightarrow> string" where
  "distribution_type ds average =
     (if ds = [] then ''unknown''
      else if of_nat (length (filter (\<lambda>d. average * 2 < of_nat d) ds)) / of_nat (length ds) < (1/10 :: rat) then ''power_law''
      else if of_nat (Max (set ds)) - of_nat (Min (set ds)) < average then ''random'' else ''small_world'')"

fun text_of_key :: "pyval \<Rightarrow> string" where
  "text_of_key (PStr s) = s"
| "text_of_key v = type_name v"

text \<open>The sources of the relationships; a source is a text.\<close>

definition source_counts :: "dict list \<Rightarrow> (pyval \<times> nat) list res" where
  "source_counts rs = count_values (map (\<lambda>r. doc_or r ''source'' (PStr ''llm'')) rs) []"

definition count_of :: "string \<Rightarrow> (pyval \<times> nat) list \<Rightarrow> nat" where
  "count_of k d = (case map_of d (PStr k) of None \<Rightarrow> 0 | Some n \<Rightarrow> n)"

definition safeguard_logs :: "(string \<Rightarrow> bool) \<Rightarrow> string \<Rightarrow> dict list \<Rightarrow> nat" where
  "safeguard_logs density_safeguard t ls =
     length (filter (\<lambda>l. dget l ''trace_id'' = PStr t \<and> dget l ''operation'' = PStr ''relationship_filter''
       \<and> (case dget l ''reason'' of PStr s \<Rightarrow> density_safeguard s | _ \<Rightarrow> False)) ls)"

definition construction_metrics :: "nat \<Rightarrow> nat \<Rightarrow> dict list \<Rightarrow> nat \<Rightarrow> dict res" where
  "construction_metrics nodes raw rs safeguards =
     bindR (degree_counts rs) (\<lambda>degrees.
     bindR (source_counts rs) (\<lambda>sources.
     let ds = map snd degrees; average = mean_count degrees
     in Inr [(''graph_density'', rounded_value 4 (share (length rs) (nodes * (nodes - 1)))), (''average_degree'', rounded_value 2 average),
             (''max_degree'', PInt (if ds = [] then 0 else int (Max (set ds)))),
             (''degree_distribution_type'', PStr (distribution_type ds average)),
             (''relationship_type_balance'', PDict (map (\<lambda>(k, n). (text_of_key k, rounded_value 3 (share n (length rs)))) sources)),
             (''post_processing_contribution'', PDict
                [(''co_occurrence'', PInt (int (count_of ''co_occurrence'' sources))),
                 (''semantic_similarity'', PInt (int (count_of ''semantic_similarity'' sources))),
                 (''total_added'', PInt (int (length rs) - int raw))]),
             (''density_safeguard_triggers'', PInt (int safeguards)), (''node_count'', PInt (int nodes)),
             (''edge_count_raw'', PInt (int raw)), (''edge_count_final'', PInt (int (length rs)))]))"

section \<open>Detection\<close>

fun community_sizes_of :: "dict list \<Rightarrow> nat list res" where
  "community_sizes_of [] = Inr []"
| "community_sizes_of (c # cs) =
     (case py_len (doc_or c ''entity_ids'' (PList [])) of
        None \<Rightarrow> Inl (Exn ''TypeError'' ''object has no len()'')
      | Some n \<Rightarrow> bindR (community_sizes_of cs) (\<lambda>ns. Inr (n # ns)))"

text \<open>The first stored modularity, or one of 0; an estimate when it is 0.\<close>

definition stored_modularity :: "dict list \<Rightarrow> pyval" where
  "stored_modularity cs =
     (case concat (map (\<lambda>c. case map_of c ''modularity'' of None \<Rightarrow> [] | Some v \<Rightarrow> [v]) cs) of [] \<Rightarrow> PInt 0 | v # vs \<Rightarrow> v)"

definition modularity_of :: "pyval \<Rightarrow> rat \<Rightarrow> rat res" where
  "modularity_of v coherence =
     (case number_of v of
        Some r \<Rightarrow> Inr (if r = 0 then coherence * (8/10) else r)
      | None \<Rightarrow> Inl (Exn ''TypeError'' (''type '' @ type_name v @ '' does not define __round__ method'')))"

definition detection_metrics :: "dict list \<Rightarrow> nat \<Rightarrow> dict res" where
  "detection_metrics cs entities =
     bindR (community_sizes_of cs) (\<lambda>unsorted.
     bindR (mean_of ''coherence_score'' cs) (\<lambda>coherence.
     bindR (modularity_of (stored_modularity cs) coherence) (\<lambda>modularity.
     let ns = sort unsorted; n = length ns
     in Inr [(''modularity'', rounded_value 3 modularity), (''community_count'', PInt (int n)),
             (''community_size_avg'', rounded_value 2 (mean_value (map of_nat ns))), (''community_size_p50'', PInt (int (ns ! (n div 2)))),
             (''community_size_p95'', PInt (int (ns ! (n * 95 div 100)))), (''coherence_avg'', rounded_value 3 coherence),
             (''singleton_rate'', rounded_value 3 (share (length (filter (\<lambda>k. k = 1) ns)) n)),
             (''coverage'', rounded_value 3 (share (sum_list (filter (\<lambda>k. 1 < k) ns)) entities)),
             (''total_entities'', PInt (int entities))])))"

section \<open>The service\<close>

record metrics_source =
  ms_enabled :: bool
  ms_data :: boundary_data
  ms_logs :: "dict list"
  ms_communities :: "dict list"
  ms_safeguard_pattern :: "string \<Rightarrow> bool"

text \<open>\<open>except Exception: return {}\<close>.\<close>

definition or_nothing :: "dict res \<Rightarrow> dict res" where
  "or_nothing r = (case r of Inl e \<Rightarrow> if is_Exception e then Inr [] else Inl e | Inr d \<Rightarrow> Inr d)"

definition calculate_extraction_metrics :: "metrics_source \<Rightarrow> string \<Rightarrow> dict res" where
  "calculate_extraction_metrics S t =
     (let es = of_trace t (bo_entities_raw (ms_data S)); rs = of_trace t (bo_relations_raw (ms_data S))
      in if \<not> ms_enabled S \<or> es = [] \<and> rs = [] then Inr [] else or_nothing (extraction_metrics es rs))"

definition calculate_resolution_metrics :: "metrics_source \<Rightarrow> string \<Rightarrow> dict res" where
  "calculate_resolution_metrics S t =
     (let raw = of_trace t (bo_entities_raw (ms_data S))
      in if \<not> ms_enabled S \<or> raw = [] then Inr []
         else or_nothing (resolution_metrics raw (of_trace t (bo_entities_resolved (ms_data S))) (confident_merges t (ms_logs S))))"

definition calculate_construction_metrics :: "metrics_source \<Rightarrow> string \<Rightarrow> dict res" where
  "calculate_construction_metrics S t =
     (let nodes = length (of_trace t (bo_entities_resolved (ms_data S)))
      in if \<not> ms_enabled S \<or> nodes = 0 then Inr []
         else or_nothing (construction_metrics nodes (length (of_trace t (bo_relations_raw (ms_data S))))
                (of_trace t (bo_relations_final (ms_data S))) (safeguard_logs (ms_safeguard_pattern S) t (ms_logs S))))"

definition calculate_detection_metrics :: "metrics_source \<Rightarrow> string \<Rightarrow> dict res" where
  "calculate_detection_metrics S t =
     (let cs = of_trace t (ms_communities S)
      in if \<not> ms_enabled S \<or> cs = [] then Inr []
         else or_nothing (detection_metrics cs (length (of_trace t (bo_entities_resolved (ms_data S))))))"

definition calculate_all_metrics :: "metrics_source \<Rightarrow> pyval \<Rightarrow> string \<Rightarrow> dict res" where
  "calculate_all_metrics S now t =
     (if \<not> ms_enabled S then Inr []
      else bindR (calculate_extraction_metrics S t) (\<lambda>e.
           bindR (calculate_resolution_metrics S t) (\<lambda>r.
           bindR (calculate_construction_metrics S t) (\<lambda>c.
           bindR (calculate_detection_metrics S t) (\<lambda>d.
             Inr [(''trace_id'', PStr t), (''timestamp'', now), (''extraction'', PDict e), (''resolution'', PDict r),
                  (''construction'', PDict c), (''detection'', PDict d)])))))"

section \<open>Healthy ranges\<close>

definition stages :: "string list" where
  "stages = [''extraction'', ''resolution'', ''construction'', ''detection'']"

definition healthy_ranges :: "string \<Rightarrow> (string \<times> rat \<times> rat) list" where
  "healthy_ranges stage =
     (if stage = ''extraction'' then
        [(''entity_count_avg'', 8, 15), (''relationship_count_avg'', 5, 12), (''predicate_diversity'', 6/10, 9/10),
         (''type_coverage'', 7/10, 1), (''confidence_avg'', 75/100, 95/100), (''canonical_predicate_coverage'', 8/10, 1)]
      else if stage = ''resolution'' then
        [(''merge_rate'', 15/100, 35/100), (''confidence_preservation'', 95/100, 1), (''cross_video_linking_rate'', 10/100, 30/100),
         (''false_positive_estimate'', 0, 5/100), (''false_negative_estimate'', 0, 10/100)]
      else if stage = ''construction'' then [(''graph_density'', 15/100, 25/100), (''average_degree'', 3, 8)]
      else if stage = ''detection'' then
        [(''modularity'', 3/10, 7/10), (''coherence_avg'', 65/100, 95/100), (''singleton_rate'', 0, 10/100), (''coverage'', 85/100, 1)]
      else [])"

datatype range_warning = Below_Range string rat rat rat | Above_Range string rat rat rat

fun range_warnings :: "dict \<Rightarrow> (string \<times> rat \<times> rat) list \<Rightarrow> range_warning list res" where
  "range_warnings m [] = Inr []"
| "range_warnings m ((name, lo, hi) # rs) =
     bindR (if dget m name = PNone then Inr []
            else (case number_of (dget m name) of
                    None \<Rightarrow> Inl (Exn ''TypeError'' (quote # ''<'' @ [quote] @ '' not supported''))
                  | Some x \<Rightarrow> Inr (if x < lo then [Below_Range name x lo hi] else if hi < x then [Above_Range name x lo hi] else []))) (\<lambda>w.
     bindR (range_warnings m rs) (\<lambda>ws. Inr (w @ ws)))"

text \<open>\<open>metrics.get(stage, {}).get(...)\<close>: the metrics of a stage must be a dictionary.\<close>

definition stage_metrics :: "dict \<Rightarrow> string \<Rightarrow> dict res" where
  "stage_metrics m stage = (case doc_or m stage (PDict []) of PDict d \<Rightarrow> Inr d | v \<Rightarrow> bindR (get_attr v stage) (\<lambda>x. Inr []))"

fun check_stages :: "dict \<Rightarrow> string list \<Rightarrow> (string \<times> range_warning list) list res" where
  "check_stages m [] = Inr []"
| "check_stages m (st # sts) =
     bindR (stage_metrics m st) (\<lambda>d. bindR (range_warnings d (healthy_ranges st)) (\<lambda>ws.
     bindR (check_stages m sts) (\<lambda>r. Inr ((st, ws) # r))))"

definition check_healthy_ranges :: "dict \<Rightarrow> (string \<times> range_warning list) list res" where
  "check_healthy_ranges m = check_stages m stages"

section \<open>Storage\<close>

record metric_point =
  mp_trace :: string
  mp_timestamp :: pyval
  mp_stage :: string
  mp_name :: string
  mp_value :: rat
  mp_range :: "(rat \<times> rat) option"
  mp_in_range :: "bool option"

record metrics_store =
  mt_runs :: "(string \<times> pyval \<times> dict) list"
  mt_points :: "metric_point list"

text \<open>One point for every metric that is a number.\<close>

definition metric_points :: "string \<Rightarrow> pyval \<Rightarrow> string \<Rightarrow> dict \<Rightarrow> metric_point list" where
  "metric_points t now stage m =
     concat (map (\<lambda>(name, v). case number_of v of
         None \<Rightarrow> []
       | Some x \<Rightarrow>
           (let r = map_of (healthy_ranges stage) name
            in [\<lparr> mp_trace = t, mp_timestamp = now, mp_stage = stage, mp_name = name, mp_value = x, mp_range = r,
                 mp_in_range = (case r of None \<Rightarrow> None | Some (lo, hi) \<Rightarrow> Some (lo \<le> x \<and> x \<le> hi)) \<rparr>])) m)"

text \<open>\<open>if not stage_metrics: continue\<close>, then \<open>items()\<close>.\<close>

fun all_points :: "string \<Rightarrow> pyval \<Rightarrow> dict \<Rightarrow> string list \<Rightarrow> metric_point list res" where
  "all_points t now m [] = Inr []"
| "all_points t now m (st # sts) =
     bindR (let v = doc_or m st (PDict [])
            in if truthy v
               then (case v of PDict d \<Rightarrow> Inr (metric_points t now st d)
                     | _ \<Rightarrow> Inl (Exn ''AttributeError'' ([quote] @ type_name v @ [quote] @ '' object has no attribute '' @ [quote] @ ''items'' @ [quote])))
               else Inr []) (\<lambda>ps.
     bindR (all_points t now m sts) (\<lambda>qs. Inr (ps @ qs)))"

text \<open>The run is written first; a point that cannot be made or written leaves it there.\<close>

definition store_metrics :: "bool \<Rightarrow> bool \<Rightarrow> bool \<Rightarrow> pyval \<Rightarrow> string \<Rightarrow> dict \<Rightarrow> metrics_store \<Rightarrow> bool \<times> metrics_store" where
  "store_metrics enabled run_fails points_fail now t m s =
     (if \<not> enabled \<or> run_fails then (False, s)
      else (let stamp = doc_or m ''timestamp'' now; s1 = s\<lparr>mt_runs := AList.update t (stamp, m) (mt_runs s)\<rparr>
            in case all_points t stamp m stages of
                 Inl e \<Rightarrow> (False, s1)
               | Inr ps \<Rightarrow> if ps \<noteq> [] \<and> points_fail then (False, s1) else (True, s1\<lparr>mt_points := mt_points s @ ps\<rparr>)))"

definition get_metrics :: "bool \<Rightarrow> string \<Rightarrow> metrics_store \<Rightarrow> dict option" where
  "get_metrics enabled t s = (if enabled then map_option snd (map_of (mt_runs s) t) else None)"

text \<open>The latest points of a metric, the oldest of them first; \<open>latest_first\<close> is the sort of the cursor.\<close>

definition get_metrics_time_series ::
  "(metric_point list \<Rightarrow> metric_point list) \<Rightarrow> bool \<Rightarrow> string \<Rightarrow> string \<Rightarrow> nat \<Rightarrow> metrics_store \<Rightarrow> metric_point list" where
  "get_metrics_time_series latest_first enabled stage name n s =
     (if enabled
      then rev ((if n = 0 then id else take n) (latest_first (filter (\<lambda>p. mp_stage p = stage \<and> mp_name p = name) (mt_points s))))
      else [])"

end
