(* ===== verification/Quality_Facts.thy ===== *)
theory Quality_Facts
  imports Quality_Metrics
begin

text \<open>
  What the metrics say about a run whose data and log were written by the services of this
  repository: the names of the fields and of the operations differ, so that many metrics are constant.
  The stored points and the check of the healthy ranges agree.
\<close>

section \<open>What the services store\<close>

definition saved_data :: "boundary_data \<Rightarrow> bool" where
  "saved_data D =
     ((\<forall>d \<in> set (bo_entities_raw D). \<exists>X e. d = raw_entity X e) \<and> (\<forall>d \<in> set (bo_entities_resolved D). \<exists>X e. d = resolved_document X e)
      \<and> (\<forall>d \<in> set (bo_relations_raw D). \<exists>X e. d = raw_relation X e) \<and> (\<forall>d \<in> set (bo_relations_final D). \<exists>X e. d = final_relation X e))"

datatype save_step =
    Save_Raw "nat option" save_context "dict list"
  | Save_Resolved "nat option" save_context "dict list"
  | Save_Relations "nat option" save_context "dict list"
  | Save_Final "nat option" save_context "dict list"
  | Save_Graph bool save_context dict

fun save_step_of :: "save_step \<Rightarrow> boundary_data \<Rightarrow> boundary_data" where
  "save_step_of (Save_Raw f X ds) D = snd (save_entities_raw f X ds D)"
| "save_step_of (Save_Resolved f X ds) D = snd (save_entities_resolved f X ds D)"
| "save_step_of (Save_Relations f X ds) D = snd (save_relations_raw f X ds D)"
| "save_step_of (Save_Final f X ds) D = snd (save_relations_final f X ds D)"
| "save_step_of (Save_Graph b X d) D = snd (save_graph_pre_detection b X d D)"

definition after_saves :: "save_step list \<Rightarrow> boundary_data \<Rightarrow> boundary_data" where
  "after_saves ss D = fold save_step_of ss D"

lemmas save_defs = save_entities_raw_def save_entities_resolved_def save_relations_raw_def save_relations_final_def
  save_documents_def save_graph_pre_detection_def

lemma save_step_saved: "saved_data D \<Longrightarrow> saved_data (save_step_of x D)"
  by (cases x; auto simp: saved_data_def save_defs split: option.splits dest!: in_set_takeD; blast)

lemma after_saves_saved: "saved_data D \<Longrightarrow> saved_data (after_saves ss D)"
  by (induction ss arbitrary: D) (simp_all add: after_saves_def save_step_saved)

definition no_data :: boundary_data where
  "no_data = \<lparr> bo_enabled = True, bo_entities_raw = [], bo_entities_resolved = [], bo_relations_raw = [], bo_relations_final = [], bo_graphs = [] \<rparr>"

lemma no_data_saved: "saved_data no_data"
  by (simp add: saved_data_def no_data_def)

text \<open>The fields the metrics ask for and the documents do not have.\<close>

lemma missing_fields:
  "doc_or (raw_entity X e) ''type'' v = v"
  "doc_or (raw_relation X e) ''predicate'' v = v"
  "doc_or (resolved_document X e) ''name'' v = v"
  "doc_or (final_relation X e) ''source_id'' v = v"
  "doc_or (final_relation X e) ''target_id'' v = v"
  "doc_or (final_relation X e) ''source'' v = v"
  by (simp_all add: doc_or_def raw_entity_def raw_relation_def resolved_document_def final_relation_def base_fields_def)

lemma of_trace_subset: "d \<in> set (of_trace t ds) \<Longrightarrow> d \<in> set ds"
  by (simp add: of_trace_def)

lemma constant_field:
  "(\<And>d. d \<in> set ds \<Longrightarrow> doc_or d k v = v) \<Longrightarrow> map (\<lambda>d. doc_or d k v) ds = replicate (length ds) v"
  by (induction ds) auto

lemma different_missing:
  assumes "\<And>d. d \<in> set ds \<Longrightarrow> doc_or d k (PStr []) = PStr []"
  shows "different k ds = Inr 0"
proof -
  have "map (\<lambda>d. doc_or d k (PStr [])) ds = replicate (length ds) (PStr [])"
    using assms by (rule constant_field)
  then show ?thesis by (simp add: different_def)
qed

lemma canonical_missing: "canonical_count (replicate n (PStr [])) = Inr 0"
  by (induction n) auto

lemma extraction_blind:
  assumes "saved_data D" and "extraction_metrics (of_trace t (bo_entities_raw D)) (of_trace t (bo_relations_raw D)) = Inr m"
  shows "map_of m ''type_coverage'' = Some (PFloat 0) \<and> map_of m ''predicate_diversity'' = Some (PFloat 0)
    \<and> map_of m ''canonical_predicate_coverage'' = Some (PFloat 0)"
proof -
  let ?es = "of_trace t (bo_entities_raw D)" and ?rs = "of_trace t (bo_relations_raw D)"
  have e: "doc_or d ''type'' v = v" if "d \<in> set ?es" for d v
    using assms(1) of_trace_subset [OF that] missing_fields(1) by (auto simp: saved_data_def)
  have r: "doc_or d ''predicate'' v = v" if "d \<in> set ?rs" for d v
    using assms(1) of_trace_subset [OF that] missing_fields(2) by (auto simp: saved_data_def)
  have "different ''type'' ?es = Inr 0" "different ''predicate'' ?rs = Inr 0"
    by (intro different_missing e r; assumption)+
  moreover have "canonical_count (map (\<lambda>d. doc_or d ''predicate'' (PStr [])) ?rs) = Inr 0"
    by (simp only: constant_field [of ?rs "''predicate''" "PStr []", OF r] canonical_missing)
  ultimately show ?thesis
    using assms(2) unfolding extraction_metrics_def
    by (auto simp: bindR_eq_Inr rounded_value_def rounded_def share_def)
qed

lemma missed_with_blank:
  assumes "lower_field e ''name'' = Inr []" and "\<And>x. x \<in> set xs \<Longrightarrow> lower_field x ''name'' = Inr []"
  shows "missed_with e xs n = Inr n"
  using assms by (induction xs) auto

lemma missed_merges_blank:
  assumes "\<And>x. x \<in> set xs \<Longrightarrow> lower_field x ''name'' = Inr []" and "n < 10"
  shows "missed_merges xs n = Inr n"
  using assms by (induction xs) (auto simp: missed_with_blank)

text \<open>The operations that the logger writes; the metrics look for two others.\<close>

definition written_log :: "dict list \<Rightarrow> bool" where
  "written_log ls = (\<forall>l \<in> set ls. dget l ''operation'' \<in>
     PStr ` {''MERGE'', ''CREATE'', ''SKIP'', ''RELATIONSHIP'', ''FILTER'', ''AUGMENT'', ''COMMUNITY'', ''CLUSTER''})"

lemma resolution_blind:
  assumes "saved_data D" and "written_log ls"
    and "resolution_metrics raw (of_trace t (bo_entities_resolved D)) (confident_merges t ls) = Inr m"
  shows "map_of m ''false_positive_estimate'' = Some (PFloat 0) \<and> map_of m ''false_negative_estimate'' = Some (PFloat 0)"
proof -
  let ?out = "of_trace t (bo_entities_resolved D)"
  have "lower_field d ''name'' = Inr []" if "d \<in> set ?out" for d
    using assms(1) of_trace_subset [OF that] missing_fields(3) by (auto simp: saved_data_def lower_field_def str_lower_def)
  then have "missed_merges ?out 0 = Inr 0" by (intro missed_merges_blank) auto
  moreover have "confident_merges t ls = []"
    using assms(2) by (fastforce simp: confident_merges_def written_log_def filter_empty_conv)
  ultimately show ?thesis
    using assms(3) unfolding resolution_metrics_def
    by (auto simp: bindR_eq_Inr rounded_value_def rounded_def share_def)
qed

lemma count_more: "hashable v \<Longrightarrow> count_values (replicate n v) [(v, k)] = Inr [(v, k + n)]"
  by (induction n arbitrary: k) (auto simp: dd_add_def)

lemma count_same: "hashable v \<Longrightarrow> 0 < n \<Longrightarrow> count_values (replicate n v) [] = Inr [(v, n)]"
  using count_more [of v "n - 1" 1] by (cases n) (auto simp: dd_add_def)

lemma twice_each: "concat (map (\<lambda>x. [v, v]) xs) = replicate (2 * length xs) v"
  by (induction xs) auto

lemma construction_blind:
  assumes "saved_data D" and "of_trace t (bo_relations_final D) \<noteq> []"
    and "construction_metrics nodes raw (of_trace t (bo_relations_final D)) k = Inr m"
  shows "map_of m ''average_degree'' = Some (rounded_value 2 (of_nat (2 * length (of_trace t (bo_relations_final D)))))
    \<and> map_of m ''degree_distribution_type'' = Some (PStr ''power_law'')
    \<and> map_of m ''relationship_type_balance'' = Some (PDict [(''llm'', PFloat 1)])
    \<and> map_of m ''density_safeguard_triggers'' = Some (PInt (int k))"
proof -
  let ?rs = "of_trace t (bo_relations_final D)"
  have f: "doc_or d key v = v" if "d \<in> set ?rs" "key \<in> {''source_id'', ''target_id'', ''source''}" for d key v
    using assms(1) of_trace_subset [OF that(1)] that(2) missing_fields(4-6) by (auto simp: saved_data_def)
  have "map (\<lambda>r. [doc_or r ''source_id'' (PStr []), doc_or r ''target_id'' (PStr [])]) ?rs = map (\<lambda>r. [PStr [], PStr []]) ?rs"
    using f by (intro map_cong) auto
  then have "concat (map (\<lambda>r. [doc_or r ''source_id'' (PStr []), doc_or r ''target_id'' (PStr [])]) ?rs)
      = replicate (2 * length ?rs) (PStr [])"
    by (simp only: twice_each)
  then have d: "degree_counts ?rs = Inr [(PStr [], 2 * length ?rs)]"
    using assms(2) by (simp add: degree_counts_def count_same)
  have "map (\<lambda>r. doc_or r ''source'' (PStr ''llm'')) ?rs = replicate (length ?rs) (PStr ''llm'')"
    using f by (intro constant_field) auto
  then have s: "source_counts ?rs = Inr [(PStr ''llm'', length ?rs)]"
    using assms(2) by (simp add: source_counts_def count_same)
  show ?thesis
    using assms(2,3) unfolding construction_metrics_def d s
    by (auto simp: Let_def mean_count_def mean_value_def distribution_type_def share_def rounded_value_def rounded_def)
qed

text \<open>What the metrics of the extraction, the resolution and the construction are for such a run.\<close>

definition seen_nothing :: "boundary_data \<Rightarrow> string \<Rightarrow> dict \<Rightarrow> dict \<Rightarrow> dict \<Rightarrow> bool" where
  "seen_nothing D t e r c =
     ((e = [] \<or> map_of e ''type_coverage'' = Some (PFloat 0) \<and> map_of e ''predicate_diversity'' = Some (PFloat 0)
         \<and> map_of e ''canonical_predicate_coverage'' = Some (PFloat 0))
      \<and> (r = [] \<or> map_of r ''false_positive_estimate'' = Some (PFloat 0) \<and> map_of r ''false_negative_estimate'' = Some (PFloat 0))
      \<and> (c = [] \<or> of_trace t (bo_relations_final D) = []
         \<or> map_of c ''average_degree'' = Some (rounded_value 2 (of_nat (2 * length (of_trace t (bo_relations_final D)))))
           \<and> map_of c ''degree_distribution_type'' = Some (PStr ''power_law'')
           \<and> map_of c ''relationship_type_balance'' = Some (PDict [(''llm'', PFloat 1)])
           \<and> map_of c ''density_safeguard_triggers'' = Some (PInt 0)))"

lemma no_safeguard_found: "written_log ls \<Longrightarrow> safeguard_logs p t ls = 0"
  by (fastforce simp: safeguard_logs_def written_log_def filter_empty_conv)

lemma or_nothing_cases: "or_nothing x = Inr m \<Longrightarrow> m = [] \<or> x = Inr m"
  by (auto simp: or_nothing_def split: sum.splits if_splits)

lemma metrics_see_nothing:
  assumes "ms_data S = after_saves ss no_data" and "written_log (ms_logs S)"
    and "calculate_extraction_metrics S t = Inr e" and "calculate_resolution_metrics S t = Inr r"
    and "calculate_construction_metrics S t = Inr c"
  shows "seen_nothing (ms_data S) t e r c"
proof -
  let ?D = "ms_data S"
  have D: "saved_data ?D" using assms(1) no_data_saved after_saves_saved by simp
  have e: "e = [] \<or> extraction_metrics (of_trace t (bo_entities_raw ?D)) (of_trace t (bo_relations_raw ?D)) = Inr e"
    using assms(3) or_nothing_cases by (auto simp: calculate_extraction_metrics_def Let_def split: if_splits)
  have r: "r = [] \<or> resolution_metrics (of_trace t (bo_entities_raw ?D)) (of_trace t (bo_entities_resolved ?D))
      (confident_merges t (ms_logs S)) = Inr r"
    using assms(4) or_nothing_cases by (auto simp: calculate_resolution_metrics_def Let_def split: if_splits)
  have c: "c = [] \<or> construction_metrics (length (of_trace t (bo_entities_resolved ?D)))
      (length (of_trace t (bo_relations_raw ?D))) (of_trace t (bo_relations_final ?D)) 0 = Inr c"
    using assms(5) or_nothing_cases no_safeguard_found [OF assms(2)]
    by (auto simp: calculate_construction_metrics_def Let_def split: if_splits)
  show ?thesis
    unfolding seen_nothing_def
  proof (intro conjI)
    show "e = [] \<or> map_of e ''type_coverage'' = Some (PFloat 0) \<and> map_of e ''predicate_diversity'' = Some (PFloat 0)
        \<and> map_of e ''canonical_predicate_coverage'' = Some (PFloat 0)"
      using e extraction_blind [OF D] by blast
    show "r = [] \<or> map_of r ''false_positive_estimate'' = Some (PFloat 0) \<and> map_of r ''false_negative_estimate'' = Some (PFloat 0)"
      using r resolution_blind [OF D assms(2)] by blast
    show "c = [] \<or> of_trace t (bo_relations_final ?D) = []
         \<or> map_of c ''average_degree'' = Some (rounded_value 2 (of_nat (2 * length (of_trace t (bo_relations_final ?D)))))
           \<and> map_of c ''degree_distribution_type'' = Some (PStr ''power_law'')
           \<and> map_of c ''relationship_type_balance'' = Some (PDict [(''llm'', PFloat 1)])
           \<and> map_of c ''density_safeguard_triggers'' = Some (PInt 0)"
      using c construction_blind [OF D, of t _ _ 0 c] by (metis of_nat_0)
  qed
qed

text \<open>C27: 
  The metrics do not see the data: for a run whose documents and log entries were written by the
  services of this repository, whatever they contain, the type coverage, the two predicate metrics and
  both error estimates are 0, no safeguard is counted, all relationships count for one node without a
  name, and all of them as extracted by the model.
\<close>

theorem metrics_blind_to_data:
  assumes "ms_data S = after_saves ss no_data" and "written_log (ms_logs S)"
    and "calculate_extraction_metrics S t = Inr e" and "calculate_resolution_metrics S t = Inr r"
    and "calculate_construction_metrics S t = Inr c"
  shows "seen_nothing (ms_data S) t e r c"
  using assms by (rule metrics_see_nothing)

section \<open>Points and warnings\<close>

fun warned :: "range_warning \<Rightarrow> string" where
  "warned (Below_Range n x lo hi) = n"
| "warned (Above_Range n x lo hi) = n"

lemma warned_iff:
  "range_warnings m rs = Inr ws \<Longrightarrow> list_ex (\<lambda>w. warned w = n) ws \<longleftrightarrow>
    (\<exists>lo hi x. (n, lo, hi) \<in> set rs \<and> dget m n \<noteq> PNone \<and> number_of (dget m n) = Some x \<and> \<not> (lo \<le> x \<and> x \<le> hi))"
proof (induction rs arbitrary: ws)
  case (Cons r rs)
  obtain name lo hi where r: "r = (name, lo, hi)" by (metis prod_cases3)
  from Cons.prems obtain w ws' where w: "ws = w @ ws'" "range_warnings m rs = Inr ws'"
    "(if dget m name = PNone then Inr [] else (case number_of (dget m name) of
        None \<Rightarrow> Inl (Exn ''TypeError'' (quote # ''<'' @ [quote] @ '' not supported''))
      | Some x \<Rightarrow> Inr (if x < lo then [Below_Range name x lo hi] else if hi < x then [Above_Range name x lo hi] else []))) = Inr w"
    by (auto simp: r bindR_eq_Inr simp del: append.simps)
  have "list_ex (\<lambda>w. warned w = n) w \<longleftrightarrow>
      n = name \<and> dget m n \<noteq> PNone \<and> (\<exists>x. number_of (dget m n) = Some x \<and> \<not> (lo \<le> x \<and> x \<le> hi))"
    using w(3) by (auto split: if_splits option.splits)
  with Cons.IH [OF w(2)] w(1) show ?case by (auto simp: r)
qed simp

lemma healthy_ranges_distinct: "distinct (map fst (healthy_ranges st))"
  by (simp add: healthy_ranges_def)

text \<open>
  A stored point of a metric is out of its range exactly when the check of the healthy ranges warns
  about the metric.
\<close>

theorem points_agree_with_warnings:
  assumes "range_warnings m (healthy_ranges st) = Inr ws" and "distinct (map fst m)"
    and "p \<in> set (metric_points t now st m)"
  shows "(mp_in_range p = Some False) = list_ex (\<lambda>w. warned w = mp_name p) ws"
proof -
  from assms(3) obtain v where v: "(mp_name p, v) \<in> set m" "number_of v = Some (mp_value p)"
    "mp_in_range p = (case map_of (healthy_ranges st) (mp_name p) of None \<Rightarrow> None
      | Some (lo, hi) \<Rightarrow> Some (lo \<le> mp_value p \<and> mp_value p \<le> hi))"
    by (auto simp: metric_points_def Let_def split: option.splits prod.splits)
  from v(1) assms(2) have g: "dget m (mp_name p) = v" by (simp add: dget_def)
  have "(mp_name p, r) \<in> set (healthy_ranges st) \<longleftrightarrow> map_of (healthy_ranges st) (mp_name p) = Some r" for r
    using healthy_ranges_distinct by (simp add: map_of_eq_Some_iff)
  with v g warned_iff [OF assms(1), of "mp_name p"] show ?thesis
    by (auto split: option.splits prod.splits)
qed

section \<open>A concrete run\<close>

definition demo_context :: save_context where
  "demo_context = \<lparr> sx_chunk = ''c1'', sx_video = ''v1'', sx_trace = ''T'', sx_method = ''llm'', sx_now = (PInt 1, PStr ''t'') \<rparr>"

definition demo_saves :: "save_step list" where
  "demo_saves =
     [Save_Raw None demo_context [[(''name'', PStr ''Ada''), (''type'', PStr ''PERSON''), (''confidence'', PFloat (9/10))]],
      Save_Relations None demo_context [[(''relation'', PStr ''works_at'')]],
      Save_Resolved None demo_context [[(''entity_id'', PStr ''e1''), (''canonical_name'', PStr ''Ada'')], [(''entity_id'', PStr ''e2''), (''canonical_name'', PStr ''Ada L'')]],
      Save_Final None demo_context [[(''source_entity_id'', PStr ''e1''), (''target_entity_id'', PStr ''e2'')]]]"

definition demo_metrics :: metrics_source where
  "demo_metrics =
     \<lparr> ms_enabled = True, ms_data = after_saves demo_saves no_data,
       ms_logs = [[(''trace_id'', PStr ''T''), (''operation'', PStr ''MERGE''), (''confidence'', PFloat (95/100))]],
       ms_communities = [], ms_safeguard_pattern = (\<lambda>s. True) \<rparr>"

lemma metrics_blind_to_data_witness:
  "\<exists>e r c. calculate_extraction_metrics demo_metrics ''T'' = Inr e \<and> calculate_resolution_metrics demo_metrics ''T'' = Inr r
    \<and> calculate_construction_metrics demo_metrics ''T'' = Inr c \<and> e \<noteq> [] \<and> r \<noteq> [] \<and> c \<noteq> []
    \<and> seen_nothing (ms_data demo_metrics) ''T'' e r c"
proof -
  have "case calculate_extraction_metrics demo_metrics ''T'' of Inr e \<Rightarrow> e \<noteq> [] | Inl x \<Rightarrow> False"
    "case calculate_resolution_metrics demo_metrics ''T'' of Inr r \<Rightarrow> r \<noteq> [] | Inl x \<Rightarrow> False"
    "case calculate_construction_metrics demo_metrics ''T'' of Inr c \<Rightarrow> c \<noteq> [] | Inl x \<Rightarrow> False"
    by code_simp+
  then obtain e r c where m: "calculate_extraction_metrics demo_metrics ''T'' = Inr e" "calculate_resolution_metrics demo_metrics ''T'' = Inr r"
    "calculate_construction_metrics demo_metrics ''T'' = Inr c" "e \<noteq> []" "r \<noteq> []" "c \<noteq> []"
    by (auto split: sum.splits)
  have d: "ms_data demo_metrics = after_saves demo_saves no_data" by (simp add: demo_metrics_def)
  have l: "written_log (ms_logs demo_metrics)" by (simp add: demo_metrics_def written_log_def dget_def)
  from metrics_blind_to_data [OF d l m(1-3)] m show ?thesis by blast
qed

lemma points_agree_with_warnings_witness:
  "\<exists>p \<in> set (metric_points ''T'' PNone ''detection'' [(''coverage'', PFloat (1/2))]).
    mp_in_range p = Some False \<and> (mp_in_range p = Some False) = list_ex (\<lambda>w. warned w = mp_name p) [Below_Range ''coverage'' (1/2) (85/100) 1]"
proof -
  let ?m = "[(''coverage'', PFloat (1/2))]"
  have w: "range_warnings ?m (healthy_ranges ''detection'') = Inr [Below_Range ''coverage'' (1/2) (85/100) 1]" by code_simp
  have d: "distinct (map fst ?m)" by simp
  obtain p where p: "p \<in> set (metric_points ''T'' PNone ''detection'' ?m)" "mp_in_range p = Some False"
    by (auto simp: metric_points_def healthy_ranges_def)
  from points_agree_with_warnings [OF w d p(1)] p show ?thesis by blast
qed

text \<open>Communities of several levels hold an entity more than once: the coverage is no share.\<close>

lemma coverage_above_one:
  "(case detection_metrics [[(''entity_ids'', PList [PStr ''a'', PStr ''b''])], [(''entity_ids'', PList [PStr ''a'', PStr ''b''])]] 2 of
      Inr m \<Rightarrow> map_of m ''coverage'' = Some (PFloat 2) | Inl e \<Rightarrow> False)"
  by code_simp

text \<open>The communities are stored without the trace of the run: their metrics are never computed.\<close>

lemma detection_never_measured:
  "\<forall>c \<in> set (ms_communities S). map_of c ''trace_id'' = None \<Longrightarrow> calculate_detection_metrics S t = Inr []"
  by (auto simp: calculate_detection_metrics_def of_trace_def filter_empty_conv dget_def)

text \<open>A relationship whose predicate is null loses all metrics of the extraction.\<close>

lemma null_predicate_loses_metrics:
  "or_nothing (extraction_metrics [] [[(''predicate'', PNone)]]) = Inr []"
  by code_simp

end
