(* ===== verification/Spec2Isabelle.thy ===== *)
theory Spec2Isabelle
  imports Consumer_Properties Reconnect Retry_Ladder Worker_Facts Lru_Cache Errors Retry_Policy Rate_Limiter Metrics_Facts Execution_Facts Path_Facts Stage_Facts Reaper Entity_Mentions Relationship_Facts Graph_Final Stage_Run_Facts Knowledge_Facts Community_Stage_Properties Extraction_Facts Environment_Config Redundancy_Facts Trust Base_Agent Chunk_Facts Batch_Operations Source_View_Facts Transformation_Log Quality_Facts
begin

text \<open>
  This library models the Python services of the repository: the worker that consumes documents
  from RabbitMQ (\<open>graph-worker/graphrag-service/src/worker\<close>), the pipeline that turns text into
  a knowledge graph (\<open>src/domain/graphrag\<close>, \<open>src/core\<close>), the libraries they rest on
  (\<open>src/lib\<close>), the interface that runs pipelines (\<open>src/app/api/stages\<close>), and three programs
  beside them (the reaper of cloud resources, the generator of the broker topology, path
  finding in the stored graph). Paths below are relative to
  \<open>graph-worker/graphrag-service/src\<close>.

  \<^bold>\<open>Conventions.\<close> A class is a record of its fields, an operation a function; code that changes
  state is an action \<open>state \<Rightarrow> result \<times> state\<close> of theory \<open>Prelude\<close>, where a result is an exception
  (class and message) or a value. What is not in the repository is a parameter: RabbitMQ and
  aio_pika, MongoDB, Redis, boto3, the language model, embeddings, networkx, graspologic,
  tiktoken, hash functions, the clock, the environment, the order in which threads finish.
  Collections of documents are lists, dictionaries are association lists in the order of
  insertion. Text is ASCII; floats are exact numbers, and where a number of a request is turned
  into an integer, those beyond the range of a double are infinite; log records are left out
  except where their evaluation can raise.

  \<^bold>\<open>The worker.\<close> \<open>Retry_Tiers\<close> (\<open>worker/retry.py\<close>), \<open>Idempotency\<close> (\<open>worker/idempotency.py\<close>),
  \<open>Topology\<close> (\<open>scripts/rabbitmq/generate-definitions.py\<close>), \<open>Consumer\<close> and \<open>Reconnect\<close>
  (\<open>worker/consumer.py\<close>), \<open>Worker\<close> (\<open>worker/base_worker.py\<close>, \<open>worker/processor.py\<close>,
  \<open>config/worker_config.py\<close>, \<open>monitoring\<close>). A delivery is handled step by step: parsing, the
  guard, the handler, the publications and the acknowledgement, each call to the broker able to
  fail. \<open>Consumer_Facts\<close>, \<open>Consumer_Guard\<close> and \<open>Consumer_Properties\<close> show that a delivery is
  acknowledged only after exactly the publications its outcome owes, which are none for a
  duplicate and for an empty object, and how the guard loses a requeued delivery; \<open>Retry_Ladder\<close> and \<open>Topology\<close> compose the
  consumer with the generated topology: a failing message climbs the tiers and ends in the
  dead-letter queue. The reconnect loop runs on a list of broker behaviours, one for each
  attempt, so that every run of a finite script ends.

  \<^bold>\<open>Libraries.\<close> \<open>Lru_Cache\<close>, \<open>Errors\<close>, \<open>Retry_Policy\<close>, \<open>Rate_Limiter\<close>, \<open>Metrics\<close> (with
  \<open>Metrics_Facts\<close>), \<open>Ontology\<close> and \<open>Tpm_Processor\<close> model \<open>lib/caching\<close>, \<open>lib/error_handling\<close>,
  \<open>lib/retry\<close>, \<open>lib/rate_limiting\<close>, \<open>lib/metrics\<close>, \<open>lib/ontology\<close> and
  \<open>lib/concurrency/tpm_processor.py\<close>: bounds of the cache and the delays, memoization that
  agrees with the function, results in the order of the items for every order of completion.
  \<open>Batch_Operations\<close> (\<open>lib/database/operations.py\<close>) counts every document once, whatever batches
  fail; \<open>Validation_Rules\<close> (\<open>lib/validation/rules.py\<close>) holds the rules on values. \<open>Base_Agent\<close>
  (\<open>core/base/agent.py\<close>) is the base of all agents: prompts, the call of the
  model with its metrics and retries, and why failures of one backend are never retried.

  \<^bold>\<open>Configuration.\<close> \<open>Stage_Config\<close> and \<open>Environment_Config\<close> (\<open>core/models/config.py\<close>,
  \<open>core/config/graphrag.py\<close>) read the settings of the stages, the
  pipeline and the environments from arguments and variables, and show which of them win and which have
  no effect.

  \<^bold>\<open>Ingestion.\<close> \<open>Chunk_Stage\<close>, \<open>Redundancy\<close> and \<open>Trust\<close> (\<open>domain/ingestion/stages\<close>) with their theories
  of facts: the chunks of a video replace the stored ones and cover its length, a duplicate has a smaller
  identifier before it and leads to a primary chunk, and the trust handed to an entity is a fifth of
  that of its chunk.

  \<^bold>\<open>Entities.\<close> \<open>Text\<close> holds the operations on text, \<open>Entity_Resolution\<close> and \<open>Entity_Scores\<close> the
  agent (\<open>domain/graphrag/agents/entity_resolution.py\<close>), \<open>Entity_Store\<close> the stage
  (\<open>domain/graphrag/stages/entity_resolution.py\<close>) over an interface to MongoDB whose laws are
  discharged on a list of documents; \<open>Entity_Facts\<close>, \<open>Entity_Store_Facts\<close> and \<open>Entity_Mentions\<close>
  show that what is stored is well formed, matched as specified and referenced by its mentions.

  \<^bold>\<open>Extraction.\<close> \<open>Knowledge_Extraction\<close> (\<open>domain/graphrag/agents/extraction.py\<close>) with
  \<open>Knowledge_Facts\<close>: the extracted knowledge keeps only canonical predicates, allowed types and
  known entities. \<open>Extraction_Stage\<close> and \<open>Extraction_Facts\<close> (\<open>domain/graphrag/stages/extraction.py\<close>)
  show that the sequential and the concurrent mode store the same.

  \<^bold>\<open>Graph.\<close> \<open>Relationship_Resolution\<close> (\<open>agents/relationship_resolution.py\<close>),
  \<open>Graph_Construction\<close> and \<open>Graph_Final\<close> (\<open>stages/graph_construction.py\<close>,
  \<open>agents/link_prediction.py\<close>) with \<open>Relationship_Facts\<close>, \<open>Graph_Facts\<close>:
  endpoints exist, the reverse pass is idempotent, duplicates keep the best prediction, and the
  final pass always ends in an exception and is reported as failed.

  \<^bold>\<open>Communities.\<close> \<open>Community_Detection\<close> and \<open>Community_Sizes\<close>
  (\<open>agents/community_detection.py\<close>), \<open>Community_Summaries\<close>
  (\<open>agents/community_summarization.py\<close>), \<open>Run_Metadata\<close> (\<open>services/run_metadata.py\<close>) and
  \<open>Community_Stage\<close> (\<open>stages/community_detection.py\<close>). \<open>Community_Facts\<close> and
  \<open>Community_Properties\<close> show that splitting and merging keep a partition, \<open>Summary_Facts\<close> that
  the selection keeps the highest scores, that a truncated community stays within its caps and
  that the concurrent mode is the sequential one, \<open>Community_Stage_Facts\<close> and
  \<open>Community_Stage_Properties\<close> what a detection stores and marks, and that runs are never
  completed.
  \<^bold>\<open>Traces of a run.\<close> \<open>Transformation_Log\<close>, \<open>Intermediate_Data\<close> and \<open>Quality_Metrics\<close>
  (\<open>domain/graphrag/services\<close>). \<open>Transformation_Log\<close> shows that the log written in batches refines
  one that appends; \<open>Quality_Facts\<close> composes the three services: the metrics read fields and operations
  that the other two never write, and the stored points agree with the warnings.

  \<^bold>\<open>Running pipelines.\<close> \<open>Stage_Run\<close> (\<open>core/base/stage.py\<close>, \<open>lib/concurrency/executor.py\<close>),
  \<open>Pipeline_Run\<close> (\<open>domain/shared/pipeline_runner.py\<close>), \<open>Stage_Selection\<close>
  (\<open>domain/graphrag/pipeline.py\<close>), \<open>Execution\<close> (\<open>app/api/stages/execution.py\<close>) with their
  theories of facts. The execution is a step relation of the runner and the cancelling request,
  interleaved at the lock and at the append the runner makes without it; its invariant and
  termination are by rule induction.

  \<^bold>\<open>Choosing videos.\<close> \<open>Source_Filters\<close>, \<open>Saved_Filters\<close> and \<open>Source_Views\<close>
  (\<open>app/api/stages/source_selection.py\<close>): the definition of a filter, its query, the saved filters and
  the views of the raw videos. \<open>Source_Filters\<close> shows that the query of a valid definition selects the
  videos that meet its criteria or that a bound is infinite, \<open>Saved_Filter_Facts\<close> that requests keep the
  saved filters sound and that those with numbers of eight bytes resolve, \<open>Source_View_Facts\<close> that channels and pages account for every video.

  \<^bold>\<open>Beside them.\<close> \<open>Path_Finding\<close> and \<open>Path_Facts\<close> (\<open>app/api/graph/handlers/path_finding.py\<close>):
  the breadth-first search agrees with the set of simple paths of least length; \<open>Reaper\<close>
  (\<open>deploy/aws/base/reaper/reaper.py\<close>) deletes exactly the expired resources.

  \<^bold>\<open>Fuel.\<close> No definition runs on fuel that can be exhausted silently: the splitting of text takes
  the length of the text, the recursion over batches the remaining items, the breadth-first
  search the bound on its depth; retries and reconnects recurse on the remaining attempts or the
  script of the environment.

  \<^bold>\<open>Not modelled.\<close> The Go and TypeScript services are in other languages. The HTTP servers and
  routers, the command lines, the chat, retrieval and generation services, the handlers that turn
  stored documents into responses, the remaining ingestion stages, the setup of logging and tracing,
  the loading of files of configuration, and the scripts that only call other programs pass values
  between libraries, the database and the language model: what they do is the behaviour of code that is
  not in the repository. The creation of indexes, the argument parsers and the timing of the modelled
  stages are left out; binary64 rounding and Unicode are not modelled. Two requests to the saved
  filters at the same time are not modelled either: the check of a name and its insertion are one step
  only because the requests come one after the other.
\<close>

end
